(* ===== verification/Vera_Prelude.thy ===== *)
theory Vera_Prelude
  imports Main "HOL-Library.Char_ord" "HOL-Library.List_Lexorder" "HOL-Library.Sublist"
begin

text \<open>
  What the components share.

  \<^item> Errors are values: \<open>error\<close> lists the sentinel errors of the modules, the errors an external
    keeper may return and Go panics. \<open>ErrReg\<close> is a sentinel by its codespace and code
    (\<open>errors.Register\<close>). Wrapping an error (\<open>errorsmod.Wrap\<close>) keeps its sentinel, so the message
    is not modelled.
  \<^item> Keeper methods are state transformers \<open>('s, 'a) M\<close>. A failing method returns the error and
    the state it had reached: Go does not roll back, only a transaction or a cached context does
    (\<open>cacheCtx\<close>). \<open>tryM\<close> is \<open>if err := f(); err != nil\<close>: it hands the error to the caller, but
    a panic passes through it.
  \<^item> \<open>valid P m Q E\<close> is the triple of such a method (\<open>Q\<close> for success, \<open>E\<close> for an error return;
    a panic promises nothing, because its state is never committed), \<open>keeps P m\<close> the invariant
    form. The rules in \<open>keeps_rules\<close> follow the structure of a method.
  \<^item> A prefix store is an association list in ascending key order, the order in which the iterators
    of the store walk it.
  \<^item> \<open>key_codec\<close> is the interface of the key builders and parsers of the modules.
  \<^item> Go integers: \<open>i64\<close>/\<open>u64\<close> wrap, \<open>quo\<close> truncates; \<open>itoa\<close> and \<open>parseInt\<close> are
    \<open>strconv.AppendInt\<close> and \<open>strconv.ParseInt\<close> at base 10.
\<close>

named_theorems keeps_rules "structural rules for keeps"
named_theorems m_defs "unfolding rules of the method combinators"

section \<open>Errors and panics\<close>

datatype panic = PanicMsg string | PanicOutOfGas | PanicGasOverflow

datatype error =
    ErrUnauthorized | ErrNotFound | ErrInvalidRequest | ErrInvalidAddress | ErrInvalidDenom
  | ErrInvalidAmount | ErrInvalidDID | ErrInvalidSubscriptionPeriod
  | SdkErrInvalidRequest | SdkErrUnauthorized | SdkErrNotFound | SdkErrInvalidAddress
  | SdkErrInvalidCoins | SdkErrPackAny | SdkErrInsufficientShares | SdkErrNoUnbondingDelegation
  | ErrFeeLimitExceeded | ErrFeeLimitExpired | ErrInvalidDuration | ErrNoAllowance
  | ErrNoMessages | ErrMessageNotAllowed | FgErrInvalidDID
  | ErrIntOverflow
  | ErrReg string nat
  | ErrStd string
  | ErrExt string
  | Panic panic

fun is_panic :: "error \<Rightarrow> bool" where
  "is_panic (Panic p) = True"
| "is_panic _ = False"

section \<open>Methods\<close>

type_synonym ('s, 'a) M = "'s \<Rightarrow> (error + 'a) \<times> 's"

definition ret :: "'a \<Rightarrow> ('s, 'a) M" where
  "ret x s = (Inr x, s)"

definition fail :: "error \<Rightarrow> ('s, 'a) M" where
  "fail e s = (Inl e, s)"

definition bindM :: "('s, 'a) M \<Rightarrow> ('a \<Rightarrow> ('s, 'b) M) \<Rightarrow> ('s, 'b) M" where
  "bindM m f s = (case m s of (Inl e, t) \<Rightarrow> (Inl e, t) | (Inr x, t) \<Rightarrow> f x t)"

definition thenM :: "('s, 'a) M \<Rightarrow> ('s, 'b) M \<Rightarrow> ('s, 'b) M" where
  "thenM m k = bindM m (\<lambda>_. k)"

definition getM :: "('s \<Rightarrow> 'a) \<Rightarrow> ('s, 'a) M" where
  "getM f s = (Inr (f s), s)"

definition modifyM :: "('s \<Rightarrow> 's) \<Rightarrow> ('s, unit) M" where
  "modifyM f s = (Inr (), f s)"

definition guardM :: "bool \<Rightarrow> error \<Rightarrow> ('s, unit) M" where
  "guardM b e = (if b then ret () else fail e)"

definition liftE :: "error + 'a \<Rightarrow> ('s, 'a) M" where
  "liftE r s = (r, s)"

definition tryM :: "('s, 'a) M \<Rightarrow> ('s, error + 'a) M" where
  "tryM m s =
     (case m s of
        (Inl e, t) \<Rightarrow> if is_panic e then (Inl e, t) else (Inr (Inl e), t)
      | (Inr x, t) \<Rightarrow> (Inr (Inr x), t))"

definition cacheCtx :: "('s, 'a) M \<Rightarrow> ('s, 'a) M" where
  "cacheCtx m s = (case m s of (Inl e, t) \<Rightarrow> (Inl e, s) | (Inr x, t) \<Rightarrow> (Inr x, t))"

definition panicM :: "string \<Rightarrow> ('s, 'a) M" where
  "panicM msg = fail (Panic (PanicMsg msg))"

fun foldM :: "('x \<Rightarrow> 'b \<Rightarrow> ('s, 'b) M) \<Rightarrow> 'x list \<Rightarrow> 'b \<Rightarrow> ('s, 'b) M" where
  "foldM f [] b = ret b"
| "foldM f (x # xs) b = bindM (f x b) (foldM f xs)"

definition forM :: "'x list \<Rightarrow> ('x \<Rightarrow> ('s, unit) M) \<Rightarrow> ('s, unit) M" where
  "forM xs f = foldM (\<lambda>x _. f x) xs ()"

text \<open>Sequencing of pure fallible code.\<close>

definition bindE :: "error + 'a \<Rightarrow> ('a \<Rightarrow> error + 'b) \<Rightarrow> error + 'b" where
  "bindE r f = (case r of Inl e \<Rightarrow> Inl e | Inr x \<Rightarrow> f x)"

lemma bindE_simps [simp]: "bindE (Inr x) f = f x" "bindE (Inl e) f = Inl e"
  by (simp_all add: bindE_def)

lemma bindE_Inr_iff: "bindE r f = Inr y \<longleftrightarrow> (\<exists>x. r = Inr x \<and> f x = Inr y)"
  by (cases r) auto

text \<open>A read that may fail.\<close>

definition readM :: "('s \<Rightarrow> error + 'a) \<Rightarrow> ('s, 'a) M" where
  "readM f s = (f s, s)"

lemma readM_run [simp]: "readM f s = (f s, s)"
  by (simp add: readM_def)

lemmas [m_defs] = ret_def fail_def bindM_def thenM_def getM_def modifyM_def guardM_def liftE_def
  panicM_def

lemma run_simps [simp]:
  "ret x s = (Inr x, s)"
  "fail e s = (Inl e, s)"
  "getM f s = (Inr (f s), s)"
  "modifyM g s = (Inr (), g s)"
  "liftE r s = (r, s)"
  "panicM msg s = (Inl (Panic (PanicMsg msg)), s)"
  "guardM b e s = (if b then Inr () else Inl e, s)"
  by (simp_all add: m_defs)

lemma bindM_Pair [simp]:
  "bindM (Pair (Inr x)) f = f x"
  "bindM (Pair (Inl e)) f = Pair (Inl e)"
  by (simp_all add: bindM_def fun_eq_iff)

lemma bindM_ret [simp]: "bindM (ret x) f = f x"
  by (simp add: bindM_def fun_eq_iff)

lemma bindM_getM [simp]: "bindM (getM g) f s = f (g s) s"
  by (simp add: bindM_def)

lemma bindM_modifyM [simp]: "bindM (modifyM g) f s = f () (g s)"
  by (simp add: bindM_def)

lemma bindM_fail [simp]: "bindM (fail e) f = fail e"
  by (simp add: bindM_def fun_eq_iff)

lemma thenM_modifyM [simp]: "thenM (modifyM g) k s = k (g s)"
  by (simp add: thenM_def)

lemma thenM_ret [simp]: "thenM (ret x) k = k"
  by (simp add: thenM_def)

lemma thenM_fail [simp]: "thenM (fail e) k s = (Inl e, s)"
  by (simp add: thenM_def)

lemma thenM_guardM [simp]: "thenM (guardM b e) k s = (if b then k s else (Inl e, s))"
  by (simp add: thenM_def guardM_def)

lemma bindM_InrE:
  assumes "bindM m f s = (Inr y, u)"
  obtains x t where "m s = (Inr x, t)" and "f x t = (Inr y, u)"
  using assms by (auto simp: bindM_def split: prod.splits sum.splits)

lemma bindM_Inr_iff:
  "bindM m f s = (Inr y, u) \<longleftrightarrow> (\<exists>x t. m s = (Inr x, t) \<and> f x t = (Inr y, u))"
  by (auto simp: bindM_def split: prod.splits sum.splits)

lemma thenM_Inr_iff:
  "thenM m k s = (Inr y, u) \<longleftrightarrow> (\<exists>x t. m s = (Inr x, t) \<and> k t = (Inr y, u))"
  by (simp add: thenM_def bindM_Inr_iff)

lemma tryM_Inr_iff:
  "tryM m s = (Inr r, t) \<longleftrightarrow> (\<exists>x. r = Inr x \<and> m s = (Inr x, t)) \<or> (\<exists>e. r = Inl e \<and> \<not> is_panic e \<and> m s = (Inl e, t))"
  by (auto simp: tryM_def split: prod.splits sum.splits)

lemma bindM_step: "m s = (Inr x, t) \<Longrightarrow> bindM m f s = f x t"
  by (simp add: bindM_def)

lemma bindM_step_err: "m s = (Inl e, t) \<Longrightarrow> bindM m f s = (Inl e, t)"
  by (simp add: bindM_def)

lemma thenM_step: "m s = (Inr x, t) \<Longrightarrow> thenM m k s = k t"
  by (simp add: thenM_def bindM_def)

lemma thenM_step_err: "m s = (Inl e, t) \<Longrightarrow> thenM m k s = (Inl e, t)"
  by (simp add: thenM_def bindM_def)

lemmas m_step = bindM_step bindM_step_err thenM_step thenM_step_err

lemma tryM_ret: "tryM (liftE (Inr x)) = ret (Inr x)"
  by (simp add: tryM_def fun_eq_iff)

lemma cacheCtx_Inl: "cacheCtx m s = (Inl e, t) \<Longrightarrow> t = s"
  by (auto simp: cacheCtx_def split: prod.splits sum.splits)

lemma forM_Nil: "forM [] f = ret ()"
  and forM_Cons: "forM (x # xs) f = thenM (f x) (forM xs f)"
  by (simp_all add: forM_def thenM_def)

lemma foldM_ret: "foldM (\<lambda>x b. ret (g x b)) xs b = ret (fold g xs b)"
  by (induction xs arbitrary: b) auto

lemma foldM_append: "foldM f (xs @ ys) b = bindM (foldM f xs b) (foldM f ys)"
proof (induction xs arbitrary: b)
  case Nil
  then show ?case by simp
next
  case (Cons x xs)
  then show ?case by (auto simp: bindM_def fun_eq_iff split: prod.splits sum.splits)
qed

section \<open>Triples\<close>

definition valid :: "('s \<Rightarrow> bool) \<Rightarrow> ('s, 'a) M \<Rightarrow> ('a \<Rightarrow> 's \<Rightarrow> bool) \<Rightarrow> ('s \<Rightarrow> bool) \<Rightarrow> bool" where
  "valid P m Q E \<longleftrightarrow>
     (\<forall>s. P s \<longrightarrow> (case m s of (Inr x, t) \<Rightarrow> Q x t | (Inl e, t) \<Rightarrow> is_panic e \<or> E t))"

definition keeps :: "('s \<Rightarrow> bool) \<Rightarrow> ('s, 'a) M \<Rightarrow> bool" where
  "keeps P m \<longleftrightarrow> valid P m (\<lambda>_. P) P"

lemma validI:
  assumes "\<And>s x t. P s \<Longrightarrow> m s = (Inr x, t) \<Longrightarrow> Q x t"
    and "\<And>s e t. P s \<Longrightarrow> m s = (Inl e, t) \<Longrightarrow> \<not> is_panic e \<Longrightarrow> E t"
  shows "valid P m Q E"
  using assms by (fastforce simp: valid_def split: prod.splits sum.splits)

lemma validD_Inr: "valid P m Q E \<Longrightarrow> P s \<Longrightarrow> m s = (Inr x, t) \<Longrightarrow> Q x t"
  by (fastforce simp: valid_def split: prod.splits sum.splits)

lemma validD_Inl: "valid P m Q E \<Longrightarrow> P s \<Longrightarrow> m s = (Inl e, t) \<Longrightarrow> \<not> is_panic e \<Longrightarrow> E t"
  by (fastforce simp: valid_def split: prod.splits sum.splits)

lemma keepsI:
  assumes "\<And>s r t. P s \<Longrightarrow> m s = (r, t) \<Longrightarrow> (\<forall>e. r = Inl e \<longrightarrow> \<not> is_panic e) \<Longrightarrow> P t"
  shows "keeps P m"
  unfolding keeps_def by (rule validI) (use assms in \<open>fastforce+\<close>)

lemma keepsD: "keeps P m \<Longrightarrow> P s \<Longrightarrow> m s = (r, t) \<Longrightarrow> (\<forall>e. r = Inl e \<longrightarrow> \<not> is_panic e) \<Longrightarrow> P t"
  by (cases r) (auto simp: keeps_def dest: validD_Inr validD_Inl)

lemma keepsD_Inr: "keeps P m \<Longrightarrow> P s \<Longrightarrow> m s = (Inr x, t) \<Longrightarrow> P t"
  by (auto simp: keeps_def dest: validD_Inr)

lemma valid_bind:
  assumes "valid P m R E" and "\<And>x. valid (R x) (f x) Q E"
  shows "valid P (bindM m f) Q E"
proof (rule validI)
  fix s x t assume "P s" "bindM m f s = (Inr x, t)"
  then show "Q x t" using assms by (auto elim!: bindM_InrE dest: validD_Inr)
next
  fix s e t assume s: "P s" and run: "bindM m f s = (Inl e, t)" and np: "\<not> is_panic e"
  show "E t"
  proof (cases "m s")
    case (Pair r u)
    with s run np assms show ?thesis
      by (cases r) (auto simp: bindM_def dest: validD_Inr validD_Inl)
  qed
qed

lemma valid_getM: "valid P (getM f) (\<lambda>x s. P s \<and> x = f s) E"
  by (auto intro: validI)

lemma valid_weaken:
  "valid P m Q E \<Longrightarrow> (\<And>s. P' s \<Longrightarrow> P s) \<Longrightarrow> (\<And>x s. Q x s \<Longrightarrow> Q' x s) \<Longrightarrow> (\<And>s. E s \<Longrightarrow> E' s) \<Longrightarrow> valid P' m Q' E'"
  by (rule validI) (blast dest: validD_Inr validD_Inl)+

lemma keeps_ret [keeps_rules]: "keeps P (ret x)"
  and keeps_fail [keeps_rules]: "keeps P (fail e)"
  and keeps_getM [keeps_rules]: "keeps P (getM f)"
  and keeps_liftE [keeps_rules]: "keeps P (liftE r)"
  and keeps_panicM [keeps_rules]: "keeps P (panicM msg)"
  and keeps_guardM [keeps_rules]: "keeps P (guardM b e)"
  by (auto intro!: keepsI split: if_splits)

lemma keeps_Pair [keeps_rules, simp]: "keeps P (Pair r)"
  by (auto intro!: keepsI)

lemma keeps_bindM [keeps_rules]: "keeps P m \<Longrightarrow> (\<And>x. keeps P (f x)) \<Longrightarrow> keeps P (bindM m f)"
  unfolding keeps_def by (rule valid_bind)

lemma keeps_thenM [keeps_rules]: "keeps P m \<Longrightarrow> keeps P k \<Longrightarrow> keeps P (thenM m k)"
  unfolding thenM_def by (rule keeps_bindM)

lemma keeps_bind_readM:
  assumes "\<And>s x. P s \<Longrightarrow> f s = Inr x \<Longrightarrow> B x" and "\<And>x. B x \<Longrightarrow> keeps P (g x)"
  shows "keeps P (bindM (readM f) g)"
proof (rule keepsI)
  fix s r t
  assume "P s" and "bindM (readM f) g s = (r, t)" and "\<forall>e. r = Inl e \<longrightarrow> \<not> is_panic e"
  then show "P t"
    using assms(1) [of s] keepsD [OF assms(2)] by (cases "f s") (auto simp: bindM_def)
qed

lemma keeps_bind_getM:
  assumes "\<And>s. P s \<Longrightarrow> B (f s)" and "\<And>x. B x \<Longrightarrow> keeps P (g x)"
  shows "keeps P (bindM (getM f) g)"
  by (rule keepsI) (use assms in \<open>auto dest: keepsD\<close>)

lemma keeps_bind_liftE: "(\<And>x. r = Inr x \<Longrightarrow> keeps P (f x)) \<Longrightarrow> keeps P (bindM (liftE r) f)"
  by (cases r) (auto intro!: keepsI simp: bindM_def dest: keepsD)

lemma keeps_modifyM: "(\<And>s. P s \<Longrightarrow> P (f s)) \<Longrightarrow> keeps P (modifyM f)"
  by (auto intro: keepsI)

lemma keeps_if [keeps_rules]: "(b \<Longrightarrow> keeps P m) \<Longrightarrow> (\<not> b \<Longrightarrow> keeps P k) \<Longrightarrow> keeps P (if b then m else k)"
  by simp

lemma keeps_case_option [keeps_rules]:
  "(x = None \<Longrightarrow> keeps P m) \<Longrightarrow> (\<And>y. x = Some y \<Longrightarrow> keeps P (f y)) \<Longrightarrow>
   keeps P (case x of None \<Rightarrow> m | Some y \<Rightarrow> f y)"
  by (cases x) auto

lemma keeps_case_sum [keeps_rules]:
  "(\<And>e. x = Inl e \<Longrightarrow> keeps P (g e)) \<Longrightarrow> (\<And>y. x = Inr y \<Longrightarrow> keeps P (f y)) \<Longrightarrow>
   keeps P (case x of Inl e \<Rightarrow> g e | Inr y \<Rightarrow> f y)"
  by (cases x) auto

lemma keeps_case_prod [keeps_rules]:
  "(\<And>a b. x = (a, b) \<Longrightarrow> keeps P (f a b)) \<Longrightarrow> keeps P (case x of (a, b) \<Rightarrow> f a b)"
  by (cases x) auto

lemma keeps_Let [keeps_rules]: "(\<And>x. x = v \<Longrightarrow> keeps P (f x)) \<Longrightarrow> keeps P (Let v f)"
  by simp

lemma keeps_tryM [keeps_rules]: "keeps P m \<Longrightarrow> keeps P (tryM m)"
  by (rule keepsI) (auto simp: tryM_def split: prod.splits sum.splits if_splits dest: keepsD)

lemma keeps_cacheCtx [keeps_rules]: "keeps P m \<Longrightarrow> keeps P (cacheCtx m)"
  by (rule keepsI) (auto simp: cacheCtx_def split: prod.splits sum.splits dest: keepsD_Inr)

lemma keeps_foldM [keeps_rules]: "(\<And>x b. x \<in> set xs \<Longrightarrow> keeps P (f x b)) \<Longrightarrow> keeps P (foldM f xs b)"
  by (induction xs arbitrary: b) (auto intro!: keeps_rules)

lemma keeps_forM [keeps_rules]: "(\<And>x. x \<in> set xs \<Longrightarrow> keeps P (f x)) \<Longrightarrow> keeps P (forM xs f)"
  unfolding forM_def by (rule keeps_foldM)

lemma keeps_conj: "keeps P m \<Longrightarrow> keeps Q m \<Longrightarrow> keeps (\<lambda>s. P s \<and> Q s) m"
  by (rule keepsI) (auto dest: keepsD)

text \<open>
  A transaction or cached context commits only on success, so an invariant that a method keeps
  holds after it whatever the outcome, panics included.
\<close>

lemma cacheCtx_invariant:
  assumes "keeps P m" and "P s" and "cacheCtx m s = (r, t)"
  shows "P t"
  using assms by (auto simp: cacheCtx_def split: prod.splits sum.splits dest: keepsD_Inr)

section \<open>Byte strings\<close>

lemma bytes_less_append:
  fixes xs ys us vs :: string
  assumes "length xs = length ys"
  shows "xs @ us < ys @ vs \<longleftrightarrow> xs < ys \<or> xs = ys \<and> us < vs"
  using assms by (induction xs ys rule: list_induct2) auto

lemma char_of_less: "char_of (m :: nat) < char_of (n :: nat) \<longleftrightarrow> m mod 256 < n mod 256"
  by (simp add: less_char_def)

lemma of_char_char_of_id [simp]: "(n :: nat) < 256 \<Longrightarrow> of_char (char_of n) = n"
  by simp

section \<open>Prefix stores\<close>

type_synonym bytes = string
type_synonym addr = bytes
type_synonym 'v kv = "(bytes \<times> 'v) list"

definition kv_get :: "'v kv \<Rightarrow> bytes \<Rightarrow> 'v option" where
  "kv_get s k = map_of s k"

fun kv_set :: "bytes \<Rightarrow> 'v \<Rightarrow> 'v kv \<Rightarrow> 'v kv" where
  "kv_set k v [] = [(k, v)]"
| "kv_set k v (p # s) =
     (if fst p = k then (k, v) # s
      else if k < fst p then (k, v) # p # s
      else p # kv_set k v s)"

definition kv_del :: "bytes \<Rightarrow> 'v kv \<Rightarrow> 'v kv" where
  "kv_del k s = filter (\<lambda>p. fst p \<noteq> k) s"

definition kv_prefix :: "bytes \<Rightarrow> 'v kv \<Rightarrow> 'v kv" where
  "kv_prefix pre s = filter (\<lambda>p. prefix pre (fst p)) s"

definition kv_ok :: "'v kv \<Rightarrow> bool" where
  "kv_ok s \<longleftrightarrow> sorted_wrt (<) (map fst s)"

lemma kv_ok_Nil [simp]: "kv_ok []"
  by (simp add: kv_ok_def)

lemma kv_ok_Cons [simp]: "kv_ok (p # s) \<longleftrightarrow> (\<forall>q\<in>set s. fst p < fst q) \<and> kv_ok s"
  by (auto simp: kv_ok_def)

lemma kv_get_Nil [simp]: "kv_get [] k = None"
  by (simp add: kv_get_def)

lemma kv_get_Cons [simp]: "kv_get (p # s) k = (if fst p = k then Some (snd p) else kv_get s k)"
  by (cases p) (simp add: kv_get_def)

lemma kv_get_set [simp]: "kv_get (kv_set k v s) k' = (if k' = k then Some v else kv_get s k')"
  by (induction s) auto

lemma kv_get_del [simp]: "kv_get (kv_del k s) k' = (if k' = k then None else kv_get s k')"
  by (induction s) (auto simp: kv_del_def)

lemma kv_get_filter:
  "kv_get (filter (\<lambda>p. Q (fst p)) s) k = (if Q k then kv_get s k else None)"
  by (induction s) auto

lemma kv_get_map: "kv_get (map (\<lambda>p. (fst p, f (snd p))) s) k = map_option f (kv_get s k)"
  by (induction s) auto

lemma fst_set_kv_set: "fst ` set (kv_set k v s) = insert k (fst ` set s)"
  by (induction s) auto

lemma set_kv_set: "set (kv_set k v s) \<subseteq> insert (k, v) (set s)"
  by (induction s) auto

lemma set_kv_set_fresh: "kv_get s k = None \<Longrightarrow> set (kv_set k v s) = insert (k, v) (set s)"
  by (induction s) (auto split: if_splits)

lemma set_kv_del: "set (kv_del k s) = {p \<in> set s. fst p \<noteq> k}"
  by (simp add: kv_del_def)

lemma kv_ok_set [simp, intro]: "kv_ok s \<Longrightarrow> kv_ok (kv_set k v s)"
proof (induction s)
  case Nil
  then show ?case by simp
next
  case (Cons p s)
  have "fst p < fst q" if "q \<in> set (kv_set k v s)" "fst p \<noteq> k" "\<not> k < fst p" for q
    using that Cons.prems set_kv_set [of k v s] by fastforce
  with Cons show ?case by (auto dest: order.strict_trans)
qed

lemma kv_ok_filter [simp, intro]: "kv_ok s \<Longrightarrow> kv_ok (filter Q s)"
  by (induction s) auto

lemma kv_ok_del [simp, intro]: "kv_ok s \<Longrightarrow> kv_ok (kv_del k s)"
  by (simp add: kv_del_def)

lemma kv_get_Some_iff: "kv_ok s \<Longrightarrow> kv_get s k = Some v \<longleftrightarrow> (k, v) \<in> set s"
proof (induction s)
  case Nil
  then show ?case by simp
next
  case (Cons p s)
  then have "(fst p, v) \<notin> set s" by fastforce
  with Cons show ?case by (cases p) auto
qed

lemma kv_get_in_set: "kv_get s k = Some v \<Longrightarrow> (k, v) \<in> set s"
  by (simp add: kv_get_def map_of_SomeD)

lemma kv_get_None_iff: "kv_get s k = None \<longleftrightarrow> k \<notin> fst ` set s"
  by (simp add: kv_get_def map_of_eq_None_iff)

lemma kv_ok_distinct: "kv_ok s \<Longrightarrow> distinct (map fst s)"
  by (simp add: kv_ok_def strict_sorted_iff)

lemma kv_in_set_fun: "kv_ok s \<Longrightarrow> (k, v) \<in> set s \<Longrightarrow> (k, w) \<in> set s \<Longrightarrow> v = w"
  by (metis kv_get_Some_iff option.inject)

lemma kv_ok_rebuild: "kv_ok s \<Longrightarrow> map (\<lambda>k. (k, the (kv_get s k))) (map fst s) = s"
proof (induction s)
  case Nil
  then show ?case by simp
next
  case (Cons p s)
  then have "the (kv_get (p # s) (fst q)) = the (kv_get s (fst q))" if "q \<in> set s" for q
    using that by fastforce
  with Cons show ?case by (simp add: comp_def cong: map_cong)
qed

lemma kv_ok_ext:
  assumes "kv_ok s" and "kv_ok t" and "\<And>k. kv_get s k = kv_get t k"
  shows "s = t"
proof -
  have "k \<in> fst ` set s \<longleftrightarrow> k \<in> fst ` set t" for k
    using kv_get_None_iff [of s k] kv_get_None_iff [of t k] assms(3) [of k] by simp
  then have "fst ` set s = fst ` set t"
    by blast
  then have "map fst s = map fst t"
    using assms(1,2) by (intro strict_sorted_equal) (auto simp: kv_ok_def)
  moreover have "kv_get s = kv_get t"
    using assms(3) by (rule ext)
  ultimately show ?thesis
    using kv_ok_rebuild [OF assms(1)] kv_ok_rebuild [OF assms(2)] by metis
qed

subsection \<open>Sums over a store\<close>

definition kv_sum :: "('v \<Rightarrow> int) \<Rightarrow> 'v kv \<Rightarrow> int" where
  "kv_sum f s = sum_list (map (\<lambda>p. f (snd p)) s)"

definition opt_val :: "('v \<Rightarrow> int) \<Rightarrow> 'v option \<Rightarrow> int" where
  "opt_val f x = (case x of None \<Rightarrow> 0 | Some v \<Rightarrow> f v)"

lemma opt_val_simps [simp]: "opt_val f None = 0" "opt_val f (Some v) = f v"
  by (simp_all add: opt_val_def)

lemma kv_sum_simps [simp]: "kv_sum f [] = 0" "kv_sum f (p # s) = f (snd p) + kv_sum f s"
  by (simp_all add: kv_sum_def)

lemma kv_sum_append [simp]: "kv_sum f (s @ t) = kv_sum f s + kv_sum f t"
  by (simp add: kv_sum_def)

lemma kv_sum_set:
  "kv_ok s \<Longrightarrow> kv_sum f (kv_set k v s) = kv_sum f s - opt_val f (kv_get s k) + f v"
proof (induction s)
  case Nil
  then show ?case by simp
next
  case (Cons p s)
  have "kv_get s k = None" if "k < fst p"
    using that Cons.prems by (auto simp: kv_get_None_iff)
  with Cons show ?case by auto
qed

lemma kv_del_absent: "k \<notin> fst ` set s \<Longrightarrow> kv_del k s = s"
  by (auto simp: kv_del_def filter_id_conv)

lemma kv_sum_del: "kv_ok s \<Longrightarrow> kv_sum f (kv_del k s) = kv_sum f s - opt_val f (kv_get s k)"
proof (induction s)
  case Nil
  then show ?case by (simp add: kv_del_def)
next
  case (Cons p s)
  show ?case
  proof (cases "fst p = k")
    case True
    with Cons.prems have "k \<notin> fst ` set s" by auto
    then have "kv_del k (p # s) = s" using True kv_del_absent [of k s] by (simp add: kv_del_def)
    then show ?thesis using True by simp
  next
    case False
    with Cons show ?thesis by (simp add: kv_del_def)
  qed
qed

lemma kv_sum_filter_le:
  "(\<And>p. p \<in> set s \<Longrightarrow> 0 \<le> f (snd p)) \<Longrightarrow> kv_sum f (filter Q s) \<le> kv_sum f s"
  by (induction s) fastforce+

lemma kv_sum_nonneg: "(\<And>p. p \<in> set s \<Longrightarrow> 0 \<le> f (snd p)) \<Longrightarrow> 0 \<le> kv_sum f s"
  by (induction s) fastforce+

lemma kv_set_filter_out: "\<not> Q k \<Longrightarrow> filter (\<lambda>p. Q (fst p)) (kv_set k v s) = filter (\<lambda>p. Q (fst p)) s"
  by (induction s) auto

lemma kv_set_filter_in:
  "Q k \<Longrightarrow> kv_ok s \<Longrightarrow> filter (\<lambda>p. Q (fst p)) (kv_set k v s) = kv_set k v (filter (\<lambda>p. Q (fst p)) s)"
  by (rule kv_ok_ext) (auto simp: kv_get_filter)

lemma kv_del_filter: "filter (\<lambda>p. Q (fst p)) (kv_del k s) = kv_del k (filter (\<lambda>p. Q (fst p)) s)"
  by (simp add: kv_del_def conj_commute)

subsection \<open>Iterators\<close>

text \<open>
  Every \<open>mustIterate...\<close> method of the keepers walks a prefix store, parses the key (the parser
  panics on a malformed key) and calls its callback; the variables the callback closes over are the
  accumulator. The iterator works on the entries present when it was opened.
\<close>

definition iterKV ::
  "(bytes \<Rightarrow> 'i option) \<Rightarrow> ('i \<Rightarrow> 'v \<Rightarrow> 'b \<Rightarrow> ('s, 'b) M) \<Rightarrow> 'v kv \<Rightarrow> 'b \<Rightarrow> ('s, 'b) M" where
  "iterKV parse cb st b =
     foldM (\<lambda>(k, v) acc.
       case parse k of
         None \<Rightarrow> panicM ''invalid key format''
       | Some i \<Rightarrow> cb i v acc) st b"

definition keys_parse :: "(bytes \<Rightarrow> 'i option) \<Rightarrow> 'v kv \<Rightarrow> bool" where
  "keys_parse parse st \<longleftrightarrow> (\<forall>p\<in>set st. parse (fst p) \<noteq> None)"

lemma iterKV_pure:
  assumes "keys_parse parse st"
  shows "iterKV parse (\<lambda>i v acc. ret (g i v acc)) st b =
           ret (fold (\<lambda>(k, v). g (the (parse k)) v) st b)"
  using assms
proof (induction st arbitrary: b)
  case Nil
  then show ?case by (simp add: iterKV_def)
next
  case (Cons p st)
  then obtain i where "parse (fst p) = Some i" by (auto simp: keys_parse_def)
  with Cons show ?case
    by (cases p) (simp add: iterKV_def keys_parse_def)
qed

lemma iterKV_panics:
  assumes "\<not> keys_parse parse st"
  shows "\<exists>msg. iterKV parse (\<lambda>i v acc. ret (g i v acc)) st b s = (Inl (Panic (PanicMsg msg)), s)"
  using assms
proof (induction st arbitrary: b)
  case Nil
  then show ?case by (simp add: keys_parse_def)
next
  case (Cons p st)
  obtain k v where p: "p = (k, v)" by (cases p)
  show ?case
  proof (cases "parse k")
    case None
    then show ?thesis by (simp add: p iterKV_def bindM_def)
  next
    case (Some i)
    then have "\<not> keys_parse parse st" using Cons.prems by (auto simp: keys_parse_def p)
    from Cons.IH [OF this] Some show ?thesis by (simp add: p iterKV_def)
  qed
qed

lemma keeps_iterKV [keeps_rules]:
  "(\<And>k v i b. (k, v) \<in> set st \<Longrightarrow> parse k = Some i \<Longrightarrow> keeps P (cb i v b)) \<Longrightarrow>
   keeps P (iterKV parse cb st b)"
  unfolding iterKV_def by (auto intro!: keeps_rules split: option.splits)

section \<open>Key builders and parsers\<close>

locale key_codec =
  fixes mk :: "'i \<Rightarrow> bytes"
    and unmk :: "bytes \<Rightarrow> 'i option"
    and wf :: "'i \<Rightarrow> bool"
  assumes unmk_mk: "wf i \<Longrightarrow> unmk (mk i) = Some i"
begin

lemma mk_inj: "wf i \<Longrightarrow> wf j \<Longrightarrow> mk i = mk j \<longleftrightarrow> i = j"
  by (metis option.inject unmk_mk)

lemma keys_parse_set: "keys_parse unmk st \<Longrightarrow> wf i \<Longrightarrow> keys_parse unmk (kv_set (mk i) v st)"
  using set_kv_set [of "mk i" v st] by (fastforce simp: keys_parse_def unmk_mk)

lemma keys_parse_del: "keys_parse unmk st \<Longrightarrow> keys_parse unmk (kv_del k st)"
  by (auto simp: keys_parse_def set_kv_del)

end

locale strict_key_codec = key_codec +
  assumes unmk_sound: "unmk k = Some i \<Longrightarrow> wf i \<and> k = mk i"
begin

lemma keys_parse_mk: "keys_parse unmk st \<Longrightarrow> (k, v) \<in> set st \<Longrightarrow> \<exists>i. wf i \<and> k = mk i"
  using unmk_sound by (fastforce simp: keys_parse_def)

lemma unmk_eq_Some: "unmk k = Some i \<longleftrightarrow> wf i \<and> k = mk i"
  using unmk_sound unmk_mk by auto

end

section \<open>Go integers\<close>

definition i64 :: "int \<Rightarrow> int" where
  "i64 x = (x + 2 ^ 63) mod 2 ^ 64 - 2 ^ 63"

definition u64 :: "int \<Rightarrow> int" where
  "u64 x = x mod 2 ^ 64"

definition is_i64 :: "int \<Rightarrow> bool" where
  "is_i64 x \<longleftrightarrow> - (2 ^ 63) \<le> x \<and> x < 2 ^ 63"

definition is_u64 :: "int \<Rightarrow> bool" where
  "is_u64 x \<longleftrightarrow> 0 \<le> x \<and> x < 2 ^ 64"

lemma i64_id [simp]: "is_i64 x \<Longrightarrow> i64 x = x"
  by (simp add: i64_def is_i64_def)

lemma is_i64_i64 [simp]: "is_i64 (i64 x)"
proof -
  have "0 \<le> (x + 2 ^ 63) mod 2 ^ 64" "(x + 2 ^ 63) mod 2 ^ 64 < (2 :: int) ^ 64"
    by simp_all
  then show ?thesis by (simp add: i64_def is_i64_def)
qed

lemma u64_id [simp]: "is_u64 x \<Longrightarrow> u64 x = x"
  by (simp add: u64_def is_u64_def)

lemma is_u64_u64 [simp]: "is_u64 (u64 x)"
  by (simp add: u64_def is_u64_def)

text \<open>The quotient of \<open>math.Int\<close> and of Go's \<open>/\<close>: it truncates towards zero.\<close>

definition quo :: "int \<Rightarrow> int \<Rightarrow> int" where
  "quo a b = sgn a * sgn b * (\<bar>a\<bar> div \<bar>b\<bar>)"

lemma quo_nonneg: "0 \<le> a \<Longrightarrow> 0 < b \<Longrightarrow> quo a b = a div b"
  by (cases "a = 0") (simp_all add: quo_def)

text \<open>\<open>math.Int\<close> holds at most 256 bits; \<open>SafeSub\<close> reports an overflow as an error.\<close>

definition SafeSub :: "int \<Rightarrow> int \<Rightarrow> error + int" where
  "SafeSub a b = (if \<bar>a - b\<bar> < 2 ^ 256 then Inr (a - b) else Inl ErrIntOverflow)"

subsection \<open>Decimal numerals\<close>

fun utoa :: "nat \<Rightarrow> string" where
  "utoa n = (if n < 10 then [char_of (48 + n)] else utoa (n div 10) @ [char_of (48 + n mod 10)])"

declare utoa.simps [simp del]

definition itoa :: "int \<Rightarrow> string" where
  "itoa i = (if i < 0 then CHR ''-'' # utoa (nat (- i)) else utoa (nat i))"

definition digit_val :: "char \<Rightarrow> nat option" where
  "digit_val c = (let n = (of_char c :: nat) in if 48 \<le> n \<and> n \<le> 57 then Some (n - 48) else None)"

fun parse_digits :: "string \<Rightarrow> nat \<Rightarrow> nat option" where
  "parse_digits [] acc = Some acc"
| "parse_digits (c # cs) acc =
     (case digit_val c of None \<Rightarrow> None | Some d \<Rightarrow> parse_digits cs (acc * 10 + d))"

definition parseInt :: "string \<Rightarrow> int option" where
  "parseInt str =
     (let neg = (case str of c # _ \<Rightarrow> c = CHR ''-'' | [] \<Rightarrow> False);
          body = (case str of c # cs \<Rightarrow> if c = CHR ''-'' \<or> c = CHR ''+'' then cs else str | [] \<Rightarrow> [])
      in if body = [] then None
         else case parse_digits body 0 of
                None \<Rightarrow> None
              | Some n \<Rightarrow> (let i = (if neg then - int n else int n) in if is_i64 i then Some i else None))"

lemma digit_val_char_of: "d < 10 \<Longrightarrow> digit_val (char_of (48 + d)) = Some d"
  by (simp add: digit_val_def Let_def)

lemma parse_digits_append:
  "parse_digits (xs @ ys) acc = (case parse_digits xs acc of None \<Rightarrow> None | Some a \<Rightarrow> parse_digits ys a)"
  by (induction xs arbitrary: acc) (auto split: option.splits)

lemma parse_digits_utoa: "parse_digits (utoa n) 0 = Some n"
proof (induction n rule: utoa.induct)
  case (1 n)
  show ?case
  proof (cases "n < 10")
    case True
    then show ?thesis by (subst utoa.simps) (simp add: digit_val_char_of)
  next
    case False
    then have "parse_digits (utoa (n div 10)) 0 = Some (n div 10)" by (rule 1)
    with False show ?thesis
      by (subst utoa.simps) (simp add: parse_digits_append digit_val_char_of)
  qed
qed

lemma utoa_head: "\<exists>(d :: nat) cs. d < 10 \<and> utoa n = char_of (48 + d) # cs"
proof (induction n rule: utoa.induct)
  case (1 n)
  show ?case
  proof (cases "n < 10")
    case True
    then show ?thesis by (subst utoa.simps) auto
  next
    case False
    then obtain d :: nat and cs where "d < 10" "utoa (n div 10) = char_of (48 + d) # cs" using 1 by blast
    with False show ?thesis by (subst utoa.simps) auto
  qed
qed

lemma parseInt_itoa: "is_i64 i \<Longrightarrow> parseInt (itoa i) = Some i"
proof -
  assume i: "is_i64 i"
  obtain d cs where d: "d < (10 :: nat)" and u: "utoa (nat i) = char_of (48 + d) # cs"
    using utoa_head by blast
  have "digit_val CHR ''-'' = None" "digit_val CHR ''+'' = None"
    by (simp_all add: digit_val_def)
  then have ne: "char_of (48 + d) \<noteq> CHR ''-''" "char_of (48 + d) \<noteq> CHR ''+''"
    using digit_val_char_of [OF d] by auto
  have pd: "parse_digits (utoa (nat j)) 0 = Some (nat j)" for j by (rule parse_digits_utoa)
  have nonempty: "utoa n \<noteq> []" for n using utoa_head [of n] by auto
  show ?thesis
  proof (cases "i < 0")
    case True
    then show ?thesis using i nonempty pd [of "- i"] by (simp add: itoa_def parseInt_def)
  next
    case False
    then show ?thesis using i ne pd [of i] by (simp add: itoa_def parseInt_def u)
  qed
qed

section \<open>Context and events\<close>

type_synonym time = int
type_synonym duration = int
type_synonym event = "string \<times> (string \<times> string) list"

text \<open>
  Times are nanoseconds from the Unix epoch, durations nanoseconds in an int64. \<open>zero_time\<close> is
  \<open>time.Time{}\<close>, January 1 of year 1.
\<close>

definition zero_time :: time where
  "zero_time = -62135596800 * 10 ^ 9"

text \<open>\<open>t.Sub(u)\<close> saturates at the ends of the int64 range.\<close>

definition time_sub :: "time \<Rightarrow> time \<Rightarrow> duration" where
  "time_sub t u = max (- (2 ^ 63)) (min (2 ^ 63 - 1) (t - u))"

definition Milliseconds :: "duration \<Rightarrow> int" where
  "Milliseconds d = quo d (10 ^ 6)"

record sdk_ctx =
  BlockTime :: time
  BlockHeight :: int
  ExtractedDID :: string

record base_state =
  events :: "event list"

definition EmitEvent :: "event \<Rightarrow> ('z base_state_scheme, unit) M" where
  "EmitEvent e = modifyM (\<lambda>s. s\<lparr>events := events s @ [e]\<rparr>)"

lemma EmitEvent_run [simp]: "EmitEvent e s = (Inr (), s\<lparr>events := events s @ [e]\<rparr>)"
  by (simp add: EmitEvent_def)

lemma keeps_EmitEvent: "(\<And>s. P s \<Longrightarrow> P (s\<lparr>events := events s @ [e]\<rparr>)) \<Longrightarrow> keeps P (EmitEvent e)"
  unfolding EmitEvent_def by (rule keeps_modifyM)

end
