(* ===== verification/Sdk_Params.thy ===== *)
theory Sdk_Params
  imports Vera_Prelude
begin

text \<open>
  Functions of the Cosmos SDK that the modules call and that are not part of \<open>src/\<close>. They are
  parameters of the model, bundled in records:

  \<^item> \<open>coin_ops\<close>: operations on \<open>sdk.Coin\<close> and \<open>sdk.Coins\<close>;
  \<^item> \<open>dec_ops\<close>: operations on \<open>math.LegacyDec\<close>;
  \<^item> \<open>sdk_codec\<close>: bech32 addresses, length-prefixed keys, sortable times and printed times.

  \<open>coin_laws\<close>, \<open>dec_laws\<close>, \<open>prefix_laws\<close>, \<open>time_laws\<close> and \<open>address_laws\<close> state what the SDK documents of them. The
  instances at the end of the theory satisfy these laws; they are used by witnesses only.
\<close>

section \<open>Coins\<close>

type_synonym coins = "(string \<times> int) list"

definition amountOf :: "coins \<Rightarrow> string \<Rightarrow> int" where
  "amountOf cs d = sum_list (map snd (filter (\<lambda>c. fst c = d) cs))"

definition coins_sorted :: "coins \<Rightarrow> bool" where
  "coins_sorted cs \<longleftrightarrow> sorted_wrt (<) (map fst cs)"

definition valid_coins :: "coins \<Rightarrow> bool" where
  "valid_coins cs \<longleftrightarrow> coins_sorted cs \<and> (\<forall>c\<in>set cs. 0 < snd c)"

record coin_ops =
  SafeSubCoins :: "coins \<Rightarrow> coins \<Rightarrow> coins \<times> bool"
  IsZeroCoins :: "coins \<Rightarrow> bool"
  IsValidCoins :: "coins \<Rightarrow> bool"
  IsAllPositive :: "coins \<Rightarrow> bool"
  IsAnyNegative :: "coins \<Rightarrow> bool"
  DenomsSubsetOf :: "coins \<Rightarrow> coins \<Rightarrow> bool"
  IsValidCoin :: "string \<Rightarrow> int \<Rightarrow> bool"
  NewCoins :: "string \<Rightarrow> int \<Rightarrow> error + coins"
  AmountOf :: "coins \<Rightarrow> string \<Rightarrow> int"

text \<open>
  \<open>NewCoins d n\<close> is \<open>sdk.NewCoins(sdk.NewCoin(d, n))\<close>: it drops a zero coin and panics on a negative
  amount. A denomination is a letter followed by 2 to 127 letters, digits or \<open>/:._-\<close>.
\<close>

definition letter :: "char \<Rightarrow> bool" where
  "letter c \<longleftrightarrow> (let n = (of_char c :: nat) in 65 \<le> n \<and> n \<le> 90 \<or> 97 \<le> n \<and> n \<le> 122)"

definition denom_char :: "char \<Rightarrow> bool" where
  "denom_char c \<longleftrightarrow> letter c \<or> (let n = (of_char c :: nat) in 48 \<le> n \<and> n \<le> 57) \<or> c \<in> set ''/:._-''"

definition valid_denom :: "string \<Rightarrow> bool" where
  "valid_denom d \<longleftrightarrow>
     3 \<le> length d \<and> length d \<le> 128 \<and> (case d of [] \<Rightarrow> False | c # cs \<Rightarrow> letter c \<and> list_all denom_char cs)"

definition coin_laws :: "coin_ops \<Rightarrow> bool" where
  "coin_laws co \<longleftrightarrow>
     (\<forall>a b d. coins_sorted a \<longrightarrow> coins_sorted b \<longrightarrow>
        amountOf (fst (SafeSubCoins co a b)) d = amountOf a d - amountOf b d) \<and>
     (\<forall>a b. coins_sorted a \<longrightarrow> coins_sorted b \<longrightarrow>
        coins_sorted (fst (SafeSubCoins co a b)) \<and>
        (snd (SafeSubCoins co a b) \<longleftrightarrow> (\<exists>d. amountOf (fst (SafeSubCoins co a b)) d < 0))) \<and>
     (\<forall>a. coins_sorted a \<longrightarrow> (IsZeroCoins co a \<longleftrightarrow> (\<forall>d. amountOf a d = 0))) \<and>
     (\<forall>a. IsValidCoins co a \<longrightarrow> valid_coins a) \<and>
     (\<forall>d n. IsValidCoin co d n \<longleftrightarrow> valid_denom d \<and> 0 \<le> n) \<and>
     (\<forall>d n. valid_denom d \<longrightarrow> 0 \<le> n \<longrightarrow> NewCoins co d n = Inr (if n = 0 then [] else [(d, n)])) \<and>
     (\<forall>d n. n < 0 \<longrightarrow> (\<exists>p. NewCoins co d n = Inl (Panic p))) \<and>
     (\<forall>a d. coins_sorted a \<longrightarrow> AmountOf co a d = amountOf a d)"

lemma amountOf_simps [simp]:
  "amountOf [] d = 0"
  "amountOf (c # cs) d = (if fst c = d then snd c else 0) + amountOf cs d"
  by (simp_all add: amountOf_def)

lemma amountOf_absent: "d \<notin> fst ` set cs \<Longrightarrow> amountOf cs d = 0"
  by (induction cs) auto

lemma amountOf_nonneg: "(\<And>c. c \<in> set cs \<Longrightarrow> 0 \<le> snd c) \<Longrightarrow> 0 \<le> amountOf cs d"
  by (induction cs) fastforce+

lemma amountOf_member: "coins_sorted cs \<Longrightarrow> c \<in> set cs \<Longrightarrow> amountOf cs (fst c) = snd c"
proof (induction cs)
  case Nil
  then show ?case by simp
next
  case (Cons b cs)
  then have "fst b \<notin> fst ` set cs" by (auto simp: coins_sorted_def)
  then show ?case using Cons amountOf_absent [of "fst b" cs]
    by (auto simp: coins_sorted_def)
qed

lemma valid_coins_sorted: "valid_coins cs \<Longrightarrow> coins_sorted cs"
  by (simp add: valid_coins_def)

lemma valid_coins_nonneg: "valid_coins cs \<Longrightarrow> 0 \<le> amountOf cs d"
  by (rule amountOf_nonneg) (auto simp: valid_coins_def less_imp_le)

lemma coin_lawsD:
  assumes "coin_laws co"
  shows "coins_sorted a \<Longrightarrow> coins_sorted b \<Longrightarrow>
           amountOf (fst (SafeSubCoins co a b)) d = amountOf a d - amountOf b d"
    and "coins_sorted a \<Longrightarrow> coins_sorted b \<Longrightarrow> coins_sorted (fst (SafeSubCoins co a b))"
    and "coins_sorted a \<Longrightarrow> coins_sorted b \<Longrightarrow>
           snd (SafeSubCoins co a b) \<longleftrightarrow> (\<exists>d. amountOf (fst (SafeSubCoins co a b)) d < 0)"
    and "coins_sorted a \<Longrightarrow> IsZeroCoins co a \<longleftrightarrow> (\<forall>d. amountOf a d = 0)"
    and "IsValidCoins co a \<Longrightarrow> valid_coins a"
    and "IsValidCoin co d n \<longleftrightarrow> valid_denom d \<and> 0 \<le> n"
    and "valid_denom d \<Longrightarrow> 0 \<le> n \<Longrightarrow> NewCoins co d n = Inr (if n = 0 then [] else [(d, n)])"
    and "n < 0 \<Longrightarrow> \<exists>p. NewCoins co d n = Inl (Panic p)"
    and "coins_sorted a \<Longrightarrow> AmountOf co a d = amountOf a d"
  using assms by (auto simp: coin_laws_def)

lemma SafeSub_pos:
  assumes "coin_laws co" and "coins_sorted a" and "coins_sorted b"
    and "SafeSubCoins co a b = (c, False)"
  shows "coins_sorted c" and "amountOf c d = amountOf a d - amountOf b d" and "amountOf b d \<le> amountOf a d"
  using coin_lawsD(1-3) [OF assms(1-3)] assms(4) by (fastforce simp: not_less)+

section \<open>Decimals\<close>

text \<open>
  A \<open>math.LegacyDec\<close> is an integer that counts units of \<open>10\<close> to the power \<open>-18\<close>. Products and
  quotients are rounded to a multiple of that unit; the laws leave open in which direction.
\<close>

type_synonym dec = int

definition dec_one :: dec where
  "dec_one = 10 ^ 18"

record dec_ops =
  DecMul :: "dec \<Rightarrow> dec \<Rightarrow> dec"
  DecQuo :: "dec \<Rightarrow> dec \<Rightarrow> dec"
  DecTruncateInt :: "dec \<Rightarrow> int"
  DecCeil :: "dec \<Rightarrow> dec"

definition dec_laws :: "dec_ops \<Rightarrow> bool" where
  "dec_laws dc \<longleftrightarrow>
     (\<forall>a b. \<bar>DecMul dc a b * dec_one - a * b\<bar> < dec_one) \<and>
     (\<forall>a b. b \<noteq> 0 \<longrightarrow> \<bar>DecQuo dc a b * b - a * dec_one\<bar> < \<bar>b\<bar>) \<and>
     (\<forall>a. DecTruncateInt dc a = quo a dec_one) \<and>
     (\<forall>a. DecCeil dc a = - ((- a) div dec_one) * dec_one)"

lemma dec_lawsD:
  assumes "dec_laws dc"
  shows "\<bar>DecMul dc a b * dec_one - a * b\<bar> < dec_one"
    and "b \<noteq> 0 \<Longrightarrow> \<bar>DecQuo dc a b * b - a * dec_one\<bar> < \<bar>b\<bar>"
    and "DecTruncateInt dc a = quo a dec_one"
    and "DecCeil dc a = - ((- a) div dec_one) * dec_one"
  using assms by (auto simp: dec_laws_def)

lemma dec_one_pos [simp]: "0 < dec_one" "dec_one \<noteq> 0"
  by (simp_all add: dec_one_def)

text \<open>Results that are representable are exact.\<close>

lemma exact_of_bound: "\<bar>x * m - y * m\<bar> < \<bar>m\<bar> \<Longrightarrow> x = (y :: int)"
proof -
  assume "\<bar>x * m - y * m\<bar> < \<bar>m\<bar>"
  then have "\<bar>x - y\<bar> * \<bar>m\<bar> < 1 * \<bar>m\<bar>" by (simp add: abs_mult [symmetric] left_diff_distrib)
  then have "\<bar>x - y\<bar> < 1" by (rule mult_right_less_imp_less) simp
  then show ?thesis by simp
qed

lemma DecMul_exact: "dec_laws dc \<Longrightarrow> a * b = c * dec_one \<Longrightarrow> DecMul dc a b = c"
  using dec_lawsD(1) [of dc a b] by (intro exact_of_bound [of _ dec_one]) simp

lemma DecQuo_exact: "dec_laws dc \<Longrightarrow> b \<noteq> 0 \<Longrightarrow> a * dec_one = c * b \<Longrightarrow> DecQuo dc a b = c"
  using dec_lawsD(2) [of dc b a] by (intro exact_of_bound [of _ b]) simp

section \<open>Addresses, keys and times\<close>

text \<open>
  \<open>AccString\<close>/\<open>AccFromBech32\<close> and \<open>ValString\<close>/\<open>ValFromBech32\<close> are \<open>String()\<close> and the bech32 parsers of
  account and validator addresses. \<open>MustLengthPrefix\<close> panics on more than 255 bytes;
  \<open>ParseLengthPrefixedBytes key start n\<close> returns the \<open>n\<close> bytes from \<open>start\<close> and the index of the last of
  them, and panics when the key is too short. \<open>TimeString\<close> is \<open>time.Time.String\<close>. \<open>StdTimeMarshal\<close>
  is the error with which gogoproto refuses to marshal a timestamp.
\<close>

record sdk_codec =
  AccString :: "addr \<Rightarrow> string"
  AccFromBech32 :: "string \<Rightarrow> error + addr"
  ValString :: "addr \<Rightarrow> string"
  ValFromBech32 :: "string \<Rightarrow> error + addr"
  MustLengthPrefix :: "bytes \<Rightarrow> error + bytes"
  ParseLengthPrefixedBytes :: "bytes \<Rightarrow> nat \<Rightarrow> nat \<Rightarrow> error + (bytes \<times> nat)"
  FormatTimeBytes :: "time \<Rightarrow> bytes"
  InclusiveEndBytes :: "bytes \<Rightarrow> bytes"
  TimeString :: "time \<Rightarrow> string"
  StdTimeMarshal :: "time \<Rightarrow> error option"

definition addr_ok :: "addr \<Rightarrow> bool" where
  "addr_ok a \<longleftrightarrow> a \<noteq> [] \<and> length a \<le> 255"

definition prefix_laws :: "sdk_codec \<Rightarrow> bool" where
  "prefix_laws cd \<longleftrightarrow>
     (\<forall>b. addr_ok b \<longrightarrow> MustLengthPrefix cd b = Inr (char_of (length b) # b)) \<and>
     (\<forall>b. 255 < length b \<longrightarrow> (\<exists>p. MustLengthPrefix cd b = Inl (Panic p))) \<and>
     MustLengthPrefix cd [] = Inr [] \<and>
     (\<forall>k i n. i + n \<le> length k \<longrightarrow> 0 < n \<longrightarrow>
        ParseLengthPrefixedBytes cd k i n = Inr (take n (drop i k), i + n - 1)) \<and>
     (\<forall>k. InclusiveEndBytes cd k = k @ [CHR 0x00])"

text \<open>
  \<open>FormatTimeBytes\<close> has a fixed length and sorts like time for the years 1 to 9999, the range of a
  protobuf timestamp.
\<close>

definition max_time :: time where
  "max_time = 253402300799 * 10 ^ 9 + 999999999"

definition time_ok :: "time \<Rightarrow> bool" where
  "time_ok t \<longleftrightarrow> zero_time \<le> t \<and> t \<le> max_time"

definition timeLen :: "sdk_codec \<Rightarrow> nat" where
  "timeLen cd = length (FormatTimeBytes cd 0)"

definition time_laws :: "sdk_codec \<Rightarrow> bool" where
  "time_laws cd \<longleftrightarrow>
     (\<forall>t. time_ok t \<longrightarrow> length (FormatTimeBytes cd t) = timeLen cd) \<and>
     (\<forall>t u. time_ok t \<longrightarrow> time_ok u \<longrightarrow> (FormatTimeBytes cd t < FormatTimeBytes cd u \<longleftrightarrow> t < u)) \<and>
     (\<forall>t. StdTimeMarshal cd t = None \<longleftrightarrow> time_ok t) \<and>
     (\<forall>t e. StdTimeMarshal cd t = Some e \<longrightarrow> \<not> is_panic e)"

definition address_laws :: "sdk_codec \<Rightarrow> bool" where
  "address_laws cd \<longleftrightarrow>
     (\<forall>a. addr_ok a \<longrightarrow> AccFromBech32 cd (AccString cd a) = Inr a \<and> AccString cd a \<noteq> []) \<and>
     (\<forall>a. addr_ok a \<longrightarrow> ValFromBech32 cd (ValString cd a) = Inr a \<and> ValString cd a \<noteq> []) \<and>
     (\<forall>x a. AccFromBech32 cd x = Inr a \<longrightarrow> addr_ok a) \<and>
     (\<forall>x a. ValFromBech32 cd x = Inr a \<longrightarrow> addr_ok a)"

lemma prefix_lawsD:
  assumes "prefix_laws cd"
  shows "addr_ok b \<Longrightarrow> MustLengthPrefix cd b = Inr (char_of (length b) # b)"
    and "i + n \<le> length k \<Longrightarrow> 0 < n \<Longrightarrow> ParseLengthPrefixedBytes cd k i n = Inr (take n (drop i k), i + n - 1)"
    and "InclusiveEndBytes cd k = k @ [CHR 0x00]"
    and "255 < length b \<Longrightarrow> \<exists>p. MustLengthPrefix cd b = Inl (Panic p)"
    and "MustLengthPrefix cd [] = Inr []"
  using assms by (auto simp: prefix_laws_def)

lemma address_lawsD:
  assumes "address_laws cd"
  shows "addr_ok a \<Longrightarrow> AccFromBech32 cd (AccString cd a) = Inr a"
    and "addr_ok a \<Longrightarrow> ValFromBech32 cd (ValString cd a) = Inr a"
    and "AccFromBech32 cd x = Inr a \<Longrightarrow> addr_ok a"
    and "ValFromBech32 cd x = Inr a \<Longrightarrow> addr_ok a"
  using assms by (auto simp: address_laws_def)

lemma time_lawsD:
  assumes "time_laws cd"
  shows "time_ok t \<Longrightarrow> length (FormatTimeBytes cd t) = timeLen cd"
    and "time_ok t \<Longrightarrow> time_ok u \<Longrightarrow> FormatTimeBytes cd t < FormatTimeBytes cd u \<longleftrightarrow> t < u"
    and "StdTimeMarshal cd t = None \<longleftrightarrow> time_ok t"
    and "StdTimeMarshal cd t = Some e \<Longrightarrow> \<not> is_panic e"
  using assms by (auto simp: time_laws_def)

lemma time_laws_inj:
  "time_laws cd \<Longrightarrow> time_ok t \<Longrightarrow> time_ok u \<Longrightarrow> FormatTimeBytes cd t = FormatTimeBytes cd u \<longleftrightarrow> t = u"
  using time_lawsD(2) [of cd t u] time_lawsD(2) [of cd u t] by (metis less_irrefl linorder_neqE)

section \<open>Instances\<close>

definition std_sub :: "coins \<Rightarrow> coins \<Rightarrow> coins" where
  "std_sub a b =
     filter (\<lambda>c. snd c \<noteq> 0)
       (map (\<lambda>d. (d, amountOf a d - amountOf b d)) (sort (remdups (map fst a @ map fst b))))"

definition std_coins :: coin_ops where
  "std_coins =
     \<lparr>SafeSubCoins = (\<lambda>a b. (std_sub a b, \<exists>c\<in>set (std_sub a b). snd c < 0)),
      IsZeroCoins = (\<lambda>a. \<forall>c\<in>set a. snd c = 0),
      IsValidCoins = (\<lambda>a. valid_coins a \<and> (\<forall>c\<in>set a. valid_denom (fst c))),
      IsAllPositive = (\<lambda>a. a \<noteq> [] \<and> (\<forall>c\<in>set a. 0 < snd c)),
      IsAnyNegative = (\<lambda>a. \<exists>c\<in>set a. snd c < 0),
      DenomsSubsetOf = (\<lambda>a b. fst ` set a \<subseteq> fst ` set b),
      IsValidCoin = (\<lambda>d n. valid_denom d \<and> 0 \<le> n),
      NewCoins = (\<lambda>d n. if n < 0 then Inl (Panic (PanicMsg ''negative coin amount''))
                        else Inr (if n = 0 then [] else [(d, n)])),
      AmountOf = amountOf\<rparr>"

definition std_decs :: dec_ops where
  "std_decs =
     \<lparr>DecMul = (\<lambda>a b. a * b div dec_one),
      DecQuo = (\<lambda>a b. a * dec_one div b),
      DecTruncateInt = (\<lambda>a. quo a dec_one),
      DecCeil = (\<lambda>a. - ((- a) div dec_one) * dec_one)\<rparr>"

lemma coins_sorted_filter: "coins_sorted cs \<Longrightarrow> coins_sorted (filter P cs)"
  unfolding coins_sorted_def by (induction cs) auto

lemma coins_sorted_std_sub: "coins_sorted (std_sub a b)"
  unfolding std_sub_def
  by (rule coins_sorted_filter) (simp add: coins_sorted_def comp_def strict_sorted_iff)

lemma amountOf_std_sub: "amountOf (std_sub a b) d = amountOf a d - amountOf b d"
proof -
  have gen: "amountOf (filter (\<lambda>c. snd c \<noteq> 0) (map (\<lambda>d. (d, f d)) ds)) d = (if d \<in> set ds then f d else 0)"
    if "distinct ds" for f :: "string \<Rightarrow> int" and ds
    using that by (induction ds) auto
  have "d \<notin> fst ` set a \<union> fst ` set b \<Longrightarrow> amountOf a d - amountOf b d = 0"
    by (simp add: amountOf_absent)
  then show ?thesis unfolding std_sub_def by (subst gen) auto
qed

lemma std_coins_laws: "coin_laws std_coins"
proof -
  have neg: "(\<exists>c\<in>set cs. snd c < 0) \<longleftrightarrow> (\<exists>d. amountOf cs d < 0)" if "coins_sorted cs" for cs
  proof
    assume "\<exists>c\<in>set cs. snd c < 0"
    then show "\<exists>d. amountOf cs d < 0" using amountOf_member [OF that] by metis
  next
    assume "\<exists>d. amountOf cs d < 0"
    then show "\<exists>c\<in>set cs. snd c < 0" using amountOf_nonneg [of cs] by (meson not_less)
  qed
  have zero: "(\<forall>c\<in>set cs. snd c = 0) \<longleftrightarrow> (\<forall>d. amountOf cs d = 0)" if "coins_sorted cs" for cs
  proof
    show "\<forall>d. amountOf cs d = 0" if "\<forall>c\<in>set cs. snd c = 0"
      using that by (induction cs) auto
  next
    assume "\<forall>d. amountOf cs d = 0"
    then show "\<forall>c\<in>set cs. snd c = 0" using amountOf_member [OF that] by metis
  qed
  show ?thesis
    using neg [OF coins_sorted_std_sub] zero
    by (simp add: coin_laws_def std_coins_def coins_sorted_std_sub amountOf_std_sub)
qed

lemma div_mult_bound: "(b :: int) \<noteq> 0 \<Longrightarrow> \<bar>a div b * b - a\<bar> < \<bar>b\<bar>"
  using minus_div_mult_eq_mod [of a b] abs_mod_less [of b a] by (simp add: abs_minus_commute)

lemma std_decs_laws: "dec_laws std_decs"
proof -
  have "\<bar>a * b div dec_one * dec_one - a * b\<bar> < dec_one" for a b
    using div_mult_bound [of dec_one "a * b"] by (simp add: dec_one_def)
  then show ?thesis by (simp add: dec_laws_def std_decs_def div_mult_bound)
qed

fun big_endian :: "nat \<Rightarrow> nat \<Rightarrow> bytes" where
  "big_endian 0 n = []"
| "big_endian (Suc k) n = big_endian k (n div 256) @ [char_of (n mod 256)]"

definition std_codec :: sdk_codec where
  "std_codec =
     \<lparr>AccString = (\<lambda>a. ''acc'' @ a),
      AccFromBech32 = (\<lambda>x. if take 3 x = ''acc'' \<and> addr_ok (drop 3 x) then Inr (drop 3 x) else Inl (ErrExt ''bech32'')),
      ValString = (\<lambda>a. ''val'' @ a),
      ValFromBech32 = (\<lambda>x. if take 3 x = ''val'' \<and> addr_ok (drop 3 x) then Inr (drop 3 x) else Inl (ErrExt ''bech32'')),
      MustLengthPrefix = (\<lambda>b. if length b \<le> 255 then Inr (if b = [] then [] else char_of (length b) # b)
                              else Inl (Panic (PanicMsg ''length''))),
      ParseLengthPrefixedBytes = (\<lambda>k i n. if i + n \<le> length k then Inr (take n (drop i k), i + n - 1)
                                          else Inl (Panic (PanicMsg ''key''))),
      FormatTimeBytes = (\<lambda>t. big_endian 9 (nat (t - zero_time))),
      InclusiveEndBytes = (\<lambda>k. k @ [CHR 0x00]),
      TimeString = (\<lambda>t. itoa t),
      StdTimeMarshal = (\<lambda>t. if time_ok t then None else Some (ErrExt ''timestamp''))\<rparr>"

lemma length_big_endian [simp]: "length (big_endian k n) = k"
  by (induction k arbitrary: n) auto

lemma big_endian_eq:
  "m < 256 ^ k \<Longrightarrow> n < 256 ^ k \<Longrightarrow> big_endian k m = big_endian k n \<longleftrightarrow> m = n"
proof (induction k arbitrary: m n)
  case 0
  then show ?case by simp
next
  case (Suc k)
  have "m div 256 < 256 ^ k" "n div 256 < 256 ^ k" using Suc.prems by (simp_all add: less_mult_imp_div_less mult.commute)
  then have IH: "big_endian k (m div 256) = big_endian k (n div 256) \<longleftrightarrow> m div 256 = n div 256" by (rule Suc.IH)
  have "(char_of (m mod 256) :: char) = char_of (n mod 256) \<longleftrightarrow> m mod 256 = n mod 256"
    by (metis mod_less_divisor of_char_char_of_id zero_less_numeral)
  with IH show ?case by (simp) (metis div_mult_mod_eq)
qed

lemma big_endian_less:
  "m < 256 ^ k \<Longrightarrow> n < 256 ^ k \<Longrightarrow> big_endian k m < big_endian k n \<longleftrightarrow> m < n"
proof (induction k arbitrary: m n)
  case 0
  then show ?case by simp
next
  case (Suc k)
  have b: "m div 256 < 256 ^ k" "n div 256 < 256 ^ k" using Suc.prems by (simp_all add: less_mult_imp_div_less mult.commute)
  have "big_endian (Suc k) m < big_endian (Suc k) n \<longleftrightarrow>
      m div 256 < n div 256 \<or> m div 256 = n div 256 \<and> m mod 256 < n mod 256"
    using Suc.IH [OF b] big_endian_eq [OF b] by (simp add: bytes_less_append char_of_less)
  also have "\<dots> \<longleftrightarrow> m < n"
    using div_le_mono [of m n 256] div_le_mono [of n m 256] div_mult_mod_eq [of m 256] div_mult_mod_eq [of n 256]
    by (cases "m div 256 = n div 256") linarith+
  finally show ?case .
qed

lemma time_nat: "time_ok t \<Longrightarrow> nat (t - zero_time) < 256 ^ 9"
  by (auto simp: time_ok_def zero_time_def max_time_def nat_less_iff)

lemma std_time_laws: "time_laws std_codec"
  unfolding time_laws_def timeLen_def
proof (intro conjI allI impI)
  fix t u assume t: "time_ok t" and u: "time_ok u"
  have "big_endian 9 (nat (t - zero_time)) < big_endian 9 (nat (u - zero_time)) \<longleftrightarrow> t < u"
    using big_endian_less [OF time_nat [OF t] time_nat [OF u]] t by (auto simp: time_ok_def)
  then show "FormatTimeBytes std_codec t < FormatTimeBytes std_codec u \<longleftrightarrow> t < u"
    by (simp add: std_codec_def)
qed (auto simp: std_codec_def split: if_splits)

lemma std_prefix_laws: "prefix_laws std_codec"
  by (simp add: prefix_laws_def std_codec_def addr_ok_def)

lemma std_address_laws: "address_laws std_codec"
  by (auto simp: address_laws_def std_codec_def addr_ok_def)

end
