(* ===== verification/Tier_Types.thy ===== *)
theory Tier_Types
  imports Sdk_Params
begin

text \<open>
  Data of the tier module (\<open>x/tier/types\<close>): parameters and their validation, lockups, developers and
  user subscriptions, store keys with their parsers, and the stateless validation of messages.

  The key builders and parsers are interpreted as \<open>key_codec\<close> or, where a key determines the bytes,
  as \<open>strict_key_codec\<close>.
\<close>

section \<open>Parameters\<close>

record Rate =
  rate_Amount :: int
  rate_Rate :: int

record Params =
  EpochDuration :: "duration option"
  UnlockingEpochs :: int
  DeveloperPoolFee :: int
  InsurancePoolFee :: int
  InsurancePoolThreshold :: int
  ProcessRewardsInterval :: int
  RewardRates :: "Rate list"

text \<open>The value an absent \<open>Params\<close> decodes to.\<close>

definition zero_Params :: Params where
  "zero_Params =
     \<lparr>EpochDuration = None, UnlockingEpochs = 0, DeveloperPoolFee = 0, InsurancePoolFee = 0,
      InsurancePoolThreshold = 0, ProcessRewardsInterval = 0, RewardRates = []\<rparr>"

definition DefaultEpochDuration :: duration where
  "DefaultEpochDuration = 5 * 60 * 10 ^ 9"

definition NewParams :: "duration option \<Rightarrow> int \<Rightarrow> int \<Rightarrow> int \<Rightarrow> int \<Rightarrow> int \<Rightarrow> Rate list \<Rightarrow> Params" where
  "NewParams dur unlocking devFee insFee threshold interval rates =
     \<lparr>EpochDuration = dur, UnlockingEpochs = unlocking, DeveloperPoolFee = devFee, InsurancePoolFee = insFee,
      InsurancePoolThreshold = threshold, ProcessRewardsInterval = interval, RewardRates = rates\<rparr>"

definition DefaultParams :: Params where
  "DefaultParams =
     NewParams (Some DefaultEpochDuration) 2 2 1 100000000000 1000
       [\<lparr>rate_Amount = 300, rate_Rate = 150\<rparr>,
        \<lparr>rate_Amount = 200, rate_Rate = 120\<rparr>,
        \<lparr>rate_Amount = 100, rate_Rate = 110\<rparr>,
        \<lparr>rate_Amount = 0, rate_Rate = 100\<rparr>]"

definition validateEpochDuration :: "duration option \<Rightarrow> error option" where
  "validateEpochDuration d =
     (case d of
        None \<Rightarrow> Some (ErrStd ''invalid epoch duration'')
      | Some x \<Rightarrow> if x \<le> 0 then Some (ErrStd ''invalid epoch duration'') else None)"

definition validateUnlockingEpochs :: "int \<Rightarrow> error option" where
  "validateUnlockingEpochs n = (if n \<le> 0 then Some (ErrStd ''invalid unlocking epochs'') else None)"

definition validateDeveloperPoolFee :: "int \<Rightarrow> error option" where
  "validateDeveloperPoolFee n = (if n < 0 then Some (ErrStd ''invalid developer pool fee'') else None)"

definition validateInsurancePoolFee :: "int \<Rightarrow> error option" where
  "validateInsurancePoolFee n = (if n < 0 then Some (ErrStd ''invalid insurance pool fee'') else None)"

definition validateInsurancePoolThreshold :: "int \<Rightarrow> error option" where
  "validateInsurancePoolThreshold n = (if n < 0 then Some (ErrStd ''invalid insurance pool threshold'') else None)"

definition validateProcessRewardsInterval :: "int \<Rightarrow> error option" where
  "validateProcessRewardsInterval n = (if n \<le> 0 then Some (ErrStd ''invalid process rewards interval'') else None)"

fun validateRewardRates :: "Rate list \<Rightarrow> error option" where
  "validateRewardRates [] = None"
| "validateRewardRates (r # rs) =
     (if rate_Amount r < 0 then Some (ErrStd ''invalid locked stake'')
      else if rate_Rate r \<le> 0 then Some (ErrStd ''invalid rate'')
      else validateRewardRates rs)"

text \<open>The first error of a sequence of checks.\<close>

fun first_err :: "error option list \<Rightarrow> error option" where
  "first_err [] = None"
| "first_err (None # cs) = first_err cs"
| "first_err (Some e # cs) = Some e"

lemma first_err_None: "first_err cs = None \<longleftrightarrow> (\<forall>c\<in>set cs. c = None)"
  by (induction cs rule: first_err.induct) auto

definition Params_Validate :: "Params \<Rightarrow> error option" where
  "Params_Validate p =
     first_err
       [validateEpochDuration (EpochDuration p),
        validateUnlockingEpochs (UnlockingEpochs p),
        validateDeveloperPoolFee (DeveloperPoolFee p),
        validateInsurancePoolFee (InsurancePoolFee p),
        if 100 < DeveloperPoolFee p + InsurancePoolFee p
        then Some (ErrStd ''combined developer pool fee and insurance pool fee must not exceed 100'') else None,
        validateInsurancePoolThreshold (InsurancePoolThreshold p),
        validateProcessRewardsInterval (ProcessRewardsInterval p),
        validateRewardRates (RewardRates p)]"

lemma validateRewardRates_None:
  "validateRewardRates rs = None \<longleftrightarrow> (\<forall>r\<in>set rs. 0 \<le> rate_Amount r \<and> 0 < rate_Rate r)"
  by (induction rs) auto

lemma Params_Validate_None:
  "Params_Validate p = None \<longleftrightarrow>
     (\<exists>d>0. EpochDuration p = Some d) \<and> 0 < UnlockingEpochs p \<and>
     0 \<le> DeveloperPoolFee p \<and> 0 \<le> InsurancePoolFee p \<and> DeveloperPoolFee p + InsurancePoolFee p \<le> 100 \<and>
     0 \<le> InsurancePoolThreshold p \<and> 0 < ProcessRewardsInterval p \<and>
     (\<forall>r\<in>set (RewardRates p). 0 \<le> rate_Amount r \<and> 0 < rate_Rate r)"
  by (auto simp: Params_Validate_def first_err_None validateEpochDuration_def validateUnlockingEpochs_def
      validateDeveloperPoolFee_def validateInsurancePoolFee_def validateInsurancePoolThreshold_def
      validateProcessRewardsInterval_def validateRewardRates_None split: option.splits)

section \<open>Stored records\<close>

record Lockup =
  DelegatorAddress :: string
  ValidatorAddress :: string
  Amount :: int

record UnlockingLockup =
  ul_DelegatorAddress :: string
  ul_ValidatorAddress :: string
  CreationHeight :: int
  ul_Amount :: int
  CompletionTime :: time
  UnlockTime :: time

record Developer =
  dev_Address :: string
  AutoLockEnabled :: bool

record UserSubscription =
  us_Developer :: string
  UserDid :: string
  CreditAmount :: int
  us_Period :: int
  StartDate :: time
  LastRenewed :: time

record TotalDevGranted =
  tdg_Developer :: string
  TotalGranted :: int

section \<open>Store keys\<close>

text \<open>
  Each parser panics, here \<open>None\<close>, on a malformed key; addresses are read as 20 bytes
  (\<open>addressKeyLength\<close>), while the builders append addresses of any length.
\<close>

abbreviation addressKeyLength :: nat where
  "addressKeyLength \<equiv> 20"

abbreviation keySeparator :: char where
  "keySeparator \<equiv> CHR ''/''"

definition TierModuleName :: string where "TierModuleName = ''tier''"
definition DeveloperPoolName :: string where "DeveloperPoolName = ''developer_pool''"
definition InsurancePoolName :: string where "InsurancePoolName = ''insurance_pool''"
definition EpochIdentifier :: string where "EpochIdentifier = TierModuleName"
definition DefaultBondDenom :: string where "DefaultBondDenom = ''uopen''"
definition MicroCreditDenom :: string where "MicroCreditDenom = ''ucredit''"

lemmas tier_names = TierModuleName_def DeveloperPoolName_def InsurancePoolName_def EpochIdentifier_def
  DefaultBondDenom_def MicroCreditDenom_def

definition LockupKey :: "addr \<Rightarrow> addr \<Rightarrow> bytes" where
  "LockupKey delAddr valAddr = delAddr @ keySeparator # valAddr @ [keySeparator]"

definition UnlockingLockupKey :: "addr \<Rightarrow> addr \<Rightarrow> int \<Rightarrow> bytes" where
  "UnlockingLockupKey delAddr valAddr creationHeight =
     delAddr @ keySeparator # valAddr @ keySeparator # itoa creationHeight @ [keySeparator]"

definition LockupKeyToAddresses :: "bytes \<Rightarrow> (addr \<times> addr) option" where
  "LockupKeyToAddresses key =
     (let expectedLength = addressKeyLength * 2 + 2 in
      if length key \<noteq> expectedLength \<or> key ! addressKeyLength \<noteq> keySeparator \<or>
         key ! (expectedLength - 1) \<noteq> keySeparator
      then None
      else Some (take addressKeyLength key,
                 take (expectedLength - 1 - (addressKeyLength + 1)) (drop (addressKeyLength + 1) key)))"

definition UnlockingLockupKeyToAddressesAtHeight :: "bytes \<Rightarrow> (addr \<times> addr \<times> int) option" where
  "UnlockingLockupKeyToAddressesAtHeight key =
     (let heightStart = addressKeyLength * 2 + 2 in
      if length key \<le> heightStart \<or> key ! addressKeyLength \<noteq> keySeparator \<or>
         key ! (heightStart - 1) \<noteq> keySeparator \<or> last key \<noteq> keySeparator
      then None
      else
        case parseInt (butlast (drop heightStart key)) of
          None \<Rightarrow> None
        | Some h \<Rightarrow>
            Some (take addressKeyLength key,
                  take (heightStart - 1 - (addressKeyLength + 1)) (drop (addressKeyLength + 1) key), h))"

definition UserSubscriptionKey :: "addr \<Rightarrow> string \<Rightarrow> bytes" where
  "UserSubscriptionKey developerAddr userDid = developerAddr @ keySeparator # userDid @ [keySeparator]"

definition UserSubscriptionKeyToAddresses :: "bytes \<Rightarrow> (addr \<times> string) option" where
  "UserSubscriptionKeyToAddresses key =
     (let valueStart = addressKeyLength + 1 in
      if length key \<le> valueStart \<or> key ! addressKeyLength \<noteq> keySeparator \<or> last key \<noteq> keySeparator
      then None
      else Some (take addressKeyLength key, butlast (drop valueStart key)))"

definition DeveloperKey :: "addr \<Rightarrow> bytes" where
  "DeveloperKey developerAddr = developerAddr @ [keySeparator]"

definition DeveloperKeyToAddress :: "bytes \<Rightarrow> addr option" where
  "DeveloperKeyToAddress key =
     (let expectedLength = addressKeyLength + 1 in
      if length key \<noteq> expectedLength \<or> key ! (expectedLength - 1) \<noteq> keySeparator then None
      else Some (take addressKeyLength key))"

definition TotalDevGrantedKey :: "addr \<Rightarrow> bytes" where
  "TotalDevGrantedKey developerAddr = developerAddr @ [keySeparator]"

definition addr20 :: "addr \<Rightarrow> bool" where
  "addr20 a \<longleftrightarrow> length a = addressKeyLength"

lemma take_nth_drop:
  "n < length xs \<Longrightarrow> xs = take n xs @ xs ! n # drop (Suc n) xs"
  by (simp add: Cons_nth_drop_Suc)

lemma snoc_split:
  assumes "length k = Suc n" and "k ! n = c"
  shows "k = take n k @ [c]"
  using take_nth_drop [of n k] assms by simp

lemma key_split:
  assumes "n < length k" and "k ! n = c" and "Suc n < length k" and "last k = d"
  shows "k = take n k @ c # butlast (drop (Suc n) k) @ [d]"
proof -
  have "drop (Suc n) k \<noteq> []" and "last (drop (Suc n) k) = d" using assms by simp_all
  then have "drop (Suc n) k = butlast (drop (Suc n) k) @ [d]" by (metis append_butlast_last_id)
  then show ?thesis using take_nth_drop [of n k] assms(1,2) by simp
qed

interpretation lockup_key: strict_key_codec "\<lambda>(d, v). LockupKey d v" LockupKeyToAddresses
  "\<lambda>(d, v). addr20 d \<and> addr20 v"
proof
  fix i :: "addr \<times> addr"
  assume "case i of (d, v) \<Rightarrow> addr20 d \<and> addr20 v"
  then show "LockupKeyToAddresses (case i of (d, v) \<Rightarrow> LockupKey d v) = Some i"
    by (cases i) (simp add: LockupKeyToAddresses_def LockupKey_def addr20_def nth_append)
next
  fix k and i :: "addr \<times> addr"
  assume *: "LockupKeyToAddresses k = Some i"
  then have k: "length k = 42" "k ! 20 = keySeparator" "k ! 41 = keySeparator"
    and i: "i = (take 20 k, take 20 (drop 21 k))"
    by (auto simp: LockupKeyToAddresses_def Let_def split: if_splits)
  have "last k = keySeparator" using k by (cases k rule: rev_cases) (auto simp: nth_append)
  moreover have "butlast (drop 21 k) = take 20 (drop 21 k)" using k by (simp add: butlast_conv_take)
  ultimately have "k = LockupKey (take 20 k) (take 20 (drop 21 k))"
    using key_split [of 20 k keySeparator keySeparator] k by (simp add: LockupKey_def)
  then show "(case i of (d, v) \<Rightarrow> addr20 d \<and> addr20 v) \<and> k = (case i of (d, v) \<Rightarrow> LockupKey d v)"
    using k by (simp add: i addr20_def)
qed

interpretation unlocking_key: key_codec "\<lambda>(d, v, h). UnlockingLockupKey d v h"
  UnlockingLockupKeyToAddressesAtHeight "\<lambda>(d, v, h). addr20 d \<and> addr20 v \<and> is_i64 h"
proof
  fix i :: "addr \<times> addr \<times> int"
  assume "case i of (d, v, h) \<Rightarrow> addr20 d \<and> addr20 v \<and> is_i64 h"
  then show "UnlockingLockupKeyToAddressesAtHeight (case i of (d, v, h) \<Rightarrow> UnlockingLockupKey d v h) = Some i"
    by (cases i)
      (simp add: UnlockingLockupKeyToAddressesAtHeight_def UnlockingLockupKey_def addr20_def nth_append
        parseInt_itoa butlast_append)
qed

interpretation subscription_key: strict_key_codec "\<lambda>(d, u). UserSubscriptionKey d u"
  UserSubscriptionKeyToAddresses "\<lambda>(d, u). addr20 d"
proof
  fix i :: "addr \<times> string"
  assume "case i of (d, u) \<Rightarrow> addr20 d"
  then show "UserSubscriptionKeyToAddresses (case i of (d, u) \<Rightarrow> UserSubscriptionKey d u) = Some i"
    by (cases i)
      (simp add: UserSubscriptionKeyToAddresses_def UserSubscriptionKey_def addr20_def nth_append butlast_append)
next
  fix k and i :: "addr \<times> string"
  assume *: "UserSubscriptionKeyToAddresses k = Some i"
  then have k: "21 < length k" "k ! 20 = keySeparator" "last k = keySeparator"
    and i: "i = (take 20 k, butlast (drop 21 k))"
    by (auto simp: UserSubscriptionKeyToAddresses_def Let_def split: if_splits)
  then show "(case i of (d, u) \<Rightarrow> addr20 d) \<and> k = (case i of (d, u) \<Rightarrow> UserSubscriptionKey d u)"
    using key_split [of 20 k keySeparator keySeparator]
    by (simp add: addr20_def UserSubscriptionKey_def)
qed

interpretation developer_key: strict_key_codec DeveloperKey DeveloperKeyToAddress addr20
proof
  fix i :: addr
  assume "addr20 i"
  then show "DeveloperKeyToAddress (DeveloperKey i) = Some i"
    by (simp add: DeveloperKeyToAddress_def DeveloperKey_def addr20_def nth_append)
next
  fix k and i :: addr
  assume *: "DeveloperKeyToAddress k = Some i"
  then have "length k = 21" "k ! 20 = keySeparator" "i = take 20 k"
    by (auto simp: DeveloperKeyToAddress_def Let_def split: if_splits)
  then show "addr20 i \<and> k = DeveloperKey i"
    using snoc_split [of k 20 keySeparator] by (simp add: addr20_def DeveloperKey_def)
qed

section \<open>Messages\<close>

type_synonym coin = "string \<times> int"

definition validateAccAddr :: "sdk_codec \<Rightarrow> string \<Rightarrow> error option" where
  "validateAccAddr cd address = (case AccFromBech32 cd address of Inl _ \<Rightarrow> Some ErrInvalidAddress | Inr _ \<Rightarrow> None)"

definition validateValAddr :: "sdk_codec \<Rightarrow> string \<Rightarrow> error option" where
  "validateValAddr cd address = (case ValFromBech32 cd address of Inl _ \<Rightarrow> Some ErrInvalidAddress | Inr _ \<Rightarrow> None)"

definition validateDenom :: "coin_ops \<Rightarrow> coin \<Rightarrow> error option" where
  "validateDenom co stake =
     (if \<not> IsValidCoin co (fst stake) (snd stake) \<or> \<not> 0 < snd stake \<or> \<not> is_i64 (snd stake) then Some ErrInvalidDenom
      else if fst stake \<noteq> DefaultBondDenom then Some ErrInvalidDenom
      else None)"

definition MustValAddressFromBech32 :: "sdk_codec \<Rightarrow> string \<Rightarrow> error + addr" where
  "MustValAddressFromBech32 cd address =
     (case ValFromBech32 cd address of Inl e \<Rightarrow> Inl (Panic (PanicMsg ''val address'')) | Inr a \<Rightarrow> Inr a)"

definition MsgLock_ValidateBasic :: "sdk_codec \<Rightarrow> coin_ops \<Rightarrow> string \<Rightarrow> string \<Rightarrow> coin \<Rightarrow> error option" where
  "MsgLock_ValidateBasic cd co delegator validator stake =
     first_err [validateAccAddr cd delegator, validateValAddr cd validator, validateDenom co stake]"

definition MsgLockAuto_ValidateBasic :: "sdk_codec \<Rightarrow> coin_ops \<Rightarrow> string \<Rightarrow> coin \<Rightarrow> error option" where
  "MsgLockAuto_ValidateBasic cd co delegator stake =
     first_err [validateAccAddr cd delegator, validateDenom co stake]"

definition MsgUnlock_ValidateBasic :: "sdk_codec \<Rightarrow> coin_ops \<Rightarrow> string \<Rightarrow> string \<Rightarrow> coin \<Rightarrow> error option" where
  "MsgUnlock_ValidateBasic cd co delegator validator stake =
     first_err [validateAccAddr cd delegator, validateValAddr cd validator, validateDenom co stake]"

definition MsgCancelUnlocking_ValidateBasic :: "sdk_codec \<Rightarrow> coin_ops \<Rightarrow> string \<Rightarrow> string \<Rightarrow> coin \<Rightarrow> error option" where
  "MsgCancelUnlocking_ValidateBasic cd co delegator validator stake =
     first_err [validateAccAddr cd delegator, validateValAddr cd validator, validateDenom co stake]"

definition MsgRedelegate_ValidateBasic ::
  "sdk_codec \<Rightarrow> coin_ops \<Rightarrow> string \<Rightarrow> string \<Rightarrow> string \<Rightarrow> coin \<Rightarrow> error option" where
  "MsgRedelegate_ValidateBasic cd co delegator src dst stake =
     first_err
       [if src = dst then Some ErrInvalidAddress else None,
        validateAccAddr cd delegator, validateValAddr cd src, validateValAddr cd dst, validateDenom co stake]"

definition MsgCreateDeveloper_ValidateBasic :: "sdk_codec \<Rightarrow> string \<Rightarrow> error option" where
  "MsgCreateDeveloper_ValidateBasic cd developer = validateAccAddr cd developer"

definition MsgUpdateDeveloper_ValidateBasic :: "sdk_codec \<Rightarrow> string \<Rightarrow> error option" where
  "MsgUpdateDeveloper_ValidateBasic cd developer = validateAccAddr cd developer"

definition MsgRemoveDeveloper_ValidateBasic :: "sdk_codec \<Rightarrow> string \<Rightarrow> error option" where
  "MsgRemoveDeveloper_ValidateBasic cd developer = validateAccAddr cd developer"

definition user_did_err :: "string \<Rightarrow> error option" where
  "user_did_err did = (if length did \<le> 4 \<or> take 4 did \<noteq> ''did:'' then Some ErrInvalidDID else None)"

definition MsgAddUserSubscription_ValidateBasic ::
  "sdk_codec \<Rightarrow> string \<Rightarrow> string \<Rightarrow> int \<Rightarrow> int \<Rightarrow> error option" where
  "MsgAddUserSubscription_ValidateBasic cd developer did amount period =
     first_err
       [validateAccAddr cd developer, user_did_err did,
        if amount \<le> 0 then Some ErrInvalidAmount else None,
        if period \<le> 0 then Some ErrInvalidSubscriptionPeriod else None]"

definition MsgUpdateUserSubscription_ValidateBasic ::
  "sdk_codec \<Rightarrow> string \<Rightarrow> string \<Rightarrow> int \<Rightarrow> int \<Rightarrow> error option" where
  "MsgUpdateUserSubscription_ValidateBasic cd developer did amount period =
     first_err
       [validateAccAddr cd developer, user_did_err did,
        if amount \<le> 0 then Some ErrInvalidAmount else None,
        if period \<le> 0 then Some ErrInvalidSubscriptionPeriod else None]"

definition MsgRemoveUserSubscription_ValidateBasic :: "sdk_codec \<Rightarrow> string \<Rightarrow> string \<Rightarrow> error option" where
  "MsgRemoveUserSubscription_ValidateBasic cd developer did =
     first_err [validateAccAddr cd developer, user_did_err did]"

lemma validateDenom_None:
  assumes "coin_laws co"
  shows "validateDenom co stake = None \<longleftrightarrow> (\<exists>n>0. is_i64 n \<and> stake = (DefaultBondDenom, n))"
proof -
  have "valid_denom DefaultBondDenom"
    by (simp add: valid_denom_def DefaultBondDenom_def denom_char_def letter_def)
  then show ?thesis
    using coin_lawsD(6) [OF assms, of "fst stake" "snd stake"]
    by (cases stake) (auto simp: validateDenom_def)
qed

end
