(* ===== verification/Feegrant_Types.thy ===== *)
theory Feegrant_Types
  imports Sdk_Params
begin

text \<open>
  Allowances, grants and store keys of the feegrant module (\<open>x/feegrant\<close>).

  \<open>FeeAllowance\<close> is the interface \<open>FeeAllowanceI\<close> with its three implementations; \<open>Accept\<close> returns the
  flag \<open>remove\<close>, the error and the allowance as the method left it in memory. The locale
  \<open>fee_allowance\<close> states the contract of the interface (an expired allowance accepts nothing, an
  accepted fee is taken off the spend limit, the expiry is kept), and derives that the fees an
  allowance ever accepts stay within its limit; it is interpreted on each implementation.
  The key builders and parsers are interpreted as \<open>key_codec\<close>s.
\<close>

section \<open>Allowances\<close>

record BasicAllowance =
  SpendLimit :: "coins option"
  Expiration :: "time option"

record PeriodicAllowance =
  Basic :: BasicAllowance
  Period :: duration
  PeriodSpendLimit :: coins
  PeriodCanSpend :: coins
  PeriodReset :: time

text \<open>
  An allowance inside a protobuf \<open>Any\<close>: \<open>AnyNil\<close> is a nil pointer, \<open>AnyOther\<close> a value that is no fee
  allowance.
\<close>

datatype FeeAllowance =
    FBasic BasicAllowance
  | FPeriodic PeriodicAllowance
  | FAllowedMsg AnyAllowance "string list"
and AnyAllowance = AnyNil | AnyOther | AnyValue FeeAllowance

definition GetCachedAllowance :: "AnyAllowance \<Rightarrow> error + FeeAllowance" where
  "GetCachedAllowance any =
     (case any of
        AnyNil \<Rightarrow> Inl (Panic (PanicMsg ''nil pointer dereference''))
      | AnyOther \<Rightarrow> Inl ErrNoAllowance
      | AnyValue a \<Rightarrow> Inr a)"

text \<open>
  Marshalling an allowance fails when one of its timestamps is out of range; an \<open>Any\<close> already holds
  the bytes of its value, so it is packed when it is built (\<open>NewAnyWithValue\<close>).
\<close>

definition marshal_basic :: "sdk_codec \<Rightarrow> BasicAllowance \<Rightarrow> error option" where
  "marshal_basic cd a = (case Expiration a of None \<Rightarrow> None | Some e \<Rightarrow> StdTimeMarshal cd e)"

definition marshal_periodic :: "sdk_codec \<Rightarrow> PeriodicAllowance \<Rightarrow> error option" where
  "marshal_periodic cd a =
     (case StdTimeMarshal cd (PeriodReset a) of Some e \<Rightarrow> Some e | None \<Rightarrow> marshal_basic cd (Basic a))"

fun marshal_allowance :: "sdk_codec \<Rightarrow> FeeAllowance \<Rightarrow> error option" where
  "marshal_allowance cd (FBasic a) = marshal_basic cd a"
| "marshal_allowance cd (FPeriodic a) = marshal_periodic cd a"
| "marshal_allowance cd (FAllowedMsg any allowed) = None"

definition NewAnyWithValue :: "sdk_codec \<Rightarrow> FeeAllowance \<Rightarrow> error + AnyAllowance" where
  "NewAnyWithValue cd a = (case marshal_allowance cd a of Some e \<Rightarrow> Inl e | None \<Rightarrow> Inr (AnyValue a))"

definition NewAllowedMsgAllowance :: "sdk_codec \<Rightarrow> FeeAllowance \<Rightarrow> string list \<Rightarrow> error + FeeAllowance" where
  "NewAllowedMsgAllowance cd allowance allowedMsgs =
     bindE (NewAnyWithValue cd allowance) (\<lambda>any. Inr (FAllowedMsg any allowedMsgs))"

definition SetAllowance :: "sdk_codec \<Rightarrow> FeeAllowance \<Rightarrow> error + AnyAllowance" where
  "SetAllowance cd allowance =
     (case NewAnyWithValue cd allowance of Inl _ \<Rightarrow> Inl SdkErrPackAny | Inr any \<Rightarrow> Inr any)"

definition Basic_Accept :: "coin_ops \<Rightarrow> sdk_ctx \<Rightarrow> coins \<Rightarrow> BasicAllowance \<Rightarrow>
    bool \<times> error option \<times> BasicAllowance" where
  "Basic_Accept co ctx fee a =
     (if (case Expiration a of None \<Rightarrow> False | Some e \<Rightarrow> e < BlockTime ctx)
      then (True, Some ErrFeeLimitExpired, a)
      else
        case SpendLimit a of
          None \<Rightarrow> (False, None, a)
        | Some limit \<Rightarrow>
            (case SafeSubCoins co limit fee of
               (left, invalid) \<Rightarrow>
                 if invalid then (False, Some ErrFeeLimitExceeded, a)
                 else (IsZeroCoins co left, None, a\<lparr>SpendLimit := Some left\<rparr>)))"

definition Basic_ValidateBasic :: "coin_ops \<Rightarrow> BasicAllowance \<Rightarrow> error option" where
  "Basic_ValidateBasic co a =
     (case (case SpendLimit a of
              None \<Rightarrow> None
            | Some limit \<Rightarrow>
                if \<not> IsValidCoins co limit then Some SdkErrInvalidCoins
                else if \<not> IsAllPositive co limit then Some SdkErrInvalidCoins
                else None)
      of Some err \<Rightarrow> Some err
       | None \<Rightarrow>
           case Expiration a of
             None \<Rightarrow> None
           | Some e \<Rightarrow> if e div 10 ^ 9 < 0 then Some ErrInvalidDuration else None)"

definition Basic_ExpiresAt :: "BasicAllowance \<Rightarrow> error + time option" where
  "Basic_ExpiresAt a = Inr (Expiration a)"

definition nil_coins :: "coins option \<Rightarrow> coins" where
  "nil_coins x = (case x of None \<Rightarrow> [] | Some cs \<Rightarrow> cs)"

definition tryResetPeriod :: "coin_ops \<Rightarrow> time \<Rightarrow> PeriodicAllowance \<Rightarrow> PeriodicAllowance" where
  "tryResetPeriod co blockTime a =
     (if blockTime < PeriodReset a then a
      else
        let limit = nil_coins (SpendLimit (Basic a));
            isNeg = snd (SafeSubCoins co limit (PeriodSpendLimit a));
            a1 = (if isNeg \<and> limit \<noteq> [] then a\<lparr>PeriodCanSpend := limit\<rparr>
                  else a\<lparr>PeriodCanSpend := PeriodSpendLimit a\<rparr>);
            a2 = a1\<lparr>PeriodReset := PeriodReset a1 + Period a1\<rparr>
        in if PeriodReset a2 < blockTime then a2\<lparr>PeriodReset := blockTime + Period a2\<rparr> else a2)"

definition Periodic_Accept :: "coin_ops \<Rightarrow> sdk_ctx \<Rightarrow> coins \<Rightarrow> PeriodicAllowance \<Rightarrow>
    bool \<times> error option \<times> PeriodicAllowance" where
  "Periodic_Accept co ctx fee a =
     (if (case Expiration (Basic a) of None \<Rightarrow> False | Some e \<Rightarrow> e < BlockTime ctx)
      then (True, Some ErrFeeLimitExpired, a)
      else
        let a1 = tryResetPeriod co (BlockTime ctx) a in
        case SafeSubCoins co (PeriodCanSpend a1) fee of
          (canSpend, isNeg) \<Rightarrow>
            let a2 = a1\<lparr>PeriodCanSpend := canSpend\<rparr> in
            if isNeg then (False, Some ErrFeeLimitExceeded, a2)
            else
              case SpendLimit (Basic a2) of
                None \<Rightarrow> (False, None, a2)
              | Some limit \<Rightarrow>
                  (case SafeSubCoins co limit fee of
                     (left, neg) \<Rightarrow>
                       let a3 = a2\<lparr>Basic := (Basic a2)\<lparr>SpendLimit := Some left\<rparr>\<rparr> in
                       if neg then (False, Some ErrFeeLimitExceeded, a3)
                       else (IsZeroCoins co left, None, a3)))"

definition Periodic_ValidateBasic :: "coin_ops \<Rightarrow> PeriodicAllowance \<Rightarrow> error option" where
  "Periodic_ValidateBasic co a =
     (case Basic_ValidateBasic co (Basic a) of
        Some err \<Rightarrow> Some err
      | None \<Rightarrow>
          if \<not> IsValidCoins co (PeriodSpendLimit a) then Some SdkErrInvalidCoins
          else if \<not> IsAllPositive co (PeriodSpendLimit a) then Some SdkErrInvalidCoins
          else if \<not> IsValidCoins co (PeriodCanSpend a) then Some SdkErrInvalidCoins
          else if IsAnyNegative co (PeriodCanSpend a) then Some SdkErrInvalidCoins
          else if (case SpendLimit (Basic a) of
                     None \<Rightarrow> False
                   | Some limit \<Rightarrow> \<not> DenomsSubsetOf co (PeriodSpendLimit a) limit)
            then Some SdkErrInvalidCoins
          else if Period a < 0 then Some ErrInvalidDuration
          else None)"

definition Periodic_ExpiresAt :: "PeriodicAllowance \<Rightarrow> error + time option" where
  "Periodic_ExpiresAt a = Basic_ExpiresAt (Basic a)"

definition allowedMsgsToMap :: "string list \<Rightarrow> string \<Rightarrow> bool" where
  "allowedMsgsToMap allowed = (\<lambda>url. url \<in> set allowed)"

text \<open>Messages are given by their type URLs.\<close>

definition allMsgTypesAllowed :: "string list \<Rightarrow> string list \<Rightarrow> bool" where
  "allMsgTypesAllowed allowed msgs = list_all (allowedMsgsToMap allowed) msgs"

fun Accept :: "sdk_codec \<Rightarrow> coin_ops \<Rightarrow> sdk_ctx \<Rightarrow> coins \<Rightarrow> string list \<Rightarrow> FeeAllowance \<Rightarrow>
    bool \<times> error option \<times> FeeAllowance" where
  "Accept cd co ctx fee msgs (FBasic a) =
     (case Basic_Accept co ctx fee a of (remove, err, a') \<Rightarrow> (remove, err, FBasic a'))"
| "Accept cd co ctx fee msgs (FPeriodic a) =
     (case Periodic_Accept co ctx fee a of (remove, err, a') \<Rightarrow> (remove, err, FPeriodic a'))"
| "Accept cd co ctx fee msgs (FAllowedMsg any allowed) =
     (if \<not> allMsgTypesAllowed allowed msgs
      then (False, Some ErrMessageNotAllowed, FAllowedMsg any allowed)
      else
        case any of
          AnyNil \<Rightarrow> (False, Some (Panic (PanicMsg ''nil pointer dereference'')), FAllowedMsg any allowed)
        | AnyOther \<Rightarrow> (False, Some ErrNoAllowance, FAllowedMsg any allowed)
        | AnyValue a \<Rightarrow>
            (case Accept cd co ctx fee msgs a of
               (remove, err, a') \<Rightarrow>
                 if err = None \<and> \<not> remove then
                   (case SetAllowance cd a' of
                      Inl e \<Rightarrow> (False, Some e, FAllowedMsg (AnyValue a') allowed)
                    | Inr any' \<Rightarrow> (remove, err, FAllowedMsg any' allowed))
                 else (remove, err, FAllowedMsg (AnyValue a') allowed)))"

fun Allowance_ValidateBasic :: "coin_ops \<Rightarrow> FeeAllowance \<Rightarrow> error option" where
  "Allowance_ValidateBasic co (FBasic a) = Basic_ValidateBasic co a"
| "Allowance_ValidateBasic co (FPeriodic a) = Periodic_ValidateBasic co a"
| "Allowance_ValidateBasic co (FAllowedMsg any allowed) =
     (if any = AnyNil then Some ErrNoAllowance
      else if allowed = [] then Some ErrNoMessages
      else
        case any of
          AnyNil \<Rightarrow> Some (Panic (PanicMsg ''nil pointer dereference''))
        | AnyOther \<Rightarrow> Some ErrNoAllowance
        | AnyValue a \<Rightarrow> Allowance_ValidateBasic co a)"

fun ExpiresAt :: "FeeAllowance \<Rightarrow> error + time option" where
  "ExpiresAt (FBasic a) = Basic_ExpiresAt a"
| "ExpiresAt (FPeriodic a) = Periodic_ExpiresAt a"
| "ExpiresAt (FAllowedMsg any allowed) =
     (case any of
        AnyNil \<Rightarrow> Inl (Panic (PanicMsg ''nil pointer dereference''))
      | AnyOther \<Rightarrow> Inl ErrNoAllowance
      | AnyValue a \<Rightarrow> ExpiresAt a)"

section \<open>Grants\<close>

record Grant =
  Granter :: string
  Grantee :: string
  Allowance :: AnyAllowance

record DIDGrant =
  DIDGranter :: string
  GranteeDid :: string
  DIDAllowance :: AnyAllowance

definition NewGrant :: "sdk_codec \<Rightarrow> addr \<Rightarrow> addr \<Rightarrow> FeeAllowance \<Rightarrow> error + Grant" where
  "NewGrant cd granter grantee a =
     bindE (NewAnyWithValue cd a) (\<lambda>any.
     Inr \<lparr>Granter = AccString cd granter, Grantee = AccString cd grantee, Allowance = any\<rparr>)"

definition GetGrant :: "Grant \<Rightarrow> error + FeeAllowance" where
  "GetGrant g = GetCachedAllowance (Allowance g)"

definition Grant_ValidateBasic :: "coin_ops \<Rightarrow> Grant \<Rightarrow> error option" where
  "Grant_ValidateBasic co g =
     (if Granter g = '''' then Some SdkErrInvalidAddress
      else if Grantee g = '''' then Some SdkErrInvalidAddress
      else if Grantee g = Granter g then Some SdkErrInvalidAddress
      else case GetGrant g of Inl e \<Rightarrow> Some e | Inr f \<Rightarrow> Allowance_ValidateBasic co f)"

definition NewDIDGrant :: "sdk_codec \<Rightarrow> addr \<Rightarrow> string \<Rightarrow> FeeAllowance \<Rightarrow> error + DIDGrant" where
  "NewDIDGrant cd granter did a =
     bindE (NewAnyWithValue cd a) (\<lambda>any.
     Inr \<lparr>DIDGranter = AccString cd granter, GranteeDid = did, DIDAllowance = any\<rparr>)"

definition GetDIDGrant :: "DIDGrant \<Rightarrow> error + FeeAllowance" where
  "GetDIDGrant g = GetCachedAllowance (DIDAllowance g)"

definition bad_did :: "string \<Rightarrow> bool" where
  "bad_did did \<longleftrightarrow> length did \<le> 4 \<or> take 4 did \<noteq> ''did:''"

definition DIDGrant_ValidateBasic :: "coin_ops \<Rightarrow> DIDGrant \<Rightarrow> error option" where
  "DIDGrant_ValidateBasic co g =
     (if DIDGranter g = '''' then Some SdkErrInvalidAddress
      else if bad_did (GranteeDid g) then Some FgErrInvalidDID
      else case GetDIDGrant g of Inl e \<Rightarrow> Some e | Inr f \<Rightarrow> Allowance_ValidateBasic co f)"

section \<open>Keys\<close>

definition FeeAllowanceKeyPrefix :: bytes where "FeeAllowanceKeyPrefix = [CHR 0x00]"
definition FeeAllowanceQueueKeyPrefix :: bytes where "FeeAllowanceQueueKeyPrefix = [CHR 0x01]"
definition DIDFeeAllowanceKeyPrefix :: bytes where "DIDFeeAllowanceKeyPrefix = [CHR 0x02]"
definition DIDFeeAllowanceQueueKeyPrefix :: bytes where "DIDFeeAllowanceQueueKeyPrefix = [CHR 0x03]"

definition FeeAllowancePrefixByGrantee :: "sdk_codec \<Rightarrow> addr \<Rightarrow> error + bytes" where
  "FeeAllowancePrefixByGrantee cd grantee =
     bindE (MustLengthPrefix cd grantee) (\<lambda>b. Inr (FeeAllowanceKeyPrefix @ b))"

definition FeeAllowanceKey :: "sdk_codec \<Rightarrow> addr \<Rightarrow> addr \<Rightarrow> error + bytes" where
  "FeeAllowanceKey cd granter grantee =
     bindE (FeeAllowancePrefixByGrantee cd grantee) (\<lambda>p.
     bindE (MustLengthPrefix cd granter) (\<lambda>b. Inr (p @ b)))"

definition FeeAllowancePrefixByDID :: "sdk_codec \<Rightarrow> string \<Rightarrow> error + bytes" where
  "FeeAllowancePrefixByDID cd did =
     bindE (MustLengthPrefix cd did) (\<lambda>b. Inr (DIDFeeAllowanceKeyPrefix @ b))"

definition FeeAllowanceByDIDKey :: "sdk_codec \<Rightarrow> addr \<Rightarrow> string \<Rightarrow> error + bytes" where
  "FeeAllowanceByDIDKey cd granter did =
     bindE (FeeAllowancePrefixByDID cd did) (\<lambda>p.
     bindE (MustLengthPrefix cd granter) (\<lambda>b. Inr (p @ b)))"

definition AllowanceByExpTimeKey :: "sdk_codec \<Rightarrow> time \<Rightarrow> bytes" where
  "AllowanceByExpTimeKey cd exp = FeeAllowanceQueueKeyPrefix @ FormatTimeBytes cd exp"

definition FeeAllowancePrefixQueue :: "sdk_codec \<Rightarrow> time \<Rightarrow> bytes \<Rightarrow> bytes" where
  "FeeAllowancePrefixQueue cd exp key = AllowanceByExpTimeKey cd exp @ key"

definition DIDAllowanceByExpTimeKey :: "sdk_codec \<Rightarrow> time \<Rightarrow> bytes" where
  "DIDAllowanceByExpTimeKey cd exp = DIDFeeAllowanceQueueKeyPrefix @ FormatTimeBytes cd exp"

definition DIDFeeAllowancePrefixQueue :: "sdk_codec \<Rightarrow> time \<Rightarrow> bytes \<Rightarrow> bytes" where
  "DIDFeeAllowancePrefixQueue cd exp key = DIDAllowanceByExpTimeKey cd exp @ key"

definition parse_pair :: "sdk_codec \<Rightarrow> nat \<Rightarrow> bytes \<Rightarrow> error + (bytes \<times> bytes)" where
  "parse_pair cd start key =
     bindE (ParseLengthPrefixedBytes cd key start 1) (\<lambda>(len1, end1).
     bindE (ParseLengthPrefixedBytes cd key (end1 + 1) (of_char (hd len1))) (\<lambda>(first, end2).
     bindE (ParseLengthPrefixedBytes cd key (end2 + 1) 1) (\<lambda>(len2, end3).
     bindE (ParseLengthPrefixedBytes cd key (end3 + 1) (of_char (hd len2))) (\<lambda>(second, _).
     Inr (second, first)))))"

definition ParseAddressesFromFeeAllowanceKey :: "sdk_codec \<Rightarrow> bytes \<Rightarrow> error + (addr \<times> addr)" where
  "ParseAddressesFromFeeAllowanceKey cd key = parse_pair cd 1 key"

definition ParseAddressesFromFeeAllowanceQueueKey :: "sdk_codec \<Rightarrow> bytes \<Rightarrow> error + (addr \<times> addr)" where
  "ParseAddressesFromFeeAllowanceQueueKey cd key = parse_pair cd (1 + timeLen cd) key"

definition ParseGranterDIDFromFeeAllowanceKey :: "sdk_codec \<Rightarrow> bytes \<Rightarrow> error + (addr \<times> string)" where
  "ParseGranterDIDFromFeeAllowanceKey cd key = parse_pair cd 1 key"

definition ParseGranterDIDFromDIDAllowanceQueueKey :: "sdk_codec \<Rightarrow> bytes \<Rightarrow> error + (addr \<times> string)" where
  "ParseGranterDIDFromDIDAllowanceQueueKey cd key = parse_pair cd (1 + timeLen cd) key"

lemmas key_defs = FeeAllowancePrefixByGrantee_def FeeAllowanceKey_def FeeAllowancePrefixByDID_def
  FeeAllowanceByDIDKey_def AllowanceByExpTimeKey_def FeeAllowancePrefixQueue_def
  DIDAllowanceByExpTimeKey_def DIDFeeAllowancePrefixQueue_def FeeAllowanceKeyPrefix_def
  FeeAllowanceQueueKeyPrefix_def DIDFeeAllowanceKeyPrefix_def DIDFeeAllowanceQueueKeyPrefix_def

section \<open>Key round trips\<close>

text \<open>The part of a grant key after its prefix byte, and the index pairs for which it is defined.\<close>

definition pair_bytes :: "bytes \<Rightarrow> bytes \<Rightarrow> bytes" where
  "pair_bytes second first = char_of (length first) # first @ char_of (length second) # second"

definition pair_ok :: "bytes \<times> bytes \<Rightarrow> bool" where
  "pair_ok p \<longleftrightarrow> addr_ok (fst p) \<and> addr_ok (snd p)"

definition opt_of :: "error + 'a \<Rightarrow> 'a option" where
  "opt_of r = (case r of Inl _ \<Rightarrow> None | Inr x \<Rightarrow> Some x)"

lemma parse_pair_bytes:
  assumes "prefix_laws cd" and "addr_ok a" and "addr_ok b" and "length pre = n"
  shows "parse_pair cd n (pre @ pair_bytes a b) = Inr (a, b)"
proof -
  note P = prefix_lawsD(2) [OF assms(1)]
  have len: "0 < length a" "0 < length b" "length a < 256" "length b < 256"
    using assms(2,3) by (auto simp: addr_ok_def)
  show ?thesis
    using len assms(4)
    by (simp add: parse_pair_def pair_bytes_def P drop_Cons' split: if_splits)
qed

locale codec_spec =
  fixes cd :: sdk_codec
  assumes prefixes: "prefix_laws cd" and times: "time_laws cd" and addresses: "address_laws cd"
begin

lemma FeeAllowanceKey_ok:
  "addr_ok granter \<Longrightarrow> addr_ok grantee \<Longrightarrow> FeeAllowanceKey cd granter grantee = Inr (CHR 0x00 # pair_bytes granter grantee)"
  by (simp add: key_defs prefix_lawsD(1) [OF prefixes] pair_bytes_def)

lemma FeeAllowanceByDIDKey_ok:
  "addr_ok granter \<Longrightarrow> addr_ok did \<Longrightarrow> FeeAllowanceByDIDKey cd granter did = Inr (CHR 0x02 # pair_bytes granter did)"
  by (simp add: key_defs prefix_lawsD(1) [OF prefixes] pair_bytes_def)

lemma FeeAllowancePrefixByDID_ok:
  "addr_ok did \<Longrightarrow> FeeAllowancePrefixByDID cd did = Inr (CHR 0x02 # char_of (length did) # did)"
  by (simp add: key_defs prefix_lawsD(1) [OF prefixes])

end

sublocale codec_spec \<subseteq> did_key: key_codec
  "\<lambda>p. the (opt_of (FeeAllowanceByDIDKey cd (fst p) (snd p)))"
  "\<lambda>k. opt_of (ParseGranterDIDFromFeeAllowanceKey cd k)"
  pair_ok
proof
  fix p assume "pair_ok p"
  then show "opt_of (ParseGranterDIDFromFeeAllowanceKey cd (the (opt_of (FeeAllowanceByDIDKey cd (fst p) (snd p))))) = Some p"
    using parse_pair_bytes [OF prefixes, of "fst p" "snd p" "[CHR 0x02]" 1]
    by (simp add: FeeAllowanceByDIDKey_ok ParseGranterDIDFromFeeAllowanceKey_def pair_ok_def opt_of_def)
qed

sublocale codec_spec \<subseteq> fee_key: key_codec
  "\<lambda>p. the (opt_of (FeeAllowanceKey cd (fst p) (snd p)))"
  "\<lambda>k. opt_of (ParseAddressesFromFeeAllowanceKey cd k)"
  pair_ok
proof
  fix p assume "pair_ok p"
  then show "opt_of (ParseAddressesFromFeeAllowanceKey cd (the (opt_of (FeeAllowanceKey cd (fst p) (snd p))))) = Some p"
    using parse_pair_bytes [OF prefixes, of "fst p" "snd p" "[CHR 0x00]" 1]
    by (simp add: FeeAllowanceKey_ok ParseAddressesFromFeeAllowanceKey_def pair_ok_def opt_of_def)
qed

context codec_spec
begin

lemma pair_bytes_inj:
  "addr_ok a \<Longrightarrow> addr_ok b \<Longrightarrow> addr_ok a' \<Longrightarrow> addr_ok b' \<Longrightarrow>
   pair_bytes a b = pair_bytes a' b' \<longleftrightarrow> a = a' \<and> b = b'"
  using did_key.mk_inj [of "(a, b)" "(a', b')"]
  by (simp add: FeeAllowanceByDIDKey_ok opt_of_def pair_ok_def)

lemma queue_key_inj:
  "time_ok t \<Longrightarrow> time_ok u \<Longrightarrow>
   DIDFeeAllowancePrefixQueue cd t k = DIDFeeAllowancePrefixQueue cd u l \<longleftrightarrow> t = u \<and> k = l"
  using time_lawsD(1) [OF times] time_laws_inj [OF times, of t u]
  by (auto simp: key_defs)

lemma did_queue_parse:
  assumes "addr_ok granter" and "addr_ok did" and "time_ok t"
  shows "ParseGranterDIDFromDIDAllowanceQueueKey cd
           (DIDFeeAllowancePrefixQueue cd t (pair_bytes granter did)) = Inr (granter, did)"
  using parse_pair_bytes [OF prefixes assms(1,2), of "CHR 0x03 # FormatTimeBytes cd t"]
    time_lawsD(1) [OF times assms(3)]
  by (simp add: ParseGranterDIDFromDIDAllowanceQueueKey_def key_defs)

lemma fee_queue_parse:
  assumes "addr_ok granter" and "addr_ok grantee" and "time_ok t"
  shows "ParseAddressesFromFeeAllowanceQueueKey cd
           (FeeAllowancePrefixQueue cd t (pair_bytes granter grantee)) = Inr (granter, grantee)"
  using parse_pair_bytes [OF prefixes assms(1,2), of "CHR 0x01 # FormatTimeBytes cd t"]
    time_lawsD(1) [OF times assms(3)]
  by (simp add: ParseAddressesFromFeeAllowanceQueueKey_def key_defs)

text \<open>The scanned range of a prune at time \<open>now\<close> holds exactly the entries that expired before \<open>now\<close>.\<close>

lemma did_queue_range:
  assumes "time_ok t" and "time_ok now" and "addr_ok granter" and "addr_ok did"
  shows "DIDFeeAllowancePrefixQueue cd t (pair_bytes granter did)
           < InclusiveEndBytes cd (DIDAllowanceByExpTimeKey cd now) \<longleftrightarrow> t < now"
proof -
  have "0 < length did" "length did < 256" using assms(4) by (auto simp: addr_ok_def)
  then have "CHR 0x00 < (char_of (length did) :: char)" by (simp add: less_char_def)
  then have "\<not> pair_bytes granter did < [CHR 0x00]" by (simp add: pair_bytes_def)
  moreover have "length (FormatTimeBytes cd t) = length (FormatTimeBytes cd now)"
    using time_lawsD(1) [OF times] assms by simp
  ultimately show ?thesis
    using time_lawsD(2) [OF times assms(1,2)]
    by (simp add: key_defs prefix_lawsD(3) [OF prefixes] bytes_less_append)
qed

lemma fee_queue_range:
  assumes "time_ok t" and "time_ok now" and "addr_ok granter" and "addr_ok grantee"
  shows "FeeAllowancePrefixQueue cd t (pair_bytes granter grantee)
           < InclusiveEndBytes cd (AllowanceByExpTimeKey cd now) \<longleftrightarrow> t < now"
  using did_queue_range [OF assms] by (simp add: key_defs prefix_lawsD(3) [OF prefixes])

end

interpretation std_cd: codec_spec std_codec
  by unfold_locales (rule std_prefix_laws std_time_laws std_address_laws)+

section \<open>The contract of an allowance\<close>

text \<open>
  \<open>accepted acc rs a\<close> are the fees that allowance \<open>a\<close> pays for the requests \<open>rs\<close> when it is stored back
  after each accepted fee and dropped when \<open>Accept\<close> asks for it, as \<open>UseGrantedFees\<close> does.
\<close>

type_synonym request = "sdk_ctx \<times> coins \<times> string list"

fun accepted :: "(sdk_ctx \<Rightarrow> coins \<Rightarrow> string list \<Rightarrow> 'a \<Rightarrow> bool \<times> error option \<times> 'a) \<Rightarrow>
    request list \<Rightarrow> 'a \<Rightarrow> coins list" where
  "accepted acc [] a = []"
| "accepted acc ((ctx, fee, msgs) # rs) a =
     (case acc ctx fee msgs a of
        (remove, err, a') \<Rightarrow>
          (if err = None then [fee] else []) @
          (if remove then [] else accepted acc rs (if err = None then a' else a)))"

definition fee_total :: "string \<Rightarrow> coins list \<Rightarrow> int" where
  "fee_total d fees = sum_list (map (\<lambda>f. amountOf f d) fees)"

lemma fee_total_simps [simp]: "fee_total d [] = 0" "fee_total d (f # fs) = amountOf f d + fee_total d fs"
  "fee_total d (fs @ gs) = fee_total d fs + fee_total d gs"
  by (simp_all add: fee_total_def)

locale fee_allowance =
  fixes acc :: "sdk_ctx \<Rightarrow> coins \<Rightarrow> string list \<Rightarrow> 'a \<Rightarrow> bool \<times> error option \<times> 'a"
    and expiresAt :: "'a \<Rightarrow> error + time option"
    and limit :: "'a \<Rightarrow> coins option"
    and ok :: "'a \<Rightarrow> bool"
  assumes expired: "expiresAt a = Inr (Some t) \<Longrightarrow> t < BlockTime ctx \<Longrightarrow> fst (snd (acc ctx fee msgs a)) \<noteq> None"
    and keeps_expiry: "acc ctx fee msgs a = (r, None, a') \<Longrightarrow> expiresAt a' = expiresAt a"
    and accept_ok: "acc ctx fee msgs a = (r, None, a') \<Longrightarrow> ok a \<Longrightarrow> valid_coins fee \<Longrightarrow> ok a'"
    and accept_limit: "acc ctx fee msgs a = (r, None, a') \<Longrightarrow> ok a \<Longrightarrow> valid_coins fee \<Longrightarrow> limit a = Some l \<Longrightarrow>
           \<exists>l'. limit a' = Some l' \<and> (\<forall>d. amountOf l' d = amountOf l d - amountOf fee d)"
    and ok_limit: "ok a \<Longrightarrow> limit a = Some l \<Longrightarrow> 0 \<le> amountOf l d"
begin

lemma total_within_limit:
  assumes "ok a" and "limit a = Some l" and "\<forall>r\<in>set rs. valid_coins (fst (snd r))"
  shows "fee_total d (accepted acc rs a) \<le> amountOf l d"
  using assms
proof (induction rs arbitrary: a l)
  case Nil
  then show ?case by (simp add: ok_limit)
next
  case (Cons r rs)
  obtain ctx fee msgs where r: "r = (ctx, fee, msgs)" by (cases r)
  obtain rm err a' where acc: "acc ctx fee msgs a = (rm, err, a')" by (cases "acc ctx fee msgs a")
  show ?case
  proof (cases "err = None")
    case True
    then obtain l' where l': "limit a' = Some l'" "\<And>d. amountOf l' d = amountOf l d - amountOf fee d"
      and ok': "ok a'"
      using accept_limit [of ctx fee msgs a rm a' l] accept_ok [of ctx fee msgs a rm a'] acc Cons.prems r
      by auto
    then show ?thesis
      using True acc r Cons.IH [OF ok' l'(1)] Cons.prems(3) ok_limit [OF ok' l'(1), of d] by simp
  next
    case False
    then show ?thesis
      using acc r Cons.IH [of a l] Cons.prems ok_limit [of a l d] by auto
  qed
qed

lemma none_after_expiry:
  assumes "expiresAt a = Inr (Some t)" and "\<forall>r\<in>set rs. t < BlockTime (fst r)"
  shows "accepted acc rs a = []"
  using assms
proof (induction rs)
  case Nil
  then show ?case by simp
next
  case (Cons r rs)
  then show ?case using expired [of a t "fst r" "fst (snd r)" "snd (snd r)"]
    by (cases r) (auto split: prod.splits)
qed

end

definition limit_ok :: "coins option \<Rightarrow> bool" where
  "limit_ok x \<longleftrightarrow> (case x of None \<Rightarrow> True | Some l \<Rightarrow> coins_sorted l \<and> (\<forall>d. 0 \<le> amountOf l d))"

definition basic_ok :: "BasicAllowance \<Rightarrow> bool" where
  "basic_ok a \<longleftrightarrow> limit_ok (SpendLimit a)"

definition periodic_ok :: "PeriodicAllowance \<Rightarrow> bool" where
  "periodic_ok a \<longleftrightarrow>
     basic_ok (Basic a) \<and> limit_ok (Some (PeriodSpendLimit a)) \<and> limit_ok (Some (PeriodCanSpend a))"

fun allowance_ok :: "FeeAllowance \<Rightarrow> bool" where
  "allowance_ok (FBasic a) = basic_ok a"
| "allowance_ok (FPeriodic a) = periodic_ok a"
| "allowance_ok (FAllowedMsg any allowed) = (case any of AnyValue a \<Rightarrow> allowance_ok a | _ \<Rightarrow> True)"

fun limit_of :: "FeeAllowance \<Rightarrow> coins option" where
  "limit_of (FBasic a) = SpendLimit a"
| "limit_of (FPeriodic a) = SpendLimit (Basic a)"
| "limit_of (FAllowedMsg any allowed) = (case any of AnyValue a \<Rightarrow> limit_of a | _ \<Rightarrow> None)"

lemma limit_ok_simps [simp]:
  "limit_ok None" "limit_ok (Some l) \<longleftrightarrow> coins_sorted l \<and> (\<forall>d. 0 \<le> amountOf l d)"
  by (simp_all add: limit_ok_def)

lemma SetAllowance_Inr: "SetAllowance cd a = Inr any \<longleftrightarrow> any = AnyValue a \<and> marshal_allowance cd a = None"
  by (auto simp: SetAllowance_def NewAnyWithValue_def split: option.splits)

lemma tryResetPeriod_sel [simp]:
  "Basic (tryResetPeriod co t a) = Basic a"
  "PeriodSpendLimit (tryResetPeriod co t a) = PeriodSpendLimit a"
  "Period (tryResetPeriod co t a) = Period a"
  by (simp_all add: tryResetPeriod_def Let_def)

lemma tryResetPeriod_ok: "periodic_ok a \<Longrightarrow> periodic_ok (tryResetPeriod co t a)"
  by (auto simp: periodic_ok_def basic_ok_def tryResetPeriod_def Let_def nil_coins_def limit_ok_def
      coins_sorted_def split: option.splits)

locale coins_spec =
  fixes co :: coin_ops
  assumes laws: "coin_laws co"
begin

lemma SafeSub_limit:
  assumes "SafeSubCoins co l fee = (l', False)" and "limit_ok (Some l)" and "valid_coins fee"
  shows "limit_ok (Some l')" and "amountOf l' d = amountOf l d - amountOf fee d"
proof -
  note S = SafeSub_pos [OF laws _ valid_coins_sorted [OF assms(3)] assms(1)]
  show "limit_ok (Some l')" using S assms(2) by auto
  show "amountOf l' d = amountOf l d - amountOf fee d" using S assms(2) by auto
qed

lemma Basic_accepted:
  assumes "Basic_Accept co ctx fee a = (r, None, a')"
  shows "Expiration a' = Expiration a"
    and "basic_ok a \<Longrightarrow> valid_coins fee \<Longrightarrow> basic_ok a'"
    and "basic_ok a \<Longrightarrow> valid_coins fee \<Longrightarrow> SpendLimit a = Some l \<Longrightarrow>
         \<exists>l'. SpendLimit a' = Some l' \<and> (\<forall>d. amountOf l' d = amountOf l d - amountOf fee d)"
  using assms SafeSub_limit
  by (auto simp: Basic_Accept_def basic_ok_def split: if_splits option.splits prod.splits; blast)+

lemma Periodic_accepted:
  assumes "Periodic_Accept co ctx fee a = (r, None, a')"
  shows "Expiration (Basic a') = Expiration (Basic a)"
    and "periodic_ok a \<Longrightarrow> valid_coins fee \<Longrightarrow> periodic_ok a'"
    and "periodic_ok a \<Longrightarrow> valid_coins fee \<Longrightarrow> SpendLimit (Basic a) = Some l \<Longrightarrow>
         \<exists>l'. SpendLimit (Basic a') = Some l' \<and> (\<forall>d. amountOf l' d = amountOf l d - amountOf fee d)"
proof -
  let ?a = "tryResetPeriod co (BlockTime ctx) a"
  obtain c where c: "SafeSubCoins co (PeriodCanSpend ?a) fee = (c, False)"
    and a': "(SpendLimit (Basic a) = None \<and> a' = ?a\<lparr>PeriodCanSpend := c\<rparr>) \<or>
      (\<exists>l l'. SpendLimit (Basic a) = Some l \<and> SafeSubCoins co l fee = (l', False) \<and>
        a' = ?a\<lparr>PeriodCanSpend := c, Basic := (Basic a)\<lparr>SpendLimit := Some l'\<rparr>\<rparr>)"
    using assms by (auto simp: Periodic_Accept_def Let_def split: if_splits option.splits prod.splits)
  show "Expiration (Basic a') = Expiration (Basic a)" using a' by auto
  show "periodic_ok a'" if "periodic_ok a" "valid_coins fee"
    using a' that tryResetPeriod_ok [OF that(1), of co "BlockTime ctx"] SafeSub_limit(1) [OF c] SafeSub_limit(1) [OF _ _ that(2)]
    by (auto simp: periodic_ok_def basic_ok_def)
  show "\<exists>l'. SpendLimit (Basic a') = Some l' \<and> (\<forall>d. amountOf l' d = amountOf l d - amountOf fee d)"
    if "periodic_ok a" "valid_coins fee" "SpendLimit (Basic a) = Some l"
    using a' that SafeSub_limit(2) [OF _ _ that(2)] by (auto simp: periodic_ok_def basic_ok_def)
qed

lemma Accept_accepted:
  "Accept cd co ctx fee msgs a = (r, None, a') \<Longrightarrow> ExpiresAt a' = ExpiresAt a"
  "Accept cd co ctx fee msgs a = (r, None, a') \<Longrightarrow> allowance_ok a \<Longrightarrow> valid_coins fee \<Longrightarrow> allowance_ok a'"
  "Accept cd co ctx fee msgs a = (r, None, a') \<Longrightarrow> allowance_ok a \<Longrightarrow> valid_coins fee \<Longrightarrow> limit_of a = Some l \<Longrightarrow>
   \<exists>l'. limit_of a' = Some l' \<and> (\<forall>d. amountOf l' d = amountOf l d - amountOf fee d)"
  by (induction a arbitrary: a' l rule: ExpiresAt.induct)
    (auto simp: Basic_ExpiresAt_def Periodic_ExpiresAt_def Basic_accepted Periodic_accepted SetAllowance_Inr
      split: sum.splits prod.splits if_splits AnyAllowance.splits)

end

lemma Basic_expired: "Expiration a = Some t \<Longrightarrow> t < BlockTime ctx \<Longrightarrow> Basic_Accept co ctx fee a = (True, Some ErrFeeLimitExpired, a)"
  by (simp add: Basic_Accept_def)

lemma Periodic_expired:
  "Expiration (Basic a) = Some t \<Longrightarrow> t < BlockTime ctx \<Longrightarrow> Periodic_Accept co ctx fee a = (True, Some ErrFeeLimitExpired, a)"
  by (simp add: Periodic_Accept_def)

lemma Accept_expired:
  "ExpiresAt a = Inr (Some t) \<Longrightarrow> t < BlockTime ctx \<Longrightarrow> fst (snd (Accept cd co ctx fee msgs a)) \<noteq> None"
  by (induction a rule: ExpiresAt.induct)
    (auto simp: Basic_ExpiresAt_def Periodic_ExpiresAt_def Basic_expired Periodic_expired
      split: prod.splits AnyAllowance.splits)

lemma basic_ok_limit: "basic_ok a \<Longrightarrow> SpendLimit a = Some l \<Longrightarrow> 0 \<le> amountOf l d"
  by (simp add: basic_ok_def)

lemma periodic_ok_limit: "periodic_ok a \<Longrightarrow> SpendLimit (Basic a) = Some l \<Longrightarrow> 0 \<le> amountOf l d"
  by (simp add: basic_ok_def periodic_ok_def)

lemma allowance_ok_limit: "allowance_ok a \<Longrightarrow> limit_of a = Some l \<Longrightarrow> 0 \<le> amountOf l d"
  by (induction a rule: ExpiresAt.induct)
    (auto simp: basic_ok_def periodic_ok_def split: AnyAllowance.splits)

sublocale coins_spec \<subseteq> basic: fee_allowance
  "\<lambda>ctx fee msgs. Basic_Accept co ctx fee" Basic_ExpiresAt SpendLimit basic_ok
  by unfold_locales (auto simp: Basic_expired Basic_accepted Basic_ExpiresAt_def basic_ok_limit)

sublocale coins_spec \<subseteq> periodic: fee_allowance
  "\<lambda>ctx fee msgs. Periodic_Accept co ctx fee" Periodic_ExpiresAt "\<lambda>a. SpendLimit (Basic a)" periodic_ok
  by unfold_locales
    (auto simp: Periodic_expired Periodic_accepted Periodic_ExpiresAt_def Basic_ExpiresAt_def
      periodic_ok_limit)

sublocale coins_spec \<subseteq> any: fee_allowance "Accept cd co" ExpiresAt limit_of allowance_ok
  by unfold_locales (rule Accept_expired Accept_accepted allowance_ok_limit; assumption)+

interpretation std_co: coins_spec std_coins
  by unfold_locales (rule std_coins_laws)

end
