(* ===== verification/Epochs.thy ===== *)
theory Epochs
  imports Vera_Prelude
begin

text \<open>
  The epochs module (\<open>x/epochs\<close>): named timers that tick in \<open>BeginBlocker\<close> and call the hooks of
  other modules. \<open>EpochInfo\<close> is the record of a timer, \<open>epoch_store\<close> the prefix store of the
  keeper, \<open>EpochHooks\<close> the hook interface; a hook runs in a cached context that is dropped when it
  returns an error or panics (\<open>applyFunc\<close>).

  \<open>epoch_tick\<close> is the specification of one timer in one block. In the locale \<open>epoch_hooks\<close> (hooks
  leave the timers alone) \<open>BeginBlocker\<close> is shown to apply it to every stored timer; the lemmas on
  \<open>epoch_tick\<close> then give the invariant of a timer and how it catches up after a halt.
\<close>

section \<open>Data\<close>

record EpochInfo =
  Identifier :: string
  StartTime :: time
  Duration :: duration
  CurrentEpoch :: int
  CurrentEpochStartTime :: time
  EpochCountingStarted :: bool
  CurrentEpochStartHeight :: int

definition zero_EpochInfo :: EpochInfo where
  "zero_EpochInfo =
     \<lparr>Identifier = '''', StartTime = zero_time, Duration = 0, CurrentEpoch = 0,
      CurrentEpochStartTime = zero_time, EpochCountingStarted = False, CurrentEpochStartHeight = 0\<rparr>"

record epochs_state = base_state +
  epoch_store :: "EpochInfo kv"

definition KeyPrefixEpoch :: bytes where
  "KeyPrefixEpoch = [CHR 0x01]"

definition epochKey :: "string \<Rightarrow> bytes" where
  "epochKey identifier = KeyPrefixEpoch @ identifier"

definition Second :: duration where "Second = 10 ^ 9"
definition Hour :: duration where "Hour = 3600 * Second"

definition NewGenesisEpochInfo :: "string \<Rightarrow> duration \<Rightarrow> EpochInfo" where
  "NewGenesisEpochInfo identifier dur =
     \<lparr>Identifier = identifier, StartTime = zero_time, Duration = dur, CurrentEpoch = 0,
      CurrentEpochStartTime = zero_time, EpochCountingStarted = False, CurrentEpochStartHeight = 0\<rparr>"

definition DefaultGenesis :: "EpochInfo list" where
  "DefaultGenesis =
     [NewGenesisEpochInfo ''day'' (Hour * 24),
      NewGenesisEpochInfo ''hour'' Hour,
      NewGenesisEpochInfo ''week'' (Hour * 24 * 7)]"

definition EpochInfo_Validate :: "EpochInfo \<Rightarrow> error option" where
  "EpochInfo_Validate e =
     (if Identifier e = '''' then Some (ErrStd ''epoch identifier should NOT be empty'')
      else if Duration e = 0 then Some (ErrStd ''epoch duration should NOT be 0'')
      else if CurrentEpoch e < 0 then Some (ErrStd ''epoch CurrentEpoch must be non-negative'')
      else if CurrentEpochStartHeight e < 0
        then Some (ErrStd ''epoch CurrentEpochStartHeight must be non-negative'')
      else None)"

fun validate_epochs :: "EpochInfo list \<Rightarrow> string set \<Rightarrow> error option" where
  "validate_epochs [] seen = None"
| "validate_epochs (e # es) seen =
     (case EpochInfo_Validate e of
        Some err \<Rightarrow> Some err
      | None \<Rightarrow>
          if Identifier e \<in> seen then Some (ErrStd ''epoch identifier should be unique'')
          else validate_epochs es (insert (Identifier e) seen))"

definition GenesisState_Validate :: "EpochInfo list \<Rightarrow> error option" where
  "GenesisState_Validate es = validate_epochs es {}"

section \<open>Keeper\<close>

definition GetEpochInfo :: "string \<Rightarrow> 'z epochs_state_scheme \<Rightarrow> EpochInfo" where
  "GetEpochInfo identifier s =
     (case kv_get (epoch_store s) (epochKey identifier) of
        None \<Rightarrow> zero_EpochInfo
      | Some e \<Rightarrow> e)"

definition SetEpochInfo :: "EpochInfo \<Rightarrow> ('z epochs_state_scheme, unit) M" where
  "SetEpochInfo e =
     modifyM (\<lambda>s. s\<lparr>epoch_store := kv_set (epochKey (Identifier e)) e (epoch_store s)\<rparr>)"

definition AddEpochInfo :: "sdk_ctx \<Rightarrow> EpochInfo \<Rightarrow> ('z epochs_state_scheme, unit) M" where
  "AddEpochInfo ctx epoch =
     (case EpochInfo_Validate epoch of
        Some err \<Rightarrow> fail err
      | None \<Rightarrow>
          bindM (getM (GetEpochInfo (Identifier epoch))) (\<lambda>old.
          if old \<noteq> zero_EpochInfo then fail (ErrStd ''epoch with identifier already exists'')
          else
            let e1 = (if StartTime epoch = zero_time then epoch\<lparr>StartTime := BlockTime ctx\<rparr> else epoch)
            in SetEpochInfo (e1\<lparr>CurrentEpochStartHeight := BlockHeight ctx\<rparr>)))"

definition DeleteEpochInfo :: "string \<Rightarrow> ('z epochs_state_scheme, unit) M" where
  "DeleteEpochInfo identifier =
     modifyM (\<lambda>s. s\<lparr>epoch_store := kv_del (epochKey identifier) (epoch_store s)\<rparr>)"

fun iter_epochs :: "(int \<Rightarrow> EpochInfo \<Rightarrow> ('s, bool) M) \<Rightarrow> int \<Rightarrow> EpochInfo kv \<Rightarrow> ('s, unit) M" where
  "iter_epochs fn i [] = ret ()"
| "iter_epochs fn i (p # ps) =
     bindM (fn i (snd p)) (\<lambda>stop. if stop then ret () else iter_epochs fn (i + 1) ps)"

definition IterateEpochInfo ::
  "(int \<Rightarrow> EpochInfo \<Rightarrow> ('z epochs_state_scheme, bool) M) \<Rightarrow> ('z epochs_state_scheme, unit) M" where
  "IterateEpochInfo fn =
     bindM (getM (\<lambda>s. kv_prefix KeyPrefixEpoch (epoch_store s))) (iter_epochs fn 0)"

definition AllEpochInfos :: "'z epochs_state_scheme \<Rightarrow> EpochInfo list" where
  "AllEpochInfos s = map snd (kv_prefix KeyPrefixEpoch (epoch_store s))"

definition NumBlocksSinceEpochStart :: "sdk_ctx \<Rightarrow> string \<Rightarrow> 'z epochs_state_scheme \<Rightarrow> error + int" where
  "NumBlocksSinceEpochStart ctx identifier s =
     (let epoch = GetEpochInfo identifier s in
      if epoch = zero_EpochInfo then Inl (ErrStd ''epoch with identifier not found'')
      else Inr (i64 (BlockHeight ctx - CurrentEpochStartHeight epoch)))"

definition Epochs_InitGenesis :: "sdk_ctx \<Rightarrow> EpochInfo list \<Rightarrow> ('z epochs_state_scheme, unit) M" where
  "Epochs_InitGenesis ctx es =
     forM es (\<lambda>e. bindM (tryM (AddEpochInfo ctx e)) (\<lambda>r.
       case r of Inl err \<Rightarrow> panicM ''AddEpochInfo'' | Inr _ \<Rightarrow> ret ()))"

definition Epochs_ExportGenesis :: "'z epochs_state_scheme \<Rightarrow> EpochInfo list" where
  "Epochs_ExportGenesis s = AllEpochInfos s"

definition QueryCurrentEpoch :: "string option \<Rightarrow> 'z epochs_state_scheme \<Rightarrow> error + int" where
  "QueryCurrentEpoch req s =
     (case req of
        None \<Rightarrow> Inl (ErrStd ''empty request'')
      | Some identifier \<Rightarrow>
          if identifier = '''' then Inl (ErrStd ''identifier is empty'')
          else
            let info = GetEpochInfo identifier s in
            if Identifier info \<noteq> identifier then Inl (ErrStd ''not available identifier'')
            else Inr (CurrentEpoch info))"

section \<open>Hooks\<close>

record 's EpochHooks =
  AfterEpochEnd :: "sdk_ctx \<Rightarrow> string \<Rightarrow> int \<Rightarrow> ('s, unit) M"
  BeforeEpochStart :: "sdk_ctx \<Rightarrow> string \<Rightarrow> int \<Rightarrow> ('s, unit) M"
  GetModuleName :: string

fun IsOutOfGasError :: "error \<Rightarrow> bool" where
  "IsOutOfGasError (Panic PanicOutOfGas) = True"
| "IsOutOfGasError (Panic PanicGasOverflow) = True"
| "IsOutOfGasError _ = False"

text \<open>
  \<open>applyFunc\<close> runs its argument in a cached context: the writes are committed only when it returns no
  error; a panic is recovered into an error, except the two out-of-gas panics, which go on.
\<close>

definition applyFunc :: "('s, unit) M \<Rightarrow> ('s, error option) M" where
  "applyFunc f s =
     (case f s of
        (Inr _, t) \<Rightarrow> (Inr None, t)
      | (Inl e, t) \<Rightarrow>
          if IsOutOfGasError e then (Inl e, s)
          else if is_panic e then (Inr (Some (ErrStd ''panic occurred during execution'')), s)
          else (Inr (Some e), s))"

definition panicCatchingEpochHook :: "(sdk_ctx \<Rightarrow> string \<Rightarrow> int \<Rightarrow> ('s, unit) M) \<Rightarrow>
    sdk_ctx \<Rightarrow> string \<Rightarrow> int \<Rightarrow> ('s, unit) M" where
  "panicCatchingEpochHook hookFn ctx identifier n = bindM (applyFunc (hookFn ctx identifier n)) (\<lambda>_. ret ())"

definition Multi_AfterEpochEnd :: "'s EpochHooks list \<Rightarrow> sdk_ctx \<Rightarrow> string \<Rightarrow> int \<Rightarrow> ('s, unit) M" where
  "Multi_AfterEpochEnd hooks ctx identifier n =
     forM hooks (\<lambda>h. panicCatchingEpochHook (AfterEpochEnd h) ctx identifier n)"

definition Multi_BeforeEpochStart :: "'s EpochHooks list \<Rightarrow> sdk_ctx \<Rightarrow> string \<Rightarrow> int \<Rightarrow> ('s, unit) M" where
  "Multi_BeforeEpochStart hooks ctx identifier n =
     forM hooks (\<lambda>h. panicCatchingEpochHook (BeforeEpochStart h) ctx identifier n)"

text \<open>The keeper drops the error the hooks return.\<close>

definition Keeper_AfterEpochEnd :: "'s EpochHooks list \<Rightarrow> sdk_ctx \<Rightarrow> string \<Rightarrow> int \<Rightarrow> ('s, unit) M" where
  "Keeper_AfterEpochEnd hooks ctx identifier n =
     bindM (tryM (Multi_AfterEpochEnd hooks ctx identifier n)) (\<lambda>_. ret ())"

definition Keeper_BeforeEpochStart :: "'s EpochHooks list \<Rightarrow> sdk_ctx \<Rightarrow> string \<Rightarrow> int \<Rightarrow> ('s, unit) M" where
  "Keeper_BeforeEpochStart hooks ctx identifier n =
     bindM (tryM (Multi_BeforeEpochStart hooks ctx identifier n)) (\<lambda>_. ret ())"

section \<open>BeginBlocker\<close>

definition epoch_end_event :: "EpochInfo \<Rightarrow> event" where
  "epoch_end_event e = (''epoch_end'', [(''epoch_number'', itoa (CurrentEpoch e))])"

definition epoch_start_event :: "EpochInfo \<Rightarrow> event" where
  "epoch_start_event e =
     (''epoch_start'', [(''epoch_number'', itoa (CurrentEpoch e)),
                        (''start_time'', itoa (CurrentEpochStartTime e div 10 ^ 9))])"

definition begin_block_epoch :: "'z epochs_state_scheme EpochHooks list \<Rightarrow> sdk_ctx \<Rightarrow> EpochInfo \<Rightarrow>
    ('z epochs_state_scheme, bool) M" where
  "begin_block_epoch hooks ctx epochInfo =
     (if BlockTime ctx < StartTime epochInfo then ret False
      else
        let shouldInitialEpochStart = (\<not> EpochCountingStarted epochInfo);
            epochEndTime = CurrentEpochStartTime epochInfo + Duration epochInfo;
            shouldEpochStart = (epochEndTime < BlockTime ctx \<or> shouldInitialEpochStart)
        in
        if \<not> shouldEpochStart then ret False
        else
          let e0 = epochInfo\<lparr>CurrentEpochStartHeight := BlockHeight ctx\<rparr> in
          bindM
            (if shouldInitialEpochStart then
               ret (e0\<lparr>EpochCountingStarted := True, CurrentEpoch := 1,
                       CurrentEpochStartTime := StartTime e0\<rparr>)
             else
               thenM (EmitEvent (epoch_end_event e0))
               (thenM (Keeper_AfterEpochEnd hooks ctx (Identifier e0) (CurrentEpoch e0))
               (ret (e0\<lparr>CurrentEpoch := i64 (CurrentEpoch e0 + 1),
                        CurrentEpochStartTime := CurrentEpochStartTime e0 + Duration e0\<rparr>))))
          (\<lambda>e1.
             thenM (EmitEvent (epoch_start_event e1))
             (thenM (SetEpochInfo e1)
             (thenM (Keeper_BeforeEpochStart hooks ctx (Identifier e1) (CurrentEpoch e1))
             (ret False)))))"

definition Epochs_BeginBlocker ::
  "'z epochs_state_scheme EpochHooks list \<Rightarrow> sdk_ctx \<Rightarrow> ('z epochs_state_scheme, unit) M" where
  "Epochs_BeginBlocker hooks ctx = IterateEpochInfo (\<lambda>index epochInfo. begin_block_epoch hooks ctx epochInfo)"

section \<open>Specification of a timer\<close>

definition epoch_due :: "time \<Rightarrow> EpochInfo \<Rightarrow> bool" where
  "epoch_due now e \<longleftrightarrow>
     StartTime e \<le> now \<and>
     (\<not> EpochCountingStarted e \<or> CurrentEpochStartTime e + Duration e < now)"

definition epoch_tick :: "sdk_ctx \<Rightarrow> EpochInfo \<Rightarrow> EpochInfo" where
  "epoch_tick ctx e =
     (if \<not> epoch_due (BlockTime ctx) e then e
      else if EpochCountingStarted e then
        e\<lparr>CurrentEpochStartHeight := BlockHeight ctx, CurrentEpoch := i64 (CurrentEpoch e + 1),
          CurrentEpochStartTime := CurrentEpochStartTime e + Duration e\<rparr>
      else
        e\<lparr>CurrentEpochStartHeight := BlockHeight ctx, EpochCountingStarted := True, CurrentEpoch := 1,
          CurrentEpochStartTime := StartTime e\<rparr>)"

definition epochs_wf :: "EpochInfo kv \<Rightarrow> bool" where
  "epochs_wf st \<longleftrightarrow> kv_ok st \<and> (\<forall>p\<in>set st. fst p = epochKey (Identifier (snd p)))"

definition tick_store :: "sdk_ctx \<Rightarrow> EpochInfo kv \<Rightarrow> EpochInfo kv" where
  "tick_store ctx st = map (\<lambda>p. (fst p, epoch_tick ctx (snd p))) st"

fun tick_run :: "sdk_ctx list \<Rightarrow> EpochInfo \<Rightarrow> EpochInfo" where
  "tick_run [] e = e"
| "tick_run (c # cs) e = tick_run cs (epoch_tick c e)"

definition init_epoch :: "sdk_ctx \<Rightarrow> EpochInfo \<Rightarrow> EpochInfo" where
  "init_epoch ctx e =
     e\<lparr>StartTime := (if StartTime e = zero_time then BlockTime ctx else StartTime e),
       CurrentEpochStartHeight := BlockHeight ctx\<rparr>"

text \<open>The begin blocks of a chain of blocks.\<close>

definition Epochs_blocks :: "'z epochs_state_scheme EpochHooks list \<Rightarrow> sdk_ctx list \<Rightarrow>
    ('z epochs_state_scheme, unit) M" where
  "Epochs_blocks hooks ctxs = forM ctxs (Epochs_BeginBlocker hooks)"

text \<open>A running timer: its current epoch number and the start of that epoch agree.\<close>

definition epoch_ok :: "EpochInfo \<Rightarrow> bool" where
  "epoch_ok e \<longleftrightarrow>
     0 < Duration e \<and>
     (EpochCountingStarted e \<longrightarrow>
        1 \<le> CurrentEpoch e \<and>
        CurrentEpochStartTime e = StartTime e + (CurrentEpoch e - 1) * Duration e)"

section \<open>Timers\<close>

lemma epoch_tick_sel [simp]:
  "Identifier (epoch_tick ctx e) = Identifier e"
  "StartTime (epoch_tick ctx e) = StartTime e"
  "Duration (epoch_tick ctx e) = Duration e"
  by (simp_all add: epoch_tick_def)

lemma epoch_tick_idle: "\<not> epoch_due (BlockTime ctx) e \<Longrightarrow> epoch_tick ctx e = e"
  by (simp add: epoch_tick_def)

lemma epoch_tick_ok:
  assumes "epoch_ok e" and "is_i64 (CurrentEpoch e + 1)"
  shows "epoch_ok (epoch_tick ctx e)"
  using assms by (auto simp: epoch_ok_def epoch_tick_def algebra_simps)

lemma epoch_tick_started:
  "EpochCountingStarted e \<or> StartTime e \<le> BlockTime ctx \<Longrightarrow> EpochCountingStarted (epoch_tick ctx e)"
  by (auto simp: epoch_tick_def epoch_due_def)

lemma epoch_tick_step:
  assumes "EpochCountingStarted e" and "is_i64 (CurrentEpoch e + 1)"
  shows "CurrentEpoch (epoch_tick ctx e) =
           CurrentEpoch e + (if epoch_due (BlockTime ctx) e then 1 else 0)"
  using assms by (simp add: epoch_tick_def)

lemma tick_run_append: "tick_run (xs @ ys) e = tick_run ys (tick_run xs e)"
  by (induction xs arbitrary: e) auto

lemma tick_run_sel [simp]:
  "Identifier (tick_run cs e) = Identifier e"
  "StartTime (tick_run cs e) = StartTime e"
  "Duration (tick_run cs e) = Duration e"
  by (induction cs arbitrary: e) auto

lemma tick_run_ok:
  assumes "epoch_ok e" and "EpochCountingStarted e" and "CurrentEpoch e + int (length cs) < 2 ^ 63"
  shows "epoch_ok (tick_run cs e) \<and> EpochCountingStarted (tick_run cs e) \<and>
         CurrentEpoch e \<le> CurrentEpoch (tick_run cs e) \<and>
         CurrentEpoch (tick_run cs e) \<le> CurrentEpoch e + int (length cs)"
  using assms
proof (induction cs arbitrary: e)
  case Nil
  then show ?case by simp
next
  case (Cons c cs)
  have i: "is_i64 (CurrentEpoch e + 1)" using Cons.prems by (simp add: is_i64_def epoch_ok_def)
  note ok = epoch_tick_ok [OF Cons.prems(1) i, of c]
  have st: "EpochCountingStarted (epoch_tick c e)" using Cons.prems by (simp add: epoch_tick_started)
  have ce: "CurrentEpoch e \<le> CurrentEpoch (epoch_tick c e)"
    "CurrentEpoch (epoch_tick c e) \<le> CurrentEpoch e + 1"
    using epoch_tick_step [OF Cons.prems(2) i, of c] by auto
  show ?case using Cons.IH [OF ok st] ce Cons.prems(3) by simp
qed

text \<open>
  Blocks whose times are all at least \<open>T\<close> move a running timer forward, one epoch a block, until the
  end of its current epoch is no earlier than \<open>T\<close>.
\<close>

lemma tick_run_catch_up:
  assumes "epoch_ok e" and "EpochCountingStarted e" and "StartTime e \<le> T"
    and "\<forall>c\<in>set cs. T \<le> BlockTime c"
    and "CurrentEpoch e + int (length cs) < 2 ^ 63"
    and "T - CurrentEpochStartTime e \<le> (int (length cs) + 1) * Duration e"
  shows "T \<le> CurrentEpochStartTime (tick_run cs e) + Duration e"
  using assms
proof (induction cs arbitrary: e)
  case Nil
  then show ?case by simp
next
  case (Cons c cs)
  have i: "is_i64 (CurrentEpoch e + 1)" using Cons.prems by (simp add: is_i64_def epoch_ok_def)
  have ok: "epoch_ok (epoch_tick c e)" "EpochCountingStarted (epoch_tick c e)"
    using epoch_tick_ok [OF Cons.prems(1) i] Cons.prems by (auto simp: epoch_tick_started)
  have len: "CurrentEpoch (epoch_tick c e) + int (length cs) < 2 ^ 63"
    using epoch_tick_step [OF Cons.prems(2) i, of c] Cons.prems(5) by (simp split: if_splits)
  have D: "0 < Duration e" using Cons.prems(1) by (simp add: epoch_ok_def)
  have "T - CurrentEpochStartTime (epoch_tick c e) \<le> (int (length cs) + 1) * Duration e"
  proof (cases "epoch_due (BlockTime c) e")
    case True
    with Cons.prems show ?thesis by (simp add: epoch_tick_def algebra_simps)
  next
    case False
    then have "T - CurrentEpochStartTime e \<le> Duration e"
      using Cons.prems by (auto simp: epoch_due_def)
    moreover have "Duration e \<le> (int (length cs) + 1) * Duration e" using D by simp
    ultimately show ?thesis using False by (simp add: epoch_tick_idle)
  qed
  then show ?case using Cons.IH [OF ok] Cons.prems len by simp
qed

section \<open>Hook isolation\<close>

lemma applyFunc_cases:
  assumes "applyFunc f s = (r, t)"
  obtains (ok) "f s = (Inr (), t)" "r = Inr None"
  | (dropped) e u where "f s = (Inl e, u)" "\<not> IsOutOfGasError e" "t = s" "\<exists>e'. r = Inr (Some e')"
  | (gas) e u where "f s = (Inl e, u)" "IsOutOfGasError e" "t = s" "r = Inl e"
  using assms by (auto simp: applyFunc_def split: prod.splits sum.splits if_splits)

lemma applyFunc_dropped:
  "f s = (Inl e, u) \<Longrightarrow> \<not> IsOutOfGasError e \<Longrightarrow> \<exists>e'. applyFunc f s = (Inr (Some e'), s)"
  by (auto simp: applyFunc_def)

lemma keeps_applyFunc [keeps_rules]: "keeps P f \<Longrightarrow> keeps P (applyFunc f)"
  by (rule keepsI) (auto elim!: applyFunc_cases dest: keepsD_Inr)

lemma IsOutOfGasError_panic: "IsOutOfGasError e \<Longrightarrow> is_panic e"
  by (cases e) auto

lemma panicCatching_Inl:
  "panicCatchingEpochHook f ctx i n s = (Inl e, t) \<Longrightarrow> IsOutOfGasError e"
  by (auto simp: panicCatchingEpochHook_def bindM_def applyFunc_def
      split: prod.splits sum.splits if_splits)

lemma panicCatching_dropped:
  "f ctx i n s = (Inl e, u) \<Longrightarrow> \<not> IsOutOfGasError e \<Longrightarrow> panicCatchingEpochHook f ctx i n s = (Inr (), s)"
  using applyFunc_dropped [of "f ctx i n"] by (fastforce simp: panicCatchingEpochHook_def m_step)

lemma panicCatching_ok:
  "f ctx i n s = (Inr (), u) \<Longrightarrow> panicCatchingEpochHook f ctx i n s = (Inr (), u)"
  by (simp add: panicCatchingEpochHook_def bindM_def applyFunc_def)

lemma forM_Inl:
  assumes "\<forall>x s e t. f x s = (Inl e, t) \<longrightarrow> Q e" and "forM xs f s = (Inl e, t)"
  shows "Q e"
  using assms
proof (induction xs arbitrary: s)
  case Nil
  then show ?case by (simp add: forM_def)
next
  case (Cons x xs)
  then show ?case
    by (cases "f x s") (fastforce simp: forM_def bindM_def split: sum.splits)
qed

lemma Multi_AfterEpochEnd_Inl:
  "Multi_AfterEpochEnd hooks ctx i n s = (Inl e, t) \<Longrightarrow> IsOutOfGasError e"
  unfolding Multi_AfterEpochEnd_def by (rule forM_Inl [rotated]) (auto dest: panicCatching_Inl)

lemma Multi_BeforeEpochStart_Inl:
  "Multi_BeforeEpochStart hooks ctx i n s = (Inl e, t) \<Longrightarrow> IsOutOfGasError e"
  unfolding Multi_BeforeEpochStart_def by (rule forM_Inl [rotated]) (auto dest: panicCatching_Inl)

lemma tryM_ret_Inl:
  "bindM (tryM m) (\<lambda>_. ret ()) s = (Inl e, t) \<Longrightarrow> m s = (Inl e, t)"
  by (auto simp: bindM_def tryM_def split: prod.splits sum.splits if_splits)

lemma Keeper_hooks_Inl:
  "Keeper_AfterEpochEnd hooks ctx i n s = (Inl e, t) \<Longrightarrow> IsOutOfGasError e"
  "Keeper_BeforeEpochStart hooks ctx i n s = (Inl e, t) \<Longrightarrow> IsOutOfGasError e"
  by (auto simp: Keeper_AfterEpochEnd_def Keeper_BeforeEpochStart_def
      dest!: tryM_ret_Inl Multi_AfterEpochEnd_Inl Multi_BeforeEpochStart_Inl)

lemma begin_block_epoch_Inl:
  "begin_block_epoch hooks ctx e0 s = (Inl e, t) \<Longrightarrow> IsOutOfGasError e"
  by (auto simp: begin_block_epoch_def bindM_def thenM_def Let_def SetEpochInfo_def
      split: if_splits prod.splits sum.splits dest: Keeper_hooks_Inl)

lemma iter_epochs_Inl:
  assumes "\<forall>i x s e t. fn i x s = (Inl e, t) \<longrightarrow> Q e" and "iter_epochs fn i ps s = (Inl e, t)"
  shows "Q e"
  using assms
proof (induction ps arbitrary: i s)
  case Nil
  then show ?case by simp
next
  case (Cons p ps)
  then show ?case
    by (cases "fn i (snd p) s") (fastforce simp: bindM_def split: sum.splits if_splits)
qed

lemma BeginBlocker_Inl:
  "Epochs_BeginBlocker hooks ctx s = (Inl e, t) \<Longrightarrow> IsOutOfGasError e"
  unfolding Epochs_BeginBlocker_def IterateEpochInfo_def bindM_getM
  by (rule iter_epochs_Inl [rotated]) (auto dest: begin_block_epoch_Inl)

section \<open>BeginBlocker ticks every timer\<close>

lemma kv_set_here: "kv_ok (pre @ p # ps) \<Longrightarrow> kv_set (fst p) v (pre @ p # ps) = pre @ (fst p, v) # ps"
  by (induction pre) fastforce+

lemma tick_store_simps [simp]:
  "tick_store ctx [] = []"
  "tick_store ctx (p # st) = (fst p, epoch_tick ctx (snd p)) # tick_store ctx st"
  by (simp_all add: tick_store_def)

lemma map_fst_tick_store [simp]: "map fst (tick_store ctx st) = map fst st"
  by (induction st) auto

lemma epochs_wf_tick: "epochs_wf st \<Longrightarrow> epochs_wf (tick_store ctx st)"
  by (auto simp: epochs_wf_def kv_ok_def tick_store_def comp_def)

lemma epochs_wf_prefix: "epochs_wf st \<Longrightarrow> kv_prefix KeyPrefixEpoch st = st"
  by (auto simp: epochs_wf_def kv_prefix_def epochKey_def filter_id_conv)

locale epoch_hooks =
  fixes hooks :: "'z epochs_state_scheme EpochHooks list"
  assumes after_frame:
      "h \<in> set hooks \<Longrightarrow> keeps (\<lambda>s. epoch_store s = st) (AfterEpochEnd h ctx identifier n)"
    and before_frame:
      "h \<in> set hooks \<Longrightarrow> keeps (\<lambda>s. epoch_store s = st) (BeforeEpochStart h ctx identifier n)"
begin

lemma Keeper_hooks_frame:
  "keeps (\<lambda>s. epoch_store s = st) (Keeper_AfterEpochEnd hooks ctx identifier n)"
  "keeps (\<lambda>s. epoch_store s = st) (Keeper_BeforeEpochStart hooks ctx identifier n)"
  unfolding Keeper_AfterEpochEnd_def Keeper_BeforeEpochStart_def Multi_AfterEpochEnd_def
    Multi_BeforeEpochStart_def panicCatchingEpochHook_def
  by (intro keeps_rules after_frame before_frame; assumption)+

lemma Keeper_hooks_store:
  "Keeper_AfterEpochEnd hooks ctx i n s = (Inr x, t) \<Longrightarrow> epoch_store t = epoch_store s"
  "Keeper_BeforeEpochStart hooks ctx i n s = (Inr x, t) \<Longrightarrow> epoch_store t = epoch_store s"
  using Keeper_hooks_frame by (blast dest: keepsD_Inr)+

lemma begin_block_epoch_store:
  assumes "begin_block_epoch hooks ctx e s = (Inr b, t)"
  shows "\<not> b"
    and "epoch_store t =
           (if epoch_due (BlockTime ctx) e
            then kv_set (epochKey (Identifier e)) (epoch_tick ctx e) (epoch_store s)
            else epoch_store s)"
  using assms
  by (auto simp: begin_block_epoch_def Let_def bindM_Inr_iff thenM_Inr_iff epoch_due_def epoch_tick_def
      SetEpochInfo_def split: if_splits dest!: Keeper_hooks_store)

lemma iter_epochs_store:
  assumes "epochs_wf (pre @ ps)" and "epoch_store s = pre @ ps"
    and "iter_epochs (\<lambda>i. begin_block_epoch hooks ctx) i ps s = (Inr (), t)"
  shows "epoch_store t = pre @ tick_store ctx ps"
  using assms
proof (induction ps arbitrary: pre i s)
  case Nil
  then show ?case by simp
next
  case (Cons p ps)
  obtain b u where run: "begin_block_epoch hooks ctx (snd p) s = (Inr b, u)"
    and rest: "iter_epochs (\<lambda>i. begin_block_epoch hooks ctx) (i + 1) ps u = (Inr (), t)"
    using Cons.prems(3) begin_block_epoch_store(1)
    by (fastforce simp: bindM_Inr_iff split: if_splits)
  let ?q = "(fst p, epoch_tick ctx (snd p))"
  have key: "fst p = epochKey (Identifier (snd p))" using Cons.prems(1) by (simp add: epochs_wf_def)
  have "epoch_store u = (pre @ [?q]) @ ps"
    using begin_block_epoch_store(2) [OF run] Cons.prems(1,2) kv_set_here [of pre p ps]
    by (simp add: epoch_tick_idle epochs_wf_def flip: key)
  moreover have "epochs_wf ((pre @ [?q]) @ ps)"
    using Cons.prems(1) by (auto simp: epochs_wf_def kv_ok_def)
  ultimately show ?case using Cons.IH [OF _ _ rest] by fastforce
qed

lemma BeginBlocker_store:
  assumes "epochs_wf (epoch_store s)" and "Epochs_BeginBlocker hooks ctx s = (Inr (), t)"
  shows "epoch_store t = tick_store ctx (epoch_store s)"
  using iter_epochs_store [of "[]" "epoch_store s" s] assms
  by (simp add: Epochs_BeginBlocker_def IterateEpochInfo_def epochs_wf_prefix)

lemma blocks_store:
  assumes "epochs_wf (epoch_store s)" and "Epochs_blocks hooks ctxs s = (Inr (), t)"
  shows "epoch_store t = map (\<lambda>p. (fst p, tick_run ctxs (snd p))) (epoch_store s)"
  using assms
proof (induction ctxs arbitrary: s)
  case Nil
  then show ?case by (simp add: Epochs_blocks_def forM_def)
next
  case (Cons c cs)
  from Cons.prems(2) obtain u where run: "Epochs_BeginBlocker hooks c s = (Inr (), u)"
    and rest: "Epochs_blocks hooks cs u = (Inr (), t)"
    by (auto simp: Epochs_blocks_def forM_def bindM_Inr_iff)
  have st: "epoch_store u = tick_store c (epoch_store s)"
    using Cons.prems(1) run by (rule BeginBlocker_store)
  then have "epochs_wf (epoch_store u)" using Cons.prems(1) by (simp add: epochs_wf_tick)
  from Cons.IH [OF this rest] show ?case by (simp add: st tick_store_def)
qed

lemma blocks_get:
  assumes "epochs_wf (epoch_store s)" and "Epochs_blocks hooks ctxs s = (Inr (), t)"
    and "kv_get (epoch_store s) (epochKey i) = Some e"
  shows "GetEpochInfo i t = tick_run ctxs e"
  using blocks_store [OF assms(1,2)] assms(3) by (simp add: GetEpochInfo_def kv_get_map)

end

section \<open>Genesis\<close>

lemma epochKey_inj [simp]: "epochKey i = epochKey j \<longleftrightarrow> i = j"
  by (simp add: epochKey_def)

lemma AddEpochInfo_fresh:
  assumes "EpochInfo_Validate e = None" and "kv_get (epoch_store s) (epochKey (Identifier e)) = None"
  shows "AddEpochInfo ctx e s =
           (Inr (), s\<lparr>epoch_store := kv_set (epochKey (Identifier e)) (init_epoch ctx e) (epoch_store s)\<rparr>)"
  using assms by (simp add: AddEpochInfo_def GetEpochInfo_def SetEpochInfo_def init_epoch_def Let_def)

lemma AddEpochInfo_duplicate:
  assumes "EpochInfo_Validate e = None" and "kv_get (epoch_store s) (epochKey (Identifier e)) = Some e'"
    and "Identifier e' = Identifier e"
  shows "AddEpochInfo ctx e s = (Inl (ErrStd ''epoch with identifier already exists''), s)"
proof -
  have "Identifier e \<noteq> ''''" using assms(1) by (auto simp: EpochInfo_Validate_def split: if_splits)
  then have "e' \<noteq> zero_EpochInfo" using assms(3) by (auto simp: zero_EpochInfo_def)
  then show ?thesis using assms by (simp add: AddEpochInfo_def GetEpochInfo_def)
qed

lemma init_epoch_Identifier [simp]: "Identifier (init_epoch ctx e) = Identifier e"
  by (simp add: init_epoch_def)

lemma InitGenesis_run:
  assumes "validate_epochs es seen = None" and "kv_ok (epoch_store s)"
    and "\<forall>p\<in>set (epoch_store s). \<exists>i\<in>seen. fst p = epochKey i"
  shows "\<exists>t. Epochs_InitGenesis ctx es s = (Inr (), t) \<and> kv_ok (epoch_store t) \<and>
             set (epoch_store t) =
               set (epoch_store s) \<union> (\<lambda>e. (epochKey (Identifier e), init_epoch ctx e)) ` set es"
  using assms
proof (induction es arbitrary: seen s)
  case Nil
  then show ?case by (simp add: Epochs_InitGenesis_def forM_def)
next
  case (Cons e es)
  from Cons.prems(1) have v: "EpochInfo_Validate e = None" and new: "Identifier e \<notin> seen"
    and rest: "validate_epochs es (insert (Identifier e) seen) = None"
    by (auto split: option.splits if_splits)
  let ?k = "epochKey (Identifier e)"
  let ?u = "s\<lparr>epoch_store := kv_set ?k (init_epoch ctx e) (epoch_store s)\<rparr>"
  have none: "kv_get (epoch_store s) ?k = None"
    using Cons.prems(3) new by (fastforce simp: kv_get_None_iff)
  have set_u: "set (epoch_store ?u) = insert (?k, init_epoch ctx e) (set (epoch_store s))"
    using none by (simp add: set_kv_set_fresh)
  then have "\<forall>p\<in>set (epoch_store ?u). \<exists>i\<in>insert (Identifier e) seen. fst p = epochKey i"
    using Cons.prems(3) by auto
  from Cons.IH [OF rest _ this] obtain t where
    t: "Epochs_InitGenesis ctx es ?u = (Inr (), t)" "kv_ok (epoch_store t)"
      "set (epoch_store t) =
         set (epoch_store ?u) \<union> (\<lambda>e. (epochKey (Identifier e), init_epoch ctx e)) ` set es"
    using Cons.prems(2) by auto
  have "Epochs_InitGenesis ctx (e # es) s = Epochs_InitGenesis ctx es ?u"
    using AddEpochInfo_fresh [OF v none, of ctx]
    by (simp add: Epochs_InitGenesis_def forM_def bindM_def tryM_def)
  then show ?case using t set_u by auto
qed

section \<open>Properties\<close>

lemma forM_append: "forM (xs @ ys) f s = (case forM xs f s of (Inl e, t) \<Rightarrow> (Inl e, t) | (Inr _, t) \<Rightarrow> forM ys f t)"
  by (simp add: forM_def foldM_append bindM_def split: prod.splits sum.splits)

text \<open>The two lists of hooks run the same way; \<open>hook\<close> selects the method.\<close>

definition run_hooks :: "('s EpochHooks \<Rightarrow> sdk_ctx \<Rightarrow> string \<Rightarrow> int \<Rightarrow> ('s, unit) M) \<Rightarrow> 's EpochHooks list \<Rightarrow>
    sdk_ctx \<Rightarrow> string \<Rightarrow> int \<Rightarrow> ('s, unit) M" where
  "run_hooks hook hooks ctx i n = forM hooks (\<lambda>h. panicCatchingEpochHook (hook h) ctx i n)"

lemma Multi_run_hooks:
  "Multi_AfterEpochEnd = run_hooks AfterEpochEnd" "Multi_BeforeEpochStart = run_hooks BeforeEpochStart"
  by (simp_all add: fun_eq_iff run_hooks_def Multi_AfterEpochEnd_def Multi_BeforeEpochStart_def)

lemma panicCatching_out_of_gas:
  "hookFn ctx i n s = (Inl e, t) \<Longrightarrow> IsOutOfGasError e \<Longrightarrow> panicCatchingEpochHook hookFn ctx i n s = (Inl e, s)"
  by (simp add: panicCatchingEpochHook_def applyFunc_def bindM_def)

lemma run_hooks_failing:
  assumes "run_hooks hook pre ctx i n s = (Inr (), u)" and "hook h ctx i n u = (Inl e, v)"
  shows "run_hooks hook (pre @ h # post) ctx i n s =
    (if IsOutOfGasError e then (Inl e, u) else run_hooks hook (pre @ post) ctx i n s)"
proof -
  have "run_hooks hook (h # post) ctx i n u =
      (if IsOutOfGasError e then (Inl e, u) else run_hooks hook post ctx i n u)"
    using panicCatching_dropped [of "hook h", OF assms(2)] panicCatching_out_of_gas [of "hook h", OF assms(2)]
    by (auto simp: run_hooks_def forM_def m_step)
  then show ?thesis using assms(1) by (simp add: run_hooks_def forM_append)
qed

text \<open>C14: A hook of either kind that returns an error or panics leaves no trace: the remaining hooks run as
  if it were not registered. The exception is a panic for lack of gas, which is raised again after the
  writes of the hook have been dropped, so that no later hook runs.\<close>

theorem failing_hook_isolated:
  "(Multi_AfterEpochEnd pre ctx i n s = (Inr (), u) \<longrightarrow> AfterEpochEnd h ctx i n u = (Inl e, v) \<longrightarrow>
     Multi_AfterEpochEnd (pre @ h # post) ctx i n s =
       (if IsOutOfGasError e then (Inl e, u) else Multi_AfterEpochEnd (pre @ post) ctx i n s)) \<and>
   (Multi_BeforeEpochStart pre ctx i n s = (Inr (), u) \<longrightarrow> BeforeEpochStart h ctx i n u = (Inl e, v) \<longrightarrow>
     Multi_BeforeEpochStart (pre @ h # post) ctx i n s =
       (if IsOutOfGasError e then (Inl e, u) else Multi_BeforeEpochStart (pre @ post) ctx i n s))"
  by (simp add: Multi_run_hooks run_hooks_failing)

definition demo_ctx :: "int \<Rightarrow> sdk_ctx" where
  "demo_ctx t = \<lparr>BlockTime = t, BlockHeight = 1, ExtractedDID = ''''\<rparr>"

definition demo_hook :: "error option \<Rightarrow> epochs_state EpochHooks" where
  "demo_hook err =
     \<lparr>AfterEpochEnd = (\<lambda>ctx i n. thenM (EmitEvent (i, [])) (case err of None \<Rightarrow> ret () | Some e \<Rightarrow> fail e)),
      BeforeEpochStart = (\<lambda>ctx i n. thenM (EmitEvent (i, [])) (case err of None \<Rightarrow> ret () | Some e \<Rightarrow> fail e)),
      GetModuleName = ''demo''\<rparr>"

definition demo_epochs :: epochs_state where
  "demo_epochs = \<lparr>events = [], epoch_store = []\<rparr>"

theorem failing_hook_isolated_witness:
  "Multi_AfterEpochEnd [demo_hook None, demo_hook (Some (Panic (PanicMsg ''boom'')))] (demo_ctx 5) ''day'' 1 demo_epochs
     = (Inr (), \<lparr>events = [(''day'', [])], epoch_store = []\<rparr>) \<and>
   Multi_BeforeEpochStart [demo_hook None, demo_hook (Some (ErrStd ''failed''))] (demo_ctx 5) ''day'' 1 demo_epochs
     = (Inr (), \<lparr>events = [(''day'', [])], epoch_store = []\<rparr>) \<and>
   Multi_BeforeEpochStart [demo_hook None, demo_hook (Some (Panic PanicOutOfGas))] (demo_ctx 5) ''day'' 1 demo_epochs
     = (Inl (Panic PanicOutOfGas), \<lparr>events = [(''day'', [])], epoch_store = []\<rparr>)"
proof -
  let ?u = "\<lparr>events = [(''day'', [])], epoch_store = []\<rparr> :: epochs_state"
  have run: "Multi_AfterEpochEnd [demo_hook None] (demo_ctx 5) ''day'' 1 demo_epochs = (Inr (), ?u)"
    "Multi_BeforeEpochStart [demo_hook None] (demo_ctx 5) ''day'' 1 demo_epochs = (Inr (), ?u)"
    by (simp_all add: Multi_run_hooks run_hooks_def forM_def panicCatchingEpochHook_def applyFunc_def
        demo_hook_def demo_epochs_def bindM_def thenM_def)
  have fails: "AfterEpochEnd (demo_hook (Some e)) (demo_ctx 5) ''day'' 1 ?u = (Inl e, ?u\<lparr>events := [(''day'', []), (''day'', [])]\<rparr>)"
    "BeforeEpochStart (demo_hook (Some e)) (demo_ctx 5) ''day'' 1 ?u = (Inl e, ?u\<lparr>events := [(''day'', []), (''day'', [])]\<rparr>)" for e
    by (simp_all add: demo_hook_def thenM_def bindM_def)
  have "Multi_AfterEpochEnd [demo_hook None, demo_hook (Some e)] (demo_ctx 5) ''day'' 1 demo_epochs =
       (if IsOutOfGasError e then (Inl e, ?u) else (Inr (), ?u)) \<and>
     Multi_BeforeEpochStart [demo_hook None, demo_hook (Some e)] (demo_ctx 5) ''day'' 1 demo_epochs =
       (if IsOutOfGasError e then (Inl e, ?u) else (Inr (), ?u))" for e
    using failing_hook_isolated [of "[demo_hook None]" "demo_ctx 5" "''day''" 1 demo_epochs ?u "demo_hook (Some e)" e _ "[]"]
      run fails [of e] by simp
  then show ?thesis by simp
qed

text \<open>A genesis that passes \<open>Validate\<close> is imported without a panic into an empty store, and the
  export afterwards holds exactly its timers, with the start height and a missing start time filled
  in from the block.\<close>

theorem epochs_genesis_roundtrip:
  assumes "GenesisState_Validate es = None" and "epoch_store s = []"
  shows "\<exists>t. Epochs_InitGenesis ctx es s = (Inr (), t) \<and>
             set (Epochs_ExportGenesis t) = init_epoch ctx ` set es \<and> epochs_wf (epoch_store t)"
proof -
  obtain t where t: "Epochs_InitGenesis ctx es s = (Inr (), t)" "kv_ok (epoch_store t)"
    "set (epoch_store t) = (\<lambda>e. (epochKey (Identifier e), init_epoch ctx e)) ` set es"
    using InitGenesis_run [of es "{}" s ctx] assms by (auto simp: GenesisState_Validate_def)
  then have wf: "epochs_wf (epoch_store t)" by (auto simp: epochs_wf_def)
  then have "set (Epochs_ExportGenesis t) = init_epoch ctx ` set es"
    using t(3) by (simp add: Epochs_ExportGenesis_def AllEpochInfos_def epochs_wf_prefix image_image)
  then show ?thesis using t(1) wf by blast
qed

theorem epochs_genesis_roundtrip_witness:
  "\<exists>t. Epochs_InitGenesis (demo_ctx 7) DefaultGenesis demo_epochs = (Inr (), t) \<and>
       set (Epochs_ExportGenesis t) = init_epoch (demo_ctx 7) ` set DefaultGenesis \<and> epochs_wf (epoch_store t)"
  by (rule epochs_genesis_roundtrip)
    (simp_all add: DefaultGenesis_def NewGenesisEpochInfo_def GenesisState_Validate_def
      EpochInfo_Validate_def Hour_def Second_def demo_epochs_def)

end
