(* ===== verification/Feegrant_Keeper.thy ===== *)
theory Feegrant_Keeper
  imports Feegrant_Types Epochs
begin

text \<open>
  The keeper of the feegrant module (\<open>x/feegrant/keeper\<close>), its message server, genesis and end
  blocker. The module store is split by prefix byte into four prefix stores: grants to accounts and
  grants to DIDs, and the two pruning queues ordered by expiry. \<open>ext\<close> is the state of the external
  keepers (auth, bank, staking, distribution), which the model only reaches through parameters.

  \<open>did_queue_inv\<close> says that the DID queue holds exactly one entry for every DID grant that expires;
  every DID operation keeps it, and under it pruning removes exactly the expired grants.
\<close>

record 'x feegrant_state = epochs_state +
  fg_allowances :: "Grant kv"
  fg_queue :: "unit kv"
  fg_did_allowances :: "DIDGrant kv"
  fg_did_queue :: "unit kv"
  ext :: 'x

text \<open>
  The account and bank keepers: \<open>HasAccount\<close> is \<open>GetAccount\<close> compared with nil, \<open>SetNewAccount\<close> is
  \<open>NewAccountWithAddress\<close> followed by \<open>SetAccount\<close>.
\<close>

record 'x fg_keepers =
  HasAccount :: "addr \<Rightarrow> 'x \<Rightarrow> bool"
  BlockedAddr :: "addr \<Rightarrow> bool"
  SetNewAccount :: "addr \<Rightarrow> ('x, unit) M"

definition extM :: "('x, 'a) M \<Rightarrow> (('x, 'z) feegrant_state_scheme, 'a) M" where
  "extM m s = (case m (ext s) of (r, x) \<Rightarrow> (r, s\<lparr>ext := x\<rparr>))"

definition expired_at :: "sdk_ctx \<Rightarrow> time option \<Rightarrow> bool" where
  "expired_at ctx exp = (case exp of None \<Rightarrow> False | Some e \<Rightarrow> e < BlockTime ctx)"

text \<open>A call of \<open>Accept\<close>: a panic inside it unwinds the caller.\<close>

definition acceptM :: "sdk_codec \<Rightarrow> coin_ops \<Rightarrow> sdk_ctx \<Rightarrow> coins \<Rightarrow> string list \<Rightarrow> FeeAllowance \<Rightarrow>
    ('s, bool \<times> error option \<times> FeeAllowance) M" where
  "acceptM cd co ctx fee msgs a =
     (case Accept cd co ctx fee msgs a of
        (remove, err, a') \<Rightarrow>
          (case err of
             None \<Rightarrow> ret (remove, None, a')
           | Some e \<Rightarrow> if is_panic e then fail e else ret (remove, Some e, a')))"

section \<open>Grants to accounts\<close>

definition getGrant :: "sdk_codec \<Rightarrow> addr \<Rightarrow> addr \<Rightarrow> ('x, 'z) feegrant_state_scheme \<Rightarrow> error + Grant" where
  "getGrant cd granter grantee s =
     bindE (FeeAllowanceKey cd granter grantee) (\<lambda>key.
     case kv_get (fg_allowances s) key of None \<Rightarrow> Inl SdkErrNotFound | Some g \<Rightarrow> Inr g)"

definition GetAllowance :: "sdk_codec \<Rightarrow> addr \<Rightarrow> addr \<Rightarrow> ('x, 'z) feegrant_state_scheme \<Rightarrow> error + FeeAllowance" where
  "GetAllowance cd granter grantee s = bindE (getGrant cd granter grantee s) GetGrant"

definition addToFeeAllowanceQueue :: "sdk_codec \<Rightarrow> bytes \<Rightarrow> time \<Rightarrow> (('x, 'z) feegrant_state_scheme, unit) M" where
  "addToFeeAllowanceQueue cd grantKey exp =
     modifyM (\<lambda>s. s\<lparr>fg_queue := kv_set (FeeAllowancePrefixQueue cd exp grantKey) () (fg_queue s)\<rparr>)"

definition grant_event :: "string \<Rightarrow> string \<Rightarrow> string \<Rightarrow> event" where
  "grant_event ty granter grantee = (ty, [(''granter'', granter), (''grantee'', grantee)])"

definition did_event :: "string \<Rightarrow> string \<Rightarrow> string \<Rightarrow> event" where
  "did_event ty granter did = (ty, [(''granter'', granter), (''grantee_did'', did)])"

definition GrantAllowance :: "sdk_codec \<Rightarrow> 'x fg_keepers \<Rightarrow> sdk_ctx \<Rightarrow> addr \<Rightarrow> addr \<Rightarrow> FeeAllowance \<Rightarrow>
    (('x, 'z) feegrant_state_scheme, unit) M" where
  "GrantAllowance cd fk ctx granter grantee feeAllowance =
     bindM (tryM (readM (GetAllowance cd granter grantee))) (\<lambda>f.
     case f of
       Inr _ \<Rightarrow> fail SdkErrInvalidRequest
     | Inl _ \<Rightarrow>
         bindM (getM (\<lambda>s. HasAccount fk grantee (ext s))) (\<lambda>has.
         thenM
           (if has then ret ()
            else if BlockedAddr fk grantee then fail SdkErrUnauthorized
            else extM (SetNewAccount fk grantee))
         (bindM (liftE (FeeAllowanceKey cd granter grantee)) (\<lambda>key.
          bindM (liftE (ExpiresAt feeAllowance)) (\<lambda>exp.
          if expired_at ctx exp then fail SdkErrInvalidRequest
          else
            thenM (case exp of None \<Rightarrow> ret () | Some e \<Rightarrow> addToFeeAllowanceQueue cd (tl key) e)
            (bindM (liftE (NewGrant cd granter grantee feeAllowance)) (\<lambda>grant.
             thenM (modifyM (\<lambda>s. s\<lparr>fg_allowances := kv_set key grant (fg_allowances s)\<rparr>))
             (EmitEvent (grant_event ''set_feegrant'' (Granter grant) (Grantee grant))))))))))"

definition UpdateAllowance :: "sdk_codec \<Rightarrow> addr \<Rightarrow> addr \<Rightarrow> FeeAllowance \<Rightarrow>
    (('x, 'z) feegrant_state_scheme, unit) M" where
  "UpdateAllowance cd granter grantee feeAllowance =
     bindM (liftE (FeeAllowanceKey cd granter grantee)) (\<lambda>key.
     bindM (readM (getGrant cd granter grantee)) (\<lambda>_.
     bindM (liftE (NewGrant cd granter grantee feeAllowance)) (\<lambda>grant.
     thenM (modifyM (\<lambda>s. s\<lparr>fg_allowances := kv_set key grant (fg_allowances s)\<rparr>))
     (EmitEvent (grant_event ''update_feegrant'' (Granter grant) (Grantee grant))))))"

definition revokeAllowance :: "sdk_codec \<Rightarrow> addr \<Rightarrow> addr \<Rightarrow> (('x, 'z) feegrant_state_scheme, unit) M" where
  "revokeAllowance cd granter grantee =
     bindM (readM (GetAllowance cd granter grantee)) (\<lambda>grant.
     bindM (liftE (FeeAllowanceKey cd granter grantee)) (\<lambda>key.
     thenM (modifyM (\<lambda>s. s\<lparr>fg_allowances := kv_del key (fg_allowances s)\<rparr>))
     (bindM (liftE (ExpiresAt grant)) (\<lambda>exp.
      thenM
        (case exp of
           None \<Rightarrow> ret ()
         | Some e \<Rightarrow>
             bindM (liftE (FeeAllowanceKey cd grantee granter)) (\<lambda>swapped.
             modifyM (\<lambda>s. s\<lparr>fg_queue := kv_del (FeeAllowancePrefixQueue cd e (tl swapped)) (fg_queue s)\<rparr>)))
      (EmitEvent (grant_event ''revoke_feegrant'' (AccString cd granter) (AccString cd grantee)))))))"

fun iter_stop :: "('g \<Rightarrow> 'b \<Rightarrow> bool \<times> 'b) \<Rightarrow> 'g list \<Rightarrow> 'b \<Rightarrow> 'b" where
  "iter_stop cb [] b = b"
| "iter_stop cb (g # gs) b = (case cb g b of (stop, b') \<Rightarrow> if stop then b' else iter_stop cb gs b')"

definition IterateAllFeeAllowances ::
  "(Grant \<Rightarrow> 'b \<Rightarrow> bool \<times> 'b) \<Rightarrow> ('x, 'z) feegrant_state_scheme \<Rightarrow> 'b \<Rightarrow> 'b" where
  "IterateAllFeeAllowances cb s b = iter_stop cb (map snd (kv_prefix FeeAllowanceKeyPrefix (fg_allowances s))) b"

definition UseGrantedFees :: "sdk_codec \<Rightarrow> coin_ops \<Rightarrow> sdk_ctx \<Rightarrow> addr \<Rightarrow> addr \<Rightarrow> coins \<Rightarrow> string list \<Rightarrow>
    (('x, 'z) feegrant_state_scheme, unit) M" where
  "UseGrantedFees cd co ctx granter grantee fee msgs =
     bindM (readM (GetAllowance cd granter grantee)) (\<lambda>grant.
     bindM (acceptM cd co ctx fee msgs grant) (\<lambda>(remove, err, grant').
     let use = EmitEvent (grant_event ''use_feegrant'' (AccString cd granter) (AccString cd grantee)) in
     if remove then
       bindM (tryM (revokeAllowance cd granter grantee)) (\<lambda>_.
       case err of Some e \<Rightarrow> fail e | None \<Rightarrow> use)
     else
       case err of
         Some e \<Rightarrow> fail e
       | None \<Rightarrow> thenM use (UpdateAllowance cd granter grantee grant')))"

text \<open>The loop of the two pruning methods over the keys of the scanned range.\<close>

definition kv_range :: "bytes \<Rightarrow> bytes \<Rightarrow> 'v kv \<Rightarrow> 'v kv" where
  "kv_range start stop s = filter (\<lambda>p. start \<le> fst p \<and> fst p < stop) s"

fun prune_fee :: "sdk_codec \<Rightarrow> int \<Rightarrow> int \<Rightarrow> bytes list \<Rightarrow> (('x, 'z) feegrant_state_scheme, unit) M" where
  "prune_fee cd limit count [] = ret ()"
| "prune_fee cd limit count (k # ks) =
     thenM (modifyM (\<lambda>s. s\<lparr>fg_queue := kv_del k (fg_queue s)\<rparr>))
     (bindM (liftE (ParseAddressesFromFeeAllowanceQueueKey cd k)) (\<lambda>(granter, grantee).
      bindM (liftE (FeeAllowanceKey cd granter grantee)) (\<lambda>key.
      thenM (modifyM (\<lambda>s. s\<lparr>fg_allowances := kv_del key (fg_allowances s)\<rparr>))
      (if count + 1 = limit then ret () else prune_fee cd limit (count + 1) ks))))"

definition RemoveExpiredAllowances :: "sdk_codec \<Rightarrow> sdk_ctx \<Rightarrow> int \<Rightarrow> (('x, 'z) feegrant_state_scheme, unit) M" where
  "RemoveExpiredAllowances cd ctx limit =
     bindM (getM (\<lambda>s. map fst (kv_range FeeAllowanceQueueKeyPrefix
              (InclusiveEndBytes cd (AllowanceByExpTimeKey cd (BlockTime ctx))) (fg_queue s))))
     (prune_fee cd limit 0)"

section \<open>Grants to DIDs\<close>

definition getDIDGrant :: "sdk_codec \<Rightarrow> addr \<Rightarrow> string \<Rightarrow> ('x, 'z) feegrant_state_scheme \<Rightarrow> error + DIDGrant" where
  "getDIDGrant cd granter did s =
     bindE (FeeAllowanceByDIDKey cd granter did) (\<lambda>key.
     case kv_get (fg_did_allowances s) key of None \<Rightarrow> Inl SdkErrNotFound | Some g \<Rightarrow> Inr g)"

definition GetDIDAllowance :: "sdk_codec \<Rightarrow> addr \<Rightarrow> string \<Rightarrow> ('x, 'z) feegrant_state_scheme \<Rightarrow> error + FeeAllowance" where
  "GetDIDAllowance cd granter did s = bindE (getDIDGrant cd granter did s) GetDIDGrant"

definition addToDIDFeeAllowanceQueue :: "sdk_codec \<Rightarrow> bytes \<Rightarrow> time \<Rightarrow> (('x, 'z) feegrant_state_scheme, unit) M" where
  "addToDIDFeeAllowanceQueue cd grantKey exp =
     modifyM (\<lambda>s. s\<lparr>fg_did_queue := kv_set (DIDFeeAllowancePrefixQueue cd exp grantKey) () (fg_did_queue s)\<rparr>)"

definition delDIDQueue :: "sdk_codec \<Rightarrow> bytes \<Rightarrow> time \<Rightarrow> (('x, 'z) feegrant_state_scheme, unit) M" where
  "delDIDQueue cd grantKey exp =
     modifyM (\<lambda>s. s\<lparr>fg_did_queue := kv_del (DIDFeeAllowancePrefixQueue cd exp grantKey) (fg_did_queue s)\<rparr>)"

definition setDIDGrant :: "bytes \<Rightarrow> DIDGrant \<Rightarrow> (('x, 'z) feegrant_state_scheme, unit) M" where
  "setDIDGrant key g = modifyM (\<lambda>s. s\<lparr>fg_did_allowances := kv_set key g (fg_did_allowances s)\<rparr>)"

definition delDIDGrant :: "bytes \<Rightarrow> (('x, 'z) feegrant_state_scheme, unit) M" where
  "delDIDGrant key = modifyM (\<lambda>s. s\<lparr>fg_did_allowances := kv_del key (fg_did_allowances s)\<rparr>)"

definition GrantDIDAllowance :: "sdk_codec \<Rightarrow> sdk_ctx \<Rightarrow> addr \<Rightarrow> string \<Rightarrow> FeeAllowance \<Rightarrow>
    (('x, 'z) feegrant_state_scheme, unit) M" where
  "GrantDIDAllowance cd ctx granter did feeAllowance =
     bindM (tryM (readM (GetDIDAllowance cd granter did))) (\<lambda>f.
     case f of
       Inr _ \<Rightarrow> fail SdkErrInvalidRequest
     | Inl _ \<Rightarrow>
         bindM (liftE (FeeAllowanceByDIDKey cd granter did)) (\<lambda>key.
         bindM (liftE (ExpiresAt feeAllowance)) (\<lambda>exp.
         if expired_at ctx exp then fail SdkErrInvalidRequest
         else
           thenM (case exp of None \<Rightarrow> ret () | Some e \<Rightarrow> addToDIDFeeAllowanceQueue cd (tl key) e)
           (bindM (liftE (NewDIDGrant cd granter did feeAllowance)) (\<lambda>g.
            thenM (setDIDGrant key g)
            (EmitEvent (did_event ''set_did_feegrant'' (DIDGranter g) (GranteeDid g))))))))"

definition revokeDIDAllowance :: "sdk_codec \<Rightarrow> addr \<Rightarrow> string \<Rightarrow> (('x, 'z) feegrant_state_scheme, unit) M" where
  "revokeDIDAllowance cd granter did =
     bindM (readM (GetDIDAllowance cd granter did)) (\<lambda>grant.
     bindM (liftE (FeeAllowanceByDIDKey cd granter did)) (\<lambda>key.
     thenM (delDIDGrant key)
     (bindM (liftE (ExpiresAt grant)) (\<lambda>exp.
      thenM (case exp of None \<Rightarrow> ret () | Some e \<Rightarrow> delDIDQueue cd (tl key) e)
      (EmitEvent (did_event ''revoke_did_feegrant'' (AccString cd granter) did))))))"

definition UpdateDIDAllowance :: "sdk_codec \<Rightarrow> addr \<Rightarrow> string \<Rightarrow> FeeAllowance \<Rightarrow>
    (('x, 'z) feegrant_state_scheme, unit) M" where
  "UpdateDIDAllowance cd granter did feeAllowance =
     bindM (liftE (FeeAllowanceByDIDKey cd granter did)) (\<lambda>key.
     bindM (readM (getDIDGrant cd granter did)) (\<lambda>existingGrant.
     bindM (liftE (GetDIDGrant existingGrant)) (\<lambda>existingAllowance.
     bindM (liftE (ExpiresAt existingAllowance)) (\<lambda>existingExpiration.
     bindM (liftE (NewDIDGrant cd granter did feeAllowance)) (\<lambda>didGrant.
     bindM (liftE (ExpiresAt feeAllowance)) (\<lambda>newExpiration.
     thenM
       (case existingExpiration of
          None \<Rightarrow> ret ()
        | Some e \<Rightarrow> if newExpiration \<noteq> Some e then delDIDQueue cd (tl key) e else ret ())
     (thenM
       (case newExpiration of
          None \<Rightarrow> ret ()
        | Some e \<Rightarrow> if existingExpiration \<noteq> Some e then addToDIDFeeAllowanceQueue cd (tl key) e else ret ())
     (thenM (setDIDGrant key didGrant)
     (EmitEvent (did_event ''update_did_feegrant'' (DIDGranter didGrant) (GranteeDid didGrant)))))))))))"

definition expire_allowance :: "sdk_ctx \<Rightarrow> FeeAllowance \<Rightarrow> error + (time \<times> FeeAllowance)" where
  "expire_allowance ctx existing =
     (case existing of
        FPeriodic a \<Rightarrow>
          let newExpiration = PeriodReset a in
          Inr (newExpiration, FPeriodic (a\<lparr>Basic := (Basic a)\<lparr>Expiration := Some newExpiration\<rparr>\<rparr>))
      | FBasic a \<Rightarrow>
          let newExpiration = BlockTime ctx in
          Inr (newExpiration, FBasic (a\<lparr>Expiration := Some newExpiration\<rparr>))
      | FAllowedMsg _ _ \<Rightarrow> Inl (ErrStd ''unsupported allowance type''))"

definition ExpireDIDAllowance :: "sdk_codec \<Rightarrow> sdk_ctx \<Rightarrow> addr \<Rightarrow> string \<Rightarrow> (('x, 'z) feegrant_state_scheme, unit) M" where
  "ExpireDIDAllowance cd ctx granter did =
     bindM (readM (GetDIDAllowance cd granter did)) (\<lambda>existing.
     bindM (liftE (expire_allowance ctx existing)) (\<lambda>(newExpiration, allowance).
     thenM (UpdateDIDAllowance cd granter did allowance)
     (EmitEvent (''expire_did_feegrant'',
        [(''granter'', AccString cd granter), (''grantee_did'', did),
         (''expiration_time'', TimeString cd newExpiration)]))))"

definition UseGrantedFeesByDID :: "sdk_codec \<Rightarrow> coin_ops \<Rightarrow> sdk_ctx \<Rightarrow> addr \<Rightarrow> string \<Rightarrow> coins \<Rightarrow> string list \<Rightarrow>
    (('x, 'z) feegrant_state_scheme, unit) M" where
  "UseGrantedFeesByDID cd co ctx granter did fee msgs =
     bindM (readM (GetDIDAllowance cd granter did)) (\<lambda>grant.
     bindM (acceptM cd co ctx fee msgs grant) (\<lambda>(remove, err, grant').
     let use = EmitEvent (did_event ''use_did_feegrant'' (AccString cd granter) did) in
     if remove then
       bindM (tryM (revokeDIDAllowance cd granter did)) (\<lambda>_.
       case err of Some e \<Rightarrow> fail e | None \<Rightarrow> use)
     else
       case err of
         Some e \<Rightarrow> fail e
       | None \<Rightarrow> thenM use (UpdateDIDAllowance cd granter did grant')))"

definition GetFirstAvailableDIDGrant :: "sdk_codec \<Rightarrow> string \<Rightarrow> ('x, 'z) feegrant_state_scheme \<Rightarrow>
    error + (addr \<times> FeeAllowance)" where
  "GetFirstAvailableDIDGrant cd did s =
     bindE (FeeAllowancePrefixByDID cd did) (\<lambda>pre.
     case kv_prefix pre (fg_did_allowances s) of
       [] \<Rightarrow> Inl SdkErrNotFound
     | (_, g) # _ \<Rightarrow>
         bindE (AccFromBech32 cd (DIDGranter g)) (\<lambda>granter.
         bindE (GetDIDGrant g) (\<lambda>a. Inr (granter, a))))"

fun use_first :: "sdk_codec \<Rightarrow> coin_ops \<Rightarrow> sdk_ctx \<Rightarrow> string \<Rightarrow> coins \<Rightarrow> string list \<Rightarrow> DIDGrant list \<Rightarrow>
    (('x, 'z) feegrant_state_scheme, addr) M" where
  "use_first cd co ctx did fee msgs [] = fail SdkErrNotFound"
| "use_first cd co ctx did fee msgs (g # gs) =
     (let continue = use_first cd co ctx did fee msgs gs in
      bindM (tryM (liftE (AccFromBech32 cd (DIDGranter g)))) (\<lambda>ra.
      case ra of Inl _ \<Rightarrow> continue | Inr granter \<Rightarrow>
      bindM (tryM (liftE (GetDIDGrant g))) (\<lambda>rg.
      case rg of Inl _ \<Rightarrow> continue | Inr allowance \<Rightarrow>
      bindM (acceptM cd co ctx fee msgs allowance) (\<lambda>(remove, err, allowance').
      let use = thenM (EmitEvent (did_event ''use_did_feegrant'' (DIDGranter g) did)) (ret granter) in
      if remove then
        bindM (tryM (revokeDIDAllowance cd granter did)) (\<lambda>_.
        case err of Some _ \<Rightarrow> continue | None \<Rightarrow> use)
      else
        case err of
          Some _ \<Rightarrow> continue
        | None \<Rightarrow>
            bindM (tryM (UpdateDIDAllowance cd granter did allowance')) (\<lambda>ru.
            case ru of Inl _ \<Rightarrow> continue | Inr _ \<Rightarrow> use)))))"

definition UseFirstAvailableDIDGrant :: "sdk_codec \<Rightarrow> coin_ops \<Rightarrow> sdk_ctx \<Rightarrow> string \<Rightarrow> coins \<Rightarrow> string list \<Rightarrow>
    (('x, 'z) feegrant_state_scheme, addr) M" where
  "UseFirstAvailableDIDGrant cd co ctx did fee msgs =
     bindM (liftE (FeeAllowancePrefixByDID cd did)) (\<lambda>pre.
     bindM (getM (\<lambda>s. map snd (kv_prefix pre (fg_did_allowances s))))
     (use_first cd co ctx did fee msgs))"

fun prune_did :: "sdk_codec \<Rightarrow> int \<Rightarrow> int \<Rightarrow> bytes list \<Rightarrow> (('x, 'z) feegrant_state_scheme, unit) M" where
  "prune_did cd limit count [] = ret ()"
| "prune_did cd limit count (k # ks) =
     thenM (modifyM (\<lambda>s. s\<lparr>fg_did_queue := kv_del k (fg_did_queue s)\<rparr>))
     (bindM (liftE (ParseGranterDIDFromDIDAllowanceQueueKey cd k)) (\<lambda>(granter, did).
      bindM (liftE (FeeAllowanceByDIDKey cd granter did)) (\<lambda>key.
      thenM (delDIDGrant key)
      (if count + 1 = limit then ret () else prune_did cd limit (count + 1) ks))))"

definition RemoveExpiredDIDAllowances :: "sdk_codec \<Rightarrow> sdk_ctx \<Rightarrow> int \<Rightarrow> (('x, 'z) feegrant_state_scheme, unit) M" where
  "RemoveExpiredDIDAllowances cd ctx limit =
     bindM (getM (\<lambda>s. map fst (kv_range DIDFeeAllowanceQueueKeyPrefix
              (InclusiveEndBytes cd (DIDAllowanceByExpTimeKey cd (BlockTime ctx))) (fg_did_queue s))))
     (prune_did cd limit 0)"

definition IterateAllDIDAllowances ::
  "(DIDGrant \<Rightarrow> 'b \<Rightarrow> bool \<times> 'b) \<Rightarrow> ('x, 'z) feegrant_state_scheme \<Rightarrow> 'b \<Rightarrow> 'b" where
  "IterateAllDIDAllowances cb s b =
     iter_stop cb (map snd (kv_prefix DIDFeeAllowanceKeyPrefix (fg_did_allowances s))) b"

section \<open>Genesis, messages and end blocker\<close>

record FG_GenesisState =
  Allowances :: "Grant list"
  DidAllowances :: "DIDGrant list"

definition FG_InitGenesis :: "sdk_codec \<Rightarrow> 'x fg_keepers \<Rightarrow> sdk_ctx \<Rightarrow> FG_GenesisState \<Rightarrow>
    (('x, 'z) feegrant_state_scheme, unit) M" where
  "FG_InitGenesis cd fk ctx data =
     thenM
       (forM (Allowances data) (\<lambda>f.
          bindM (liftE (AccFromBech32 cd (Granter f))) (\<lambda>granter.
          bindM (liftE (AccFromBech32 cd (Grantee f))) (\<lambda>grantee.
          bindM (liftE (GetGrant f)) (\<lambda>grant.
          GrantAllowance cd fk ctx granter grantee grant)))))
       (forM (DidAllowances data) (\<lambda>f.
          bindM (liftE (AccFromBech32 cd (DIDGranter f))) (\<lambda>granter.
          bindM (liftE (GetDIDGrant f)) (\<lambda>grant.
          GrantDIDAllowance cd ctx granter (GranteeDid f) grant))))"

definition FG_ExportGenesis :: "('x, 'z) feegrant_state_scheme \<Rightarrow> FG_GenesisState" where
  "FG_ExportGenesis s =
     \<lparr>Allowances = IterateAllFeeAllowances (\<lambda>g gs. (False, gs @ [g])) s [],
      DidAllowances = IterateAllDIDAllowances (\<lambda>g gs. (False, gs @ [g])) s []\<rparr>"

fun validate_grants :: "coin_ops \<Rightarrow> Grant list \<Rightarrow> error option" where
  "validate_grants co [] = None"
| "validate_grants co (f # fs) =
     (case GetGrant f of
        Inl e \<Rightarrow> Some e
      | Inr grant \<Rightarrow>
          (case Allowance_ValidateBasic co grant of Some e \<Rightarrow> Some e | None \<Rightarrow> validate_grants co fs))"

definition ValidateGenesis :: "coin_ops \<Rightarrow> FG_GenesisState \<Rightarrow> error option" where
  "ValidateGenesis co data = validate_grants co (Allowances data)"

text \<open>\<open>strings.EqualFold\<close> on ASCII strings.\<close>

definition to_lower :: "char \<Rightarrow> char" where
  "to_lower c = (let n = (of_char c :: nat) in if 65 \<le> n \<and> n \<le> 90 then char_of (n + 32) else c)"

definition EqualFold :: "string \<Rightarrow> string \<Rightarrow> bool" where
  "EqualFold a b \<longleftrightarrow> map to_lower a = map to_lower b"

record MsgGrantAllowance =
  mga_Granter :: string
  mga_Grantee :: string
  mga_Allowance :: AnyAllowance

record MsgGrantDIDAllowance =
  mgd_Granter :: string
  mgd_GranteeDid :: string
  mgd_Allowance :: AnyAllowance

definition Msg_GrantAllowance :: "sdk_codec \<Rightarrow> coin_ops \<Rightarrow> 'x fg_keepers \<Rightarrow> sdk_ctx \<Rightarrow> MsgGrantAllowance \<Rightarrow>
    (('x, 'z) feegrant_state_scheme, unit) M" where
  "Msg_GrantAllowance cd co fk ctx msg =
     (if EqualFold (mga_Grantee msg) (mga_Granter msg) then fail SdkErrInvalidAddress
      else
        bindM (liftE (AccFromBech32 cd (mga_Grantee msg))) (\<lambda>grantee.
        bindM (liftE (AccFromBech32 cd (mga_Granter msg))) (\<lambda>granter.
        bindM (tryM (readM (GetAllowance cd granter grantee))) (\<lambda>f.
        case f of
          Inr _ \<Rightarrow> fail SdkErrInvalidRequest
        | Inl _ \<Rightarrow>
            bindM (liftE (GetCachedAllowance (mga_Allowance msg))) (\<lambda>allowance.
            case Allowance_ValidateBasic co allowance of
              Some e \<Rightarrow> fail e
            | None \<Rightarrow> GrantAllowance cd fk ctx granter grantee allowance)))))"

definition Msg_RevokeAllowance :: "sdk_codec \<Rightarrow> string \<Rightarrow> string \<Rightarrow> (('x, 'z) feegrant_state_scheme, unit) M" where
  "Msg_RevokeAllowance cd msgGranter msgGrantee =
     (if msgGrantee = msgGranter then fail SdkErrInvalidAddress
      else
        bindM (liftE (AccFromBech32 cd msgGrantee)) (\<lambda>grantee.
        bindM (liftE (AccFromBech32 cd msgGranter)) (\<lambda>granter.
        revokeAllowance cd granter grantee)))"

definition Msg_PruneAllowances :: "sdk_codec \<Rightarrow> sdk_ctx \<Rightarrow> string \<Rightarrow> (('x, 'z) feegrant_state_scheme, unit) M" where
  "Msg_PruneAllowances cd ctx pruner =
     thenM (RemoveExpiredAllowances cd ctx 75) (EmitEvent (''prune_feegrant'', [(''pruner'', pruner)]))"

definition Msg_GrantDIDAllowance :: "sdk_codec \<Rightarrow> coin_ops \<Rightarrow> sdk_ctx \<Rightarrow> MsgGrantDIDAllowance \<Rightarrow>
    (('x, 'z) feegrant_state_scheme, unit) M" where
  "Msg_GrantDIDAllowance cd co ctx msg =
     bindM (liftE (AccFromBech32 cd (mgd_Granter msg))) (\<lambda>granter.
     bindM (tryM (readM (GetDIDAllowance cd granter (mgd_GranteeDid msg)))) (\<lambda>f.
     case f of
       Inr _ \<Rightarrow> fail SdkErrInvalidRequest
     | Inl _ \<Rightarrow>
         bindM (liftE (GetCachedAllowance (mgd_Allowance msg))) (\<lambda>allowance.
         case Allowance_ValidateBasic co allowance of
           Some e \<Rightarrow> fail e
         | None \<Rightarrow> GrantDIDAllowance cd ctx granter (mgd_GranteeDid msg) allowance)))"

definition Msg_ExpireDIDAllowance :: "sdk_codec \<Rightarrow> sdk_ctx \<Rightarrow> string \<Rightarrow> string \<Rightarrow>
    (('x, 'z) feegrant_state_scheme, unit) M" where
  "Msg_ExpireDIDAllowance cd ctx msgGranter did =
     bindM (liftE (AccFromBech32 cd msgGranter)) (\<lambda>granter. ExpireDIDAllowance cd ctx granter did)"

definition Msg_PruneDIDAllowances :: "sdk_codec \<Rightarrow> sdk_ctx \<Rightarrow> string \<Rightarrow> (('x, 'z) feegrant_state_scheme, unit) M" where
  "Msg_PruneDIDAllowances cd ctx pruner =
     thenM (RemoveExpiredDIDAllowances cd ctx 75) (EmitEvent (''prune_did_feegrant'', [(''pruner'', pruner)]))"

definition MsgGrantDIDAllowance_ValidateBasic :: "coin_ops \<Rightarrow> MsgGrantDIDAllowance \<Rightarrow> error option" where
  "MsgGrantDIDAllowance_ValidateBasic co msg =
     (if mgd_Granter msg = '''' then Some SdkErrInvalidAddress
      else if bad_did (mgd_GranteeDid msg) then Some FgErrInvalidDID
      else if mgd_Allowance msg = AnyNil then Some SdkErrInvalidRequest
      else case GetCachedAllowance (mgd_Allowance msg) of
             Inl e \<Rightarrow> Some e
           | Inr a \<Rightarrow> Allowance_ValidateBasic co a)"

definition MsgPruneDIDAllowances_ValidateBasic :: "string \<Rightarrow> error option" where
  "MsgPruneDIDAllowances_ValidateBasic pruner = (if pruner = '''' then Some SdkErrInvalidAddress else None)"

definition MsgExpireDIDAllowance_ValidateBasic :: "string \<Rightarrow> string \<Rightarrow> error option" where
  "MsgExpireDIDAllowance_ValidateBasic granter did =
     (if granter = '''' then Some SdkErrInvalidAddress
      else if bad_did did then Some FgErrInvalidDID
      else None)"

text \<open>\<open>errors.Join\<close>: both prunings run, and an error of either is reported.\<close>

definition FG_EndBlocker :: "sdk_codec \<Rightarrow> sdk_ctx \<Rightarrow> (('x, 'z) feegrant_state_scheme, unit) M" where
  "FG_EndBlocker cd ctx =
     bindM (tryM (RemoveExpiredAllowances cd ctx 200)) (\<lambda>errAllowances.
     bindM (tryM (RemoveExpiredDIDAllowances cd ctx 200)) (\<lambda>errDidAllowances.
     case (errAllowances, errDidAllowances) of
       (Inr _, Inr _) \<Rightarrow> ret ()
     | _ \<Rightarrow> fail (ErrStd ''joined'')))"

end
