(* ===== verification/Acp_Did.thy ===== *)
theory Acp_Did
  imports Sdk_Params
begin

text \<open>
  Decentralised identifiers (\<open>x/acp/did\<close>, \<open>x/acp/keeper/utils.go\<close>): issuing a DID for a public key and
  recovering the account address from a DID.

  The did:key encoding, the address of a public key and the method registry belong to libraries:
  \<open>did_ops\<close> has \<open>CreateDIDKey\<close>, \<open>DIDDecode\<close> (\<open>DIDKey.Decode\<close>), \<open>PubKeyAddress\<close> (which
  panics on a key of the wrong size), \<open>ECDHBytes\<close> (the uncompressed point of a P-256 key) and \<open>GetMethodForDID\<close>.
\<close>

datatype KeyType = SECP256k1 | P256 | Ed25519 | OtherKeyType string

datatype PubKey = Secp256k1PubKey bytes | Secp256r1PubKey bytes | Ed25519PubKey bytes | OtherPubKey bytes

record did_ops =
  CreateDIDKey :: "KeyType \<Rightarrow> bytes \<Rightarrow> error + string"
  DIDDecode :: "string \<Rightarrow> error + (bytes \<times> KeyType)"
  PubKeyAddress :: "PubKey \<Rightarrow> error + addr"
  ECDHBytes :: "bytes \<Rightarrow> error + bytes"
  GetMethodForDID :: "string \<Rightarrow> error + string"

definition did_laws :: "did_ops \<Rightarrow> bool" where
  "did_laws dops \<longleftrightarrow>
     (\<forall>t b d. CreateDIDKey dops t b = Inr d \<longrightarrow>
        DIDDecode dops d = Inr (b, t) \<and> (\<exists>m. GetMethodForDID dops d = Inr m)) \<and>
     (\<forall>k a. PubKeyAddress dops k = Inr a \<longrightarrow> length a = 20) \<and>
     (\<forall>k e. PubKeyAddress dops k = Inl e \<longrightarrow> is_panic e)"

definition IsValidDID :: "did_ops \<Rightarrow> string \<Rightarrow> error option" where
  "IsValidDID dops did = (case GetMethodForDID dops did of Inl e \<Rightarrow> Some e | Inr _ \<Rightarrow> None)"

definition DIDFromPubKey :: "did_ops \<Rightarrow> PubKey option \<Rightarrow> error + string" where
  "DIDFromPubKey dops pk =
     (case pk of
        None \<Rightarrow> Inl (ErrStd ''account public key is nil'')
      | Some (Secp256k1PubKey b) \<Rightarrow> CreateDIDKey dops SECP256k1 b
      | Some (Secp256r1PubKey b) \<Rightarrow> bindE (ECDHBytes dops b) (CreateDIDKey dops P256)
      | Some (Ed25519PubKey b) \<Rightarrow> CreateDIDKey dops Ed25519 b
      | Some (OtherPubKey b) \<Rightarrow> Inl (ErrStd ''failed to issue did for key''))"

definition GetAddressFromDID :: "did_ops \<Rightarrow> string \<Rightarrow> error + addr" where
  "GetAddressFromDID dops didStr =
     (case IsValidDID dops didStr of
        Some e \<Rightarrow> Inl e
      | None \<Rightarrow>
          bindE (DIDDecode dops didStr) (\<lambda>(pubBytes, keyType).
          case keyType of
            SECP256k1 \<Rightarrow> PubKeyAddress dops (Secp256k1PubKey pubBytes)
          | Ed25519 \<Rightarrow> PubKeyAddress dops (Ed25519PubKey pubBytes)
          | _ \<Rightarrow> Inl (ErrStd ''unsupported key type'')))"

definition IssueModuleDID :: "string \<Rightarrow> string" where
  "IssueModuleDID moduleName = ''did:module:'' @ moduleName"

definition IssueInterchainAccountDID :: "string \<Rightarrow> string" where
  "IssueInterchainAccountDID icaAddr = ''did:ica:'' @ icaAddr"

text \<open>
  Issuing the DID of an account: \<open>fromBech32\<close> parses the address, \<open>getAccount\<close> is the account keeper (an
  account may have no public key yet) and \<open>isICA\<close> tells whether the core keeper knows the address as an
  interchain account. A DID that the ante handler took from a bearer token goes first.
\<close>

definition IssueDIDFromAccountAddr ::
  "did_ops \<Rightarrow> (string \<Rightarrow> error + addr) \<Rightarrow> (addr \<Rightarrow> PubKey option option) \<Rightarrow> (string \<Rightarrow> bool) \<Rightarrow> string \<Rightarrow> error + string" where
  "IssueDIDFromAccountAddr dops fromBech32 getAccount isICA address =
     (case fromBech32 address of
        Inl e \<Rightarrow> Inl (ErrStd ''invalid account address'')
      | Inr sdkAddr \<Rightarrow>
          (case getAccount sdkAddr of
             None \<Rightarrow> Inl (ErrStd ''account not found'')
           | Some acc \<Rightarrow>
               if isICA address then Inr (IssueInterchainAccountDID address)
               else (case DIDFromPubKey dops acc of
                       Inl e \<Rightarrow> Inl (ErrStd ''could not issue did'')
                     | Inr did \<Rightarrow> Inr did)))"

definition GetActorDID ::
  "did_ops \<Rightarrow> (string \<Rightarrow> error + addr) \<Rightarrow> (addr \<Rightarrow> PubKey option option) \<Rightarrow> (string \<Rightarrow> bool) \<Rightarrow>
   'z sdk_ctx_scheme \<Rightarrow> string \<Rightarrow> error + string" where
  "GetActorDID dops fromBech32 getAccount isICA ctx accountAddr =
     (if ExtractedDID ctx \<noteq> '''' then Inr (ExtractedDID ctx)
      else IssueDIDFromAccountAddr dops fromBech32 getAccount isICA accountAddr)"

text \<open>A DID issued for a key leads back to the address of the key, except for P-256 keys, whose DIDs
  \<open>GetAddressFromDID\<close> refuses.\<close>

lemma GetAddressFromDID_issued:
  assumes "did_laws dops" and "DIDFromPubKey dops (Some pk) = Inr d"
  shows "GetAddressFromDID dops d =
     (case pk of Secp256r1PubKey _ \<Rightarrow> Inl (ErrStd ''unsupported key type'') | _ \<Rightarrow> PubKeyAddress dops pk)"
proof -
  have law: "DIDDecode dops d = Inr (b, t) \<and> (\<exists>m. GetMethodForDID dops d = Inr m)"
    if "CreateDIDKey dops t b = Inr d" for t b
    using that assms(1) by (simp add: did_laws_def)
  show ?thesis
    using assms(2)
    by (cases pk) (auto simp: DIDFromPubKey_def GetAddressFromDID_def IsValidDID_def bindE_Inr_iff dest!: law)
qed

lemma did_laws_length: "did_laws dops \<Longrightarrow> GetAddressFromDID dops d = Inr a \<Longrightarrow> length a = 20"
proof -
  assume "did_laws dops" and *: "GetAddressFromDID dops d = Inr a"
  then obtain b t where "(case t of SECP256k1 \<Rightarrow> PubKeyAddress dops (Secp256k1PubKey b)
      | Ed25519 \<Rightarrow> PubKeyAddress dops (Ed25519PubKey b) | _ \<Rightarrow> Inl (ErrStd ''unsupported key type'')) = Inr a"
    by (auto simp: GetAddressFromDID_def bindE_Inr_iff split: option.splits)
  with \<open>did_laws dops\<close> show "length a = 20" by (cases t) (auto simp: did_laws_def)
qed

text \<open>An instance of the laws: the DID spells out the key.\<close>

definition key_tag :: "KeyType \<Rightarrow> string" where
  "key_tag t = (case t of SECP256k1 \<Rightarrow> ''k'' | P256 \<Rightarrow> ''r'' | Ed25519 \<Rightarrow> ''e'' | OtherKeyType x \<Rightarrow> ''o'')"

definition std_did :: did_ops where
  "std_did =
     \<lparr>CreateDIDKey = (\<lambda>t b. case t of OtherKeyType _ \<Rightarrow> Inl (ErrExt ''key type'') | _ \<Rightarrow> Inr (''did:key:'' @ key_tag t @ b)),
      DIDDecode = (\<lambda>d.
        if take 9 d = ''did:key:k'' then Inr (drop 9 d, SECP256k1)
        else if take 9 d = ''did:key:r'' then Inr (drop 9 d, P256)
        else if take 9 d = ''did:key:e'' then Inr (drop 9 d, Ed25519)
        else Inl (ErrExt ''did key'')),
      PubKeyAddress = (\<lambda>k.
        let b = (case k of Secp256k1PubKey b \<Rightarrow> b | Secp256r1PubKey b \<Rightarrow> b | Ed25519PubKey b \<Rightarrow> b | OtherPubKey b \<Rightarrow> b);
            bad = (case k of Secp256k1PubKey b \<Rightarrow> length b \<noteq> 33 | Ed25519PubKey b \<Rightarrow> length b \<noteq> 32 | _ \<Rightarrow> False)
        in if bad then Inl (Panic (PanicMsg ''pubkey is incorrect size'')) else Inr (take 20 (b @ replicate 20 CHR ''.''))),
      ECDHBytes = Inr,
      GetMethodForDID = (\<lambda>d. if take 4 d = ''did:'' then Inr (take 3 (drop 4 d)) else Inl (ErrExt ''did''))\<rparr>"

lemma std_did_laws: "did_laws std_did"
  by (auto simp: did_laws_def std_did_def key_tag_def Let_def split: KeyType.splits)

end
