(* ===== verification/Tier_State.thy ===== *)
theory Tier_State
  imports Tier_Types Feegrant_Keeper Acp_Did
begin

text \<open>
  The state of the tier module and the keepers it calls.

  The module store is split into its prefix stores; the records of \<open>TotalDevGranted\<close> and the two
  totals live in the same store under keys of their own. \<open>('x, 'v) Keeper\<close> is the \<open>Keeper\<close> struct: the
  bank, staking and distribution keepers work on the external state \<open>'x\<close> and are parameters, as is the
  type \<open>'v\<close> of validators. The epochs, feegrant and acp keepers are the models of those modules.

  Amounts are \<open>math.Int\<close>. \<open>SafeSub\<close> reports an overflow of the 256 bits; the panic of an addition
  beyond 256 bits is not modelled.
\<close>

record 'x tier_state = "'x feegrant_state" +
  tier_params :: "Params option"
  lockups :: "Lockup kv"
  unlockings :: "UnlockingLockup kv"
  insurance :: "Lockup kv"
  user_subs :: "UserSubscription kv"
  developers :: "Developer kv"
  dev_granted :: "TotalDevGranted kv"
  total_lockups :: "int option"
  total_credits :: "int option"

record ubd_entry =
  ube_CreationHeight :: int
  ube_CompletionTime :: time
  ube_InitialBalance :: int
  ube_Balance :: int
  ube_Id :: int

record ubd =
  ubd_Delegator :: string
  ubd_Validator :: string
  Entries :: "ubd_entry list"

datatype BondStatus = Unbonded | Unbonding | Bonded

text \<open>
  \<open>IterateValidators\<close> and \<open>IterateDelegations\<close> return what the callback is called with, in order;
  \<open>ModuleAddress\<close> is \<open>authtypes.NewModuleAddress\<close>. \<open>mapOrder\<close> is the order in which Go happens to
  range over a map.
\<close>

record ('x, 'v) Keeper =
  codec :: sdk_codec
  coinOps :: coin_ops
  decOps :: dec_ops
  didOps :: did_ops
  Rfc3339 :: "time \<Rightarrow> string"
  DecFromStr :: "string \<Rightarrow> error + dec"
  ModuleAddress :: "string \<Rightarrow> addr"
  mapOrder :: "(string \<times> int) list \<Rightarrow> (string \<times> int) list"
  authority :: string
  val_Operator :: "'v \<Rightarrow> string"
  val_Tokens :: "'v \<Rightarrow> int"
  val_IsBonded :: "'v \<Rightarrow> bool"
  val_IsUnbonded :: "'v \<Rightarrow> bool"
  TokensFromSharesTruncated :: "'v \<Rightarrow> dec \<Rightarrow> dec"
  GetBalance :: "addr \<Rightarrow> string \<Rightarrow> 'x \<Rightarrow> int"
  IterateAllBalances :: "'x \<Rightarrow> (addr \<times> coin) list"
  MintCoins :: "string \<Rightarrow> coins \<Rightarrow> ('x, unit) M"
  BurnCoins :: "string \<Rightarrow> coins \<Rightarrow> ('x, unit) M"
  SendCoinsFromModuleToAccount :: "string \<Rightarrow> addr \<Rightarrow> coins \<Rightarrow> ('x, unit) M"
  SendCoinsFromAccountToModule :: "addr \<Rightarrow> string \<Rightarrow> coins \<Rightarrow> ('x, unit) M"
  SendCoinsFromModuleToModule :: "string \<Rightarrow> string \<Rightarrow> coins \<Rightarrow> ('x, unit) M"
  DelegateCoinsFromAccountToModule :: "addr \<Rightarrow> string \<Rightarrow> coins \<Rightarrow> ('x, unit) M"
  UndelegateCoinsFromModuleToAccount :: "string \<Rightarrow> addr \<Rightarrow> coins \<Rightarrow> ('x, unit) M"
  GetValidator :: "addr \<Rightarrow> 'x \<Rightarrow> error + 'v"
  GetAllValidators :: "'x \<Rightarrow> error + 'v list"
  IterateValidators :: "'x \<Rightarrow> error + 'v list"
  IterateDelegations :: "addr \<Rightarrow> 'x \<Rightarrow> error + string list"
  GetDelegationShares :: "addr \<Rightarrow> addr \<Rightarrow> 'x \<Rightarrow> error + dec"
  Delegate :: "addr \<Rightarrow> int \<Rightarrow> BondStatus \<Rightarrow> 'v \<Rightarrow> bool \<Rightarrow> ('x, dec) M"
  Undelegate :: "addr \<Rightarrow> addr \<Rightarrow> dec \<Rightarrow> ('x, time \<times> int) M"
  BeginRedelegation :: "addr \<Rightarrow> addr \<Rightarrow> addr \<Rightarrow> dec \<Rightarrow> ('x, time) M"
  ValidateUnbondAmount :: "addr \<Rightarrow> addr \<Rightarrow> int \<Rightarrow> 'x \<Rightarrow> error + dec"
  GetUnbondingDelegation :: "addr \<Rightarrow> addr \<Rightarrow> 'x \<Rightarrow> error + ubd"
  SetUnbondingDelegation :: "ubd \<Rightarrow> ('x, unit) M"
  RemoveUnbondingDelegation :: "ubd \<Rightarrow> ('x, unit) M"
  WithdrawDelegationRewards :: "addr \<Rightarrow> addr \<Rightarrow> ('x, coins) M"

type_synonym ('x, 'z, 'a) TM = "(('x, 'z) tier_state_scheme, 'a) M"

definition extR :: "('x \<Rightarrow> error + 'a) \<Rightarrow> ('x, 'z, 'a) TM" where
  "extR f = readM (\<lambda>s. f (ext s))"

text \<open>\<open>Int64()\<close> and \<open>Uint64()\<close> of a \<open>math.Int\<close> panic out of range; the gauges of the telemetry call
  them on every update.\<close>

definition Int64 :: "int \<Rightarrow> error + int" where
  "Int64 n = (if is_i64 n then Inr n else Inl (Panic (PanicMsg ''Int64() out of bound'')))"

definition Uint64 :: "int \<Rightarrow> error + int" where
  "Uint64 n = (if is_u64 n then Inr n else Inl (Panic (PanicMsg ''Uint64() out of bounds'')))"

text \<open>\<open>MustMarshal\<close> of a record with a timestamp panics outside the range of protobuf timestamps.\<close>

definition mustTimes :: "sdk_codec \<Rightarrow> time list \<Rightarrow> error + unit" where
  "mustTimes cd ts = (if list_all (\<lambda>t. StdTimeMarshal cd t = None) ts then Inr () else Inl (Panic (PanicMsg ''marshal'')))"

definition GetParams :: "('x, 'z) tier_state_scheme \<Rightarrow> Params" where
  "GetParams s = (case tier_params s of None \<Rightarrow> zero_Params | Some p \<Rightarrow> p)"

definition SetParams :: "Params \<Rightarrow> ('x, 'z, unit) TM" where
  "SetParams p = modifyM (\<lambda>s. s\<lparr>tier_params := Some p\<rparr>)"

lemma extR_run [simp]: "extR f s = (f (ext s), s)"
  by (simp add: extR_def)

lemma keeps_extR [keeps_rules]: "keeps P (extR f)"
  by (auto intro!: keepsI)

end
