(* ===== verification/Tier_Lockups.thy ===== *)
theory Tier_Lockups
  imports Tier_State
begin

text \<open>
  Lockups, unlocking lockups and insurance lockups (\<open>x/tier/keeper/lockup.go\<close>, \<open>insurance.go\<close>).

  \<open>lockups_inv\<close> says that the stored total is the sum of the stored lockups and that every record
  sits under the key of its own addresses; all the operations below keep it, and they only touch the
  stores they name (\<open>lockup_frame\<close>).
\<close>

section \<open>Insurance lockups\<close>

definition getInsuranceLockup :: "addr \<Rightarrow> addr \<Rightarrow> ('x, 'z) tier_state_scheme \<Rightarrow> Lockup option" where
  "getInsuranceLockup delAddr valAddr s = kv_get (insurance s) (LockupKey delAddr valAddr)"

definition getInsuranceLockupAmount :: "addr \<Rightarrow> addr \<Rightarrow> ('x, 'z) tier_state_scheme \<Rightarrow> int" where
  "getInsuranceLockupAmount delAddr valAddr s =
     (case kv_get (insurance s) (LockupKey delAddr valAddr) of None \<Rightarrow> 0 | Some l \<Rightarrow> Amount l)"

definition newLockup :: "('x, 'v) Keeper \<Rightarrow> addr \<Rightarrow> addr \<Rightarrow> int \<Rightarrow> Lockup" where
  "newLockup K delAddr valAddr amount =
     \<lparr>DelegatorAddress = AccString (codec K) delAddr, ValidatorAddress = ValString (codec K) valAddr, Amount = amount\<rparr>"

definition setInsuranceLockup :: "('x, 'v) Keeper \<Rightarrow> addr \<Rightarrow> addr \<Rightarrow> int \<Rightarrow> ('x, 'z, unit) TM" where
  "setInsuranceLockup K delAddr valAddr amount =
     modifyM (\<lambda>s. s\<lparr>insurance := kv_set (LockupKey delAddr valAddr) (newLockup K delAddr valAddr amount) (insurance s)\<rparr>)"

definition removeInsuranceLockup :: "addr \<Rightarrow> addr \<Rightarrow> ('x, 'z, unit) TM" where
  "removeInsuranceLockup delAddr valAddr =
     modifyM (\<lambda>s. s\<lparr>insurance := kv_del (LockupKey delAddr valAddr) (insurance s)\<rparr>)"

definition AddInsuranceLockup :: "('x, 'v) Keeper \<Rightarrow> addr \<Rightarrow> addr \<Rightarrow> int \<Rightarrow> ('x, 'z, unit) TM" where
  "AddInsuranceLockup K delAddr valAddr amount =
     bindM (getM (getInsuranceLockup delAddr valAddr)) (\<lambda>l.
     setInsuranceLockup K delAddr valAddr (case l of None \<Rightarrow> amount | Some i \<Rightarrow> amount + Amount i))"

definition mustIterateInsuranceLockups ::
  "(addr \<Rightarrow> addr \<Rightarrow> Lockup \<Rightarrow> 'b \<Rightarrow> ('x, 'z, 'b) TM) \<Rightarrow> 'b \<Rightarrow> ('x, 'z, 'b) TM" where
  "mustIterateInsuranceLockups cb b =
     bindM (getM insurance) (\<lambda>st. iterKV LockupKeyToAddresses (\<lambda>(d, v). cb d v) st b)"

definition GetAllInsuranceLockups :: "('x, 'z, Lockup list) TM" where
  "GetAllInsuranceLockups = mustIterateInsuranceLockups (\<lambda>d v l acc. ret (acc @ [l])) []"

definition totalInsuredAmountByAddr :: "addr \<Rightarrow> ('x, 'z, int) TM" where
  "totalInsuredAmountByAddr delAddr =
     mustIterateInsuranceLockups (\<lambda>d v l acc. ret (if d = delAddr then acc + Amount l else acc)) 0"

section \<open>Lockups\<close>

definition mustIterateLockups ::
  "(addr \<Rightarrow> addr \<Rightarrow> Lockup \<Rightarrow> 'b \<Rightarrow> ('x, 'z, 'b) TM) \<Rightarrow> 'b \<Rightarrow> ('x, 'z, 'b) TM" where
  "mustIterateLockups cb b =
     bindM (getM lockups) (\<lambda>st. iterKV LockupKeyToAddresses (\<lambda>(d, v). cb d v) st b)"

definition mustIterateUnlockingLockups ::
  "(addr \<Rightarrow> addr \<Rightarrow> int \<Rightarrow> UnlockingLockup \<Rightarrow> 'b \<Rightarrow> ('x, 'z, 'b) TM) \<Rightarrow> 'b \<Rightarrow> ('x, 'z, 'b) TM" where
  "mustIterateUnlockingLockups cb b =
     bindM (getM unlockings) (\<lambda>st. iterKV UnlockingLockupKeyToAddressesAtHeight (\<lambda>(d, v, h). cb d v h) st b)"

text \<open>Here the callback returns an error, which ends the iteration.\<close>

definition iterateUnlockingLockups ::
  "(addr \<Rightarrow> addr \<Rightarrow> int \<Rightarrow> UnlockingLockup \<Rightarrow> ('x, 'z, unit) TM) \<Rightarrow> ('x, 'z, unit) TM" where
  "iterateUnlockingLockups cb =
     bindM (getM unlockings) (\<lambda>st.
     iterKV UnlockingLockupKeyToAddressesAtHeight (\<lambda>(d, v, h) l _. cb d v h l) st ())"

definition GetAllLockups :: "('x, 'z, Lockup list) TM" where
  "GetAllLockups = mustIterateLockups (\<lambda>d v l acc. ret (acc @ [l])) []"

definition GetAllUnlockingLockups :: "('x, 'z, UnlockingLockup list) TM" where
  "GetAllUnlockingLockups = mustIterateUnlockingLockups (\<lambda>d v h l acc. ret (acc @ [l])) []"

definition setLockup :: "('x, 'v) Keeper \<Rightarrow> addr \<Rightarrow> addr \<Rightarrow> int \<Rightarrow> ('x, 'z, unit) TM" where
  "setLockup K delAddr valAddr amount =
     modifyM (\<lambda>s. s\<lparr>lockups := kv_set (LockupKey delAddr valAddr) (newLockup K delAddr valAddr amount) (lockups s)\<rparr>)"

definition SetUnlockingLockup ::
  "('x, 'v) Keeper \<Rightarrow> addr \<Rightarrow> addr \<Rightarrow> int \<Rightarrow> int \<Rightarrow> time \<Rightarrow> time \<Rightarrow> ('x, 'z, unit) TM" where
  "SetUnlockingLockup K delAddr valAddr creationHeight amount completionTime unlockTime =
     thenM (liftE (mustTimes (codec K) [completionTime, unlockTime]))
     (modifyM (\<lambda>s. s\<lparr>unlockings :=
        kv_set (UnlockingLockupKey delAddr valAddr creationHeight)
          \<lparr>ul_DelegatorAddress = AccString (codec K) delAddr, ul_ValidatorAddress = ValString (codec K) valAddr,
           CreationHeight = creationHeight, ul_Amount = amount, CompletionTime = completionTime, UnlockTime = unlockTime\<rparr>
          (unlockings s)\<rparr>))"

definition GetLockup :: "addr \<Rightarrow> addr \<Rightarrow> ('x, 'z) tier_state_scheme \<Rightarrow> Lockup option" where
  "GetLockup delAddr valAddr s = kv_get (lockups s) (LockupKey delAddr valAddr)"

definition GetLockupAmount :: "addr \<Rightarrow> addr \<Rightarrow> ('x, 'z) tier_state_scheme \<Rightarrow> int" where
  "GetLockupAmount delAddr valAddr s =
     (case kv_get (lockups s) (LockupKey delAddr valAddr) of None \<Rightarrow> 0 | Some l \<Rightarrow> Amount l)"

definition hasLockup :: "addr \<Rightarrow> addr \<Rightarrow> ('x, 'z) tier_state_scheme \<Rightarrow> bool" where
  "hasLockup delAddr valAddr s \<longleftrightarrow> kv_get (lockups s) (LockupKey delAddr valAddr) \<noteq> None"

definition HasUnlockingLockup :: "addr \<Rightarrow> addr \<Rightarrow> int \<Rightarrow> ('x, 'z) tier_state_scheme \<Rightarrow> bool" where
  "HasUnlockingLockup delAddr valAddr creationHeight s \<longleftrightarrow>
     kv_get (unlockings s) (UnlockingLockupKey delAddr valAddr creationHeight) \<noteq> None"

definition GetUnlockingLockup :: "addr \<Rightarrow> addr \<Rightarrow> int \<Rightarrow> ('x, 'z) tier_state_scheme \<Rightarrow> UnlockingLockup option" where
  "GetUnlockingLockup delAddr valAddr creationHeight s =
     kv_get (unlockings s) (UnlockingLockupKey delAddr valAddr creationHeight)"

definition removeLockup :: "addr \<Rightarrow> addr \<Rightarrow> ('x, 'z, unit) TM" where
  "removeLockup delAddr valAddr = modifyM (\<lambda>s. s\<lparr>lockups := kv_del (LockupKey delAddr valAddr) (lockups s)\<rparr>)"

definition removeUnlockingLockup :: "addr \<Rightarrow> addr \<Rightarrow> int \<Rightarrow> ('x, 'z, unit) TM" where
  "removeUnlockingLockup delAddr valAddr creationHeight =
     modifyM (\<lambda>s. s\<lparr>unlockings := kv_del (UnlockingLockupKey delAddr valAddr creationHeight) (unlockings s)\<rparr>)"

definition GetTotalLockupsAmount :: "('x, 'z) tier_state_scheme \<Rightarrow> int" where
  "GetTotalLockupsAmount s = (case total_lockups s of None \<Rightarrow> 0 | Some t \<Rightarrow> if t < 0 then 0 else t)"

definition setTotalLockupsAmount :: "int \<Rightarrow> ('x, 'z, unit) TM" where
  "setTotalLockupsAmount tot =
     thenM (modifyM (\<lambda>s. s\<lparr>total_lockups := Some tot\<rparr>)) (thenM (liftE (Int64 tot)) (ret ()))"

definition AddLockup :: "('x, 'v) Keeper \<Rightarrow> addr \<Rightarrow> addr \<Rightarrow> int \<Rightarrow> ('x, 'z, unit) TM" where
  "AddLockup K delAddr valAddr amount =
     bindM (getM GetTotalLockupsAmount) (\<lambda>tot.
     thenM (setTotalLockupsAmount (tot + amount))
     (bindM (getM (GetLockup delAddr valAddr)) (\<lambda>l.
      setLockup K delAddr valAddr (case l of None \<Rightarrow> amount | Some l \<Rightarrow> amount + Amount l))))"

definition subtractLockup :: "('x, 'v) Keeper \<Rightarrow> addr \<Rightarrow> addr \<Rightarrow> int \<Rightarrow> ('x, 'z, unit) TM" where
  "subtractLockup K delAddr valAddr amount =
     bindM (getM (GetLockup delAddr valAddr)) (\<lambda>lk.
     case lk of
       None \<Rightarrow> fail ErrNotFound
     | Some lockup \<Rightarrow>
         bindM (getM (getInsuranceLockup delAddr valAddr)) (\<lambda>ins.
         let insuranceLockupAmount = (case ins of None \<Rightarrow> 0 | Some i \<Rightarrow> Amount i) in
         if amount + insuranceLockupAmount > Amount lockup then fail ErrInvalidAmount
         else
           bindM (getM GetTotalLockupsAmount) (\<lambda>tot.
           bindM (liftE (SafeSub tot amount)) (\<lambda>newTotal.
           thenM (setTotalLockupsAmount newTotal)
           (if amount = Amount lockup then removeLockup delAddr valAddr
            else
              bindM (liftE (SafeSub (Amount lockup) amount)) (\<lambda>newAmt.
              setLockup K delAddr valAddr newAmt))))))"

definition subtractUnlockingLockup :: "('x, 'v) Keeper \<Rightarrow> addr \<Rightarrow> addr \<Rightarrow> int \<Rightarrow> int \<Rightarrow> ('x, 'z, unit) TM" where
  "subtractUnlockingLockup K delAddr valAddr creationHeight amount =
     bindM (getM (GetUnlockingLockup delAddr valAddr creationHeight)) (\<lambda>ul.
     case ul of
       None \<Rightarrow> fail ErrNotFound
     | Some u \<Rightarrow>
         if amount > ul_Amount u then fail ErrInvalidAmount
         else if amount = ul_Amount u then removeUnlockingLockup delAddr valAddr creationHeight
         else
           bindM (liftE (SafeSub (ul_Amount u) amount)) (\<lambda>newAmt.
           SetUnlockingLockup K delAddr valAddr creationHeight newAmt (CompletionTime u) (UnlockTime u)))"

definition totalLockedAmountByAddr :: "addr \<Rightarrow> ('x, 'z, int) TM" where
  "totalLockedAmountByAddr delAddr =
     mustIterateLockups (\<lambda>d v l acc. ret (if d = delAddr then acc + Amount l else acc)) 0"

definition adjustLockup :: "('x, 'v) Keeper \<Rightarrow> addr \<Rightarrow> addr \<Rightarrow> dec \<Rightarrow> dec \<Rightarrow> ('x, 'z, unit) TM" where
  "adjustLockup K delAddr valAddr slashingRate coverageRate =
     bindM (getM (GetLockup delAddr valAddr)) (\<lambda>lk.
     case lk of
       None \<Rightarrow> fail ErrNotFound
     | Some lockup \<Rightarrow>
         let dc = decOps K;
             amountAfterSlashing = DecTruncateInt dc (DecMul dc (Amount lockup * dec_one) slashingRate) in
         if amountAfterSlashing = Amount lockup then ret ()
         else
           bindM (getM GetTotalLockupsAmount) (\<lambda>tot.
           bindM (liftE (SafeSub tot (Amount lockup))) (\<lambda>newTotal.
           thenM (setTotalLockupsAmount (newTotal + amountAfterSlashing))
           (if amountAfterSlashing = 0 then
              thenM (removeLockup delAddr valAddr) (removeInsuranceLockup delAddr valAddr)
            else
              thenM (setLockup K delAddr valAddr amountAfterSlashing)
              (if coverageRate > 0 then
                 bindM (getM (getInsuranceLockup delAddr valAddr)) (\<lambda>ins.
                 let coveredAmount = DecTruncateInt dc (DecMul dc (Amount lockup * dec_one) coverageRate) in
                 setInsuranceLockup K delAddr valAddr
                   (case ins of None \<Rightarrow> coveredAmount | Some i \<Rightarrow> coveredAmount + Amount i))
               else ret ())))))"

definition adjustLockups :: "('x, 'v) Keeper \<Rightarrow> addr \<Rightarrow> dec \<Rightarrow> dec \<Rightarrow> ('x, 'z, unit) TM" where
  "adjustLockups K validatorAddr slashingRate coverageRate =
     bindM (getM lockups) (\<lambda>st.
     iterKV LockupKeyToAddresses
       (\<lambda>(d, v) l _. if v \<noteq> validatorAddr then ret () else adjustLockup K d v slashingRate coverageRate) st ())"

named_theorems frame_rules "operations keep what is independent of the fields they write"

section \<open>Frames\<close>

text \<open>
  A predicate is independent of a group of fields when updating them does not change it. An operation
  keeps every predicate that is independent of the fields it writes.
\<close>

definition indep_ext :: "(('x, 'z) tier_state_scheme \<Rightarrow> bool) \<Rightarrow> bool" where
  "indep_ext P \<longleftrightarrow> (\<forall>s x es. P (s\<lparr>ext := x\<rparr>) = P s \<and> P (s\<lparr>events := es\<rparr>) = P s)"

definition indep_lockups :: "(('x, 'z) tier_state_scheme \<Rightarrow> bool) \<Rightarrow> bool" where
  "indep_lockups P \<longleftrightarrow>
     (\<forall>s l i t. P (s\<lparr>lockups := l\<rparr>) = P s \<and> P (s\<lparr>insurance := i\<rparr>) = P s \<and> P (s\<lparr>total_lockups := t\<rparr>) = P s)"

definition indep_unlockings :: "(('x, 'z) tier_state_scheme \<Rightarrow> bool) \<Rightarrow> bool" where
  "indep_unlockings P \<longleftrightarrow> (\<forall>s u. P (s\<lparr>unlockings := u\<rparr>) = P s)"

lemma keeps_ext [keeps_rules]: "indep_ext P \<Longrightarrow> keeps P (extM m)"
  by (rule keepsI) (auto simp: extM_def indep_ext_def split: prod.splits)

lemma keeps_event [keeps_rules]: "indep_ext P \<Longrightarrow> keeps P (EmitEvent e)"
  by (rule keeps_EmitEvent) (simp add: indep_ext_def)

lemma keeps_readonly:
  "keeps P (mustIterateLockups (\<lambda>d v l acc. ret (f d v l acc)) b)"
  "keeps P (mustIterateInsuranceLockups (\<lambda>d v l acc. ret (f d v l acc)) b)"
  "keeps P (totalLockedAmountByAddr d)"
  "keeps P (totalInsuredAmountByAddr d)"
  by (auto simp: mustIterateLockups_def mustIterateInsuranceLockups_def totalLockedAmountByAddr_def
      totalInsuredAmountByAddr_def intro!: keeps_rules)

lemmas [keeps_rules] = keeps_readonly

lemma frame_lockups [frame_rules]:
  assumes "indep_lockups P"
  shows "keeps P (setLockup K d v a)" and "keeps P (removeLockup d v)"
    and "keeps P (setInsuranceLockup K d v a)" and "keeps P (removeInsuranceLockup d v)"
    and "keeps P (setTotalLockupsAmount a)"
  using assms
  by (auto simp: indep_lockups_def setLockup_def removeLockup_def setInsuranceLockup_def
      removeInsuranceLockup_def setTotalLockupsAmount_def intro!: keeps_rules keeps_modifyM)

lemma frame_lockup_ops [frame_rules]:
  assumes "indep_lockups P"
  shows "keeps P (AddInsuranceLockup K d v a)" and "keeps P (AddLockup K d v a)"
    and "keeps P (subtractLockup K d v a)" and "keeps P (adjustLockup K d v r c)"
  using assms
  by (auto simp: AddInsuranceLockup_def AddLockup_def subtractLockup_def adjustLockup_def Let_def
      intro!: keeps_rules frame_rules)

lemma frame_unlockings [frame_rules]:
  assumes "indep_unlockings P"
  shows "keeps P (SetUnlockingLockup K d v h a ct ut)" and "keeps P (removeUnlockingLockup d v h)"
  using assms
  by (auto simp: indep_unlockings_def SetUnlockingLockup_def removeUnlockingLockup_def
      intro!: keeps_rules keeps_modifyM)

lemma frame_subtractUnlocking [frame_rules]:
  "indep_unlockings P \<Longrightarrow> keeps P (subtractUnlockingLockup K d v h a)"
  by (auto simp: subtractUnlockingLockup_def intro!: keeps_rules frame_rules)

section \<open>The total of the lockups\<close>

definition lockups_inv :: "('x, 'z) tier_state_scheme \<Rightarrow> bool" where
  "lockups_inv s \<longleftrightarrow>
     kv_ok (lockups s) \<and> (\<forall>p\<in>set (lockups s). 0 \<le> Amount (snd p)) \<and>
     (\<forall>p\<in>set (insurance s). 0 \<le> Amount (snd p)) \<and>
     GetTotalLockupsAmount s = kv_sum Amount (lockups s)"

lemma lockups_inv_indep: "indep_ext lockups_inv" "indep_unlockings lockups_inv"
  by (auto simp: indep_ext_def indep_unlockings_def lockups_inv_def GetTotalLockupsAmount_def)

lemma Amount_newLockup [simp]: "Amount (newLockup K d v a) = a"
  by (simp add: newLockup_def)

lemma setTotalLockupsAmount_run:
  "setTotalLockupsAmount t s =
     (if is_i64 t then Inr () else Inl (Panic (PanicMsg ''Int64() out of bound'')), s\<lparr>total_lockups := Some t\<rparr>)"
  by (simp add: setTotalLockupsAmount_def thenM_def bindM_def Int64_def)

lemma AddLockup_run:
  "AddLockup K d v a s =
     (let t = GetTotalLockupsAmount s + a in
      if is_i64 t then
        (Inr (), s\<lparr>total_lockups := Some t,
                   lockups := kv_set (LockupKey d v) (newLockup K d v (GetLockupAmount d v s + a)) (lockups s)\<rparr>)
      else (Inl (Panic (PanicMsg ''Int64() out of bound'')), s\<lparr>total_lockups := Some t\<rparr>))"
  by (auto simp: AddLockup_def setTotalLockupsAmount_run setLockup_def thenM_def bindM_def GetLockup_def
      GetLockupAmount_def Let_def add.commute split: option.splits)

lemma lockup_nonneg: "lockups_inv s \<Longrightarrow> 0 \<le> GetLockupAmount d v s"
  by (auto simp: lockups_inv_def GetLockupAmount_def split: option.splits dest!: kv_get_in_set)

lemma insurance_nonneg: "lockups_inv s \<Longrightarrow> getInsuranceLockup d v s = Some i \<Longrightarrow> 0 \<le> Amount i"
  by (auto simp: lockups_inv_def getInsuranceLockup_def dest!: kv_get_in_set)

lemma total_nonneg: "lockups_inv s \<Longrightarrow> 0 \<le> kv_sum Amount (lockups s)"
  by (rule kv_sum_nonneg) (auto simp: lockups_inv_def)

lemma opt_val_lockup: "opt_val Amount (kv_get (lockups s) (LockupKey d v)) = GetLockupAmount d v s"
  by (simp add: GetLockupAmount_def opt_val_def)

text \<open>Replacing or deleting one record and moving the total by the same amount keeps the invariant.\<close>

lemma lockups_inv_set:
  assumes "lockups_inv s" and "0 \<le> a"
  shows "lockups_inv (s\<lparr>total_lockups := Some (GetTotalLockupsAmount s - GetLockupAmount d v s + a),
           lockups := kv_set (LockupKey d v) (newLockup K d v a) (lockups s)\<rparr>)"
proof -
  let ?l = "kv_set (LockupKey d v) (newLockup K d v a) (lockups s)"
  have sum: "kv_sum Amount ?l = GetTotalLockupsAmount s - GetLockupAmount d v s + a"
    using assms(1) by (simp add: kv_sum_set opt_val_lockup lockups_inv_def)
  have pos: "\<forall>p\<in>set ?l. 0 \<le> Amount (snd p)"
    using assms set_kv_set [of "LockupKey d v" "newLockup K d v a" "lockups s"]
    by (auto simp: lockups_inv_def)
  then have "0 \<le> kv_sum Amount ?l" by (intro kv_sum_nonneg) auto
  with sum pos assms(1) show ?thesis
    by (auto simp: lockups_inv_def GetTotalLockupsAmount_def)
qed

lemma lockups_inv_del:
  assumes "lockups_inv s"
  shows "lockups_inv (s\<lparr>total_lockups := Some (GetTotalLockupsAmount s - GetLockupAmount d v s),
           lockups := kv_del (LockupKey d v) (lockups s)\<rparr>)"
proof -
  let ?l = "kv_del (LockupKey d v) (lockups s)"
  have sum: "kv_sum Amount ?l = GetTotalLockupsAmount s - GetLockupAmount d v s"
    using assms by (simp add: kv_sum_del opt_val_lockup lockups_inv_def)
  have pos: "\<forall>p\<in>set ?l. 0 \<le> Amount (snd p)"
    using assms by (auto simp: lockups_inv_def set_kv_del)
  then have "0 \<le> kv_sum Amount ?l" by (intro kv_sum_nonneg) auto
  with sum pos assms show ?thesis
    by (auto simp: lockups_inv_def GetTotalLockupsAmount_def)
qed

lemma lockups_inv_insurance:
  "lockups_inv s \<Longrightarrow> \<forall>p\<in>set i. 0 \<le> Amount (snd p) \<Longrightarrow> lockups_inv (s\<lparr>insurance := i\<rparr>)"
  by (simp add: lockups_inv_def GetTotalLockupsAmount_def)

lemma AddLockup_inv: "0 \<le> a \<Longrightarrow> keeps lockups_inv (AddLockup K d v a)"
proof (rule keepsI)
  fix s r t
  assume "0 \<le> a" "lockups_inv s" "AddLockup K d v a s = (r, t)" "\<forall>e. r = Inl e \<longrightarrow> \<not> is_panic e"
  then show "lockups_inv t"
    using lockups_inv_set [of s "GetLockupAmount d v s + a" d v K] lockup_nonneg [of s d v]
    by (auto simp: AddLockup_run Let_def split: if_splits)
qed

lemma SafeSub_Inr: "SafeSub a b = Inr c \<Longrightarrow> c = a - b"
  by (simp add: SafeSub_def split: if_splits)

lemma subtractLockup_run:
  "subtractLockup K d v a s =
     (case GetLockup d v s of
        None \<Rightarrow> (Inl ErrNotFound, s)
      | Some l \<Rightarrow>
          if a + getInsuranceLockupAmount d v s > Amount l then (Inl ErrInvalidAmount, s)
          else
            (let T = GetTotalLockupsAmount s in
             case SafeSub T a of
               Inl e \<Rightarrow> (Inl e, s)
             | Inr t \<Rightarrow>
                 if \<not> is_i64 t then (Inl (Panic (PanicMsg ''Int64() out of bound'')), s\<lparr>total_lockups := Some t\<rparr>)
                 else if a = Amount l then
                   (Inr (), s\<lparr>total_lockups := Some t, lockups := kv_del (LockupKey d v) (lockups s)\<rparr>)
                 else
                   case SafeSub (Amount l) a of
                     Inl e \<Rightarrow> (Inl e, s\<lparr>total_lockups := Some t\<rparr>)
                   | Inr n \<Rightarrow>
                       (Inr (), s\<lparr>total_lockups := Some t,
                                  lockups := kv_set (LockupKey d v) (newLockup K d v n) (lockups s)\<rparr>)))"
  by (auto simp: subtractLockup_def GetLockup_def getInsuranceLockup_def getInsuranceLockupAmount_def Let_def
      setTotalLockupsAmount_run removeLockup_def setLockup_def thenM_def bindM_def
      split: option.splits sum.splits)

text \<open>The second \<open>SafeSub\<close> cannot overflow after the checks before it, so a failed subtraction leaves
  the state untouched; that is what keeps the invariant on the error paths.\<close>

lemma SafeSub_le:
  assumes "SafeSub tot a = Inr t" and "0 \<le> a" and "a \<le> l" and "l \<le> tot"
  shows "\<exists>n. SafeSub l a = Inr n"
  using assms by (auto simp: SafeSub_def split: if_splits)

lemma lockup_le_total: "lockups_inv s \<Longrightarrow> GetLockupAmount d v s \<le> GetTotalLockupsAmount s"
proof -
  assume s: "lockups_inv s"
  from lockups_inv_del [OF s, of d v] have "0 \<le> kv_sum Amount (kv_del (LockupKey d v) (lockups s))"
    using total_nonneg by fastforce
  then show ?thesis using s by (simp add: kv_sum_del opt_val_lockup lockups_inv_def)
qed

lemma GetLockup_amount: "GetLockup d v s = Some l \<Longrightarrow> GetLockupAmount d v s = Amount l"
  by (simp add: GetLockup_def GetLockupAmount_def)

lemma insurance_amount_nonneg: "lockups_inv s \<Longrightarrow> 0 \<le> getInsuranceLockupAmount d v s"
  by (auto simp: lockups_inv_def getInsuranceLockupAmount_def split: option.splits dest!: kv_get_in_set)

lemma subtractLockup_ok:
  assumes "lockups_inv s" and "0 \<le> a" and "subtractLockup K d v a s = (r, t)"
    and "\<forall>e. r = Inl e \<longrightarrow> \<not> is_panic e"
  shows "(r \<noteq> Inr () \<longrightarrow> t = s) \<and>
    (r = Inr () \<longrightarrow>
       (\<exists>l. GetLockup d v s = Some l \<and> a + getInsuranceLockupAmount d v s \<le> Amount l \<and>
         t = s\<lparr>total_lockups := Some (GetTotalLockupsAmount s - a),
               lockups := (if a = Amount l then kv_del (LockupKey d v) (lockups s)
                           else kv_set (LockupKey d v) (newLockup K d v (Amount l - a)) (lockups s))\<rparr>))"
proof (cases "GetLockup d v s")
  case None
  then show ?thesis using assms(3) by (auto simp: subtractLockup_run)
next
  case (Some l)
  note le = lockup_le_total [OF assms(1), of d v] GetLockup_amount [OF Some] insurance_amount_nonneg [OF assms(1), of d v]
  show ?thesis
  proof (cases "SafeSub (GetTotalLockupsAmount s) a")
    case (Inl e)
    then show ?thesis using Some assms(3) by (auto simp: subtractLockup_run Let_def split: if_splits)
  next
    case (Inr n)
    note n = SafeSub_Inr [OF Inr]
    show ?thesis
    proof (cases "a + getInsuranceLockupAmount d v s > Amount l")
      case True
      then show ?thesis using Some assms(3) by (auto simp: subtractLockup_run)
    next
      case False
      then obtain m where m: "SafeSub (Amount l) a = Inr m" using SafeSub_le [OF Inr assms(2), of "Amount l"] le by auto
      have run: "subtractLockup K d v a s =
        (if is_i64 (GetTotalLockupsAmount s - a) then
           (Inr (), s\<lparr>total_lockups := Some (GetTotalLockupsAmount s - a),
               lockups := (if a = Amount l then kv_del (LockupKey d v) (lockups s)
                           else kv_set (LockupKey d v) (newLockup K d v (Amount l - a)) (lockups s))\<rparr>)
         else (Inl (Panic (PanicMsg ''Int64() out of bound'')), s\<lparr>total_lockups := Some (GetTotalLockupsAmount s - a)\<rparr>))"
        using False by (simp add: subtractLockup_run Let_def Some Inr m SafeSub_Inr [OF m] n)
      have "is_i64 (GetTotalLockupsAmount s - a)" using assms(3,4) by (auto simp: run split: if_splits)
      with assms(3) Some False show ?thesis by (simp add: run)
    qed
  qed
qed

lemma subtractLockup_inv: "0 \<le> a \<Longrightarrow> keeps lockups_inv (subtractLockup K d v a)"
proof (rule keepsI)
  fix s r t
  assume a: "0 \<le> a" and s: "lockups_inv s" and run: "subtractLockup K d v a s = (r, t)"
    and np: "\<forall>e. r = Inl e \<longrightarrow> \<not> is_panic e"
  note ok = subtractLockup_ok [OF s a run np]
  show "lockups_inv t"
  proof (cases "r = Inr ()")
    case False
    with ok s show ?thesis by simp
  next
    case True
    with ok obtain l where l: "GetLockup d v s = Some l" "a + getInsuranceLockupAmount d v s \<le> Amount l"
      and t: "t = s\<lparr>total_lockups := Some (GetTotalLockupsAmount s - a),
               lockups := (if a = Amount l then kv_del (LockupKey d v) (lockups s)
                           else kv_set (LockupKey d v) (newLockup K d v (Amount l - a)) (lockups s))\<rparr>" by blast
    show ?thesis
      using lockups_inv_del [OF s, of d v] lockups_inv_set [OF s, of "Amount l - a" d v K]
        GetLockup_amount [OF l(1)] l(2) insurance_amount_nonneg [OF s, of d v]
      by (auto simp: t)
  qed
qed

lemma setInsuranceLockup_inv: "0 \<le> a \<Longrightarrow> keeps lockups_inv (setInsuranceLockup K d v a)"
  unfolding setInsuranceLockup_def
  using set_kv_set [of "LockupKey d v" "newLockup K d v a"]
  by (intro keeps_modifyM lockups_inv_insurance) (fastforce simp: lockups_inv_def)+

lemma removeInsuranceLockup_inv [keeps_rules]: "keeps lockups_inv (removeInsuranceLockup d v)"
  unfolding removeInsuranceLockup_def
  by (intro keeps_modifyM lockups_inv_insurance) (auto simp: lockups_inv_def set_kv_del)

section \<open>Slashing adjustments\<close>

lemma dec_scale_exact: "dec_laws dc \<Longrightarrow> DecMul dc (n * dec_one) r = n * r"
  by (rule DecMul_exact) simp_all

lemma dec_scale_nonneg:
  "dec_laws dc \<Longrightarrow> 0 \<le> n \<Longrightarrow> 0 \<le> r \<Longrightarrow> DecTruncateInt dc (DecMul dc (n * dec_one) r) = n * r div dec_one"
  by (simp add: dec_scale_exact dec_lawsD(3) quo_nonneg)

lemma dec_scale_ge0:
  assumes "dec_laws dc" and "0 \<le> n" and "0 \<le> r"
  shows "0 \<le> DecTruncateInt dc (DecMul dc (n * dec_one) r)"
  unfolding dec_scale_nonneg [OF assms] using assms by (simp add: pos_imp_zdiv_nonneg_iff)

lemma AddInsuranceLockup_inv: "0 \<le> a \<Longrightarrow> keeps lockups_inv (AddInsuranceLockup K d v a)"
  unfolding AddInsuranceLockup_def
  by (rule keeps_bind_getM [where B = "\<lambda>x. \<forall>i. x = Some i \<longrightarrow> 0 \<le> Amount i"])
     (auto intro!: setInsuranceLockup_inv dest: insurance_nonneg split: option.splits)

text \<open>The tail of \<open>adjustLockup\<close>, after the total has been moved.\<close>

lemma keeps_adjust_tail:
  assumes "dec_laws (decOps K)" and "0 \<le> n"
  shows "keeps lockups_inv
    (if c > 0 then
       bindM (getM (getInsuranceLockup d v)) (\<lambda>ins.
       let covered = DecTruncateInt (decOps K) (DecMul (decOps K) (n * dec_one) c) in
       setInsuranceLockup K d v (case ins of None \<Rightarrow> covered | Some i \<Rightarrow> covered + Amount i))
     else ret ())"
proof (rule keeps_if [OF _ keeps_ret])
  assume "c > 0"
  then have cov: "0 \<le> DecTruncateInt (decOps K) (DecMul (decOps K) (n * dec_one) c)"
    using assms by (intro dec_scale_ge0) simp_all
  show "keeps lockups_inv
       (bindM (getM (getInsuranceLockup d v)) (\<lambda>ins.
       let covered = DecTruncateInt (decOps K) (DecMul (decOps K) (n * dec_one) c) in
       setInsuranceLockup K d v (case ins of None \<Rightarrow> covered | Some i \<Rightarrow> covered + Amount i)))"
    by (rule keeps_bind_getM [where B = "\<lambda>x. \<forall>i. x = Some i \<longrightarrow> 0 \<le> Amount i"])
      (use cov in \<open>auto simp: Let_def intro!: setInsuranceLockup_inv dest: insurance_nonneg split: option.splits\<close>)
qed

lemma adjustLockup_inv:
  assumes dc: "dec_laws (decOps K)" and rate: "0 \<le> rate"
  shows "keeps lockups_inv (adjustLockup K d v rate c)"
proof (rule keepsI)
  fix s r t
  assume s: "lockups_inv s" and run: "adjustLockup K d v rate c s = (r, t)"
    and np: "\<forall>e. r = Inl e \<longrightarrow> \<not> is_panic e"
  show "lockups_inv t"
  proof (cases "GetLockup d v s")
    case None
    then show ?thesis using s run by (simp add: adjustLockup_def)
  next
    case (Some l)
    let ?n = "DecTruncateInt (decOps K) (DecMul (decOps K) (Amount l * dec_one) rate)"
    let ?T = "GetTotalLockupsAmount s"
    have l0: "0 \<le> Amount l" using lockup_nonneg [OF s, of d v] GetLockup_amount [OF Some] by simp
    have n0: "0 \<le> ?n" by (rule dec_scale_ge0 [OF dc l0 rate])
    show ?thesis
    proof (cases "?n = Amount l \<or> (\<exists>e. SafeSub ?T (Amount l) = Inl e)")
      case True
      then show ?thesis using s run by (auto simp: adjustLockup_def Some Let_def bindM_def split: if_splits)
    next
      case False
      then obtain m where m: "SafeSub ?T (Amount l) = Inr m" by (cases "SafeSub ?T (Amount l)") auto
      have i: "is_i64 (?T - Amount l + ?n)"
        using run np False m SafeSub_Inr [OF m]
        by (auto simp: adjustLockup_def Some Let_def bindM_def thenM_def setTotalLockupsAmount_run split: if_splits)
      show ?thesis
      proof (cases "?n = 0")
        case True
        have "lockups_inv (s\<lparr>total_lockups := Some (?T - Amount l), lockups := kv_del (LockupKey d v) (lockups s)\<rparr>)"
          using lockups_inv_del [OF s, of d v] GetLockup_amount [OF Some] by simp
        from keepsD [OF removeInsuranceLockup_inv this, of d v] show ?thesis
          using run True False i m SafeSub_Inr [OF m]
          by (auto simp: adjustLockup_def Some Let_def bindM_def thenM_def setTotalLockupsAmount_run removeLockup_def
              removeInsuranceLockup_def)
      next
        case nz: False
        have "lockups_inv (s\<lparr>total_lockups := Some (?T - Amount l + ?n),
            lockups := kv_set (LockupKey d v) (newLockup K d v ?n) (lockups s)\<rparr>)"
          using lockups_inv_set [OF s n0, of d v K] GetLockup_amount [OF Some] by simp
        from keepsD [OF keeps_adjust_tail [OF dc l0] this _ np, of c d v t] show ?thesis
          using run nz False i m SafeSub_Inr [OF m]
          by (simp add: adjustLockup_def Some Let_def thenM_def setTotalLockupsAmount_run setLockup_def bindM_def)
      qed
    qed
  qed
qed

lemma adjustLockups_inv:
  "dec_laws (decOps K) \<Longrightarrow> 0 \<le> rate \<Longrightarrow> keeps lockups_inv (adjustLockups K val rate c)"
  unfolding adjustLockups_def by (auto intro!: keeps_rules adjustLockup_inv)

lemmas lockups_keep = AddLockup_inv subtractLockup_inv setInsuranceLockup_inv AddInsuranceLockup_inv
  adjustLockup_inv adjustLockups_inv

end
