(* ===== verification/Tier_Credits.thy ===== *)
theory Tier_Credits
  imports Tier_Lockups
begin

text \<open>
  Credits (\<open>x/tier/keeper/calculate_credit.go\<close>, \<open>credit.go\<close>): the credit earned on a lock, its
  proration within an epoch, minting, and the burn and reset of all credits at an epoch start.

  \<open>rate_at\<close> is the meaning of a rate table: the percentage earned by one unit of stake at a given height
  of the stack. \<open>calculateCredit_spec\<close> shows that the loop pays each unit at that rate, rounding down once
  per tier. The telemetry gauges have no effect on the state and are left out, apart from the
  \<open>Int64()\<close> calls that panic.
\<close>

section \<open>The credit of a lock\<close>

fun credit_loop :: "dec_ops \<Rightarrow> Rate list \<Rightarrow> int \<Rightarrow> int \<Rightarrow> int \<Rightarrow> int \<Rightarrow> int" where
  "credit_loop dc [] lockedAmt lockingAmt stakedAmt credit = credit"
| "credit_loop dc (r # rs) lockedAmt lockingAmt stakedAmt credit =
     (if stakedAmt < rate_Amount r then credit_loop dc rs lockedAmt lockingAmt stakedAmt credit
      else
        let lower = max (rate_Amount r) lockedAmt;
            diff = stakedAmt - lower;
            amt = DecQuo dc (DecMul dc (diff * dec_one) (rate_Rate r * dec_one)) (100 * dec_one);
            credit' = credit + DecTruncateInt dc amt;
            lockingAmt' = lockingAmt - diff
        in if lockingAmt' = 0 then credit'
           else credit_loop dc rs lockedAmt lockingAmt' (stakedAmt - diff) credit')"

definition calculateCredit :: "dec_ops \<Rightarrow> Rate list \<Rightarrow> int \<Rightarrow> int \<Rightarrow> int" where
  "calculateCredit dc rateList lockedAmt lockingAmt =
     credit_loop dc rateList lockedAmt lockingAmt (lockedAmt + lockingAmt) 0"

definition calculateProratedCredit ::
  "dec_ops \<Rightarrow> Rate list \<Rightarrow> int \<Rightarrow> int \<Rightarrow> time \<Rightarrow> time \<Rightarrow> duration \<Rightarrow> int" where
  "calculateProratedCredit dc rates lockedAmt lockingAmt currentEpochStartTime currentBlockTime epochDuration =
     (let credit = calculateCredit dc rates lockedAmt lockingAmt;
          sinceCurrentEpoch = Milliseconds (time_sub currentBlockTime currentEpochStartTime);
          epochDurationMs = Milliseconds epochDuration
      in if epochDurationMs = 0 then 0
         else if sinceCurrentEpoch < epochDurationMs then quo (credit * sinceCurrentEpoch) epochDurationMs
         else credit)"

text \<open>What the loop adds for one tier.\<close>

lemma tier_amount:
  assumes "dec_laws dc" and "0 \<le> w" and "0 \<le> r"
  shows "DecTruncateInt dc (DecQuo dc (DecMul dc (w * dec_one) (r * dec_one)) (100 * dec_one)) = w * r div 100"
proof -
  have "DecMul dc (w * dec_one) (r * dec_one) = w * r * dec_one"
    using assms(1) by (rule DecMul_exact) simp
  moreover have "DecQuo dc (w * r * dec_one) (100 * dec_one) = w * r * 10 ^ 16"
    using assms(1) by (rule DecQuo_exact) (simp_all add: dec_one_def)
  moreover have "quo (w * r * 10 ^ 16) dec_one = w * r div 100"
    using assms(2,3) by (simp add: quo_nonneg dec_one_def mult.commute)
  ultimately show ?thesis by (simp add: dec_lawsD(3) [OF assms(1)])
qed

text \<open>The stack above \<open>lockedAmt\<close> that is left after a tier, and the credit as a plain sum over tiers.\<close>

fun tier_sum :: "Rate list \<Rightarrow> int \<Rightarrow> int \<Rightarrow> int" where
  "tier_sum [] lo hi = 0"
| "tier_sum (r # rs) lo hi =
     (let mid = max lo (min hi (rate_Amount r)) in (hi - mid) * rate_Rate r div 100 + tier_sum rs lo mid)"

lemma tier_sum_empty [simp]: "tier_sum rs lo lo = 0"
  by (induction rs) (auto simp: Let_def min_def max_def)

lemma credit_loop_sum:
  assumes "dec_laws dc" and "\<forall>r\<in>set rs. 0 < rate_Rate r" and "0 \<le> m"
  shows "credit_loop dc rs lo m (lo + m) c = c + tier_sum rs lo (lo + m)"
  using assms(2,3)
proof (induction rs arbitrary: m c)
  case Nil
  then show ?case by simp
next
  case (Cons r rs)
  show ?case
  proof (cases "lo + m < rate_Amount r")
    case True
    then show ?thesis using Cons by (simp add: max_def min_def)
  next
    case False
    define mid where "mid = max (rate_Amount r) lo"
    have mid: "max lo (min (lo + m) (rate_Amount r)) = mid" "lo \<le> mid" "mid \<le> lo + m"
      using False Cons.prems by (auto simp: mid_def max_def min_def)
    have amt: "DecTruncateInt dc (DecQuo dc (DecMul dc ((lo + m - mid) * dec_one) (rate_Rate r * dec_one)) (100 * dec_one)) =
        (lo + m - mid) * rate_Rate r div 100"
      using Cons.prems mid by (intro tier_amount [OF assms(1)]) auto
    show ?thesis
    proof (cases "mid = lo")
      case True
      with amt False mid show ?thesis by (simp add: Let_def flip: mid_def)
    next
      case ne: False
      have "credit_loop dc rs lo (mid - lo) (lo + (mid - lo)) c' = c' + tier_sum rs lo (lo + (mid - lo))" for c'
        using Cons.prems mid by (intro Cons.IH) auto
      with amt False mid ne show ?thesis by (simp add: Let_def flip: mid_def)
    qed
  qed
qed

lemma calculateCredit_sum:
  assumes "dec_laws dc" and "\<forall>r\<in>set rs. 0 < rate_Rate r" and "0 \<le> locking"
  shows "calculateCredit dc rs locked locking = tier_sum rs locked (locked + locking)"
  using credit_loop_sum [OF assms] by (simp add: calculateCredit_def)

fun rate_at :: "Rate list \<Rightarrow> int \<Rightarrow> int" where
  "rate_at [] u = 0"
| "rate_at (r # rs) u = (if rate_Amount r \<le> u then rate_Rate r else rate_at rs u)"

lemma sum_int_split:
  fixes f :: "int \<Rightarrow> int"
  assumes "lo \<le> m" and "m \<le> hi"
  shows "sum f {lo..<hi} = sum f {lo..<m} + sum f {m..<hi}"
proof -
  have "{lo..<hi} = {lo..<m} \<union> {m..<hi}" using assms by auto
  then show ?thesis by (simp add: sum.union_disjoint)
qed

lemma div_bounds: "100 * (x div 100) \<le> x" "x \<le> 100 * (x div 100) + (99 :: int)"
  using mult_div_mod_eq [of 100 x] pos_mod_bound [of 100 x] pos_mod_sign [of 100 x] by linarith+

lemma tier_sum_rate_at:
  assumes "lo \<le> hi"
  shows "100 * tier_sum rs lo hi \<le> sum (rate_at rs) {lo..<hi} \<and>
    sum (rate_at rs) {lo..<hi} \<le> 100 * tier_sum rs lo hi + 99 * int (length rs)"
  using assms
proof (induction rs arbitrary: hi)
  case Nil
  then show ?case by simp
next
  case (Cons r rs)
  define mid where "mid = max lo (min hi (rate_Amount r))"
  have split: "sum (rate_at (r # rs)) {lo..<hi} = sum (rate_at rs) {lo..<mid} + (hi - mid) * rate_Rate r"
  proof -
    have mid: "lo \<le> mid" "mid \<le> hi" using Cons.prems by (auto simp: mid_def)
    have "sum (rate_at (r # rs)) {mid..<hi} = sum (\<lambda>_. rate_Rate r) {mid..<hi}"
      by (rule sum.cong) (auto simp: mid_def)
    moreover have "sum (rate_at (r # rs)) {lo..<mid} = sum (rate_at rs) {lo..<mid}"
      by (rule sum.cong) (auto simp: mid_def)
    ultimately show ?thesis using sum_int_split [OF mid, of "rate_at (r # rs)"] mid by simp
  qed
  have le: "lo \<le> mid" by (simp add: mid_def)
  have step: "tier_sum (r # rs) lo hi = (hi - mid) * rate_Rate r div 100 + tier_sum rs lo mid"
    by (simp add: Let_def mid_def)
  note b = div_bounds [of "(hi - mid) * rate_Rate r"]
  show ?case using split Cons.IH [OF le] b unfolding step by simp
qed

lemma tier_sum_split:
  assumes "lo \<le> x" and "x \<le> hi"
  shows "tier_sum rs lo x + tier_sum rs x hi \<le> tier_sum rs lo hi"
  using assms
proof (induction rs arbitrary: hi)
  case Nil
  then show ?case by simp
next
  case (Cons r rs)
  let ?a = "rate_Amount r" and ?r = "rate_Rate r"
  show ?case
  proof (cases "?a \<le> x")
    case True
    then have m: "max lo (min x ?a) = max lo ?a" "max x (min hi ?a) = x" "max lo (min hi ?a) = max lo ?a"
      using Cons.prems by (auto simp: max_def min_def)
    have "(x - max lo ?a) * ?r div 100 + (hi - x) * ?r div 100 \<le> (hi - max lo ?a) * ?r div 100"
    proof -
      have "(hi - max lo ?a) * ?r = (x - max lo ?a) * ?r + (hi - x) * ?r" by (simp add: algebra_simps)
      then show ?thesis using div_bounds [of "(x - max lo ?a) * ?r"] div_bounds [of "(hi - x) * ?r"]
        div_bounds [of "(hi - max lo ?a) * ?r"] by linarith
    qed
    then show ?thesis by (simp add: m Let_def)
  next
    case False
    then have m: "max lo (min x ?a) = x" "max x (min hi ?a) = min hi ?a" "max lo (min hi ?a) = min hi ?a"
      using Cons.prems by (auto simp: max_def min_def)
    have "tier_sum rs lo x + tier_sum rs x (min hi ?a) \<le> tier_sum rs lo (min hi ?a)"
      using Cons.prems False by (intro Cons.IH) auto
    then show ?thesis by (simp add: m Let_def)
  qed
qed

lemma tier_sum_nonneg:
  "\<forall>r\<in>set rs. 0 < rate_Rate r \<Longrightarrow> lo \<le> hi \<Longrightarrow> 0 \<le> tier_sum rs lo hi"
  by (induction rs arbitrary: hi) (auto simp: Let_def intro!: add_nonneg_nonneg simp: pos_imp_zdiv_nonneg_iff)

lemma calculateProratedCredit_bounds:
  assumes "dec_laws dc" and "\<forall>r\<in>set rs. 0 < rate_Rate r" and "0 \<le> locking" and "start \<le> now" and "0 \<le> dur"
  shows "0 \<le> calculateProratedCredit dc rs locked locking start now dur"
    and "calculateProratedCredit dc rs locked locking start now dur \<le> calculateCredit dc rs locked locking"
proof -
  define c where "c = calculateCredit dc rs locked locking"
  define e where "e = Milliseconds (time_sub now start)"
  define m where "m = Milliseconds dur"
  have c: "0 \<le> c"
    unfolding c_def calculateCredit_sum [OF assms(1-3)] using assms(2,3) by (intro tier_sum_nonneg) auto
  have e: "0 \<le> e" using assms(4) by (simp add: e_def Milliseconds_def time_sub_def quo_nonneg pos_imp_zdiv_nonneg_iff)
  have m: "0 \<le> m" using assms(5) by (simp add: m_def Milliseconds_def quo_nonneg pos_imp_zdiv_nonneg_iff)
  have "0 \<le> c * e div m \<and> c * e div m \<le> c" if "e < m"
  proof
    show "0 \<le> c * e div m" using that c e by (simp add: pos_imp_zdiv_nonneg_iff)
    have "c * e div m \<le> c * m div m" using that c e by (intro zdiv_mono1 mult_left_mono) auto
    then show "c * e div m \<le> c" using that e by simp
  qed
  then have "0 \<le> calculateProratedCredit dc rs locked locking start now dur \<and>
      calculateProratedCredit dc rs locked locking start now dur \<le> c"
    using c e m unfolding calculateProratedCredit_def c_def [symmetric] e_def [symmetric] m_def [symmetric]
    by (auto simp: Let_def quo_nonneg)
  then show "0 \<le> calculateProratedCredit dc rs locked locking start now dur"
    and "calculateProratedCredit dc rs locked locking start now dur \<le> calculateCredit dc rs locked locking"
    by (auto simp: c_def)
qed

section \<open>Credit operations\<close>

definition getTotalCreditAmount :: "('x, 'z) tier_state_scheme \<Rightarrow> int" where
  "getTotalCreditAmount s = (case total_credits s of None \<Rightarrow> 0 | Some t \<Rightarrow> if t < 0 then 0 else t)"

definition setTotalCreditAmount :: "int \<Rightarrow> ('x, 'z, unit) TM" where
  "setTotalCreditAmount tot =
     thenM (modifyM (\<lambda>s. s\<lparr>total_credits := Some tot\<rparr>))
     (if tot > 0 then thenM (liftE (Int64 tot)) (ret ()) else ret ())"

definition mintCredit :: "('x, 'v) Keeper \<Rightarrow> addr \<Rightarrow> int \<Rightarrow> ('x, 'z, unit) TM" where
  "mintCredit K a amount =
     bindM (liftE (AccFromBech32 (codec K) (AccString (codec K) a))) (\<lambda>_.
     if amount \<le> 0 then fail (ErrStd ''invalid amount'')
     else
       bindM (liftE (NewCoins (coinOps K) MicroCreditDenom amount)) (\<lambda>coins.
       thenM (extM (MintCoins K TierModuleName coins))
       (extM (SendCoinsFromModuleToAccount K TierModuleName a coins))))"

definition proratedCredit :: "('x, 'v) Keeper \<Rightarrow> sdk_ctx \<Rightarrow> addr \<Rightarrow> int \<Rightarrow> ('x, 'z, int) TM" where
  "proratedCredit K ctx delAddr lockingAmt =
     bindM (getM GetParams) (\<lambda>params.
     bindM (getM (GetEpochInfo EpochIdentifier)) (\<lambda>epochInfo.
     bindM (totalLockedAmountByAddr delAddr) (\<lambda>lockedAmt.
     bindM (totalInsuredAmountByAddr delAddr) (\<lambda>insuredAmt.
     ret (calculateProratedCredit (decOps K) (RewardRates params) (lockedAmt + insuredAmt) lockingAmt
            (CurrentEpochStartTime epochInfo) (BlockTime ctx) (Duration epochInfo))))))"

text \<open>
  The callback of \<open>burnAllCredits\<close>. It assigns to the \<open>err\<close> of the enclosing function, so an error is
  forgotten when a later delegator is processed without one. The credit utilization that is reported to
  telemetry is left out: it writes nothing, and the conversion of a \<open>LegacyDec\<close> to a float, the one call
  there that returns an error, has no error for a number in its range.
\<close>

definition burn_credit :: "('x, 'v) Keeper \<Rightarrow> addr \<Rightarrow> error option \<Rightarrow> ('x, 'z, error option) TM" where
  "burn_credit K delAddr err =
     bindM (getM (\<lambda>s. GetBalance K delAddr MicroCreditDenom (ext s))) (\<lambda>amt.
     if \<not> amt > 0 then ret err
     else
       bindM (liftE (NewCoins (coinOps K) MicroCreditDenom amt)) (\<lambda>coins.
       bindM (tryM (extM (SendCoinsFromAccountToModule K delAddr TierModuleName coins))) (\<lambda>r.
       case r of
         Inl e \<Rightarrow> ret (Some e)
       | Inr _ \<Rightarrow>
           bindM (tryM (extM (BurnCoins K TierModuleName coins))) (\<lambda>r.
           case r of Inl e \<Rightarrow> ret (Some e) | Inr _ \<Rightarrow> ret None))))"

definition burnAllCredits :: "('x, 'v) Keeper \<Rightarrow> ('x, 'z, unit) TM" where
  "burnAllCredits K =
     bindM (mustIterateLockups (\<lambda>delAddr _ _ err. burn_credit K delAddr err) None) (\<lambda>err.
     thenM (setTotalCreditAmount 0) (case err of None \<Rightarrow> ret () | Some e \<Rightarrow> fail e))"

definition addLockedAmt :: "('x, 'v) Keeper \<Rightarrow> addr \<Rightarrow> addr \<Rightarrow> Lockup \<Rightarrow> int kv \<Rightarrow> ('x, 'z, int kv) TM" where
  "addLockedAmt K delAddr valAddr lockup lockedAmts =
     bindM (getM (getInsuranceLockupAmount delAddr valAddr)) (\<lambda>insuranceLockupAmount.
     let key = AccString (codec K) delAddr;
         amt = (case kv_get lockedAmts key of None \<Rightarrow> 0 | Some a \<Rightarrow> a)
     in ret (kv_set key (amt + Amount lockup + insuranceLockupAmount) lockedAmts))"

definition mint_all :: "('x, 'v) Keeper \<Rightarrow> Rate list \<Rightarrow> (string \<times> int) list \<Rightarrow> ('x, 'z, int) TM" where
  "mint_all K rates amts =
     foldM (\<lambda>(delStrAddr, amount) totalCredit.
       bindM (liftE (case AccFromBech32 (codec K) delStrAddr of
                       Inl _ \<Rightarrow> Inl (Panic (PanicMsg ''bech32'')) | Inr a \<Rightarrow> Inr a)) (\<lambda>delAddr.
       let credit = calculateCredit (decOps K) rates 0 amount in
       thenM (mintCredit K delAddr credit) (ret (totalCredit + credit)))) amts 0"

definition resetAllCredits :: "('x, 'v) Keeper \<Rightarrow> ('x, 'z, unit) TM" where
  "resetAllCredits K =
     bindM (mustIterateLockups (addLockedAmt K) []) (\<lambda>lockedAmts.
     bindM (getM GetParams) (\<lambda>params.
     bindM (mint_all K (RewardRates params) (mapOrder K lockedAmts)) setTotalCreditAmount))"

section \<open>Frames\<close>

definition indep_credits :: "(('x, 'z) tier_state_scheme \<Rightarrow> bool) \<Rightarrow> bool" where
  "indep_credits P \<longleftrightarrow> (\<forall>s t. P (s\<lparr>total_credits := t\<rparr>) = P s)"

lemma frame_setTotalCredit [frame_rules]: "indep_credits P \<Longrightarrow> keeps P (setTotalCreditAmount t)"
  unfolding setTotalCreditAmount_def
  by (auto simp: indep_credits_def intro!: keeps_rules keeps_modifyM)

lemma frame_mintCredit [keeps_rules]: "indep_ext P \<Longrightarrow> keeps P (mintCredit K a n)"
  unfolding mintCredit_def by (intro keeps_rules)

lemma keeps_proratedCredit [keeps_rules]: "keeps P (proratedCredit K ctx a n)"
  unfolding proratedCredit_def by (intro keeps_rules)

lemma frame_burnAllCredits [frame_rules]:
  "indep_ext P \<Longrightarrow> indep_credits P \<Longrightarrow> keeps P (burnAllCredits K)"
  unfolding burnAllCredits_def mustIterateLockups_def burn_credit_def
  by (auto intro!: keeps_rules frame_rules)

lemma frame_resetAllCredits [frame_rules]:
  "indep_ext P \<Longrightarrow> indep_credits P \<Longrightarrow> keeps P (resetAllCredits K)"
  unfolding resetAllCredits_def mustIterateLockups_def addLockedAmt_def mint_all_def Let_def
  by (auto intro!: keeps_rules frame_rules)

end
