(* ===== verification/Tier_Keeper.thy ===== *)
theory Tier_Keeper
  imports Tier_Credits
begin

text \<open>
  Locking stake (\<open>x/tier/keeper/keeper.go\<close>): \<open>CompleteUnlocking\<close>, \<open>LockAuto\<close>, \<open>Lock\<close>, \<open>Unlock\<close>,
  \<open>Redelegate\<close> and \<open>CancelUnlocking\<close>. The metrics that each method reports on return are left out.
\<close>

definition complete_one :: "('x, 'v) Keeper \<Rightarrow> sdk_ctx \<Rightarrow> addr \<Rightarrow> addr \<Rightarrow> int \<Rightarrow> UnlockingLockup \<Rightarrow> ('x, 'z, unit) TM" where
  "complete_one K ctx delAddr valAddr creationHeight u =
     (if BlockTime ctx < CompletionTime u \<or> BlockTime ctx < UnlockTime u then ret ()
      else
        bindM (getM (\<lambda>s. GetBalance K (ModuleAddress K TierModuleName) DefaultBondDenom (ext s))) (\<lambda>moduleBalance.
        if moduleBalance < ul_Amount u then ret ()
        else
          bindM (liftE (NewCoins (coinOps K) DefaultBondDenom (ul_Amount u))) (\<lambda>coins.
          thenM (extM (UndelegateCoinsFromModuleToAccount K TierModuleName delAddr coins))
          (thenM (removeUnlockingLockup delAddr valAddr creationHeight)
          (EmitEvent (''complete_unlocking'',
             [(''delegator'', AccString (codec K) delAddr), (''validator'', ValString (codec K) valAddr),
              (''creation_height'', itoa creationHeight), (''amount'', itoa (ul_Amount u))]))))))"

definition CompleteUnlocking :: "('x, 'v) Keeper \<Rightarrow> sdk_ctx \<Rightarrow> ('x, 'z, unit) TM" where
  "CompleteUnlocking K ctx = iterateUnlockingLockups (complete_one K ctx)"

definition Lock :: "('x, 'v) Keeper \<Rightarrow> sdk_ctx \<Rightarrow> addr \<Rightarrow> addr \<Rightarrow> int \<Rightarrow> ('x, 'z, unit) TM" where
  "Lock K ctx delAddr valAddr amt =
     (if \<not> 0 < amt then fail ErrInvalidAmount
      else
        bindM (tryM (extR (GetValidator K valAddr))) (\<lambda>v.
        case v of
          Inl _ \<Rightarrow> fail ErrInvalidAddress
        | Inr validator \<Rightarrow>
            bindM (liftE (NewCoins (coinOps K) DefaultBondDenom amt)) (\<lambda>coins.
            thenM (extM (DelegateCoinsFromAccountToModule K delAddr TierModuleName coins))
            (thenM (extM (Delegate K (ModuleAddress K TierModuleName) amt Unbonded validator True))
            (bindM (proratedCredit K ctx delAddr amt) (\<lambda>creditAmt.
             thenM (mintCredit K delAddr creditAmt)
             (thenM (AddLockup K delAddr valAddr amt)
             (bindM (getM getTotalCreditAmount) (\<lambda>totalCredits.
              thenM (setTotalCreditAmount (totalCredits + creditAmt))
              (EmitEvent (''lock'',
                 [(''delegator'', AccString (codec K) delAddr), (''validator'', ValString (codec K) valAddr),
                  (''amount'', itoa amt), (''credit_amount'', itoa creditAmt)])))))))))))"

text \<open>The first entry with the smallest amount.\<close>

definition min_first :: "('b \<Rightarrow> int) \<Rightarrow> 'b list \<Rightarrow> 'b option" where
  "min_first f xs = fold (\<lambda>x m. case m of None \<Rightarrow> Some x | Some y \<Rightarrow> if f x < f y then Some x else Some y) xs None"

definition selectValidatorFromExistingLockups :: "('x, 'v) Keeper \<Rightarrow> addr \<Rightarrow> ('x, 'z, addr option) TM" where
  "selectValidatorFromExistingLockups K delAddr =
     bindM (mustIterateLockups (\<lambda>d v l acc. ret (if d = delAddr then acc @ [(v, Amount l)] else acc)) []) (\<lambda>developerLockups.
     case min_first snd developerLockups of
       None \<Rightarrow> ret None
     | Some minLockup \<Rightarrow>
         bindM (tryM (extR (GetValidator K (fst minLockup)))) (\<lambda>v.
         case v of
           Inl _ \<Rightarrow> ret None
         | Inr validator \<Rightarrow> ret (if val_IsBonded K validator then Some (fst minLockup) else None)))"

definition validator_delegations :: "('x, 'v) Keeper \<Rightarrow> 'x \<Rightarrow> 'v list \<Rightarrow> (addr \<times> int) list" where
  "validator_delegations K x vs =
     concat (map (\<lambda>v.
       if \<not> val_IsBonded K v then []
       else case ValFromBech32 (codec K) (val_Operator K v) of
              Inl _ \<Rightarrow> []
            | Inr vAddr \<Rightarrow>
                [(vAddr, case GetDelegationShares K (ModuleAddress K TierModuleName) vAddr x of
                           Inl _ \<Rightarrow> 0
                         | Inr shares \<Rightarrow> DecTruncateInt (decOps K) shares)]) vs)"

definition selectValidatorWithSmallestDelegation :: "('x, 'v) Keeper \<Rightarrow> ('x, 'z, addr) TM" where
  "selectValidatorWithSmallestDelegation K =
     bindM (tryM (extR (IterateValidators K))) (\<lambda>r.
     case r of
       Inl _ \<Rightarrow> fail ErrInvalidAddress
     | Inr vs \<Rightarrow>
         bindM (getM (\<lambda>s. min_first snd (validator_delegations K (ext s) vs))) (\<lambda>m.
         case m of None \<Rightarrow> fail ErrInvalidAddress | Some d \<Rightarrow> ret (fst d)))"

definition LockAuto :: "('x, 'v) Keeper \<Rightarrow> sdk_ctx \<Rightarrow> addr \<Rightarrow> int \<Rightarrow> ('x, 'z, addr) TM" where
  "LockAuto K ctx delAddr amt =
     bindM (selectValidatorFromExistingLockups K delAddr) (\<lambda>v.
     case v of
       Some valAddr \<Rightarrow> thenM (Lock K ctx delAddr valAddr amt) (ret valAddr)
     | None \<Rightarrow>
         bindM (selectValidatorWithSmallestDelegation K) (\<lambda>valAddr.
         thenM (Lock K ctx delAddr valAddr amt) (ret valAddr)))"

definition Unlock :: "('x, 'v) Keeper \<Rightarrow> sdk_ctx \<Rightarrow> addr \<Rightarrow> addr \<Rightarrow> int \<Rightarrow> ('x, 'z, int \<times> time \<times> time) TM" where
  "Unlock K ctx delAddr valAddr amt0 =
     (if \<not> 0 < amt0 then fail ErrInvalidAmount
      else
        thenM (subtractLockup K delAddr valAddr amt0)
        (bindM (getM (hasLockup delAddr valAddr)) (\<lambda>has.
         thenM (if has then ret () else removeInsuranceLockup delAddr valAddr)
         (let modAddr = ModuleAddress K TierModuleName in
          bindM (extR (ValidateUnbondAmount K modAddr valAddr amt0)) (\<lambda>shares.
          if \<not> 0 < shares then fail SdkErrInsufficientShares
          else
            bindM (extM (Undelegate K modAddr valAddr shares)) (\<lambda>(completionTime, returnAmount).
            let amt = (if returnAmount < amt0 then returnAmount else amt0) in
            bindM (getM GetParams) (\<lambda>params.
            case EpochDuration params of
              None \<Rightarrow> panicM ''nil pointer dereference''
            | Some epochDuration \<Rightarrow>
                let creationHeight = BlockHeight ctx;
                    unlockTime = BlockTime ctx + i64 (epochDuration * UnlockingEpochs params) in
                thenM (SetUnlockingLockup K delAddr valAddr creationHeight amt completionTime unlockTime)
                (thenM
                  (EmitEvent (''unlock'',
                     [(''delegator'', AccString (codec K) delAddr), (''validator'', ValString (codec K) valAddr),
                      (''creation_height'', itoa creationHeight), (''amount'', itoa amt),
                      (''completion_time'', Rfc3339 K completionTime), (''unlock_time'', Rfc3339 K unlockTime)]))
                (ret (creationHeight, completionTime, unlockTime))))))))))"

definition Redelegate :: "('x, 'v) Keeper \<Rightarrow> sdk_ctx \<Rightarrow> addr \<Rightarrow> addr \<Rightarrow> addr \<Rightarrow> int \<Rightarrow> ('x, 'z, time) TM" where
  "Redelegate K ctx delAddr srcValAddr dstValAddr amt =
     (if \<not> 0 < amt then fail ErrInvalidAmount
      else
        thenM (subtractLockup K delAddr srcValAddr amt)
        (thenM (AddLockup K delAddr dstValAddr amt)
        (bindM (getM (hasLockup delAddr srcValAddr)) (\<lambda>has.
         thenM
           (if has then ret ()
            else
              bindM (getM (getInsuranceLockupAmount delAddr srcValAddr)) (\<lambda>insuranceLockupAmount.
              if 0 < insuranceLockupAmount then
                thenM (removeInsuranceLockup delAddr srcValAddr)
                (AddInsuranceLockup K delAddr dstValAddr insuranceLockupAmount)
              else ret ()))
         (let modAddr = ModuleAddress K TierModuleName in
          bindM (extR (ValidateUnbondAmount K modAddr srcValAddr amt)) (\<lambda>shares.
          bindM (extM (BeginRedelegation K modAddr srcValAddr dstValAddr shares)) (\<lambda>completionTime.
          thenM
            (EmitEvent (''redelegate'',
               [(''delegator'', AccString (codec K) delAddr), (''source_validator'', ValString (codec K) srcValAddr),
                (''destination_validator'', ValString (codec K) dstValAddr), (''amount'', itoa amt),
                (''completion_time'', Rfc3339 K completionTime)]))
          (ret completionTime))))))))"

text \<open>The index of the first unbonding entry of a height that is still open.\<close>

fun find_entry :: "(ubd_entry \<Rightarrow> bool) \<Rightarrow> ubd_entry list \<Rightarrow> (nat \<times> ubd_entry) option" where
  "find_entry p [] = None"
| "find_entry p (e # es) = (if p e then Some (0, e) else map_option (\<lambda>(i, e'). (Suc i, e')) (find_entry p es))"

definition cancel_entry :: "ubd \<Rightarrow> nat \<Rightarrow> ubd_entry \<Rightarrow> int \<Rightarrow> ubd" where
  "cancel_entry u i e amt =
     (let remainingBalance = ube_Balance e - amt in
      if remainingBalance = 0 then u\<lparr>Entries := take i (Entries u) @ drop (Suc i) (Entries u)\<rparr>
      else u\<lparr>Entries := (Entries u)[i := e\<lparr>ube_Balance := remainingBalance\<rparr>]\<rparr>)"

definition CancelUnlocking :: "('x, 'v) Keeper \<Rightarrow> sdk_ctx \<Rightarrow> addr \<Rightarrow> addr \<Rightarrow> int \<Rightarrow> int \<Rightarrow> ('x, 'z, unit) TM" where
  "CancelUnlocking K ctx delAddr valAddr creationHeight amt =
     (if \<not> 0 < amt then fail ErrInvalidAmount
      else
        bindM (tryM (extR (GetValidator K valAddr))) (\<lambda>v.
        case v of
          Inl _ \<Rightarrow> fail ErrInvalidAddress
        | Inr validator \<Rightarrow>
            let modAddr = ModuleAddress K TierModuleName in
            bindM (extR (GetUnbondingDelegation K modAddr valAddr)) (\<lambda>u.
            case find_entry (\<lambda>e. ube_CreationHeight e = creationHeight \<and> BlockTime ctx < ube_CompletionTime e) (Entries u) of
              None \<Rightarrow> fail SdkErrNoUnbondingDelegation
            | Some (i, unbondEntry) \<Rightarrow>
                if amt > ube_Balance unbondEntry then fail ErrInvalidAmount
                else
                  thenM (extM (Delegate K modAddr amt Unbonding validator False))
                  (let u' = cancel_entry u i unbondEntry amt in
                   thenM
                     (if Entries u' = [] then extM (RemoveUnbondingDelegation K u')
                      else extM (SetUnbondingDelegation K u'))
                   (thenM (subtractUnlockingLockup K delAddr valAddr creationHeight amt)
                   (thenM (AddLockup K delAddr valAddr amt)
                   (EmitEvent (''cancel_unlocking'',
                      [(''delegator'', AccString (codec K) delAddr), (''validator'', ValString (codec K) valAddr),
                       (''creation_height'', itoa creationHeight), (''amount'', itoa amt)]))))))))"

end
