(* ===== verification/Tier_Subscriptions.thy ===== *)
theory Tier_Subscriptions
  imports Tier_Keeper
begin

text \<open>
  Developers and user subscriptions (\<open>x/tier/keeper/subscription.go\<close> and the second half of
  \<open>keeper.go\<close>). A subscription pays the fees of a user's DID through a periodic allowance of the
  feegrant module, granted by the developer.

  \<open>granted_inv\<close> says that the stored total of a developer is the sum of the developer's subscriptions.
  Log lines are left out, and so is the text of an error in an event.
\<close>

section \<open>Developers\<close>

definition mustIterateDevelopers ::
  "(addr \<Rightarrow> Developer \<Rightarrow> 'b \<Rightarrow> ('x, 'z, 'b) TM) \<Rightarrow> 'b \<Rightarrow> ('x, 'z, 'b) TM" where
  "mustIterateDevelopers cb b = bindM (getM developers) (\<lambda>st. iterKV DeveloperKeyToAddress cb st b)"

definition GetAllDevelopers :: "('x, 'z, Developer list) TM" where
  "GetAllDevelopers = mustIterateDevelopers (\<lambda>a d acc. ret (acc @ [d])) []"

definition GetDeveloper :: "addr \<Rightarrow> ('x, 'z) tier_state_scheme \<Rightarrow> Developer option" where
  "GetDeveloper developerAddr s = kv_get (developers s) (DeveloperKey developerAddr)"

definition SetDeveloper :: "addr \<Rightarrow> Developer \<Rightarrow> ('x, 'z, unit) TM" where
  "SetDeveloper developerAddr developer =
     modifyM (\<lambda>s. s\<lparr>developers := kv_set (DeveloperKey developerAddr) developer (developers s)\<rparr>)"

definition removeDeveloper :: "addr \<Rightarrow> ('x, 'z, unit) TM" where
  "removeDeveloper developerAddr = modifyM (\<lambda>s. s\<lparr>developers := kv_del (DeveloperKey developerAddr) (developers s)\<rparr>)"

definition btoa :: "bool \<Rightarrow> string" where
  "btoa b = (if b then ''true'' else ''false'')"

definition CreateDeveloper :: "('x, 'v) Keeper \<Rightarrow> addr \<Rightarrow> bool \<Rightarrow> ('x, 'z, unit) TM" where
  "CreateDeveloper K developerAddr autoLockEnabled =
     bindM (getM (GetDeveloper developerAddr)) (\<lambda>existing.
     case existing of
       Some _ \<Rightarrow> fail ErrInvalidAddress
     | None \<Rightarrow>
         let developer = AccString (codec K) developerAddr in
         thenM (SetDeveloper developerAddr \<lparr>dev_Address = developer, AutoLockEnabled = autoLockEnabled\<rparr>)
         (EmitEvent (''developer_created'', [(''developer'', developer), (''auto_lock_enabled'', btoa autoLockEnabled)])))"

definition UpdateDeveloper :: "('x, 'v) Keeper \<Rightarrow> addr \<Rightarrow> bool \<Rightarrow> ('x, 'z, unit) TM" where
  "UpdateDeveloper K developerAddr autoLockEnabled =
     bindM (getM (GetDeveloper developerAddr)) (\<lambda>existing.
     case existing of
       None \<Rightarrow> fail ErrInvalidAddress
     | Some developer \<Rightarrow>
         thenM (SetDeveloper developerAddr (developer\<lparr>AutoLockEnabled := autoLockEnabled\<rparr>))
         (EmitEvent (''developer_updated'',
            [(''developer'', AccString (codec K) developerAddr), (''auto_lock_enabled'', btoa autoLockEnabled)])))"

section \<open>Subscription records\<close>

definition mustIterateUserSubscriptions ::
  "(addr \<Rightarrow> string \<Rightarrow> UserSubscription \<Rightarrow> 'b \<Rightarrow> ('x, 'z, 'b) TM) \<Rightarrow> 'b \<Rightarrow> ('x, 'z, 'b) TM" where
  "mustIterateUserSubscriptions cb b =
     bindM (getM user_subs) (\<lambda>st. iterKV UserSubscriptionKeyToAddresses (\<lambda>(d, u). cb d u) st b)"

text \<open>This iterator takes the bytes of the address as prefix, without the separator.\<close>

definition mustIterateUserSubscriptionsForDeveloper ::
  "addr \<Rightarrow> (addr \<Rightarrow> string \<Rightarrow> UserSubscription \<Rightarrow> 'b \<Rightarrow> ('x, 'z, 'b) TM) \<Rightarrow> 'b \<Rightarrow> ('x, 'z, 'b) TM" where
  "mustIterateUserSubscriptionsForDeveloper developerAddr cb b =
     bindM (getM (\<lambda>s. kv_prefix developerAddr (user_subs s))) (\<lambda>st.
     iterKV UserSubscriptionKeyToAddresses (\<lambda>(d, u). cb d u) st b)"

definition GetAllUserSubscriptions :: "('x, 'z, UserSubscription list) TM" where
  "GetAllUserSubscriptions = mustIterateUserSubscriptions (\<lambda>d u sub acc. ret (acc @ [sub])) []"

definition GetUserSubscription :: "addr \<Rightarrow> string \<Rightarrow> ('x, 'z) tier_state_scheme \<Rightarrow> UserSubscription option" where
  "GetUserSubscription developerAddr userDid s = kv_get (user_subs s) (UserSubscriptionKey developerAddr userDid)"

definition SetUserSubscription :: "('x, 'v) Keeper \<Rightarrow> addr \<Rightarrow> string \<Rightarrow> UserSubscription \<Rightarrow> ('x, 'z, unit) TM" where
  "SetUserSubscription K developerAddr userDid sub =
     thenM (liftE (mustTimes (codec K) [StartDate sub, LastRenewed sub]))
     (modifyM (\<lambda>s. s\<lparr>user_subs := kv_set (UserSubscriptionKey developerAddr userDid) sub (user_subs s)\<rparr>))"

definition removeUserSubscription :: "addr \<Rightarrow> string \<Rightarrow> ('x, 'z, unit) TM" where
  "removeUserSubscription developerAddr userDid =
     modifyM (\<lambda>s. s\<lparr>user_subs := kv_del (UserSubscriptionKey developerAddr userDid) (user_subs s)\<rparr>)"

section \<open>Granted totals\<close>

definition getTotalDevGranted :: "addr \<Rightarrow> ('x, 'z) tier_state_scheme \<Rightarrow> int" where
  "getTotalDevGranted developerAddr s =
     (case kv_get (dev_granted s) (TotalDevGrantedKey developerAddr) of None \<Rightarrow> 0 | Some g \<Rightarrow> TotalGranted g)"

definition updateDeveloperTotalGranted :: "('x, 'v) Keeper \<Rightarrow> addr \<Rightarrow> int \<Rightarrow> bool \<Rightarrow> ('x, 'z, unit) TM" where
  "updateDeveloperTotalGranted K developerAddr delta add =
     bindM (getM (getTotalDevGranted developerAddr)) (\<lambda>current.
     bindM
       (if add then ret (current + delta)
        else
          bindM (liftE (SafeSub current delta)) (\<lambda>newTotal.
          if newTotal < 0 then fail ErrInvalidAmount else ret newTotal)) (\<lambda>newTotal.
     bindM (liftE (Uint64 newTotal)) (\<lambda>n.
     thenM
       (modifyM (\<lambda>s. s\<lparr>dev_granted :=
          kv_set (TotalDevGrantedKey developerAddr)
            \<lparr>tdg_Developer = AccString (codec K) developerAddr, TotalGranted = n\<rparr> (dev_granted s)\<rparr>))
     (thenM (liftE (Int64 newTotal)) (ret ())))))"

definition validateDeveloperCredits :: "('x, 'v) Keeper \<Rightarrow> addr \<Rightarrow> int \<Rightarrow> ('x, 'z) tier_state_scheme \<Rightarrow> error option" where
  "validateDeveloperCredits K developerAddr requestedAmount s =
     (let totalGranted = getTotalDevGranted developerAddr s;
          creditBalance = GetBalance K developerAddr MicroCreditDenom (ext s);
          availableCredits = creditBalance - totalGranted
      in if availableCredits < requestedAmount then Some ErrInvalidAddress else None)"

section \<open>Locking for a developer\<close>

text \<open>The validator with the developer's largest lockup, else the first validator.\<close>

definition largest_lockup :: "addr \<Rightarrow> ('x, 'z, (addr \<times> int) option) TM" where
  "largest_lockup developerAddr =
     mustIterateLockups (\<lambda>d v l acc.
       ret (if d \<noteq> developerAddr then acc
            else case acc of None \<Rightarrow> Some (v, Amount l)
                 | Some (w, m) \<Rightarrow> if Amount l > m then Some (v, Amount l) else acc)) None"

definition choose_validator :: "('x, 'v) Keeper \<Rightarrow> addr \<Rightarrow> ('x, 'z, addr) TM" where
  "choose_validator K developerAddr =
     bindM (largest_lockup developerAddr) (\<lambda>found.
     case found of
       Some (v, _) \<Rightarrow> ret v
     | None \<Rightarrow>
         bindM (tryM (extR (GetAllValidators K))) (\<lambda>r.
         case r of
           Inl _ \<Rightarrow> fail ErrInvalidAmount
         | Inr [] \<Rightarrow> fail ErrInvalidAmount
         | Inr (v # _) \<Rightarrow>
             (case ValFromBech32 (codec K) (val_Operator K v) of
                Inl _ \<Rightarrow> fail ErrInvalidAmount
              | Inr valAddr \<Rightarrow> ret valAddr)))"

definition lock_chosen :: "('x, 'v) Keeper \<Rightarrow> sdk_ctx \<Rightarrow> addr \<Rightarrow> int \<Rightarrow> ('x, 'z, unit) TM" where
  "lock_chosen K ctx developerAddr lockAmount =
     bindM (choose_validator K developerAddr) (\<lambda>chosenValAddr.
     bindM (tryM (Lock K ctx developerAddr chosenValAddr lockAmount)) (\<lambda>r.
     case r of Inl _ \<Rightarrow> fail ErrInvalidAmount | Inr _ \<Rightarrow> ret ()))"

definition autoLockDeveloperCredits :: "('x, 'v) Keeper \<Rightarrow> sdk_ctx \<Rightarrow> addr \<Rightarrow> int \<Rightarrow> ('x, 'z, unit) TM" where
  "autoLockDeveloperCredits K ctx developerAddr lockAmount =
     (if lockAmount \<le> 0 then fail ErrInvalidAmount else lock_chosen K ctx developerAddr lockAmount)"

definition addLockupForRegistration :: "('x, 'v) Keeper \<Rightarrow> sdk_ctx \<Rightarrow> addr \<Rightarrow> int \<Rightarrow> ('x, 'z, unit) TM" where
  "addLockupForRegistration K ctx developerAddr requiredAmount =
     bindM (getM (getTotalDevGranted developerAddr)) (\<lambda>currentTotal.
     bindM (getM (\<lambda>s. GetBalance K developerAddr MicroCreditDenom (ext s))) (\<lambda>creditBalance.
     let additionalNeeded = requiredAmount - (creditBalance - currentTotal) in
     if additionalNeeded \<le> 0 then ret () else lock_chosen K ctx developerAddr additionalNeeded))"

definition check_developer :: "('x, 'v) Keeper \<Rightarrow> sdk_ctx \<Rightarrow> addr \<Rightarrow> ('x, 'z, unit) TM" where
  "check_developer K ctx developerAddr =
     bindM (getM (getTotalDevGranted developerAddr)) (\<lambda>totalGranted.
     bindM (getM (\<lambda>s. GetBalance K developerAddr MicroCreditDenom (ext s))) (\<lambda>creditBalance.
     if creditBalance \<ge> totalGranted then ret ()
     else
       bindM (getM (GetDeveloper developerAddr)) (\<lambda>developer.
       let dev = (''developer'', AccString (codec K) developerAddr);
           balance = (''current_balance'', itoa creditBalance);
           granted = (''total_granted'', itoa totalGranted) in
       if (case developer of None \<Rightarrow> True | Some d \<Rightarrow> \<not> AutoLockEnabled d) then
         EmitEvent (''developer_insufficient_credits'', [dev, balance, granted, (''auto_lock_enabled'', ''false'')])
       else
         let lockAmount = totalGranted - creditBalance in
         bindM (getM (\<lambda>s. GetBalance K developerAddr DefaultBondDenom (ext s))) (\<lambda>uopenBalance.
         if uopenBalance < lockAmount then
           EmitEvent (''developer_insufficient_open_for_auto_lock'',
             [dev, balance, granted, (''uopen_balance'', itoa uopenBalance), (''required_lock_amount'', itoa lockAmount)])
         else
           bindM (tryM (autoLockDeveloperCredits K ctx developerAddr lockAmount)) (\<lambda>r.
           case r of
             Inl _ \<Rightarrow> EmitEvent (''developer_auto_lock_failed'', [dev])
           | Inr _ \<Rightarrow> EmitEvent (''developer_auto_lock_success'', [dev, (''lock_amount'', itoa lockAmount)]))))))"

definition checkDeveloperCredits :: "('x, 'v) Keeper \<Rightarrow> sdk_ctx \<Rightarrow> ('x, 'z, unit) TM" where
  "checkDeveloperCredits K ctx =
     thenM
       (mustIterateUserSubscriptions (\<lambda>developerAddr _ _ processed.
          let dev = AccString (codec K) developerAddr in
          if dev \<in> set processed then ret processed
          else thenM (check_developer K ctx developerAddr) (ret (dev # processed))) [])
     (ret ())"

section \<open>Subscriptions\<close>

text \<open>
  Fees of the developer's DID: when the transaction carries a DID, the developer is the account of
  that DID and not the one named by the message.
\<close>

definition resolve_developer :: "('x, 'v) Keeper \<Rightarrow> sdk_ctx \<Rightarrow> addr \<Rightarrow> ('x, 'z, addr) TM" where
  "resolve_developer K ctx developerAddr =
     (if ExtractedDID ctx \<noteq> '''' then liftE (GetAddressFromDID (didOps K) (ExtractedDID ctx)) else ret developerAddr)"

text \<open>An empty list of coins is nil once it has been stored.\<close>

definition spend_limit :: "coins \<Rightarrow> coins option" where
  "spend_limit cs = (if cs = [] then None else Some cs)"

definition grantPeriodicDIDAllowance ::
  "('x, 'v) Keeper \<Rightarrow> sdk_ctx \<Rightarrow> addr \<Rightarrow> string \<Rightarrow> coins \<Rightarrow> duration \<Rightarrow> ('x, 'z, unit) TM" where
  "grantPeriodicDIDAllowance K ctx granter granteeDID spendLimit period =
     (let periodicAllowance =
        FPeriodic \<lparr>Basic = \<lparr>SpendLimit = spend_limit spendLimit, Expiration = None\<rparr>, Period = period,
                   PeriodSpendLimit = spendLimit, PeriodCanSpend = spendLimit,
                   PeriodReset = BlockTime ctx + period\<rparr> in
      bindM (tryM (UpdateDIDAllowance (codec K) granter granteeDID periodicAllowance)) (\<lambda>r.
      case r of
        Inr _ \<Rightarrow> ret ()
      | Inl _ \<Rightarrow> GrantDIDAllowance (codec K) ctx granter granteeDID periodicAllowance))"

text \<open>\<open>time.Duration(period) * time.Second\<close> wraps; a product of zero falls back to the epoch duration.\<close>

definition grant_period :: "int \<Rightarrow> ('x, 'z, duration) TM" where
  "grant_period period =
     (let d = i64 (i64 period * Second) in
      if d = 0 then
        bindM (getM GetParams) (\<lambda>params.
        case EpochDuration params of None \<Rightarrow> panicM ''nil pointer dereference'' | Some e \<Rightarrow> ret e)
      else ret d)"

fun effective_rate :: "int \<Rightarrow> Rate list \<Rightarrow> int" where
  "effective_rate amount [] = 0"
| "effective_rate amount (r # rs) = (if amount \<ge> rate_Amount r then rate_Rate r else effective_rate amount rs)"

definition registration_lock :: "int \<Rightarrow> Rate list \<Rightarrow> error + int" where
  "registration_lock amount rates =
     bindE
       (if effective_rate amount rates \<le> 0 then
          (if rates = [] then Inl (Panic (PanicMsg ''index out of range'')) else Inr (rate_Rate (last rates)))
        else Inr (effective_rate amount rates)) (\<lambda>rate.
     if rate = 0 then Inl (Panic (PanicMsg ''division by zero''))
     else
       let lockAmt = quo (amount * 100 + (rate - 1)) rate in
       Inr (if 0 < lockAmt then lockAmt else 1))"

definition subscription_event :: "string \<Rightarrow> string \<Rightarrow> string \<Rightarrow> int \<Rightarrow> int \<Rightarrow> event" where
  "subscription_event ty developer userDid amount period =
     (ty, [(''developer'', developer), (''user_did'', userDid),
           (''subscription_amount'', itoa amount), (''subscription_period'', itoa period)])"

definition AddUserSubscription ::
  "('x, 'v) Keeper \<Rightarrow> sdk_ctx \<Rightarrow> addr \<Rightarrow> string \<Rightarrow> int \<Rightarrow> int \<Rightarrow> ('x, 'z, unit) TM" where
  "AddUserSubscription K ctx developerAddr0 userDid amount period =
     bindM (resolve_developer K ctx developerAddr0) (\<lambda>developerAddr.
     bindM (getM (GetUserSubscription developerAddr userDid)) (\<lambda>existingSub.
     case existingSub of
       Some _ \<Rightarrow> fail ErrInvalidAddress
     | None \<Rightarrow>
         bindM (getM (GetDeveloper developerAddr)) (\<lambda>dev.
         case dev of
           None \<Rightarrow> fail ErrInvalidAddress
         | Some developer \<Rightarrow>
             bindM (getM (validateDeveloperCredits K developerAddr amount)) (\<lambda>err.
             thenM
               (case err of
                  None \<Rightarrow> ret ()
                | Some _ \<Rightarrow>
                    if \<not> AutoLockEnabled developer then fail ErrInvalidAmount
                    else
                      bindM (getM GetParams) (\<lambda>params.
                      bindM (liftE (registration_lock amount (RewardRates params))) (\<lambda>lockAmt.
                      bindM (tryM (addLockupForRegistration K ctx developerAddr lockAmt)) (\<lambda>r.
                      case r of Inl _ \<Rightarrow> fail ErrInvalidAmount | Inr _ \<Rightarrow> ret ()))))
             (let now = BlockTime ctx; developerStr = AccString (codec K) developerAddr in
              thenM
                (SetUserSubscription K developerAddr userDid
                   \<lparr>us_Developer = developerStr, UserDid = userDid, CreditAmount = amount, us_Period = period,
                    StartDate = now, LastRenewed = now\<rparr>)
              (bindM (liftE (NewCoins (coinOps K) MicroCreditDenom amount)) (\<lambda>spendLimit.
               bindM (grant_period period) (\<lambda>grantPeriod.
               thenM (grantPeriodicDIDAllowance K ctx developerAddr userDid spendLimit grantPeriod)
               (bindM (tryM (updateDeveloperTotalGranted K developerAddr amount True)) (\<lambda>r.
                case r of
                  Inl _ \<Rightarrow> fail ErrInvalidAmount
                | Inr _ \<Rightarrow>
                    EmitEvent (subscription_event ''user_subscription_created'' developerStr userDid amount period)))))))))))"

definition UpdateUserSubscription ::
  "('x, 'v) Keeper \<Rightarrow> sdk_ctx \<Rightarrow> addr \<Rightarrow> string \<Rightarrow> int \<Rightarrow> int \<Rightarrow> ('x, 'z, unit) TM" where
  "UpdateUserSubscription K ctx developerAddr0 userDid amount period =
     bindM (resolve_developer K ctx developerAddr0) (\<lambda>developerAddr.
     bindM (getM (GetUserSubscription developerAddr userDid)) (\<lambda>existing.
     case existing of
       None \<Rightarrow> fail ErrInvalidAddress
     | Some sub \<Rightarrow>
         let oldAmount = CreditAmount sub in
         thenM
           (if amount > oldAmount then updateDeveloperTotalGranted K developerAddr (amount - oldAmount) True
            else if oldAmount > amount then updateDeveloperTotalGranted K developerAddr (oldAmount - amount) False
            else ret ())
         (thenM
            (SetUserSubscription K developerAddr userDid
               (sub\<lparr>CreditAmount := amount, us_Period := period, LastRenewed := BlockTime ctx\<rparr>))
         (bindM (liftE (NewCoins (coinOps K) MicroCreditDenom amount)) (\<lambda>spendLimit.
          bindM (grant_period period) (\<lambda>updatePeriod.
          thenM (grantPeriodicDIDAllowance K ctx developerAddr userDid spendLimit updatePeriod)
          (EmitEvent (subscription_event ''user_subscription_updated'' (AccString (codec K) developerAddr) userDid
             amount period))))))))"

definition RemoveUserSubscription :: "('x, 'v) Keeper \<Rightarrow> sdk_ctx \<Rightarrow> addr \<Rightarrow> string \<Rightarrow> ('x, 'z, unit) TM" where
  "RemoveUserSubscription K ctx developerAddr0 userDid =
     bindM (resolve_developer K ctx developerAddr0) (\<lambda>developerAddr.
     bindM (getM (GetUserSubscription developerAddr userDid)) (\<lambda>existing.
     case existing of
       None \<Rightarrow> fail ErrInvalidAddress
     | Some sub \<Rightarrow>
         thenM (updateDeveloperTotalGranted K developerAddr (CreditAmount sub) False)
         (thenM (removeUserSubscription developerAddr userDid)
         (bindM (tryM (ExpireDIDAllowance (codec K) ctx developerAddr userDid)) (\<lambda>_.
          EmitEvent (''user_subscription_removed'',
            [(''developer'', AccString (codec K) developerAddr), (''user_did'', userDid)]))))))"

definition RemoveDeveloper :: "('x, 'v) Keeper \<Rightarrow> sdk_ctx \<Rightarrow> addr \<Rightarrow> ('x, 'z, unit) TM" where
  "RemoveDeveloper K ctx developerAddr =
     bindM (getM (GetDeveloper developerAddr)) (\<lambda>existing.
     case existing of
       None \<Rightarrow> fail ErrInvalidAddress
     | Some _ \<Rightarrow>
         bindM (mustIterateUserSubscriptionsForDeveloper developerAddr
                  (\<lambda>d u _ acc. ret (acc @ [(d, u)])) []) (\<lambda>subscriptionsToRemove.
         thenM
           (forM subscriptionsToRemove (\<lambda>(d, u).
              bindM (tryM (RemoveUserSubscription K ctx d u)) (\<lambda>_. ret ())))
         (thenM (removeDeveloper developerAddr)
         (EmitEvent (''developer_removed'', [(''developer'', AccString (codec K) developerAddr)])))))"

end
