(* ===== verification/Tier_Blocks.thy ===== *)
theory Tier_Blocks
  imports Tier_Subscriptions
begin

text \<open>
  What runs outside messages, and the message server: staking rewards (\<open>rewards.go\<close>), slashing events
  (\<open>slashing.go\<close>), the begin blocker (\<open>abci.go\<close>), the epoch hooks (\<open>epoch_hook.go\<close>),
  \<open>msg_server.go\<close> and the genesis of the module (\<open>x/tier/module/genesis.go\<close>).

  \<open>IterateDelegations\<close> and the event list are read before the loop over them starts; the callbacks do
  not change the delegations they walk.
\<close>

section \<open>Rewards\<close>

text \<open>The three parts of a reward: developer pool, insurance pool, burned.\<close>

definition reward_parts :: "Params \<Rightarrow> int \<Rightarrow> int \<times> int \<times> int" where
  "reward_parts params totalAmount =
     (let amountToDevPool = quo (totalAmount * DeveloperPoolFee params) 100;
          amountToInsurancePool = quo (totalAmount * InsurancePoolFee params) 100
      in (amountToDevPool, amountToInsurancePool, totalAmount - amountToDevPool - amountToInsurancePool))"

definition send_to_pool :: "('x, 'v) Keeper \<Rightarrow> string \<Rightarrow> int \<Rightarrow> ('x, 'z, bool) TM" where
  "send_to_pool K pool amount =
     bindM (liftE (NewCoins (coinOps K) DefaultBondDenom amount)) (\<lambda>coins.
     bindM (tryM (extM (SendCoinsFromModuleToModule K TierModuleName pool coins))) (\<lambda>r.
     case r of
       Inl _ \<Rightarrow> ret False
     | Inr _ \<Rightarrow>
         bindM (getM (\<lambda>s. GetBalance K (ModuleAddress K pool) DefaultBondDenom (ext s))) (\<lambda>balance.
         thenM (liftE (Int64 balance)) (ret True))))"

definition claim_rewards :: "('x, 'v) Keeper \<Rightarrow> Params \<Rightarrow> string \<Rightarrow> ('x, 'z, unit) TM" where
  "claim_rewards K params validator =
     bindM (liftE (MustValAddressFromBech32 (codec K) validator)) (\<lambda>valAddr.
     bindM (tryM (extM (WithdrawDelegationRewards K (ModuleAddress K TierModuleName) valAddr))) (\<lambda>r.
     case r of
       Inl _ \<Rightarrow> ret ()
     | Inr rewards \<Rightarrow>
         if IsZeroCoins (coinOps K) rewards then ret ()
         else
           case reward_parts params (AmountOf (coinOps K) rewards DefaultBondDenom) of
             (amountToDevPool0, amountToInsurancePool, amountToBurn) \<Rightarrow>
               bindM
                 (if amountToInsurancePool = 0 then ret (Some amountToDevPool0)
                  else
                    bindM (getM (\<lambda>s. GetBalance K (ModuleAddress K InsurancePoolName) DefaultBondDenom (ext s))) (\<lambda>balance.
                    if balance + amountToInsurancePool \<le> InsurancePoolThreshold params then
                      bindM (send_to_pool K InsurancePoolName amountToInsurancePool) (\<lambda>ok.
                      ret (if ok then Some amountToDevPool0 else None))
                    else ret (Some (amountToDevPool0 + amountToInsurancePool)))) (\<lambda>dev.
               case dev of
                 None \<Rightarrow> ret ()
               | Some amountToDevPool \<Rightarrow>
                   bindM (if amountToDevPool = 0 then ret True else send_to_pool K DeveloperPoolName amountToDevPool) (\<lambda>ok.
                   if \<not> ok then ret ()
                   else if amountToBurn = 0 then ret ()
                   else
                     bindM (liftE (NewCoins (coinOps K) DefaultBondDenom amountToBurn)) (\<lambda>coins.
                     bindM (tryM (extM (BurnCoins K TierModuleName coins))) (\<lambda>_. ret ()))))))"

definition processRewards :: "('x, 'v) Keeper \<Rightarrow> sdk_ctx \<Rightarrow> ('x, 'z, unit) TM" where
  "processRewards K ctx =
     bindM (getM GetParams) (\<lambda>params.
     if ProcessRewardsInterval params = 0 then panicM ''integer divide by zero''
     else if BlockHeight ctx mod ProcessRewardsInterval params \<noteq> 0 then ret ()
     else
       bindM (extR (IterateDelegations K (ModuleAddress K TierModuleName))) (\<lambda>validators.
       forM validators (claim_rewards K params)))"

section \<open>Slashing\<close>

text \<open>
  The stake of the module with a slashed validator and its share of the slashed amount, both
  decimals; the reads of the two handlers up to \<open>tierStakeSlashed\<close>.
\<close>

definition tier_stake :: "('x, 'v) Keeper \<Rightarrow> string \<Rightarrow> string \<Rightarrow> 'x \<Rightarrow> error + (addr \<times> 'v \<times> dec \<times> dec)" where
  "tier_stake K validatorAddr slashedAmount x =
     bindE (ValFromBech32 (codec K) validatorAddr) (\<lambda>valAddr.
     bindE (DecFromStr K slashedAmount) (\<lambda>totalSlashed.
     if totalSlashed = 0 then Inl (ErrStd ''Total slashed amount is zero'')
     else
       bindE (GetValidator K valAddr x) (\<lambda>validator.
       let totalStake = val_Tokens K validator * dec_one in
       if totalStake = 0 then Inl (ErrStd ''No stake for the validator'')
       else
         bindE (GetDelegationShares K (ModuleAddress K TierModuleName) valAddr x) (\<lambda>tierShares.
         if tierShares = 0 then Inl (ErrStd ''No delegation from the tier module'')
         else
           let dc = decOps K;
               tierStake = TokensFromSharesTruncated K validator tierShares
           in Inr (valAddr, validator, tierStake, DecMul dc totalSlashed (DecQuo dc tierStake totalStake))))))"

definition handleDoubleSign :: "('x, 'v) Keeper \<Rightarrow> string \<Rightarrow> string \<Rightarrow> ('x, 'z, unit) TM" where
  "handleDoubleSign K validatorAddr slashedAmount =
     bindM (extR (tier_stake K validatorAddr slashedAmount)) (\<lambda>(valAddr, validator, tierStake, tierStakeSlashed).
     if tierStakeSlashed = 0 then fail (ErrStd ''Tier module slashed amount is zero'')
     else adjustLockups K valAddr (DecQuo (decOps K) (tierStake - tierStakeSlashed) tierStake) 0)"

definition handleMissingSignature :: "('x, 'v) Keeper \<Rightarrow> string \<Rightarrow> string \<Rightarrow> ('x, 'z, unit) TM" where
  "handleMissingSignature K validatorAddr slashedAmount =
     bindM (extR (tier_stake K validatorAddr slashedAmount)) (\<lambda>(valAddr, validator, tierStake, slashedDec).
     let dc = decOps K;
         tierStakeSlashed = DecTruncateInt dc (DecCeil dc slashedDec) in
     if tierStakeSlashed = 0 then fail (ErrStd ''Tier module slashed amount is zero'')
     else
       let insurancePoolAddr = ModuleAddress K InsurancePoolName in
       bindM (getM (\<lambda>s. GetBalance K insurancePoolAddr DefaultBondDenom (ext s))) (\<lambda>balance.
       let coveredAmount = (if balance < tierStakeSlashed then balance else tierStakeSlashed) in
       thenM (extM (Delegate K insurancePoolAddr coveredAmount Unbonded validator True))
       (adjustLockups K valAddr
          (DecQuo dc (tierStake - tierStakeSlashed * dec_one) tierStake)
          (DecQuo dc (coveredAmount * dec_one) tierStake))))"

text \<open>The last attribute of a name wins.\<close>

definition attr :: "string \<Rightarrow> event \<Rightarrow> string" where
  "attr name ev = fold (\<lambda>(k, v) acc. if k = name then v else acc) (snd ev) ''''"

definition handle_slash :: "('x, 'v) Keeper \<Rightarrow> event \<Rightarrow> ('x, 'z, unit) TM" where
  "handle_slash K ev =
     (if fst ev \<noteq> ''slash'' then ret ()
      else
        bindM (tryM
          (if attr ''reason'' ev = ''double_sign'' then handleDoubleSign K (attr ''address'' ev) (attr ''burned'' ev)
           else handleMissingSignature K (attr ''address'' ev) (attr ''burned'' ev))) (\<lambda>_. ret ()))"

definition handleSlashingEvents :: "('x, 'v) Keeper \<Rightarrow> ('x, 'z, unit) TM" where
  "handleSlashingEvents K = bindM (getM events) (\<lambda>evs. forM evs (handle_slash K))"

definition Tier_BeginBlocker :: "('x, 'v) Keeper \<Rightarrow> sdk_ctx \<Rightarrow> ('x, 'z, unit) TM" where
  "Tier_BeginBlocker K ctx =
     thenM (handleSlashingEvents K) (bindM (tryM (processRewards K ctx)) (\<lambda>_. ret ()))"

section \<open>Epoch hooks\<close>

definition Tier_BeforeEpochStart :: "('x, 'v) Keeper \<Rightarrow> sdk_ctx \<Rightarrow> string \<Rightarrow> int \<Rightarrow> ('x, 'z, unit) TM" where
  "Tier_BeforeEpochStart K ctx epochIdentifier epochNumber =
     (if epochIdentifier \<noteq> EpochIdentifier then ret ()
      else thenM (burnAllCredits K) (thenM (resetAllCredits K) (checkDeveloperCredits K ctx)))"

definition Tier_AfterEpochEnd :: "('x, 'v) Keeper \<Rightarrow> sdk_ctx \<Rightarrow> string \<Rightarrow> int \<Rightarrow> ('x, 'z, unit) TM" where
  "Tier_AfterEpochEnd K ctx epochIdentifier epochNumber =
     (if epochIdentifier \<noteq> EpochIdentifier then ret () else CompleteUnlocking K ctx)"

definition Tier_EpochHooks :: "('x, 'v) Keeper \<Rightarrow> ('x, 'z) tier_state_scheme EpochHooks" where
  "Tier_EpochHooks K =
     \<lparr>AfterEpochEnd = Tier_AfterEpochEnd K, BeforeEpochStart = Tier_BeforeEpochStart K, GetModuleName = TierModuleName\<rparr>"

section \<open>Message server\<close>

definition MustAccAddressFromBech32 :: "sdk_codec \<Rightarrow> string \<Rightarrow> error + addr" where
  "MustAccAddressFromBech32 cd address =
     (case AccFromBech32 cd address of Inl e \<Rightarrow> Inl (Panic (PanicMsg ''acc address'')) | Inr a \<Rightarrow> Inr a)"

definition Msg_UpdateParams :: "('x, 'v) Keeper \<Rightarrow> string \<Rightarrow> Params \<Rightarrow> ('x, 'z, unit) TM" where
  "Msg_UpdateParams K msgAuthority params =
     (if msgAuthority \<noteq> authority K then fail ErrUnauthorized
      else if Params_Validate params \<noteq> None then fail ErrInvalidRequest
      else SetParams params)"

definition Msg_Lock :: "('x, 'v) Keeper \<Rightarrow> sdk_ctx \<Rightarrow> string \<Rightarrow> string \<Rightarrow> coin \<Rightarrow> ('x, 'z, unit) TM" where
  "Msg_Lock K ctx delegator validator stake =
     bindM (liftE (MustAccAddressFromBech32 (codec K) delegator)) (\<lambda>delAddr.
     bindM (liftE (MustValAddressFromBech32 (codec K) validator)) (\<lambda>valAddr.
     Lock K ctx delAddr valAddr (snd stake)))"

definition Msg_LockAuto :: "('x, 'v) Keeper \<Rightarrow> sdk_ctx \<Rightarrow> string \<Rightarrow> coin \<Rightarrow> ('x, 'z, string) TM" where
  "Msg_LockAuto K ctx delegator stake =
     bindM (liftE (MustAccAddressFromBech32 (codec K) delegator)) (\<lambda>delAddr.
     bindM (LockAuto K ctx delAddr (snd stake)) (\<lambda>valAddr. ret (ValString (codec K) valAddr)))"

definition Msg_Unlock :: "('x, 'v) Keeper \<Rightarrow> sdk_ctx \<Rightarrow> string \<Rightarrow> string \<Rightarrow> coin \<Rightarrow> ('x, 'z, int \<times> time \<times> time) TM" where
  "Msg_Unlock K ctx delegator validator stake =
     bindM (liftE (MustAccAddressFromBech32 (codec K) delegator)) (\<lambda>delAddr.
     bindM (liftE (MustValAddressFromBech32 (codec K) validator)) (\<lambda>valAddr.
     Unlock K ctx delAddr valAddr (snd stake)))"

definition Msg_CancelUnlocking ::
  "('x, 'v) Keeper \<Rightarrow> sdk_ctx \<Rightarrow> string \<Rightarrow> string \<Rightarrow> coin \<Rightarrow> int \<Rightarrow> ('x, 'z, unit) TM" where
  "Msg_CancelUnlocking K ctx delegator validator stake creationHeight =
     bindM (liftE (MustAccAddressFromBech32 (codec K) delegator)) (\<lambda>delAddr.
     bindM (liftE (MustValAddressFromBech32 (codec K) validator)) (\<lambda>valAddr.
     CancelUnlocking K ctx delAddr valAddr creationHeight (snd stake)))"

definition Msg_Redelegate ::
  "('x, 'v) Keeper \<Rightarrow> sdk_ctx \<Rightarrow> string \<Rightarrow> string \<Rightarrow> string \<Rightarrow> coin \<Rightarrow> ('x, 'z, time) TM" where
  "Msg_Redelegate K ctx delegator src dst stake =
     bindM (liftE (MustAccAddressFromBech32 (codec K) delegator)) (\<lambda>delAddr.
     bindM (liftE (MustValAddressFromBech32 (codec K) src)) (\<lambda>srcValAddr.
     bindM (liftE (MustValAddressFromBech32 (codec K) dst)) (\<lambda>dstValAddr.
     Redelegate K ctx delAddr srcValAddr dstValAddr (snd stake))))"

definition Msg_CreateDeveloper :: "('x, 'v) Keeper \<Rightarrow> string \<Rightarrow> bool \<Rightarrow> ('x, 'z, unit) TM" where
  "Msg_CreateDeveloper K developer autoLockEnabled =
     bindM (liftE (MustAccAddressFromBech32 (codec K) developer)) (\<lambda>developerAddr.
     CreateDeveloper K developerAddr autoLockEnabled)"

definition Msg_UpdateDeveloper :: "('x, 'v) Keeper \<Rightarrow> string \<Rightarrow> bool \<Rightarrow> ('x, 'z, unit) TM" where
  "Msg_UpdateDeveloper K developer autoLockEnabled =
     bindM (liftE (MustAccAddressFromBech32 (codec K) developer)) (\<lambda>developerAddr.
     UpdateDeveloper K developerAddr autoLockEnabled)"

definition Msg_RemoveDeveloper :: "('x, 'v) Keeper \<Rightarrow> sdk_ctx \<Rightarrow> string \<Rightarrow> ('x, 'z, unit) TM" where
  "Msg_RemoveDeveloper K ctx developer =
     bindM (liftE (MustAccAddressFromBech32 (codec K) developer)) (RemoveDeveloper K ctx)"

definition Msg_AddUserSubscription ::
  "('x, 'v) Keeper \<Rightarrow> sdk_ctx \<Rightarrow> string \<Rightarrow> string \<Rightarrow> int \<Rightarrow> int \<Rightarrow> ('x, 'z, unit) TM" where
  "Msg_AddUserSubscription K ctx developer userDid amount period =
     bindM (liftE (MustAccAddressFromBech32 (codec K) developer)) (\<lambda>developerAddr.
     AddUserSubscription K ctx developerAddr userDid amount period)"

definition Msg_UpdateUserSubscription ::
  "('x, 'v) Keeper \<Rightarrow> sdk_ctx \<Rightarrow> string \<Rightarrow> string \<Rightarrow> int \<Rightarrow> int \<Rightarrow> ('x, 'z, unit) TM" where
  "Msg_UpdateUserSubscription K ctx developer userDid amount period =
     bindM (liftE (MustAccAddressFromBech32 (codec K) developer)) (\<lambda>developerAddr.
     UpdateUserSubscription K ctx developerAddr userDid amount period)"

definition Msg_RemoveUserSubscription :: "('x, 'v) Keeper \<Rightarrow> sdk_ctx \<Rightarrow> string \<Rightarrow> string \<Rightarrow> ('x, 'z, unit) TM" where
  "Msg_RemoveUserSubscription K ctx developer userDid =
     bindM (liftE (MustAccAddressFromBech32 (codec K) developer)) (\<lambda>developerAddr.
     RemoveUserSubscription K ctx developerAddr userDid)"

section \<open>Genesis\<close>

record Tier_GenesisState =
  gs_Params :: Params
  Lockups :: "Lockup list"
  UnlockingLockups :: "UnlockingLockup list"
  InsuranceLockups :: "Lockup list"
  Developers :: "Developer list"
  UserSubscriptions :: "UserSubscription list"

definition Tier_DefaultGenesis :: Tier_GenesisState where
  "Tier_DefaultGenesis =
     \<lparr>gs_Params = DefaultParams, Lockups = [], UnlockingLockups = [], InsuranceLockups = [], Developers = [],
      UserSubscriptions = []\<rparr>"

definition Tier_GenesisState_Validate :: "Tier_GenesisState \<Rightarrow> error option" where
  "Tier_GenesisState_Validate gs = Params_Validate (gs_Params gs)"

text \<open>Errors of \<open>AddLockup\<close> are dropped.\<close>

definition Tier_InitGenesis :: "('x, 'v) Keeper \<Rightarrow> Tier_GenesisState \<Rightarrow> ('x, 'z, unit) TM" where
  "Tier_InitGenesis K gs =
     (let acc = (\<lambda>a. liftE (MustAccAddressFromBech32 (codec K) a));
          val = (\<lambda>a. liftE (MustValAddressFromBech32 (codec K) a)) in
      thenM (SetParams (gs_Params gs))
      (thenM (forM (Lockups gs) (\<lambda>l.
         bindM (acc (DelegatorAddress l)) (\<lambda>delAddr.
         bindM (val (ValidatorAddress l)) (\<lambda>valAddr.
         bindM (tryM (AddLockup K delAddr valAddr (Amount l))) (\<lambda>_. ret ())))))
      (thenM (forM (UnlockingLockups gs) (\<lambda>u.
         bindM (acc (ul_DelegatorAddress u)) (\<lambda>delAddr.
         bindM (val (ul_ValidatorAddress u)) (\<lambda>valAddr.
         bindM (getM (HasUnlockingLockup delAddr valAddr (CreationHeight u))) (\<lambda>has.
         if has then ret ()
         else SetUnlockingLockup K delAddr valAddr (CreationHeight u) (ul_Amount u) (CompletionTime u) (UnlockTime u))))))
      (thenM (forM (InsuranceLockups gs) (\<lambda>l.
         bindM (acc (DelegatorAddress l)) (\<lambda>delAddr.
         bindM (val (ValidatorAddress l)) (\<lambda>valAddr.
         AddInsuranceLockup K delAddr valAddr (Amount l)))))
      (thenM (forM (Developers gs) (\<lambda>d.
         bindM (acc (dev_Address d)) (\<lambda>developerAddr. SetDeveloper developerAddr d)))
      (forM (UserSubscriptions gs) (\<lambda>u.
         bindM (acc (us_Developer u)) (\<lambda>developerAddr. SetUserSubscription K developerAddr (UserDid u) u))))))))"

definition Tier_ExportGenesis :: "('x, 'z, Tier_GenesisState) TM" where
  "Tier_ExportGenesis =
     bindM (getM GetParams) (\<lambda>params.
     bindM GetAllLockups (\<lambda>ls.
     bindM GetAllUnlockingLockups (\<lambda>us.
     bindM GetAllInsuranceLockups (\<lambda>is.
     bindM GetAllDevelopers (\<lambda>ds.
     bindM GetAllUserSubscriptions (\<lambda>subs.
     ret \<lparr>gs_Params = params, Lockups = ls, UnlockingLockups = us, InsuranceLockups = is, Developers = ds,
          UserSubscriptions = subs\<rparr>))))))"

end
