(* ===== verification/Feegrant_Queue.thy ===== *)
theory Feegrant_Queue
  imports Feegrant_Keeper
begin

text \<open>
  The pruning queue of the DID grants. \<open>did_queue_inv\<close> relates the two stores: every grant lies under
  the key of its granter and DID with its timestamps in range, and the queue holds exactly the keys
  built from the expiry of a stored grant. Each DID operation keeps it (\<open>..._keeps\<close>), and pruning then
  removes exactly the grants whose expiry lies before the block time.
\<close>

fun times_ok :: "FeeAllowance \<Rightarrow> bool" where
  "times_ok (FBasic a) = (\<forall>e. Expiration a = Some e \<longrightarrow> time_ok e)"
| "times_ok (FPeriodic a) = (time_ok (PeriodReset a) \<and> (\<forall>e. Expiration (Basic a) = Some e \<longrightarrow> time_ok e))"
| "times_ok (FAllowedMsg any allowed) = (case any of AnyValue a \<Rightarrow> times_ok a | _ \<Rightarrow> False)"

definition expiry :: "FeeAllowance \<Rightarrow> time option" where
  "expiry a = (case ExpiresAt a of Inr x \<Rightarrow> x | Inl _ \<Rightarrow> None)"

definition grant_expiry :: "DIDGrant \<Rightarrow> time option" where
  "grant_expiry g = (case DIDAllowance g of AnyValue a \<Rightarrow> expiry a | _ \<Rightarrow> None)"

definition did_entry_ok :: "sdk_codec \<Rightarrow> bytes \<Rightarrow> DIDGrant \<Rightarrow> bool" where
  "did_entry_ok cd k g \<longleftrightarrow>
     (\<exists>granter a. addr_ok granter \<and> addr_ok (GranteeDid g) \<and>
        k = CHR 0x02 # pair_bytes granter (GranteeDid g) \<and> DIDGranter g = AccString cd granter \<and>
        DIDAllowance g = AnyValue a \<and> times_ok a)"

definition did_queue_inv :: "sdk_codec \<Rightarrow> ('x, 'z) feegrant_state_scheme \<Rightarrow> bool" where
  "did_queue_inv cd s \<longleftrightarrow>
     kv_ok (fg_did_allowances s) \<and> kv_ok (fg_did_queue s) \<and>
     (\<forall>k g. kv_get (fg_did_allowances s) k = Some g \<longrightarrow> did_entry_ok cd k g) \<and>
     (\<forall>q. kv_get (fg_did_queue s) q \<noteq> None \<longleftrightarrow>
        (\<exists>k g e. kv_get (fg_did_allowances s) k = Some g \<and> grant_expiry g = Some e \<and>
                 q = DIDFeeAllowancePrefixQueue cd e (tl k)))"

section \<open>Timestamps of allowances\<close>

lemma times_ok_expires: "times_ok a \<Longrightarrow> ExpiresAt a = Inr (expiry a)"
  by (induction a rule: times_ok.induct)
    (auto simp: expiry_def Basic_ExpiresAt_def Periodic_ExpiresAt_def split: AnyAllowance.splits)

lemma times_ok_expiry: "times_ok a \<Longrightarrow> expiry a = Some e \<Longrightarrow> time_ok e"
  by (induction a rule: times_ok.induct)
    (auto simp: expiry_def Basic_ExpiresAt_def Periodic_ExpiresAt_def split: AnyAllowance.splits)

lemma Accept_expiry:
  "Accept cd co ctx fee msgs a = (r, None, a') \<Longrightarrow> times_ok a \<Longrightarrow> coin_laws co \<Longrightarrow> expiry a' = expiry a"
  using coins_spec.Accept_accepted(1) [of co cd ctx fee msgs a r a'] by (simp add: expiry_def coins_spec_def)

context codec_spec
begin

lemma marshal_basic_None: "marshal_basic cd a = None \<longleftrightarrow> times_ok (FBasic a)"
  by (auto simp: marshal_basic_def time_lawsD(3) [OF times] split: option.splits)

lemma marshal_periodic_None: "marshal_periodic cd a = None \<longleftrightarrow> times_ok (FPeriodic a)"
  using marshal_basic_None [of "Basic a"] time_lawsD(3) [OF times, of "PeriodReset a"]
  by (auto simp: marshal_periodic_def split: option.splits)

lemma times_ok_marshal: "times_ok a \<Longrightarrow> marshal_allowance cd a = None"
  using marshal_basic_None marshal_periodic_None by (cases a) auto

lemma marshal_not_panic: "marshal_allowance cd a = Some e \<Longrightarrow> \<not> is_panic e"
  using time_lawsD(4) [OF times]
  by (cases a) (auto simp: marshal_basic_def marshal_periodic_def split: option.splits)

text \<open>An accepted allowance that can be marshalled again has its timestamps in range.\<close>

lemma Accept_times_ok:
  "Accept cd co ctx fee msgs a = (False, None, a') \<Longrightarrow> times_ok a \<Longrightarrow> marshal_allowance cd a' = None \<Longrightarrow> times_ok a'"
proof (induction a arbitrary: a' rule: times_ok.induct)
  case (1 a)
  then show ?case using marshal_basic_None by (auto split: prod.splits)
next
  case (2 a)
  then show ?case using marshal_periodic_None by (auto split: prod.splits)
next
  case (3 any allowed)
  then show ?case
    by (auto simp: SetAllowance_Inr split: if_splits prod.splits sum.splits AnyAllowance.splits)
qed

end

section \<open>The invariant under one change\<close>

context codec_spec
begin

text \<open>
  Changing the grant under one key and its queue entry with it keeps the invariant: the entry of the
  old grant goes, the entry of the new grant comes, all others stay.
\<close>

lemma did_queue_change:
  assumes inv: "did_queue_inv cd s"
    and ok: "kv_ok (fg_did_allowances t)" "kv_ok (fg_did_queue t)"
    and key: "did_entry_ok cd k g0"
    and grants: "\<And>k'. kv_get (fg_did_allowances t) k' = (if k' = k then og else kv_get (fg_did_allowances s) k')"
    and new: "\<And>g. og = Some g \<Longrightarrow> did_entry_ok cd k g"
    and queue: "\<And>q. kv_get (fg_did_queue t) q \<noteq> None \<longleftrightarrow>
        (\<exists>g e. og = Some g \<and> grant_expiry g = Some e \<and> q = DIDFeeAllowancePrefixQueue cd e (tl k)) \<or>
        (kv_get (fg_did_queue s) q \<noteq> None \<and>
         \<not> (\<exists>g e. kv_get (fg_did_allowances s) k = Some g \<and> grant_expiry g = Some e \<and>
                   q = DIDFeeAllowancePrefixQueue cd e (tl k)))"
  shows "did_queue_inv cd t"
proof -
  have entry: "time_ok e" if "did_entry_ok cd k' g" "grant_expiry g = Some e" for k' g e
    using that times_ok_expiry by (auto simp: did_entry_ok_def grant_expiry_def)
  have other: "DIDFeeAllowancePrefixQueue cd e (tl k') \<noteq> DIDFeeAllowancePrefixQueue cd e' (tl k)"
    if "did_entry_ok cd k' g" "k' \<noteq> k" "time_ok e" "time_ok e'" for k' g e e'
    using that key queue_key_inj [of e e' "tl k'" "tl k"] by (auto simp: did_entry_ok_def)
  have old: "did_entry_ok cd k' g" if "kv_get (fg_did_allowances s) k' = Some g" for k' g
    using inv that by (simp add: did_queue_inv_def)
  define Q where "Q k g q \<longleftrightarrow> (\<exists>e. grant_expiry g = Some e \<and> q = DIDFeeAllowancePrefixQueue cd e (tl k))" for k g q
  have disj: "\<not> Q k g q" if g': "kv_get (fg_did_allowances s) k' = Some g'" and ne: "k' \<noteq> k" and Q': "Q k' g' q"
    and g: "kv_get (fg_did_allowances s) k = Some g" for k' g' g q
  proof
    assume "Q k g q"
    then obtain e' where e': "grant_expiry g = Some e'" "q = DIDFeeAllowancePrefixQueue cd e' (tl k)"
      by (auto simp: Q_def)
    obtain e where e: "grant_expiry g' = Some e" "q = DIDFeeAllowancePrefixQueue cd e (tl k')"
      using Q' by (auto simp: Q_def)
    show False
      using other [OF old [OF g'] ne entry [OF old [OF g'] e(1)] entry [OF old [OF g] e'(1)]] e(2) e'(2) by simp
  qed
  have qs: "kv_get (fg_did_queue s) q \<noteq> None \<longleftrightarrow>
      (\<exists>k g. kv_get (fg_did_allowances s) k = Some g \<and> Q k g q)" for q
    using inv by (auto simp: did_queue_inv_def Q_def)
  have qt: "kv_get (fg_did_queue t) q \<noteq> None \<longleftrightarrow> (\<exists>g. og = Some g \<and> Q k g q) \<or>
      (kv_get (fg_did_queue s) q \<noteq> None \<and> \<not> (\<exists>g. kv_get (fg_did_allowances s) k = Some g \<and> Q k g q))" for q
    using queue by (auto simp: Q_def)
  have "kv_get (fg_did_queue t) q \<noteq> None \<longleftrightarrow> (\<exists>k' g. kv_get (fg_did_allowances t) k' = Some g \<and> Q k' g q)" for q
  proof
    assume "kv_get (fg_did_queue t) q \<noteq> None"
    then consider g where "og = Some g" "Q k g q"
      | k' g where "kv_get (fg_did_allowances s) k' = Some g" "Q k' g q" "k' \<noteq> k"
      unfolding qt qs by metis
    then show "\<exists>k' g. kv_get (fg_did_allowances t) k' = Some g \<and> Q k' g q"
      by cases (use grants in \<open>metis+\<close>)
  next
    assume "\<exists>k' g. kv_get (fg_did_allowances t) k' = Some g \<and> Q k' g q"
    then obtain k' g where g: "kv_get (fg_did_allowances t) k' = Some g" "Q k' g q" by blast
    show "kv_get (fg_did_queue t) q \<noteq> None"
    proof (cases "k' = k")
      case True
      then show ?thesis unfolding qt using g grants [of k'] by auto
    next
      case False
      then have "kv_get (fg_did_allowances s) k' = Some g" using g grants [of k'] by simp
      then show ?thesis unfolding qt qs using disj [OF _ False g(2)] g(2) by blast
    qed
  qed
  then have "kv_get (fg_did_queue t) q \<noteq> None \<longleftrightarrow>
      (\<exists>k' g e. kv_get (fg_did_allowances t) k' = Some g \<and> grant_expiry g = Some e \<and>
                q = DIDFeeAllowancePrefixQueue cd e (tl k'))" for q
    by (auto simp: Q_def)
  moreover have "did_entry_ok cd k' g" if "kv_get (fg_did_allowances t) k' = Some g" for k' g
    using that new old by (auto simp: grants split: if_splits)
  ultimately show ?thesis using ok by (simp add: did_queue_inv_def)
qed

end

section \<open>Operations keep the invariant\<close>

lemma did_queue_inv_frame [simp]:
  "did_queue_inv cd (s\<lparr>events := ev\<rparr>) = did_queue_inv cd s"
  "did_queue_inv cd (s\<lparr>ext := x\<rparr>) = did_queue_inv cd s"
  by (simp_all add: did_queue_inv_def)

lemma keeps_extM [keeps_rules]: "(\<And>s x. P s \<Longrightarrow> P (s\<lparr>ext := x\<rparr>)) \<Longrightarrow> keeps P (extM m)"
  by (rule keepsI) (auto simp: extM_def split: prod.splits)

lemma keeps_readM [keeps_rules]: "keeps P (readM f)"
  by (rule keepsI) auto

lemma keeps_acceptM [keeps_rules]: "keeps P (acceptM cd co ctx fee msgs a)"
  unfolding acceptM_def by (intro keeps_rules)

lemma keeps_did_event: "keeps (did_queue_inv cd) (EmitEvent e)"
  by (rule keeps_EmitEvent) simp

definition set_queue :: "sdk_codec \<Rightarrow> bytes \<Rightarrow> time option \<Rightarrow> unit kv \<Rightarrow> unit kv" where
  "set_queue cd k x q = (case x of None \<Rightarrow> q | Some e \<Rightarrow> kv_set (DIDFeeAllowancePrefixQueue cd e (tl k)) () q)"

definition del_queue :: "sdk_codec \<Rightarrow> bytes \<Rightarrow> time option \<Rightarrow> unit kv \<Rightarrow> unit kv" where
  "del_queue cd k x q = (case x of None \<Rightarrow> q | Some e \<Rightarrow> kv_del (DIDFeeAllowancePrefixQueue cd e (tl k)) q)"

lemma queue_ok [simp]: "kv_ok q \<Longrightarrow> kv_ok (set_queue cd k x q)" "kv_ok q \<Longrightarrow> kv_ok (del_queue cd k x q)"
  by (auto simp: set_queue_def del_queue_def split: option.splits)

lemma queue_get:
  "kv_get (set_queue cd k x q) l =
     (if \<exists>e. x = Some e \<and> l = DIDFeeAllowancePrefixQueue cd e (tl k) then Some () else kv_get q l)"
  "kv_get (del_queue cd k x q) l =
     (if \<exists>e. x = Some e \<and> l = DIDFeeAllowancePrefixQueue cd e (tl k) then None else kv_get q l)"
  by (auto simp: set_queue_def del_queue_def split: option.splits)

context codec_spec
begin

lemma did_key_Inr:
  assumes "FeeAllowanceByDIDKey cd granter did = Inr key" and "addr_ok granter" and "did \<noteq> []"
  shows "addr_ok did" and "key = CHR 0x02 # pair_bytes granter did"
proof -
  show "addr_ok did"
    using assms(1,3) prefix_lawsD(4) [OF prefixes, of did]
    by (cases "255 < length did") (auto simp: FeeAllowanceByDIDKey_def FeeAllowancePrefixByDID_def addr_ok_def)
  then show "key = CHR 0x02 # pair_bytes granter did"
    using assms FeeAllowanceByDIDKey_ok by simp
qed

lemma did_entry_NewDIDGrant:
  assumes "NewDIDGrant cd granter did a = Inr g" and "addr_ok granter" and "addr_ok did" and "times_ok a"
  shows "did_entry_ok cd (CHR 0x02 # pair_bytes granter did) g" and "grant_expiry g = expiry a"
  using assms
  by (auto simp: NewDIDGrant_def NewAnyWithValue_def did_entry_ok_def grant_expiry_def bindE_Inr_iff
      split: option.splits)

lemma NewDIDGrant_times_ok: "times_ok a \<Longrightarrow> \<exists>g. NewDIDGrant cd granter did a = Inr g"
  by (simp add: NewDIDGrant_def NewAnyWithValue_def times_ok_marshal)

lemma did_inv_grant:
  assumes "did_queue_inv cd s" and "kv_get (fg_did_allowances s) k = Some g"
  obtains a where "GetDIDGrant g = Inr a" "times_ok a" "grant_expiry g = expiry a" "ExpiresAt a = Inr (expiry a)"
    "did_entry_ok cd k g"
  using assms times_ok_expires
  by (fastforce simp: did_queue_inv_def did_entry_ok_def GetDIDGrant_def GetCachedAllowance_def grant_expiry_def)

lemma set_grant_inv:
  assumes "did_queue_inv cd s" and "did_entry_ok cd k g"
    and "fg_did_allowances t = kv_set k g (fg_did_allowances s)"
    and "fg_did_queue t = set_queue cd k (grant_expiry g)
          (del_queue cd k (Option.bind (kv_get (fg_did_allowances s) k) grant_expiry) (fg_did_queue s))"
  shows "did_queue_inv cd t"
proof (rule did_queue_change [OF assms(1) _ _ assms(2), of t "Some g"])
  show "kv_ok (fg_did_allowances t)" "kv_ok (fg_did_queue t)"
    using assms(1) by (simp_all add: assms(3,4) did_queue_inv_def)
qed (use assms(2) in \<open>auto simp: assms(3,4) queue_get split: bind_splits\<close>)

lemma del_grant_inv:
  assumes "did_queue_inv cd s" and "did_entry_ok cd k g"
    and "fg_did_allowances t = kv_del k (fg_did_allowances s)"
    and "fg_did_queue t = del_queue cd k (Option.bind (kv_get (fg_did_allowances s) k) grant_expiry) (fg_did_queue s)"
  shows "did_queue_inv cd t"
proof (rule did_queue_change [OF assms(1) _ _ assms(2), of t None])
  show "kv_ok (fg_did_allowances t)" "kv_ok (fg_did_queue t)"
    using assms(1) by (simp_all add: assms(3,4) did_queue_inv_def)
qed (auto simp: assms(3,4) queue_get split: bind_splits)

end

context codec_spec
begin

lemma GrantDID_run:
  assumes "FeeAllowanceByDIDKey cd granter did = Inr key" and "kv_get (fg_did_allowances s) key = None"
    and "times_ok a" and "\<not> expired_at ctx (expiry a)" and "NewDIDGrant cd granter did a = Inr g"
  shows "GrantDIDAllowance cd ctx granter did a s =
     (Inr (), s\<lparr>fg_did_queue := set_queue cd key (expiry a) (fg_did_queue s),
                fg_did_allowances := kv_set key g (fg_did_allowances s),
                events := events s @ [did_event ''set_did_feegrant'' (DIDGranter g) (GranteeDid g)]\<rparr>)"
  using assms
  by (simp add: GrantDIDAllowance_def GetDIDAllowance_def getDIDGrant_def tryM_def bindM_def thenM_def
      times_ok_expires set_queue_def addToDIDFeeAllowanceQueue_def setDIDGrant_def split: option.splits)

lemma GrantDID_keeps:
  assumes "addr_ok granter" and "did \<noteq> []" and "times_ok a"
  shows "keeps (did_queue_inv cd) (GrantDIDAllowance cd ctx granter did a)"
proof (rule keepsI)
  fix s r t
  assume inv: "did_queue_inv cd s" and run: "GrantDIDAllowance cd ctx granter did a s = (r, t)"
  show "did_queue_inv cd t"
  proof (cases "FeeAllowanceByDIDKey cd granter did")
    case (Inl e)
    then have "t = s"
      using run by (auto simp: GrantDIDAllowance_def GetDIDAllowance_def getDIDGrant_def tryM_def bindM_def split: if_splits)
    then show ?thesis using inv by simp
  next
    case (Inr key)
    note key = did_key_Inr [OF Inr assms(1,2)]
    obtain g where g: "NewDIDGrant cd granter did a = Inr g" using NewDIDGrant_times_ok [OF assms(3)] by blast
    consider g' where "kv_get (fg_did_allowances s) key = Some g'"
      | "kv_get (fg_did_allowances s) key = None" "expired_at ctx (expiry a)"
      | "kv_get (fg_did_allowances s) key = None" "\<not> expired_at ctx (expiry a)" by fastforce
    then show ?thesis
    proof cases
      case 1
      then have "t = s"
        using run Inr did_inv_grant [OF inv 1]
        by (fastforce simp: GrantDIDAllowance_def GetDIDAllowance_def getDIDGrant_def tryM_def bindM_def)
      then show ?thesis using inv by simp
    next
      case 2
      then have "t = s"
        using run Inr times_ok_expires [OF assms(3)]
        by (auto simp: GrantDIDAllowance_def GetDIDAllowance_def getDIDGrant_def tryM_def bindM_def)
      then show ?thesis using inv by simp
    next
      case 3
      note entry = did_entry_NewDIDGrant [OF g assms(1) key(1) assms(3)]
      show ?thesis
        by (rule set_grant_inv [OF inv entry(1)])
          (use GrantDID_run [OF Inr 3(1) assms(3) 3(2) g] run 3 key(2) entry(2) in \<open>auto simp: del_queue_def\<close>)
    qed
  qed
qed

lemma revokeDID_run:
  assumes "FeeAllowanceByDIDKey cd granter did = Inr key" and "kv_get (fg_did_allowances s) key = Some g"
    and "GetDIDGrant g = Inr a" and "ExpiresAt a = Inr (expiry a)"
  shows "revokeDIDAllowance cd granter did s =
     (Inr (), s\<lparr>fg_did_allowances := kv_del key (fg_did_allowances s),
                fg_did_queue := del_queue cd key (expiry a) (fg_did_queue s),
                events := events s @ [did_event ''revoke_did_feegrant'' (AccString cd granter) did]\<rparr>)"
  using assms
  by (simp add: revokeDIDAllowance_def GetDIDAllowance_def getDIDGrant_def bindM_def thenM_def
      del_queue_def delDIDQueue_def delDIDGrant_def split: option.splits)

lemma revokeDID_keeps:
  assumes "addr_ok granter" and "did \<noteq> []"
  shows "keeps (did_queue_inv cd) (revokeDIDAllowance cd granter did)"
proof (rule keepsI)
  fix s r t
  assume inv: "did_queue_inv cd s" and run: "revokeDIDAllowance cd granter did s = (r, t)"
  show "did_queue_inv cd t"
  proof (cases "GetDIDAllowance cd granter did s")
    case (Inl e)
    then have "t = s" using run by (simp add: revokeDIDAllowance_def bindM_def)
    then show ?thesis using inv by simp
  next
    case (Inr a)
    then obtain key g where key: "FeeAllowanceByDIDKey cd granter did = Inr key"
      and g: "kv_get (fg_did_allowances s) key = Some g" "GetDIDGrant g = Inr a"
      by (auto simp: GetDIDAllowance_def getDIDGrant_def bindE_Inr_iff split: option.splits)
    obtain a' where a': "GetDIDGrant g = Inr a'" "times_ok a'" "grant_expiry g = expiry a'"
      "ExpiresAt a' = Inr (expiry a')" "did_entry_ok cd key g"
      by (rule did_inv_grant [OF inv g(1)])
    show ?thesis
      by (rule del_grant_inv [OF inv a'(5)])
        (use revokeDID_run [OF key g(1) a'(1,4)] run g(1) a'(3) in auto)
  qed
qed

lemma UpdateDID_run:
  assumes "FeeAllowanceByDIDKey cd granter did = Inr key" and "kv_get (fg_did_allowances s) key = Some g0"
    and "GetDIDGrant g0 = Inr a0" and "ExpiresAt a0 = Inr (expiry a0)"
    and "NewDIDGrant cd granter did a = Inr g" and "ExpiresAt a = Inr (expiry a)"
  shows "\<exists>t. UpdateDIDAllowance cd granter did a s = (Inr (), t) \<and>
     fg_did_allowances t = kv_set key g (fg_did_allowances s) \<and>
     fg_did_queue t =
       (if expiry a0 = expiry a then fg_did_queue s
        else set_queue cd key (expiry a) (del_queue cd key (expiry a0) (fg_did_queue s)))"
  using assms
  by (simp add: UpdateDIDAllowance_def getDIDGrant_def bindM_def thenM_def set_queue_def
      del_queue_def delDIDQueue_def addToDIDFeeAllowanceQueue_def setDIDGrant_def split: option.splits)

end

context codec_spec
begin

lemma requeue_same:
  assumes "did_queue_inv cd s" and "kv_get (fg_did_allowances s) k = Some g"
  shows "set_queue cd k (grant_expiry g) (del_queue cd k (grant_expiry g) (fg_did_queue s)) = fg_did_queue s"
proof (rule kv_ok_ext)
  show "kv_get (set_queue cd k (grant_expiry g) (del_queue cd k (grant_expiry g) (fg_did_queue s))) l =
      kv_get (fg_did_queue s) l" for l
  proof (cases "\<exists>e. grant_expiry g = Some e \<and> l = DIDFeeAllowancePrefixQueue cd e (tl k)")
    case True
    then have "kv_get (fg_did_queue s) l \<noteq> None" using assms unfolding did_queue_inv_def by blast
    then show ?thesis using True by (simp add: queue_get)
  next
    case False
    then show ?thesis by (simp only: queue_get if_False)
  qed
qed (use assms in \<open>simp_all add: did_queue_inv_def\<close>)

lemma UpdateDID_keeps:
  assumes "addr_ok granter" and "did \<noteq> []" and mok: "marshal_allowance cd a = None \<Longrightarrow> times_ok a"
  shows "keeps (did_queue_inv cd) (UpdateDIDAllowance cd granter did a)"
proof (rule keepsI)
  fix s r t
  assume inv: "did_queue_inv cd s" and run: "UpdateDIDAllowance cd granter did a s = (r, t)"
  show "did_queue_inv cd t"
  proof (cases "\<exists>key g0 g. FeeAllowanceByDIDKey cd granter did = Inr key \<and>
      kv_get (fg_did_allowances s) key = Some g0 \<and> NewDIDGrant cd granter did a = Inr g")
    case False
    then have "t = s"
    proof (cases "getDIDGrant cd granter did s")
      case (Inr g0)
      then obtain key where key: "FeeAllowanceByDIDKey cd granter did = Inr key" "kv_get (fg_did_allowances s) key = Some g0"
        by (auto simp: getDIDGrant_def bindE_Inr_iff split: option.splits)
      with False obtain e where "NewDIDGrant cd granter did a = Inl e" by (cases "NewDIDGrant cd granter did a") auto
      then show ?thesis
        using run key Inr did_inv_grant [OF inv key(2)] by (fastforce simp: UpdateDIDAllowance_def bindM_def)
    qed (use run in \<open>auto simp: UpdateDIDAllowance_def bindM_def split: sum.splits\<close>)
    then show ?thesis using inv by simp
  next
    case True
    then obtain key g0 g where key: "FeeAllowanceByDIDKey cd granter did = Inr key"
      and g0: "kv_get (fg_did_allowances s) key = Some g0" and g: "NewDIDGrant cd granter did a = Inr g" by blast
    have a: "times_ok a"
      using g mok by (auto simp: NewDIDGrant_def NewAnyWithValue_def bindE_Inr_iff split: option.splits)
    obtain a0 where a0: "GetDIDGrant g0 = Inr a0" "grant_expiry g0 = expiry a0" "ExpiresAt a0 = Inr (expiry a0)"
      by (rule did_inv_grant [OF inv g0])
    note entry = did_entry_NewDIDGrant [OF g assms(1) did_key_Inr(1) [OF key assms(1,2)] a]
    have t: "fg_did_allowances t = kv_set key g (fg_did_allowances s)"
      "fg_did_queue t = set_queue cd key (grant_expiry g)
          (del_queue cd key (Option.bind (kv_get (fg_did_allowances s) key) grant_expiry) (fg_did_queue s))"
      using UpdateDID_run [OF key g0 a0(1,3) g times_ok_expires [OF a]] run requeue_same [OF inv g0] a0(2) entry(2) g0
      by auto
    show ?thesis
      using set_grant_inv [OF inv, of key g t] entry(1) did_key_Inr(2) [OF key assms(1,2)] t by simp
  qed
qed

lemma GetDIDAllowance_times_ok: "did_queue_inv cd s \<Longrightarrow> GetDIDAllowance cd granter did s = Inr a \<Longrightarrow> times_ok a"
  by (auto simp: GetDIDAllowance_def getDIDGrant_def bindE_Inr_iff split: option.splits elim!: did_inv_grant)


lemma expire_times_ok:
  "time_ok (BlockTime ctx) \<Longrightarrow> times_ok a \<Longrightarrow> expire_allowance ctx a = Inr (e, a') \<Longrightarrow> times_ok a'"
  by (auto simp: expire_allowance_def Let_def split: FeeAllowance.splits)

lemma ExpireDID_keeps:
  assumes "addr_ok granter" and "did \<noteq> []" and "time_ok (BlockTime ctx)"
  shows "keeps (did_queue_inv cd) (ExpireDIDAllowance cd ctx granter did)"
  unfolding ExpireDIDAllowance_def
  by (rule keeps_bind_readM [where B = times_ok, OF GetDIDAllowance_times_ok], assumption+)
    (use assms expire_times_ok in
      \<open>auto intro!: keeps_bind_liftE keeps_case_prod keeps_thenM UpdateDID_keeps keeps_did_event\<close>)

lemma keeps_bind_acceptM:
  assumes "\<And>r e a'. Accept cd co ctx fee msgs a = (r, e, a') \<Longrightarrow> keeps P (g (r, e, a'))"
  shows "keeps P (bindM (acceptM cd co ctx fee msgs a) g)"
proof -
  obtain r e a' where acc: "Accept cd co ctx fee msgs a = (r, e, a')" by (cases "Accept cd co ctx fee msgs a")
  show ?thesis
  proof (cases "\<exists>x. e = Some x \<and> is_panic x")
    case True
    then show ?thesis by (auto simp: acceptM_def acc intro: keeps_fail)
  next
    case False
    then show ?thesis using assms [OF acc] by (auto simp: acceptM_def acc split: option.splits)
  qed
qed

lemma UseDID_keeps:
  assumes "addr_ok granter" and "did \<noteq> []"
  shows "keeps (did_queue_inv cd) (UseGrantedFeesByDID cd co ctx granter did fee msgs)"
  unfolding UseGrantedFeesByDID_def Let_def
  by (rule keeps_bind_readM [where B = times_ok, OF GetDIDAllowance_times_ok], assumption+)
    (use assms in \<open>auto intro!: keeps_bind_acceptM keeps_rules revokeDID_keeps UpdateDID_keeps keeps_did_event
        intro: Accept_times_ok\<close>)

lemma use_first_keeps:
  assumes "did \<noteq> []" and "\<forall>g\<in>set gs. \<exists>a. DIDAllowance g = AnyValue a \<and> times_ok a"
  shows "keeps (did_queue_inv cd) (use_first cd co ctx did fee msgs gs)"
  using assms(2)
proof (induction gs)
  case Nil
  then show ?case by (simp add: keeps_fail)
next
  case (Cons g gs)
  then obtain a where a: "GetDIDGrant g = Inr a" "times_ok a"
    by (auto simp: GetDIDGrant_def GetCachedAllowance_def)
  note IH = Cons.IH [OF ballI, OF Cons.prems [THEN bspec, OF list.set_intros(2)]]
  show ?case
  proof (cases "AccFromBech32 cd (DIDGranter g)")
    case (Inl e)
    then show ?thesis using IH
      by (auto simp: tryM_def bindM_def keeps_def valid_def Let_def split: if_splits)
  next
    case (Inr granter)
    then have "addr_ok granter" by (rule address_lawsD(3) [OF addresses])
    then show ?thesis
      using a Inr IH assms(1)
      by (auto simp: tryM_ret Let_def intro!: keeps_bind_acceptM keeps_rules revokeDID_keeps UpdateDID_keeps keeps_did_event
          intro: Accept_times_ok)
  qed
qed

lemma UseFirst_keeps:
  assumes "did \<noteq> []"
  shows "keeps (did_queue_inv cd) (UseFirstAvailableDIDGrant cd co ctx did fee msgs)"
  unfolding UseFirstAvailableDIDGrant_def
proof (intro keeps_bind_liftE)
  fix pre
  show "keeps (did_queue_inv cd)
     (bindM (getM (\<lambda>s. map snd (kv_prefix pre (fg_did_allowances s)))) (use_first cd co ctx did fee msgs))"
  proof (rule keeps_bind_getM [where B = "\<lambda>gs. \<forall>g\<in>set gs. \<exists>a. DIDAllowance g = AnyValue a \<and> times_ok a"])
    fix s :: "('c, 'd) feegrant_state_scheme"
    assume inv: "did_queue_inv cd s"
    then have "kv_get (fg_did_allowances s) k = Some g \<Longrightarrow> \<exists>a. DIDAllowance g = AnyValue a \<and> times_ok a" for k g
      by (auto simp: did_queue_inv_def did_entry_ok_def)
    then show "\<forall>g\<in>set (map snd (kv_prefix pre (fg_did_allowances s))). \<exists>a. DIDAllowance g = AnyValue a \<and> times_ok a"
      using inv kv_get_Some_iff [of "fg_did_allowances s"] by (auto simp: did_queue_inv_def kv_prefix_def)
  qed (use assms use_first_keeps in blast)
qed

end

section \<open>Pruning\<close>

definition queued :: "sdk_codec \<Rightarrow> bytes \<Rightarrow> DIDGrant \<Rightarrow> bytes set" where
  "queued cd k g = (case grant_expiry g of None \<Rightarrow> {} | Some e \<Rightarrow> {DIDFeeAllowancePrefixQueue cd e (tl k)})"

context codec_spec
begin

lemma did_inv_entry: "did_queue_inv cd s \<Longrightarrow> kv_get (fg_did_allowances s) k = Some g \<Longrightarrow> did_entry_ok cd k g"
  by (simp add: did_queue_inv_def)

lemma did_inv_queue:
  assumes "did_queue_inv cd s"
  shows "kv_get (fg_did_queue s) q \<noteq> None \<longleftrightarrow> (\<exists>k g. kv_get (fg_did_allowances s) k = Some g \<and> q \<in> queued cd k g)"
proof -
  have "q \<in> queued cd k g \<longleftrightarrow> (\<exists>e. grant_expiry g = Some e \<and> q = DIDFeeAllowancePrefixQueue cd e (tl k))" for k g
    by (auto simp: queued_def split: option.splits)
  then show ?thesis using assms unfolding did_queue_inv_def by metis
qed

lemma queuedE:
  assumes "q \<in> queued cd k g"
  obtains e where "grant_expiry g = Some e" "q = DIDFeeAllowancePrefixQueue cd e (tl k)" "queued cd k g = {q}"
  using assms by (auto simp: queued_def split: option.splits)

lemma queue_entry:
  assumes "did_queue_inv cd s" and "kv_get (fg_did_queue s) q \<noteq> None"
  obtains k g granter where "kv_get (fg_did_allowances s) k = Some g" "queued cd k g = {q}"
    "ParseGranterDIDFromDIDAllowanceQueueKey cd q = Inr (granter, GranteeDid g)"
    "FeeAllowanceByDIDKey cd granter (GranteeDid g) = Inr k"
proof -
  obtain k g e where g: "kv_get (fg_did_allowances s) k = Some g" "grant_expiry g = Some e"
    "q = DIDFeeAllowancePrefixQueue cd e (tl k)"
    using assms did_inv_queue [OF assms(1), of q] by (auto elim: queuedE)
  then obtain granter a where e: "addr_ok granter" "addr_ok (GranteeDid g)"
    "k = CHR 0x02 # pair_bytes granter (GranteeDid g)" "DIDAllowance g = AnyValue a" "times_ok a"
    using did_inv_entry [OF assms(1) g(1)] by (auto simp: did_entry_ok_def)
  then have "time_ok e" using g(2) times_ok_expiry by (simp add: grant_expiry_def)
  with that [of k g granter] show ?thesis
    using g e did_queue_parse FeeAllowanceByDIDKey_ok by (simp add: queued_def)
qed

lemma queued_disjoint:
  assumes "did_queue_inv cd s" and "kv_get (fg_did_allowances s) k = Some g"
    and "kv_get (fg_did_allowances s) k' = Some g'" and "q \<in> queued cd k g" and "q \<in> queued cd k' g'"
  shows "k = k'"
proof -
  have "did_entry_ok cd k g" "did_entry_ok cd k' g'" using assms(1-3) by (simp_all add: did_queue_inv_def)
  then show ?thesis
    using assms(4,5) queue_key_inj times_ok_expiry
    by (fastforce simp: queued_def grant_expiry_def did_entry_ok_def split: option.splits)
qed

lemma prune_did_run:
  assumes "did_queue_inv cd s" and "distinct ks" and "\<forall>q\<in>set ks. kv_get (fg_did_queue s) q \<noteq> None"
    and "count < limit"
  shows "\<exists>t. prune_did cd limit count ks s = (Inr (), t) \<and> did_queue_inv cd t \<and>
    (\<forall>k. kv_get (fg_did_allowances t) k =
       (case kv_get (fg_did_allowances s) k of
          None \<Rightarrow> None
        | Some g \<Rightarrow> if queued cd k g \<inter> set (take (nat (limit - count)) ks) = {} then Some g else None))"
  using assms
proof (induction ks arbitrary: s count)
  case Nil
  then show ?case by (auto split: option.splits)
next
  case (Cons q ks)
  obtain k g granter where g: "kv_get (fg_did_allowances s) k = Some g" and qg: "queued cd k g = {q}"
    and parse: "ParseGranterDIDFromDIDAllowanceQueueKey cd q = Inr (granter, GranteeDid g)"
    and key: "FeeAllowanceByDIDKey cd granter (GranteeDid g) = Inr k"
    using queue_entry [OF Cons.prems(1)] Cons.prems(3) by (metis list.set_intros(1))
  let ?u = "s\<lparr>fg_did_queue := kv_del q (fg_did_queue s), fg_did_allowances := kv_del k (fg_did_allowances s)\<rparr>"
  obtain e where e: "grant_expiry g = Some e" "q = DIDFeeAllowancePrefixQueue cd e (tl k)"
    using queuedE [of q k g] qg by blast
  have inv: "did_queue_inv cd ?u"
    by (rule del_grant_inv [OF Cons.prems(1) did_inv_entry [OF Cons.prems(1) g]])
      (simp_all add: g e del_queue_def)
  have step: "prune_did cd limit count (q # ks) s =
      (if count + 1 = limit then ret () else prune_did cd limit (count + 1) ks) ?u"
    by (simp add: parse key delDIDGrant_def bindM_def thenM_def)
  have other: "q \<notin> queued cd k' g'" if "kv_get (fg_did_allowances s) k' = Some g'" "k' \<noteq> k" for k' g'
    using queued_disjoint [OF Cons.prems(1) g that(1), of q] qg that(2) by auto
  show ?case
  proof (cases "count + 1 = limit")
    case True
    then have "nat (limit - count) = 1" by simp
    then have "set (take (nat (limit - count)) (q # ks)) = {q}" by simp
    with True step inv g qg other show ?thesis by (auto split: option.splits)
  next
    case False
    have "\<forall>q\<in>set ks. kv_get (fg_did_queue ?u) q \<noteq> None" using Cons.prems(2,3) by auto
    from Cons.IH [OF inv _ this, of "count + 1"] Cons.prems False obtain t where
      t: "prune_did cd limit (count + 1) ks ?u = (Inr (), t)" "did_queue_inv cd t"
        "\<And>k'. kv_get (fg_did_allowances t) k' =
           (case kv_get (fg_did_allowances ?u) k' of None \<Rightarrow> None
            | Some g \<Rightarrow> if queued cd k' g \<inter> set (take (nat (limit - (count + 1))) ks) = {} then Some g else None)"
      by auto
    have n: "nat (limit - count) = Suc (nat (limit - (count + 1)))" using Cons.prems(4) False by simp
    have "kv_get (fg_did_allowances t) k' =
       (case kv_get (fg_did_allowances s) k' of
          None \<Rightarrow> None
        | Some g \<Rightarrow> if queued cd k' g \<inter> set (take (nat (limit - count)) (q # ks)) = {} then Some g else None)" for k'
      using g qg other [of k'] by (cases "k' = k") (auto simp: t(3) n split: option.splits)
    then show ?thesis using step False t(1,2) by auto
  qed
qed

lemma prune_range:
  assumes "did_queue_inv cd s" and "time_ok (BlockTime ctx)" and "kv_get (fg_did_allowances s) k = Some g"
  shows "queued cd k g \<inter> fst ` set (kv_range DIDFeeAllowanceQueueKeyPrefix
           (InclusiveEndBytes cd (DIDAllowanceByExpTimeKey cd (BlockTime ctx))) (fg_did_queue s)) \<noteq> {}
         \<longleftrightarrow> expired_at ctx (grant_expiry g)"
proof (cases "grant_expiry g")
  case None
  then show ?thesis by (simp add: queued_def expired_at_def)
next
  case (Some e)
  obtain granter a where a: "addr_ok granter" "addr_ok (GranteeDid g)" "k = CHR 0x02 # pair_bytes granter (GranteeDid g)"
    "DIDAllowance g = AnyValue a" "times_ok a"
    using did_inv_entry [OF assms(1,3)] by (auto simp: did_entry_ok_def)
  then have "time_ok e" using Some times_ok_expiry by (simp add: grant_expiry_def)
  from did_queue_range [OF this assms(2) a(1,2)]
  have lt: "DIDFeeAllowancePrefixQueue cd e (tl k) < InclusiveEndBytes cd (DIDAllowanceByExpTimeKey cd (BlockTime ctx)) \<longleftrightarrow>
      e < BlockTime ctx" using a(3) by simp
  have "DIDFeeAllowancePrefixQueue cd e (tl k) \<in> fst ` set (fg_did_queue s)"
    using assms(1,3) Some kv_get_None_iff [of "fg_did_queue s"] unfolding did_queue_inv_def by metis
  moreover have "DIDFeeAllowanceQueueKeyPrefix \<le> DIDFeeAllowancePrefixQueue cd e (tl k)"
    by (simp add: key_defs)
  ultimately show ?thesis using Some lt by (auto simp: queued_def expired_at_def kv_range_def)
qed

end

context codec_spec
begin

lemma RemoveExpiredDID_run:
  assumes "did_queue_inv cd s" and "time_ok (BlockTime ctx)" and "0 < limit"
  shows "\<exists>t ks. RemoveExpiredDIDAllowances cd ctx limit s = (Inr (), t) \<and> did_queue_inv cd t \<and> distinct ks \<and>
    set ks = fst ` set (kv_range DIDFeeAllowanceQueueKeyPrefix
      (InclusiveEndBytes cd (DIDAllowanceByExpTimeKey cd (BlockTime ctx))) (fg_did_queue s)) \<and>
    (\<forall>k. kv_get (fg_did_allowances t) k =
       (case kv_get (fg_did_allowances s) k of
          None \<Rightarrow> None
        | Some g \<Rightarrow> if queued cd k g \<inter> set (take (nat limit) ks) = {} then Some g else None))"
proof -
  let ?r = "kv_range DIDFeeAllowanceQueueKeyPrefix
      (InclusiveEndBytes cd (DIDAllowanceByExpTimeKey cd (BlockTime ctx))) (fg_did_queue s)"
  have "kv_ok (fg_did_queue s)" using assms(1) by (simp add: did_queue_inv_def)
  then have d: "distinct (map fst ?r)" by (intro kv_ok_distinct) (simp add: kv_range_def)
  have q: "\<forall>q\<in>set (map fst ?r). kv_get (fg_did_queue s) q \<noteq> None"
    by (auto simp: kv_range_def kv_get_None_iff)
  from prune_did_run [OF assms(1) d q assms(3), unfolded diff_zero] obtain t where
    t: "prune_did cd limit 0 (map fst ?r) s = (Inr (), t)" "did_queue_inv cd t"
      "\<forall>k. kv_get (fg_did_allowances t) k =
       (case kv_get (fg_did_allowances s) k of
          None \<Rightarrow> None
        | Some g \<Rightarrow> if queued cd k g \<inter> set (take (nat limit) (map fst ?r)) = {} then Some g else None)"
    by blast
  have "RemoveExpiredDIDAllowances cd ctx limit s = (Inr (), t)"
    using t(1) by (simp add: RemoveExpiredDIDAllowances_def)
  moreover have "set (map fst ?r) = fst ` set ?r" by simp
  ultimately show ?thesis using t(2,3) d by blast
qed

lemma RemoveExpiredDID_keeps:
  assumes "time_ok (BlockTime ctx)" and "0 < limit"
  shows "keeps (did_queue_inv cd) (RemoveExpiredDIDAllowances cd ctx limit)"
  by (rule keepsI) (use RemoveExpiredDID_run [OF _ assms] in fastforce)

lemma prune_exact:
  assumes "did_queue_inv cd s" and "time_ok (BlockTime ctx)" and "0 < limit"
  shows "\<exists>t. RemoveExpiredDIDAllowances cd ctx limit s = (Inr (), t) \<and> did_queue_inv cd t \<and>
    (\<forall>k g. kv_get (fg_did_allowances t) k = Some g \<longrightarrow> kv_get (fg_did_allowances s) k = Some g) \<and>
    (\<forall>k g. kv_get (fg_did_allowances s) k = Some g \<longrightarrow> kv_get (fg_did_allowances t) k = None \<longrightarrow>
       expired_at ctx (grant_expiry g)) \<and>
    (int (card {k. \<exists>g. kv_get (fg_did_allowances s) k = Some g \<and> expired_at ctx (grant_expiry g)}) \<le> limit \<longrightarrow>
       (\<forall>k g. kv_get (fg_did_allowances t) k = Some g \<longrightarrow> \<not> expired_at ctx (grant_expiry g)))"
proof -
  obtain t ks where t: "RemoveExpiredDIDAllowances cd ctx limit s = (Inr (), t)" "did_queue_inv cd t" "distinct ks"
    and ks: "set ks = fst ` set (kv_range DIDFeeAllowanceQueueKeyPrefix
      (InclusiveEndBytes cd (DIDAllowanceByExpTimeKey cd (BlockTime ctx))) (fg_did_queue s))"
    and get: "\<And>k. kv_get (fg_did_allowances t) k =
       (case kv_get (fg_did_allowances s) k of
          None \<Rightarrow> None
        | Some g \<Rightarrow> if queued cd k g \<inter> set (take (nat limit) ks) = {} then Some g else None)"
    using RemoveExpiredDID_run [OF assms] by blast
  let ?E = "{k. \<exists>g. kv_get (fg_did_allowances s) k = Some g \<and> expired_at ctx (grant_expiry g)}"
  note range = prune_range [OF assms(1,2), folded ks]
  have "?E \<subseteq> fst ` set (fg_did_allowances s)" using kv_get_in_set by force
  then have fin: "finite ?E" by (rule finite_subset) simp
  let ?f = "\<lambda>k. the_elem (queued cd k (the (kv_get (fg_did_allowances s) k)))"
  have "set ks \<subseteq> ?f ` ?E"
  proof
    fix q assume q: "q \<in> set ks"
    then have "kv_get (fg_did_queue s) q \<noteq> None" by (auto simp: ks kv_range_def kv_get_None_iff)
    then obtain k g where g: "kv_get (fg_did_allowances s) k = Some g" "q \<in> queued cd k g"
      using did_inv_queue [OF assms(1)] by blast
    then have "queued cd k g = {q}" by (blast elim: queuedE)
    moreover from this have "expired_at ctx (grant_expiry g)" using range [OF g(1)] q by blast
    ultimately show "q \<in> ?f ` ?E" using g by (intro image_eqI [of _ _ k]) auto
  qed
  then have "card (set ks) \<le> card ?E" using fin by (meson card_image_le card_mono finite_imageI le_trans)
  then have len: "length ks \<le> card ?E" using distinct_card [OF t(3)] by simp
  have "set (take (nat limit) ks) \<subseteq> set ks" by (rule set_take_subset)
  then have "\<forall>k g. kv_get (fg_did_allowances s) k = Some g \<longrightarrow> kv_get (fg_did_allowances t) k = None \<longrightarrow>
       expired_at ctx (grant_expiry g)"
    using range by (fastforce simp: get split: if_splits)
  moreover have "\<forall>k g. kv_get (fg_did_allowances t) k = Some g \<longrightarrow> kv_get (fg_did_allowances s) k = Some g"
    by (auto simp: get split: option.splits if_splits)
  moreover have "\<not> expired_at ctx (grant_expiry g)"
    if "int (card ?E) \<le> limit" "kv_get (fg_did_allowances t) k = Some g" for k g
    using that len range [of k] by (auto simp: get split: option.splits if_splits)
  ultimately show ?thesis using t(1,2) by blast
qed

end

end
