(* ===== verification/Feegrant_Props.thy ===== *)
theory Feegrant_Props
  imports Feegrant_Queue
begin

text \<open>
  Transactions and end blocks of the feegrant module as a step relation, and the properties of the
  module.
\<close>

inductive fg_step :: "sdk_codec \<Rightarrow> coin_ops \<Rightarrow> 'x fg_keepers \<Rightarrow> ('x, 'z) feegrant_state_scheme \<Rightarrow>
    ('x, 'z) feegrant_state_scheme \<Rightarrow> bool" for cd co fk where
  grant: "cacheCtx (Msg_GrantAllowance cd co fk ctx msg) s = (r, t) \<Longrightarrow> fg_step cd co fk s t"
| revoke: "cacheCtx (Msg_RevokeAllowance cd granter grantee) s = (r, t) \<Longrightarrow> fg_step cd co fk s t"
| prune: "cacheCtx (Msg_PruneAllowances cd ctx pruner) s = (r, t) \<Longrightarrow> fg_step cd co fk s t"
| use: "cacheCtx (UseGrantedFees cd co ctx granterA granteeA fee msgs) s = (r, t) \<Longrightarrow> fg_step cd co fk s t"
| grant_did: "MsgGrantDIDAllowance_ValidateBasic co dmsg = None \<Longrightarrow>
    (\<And>a. mgd_Allowance dmsg = AnyValue a \<Longrightarrow> times_ok a) \<Longrightarrow>
    cacheCtx (Msg_GrantDIDAllowance cd co ctx dmsg) s = (r, t) \<Longrightarrow> fg_step cd co fk s t"
| expire_did: "MsgExpireDIDAllowance_ValidateBasic granter did = None \<Longrightarrow> time_ok (BlockTime ctx) \<Longrightarrow>
    cacheCtx (Msg_ExpireDIDAllowance cd ctx granter did) s = (r, t) \<Longrightarrow> fg_step cd co fk s t"
| prune_did: "time_ok (BlockTime ctx) \<Longrightarrow>
    cacheCtx (Msg_PruneDIDAllowances cd ctx pruner) s = (r, t) \<Longrightarrow> fg_step cd co fk s t"
| use_did: "addr_ok granterA \<Longrightarrow> did \<noteq> [] \<Longrightarrow>
    cacheCtx (UseGrantedFeesByDID cd co ctx granterA did fee msgs) s = (q, t) \<Longrightarrow> fg_step cd co fk s t"
| use_first: "did \<noteq> [] \<Longrightarrow>
    cacheCtx (UseFirstAvailableDIDGrant cd co ctx did fee msgs) s = (ra, t) \<Longrightarrow> fg_step cd co fk s t"
| end_block: "time_ok (BlockTime ctx) \<Longrightarrow> FG_EndBlocker cd ctx s = (Inr (), t) \<Longrightarrow> fg_step cd co fk s t"

section \<open>Grants to accounts leave the DID stores alone\<close>

lemma did_queue_inv_fee [simp]:
  "did_queue_inv cd (s\<lparr>fg_allowances := x\<rparr>) = did_queue_inv cd s"
  "did_queue_inv cd (s\<lparr>fg_queue := y\<rparr>) = did_queue_inv cd s"
  by (simp_all add: did_queue_inv_def)

lemmas fee_op_defs = GrantAllowance_def UpdateAllowance_def revokeAllowance_def addToFeeAllowanceQueue_def
  UseGrantedFees_def Msg_GrantAllowance_def Msg_RevokeAllowance_def Msg_PruneAllowances_def

lemma fee_ops_keep_did:
  "keeps (did_queue_inv cd) (GrantAllowance cd fk ctx granter grantee a)"
  "keeps (did_queue_inv cd) (UpdateAllowance cd granter grantee a)"
  "keeps (did_queue_inv cd) (revokeAllowance cd granter grantee)"
  unfolding fee_op_defs Let_def
  by (auto intro!: keeps_rules keeps_modifyM keeps_did_event)

lemma prune_fee_keeps_did: "keeps (did_queue_inv cd) (prune_fee cd limit count ks)"
  by (induction ks arbitrary: count) (auto intro!: keeps_rules keeps_modifyM)

lemma fee_msgs_keep_did:
  "keeps (did_queue_inv cd) (Msg_GrantAllowance cd co fk ctx msg)"
  "keeps (did_queue_inv cd) (Msg_RevokeAllowance cd granter grantee)"
  "keeps (did_queue_inv cd) (RemoveExpiredAllowances cd ctx limit)"
  "keeps (did_queue_inv cd) (UseGrantedFees cd co ctx granterA granteeA fee msgs)"
  unfolding Msg_GrantAllowance_def Msg_RevokeAllowance_def RemoveExpiredAllowances_def UseGrantedFees_def Let_def
  by (auto intro!: keeps_rules keeps_did_event fee_ops_keep_did prune_fee_keeps_did)

context codec_spec
begin

lemma Msg_GrantDID_keeps:
  assumes "MsgGrantDIDAllowance_ValidateBasic co msg = None"
    and "\<And>a. mgd_Allowance msg = AnyValue a \<Longrightarrow> times_ok a"
  shows "keeps (did_queue_inv cd) (Msg_GrantDIDAllowance cd co ctx msg)"
proof -
  have "mgd_GranteeDid msg \<noteq> []"
    using assms(1) by (auto simp: MsgGrantDIDAllowance_ValidateBasic_def bad_did_def split: if_splits)
  moreover have "times_ok a" if "GetCachedAllowance (mgd_Allowance msg) = Inr a" for a
    using assms(2) that by (auto simp: GetCachedAllowance_def split: AnyAllowance.splits)
  ultimately show ?thesis
    unfolding Msg_GrantDIDAllowance_def
    by (intro keeps_bind_liftE keeps_bindM keeps_tryM keeps_readM keeps_case_sum keeps_fail keeps_case_option
        GrantDID_keeps) (auto dest: address_lawsD(3) [OF addresses])
qed

lemma Msg_ExpireDID_keeps:
  assumes "MsgExpireDIDAllowance_ValidateBasic granter did = None" and "time_ok (BlockTime ctx)"
  shows "keeps (did_queue_inv cd) (Msg_ExpireDIDAllowance cd ctx granter did)"
proof -
  have "did \<noteq> []"
    using assms(1) by (auto simp: MsgExpireDIDAllowance_ValidateBasic_def bad_did_def split: if_splits)
  then show ?thesis
    unfolding Msg_ExpireDIDAllowance_def using assms(2)
    by (auto intro!: keeps_bind_liftE ExpireDID_keeps dest: address_lawsD(3) [OF addresses])
qed

lemma Msg_Prune_keeps_did: "keeps (did_queue_inv cd) (Msg_PruneAllowances cd ctx pruner)"
  unfolding Msg_PruneAllowances_def by (intro keeps_thenM keeps_did_event fee_msgs_keep_did)

lemma Msg_PruneDID_keeps:
  assumes "time_ok (BlockTime ctx)"
  shows "keeps (did_queue_inv cd) (Msg_PruneDIDAllowances cd ctx pruner)"
  unfolding Msg_PruneDIDAllowances_def
  by (intro keeps_thenM keeps_did_event RemoveExpiredDID_keeps assms) simp

lemma FG_EndBlocker_keeps:
  assumes "time_ok (BlockTime ctx)"
  shows "keeps (did_queue_inv cd) (FG_EndBlocker cd ctx)"
  unfolding FG_EndBlocker_def
  by (intro keeps_bindM keeps_tryM fee_msgs_keep_did RemoveExpiredDID_keeps assms)
    (auto split: sum.splits intro: keeps_rules)

lemma fg_step_inv:
  assumes "fg_step cd co fk s t" and "did_queue_inv cd s"
  shows "did_queue_inv cd t"
  using assms(1)
proof cases
  case (grant ctx msg r)
  then show ?thesis by (rule cacheCtx_invariant [OF fee_msgs_keep_did(1) assms(2)])
next
  case (revoke granter grantee r)
  then show ?thesis by (rule cacheCtx_invariant [OF fee_msgs_keep_did(2) assms(2)])
next
  case (prune ctx pruner r)
  then show ?thesis by (rule cacheCtx_invariant [OF Msg_Prune_keeps_did assms(2)])
next
  case (use ctx granterA granteeA fee msgs r)
  then show ?thesis by (rule cacheCtx_invariant [OF fee_msgs_keep_did(4) assms(2)])
next
  case (grant_did dmsg ctx r)
  then show ?thesis by (intro cacheCtx_invariant [OF Msg_GrantDID_keeps assms(2)])
next
  case (expire_did granter did ctx r)
  then show ?thesis by (intro cacheCtx_invariant [OF Msg_ExpireDID_keeps assms(2)])
next
  case (prune_did ctx pruner r)
  then show ?thesis by (intro cacheCtx_invariant [OF Msg_PruneDID_keeps assms(2)])
next
  case (use_did granterA did ctx fee msgs q)
  then show ?thesis by (intro cacheCtx_invariant [OF UseDID_keeps assms(2)])
next
  case (use_first did ctx fee msgs ra)
  then show ?thesis by (intro cacheCtx_invariant [OF UseFirst_keeps assms(2)])
next
  case (end_block ctx)
  then show ?thesis by (intro keepsD_Inr [OF FG_EndBlocker_keeps assms(2)])
qed

end

section \<open>Spending\<close>

context coins_spec
begin

lemmas any_total = any.total_within_limit
lemmas any_expired = any.none_after_expiry

end

text \<open>C15: Whatever requests an allowance of any kind sees, the fees it ever accepts add up to at most
  its spend limit, denomination by denomination.\<close>

theorem fees_within_spend_limit:
  assumes "coin_laws co" and "allowance_ok a" and "limit_of a = Some l"
    and "\<forall>r\<in>set rs. valid_coins (fst (snd r))"
  shows "fee_total d (accepted (Accept cd co) rs a) \<le> amountOf l d"
  using assms(2-4) by (rule coins_spec.any_total [OF coins_spec.intro [OF assms(1)]])

definition demo_basic :: "coins option \<Rightarrow> time option \<Rightarrow> FeeAllowance" where
  "demo_basic l e = FBasic \<lparr>SpendLimit = l, Expiration = e\<rparr>"

theorem fees_within_spend_limit_witness:
  "fee_total ''uopen'' (accepted (Accept std_codec std_coins)
     [(demo_ctx 1, [(''uopen'', 6)], []), (demo_ctx 2, [(''uopen'', 6)], []), (demo_ctx 3, [(''uopen'', 4)], [])]
     (demo_basic (Some [(''uopen'', 10)]) None)) \<le> 10"
proof -
  have ok: "allowance_ok (demo_basic (Some [(''uopen'', 10)]) None)"
    by (simp add: demo_basic_def basic_ok_def coins_sorted_def)
  have lim: "limit_of (demo_basic (Some [(''uopen'', 10)]) None) = Some [(''uopen'', 10)]"
    by (simp add: demo_basic_def)
  have fees: "\<forall>r\<in>set [(demo_ctx 1, [(''uopen'', 6 :: int)], [] :: string list), (demo_ctx 2, [(''uopen'', 6)], []),
      (demo_ctx 3, [(''uopen'', 4)], [])]. valid_coins (fst (snd r))"
    by (simp add: valid_coins_def coins_sorted_def)
  note fees_within_spend_limit [OF std_coins_laws ok lim fees, where cd = std_codec and d = "''uopen''"]
  also have "amountOf [(''uopen'', 10)] ''uopen'' = 10" by simp
  finally show ?thesis .
qed

lemma Periodic_window_accepted:
  assumes "coin_laws co" and "periodic_ok a" and "valid_coins fee" and "BlockTime ctx < PeriodReset a"
    and "Periodic_Accept co ctx fee a = (r, None, a')"
  shows "PeriodReset a' = PeriodReset a" and "periodic_ok a'"
    and "amountOf (PeriodCanSpend a') d = amountOf (PeriodCanSpend a) d - amountOf fee d"
proof -
  note cs = coins_spec.intro [OF assms(1)]
  have noreset: "tryResetPeriod co (BlockTime ctx) a = a" using assms(4) by (simp add: tryResetPeriod_def)
  then obtain c where c: "SafeSubCoins co (PeriodCanSpend a) fee = (c, False)"
    and a': "PeriodCanSpend a' = c" "PeriodReset a' = PeriodReset a"
    using assms(5) by (auto simp: Periodic_Accept_def Let_def split: if_splits option.splits prod.splits)
  show "PeriodReset a' = PeriodReset a" by (rule a'(2))
  show "periodic_ok a'" using coins_spec.Periodic_accepted(2) [OF cs assms(5)] assms(2,3) by simp
  show "amountOf (PeriodCanSpend a') d = amountOf (PeriodCanSpend a) d - amountOf fee d"
    using coins_spec.SafeSub_limit(2) [OF cs c _ assms(3)] assms(2) a'(1) by (simp add: periodic_ok_def)
qed

lemma Periodic_window_total:
  assumes "coin_laws co" and "periodic_ok a" and "\<forall>r\<in>set rs. valid_coins (fst (snd r)) \<and> BlockTime (fst r) < PeriodReset a"
  shows "fee_total d (accepted (\<lambda>ctx fee msgs. Periodic_Accept co ctx fee) rs a) \<le> amountOf (PeriodCanSpend a) d"
  using assms(2,3)
proof (induction rs arbitrary: a)
  case Nil
  then show ?case by (simp add: periodic_ok_def)
next
  case (Cons r rs)
  obtain ctx fee msgs where r: "r = (ctx, fee, msgs)" by (cases r)
  obtain rm err a' where acc: "Periodic_Accept co ctx fee a = (rm, err, a')" by (cases "Periodic_Accept co ctx fee a")
  have can: "0 \<le> amountOf (PeriodCanSpend b) d" if "periodic_ok b" for b using that by (simp add: periodic_ok_def)
  show ?case
  proof (cases err)
    case None
    note w = Periodic_window_accepted [OF assms(1) Cons.prems(1), of fee ctx rm a']
    have "fee_total d (accepted (\<lambda>ctx fee msgs. Periodic_Accept co ctx fee) rs a') \<le> amountOf (PeriodCanSpend a') d"
      using Cons.prems(2) w acc None r by (intro Cons.IH) auto
    then show ?thesis using w(2,3) acc None r Cons.prems(2) can [of a'] by auto
  next
    case (Some e)
    then show ?thesis using acc r Cons.IH [of a] Cons.prems can [of a] by auto
  qed
qed

text \<open>Until its next reset a periodic allowance pays at most the amount left in its period.\<close>

theorem periodic_window:
  assumes "coin_laws co" and "periodic_ok a"
    and "\<forall>r\<in>set rs. valid_coins (fst (snd r)) \<and> BlockTime (fst r) < PeriodReset a"
  shows "fee_total d (accepted (\<lambda>ctx fee msgs. Periodic_Accept co ctx fee) rs a) \<le> amountOf (PeriodCanSpend a) d"
  using assms by (rule Periodic_window_total)

definition demo_periodic :: "coins option \<Rightarrow> coins \<Rightarrow> coins \<Rightarrow> time \<Rightarrow> PeriodicAllowance" where
  "demo_periodic l p c reset =
     \<lparr>Basic = \<lparr>SpendLimit = l, Expiration = None\<rparr>, Period = 100, PeriodSpendLimit = p, PeriodCanSpend = c, PeriodReset = reset\<rparr>"

theorem periodic_window_witness:
  "fee_total ''uopen'' (accepted (\<lambda>ctx fee msgs. Periodic_Accept std_coins ctx fee)
     [(demo_ctx 1, [(''uopen'', 3)], []), (demo_ctx 2, [(''uopen'', 3)], [])]
     (demo_periodic None [(''uopen'', 5)] [(''uopen'', 5)] 100)) \<le> 5"
  using periodic_window [OF std_coins_laws, of "demo_periodic None [(''uopen'', 5)] [(''uopen'', 5)] 100"
      "[(demo_ctx 1, [(''uopen'', 3)], []), (demo_ctx 2, [(''uopen'', 3)], [])]" "''uopen''"]
  by (simp add: demo_periodic_def periodic_ok_def basic_ok_def coins_sorted_def valid_coins_def demo_ctx_def)

text \<open>With a single denomination, a reset tops the period up to the smaller of the period limit
  and what is left of the absolute limit.\<close>

theorem period_reset_min:
  assumes "coin_laws co" and "periodic_ok a" and "PeriodReset a \<le> now"
    and "SpendLimit (Basic a) = Some [(d, l)]" and "PeriodSpendLimit a = [(d, p)]"
  shows "PeriodCanSpend (tryResetPeriod co now a) = [(d, min l p)]"
proof -
  have neg: "snd (SafeSubCoins co [(d, l)] [(d, p)]) \<longleftrightarrow> l < p"
    using coin_lawsD(1,3) [OF assms(1), of "[(d, l)]" "[(d, p)]"] by (auto simp: coins_sorted_def)
  show ?thesis using assms(3-5) neg by (simp add: tryResetPeriod_def Let_def nil_coins_def min_def)
qed

theorem period_reset_min_witness:
  "PeriodCanSpend (tryResetPeriod std_coins 7 (demo_periodic (Some [(''uopen'', 3)]) [(''uopen'', 5)] [] 7)) = [(''uopen'', 3)]"
  using period_reset_min [OF std_coins_laws, of "demo_periodic (Some [(''uopen'', 3)]) [(''uopen'', 5)] [] 7" 7 "''uopen''" 3 5]
  by (simp add: demo_periodic_def periodic_ok_def basic_ok_def coins_sorted_def)

text \<open>C32: The reset of a period looks at all denominations at once. As soon as what is left of the
  absolute limit is short of the period limit in one denomination, the period limit is forgotten in all of
  them: after the reset the allowance pays exactly the fees within the absolute limit.\<close>

theorem period_limit_exceeded:
  assumes "coin_laws co" and "SpendLimit (Basic a) = Some limit" and "limit \<noteq> []"
    and "coins_sorted limit" and "coins_sorted (PeriodSpendLimit a)" and "coins_sorted fee"
    and "PeriodReset a \<le> BlockTime ctx" and "\<forall>e. Expiration (Basic a) = Some e \<longrightarrow> BlockTime ctx \<le> e"
    and "amountOf limit d < amountOf (PeriodSpendLimit a) d"
  shows "fst (snd (Periodic_Accept co ctx fee a)) = None \<longleftrightarrow> (\<forall>d. amountOf fee d \<le> amountOf limit d)"
proof -
  have "snd (SafeSubCoins co limit (PeriodSpendLimit a))"
    using coin_lawsD(3) [OF assms(1,4,5)] coin_lawsD(1) [OF assms(1,4,5)] assms(9) by (metis diff_less_0_iff_less)
  then have r: "PeriodCanSpend (tryResetPeriod co (BlockTime ctx) a) = limit" "Basic (tryResetPeriod co (BlockTime ctx) a) = Basic a"
    using assms(2,3,7) by (simp_all add: tryResetPeriod_def nil_coins_def Let_def)
  have neg: "snd (SafeSubCoins co limit fee) \<longleftrightarrow> \<not> (\<forall>d. amountOf fee d \<le> amountOf limit d)"
    using coin_lawsD(3) [OF assms(1,4,6)] coin_lawsD(1) [OF assms(1,4,6)] by (metis diff_less_0_iff_less not_le)
  have live: "\<not> (case Expiration (Basic a) of None \<Rightarrow> False | Some e \<Rightarrow> e < BlockTime ctx)"
    using assms(8) by (auto split: option.splits)
  show ?thesis
    using neg by (cases "SafeSubCoins co limit fee") (simp add: Periodic_Accept_def live r assms(2) Let_def)
qed

definition demo_two_coins :: PeriodicAllowance where
  "demo_two_coins = demo_periodic (Some [(''ucredit'', 1), (''uopen'', 100)]) [(''ucredit'', 5), (''uopen'', 5)] [] 0"

text \<open>An allowance that passes \<open>ValidateBasic\<close> pays 90 coins in a period whose limit is 5.\<close>

theorem period_limit_exceeded_witness:
  "Allowance_ValidateBasic std_coins (FPeriodic demo_two_coins) = None \<and> amountOf (PeriodSpendLimit demo_two_coins) ''uopen'' = 5 \<and>
   fst (snd (Periodic_Accept std_coins (demo_ctx 1) [(''uopen'', 90)] demo_two_coins)) = None"
proof -
  have "fst (snd (Periodic_Accept std_coins (demo_ctx 1) [(''uopen'', 90)] demo_two_coins)) = None \<longleftrightarrow>
      (\<forall>d. amountOf [(''uopen'', 90)] d \<le> amountOf [(''ucredit'', 1), (''uopen'', 100)] d)"
    by (rule period_limit_exceeded [OF std_coins_laws, where d = "''ucredit''"])
      (simp_all add: demo_two_coins_def demo_periodic_def demo_ctx_def coins_sorted_def less_char_def)
  moreover have "Allowance_ValidateBasic std_coins (FPeriodic demo_two_coins) = None"
    by (simp add: demo_two_coins_def demo_periodic_def Periodic_ValidateBasic_def Basic_ValidateBasic_def std_coins_def
        valid_coins_def coins_sorted_def less_char_def valid_denom_def letter_def denom_char_def)
  ultimately show ?thesis by (simp add: demo_two_coins_def demo_periodic_def)
qed

section \<open>Queues\<close>

definition demo_fk :: "unit fg_keepers" where
  "demo_fk = \<lparr>HasAccount = (\<lambda>a x. True), BlockedAddr = (\<lambda>a. False), SetNewAccount = (\<lambda>a. ret ())\<rparr>"

definition demo_fg :: "unit feegrant_state" where
  "demo_fg = \<lparr>events = [], epoch_store = [], fg_allowances = [], fg_queue = [], fg_did_allowances = [],
     fg_did_queue = [], ext = ()\<rparr>"

context codec_spec
begin

lemma Grant_run:
  assumes "addr_ok granter" and "addr_ok grantee" and "HasAccount fk grantee (ext s)"
    and "kv_get (fg_allowances s) (CHR 0x00 # pair_bytes granter grantee) = None"
    and "times_ok a" and "expiry a = Some e" and "BlockTime ctx \<le> e"
  shows "GrantAllowance cd fk ctx granter grantee a s =
     (Inr (), s\<lparr>fg_queue := kv_set (FeeAllowancePrefixQueue cd e (pair_bytes granter grantee)) () (fg_queue s),
       fg_allowances := kv_set (CHR 0x00 # pair_bytes granter grantee)
         \<lparr>Granter = AccString cd granter, Grantee = AccString cd grantee, Allowance = AnyValue a\<rparr> (fg_allowances s),
       events := events s @ [grant_event ''set_feegrant'' (AccString cd granter) (AccString cd grantee)]\<rparr>)"
  using assms times_ok_expires [OF assms(5)] times_ok_marshal [OF assms(5)]
  by (simp add: GrantAllowance_def GetAllowance_def getGrant_def FeeAllowanceKey_ok tryM_def bindM_def thenM_def
      expired_at_def addToFeeAllowanceQueue_def NewGrant_def NewAnyWithValue_def)

lemma revoke_run:
  assumes "addr_ok granter" and "addr_ok grantee"
    and "kv_get (fg_allowances s) (CHR 0x00 # pair_bytes granter grantee) = Some g"
    and "Allowance g = AnyValue a" and "times_ok a" and "expiry a = Some e"
  shows "revokeAllowance cd granter grantee s =
     (Inr (), s\<lparr>fg_allowances := kv_del (CHR 0x00 # pair_bytes granter grantee) (fg_allowances s),
       fg_queue := kv_del (FeeAllowancePrefixQueue cd e (pair_bytes grantee granter)) (fg_queue s),
       events := events s @ [grant_event ''revoke_feegrant'' (AccString cd granter) (AccString cd grantee)]\<rparr>)"
  using assms times_ok_expires [OF assms(5)]
  by (simp add: revokeAllowance_def GetAllowance_def getGrant_def FeeAllowanceKey_ok bindM_def thenM_def
      GetGrant_def GetCachedAllowance_def)

lemma fee_queue_inj:
  "time_ok t \<Longrightarrow> time_ok u \<Longrightarrow> FeeAllowancePrefixQueue cd t k = FeeAllowancePrefixQueue cd u l \<longleftrightarrow> t = u \<and> k = l"
  using queue_key_inj [of t u k l] by (simp add: key_defs)

lemma prune_one:
  assumes "addr_ok granter" and "addr_ok grantee" and "time_ok e1" and "time_ok e2" and "e1 \<noteq> e2"
    and "time_ok (BlockTime ctx)" and "e1 < BlockTime ctx" and "BlockTime ctx \<le> e2"
    and "fg_queue s = kv_set (FeeAllowancePrefixQueue cd e2 (pair_bytes granter grantee)) ()
                        [(FeeAllowancePrefixQueue cd e1 (pair_bytes granter grantee), ())]"
  shows "\<exists>q. RemoveExpiredAllowances cd ctx 200 s =
    (Inr (), s\<lparr>fg_queue := q, fg_allowances := kv_del (CHR 0x00 # pair_bytes granter grantee) (fg_allowances s)\<rparr>)"
proof -
  let ?fin = "InclusiveEndBytes cd (AllowanceByExpTimeKey cd (BlockTime ctx))"
  have r: "FeeAllowancePrefixQueue cd e1 (pair_bytes granter grantee) < ?fin"
    "\<not> FeeAllowancePrefixQueue cd e2 (pair_bytes granter grantee) < ?fin"
    using fee_queue_range [OF _ assms(6,1,2)] assms by auto
  have low: "FeeAllowanceQueueKeyPrefix \<le> FeeAllowancePrefixQueue cd e (pair_bytes granter grantee)" for e
    by (simp add: key_defs)
  have "map fst (kv_range FeeAllowanceQueueKeyPrefix ?fin (fg_queue s)) =
      [FeeAllowancePrefixQueue cd e1 (pair_bytes granter grantee)]"
    using r low fee_queue_inj [OF assms(3,4)] assms(5) by (simp add: assms(9) kv_range_def)
  then show ?thesis
    using fee_queue_parse [OF assms(1,2,3)]
    by (auto simp: RemoveExpiredAllowances_def FeeAllowanceKey_ok assms(1,2) bindM_def thenM_def intro!: exI)
qed

end

text \<open>C33: Revoking a grant to an account leaves its pruning entry behind, because the entry is looked up
  under the key with granter and grantee swapped. When the granter grants again, the stale entry prunes
  the new grant although it has not expired.\<close>

theorem stale_entry_prunes_new_grant:
  assumes "prefix_laws cd" and "time_laws cd" and "address_laws cd"
    and "addr_ok granter" and "addr_ok grantee" and "granter \<noteq> grantee" and "HasAccount fk grantee (ext s)"
    and "fg_allowances s = []" and "fg_queue s = []"
    and "times_ok a1" and "expiry a1 = Some e1" and "times_ok a2" and "expiry a2 = Some e2"
    and "BlockTime c1 \<le> e1" and "BlockTime c2 \<le> e2"
    and "time_ok (BlockTime c3)" and "e1 < BlockTime c3" and "BlockTime c3 \<le> e2"
  shows "\<exists>t. thenM (GrantAllowance cd fk c1 granter grantee a1)
       (thenM (revokeAllowance cd granter grantee)
       (thenM (GrantAllowance cd fk c2 granter grantee a2)
              (RemoveExpiredAllowances cd c3 200))) s = (Inr (), t) \<and>
       GetAllowance cd granter grantee t = Inl SdkErrNotFound"
proof -
  note cs = codec_spec.intro [OF assms(1-3)]
  note G = codec_spec.Grant_run [OF cs assms(4,5)]
  have e: "time_ok e1" "time_ok e2" "e1 \<noteq> e2" using times_ok_expiry assms by auto
  have ne: "FeeAllowancePrefixQueue cd e1 (pair_bytes granter grantee) \<noteq> FeeAllowancePrefixQueue cd e1 (pair_bytes grantee granter)"
    using codec_spec.fee_queue_inj [OF cs] codec_spec.pair_bytes_inj [OF cs] assms(4-6) e by blast
  let ?g = "\<lambda>a. \<lparr>Granter = AccString cd granter, Grantee = AccString cd grantee, Allowance = AnyValue a\<rparr>"
  let ?k = "CHR 0x00 # pair_bytes granter grantee"
  let ?q = "\<lambda>e. FeeAllowancePrefixQueue cd e (pair_bytes granter grantee)"
  have 1: "\<exists>ev. GrantAllowance cd fk c1 granter grantee a1 s =
      (Inr (), s\<lparr>fg_queue := [(?q e1, ())], fg_allowances := [(?k, ?g a1)], events := ev\<rparr>)"
    using G [OF assms(7) _ assms(10,11,14)] assms(8,9) by (auto intro!: exI)
  have 2: "\<exists>ev'. revokeAllowance cd granter grantee (s\<lparr>fg_queue := [(?q e1, ())], fg_allowances := [(?k, ?g a1)], events := ev\<rparr>) =
      (Inr (), s\<lparr>fg_allowances := [], fg_queue := [(?q e1, ())], events := ev'\<rparr>)" for ev
    using codec_spec.revoke_run [OF cs assms(4,5) _ _ assms(10,11), of "s\<lparr>fg_queue := [(?q e1, ())], fg_allowances := [(?k, ?g a1)], events := ev\<rparr>" "?g a1"]
      ne by (auto simp: kv_del_def intro!: exI)
  have 3: "\<exists>ev'. GrantAllowance cd fk c2 granter grantee a2 (s\<lparr>fg_allowances := [], fg_queue := [(?q e1, ())], events := ev\<rparr>) =
      (Inr (), s\<lparr>fg_queue := kv_set (?q e2) () [(?q e1, ())], fg_allowances := [(?k, ?g a2)], events := ev'\<rparr>)" for ev
    using G [OF _ _ assms(12,13,15), of fk "s\<lparr>fg_allowances := [], fg_queue := [(?q e1, ())], events := ev\<rparr>"] assms(7) by (auto intro!: exI)
  have 4: "\<exists>u. RemoveExpiredAllowances cd c3 200
      (s\<lparr>fg_queue := kv_set (?q e2) () [(?q e1, ())], fg_allowances := [(?k, ?g a2)], events := ev\<rparr>) = (Inr (), u) \<and>
      fg_allowances u = []" for ev
    using codec_spec.prune_one [OF cs assms(4,5) e assms(16-18),
        of "s\<lparr>fg_queue := kv_set (?q e2) () [(?q e1, ())], fg_allowances := [(?k, ?g a2)], events := ev\<rparr>"]
    by (auto simp: kv_del_def simp del: kv_set.simps)
  obtain u where u: "thenM (GrantAllowance cd fk c1 granter grantee a1)
       (thenM (revokeAllowance cd granter grantee)
       (thenM (GrantAllowance cd fk c2 granter grantee a2)
              (RemoveExpiredAllowances cd c3 200))) s = (Inr (), u)" "fg_allowances u = []"
  proof -
    obtain ev1 where r1: "GrantAllowance cd fk c1 granter grantee a1 s =
      (Inr (), s\<lparr>fg_queue := [(?q e1, ())], fg_allowances := [(?k, ?g a1)], events := ev1\<rparr>)" using 1 by blast
    obtain ev2 where r2: "revokeAllowance cd granter grantee (s\<lparr>fg_queue := [(?q e1, ())], fg_allowances := [(?k, ?g a1)], events := ev1\<rparr>) =
      (Inr (), s\<lparr>fg_allowances := [], fg_queue := [(?q e1, ())], events := ev2\<rparr>)" using 2 by blast
    obtain ev3 where r3: "GrantAllowance cd fk c2 granter grantee a2 (s\<lparr>fg_allowances := [], fg_queue := [(?q e1, ())], events := ev2\<rparr>) =
      (Inr (), s\<lparr>fg_queue := kv_set (?q e2) () [(?q e1, ())], fg_allowances := [(?k, ?g a2)], events := ev3\<rparr>)"
      using 3 by blast
    show thesis using 4 [of ev3] that unfolding thenM_def bindM_def r1 r2 r3 prod.case sum.case by blast
  qed
  then show ?thesis
    by (auto simp: GetAllowance_def getGrant_def codec_spec.FeeAllowanceKey_ok [OF cs assms(4,5)])
qed

theorem stale_entry_prunes_new_grant_witness:
  "\<exists>t. thenM (GrantAllowance std_codec demo_fk (demo_ctx 0) ''g'' ''e'' (demo_basic None (Some 10)))
       (thenM (revokeAllowance std_codec ''g'' ''e'')
       (thenM (GrantAllowance std_codec demo_fk (demo_ctx 1) ''g'' ''e'' (demo_basic None (Some 100)))
              (RemoveExpiredAllowances std_codec (demo_ctx 50) 200))) demo_fg = (Inr (), t) \<and>
       GetAllowance std_codec ''g'' ''e'' t = Inl SdkErrNotFound"
  by (rule stale_entry_prunes_new_grant [OF std_prefix_laws std_time_laws std_address_laws, where ?e1.0 = 10 and ?e2.0 = 100])
    (simp_all add: addr_ok_def demo_fk_def demo_fg_def demo_basic_def demo_ctx_def expiry_def Basic_ExpiresAt_def
      time_ok_def zero_time_def max_time_def)

text \<open>The DID queue stays consistent: from a consistent state, every sequence of transactions,
  fee deductions and end blocks of the module leads to a state in which the queue holds exactly one
  entry for every DID grant that expires, and nothing else.\<close>

theorem did_queue_consistent:
  assumes "prefix_laws cd" and "time_laws cd" and "address_laws cd"
    and "(fg_step cd co fk)\<^sup>*\<^sup>* s t" and "did_queue_inv cd s"
  shows "did_queue_inv cd t"
  using assms(4,5)
proof (induction rule: rtranclp_induct)
  case base
  then show ?case by simp
next
  case (step y z)
  then show ?case using codec_spec.fg_step_inv [OF codec_spec.intro [OF assms(1-3)]] by blast
qed

definition demo_did_msg :: MsgGrantDIDAllowance where
  "demo_did_msg =
     \<lparr>mgd_Granter = ''accg'', mgd_GranteeDid = ''did:x'', mgd_Allowance = AnyValue (demo_basic None (Some 10))\<rparr>"

theorem did_queue_consistent_witness:
  "\<exists>t. fg_step std_codec std_coins demo_fk demo_fg t \<and> did_queue_inv std_codec t"
proof -
  obtain r t where run: "cacheCtx (Msg_GrantDIDAllowance std_codec std_coins (demo_ctx 0) demo_did_msg) demo_fg = (r, t)"
    by (cases "cacheCtx (Msg_GrantDIDAllowance std_codec std_coins (demo_ctx 0) demo_did_msg) demo_fg")
  have "fg_step std_codec std_coins demo_fk demo_fg t"
    by (rule fg_step.grant_did [OF _ _ run])
      (auto simp: demo_did_msg_def MsgGrantDIDAllowance_ValidateBasic_def bad_did_def GetCachedAllowance_def
        demo_basic_def Basic_ValidateBasic_def time_ok_def zero_time_def max_time_def)
  moreover have "did_queue_inv std_codec demo_fg" by (simp add: did_queue_inv_def demo_fg_def)
  ultimately show ?thesis
    using did_queue_consistent [OF std_prefix_laws std_time_laws std_address_laws r_into_rtranclp] by blast
qed

text \<open>C28: Pruning the DID grants succeeds and is exact: only grants that expired before the block time
  are removed, no other grant changes, and all expired ones go when they are at most \<open>limit\<close> many.\<close>

theorem did_prune_exact:
  assumes "prefix_laws cd" and "time_laws cd" and "address_laws cd"
    and "did_queue_inv cd s" and "time_ok (BlockTime ctx)" and "0 < limit"
  shows "\<exists>t. RemoveExpiredDIDAllowances cd ctx limit s = (Inr (), t) \<and> did_queue_inv cd t \<and>
    (\<forall>k g. kv_get (fg_did_allowances t) k = Some g \<longrightarrow> kv_get (fg_did_allowances s) k = Some g) \<and>
    (\<forall>k g. kv_get (fg_did_allowances s) k = Some g \<longrightarrow> kv_get (fg_did_allowances t) k = None \<longrightarrow>
       expired_at ctx (grant_expiry g)) \<and>
    (int (card {k. \<exists>g. kv_get (fg_did_allowances s) k = Some g \<and> expired_at ctx (grant_expiry g)}) \<le> limit \<longrightarrow>
       (\<forall>k g. kv_get (fg_did_allowances t) k = Some g \<longrightarrow> \<not> expired_at ctx (grant_expiry g)))"
  using assms(4-6) by (rule codec_spec.prune_exact [OF codec_spec.intro [OF assms(1-3)]])

text \<open>One grant that expires at 20 and one that expires at 100; at 50 the first is pruned and the second stays.\<close>

definition demo_expiring :: "time \<Rightarrow> FeeAllowance" where
  "demo_expiring e = FBasic \<lparr>SpendLimit = None, Expiration = Some e\<rparr>"

definition demo_did_key :: "string \<Rightarrow> bytes" where
  "demo_did_key did = CHR 0x02 # pair_bytes ''al'' did"

definition demo_did_grant :: "string \<Rightarrow> time \<Rightarrow> DIDGrant" where
  "demo_did_grant did e = \<lparr>DIDGranter = ''accal'', GranteeDid = did, DIDAllowance = AnyValue (demo_expiring e)\<rparr>"

definition demo_two_grants :: "unit feegrant_state" where
  "demo_two_grants = snd (thenM (GrantDIDAllowance std_codec (demo_ctx 0) ''al'' ''did:x'' (demo_expiring 20))
     (GrantDIDAllowance std_codec (demo_ctx 0) ''al'' ''did:y'' (demo_expiring 100)) demo_fg)"

lemma demo_expiring_facts:
  "expiry (demo_expiring e) = Some e" "grant_expiry (demo_did_grant did e) = Some e"
  "time_ok e \<Longrightarrow> times_ok (demo_expiring e)" "time_ok 20" "time_ok 100" "time_ok 50"
  by (simp_all add: demo_expiring_def demo_did_grant_def grant_expiry_def expiry_def Basic_ExpiresAt_def time_ok_def
      zero_time_def max_time_def)

lemma demo_grant_did:
  assumes "did \<in> {''did:x'', ''did:y''}" and "time_ok e" and "0 \<le> e" and "kv_get (fg_did_allowances s) (demo_did_key did) = None"
  shows "\<exists>t. GrantDIDAllowance std_codec (demo_ctx 0) ''al'' did (demo_expiring e) s = (Inr (), t) \<and>
    fg_did_allowances t = kv_set (demo_did_key did) (demo_did_grant did e) (fg_did_allowances s) \<and>
    (did_queue_inv std_codec s \<longrightarrow> did_queue_inv std_codec t)"
proof -
  have k: "FeeAllowanceByDIDKey std_codec ''al'' did = Inr (demo_did_key did)" and g:
    "NewDIDGrant std_codec ''al'' did (demo_expiring e) = Inr (demo_did_grant did e)"
    using assms(1,2) by (auto simp: FeeAllowanceByDIDKey_def FeeAllowancePrefixByDID_def std_codec_def demo_did_key_def
        pair_bytes_def DIDFeeAllowanceKeyPrefix_def NewDIDGrant_def NewAnyWithValue_def demo_expiring_def demo_did_grant_def marshal_basic_def)
  have ok: "times_ok (demo_expiring e)" "addr_ok ''al''" "did \<noteq> []"
    using demo_expiring_facts(3) assms(1,2) by (auto simp: addr_ok_def)
  have "\<not> expired_at (demo_ctx 0) (expiry (demo_expiring e))"
    using assms(3) by (simp add: demo_expiring_facts(1) expired_at_def demo_ctx_def)
  from std_cd.GrantDID_run [OF k assms(4) ok(1) this g] obtain t where
    t: "GrantDIDAllowance std_codec (demo_ctx 0) ''al'' did (demo_expiring e) s = (Inr (), t)"
      "fg_did_allowances t = kv_set (demo_did_key did) (demo_did_grant did e) (fg_did_allowances s)" by simp
  then show ?thesis using keepsD_Inr [OF std_cd.GrantDID_keeps [OF ok(2,3,1)] _ t(1)] by blast
qed

lemma demo_two_grants_facts:
  "fg_did_allowances demo_two_grants =
     [(demo_did_key ''did:x'', demo_did_grant ''did:x'' 20), (demo_did_key ''did:y'', demo_did_grant ''did:y'' 100)]"
  "did_queue_inv std_codec demo_two_grants"
proof -
  have 0: "did_queue_inv std_codec demo_fg" "fg_did_allowances demo_fg = []" by (simp_all add: did_queue_inv_def demo_fg_def)
  obtain t where t: "GrantDIDAllowance std_codec (demo_ctx 0) ''al'' ''did:x'' (demo_expiring 20) demo_fg = (Inr (), t)"
    "fg_did_allowances t = [(demo_did_key ''did:x'', demo_did_grant ''did:x'' 20)]" "did_queue_inv std_codec t"
    using demo_grant_did [of "''did:x''" 20 demo_fg] 0 demo_expiring_facts by auto
  obtain u where u: "GrantDIDAllowance std_codec (demo_ctx 0) ''al'' ''did:y'' (demo_expiring 100) t = (Inr (), u)"
    "fg_did_allowances u = kv_set (demo_did_key ''did:y'') (demo_did_grant ''did:y'' 100) (fg_did_allowances t)"
    "did_queue_inv std_codec u"
    using demo_grant_did [of "''did:y''" 100 t] t demo_expiring_facts by (auto simp: demo_did_key_def pair_bytes_def)
  have "demo_two_grants = u" using t u by (simp add: demo_two_grants_def m_step)
  then show "did_queue_inv std_codec demo_two_grants" "fg_did_allowances demo_two_grants =
     [(demo_did_key ''did:x'', demo_did_grant ''did:x'' 20), (demo_did_key ''did:y'', demo_did_grant ''did:y'' 100)]"
    using u t(2) by (simp_all add: demo_did_key_def pair_bytes_def less_char_def)
qed

theorem did_prune_exact_witness:
  "\<exists>t. RemoveExpiredDIDAllowances std_codec (demo_ctx 50) 200 demo_two_grants = (Inr (), t) \<and>
     kv_get (fg_did_allowances demo_two_grants) (demo_did_key ''did:x'') = Some (demo_did_grant ''did:x'' 20) \<and>
     kv_get (fg_did_allowances t) (demo_did_key ''did:x'') = None \<and>
     kv_get (fg_did_allowances t) (demo_did_key ''did:y'') = Some (demo_did_grant ''did:y'' 100)"
proof -
  let ?x = "demo_did_key ''did:x''" and ?y = "demo_did_key ''did:y''"
  have g: "kv_get (fg_did_allowances demo_two_grants) k =
      (if k = ?x then Some (demo_did_grant ''did:x'' 20) else if k = ?y then Some (demo_did_grant ''did:y'' 100) else None)" for k
    by (simp add: demo_two_grants_facts(1))
  have xy: "?x \<noteq> ?y" by (simp add: demo_did_key_def pair_bytes_def)
  have e: "expired_at (demo_ctx 50) (grant_expiry (demo_did_grant ''did:x'' 20))"
    "\<not> expired_at (demo_ctx 50) (grant_expiry (demo_did_grant ''did:y'' 100))"
    by (simp_all add: demo_expiring_facts expired_at_def demo_ctx_def)
  let ?E = "{k. \<exists>g. kv_get (fg_did_allowances demo_two_grants) k = Some g \<and> expired_at (demo_ctx 50) (grant_expiry g)}"
  have "k = ?x" if "kv_get (fg_did_allowances demo_two_grants) k = Some h" "expired_at (demo_ctx 50) (grant_expiry h)" for k h
    using that(2) e(2) that(1) [unfolded g] by (metis option.distinct(1) option.inject)
  then have "?E \<subseteq> {?x}" by blast
  from card_mono [OF _ this] have "int (card ?E) \<le> 200" by simp
  then obtain t where t: "RemoveExpiredDIDAllowances std_codec (demo_ctx 50) 200 demo_two_grants = (Inr (), t)"
    "\<forall>k g. kv_get (fg_did_allowances t) k = Some g \<longrightarrow> kv_get (fg_did_allowances demo_two_grants) k = Some g"
    "\<forall>k g. kv_get (fg_did_allowances demo_two_grants) k = Some g \<longrightarrow> kv_get (fg_did_allowances t) k = None \<longrightarrow>
       expired_at (demo_ctx 50) (grant_expiry g)"
    "\<forall>k g. kv_get (fg_did_allowances t) k = Some g \<longrightarrow> \<not> expired_at (demo_ctx 50) (grant_expiry g)"
    using did_prune_exact [OF std_prefix_laws std_time_laws std_address_laws demo_two_grants_facts(2), of "demo_ctx 50" 200]
      demo_expiring_facts(6) by (auto simp: demo_ctx_def)
  have "kv_get (fg_did_allowances t) ?x = None" using t(2,4) e(1) g [of ?x] by (metis option.exhaust option.inject)
  moreover have "kv_get (fg_did_allowances t) ?y = Some (demo_did_grant ''did:y'' 100)"
    using t(2,3) e(2) g [of ?y] xy by (metis option.exhaust)
  ultimately show ?thesis using t(1) g [of ?x] by auto
qed

text \<open>\<open>ExpireDIDAllowance\<close> may prolong an allowance: a periodic allowance that expires before its
  period ends is moved to the end of the period.\<close>

theorem expire_may_prolong:
  assumes "expiry (FPeriodic a) = Some e" and "e < PeriodReset a"
  shows "\<exists>a'. expire_allowance ctx (FPeriodic a) = Inr (PeriodReset a, a') \<and> expiry a' = Some (PeriodReset a) \<and> e < PeriodReset a"
  using assms by (simp add: expire_allowance_def expiry_def Periodic_ExpiresAt_def Basic_ExpiresAt_def Let_def)

theorem expire_may_prolong_witness:
  "\<exists>a'. expire_allowance (demo_ctx 0) (FPeriodic ((demo_periodic None [(''uopen'', 5)] [(''uopen'', 5)] 50)
       \<lparr>Basic := \<lparr>SpendLimit = None, Expiration = Some 20\<rparr>\<rparr>)) = Inr (50, a') \<and> expiry a' = Some 50"
  using expire_may_prolong [of "(demo_periodic None [(''uopen'', 5)] [(''uopen'', 5)] 50)
       \<lparr>Basic := \<lparr>SpendLimit = None, Expiration = Some 20\<rparr>\<rparr>" 20 "demo_ctx 0"]
  by (simp add: demo_periodic_def expiry_def Periodic_ExpiresAt_def Basic_ExpiresAt_def)

end
