(* ===== verification/Tier_Stake.thy ===== *)
theory Tier_Stake
  imports Tier_Blocks Feegrant_Props
begin

text \<open>
  What the staking half of the module keeps. \<open>stake_invariant\<close> is the contract of a predicate on the
  state that the few writers of lockups keep; every method, hook and block of the module that moves
  stake keeps such a predicate. It is interpreted on the total of the lockups and on frames.

  The slashing handlers multiply every lockup by a rate they compute from the stake that is left after the
  slash, and the rate is negative when the slash took more than is left. A predicate may be kept for some
  rates only: \<open>rate_ok\<close> are these rates, and \<open>slashes_ok\<close> says that the events of a block have such rates.
\<close>

declare keeps_extM [keeps_rules del]

lemma quo_mult: "0 < b \<Longrightarrow> quo (a * b) b = a"
  by (simp add: quo_def abs_mult sgn_mult mult_sgn_abs)

lemma DecQuo_nonneg:
  assumes "dec_laws dc" and "0 \<le> a" and "0 < b"
  shows "0 \<le> DecQuo dc a b"
proof -
  have "\<bar>DecQuo dc a b * b - a * dec_one\<bar> < b" using dec_lawsD(2) [OF assms(1), of b a] assms(3) by simp
  moreover have "0 \<le> a * dec_one" using assms(2) by (simp add: dec_one_def)
  ultimately have "(- 1) * b < DecQuo dc a b * b" by linarith
  then have "- 1 < DecQuo dc a b" using assms(3) by (simp only: mult_less_cancel_right_pos)
  then show ?thesis by simp
qed

definition slash_rate :: "('x, 'v) Keeper \<Rightarrow> event \<Rightarrow> dec \<Rightarrow> dec \<Rightarrow> dec" where
  "slash_rate K ev stake slashed =
     (let dc = decOps K in
      if attr ''reason'' ev = ''double_sign'' then DecQuo dc (stake - slashed) stake
      else DecQuo dc (stake - DecTruncateInt dc (DecCeil dc slashed) * dec_one) stake)"

text \<open>The rate is not negative when the slash, in whole tokens, is at most the stake that is left.\<close>

lemma slash_rate_nonneg:
  assumes "dec_laws (decOps K)" and "0 < stake" and le: "- ((- slashed) div dec_one) * dec_one \<le> stake"
  shows "0 \<le> slash_rate K ev stake slashed"
proof -
  have "0 < dec_one" by (simp add: dec_one_def)
  then have "- slashed div dec_one * dec_one \<le> - slashed" by (simp add: minus_mod_eq_div_mult [symmetric])
  then have "slashed \<le> stake" using le by linarith
  moreover have "DecTruncateInt (decOps K) (DecCeil (decOps K) slashed) * dec_one = - ((- slashed) div dec_one) * dec_one"
    by (simp only: dec_lawsD(3,4) [OF assms(1)] quo_mult [OF \<open>0 < dec_one\<close>])
  ultimately show ?thesis
    using DecQuo_nonneg [OF assms(1)] assms(2) le by (simp add: slash_rate_def Let_def)
qed

definition slash_ok :: "(dec \<Rightarrow> bool) \<Rightarrow> ('x, 'v) Keeper \<Rightarrow> event \<Rightarrow> 'x \<Rightarrow> bool" where
  "slash_ok rate_ok K ev x \<longleftrightarrow>
     fst ev \<noteq> ''slash'' \<or>
     (case tier_stake K (attr ''address'' ev) (attr ''burned'' ev) x of
        Inl _ \<Rightarrow> True
      | Inr (_, _, stake, slashed) \<Rightarrow> rate_ok (slash_rate K ev stake slashed))"

fun slashes_ok :: "(dec \<Rightarrow> bool) \<Rightarrow> ('x, 'v) Keeper \<Rightarrow> event list \<Rightarrow> ('x, 'z) tier_state_scheme \<Rightarrow> bool" where
  "slashes_ok rate_ok K [] s = True"
| "slashes_ok rate_ok K (ev # evs) s =
     (slash_ok rate_ok K ev (ext s) \<and>
      (case handle_slash K ev s of (Inr _, t) \<Rightarrow> slashes_ok rate_ok K evs t | (Inl _, t) \<Rightarrow> True))"

lemma slashes_ok_any [simp]: "slashes_ok (\<lambda>_. True) K evs s"
  by (induction evs arbitrary: s) (auto simp: slash_ok_def split: sum.splits prod.splits)

text \<open>What a slashing handler does once it has read the stake of the module.\<close>

definition slash_tail :: "('x, 'v) Keeper \<Rightarrow> event \<Rightarrow> addr \<Rightarrow> 'v \<Rightarrow> dec \<Rightarrow> dec \<Rightarrow> ('x, 'z, unit) TM" where
  "slash_tail K ev valAddr validator stake slashed =
     (let dc = decOps K; n = DecTruncateInt dc (DecCeil dc slashed) in
      if attr ''reason'' ev = ''double_sign'' then
        (if slashed = 0 then fail (ErrStd ''Tier module slashed amount is zero'')
         else adjustLockups K valAddr (slash_rate K ev stake slashed) 0)
      else if n = 0 then fail (ErrStd ''Tier module slashed amount is zero'')
      else
        bindM (getM (\<lambda>s. GetBalance K (ModuleAddress K InsurancePoolName) DefaultBondDenom (ext s))) (\<lambda>balance.
        let covered = (if balance < n then balance else n) in
        thenM (extM (Delegate K (ModuleAddress K InsurancePoolName) covered Unbonded validator True))
        (adjustLockups K valAddr (slash_rate K ev stake slashed) (DecQuo dc (covered * dec_one) stake))))"

lemma slash_tail_run:
  assumes "tier_stake K (attr ''address'' ev) (attr ''burned'' ev) (ext s) = Inr (valAddr, val, stake, slashed)"
  shows "slash_tail K ev valAddr val stake slashed s =
    (if attr ''reason'' ev = ''double_sign'' then handleDoubleSign K (attr ''address'' ev) (attr ''burned'' ev)
     else handleMissingSignature K (attr ''address'' ev) (attr ''burned'' ev)) s"
proof -
  have "bindM (extR (tier_stake K (attr ''address'' ev) (attr ''burned'' ev))) f s = f (valAddr, val, stake, slashed) s"
    for f :: "_ \<Rightarrow> (_, unit) M" using assms by (simp add: bindM_step)
  then show ?thesis by (simp add: slash_tail_def slash_rate_def handleDoubleSign_def handleMissingSignature_def Let_def)
qed

locale stake_invariant =
  fixes K :: "('x, 'v) Keeper" and P :: "('x, 'z) tier_state_scheme \<Rightarrow> bool" and rate_ok :: "dec \<Rightarrow> bool"
  assumes indep: "indep_ext P" "indep_credits P" "indep_unlockings P"
    and add_lockup: "0 < a \<Longrightarrow> keeps P (AddLockup K d v a)"
    and subtract_lockup: "0 < a \<Longrightarrow> keeps P (subtractLockup K d v a)"
    and add_insurance: "0 < a \<Longrightarrow> keeps P (AddInsuranceLockup K d v a)"
    and remove_insurance: "keeps P (removeInsuranceLockup d v)"
    and adjust: "rate_ok r \<Longrightarrow> keeps P (adjustLockup K d v r c)"
begin

lemmas stake_rules = keeps_rules frame_setTotalCredit frame_unlockings frame_subtractUnlocking
  frame_burnAllCredits frame_resetAllCredits indep

lemma Lock_keeps: "keeps P (Lock K ctx d v a)"
  unfolding Lock_def by (intro stake_rules add_lockup) simp

lemma LockAuto_keeps: "keeps P (LockAuto K ctx d a)"
  unfolding LockAuto_def selectValidatorFromExistingLockups_def selectValidatorWithSmallestDelegation_def
  by (intro stake_rules Lock_keeps)

lemma Unlock_keeps: "keeps P (Unlock K ctx d v a)"
  unfolding Unlock_def by (intro stake_rules subtract_lockup remove_insurance) simp

lemma Redelegate_keeps: "keeps P (Redelegate K ctx d v w a)"
  unfolding Redelegate_def
  by (intro stake_rules subtract_lockup add_lockup remove_insurance add_insurance) simp_all

lemma CancelUnlocking_keeps: "keeps P (CancelUnlocking K ctx d v h a)"
  unfolding CancelUnlocking_def by (intro stake_rules add_lockup) simp

lemma CompleteUnlocking_keeps: "keeps P (CompleteUnlocking K ctx)"
  unfolding CompleteUnlocking_def iterateUnlockingLockups_def complete_one_def
  by (auto intro!: stake_rules)

lemma lock_chosen_keeps: "keeps P (lock_chosen K ctx d a)"
  unfolding lock_chosen_def choose_validator_def largest_lockup_def
  by (auto intro!: stake_rules Lock_keeps split: list.splits)

lemma addLockup_keeps: "keeps P (addLockupForRegistration K ctx d a)"
  unfolding addLockupForRegistration_def Let_def by (intro stake_rules lock_chosen_keeps)

lemma checkDeveloperCredits_keeps: "keeps P (checkDeveloperCredits K ctx)"
  unfolding checkDeveloperCredits_def mustIterateUserSubscriptions_def check_developer_def
    autoLockDeveloperCredits_def Let_def
  by (auto intro!: stake_rules lock_chosen_keeps)

lemma processRewards_keeps: "keeps P (processRewards K ctx)"
  unfolding processRewards_def claim_rewards_def send_to_pool_def by (auto intro!: stake_rules)

lemma hooks_keep:
  "keeps P (Tier_BeforeEpochStart K ctx i n)" "keeps P (Tier_AfterEpochEnd K ctx i n)"
  unfolding Tier_BeforeEpochStart_def Tier_AfterEpochEnd_def
  by (intro stake_rules checkDeveloperCredits_keeps CompleteUnlocking_keeps)+

lemma adjustLockups_keeps: "rate_ok r \<Longrightarrow> keeps P (adjustLockups K v r c)"
  unfolding adjustLockups_def by (auto intro!: keeps_rules adjust)

lemma slash_tail_keeps:
  "rate_ok (slash_rate K ev stake slashed) \<Longrightarrow> keeps P (slash_tail K ev valAddr val stake slashed)"
  unfolding slash_tail_def Let_def by (auto intro!: stake_rules adjustLockups_keeps)

lemma handle_slash_keeps:
  assumes "slash_ok rate_ok K ev (ext s)" and "P s" and "handle_slash K ev s = (Inr (), t)"
  shows "P t"
proof (cases "fst ev = ''slash''")
  case False
  then show ?thesis using assms(2,3) by (simp add: handle_slash_def)
next
  case True
  let ?a = "attr ''address'' ev" and ?b = "attr ''burned'' ev"
  let ?m = "if attr ''reason'' ev = ''double_sign'' then handleDoubleSign K ?a ?b else handleMissingSignature K ?a ?b"
  obtain r where run: "?m s = (r, t)" and np: "\<forall>e. r = Inl e \<longrightarrow> \<not> is_panic e"
    using assms(3) True by (auto simp: handle_slash_def bindM_def tryM_def split: prod.splits sum.splits if_splits)
  show ?thesis
  proof (cases "tier_stake K ?a ?b (ext s)")
    case (Inl e)
    then show ?thesis using run assms(2)
      by (auto simp: handleDoubleSign_def handleMissingSignature_def bindM_def split: if_splits)
  next
    case (Inr q)
    then obtain valAddr val stake slashed where q: "tier_stake K ?a ?b (ext s) = Inr (valAddr, val, stake, slashed)"
      by (cases q) auto
    note ok = assms(1) [unfolded slash_ok_def q] True
    have "keeps P (slash_tail K ev valAddr val stake slashed)"
      using ok by (intro slash_tail_keeps) simp
    moreover have "slash_tail K ev valAddr val stake slashed s = (r, t)"
      using run slash_tail_run [OF q] by simp
    ultimately show ?thesis using assms(2) np by (blast dest: keepsD)
  qed
qed

lemma handle_slashes_keep:
  "P s \<Longrightarrow> slashes_ok rate_ok K evs s \<Longrightarrow> forM evs (handle_slash K) s = (Inr (), t) \<Longrightarrow> P t"
proof (induction evs arbitrary: s)
  case Nil
  then show ?case by (simp add: forM_def)
next
  case (Cons ev evs)
  then obtain u where u: "handle_slash K ev s = (Inr (), u)" "forM evs (handle_slash K) u = (Inr (), t)"
    by (auto simp: forM_def bindM_Inr_iff)
  then have "P u" using handle_slash_keeps [of ev s u] Cons.prems by simp
  then show ?case using Cons.IH Cons.prems(2) u by auto
qed

lemma BeginBlocker_keeps:
  assumes "P s" and "slashes_ok rate_ok K (events s) s" and "Tier_BeginBlocker K ctx s = (Inr (), t)"
  shows "P t"
proof -
  obtain u where "forM (events s) (handle_slash K) s = (Inr (), u)"
    and "bindM (tryM (processRewards K ctx)) (\<lambda>_. ret ()) u = (Inr (), t)"
    using assms(3) by (auto simp: Tier_BeginBlocker_def handleSlashingEvents_def thenM_Inr_iff)
  moreover have "keeps P (bindM (tryM (processRewards K ctx)) (\<lambda>_. ret ()))"
    by (intro keeps_rules processRewards_keeps)
  ultimately show ?thesis using handle_slashes_keep [OF assms(1,2)] by (auto dest: keepsD_Inr)
qed

end

end
