(* ===== verification/Tier_System.thy ===== *)
theory Tier_System
  imports Tier_Stake
begin

text \<open>
  The modules together: \<open>tier_step\<close> is one transaction, fee deduction, begin block or end block of the
  epochs, feegrant and tier modules, or any change that other modules make to the external state.
  Transactions run in a cached context and their messages have passed \<open>ValidateBasic\<close>.

  \<open>tier_invariant\<close> extends \<open>stake_invariant\<close> by the operations on subscriptions, the steps of the
  feegrant module and the epoch timers: a predicate with this contract holds in every state that is
  reached by the steps of \<open>tier_step_if\<close> for its \<open>rate_ok\<close> and \<open>dev_ok\<close>.
\<close>

section \<open>Frames of the other modules\<close>

definition indep_subs :: "(('x, 'z) tier_state_scheme \<Rightarrow> bool) \<Rightarrow> bool" where
  "indep_subs P \<longleftrightarrow>
     (\<forall>s u d g. P (s\<lparr>user_subs := u\<rparr>) = P s \<and> P (s\<lparr>developers := d\<rparr>) = P s \<and> P (s\<lparr>dev_granted := g\<rparr>) = P s)"

definition indep_did :: "(('x, 'z) tier_state_scheme \<Rightarrow> bool) \<Rightarrow> bool" where
  "indep_did P \<longleftrightarrow> (\<forall>s a q. P (s\<lparr>fg_did_allowances := a\<rparr>) = P s \<and> P (s\<lparr>fg_did_queue := q\<rparr>) = P s)"

definition indep_fee :: "(('x, 'z) tier_state_scheme \<Rightarrow> bool) \<Rightarrow> bool" where
  "indep_fee P \<longleftrightarrow> (\<forall>s a q. P (s\<lparr>fg_allowances := a\<rparr>) = P s \<and> P (s\<lparr>fg_queue := q\<rparr>) = P s)"

definition indep_epochs :: "(('x, 'z) tier_state_scheme \<Rightarrow> bool) \<Rightarrow> bool" where
  "indep_epochs P \<longleftrightarrow> (\<forall>s e. P (s\<lparr>epoch_store := e\<rparr>) = P s)"

definition indep_params :: "(('x, 'z) tier_state_scheme \<Rightarrow> bool) \<Rightarrow> bool" where
  "indep_params P \<longleftrightarrow> (\<forall>s p. P (s\<lparr>tier_params := p\<rparr>) = P s)"

lemmas indep_defs = indep_ext_def indep_lockups_def indep_unlockings_def indep_credits_def indep_subs_def
  indep_did_def indep_fee_def indep_epochs_def indep_params_def

lemma frame_did [frame_rules]:
  assumes "indep_ext P" and "indep_did P"
  shows "keeps P (UpdateDIDAllowance cd g d a)" and "keeps P (GrantDIDAllowance cd ctx g d a)"
    and "keeps P (revokeDIDAllowance cd g d)"
  using assms
  by (auto simp: UpdateDIDAllowance_def GrantDIDAllowance_def revokeDIDAllowance_def addToDIDFeeAllowanceQueue_def
      delDIDQueue_def setDIDGrant_def delDIDGrant_def indep_did_def intro!: keeps_rules keeps_modifyM)

lemma frame_did_ops [frame_rules]:
  assumes "indep_ext P" and "indep_did P"
  shows "keeps P (ExpireDIDAllowance cd ctx g d)" and "keeps P (UseGrantedFeesByDID cd co ctx g d fee msgs)"
    and "keeps P (use_first cd co ctx d fee msgs gs)" and "keeps P (prune_did cd limit n ks)"
proof -
  note r = assms keeps_rules frame_did
  show "keeps P (ExpireDIDAllowance cd ctx g d)" unfolding ExpireDIDAllowance_def by (intro r)
  show "keeps P (UseGrantedFeesByDID cd co ctx g d fee msgs)" unfolding UseGrantedFeesByDID_def Let_def by (intro r)
  show "keeps P (use_first cd co ctx d fee msgs gs)"
    by (induction gs) (auto simp: Let_def intro!: r)
  show "keeps P (prune_did cd limit n ks)"
    using assms by (induction ks arbitrary: n)
      (auto simp: delDIDGrant_def indep_did_def intro!: keeps_rules keeps_modifyM)
qed

lemma frame_fee [frame_rules]:
  assumes "indep_ext P" and "indep_fee P"
  shows "keeps P (GrantAllowance cd fk ctx granter grantee a)" and "keeps P (UpdateAllowance cd granter grantee a)"
    and "keeps P (revokeAllowance cd granter grantee)" and "keeps P (prune_fee cd limit n ks)"
proof -
  note d = GrantAllowance_def UpdateAllowance_def revokeAllowance_def addToFeeAllowanceQueue_def indep_fee_def
  show "keeps P (GrantAllowance cd fk ctx granter grantee a)" and "keeps P (UpdateAllowance cd granter grantee a)"
    and "keeps P (revokeAllowance cd granter grantee)"
    using assms by (auto simp: d intro!: keeps_rules keeps_modifyM)
  show "keeps P (prune_fee cd limit n ks)"
    using assms by (induction ks arbitrary: n) (auto simp: indep_fee_def intro!: keeps_rules keeps_modifyM)
qed

lemmas fg_msg_defs = Msg_GrantAllowance_def Msg_RevokeAllowance_def Msg_PruneAllowances_def UseGrantedFees_def
  Msg_GrantDIDAllowance_def Msg_ExpireDIDAllowance_def Msg_PruneDIDAllowances_def
  UseFirstAvailableDIDGrant_def RemoveExpiredAllowances_def RemoveExpiredDIDAllowances_def FG_EndBlocker_def

lemma fg_step_frame:
  assumes "fg_step cd co fk s t" and "P s" and ind: "indep_ext P" "indep_did P" "indep_fee P"
  shows "P t"
proof -
  note r = keeps_rules frame_did frame_did_ops frame_fee ind
  have use_did: "keeps P (UseGrantedFeesByDID cd co ctx g d fee msgs)" for ctx g d fee msgs by (intro r)
  have k: "keeps P (Msg_GrantAllowance cd co fk ctx msg)" "keeps P (Msg_RevokeAllowance cd granter grantee)"
      "keeps P (Msg_PruneAllowances cd ctx pruner)" "keeps P (UseGrantedFees cd co ctx ga gb fee msgs)"
      "keeps P (Msg_GrantDIDAllowance cd co ctx dmsg)" "keeps P (Msg_ExpireDIDAllowance cd ctx granter did)"
      "keeps P (Msg_PruneDIDAllowances cd ctx pruner)" "keeps P (UseFirstAvailableDIDGrant cd co ctx did fee msgs)"
      "keeps P (FG_EndBlocker cd ctx)"
    for ctx msg granter grantee pruner ga gb fee msgs dmsg did
    unfolding fg_msg_defs by (intro r; simp split: sum.splits; intro conjI allI impI r)+
  from assms(1) show ?thesis
    by cases (auto intro: cacheCtx_invariant [OF k(1) assms(2)] cacheCtx_invariant [OF k(2) assms(2)]
        cacheCtx_invariant [OF k(3) assms(2)] cacheCtx_invariant [OF k(4) assms(2)]
        cacheCtx_invariant [OF k(5) assms(2)] cacheCtx_invariant [OF k(6) assms(2)]
        cacheCtx_invariant [OF k(7) assms(2)] cacheCtx_invariant [OF k(8) assms(2)]
        cacheCtx_invariant [OF use_did assms(2)] keepsD_Inr [OF k(9) assms(2)])
qed

lemma frame_epochs:
  assumes "indep_ext P" and "indep_epochs P"
    and "\<And>h ctx i n. h \<in> set hooks \<Longrightarrow> keeps P (AfterEpochEnd h ctx i n) \<and> keeps P (BeforeEpochStart h ctx i n)"
  shows "keeps P (Epochs_BeginBlocker hooks ctx)"
proof -
  have h: "keeps P (Keeper_AfterEpochEnd hooks c i n)" "keeps P (Keeper_BeforeEpochStart hooks c i n)" for c i n
    unfolding Keeper_AfterEpochEnd_def Keeper_BeforeEpochStart_def Multi_AfterEpochEnd_def
      Multi_BeforeEpochStart_def panicCatchingEpochHook_def
    using assms(3) by (auto intro!: keeps_rules)
  have s: "keeps P (SetEpochInfo e)" for e
    unfolding SetEpochInfo_def using assms(2) by (auto simp: indep_epochs_def intro!: keeps_modifyM)
  have b: "keeps P (begin_block_epoch hooks ctx e)" for e
    unfolding begin_block_epoch_def Let_def by (intro keeps_rules h s assms(1))
  have "keeps P (iter_epochs (\<lambda>i e. begin_block_epoch hooks ctx e) i ps)" for i ps
    by (induction ps arbitrary: i) (auto intro!: keeps_rules b)
  then show ?thesis unfolding Epochs_BeginBlocker_def IterateEpochInfo_def by (intro keeps_rules)
qed

text \<open>Operations on subscriptions, for a predicate that does not look at them.\<close>

lemma frame_subs_ops [frame_rules]:
  assumes "indep_subs P"
  shows "keeps P (SetDeveloper d dv)" and "keeps P (removeDeveloper d)"
    and "keeps P (SetUserSubscription K d u sub)" and "keeps P (removeUserSubscription d u)"
    and "keeps P (updateDeveloperTotalGranted K d a b)"
  using assms
  by (auto simp: SetDeveloper_def removeDeveloper_def SetUserSubscription_def removeUserSubscription_def
      updateDeveloperTotalGranted_def indep_subs_def intro!: keeps_rules keeps_modifyM)

lemma frame_grantPeriodic [frame_rules]:
  "indep_ext P \<Longrightarrow> indep_did P \<Longrightarrow> keeps P (grantPeriodicDIDAllowance K ctx d u cs p)"
  "keeps P (grant_period n)" "keeps P (resolve_developer K ctx d)"
  unfolding grantPeriodicDIDAllowance_def grant_period_def resolve_developer_def Let_def
  by (intro keeps_rules frame_did; simp)+

context stake_invariant
begin

lemma subs_frame:
  assumes "indep_subs P" and "indep_did P"
  shows "keeps P (AddUserSubscription K ctx d u a n)"
    and "keeps P (UpdateUserSubscription K ctx d u a n)" and "keeps P (RemoveUserSubscription K ctx d u)"
    and "keeps P (RemoveDeveloper K ctx d)"
proof -
  note r = keeps_rules frame_subs_ops frame_grantPeriodic frame_did_ops addLockup_keeps assms indep
  show "keeps P (AddUserSubscription K ctx d u a n)"
    unfolding AddUserSubscription_def Let_def by (intro r)
  show "keeps P (UpdateUserSubscription K ctx d u a n)"
    unfolding UpdateUserSubscription_def Let_def by (intro r)
  have rm: "keeps P (RemoveUserSubscription K ctx d u)" for d u
    unfolding RemoveUserSubscription_def by (intro r)
  then show "keeps P (RemoveUserSubscription K ctx d u)" .
  show "keeps P (RemoveDeveloper K ctx d)"
    unfolding RemoveDeveloper_def mustIterateUserSubscriptionsForDeveloper_def by (auto intro!: r rm)
qed

end

section \<open>Steps\<close>

definition ctx_ok :: "sdk_ctx \<Rightarrow> bool" where
  "ctx_ok ctx \<longleftrightarrow> time_ok (BlockTime ctx)"

text \<open>
  A step of the three modules. \<open>tier_step\<close> is any step; \<open>tier_step_if rate_ok dev_ok\<close> are the steps in which the
  slashing events of a begin block have rates with \<open>rate_ok\<close> and the messages on subscriptions come from
  developers with \<open>dev_ok\<close>.
\<close>

inductive tier_step_if :: "(dec \<Rightarrow> bool) \<Rightarrow> (addr \<Rightarrow> bool) \<Rightarrow> ('x, 'v) Keeper \<Rightarrow> 'x fg_keepers \<Rightarrow>
    ('x, 'z) tier_state_scheme \<Rightarrow> ('x, 'z) tier_state_scheme \<Rightarrow> bool" for rate_ok dev_ok K fk where
  lock: "MsgLock_ValidateBasic (codec K) (coinOps K) d v stake = None \<Longrightarrow>
    cacheCtx (Msg_Lock K ctx d v stake) s = (r, t) \<Longrightarrow> tier_step_if rate_ok dev_ok K fk s t"
| lock_auto: "MsgLockAuto_ValidateBasic (codec K) (coinOps K) d stake = None \<Longrightarrow>
    cacheCtx (Msg_LockAuto K ctx d stake) s = (r', t) \<Longrightarrow> tier_step_if rate_ok dev_ok K fk s t"
| unlock: "MsgUnlock_ValidateBasic (codec K) (coinOps K) d v stake = None \<Longrightarrow>
    cacheCtx (Msg_Unlock K ctx d v stake) s = (ru, t) \<Longrightarrow> tier_step_if rate_ok dev_ok K fk s t"
| cancel_unlocking: "MsgCancelUnlocking_ValidateBasic (codec K) (coinOps K) d v stake = None \<Longrightarrow>
    cacheCtx (Msg_CancelUnlocking K ctx d v stake h) s = (r, t) \<Longrightarrow> tier_step_if rate_ok dev_ok K fk s t"
| redelegate: "MsgRedelegate_ValidateBasic (codec K) (coinOps K) d v w stake = None \<Longrightarrow>
    cacheCtx (Msg_Redelegate K ctx d v w stake) s = (rt, t) \<Longrightarrow> tier_step_if rate_ok dev_ok K fk s t"
| create_developer: "MsgCreateDeveloper_ValidateBasic (codec K) d = None \<Longrightarrow>
    cacheCtx (Msg_CreateDeveloper K d b) s = (r, t) \<Longrightarrow> tier_step_if rate_ok dev_ok K fk s t"
| update_developer: "MsgUpdateDeveloper_ValidateBasic (codec K) d = None \<Longrightarrow>
    cacheCtx (Msg_UpdateDeveloper K d b) s = (r, t) \<Longrightarrow> tier_step_if rate_ok dev_ok K fk s t"
| remove_developer: "MsgRemoveDeveloper_ValidateBasic (codec K) d = None \<Longrightarrow> ctx_ok ctx \<Longrightarrow>
    cacheCtx (Msg_RemoveDeveloper K ctx d) s = (r, t) \<Longrightarrow> tier_step_if rate_ok dev_ok K fk s t"
| add_subscription: "\<forall>e. AccFromBech32 (codec K) d = Inr e \<longrightarrow> dev_ok e \<Longrightarrow> MsgAddUserSubscription_ValidateBasic (codec K) d u a p = None \<Longrightarrow> is_u64 a \<Longrightarrow> is_u64 p \<Longrightarrow>
    ctx_ok ctx \<Longrightarrow> cacheCtx (Msg_AddUserSubscription K ctx d u a p) s = (r, t) \<Longrightarrow> tier_step_if rate_ok dev_ok K fk s t"
| update_subscription: "\<forall>e. AccFromBech32 (codec K) d = Inr e \<longrightarrow> dev_ok e \<Longrightarrow> MsgUpdateUserSubscription_ValidateBasic (codec K) d u a p = None \<Longrightarrow> is_u64 a \<Longrightarrow> is_u64 p \<Longrightarrow>
    ctx_ok ctx \<Longrightarrow> cacheCtx (Msg_UpdateUserSubscription K ctx d u a p) s = (r, t) \<Longrightarrow> tier_step_if rate_ok dev_ok K fk s t"
| remove_subscription: "\<forall>e. AccFromBech32 (codec K) d = Inr e \<longrightarrow> dev_ok e \<Longrightarrow> MsgRemoveUserSubscription_ValidateBasic (codec K) d u = None \<Longrightarrow> ctx_ok ctx \<Longrightarrow>
    cacheCtx (Msg_RemoveUserSubscription K ctx d u) s = (r, t) \<Longrightarrow> tier_step_if rate_ok dev_ok K fk s t"
| update_params: "cacheCtx (Msg_UpdateParams K auth params) s = (r, t) \<Longrightarrow> tier_step_if rate_ok dev_ok K fk s t"
| begin_tier: "slashes_ok rate_ok K (events s) s \<Longrightarrow> Tier_BeginBlocker K ctx s = (Inr (), t) \<Longrightarrow> tier_step_if rate_ok dev_ok K fk s t"
| begin_epochs: "Epochs_BeginBlocker [Tier_EpochHooks K] ctx s = (Inr (), t) \<Longrightarrow> tier_step_if rate_ok dev_ok K fk s t"
| feegrant: "fg_step (codec K) (coinOps K) fk s t \<Longrightarrow> tier_step_if rate_ok dev_ok K fk s t"
| other: "tier_step_if rate_ok dev_ok K fk s (s\<lparr>ext := x, events := es\<rparr>)"

abbreviation tier_step :: "('x, 'v) Keeper \<Rightarrow> 'x fg_keepers \<Rightarrow> ('x, 'z) tier_state_scheme \<Rightarrow>
    ('x, 'z) tier_state_scheme \<Rightarrow> bool" where
  "tier_step \<equiv> tier_step_if (\<lambda>_. True) (\<lambda>_. True)"

lemma tier_step_any: "tier_step_if rate_ok dev_ok K fk s t \<Longrightarrow> tier_step K fk s t"
  by (induction rule: tier_step_if.induct) (auto intro: tier_step_if.intros)

text \<open>The cached form of a message: an error or a panic leaves the state as it was.\<close>

lemma cached_step: "keeps P (cacheCtx m) \<Longrightarrow> P s \<Longrightarrow> cacheCtx m s = (r, t) \<Longrightarrow> P t"
  by (cases r) (auto dest: cacheCtx_Inl keepsD_Inr)

lemma keeps_cached_liftE:
  "(\<And>x. r = Inr x \<Longrightarrow> keeps P (cacheCtx (f x))) \<Longrightarrow> keeps P (cacheCtx (bindM (liftE r) f))"
  by (cases r) (auto intro!: keepsI dest: keepsD simp: cacheCtx_def bindM_def)

lemma keeps_cachedI:
  "(\<And>s x t. P s \<Longrightarrow> m s = (Inr x, t) \<Longrightarrow> P t) \<Longrightarrow> keeps P (cacheCtx m)"
  by (rule keepsI) (auto simp: cacheCtx_def split: prod.splits sum.splits)

lemma MustAcc_Inr: "MustAccAddressFromBech32 cd x = Inr a \<longleftrightarrow> AccFromBech32 cd x = Inr a"
  by (auto simp: MustAccAddressFromBech32_def split: sum.splits)

locale tier_invariant = stake_invariant K P rate_ok
  for K :: "('x, 'v) Keeper" and P :: "('x, 'z) tier_state_scheme \<Rightarrow> bool" and rate_ok :: "dec \<Rightarrow> bool" +
  fixes dev_ok :: "addr \<Rightarrow> bool" and fk :: "'x fg_keepers"
  assumes timers: "indep_epochs P"
    and set_developer: "keeps P (SetDeveloper d dv)"
    and set_params: "Params_Validate p = None \<Longrightarrow> keeps P (SetParams p)"
    and add_sub: "AccFromBech32 (codec K) x = Inr d \<Longrightarrow> dev_ok d \<Longrightarrow>
      MsgAddUserSubscription_ValidateBasic (codec K) x u a n = None \<Longrightarrow> is_u64 a \<Longrightarrow> is_u64 n \<Longrightarrow> ctx_ok ctx \<Longrightarrow>
      keeps P (cacheCtx (AddUserSubscription K ctx d u a n))"
    and update_sub: "AccFromBech32 (codec K) x = Inr d \<Longrightarrow> dev_ok d \<Longrightarrow>
      MsgUpdateUserSubscription_ValidateBasic (codec K) x u a n = None \<Longrightarrow> is_u64 a \<Longrightarrow> is_u64 n \<Longrightarrow> ctx_ok ctx \<Longrightarrow>
      keeps P (cacheCtx (UpdateUserSubscription K ctx d u a n))"
    and remove_sub: "AccFromBech32 (codec K) x = Inr d \<Longrightarrow> dev_ok d \<Longrightarrow>
      MsgRemoveUserSubscription_ValidateBasic (codec K) x u = None \<Longrightarrow> ctx_ok ctx \<Longrightarrow>
      keeps P (cacheCtx (RemoveUserSubscription K ctx d u))"
    and remove_dev: "AccFromBech32 (codec K) x = Inr d \<Longrightarrow> ctx_ok ctx \<Longrightarrow> keeps P (cacheCtx (RemoveDeveloper K ctx d))"
    and fg: "fg_step (codec K) (coinOps K) fk s t \<Longrightarrow> P s \<Longrightarrow> P t"
begin

lemma stake_msgs:
  "keeps P (Msg_Lock K ctx d v stake)" "keeps P (Msg_LockAuto K ctx d stake)" "keeps P (Msg_Unlock K ctx d v stake)"
  "keeps P (Msg_CancelUnlocking K ctx d v stake h)" "keeps P (Msg_Redelegate K ctx d v w stake)"
  unfolding Msg_Lock_def Msg_LockAuto_def Msg_Unlock_def Msg_CancelUnlocking_def Msg_Redelegate_def
  by (intro keeps_rules Lock_keeps LockAuto_keeps Unlock_keeps CancelUnlocking_keeps Redelegate_keeps)+

lemma developer_msgs:
  "keeps P (Msg_CreateDeveloper K d b)" "keeps P (Msg_UpdateDeveloper K d b)" "keeps P (Msg_UpdateParams K auth params)"
  unfolding Msg_CreateDeveloper_def Msg_UpdateDeveloper_def CreateDeveloper_def UpdateDeveloper_def
    Msg_UpdateParams_def Let_def
  by (intro keeps_rules set_developer indep set_params; simp)+

lemma subscription_msgs:
  "\<forall>e. AccFromBech32 (codec K) d = Inr e \<longrightarrow> dev_ok e \<Longrightarrow>
     MsgAddUserSubscription_ValidateBasic (codec K) d u a n = None \<Longrightarrow> is_u64 a \<Longrightarrow> is_u64 n \<Longrightarrow> ctx_ok ctx \<Longrightarrow>
     keeps P (cacheCtx (Msg_AddUserSubscription K ctx d u a n))"
  "\<forall>e. AccFromBech32 (codec K) d = Inr e \<longrightarrow> dev_ok e \<Longrightarrow>
     MsgUpdateUserSubscription_ValidateBasic (codec K) d u a n = None \<Longrightarrow> is_u64 a \<Longrightarrow> is_u64 n \<Longrightarrow> ctx_ok ctx \<Longrightarrow>
     keeps P (cacheCtx (Msg_UpdateUserSubscription K ctx d u a n))"
  "\<forall>e. AccFromBech32 (codec K) d = Inr e \<longrightarrow> dev_ok e \<Longrightarrow>
     MsgRemoveUserSubscription_ValidateBasic (codec K) d u = None \<Longrightarrow> ctx_ok ctx \<Longrightarrow>
     keeps P (cacheCtx (Msg_RemoveUserSubscription K ctx d u))"
  "ctx_ok ctx \<Longrightarrow> keeps P (cacheCtx (Msg_RemoveDeveloper K ctx d))"
  unfolding Msg_AddUserSubscription_def Msg_UpdateUserSubscription_def Msg_RemoveUserSubscription_def
    Msg_RemoveDeveloper_def
  by (auto intro!: keeps_cached_liftE intro: add_sub update_sub remove_sub remove_dev simp: MustAcc_Inr)

lemma begin_epochs_keeps: "keeps P (Epochs_BeginBlocker [Tier_EpochHooks K] ctx)"
  by (rule frame_epochs) (auto simp: Tier_EpochHooks_def intro: indep timers hooks_keep)

lemma step_keeps: "tier_step_if rate_ok dev_ok K fk s t \<Longrightarrow> P s \<Longrightarrow> P t"
proof (induction rule: tier_step_if.induct)
  case (begin_tier s ctx t)
  then show ?case using BeginBlocker_keeps by blast
next
  case (other s x es)
  then show ?case using indep by (simp add: indep_ext_def)
qed (auto intro: cached_step [OF keeps_cacheCtx [OF stake_msgs(1)]] cached_step [OF keeps_cacheCtx [OF stake_msgs(2)]]
    cached_step [OF keeps_cacheCtx [OF stake_msgs(3)]] cached_step [OF keeps_cacheCtx [OF stake_msgs(4)]]
    cached_step [OF keeps_cacheCtx [OF stake_msgs(5)]] cached_step [OF keeps_cacheCtx [OF developer_msgs(1)]]
    cached_step [OF keeps_cacheCtx [OF developer_msgs(2)]] cached_step [OF keeps_cacheCtx [OF developer_msgs(3)]]
    cached_step [OF subscription_msgs(1)] cached_step [OF subscription_msgs(2)] cached_step [OF subscription_msgs(3)]
    cached_step [OF subscription_msgs(4)] keepsD_Inr [OF begin_epochs_keeps] fg)

lemma reachable_keeps: "(tier_step_if rate_ok dev_ok K fk)\<^sup>*\<^sup>* s t \<Longrightarrow> P s \<Longrightarrow> P t"
  by (induction rule: rtranclp_induct) (auto intro: step_keeps)

end

end
