(* ===== verification/Tier_Invariants.thy ===== *)
theory Tier_Invariants
  imports Tier_System
begin

text \<open>
  The invariants of the tier module as interpretations of \<open>tier_invariant\<close>: the total of the lockups, under
  slashes with a rate that is not negative; the stored parameters; and the granted total of one
  developer, under subscriptions of developers whose keys do not collide with those of this one.
\<close>

section \<open>Predicates under an assumption on the keepers\<close>

lemma keeps_imp: "(A \<Longrightarrow> keeps P m) \<Longrightarrow> keeps (\<lambda>s. A \<longrightarrow> P s) m"
  by (cases A) (auto intro!: keepsI dest: keepsD)

lemma indep_imp:
  "indep_ext P \<Longrightarrow> indep_ext (\<lambda>s. A \<longrightarrow> P s)" "indep_lockups P \<Longrightarrow> indep_lockups (\<lambda>s. A \<longrightarrow> P s)"
  "indep_unlockings P \<Longrightarrow> indep_unlockings (\<lambda>s. A \<longrightarrow> P s)" "indep_credits P \<Longrightarrow> indep_credits (\<lambda>s. A \<longrightarrow> P s)"
  "indep_subs P \<Longrightarrow> indep_subs (\<lambda>s. A \<longrightarrow> P s)" "indep_did P \<Longrightarrow> indep_did (\<lambda>s. A \<longrightarrow> P s)"
  "indep_fee P \<Longrightarrow> indep_fee (\<lambda>s. A \<longrightarrow> P s)" "indep_epochs P \<Longrightarrow> indep_epochs (\<lambda>s. A \<longrightarrow> P s)"
  "indep_params P \<Longrightarrow> indep_params (\<lambda>s. A \<longrightarrow> P s)"
  by (simp_all add: indep_defs)

lemma indep_conj:
  "indep_ext P \<Longrightarrow> indep_ext Q \<Longrightarrow> indep_ext (\<lambda>s. P s \<and> Q s)"
  "indep_lockups P \<Longrightarrow> indep_lockups Q \<Longrightarrow> indep_lockups (\<lambda>s. P s \<and> Q s)"
  "indep_unlockings P \<Longrightarrow> indep_unlockings Q \<Longrightarrow> indep_unlockings (\<lambda>s. P s \<and> Q s)"
  "indep_credits P \<Longrightarrow> indep_credits Q \<Longrightarrow> indep_credits (\<lambda>s. P s \<and> Q s)"
  by (simp_all add: indep_defs)

lemma stake_invariant_frame:
  assumes "indep_ext P" "indep_credits P" "indep_unlockings P" "indep_lockups P"
  shows "stake_invariant K P rate_ok"
  using assms by unfold_locales
    (auto intro!: frame_lockups frame_lockup_ops)

section \<open>The total of the lockups\<close>

abbreviation lockups_total :: "('x, 'v) Keeper \<Rightarrow> ('x, 'z) tier_state_scheme \<Rightarrow> bool" where
  "lockups_total K s \<equiv> dec_laws (decOps K) \<longrightarrow> lockups_inv s"

lemma lockups_inv_indep_all:
  "indep_credits lockups_inv" "indep_subs lockups_inv" "indep_did lockups_inv" "indep_fee lockups_inv"
  "indep_epochs lockups_inv" "indep_params lockups_inv"
  by (auto simp: indep_defs lockups_inv_def GetTotalLockupsAmount_def)

lemmas indep_lockups_total = lockups_inv_indep lockups_inv_indep_all

text \<open>A slash keeps the total when its rate is not negative.\<close>

interpretation total_stake: stake_invariant K "lockups_total K" "\<lambda>r. 0 \<le> r" for K :: "('x, 'v) Keeper"
  by unfold_locales
    (auto intro!: keeps_imp indep_imp indep_lockups_total
       intro: AddLockup_inv subtractLockup_inv AddInsuranceLockup_inv removeInsuranceLockup_inv adjustLockup_inv)

lemma frame_SetParams [frame_rules]: "indep_params P \<Longrightarrow> keeps P (SetParams p)"
  by (auto simp: SetParams_def indep_params_def intro!: keeps_modifyM keeps_rules)

lemma tier_invariant_frame:
  assumes "stake_invariant K P rate_ok" and ind: "indep_ext P" "indep_epochs P" "indep_subs P" "indep_did P" "indep_fee P"
    and "\<And>p. Params_Validate p = None \<Longrightarrow> keeps P (SetParams p)"
  shows "tier_invariant K P rate_ok dev_ok fk"
proof -
  from assms(1) show ?thesis
    by (intro tier_invariant.intro tier_invariant_axioms.intro)
      (use ind assms(6-) in \<open>auto intro: keeps_cacheCtx stake_invariant.subs_frame frame_subs_ops fg_step_frame\<close>)
qed

interpretation lockups_total: tier_invariant K "lockups_total K" "\<lambda>r. 0 \<le> r" "\<lambda>_. True" fk for K :: "('x, 'v) Keeper" and fk
  by (rule tier_invariant_frame)
    (auto intro!: indep_imp indep_lockups_total keeps_imp total_stake.stake_invariant_axioms frame_SetParams)

section \<open>The stored parameters\<close>

definition params_inv :: "('x, 'z) tier_state_scheme \<Rightarrow> bool" where
  "params_inv s \<longleftrightarrow> (\<forall>p. tier_params s = Some p \<longrightarrow> Params_Validate p = None)"

lemma params_inv_indep:
  "indep_ext params_inv" "indep_lockups params_inv" "indep_unlockings params_inv" "indep_credits params_inv"
  "indep_subs params_inv" "indep_did params_inv" "indep_fee params_inv" "indep_epochs params_inv"
  by (auto simp: indep_defs params_inv_def)

lemma SetParams_params_inv: "Params_Validate p = None \<Longrightarrow> keeps params_inv (SetParams p)"
  by (auto simp: SetParams_def params_inv_def intro!: keeps_modifyM keeps_rules)

interpretation stored_params: tier_invariant K params_inv "\<lambda>_. True" "\<lambda>_. True" fk for K :: "('x, 'v) Keeper" and fk
  by (rule tier_invariant_frame) (auto intro!: stake_invariant_frame params_inv_indep SetParams_params_inv)

section \<open>The granted total of a developer\<close>

text \<open>
  The key of a subscription is the address of the developer, a separator and the DID. The SDK admits
  account addresses of 1 to 255 bytes, and the addresses of two developers may be such that a key of the
  one begins like the keys of the other (\<open>collides\<close>). Addresses of the same length never do.
\<close>

definition dev_prefix :: "addr \<Rightarrow> bytes" where
  "dev_prefix d = d @ [keySeparator]"

definition collides :: "addr \<Rightarrow> addr \<Rightarrow> bool" where
  "collides d e \<longleftrightarrow> e \<noteq> d \<and> (prefix (dev_prefix d) e \<or> prefix (dev_prefix e) d)"

lemma prefix_subscription_key:
  "\<not> collides d e \<Longrightarrow> prefix (dev_prefix d) (UserSubscriptionKey e u) \<longleftrightarrow> e = d"
proof -
  assume "\<not> collides d e"
  moreover have "UserSubscriptionKey e u = dev_prefix e @ u @ [keySeparator]"
    by (simp add: UserSubscriptionKey_def dev_prefix_def)
  moreover have "prefix (dev_prefix d) (dev_prefix e) \<longleftrightarrow> d = e \<or> prefix (dev_prefix d) e"
    "prefix (dev_prefix e) (dev_prefix d) \<longleftrightarrow> d = e \<or> prefix (dev_prefix e) d"
    by (auto simp: dev_prefix_def)
  ultimately show ?thesis
    by (auto simp: collides_def dest: prefix_same_cases [of _ _ "dev_prefix e"] intro: prefix_prefix)
qed

lemma addr20_no_collision: "addr20 d \<Longrightarrow> addr20 e \<Longrightarrow> \<not> collides d e"
  by (auto simp: collides_def dev_prefix_def addr20_def dest: prefix_length_le)

definition credit_of :: "sdk_codec \<Rightarrow> addr \<Rightarrow> UserSubscription \<Rightarrow> int" where
  "credit_of cd d sub = (if us_Developer sub = AccString cd d then CreditAmount sub else 0)"

text \<open>
  The keys with the prefix of the developer \<open>d\<close> are those of the subscriptions of \<open>d\<close>, and the total of \<open>d\<close>
  is short of them by \<open>\<delta>\<close>.
\<close>

definition sub_wf :: "sdk_codec \<Rightarrow> addr \<Rightarrow> bytes \<times> UserSubscription \<Rightarrow> bool" where
  "sub_wf cd d p \<longleftrightarrow> (us_Developer (snd p) = AccString cd d \<longleftrightarrow> prefix (dev_prefix d) (fst p))"

definition granted_off :: "sdk_codec \<Rightarrow> addr \<Rightarrow> int \<Rightarrow> ('x, 'z) tier_state_scheme \<Rightarrow> bool" where
  "granted_off cd d \<delta> s \<longleftrightarrow>
     kv_ok (user_subs s) \<and> (\<forall>p\<in>set (user_subs s). sub_wf cd d p) \<and>
     getTotalDevGranted d s + \<delta> = kv_sum (credit_of cd d) (user_subs s)"

definition granted_inv :: "sdk_codec \<Rightarrow> addr \<Rightarrow> ('x, 'z) tier_state_scheme \<Rightarrow> bool" where
  "granted_inv cd d s \<longleftrightarrow>
     kv_ok (user_subs s) \<and> (\<forall>p\<in>set (user_subs s). sub_wf cd d p) \<and>
     getTotalDevGranted d s = kv_sum (credit_of cd d) (user_subs s)"

lemma granted_off_0: "granted_off cd d 0 s = granted_inv cd d s"
  by (simp add: granted_off_def granted_inv_def)

lemma granted_indep:
  "indep_ext (granted_inv cd d)" "indep_lockups (granted_inv cd d)" "indep_unlockings (granted_inv cd d)"
  "indep_credits (granted_inv cd d)" "indep_did (granted_inv cd d)" "indep_fee (granted_inv cd d)"
  "indep_epochs (granted_inv cd d)" "indep_params (granted_inv cd d)"
  by (auto simp: indep_defs granted_inv_def getTotalDevGranted_def)

lemma granted_inv_events [simp]: "granted_inv cd d (s\<lparr>events := es\<rparr>) = granted_inv cd d s"
  by (simp add: granted_inv_def getTotalDevGranted_def)

lemma granted_off_indep:
  "indep_ext (granted_off cd d \<delta>)" "indep_did (granted_off cd d \<delta>)"
  by (auto simp: indep_defs granted_off_def getTotalDevGranted_def)

lemma credit_of_stored:
  assumes "\<not> collides d e" and "granted_off cd d \<delta> s"
  shows "opt_val (credit_of cd d) (kv_get (user_subs s) (UserSubscriptionKey e u)) =
    (if e = d then opt_val CreditAmount (GetUserSubscription e u s) else 0)"
proof (cases "GetUserSubscription e u s")
  case (Some sub)
  then have "sub_wf cd d (UserSubscriptionKey e u, sub)"
    using assms(2) by (auto simp: GetUserSubscription_def granted_off_def dest!: kv_get_in_set)
  with Some show ?thesis
    by (auto simp: GetUserSubscription_def sub_wf_def credit_of_def prefix_subscription_key [OF assms(1)])
qed (auto simp: GetUserSubscription_def)

lemma granted_off_set:
  assumes e: "\<not> collides d e" and s: "granted_off cd d \<delta> s" and sub: "us_Developer sub = AccString cd d \<longleftrightarrow> e = d"
  shows "granted_off cd d
     (\<delta> + (if e = d then CreditAmount sub - opt_val CreditAmount (GetUserSubscription e u s) else 0))
     (s\<lparr>user_subs := kv_set (UserSubscriptionKey e u) sub (user_subs s)\<rparr>)"
proof -
  have "sub_wf cd d (UserSubscriptionKey e u, sub)"
    by (simp add: sub_wf_def sub prefix_subscription_key [OF e])
  then have "\<forall>p\<in>set (kv_set (UserSubscriptionKey e u) sub (user_subs s)). sub_wf cd d p"
    using s set_kv_set [of "UserSubscriptionKey e u" sub "user_subs s"] by (auto simp: granted_off_def)
  then show ?thesis
    using s sub credit_of_stored [OF e s, of u]
    by (auto simp: granted_off_def kv_sum_set credit_of_def getTotalDevGranted_def)
qed

lemma granted_off_del:
  assumes e: "\<not> collides d e" and s: "granted_off cd d \<delta> s"
  shows "granted_off cd d (\<delta> - (if e = d then opt_val CreditAmount (GetUserSubscription e u s) else 0))
    (s\<lparr>user_subs := kv_del (UserSubscriptionKey e u) (user_subs s)\<rparr>)"
  using s credit_of_stored [OF e s, of u]
  by (auto simp: granted_off_def kv_sum_del getTotalDevGranted_def set_kv_del)

definition set_granted :: "('x, 'v) Keeper \<Rightarrow> addr \<Rightarrow> int \<Rightarrow> ('x, 'z) tier_state_scheme \<Rightarrow> ('x, 'z) tier_state_scheme" where
  "set_granted K d n s = s\<lparr>dev_granted :=
     kv_set (TotalDevGrantedKey d) \<lparr>tdg_Developer = AccString (codec K) d, TotalGranted = n\<rparr> (dev_granted s)\<rparr>"

definition granted_end :: "('x, 'v) Keeper \<Rightarrow> addr \<Rightarrow> int \<Rightarrow> ('x, 'z) tier_state_scheme \<Rightarrow>
    (error + unit) \<times> ('x, 'z) tier_state_scheme" where
  "granted_end K d n s =
     (if \<not> is_u64 n then (Inl (Panic (PanicMsg ''Uint64() out of bounds'')), s)
      else if \<not> is_i64 n then (Inl (Panic (PanicMsg ''Int64() out of bound'')), set_granted K d n s)
      else (Inr (), set_granted K d n s))"

lemma updateDeveloperTotalGranted_run:
  "updateDeveloperTotalGranted K d a True s = granted_end K d (getTotalDevGranted d s + a) s"
  "updateDeveloperTotalGranted K d a False s =
     (case SafeSub (getTotalDevGranted d s) a of
        Inl e \<Rightarrow> (Inl e, s)
      | Inr n \<Rightarrow> if n < 0 then (Inl ErrInvalidAmount, s) else granted_end K d n s)"
  by (auto simp: updateDeveloperTotalGranted_def granted_end_def set_granted_def thenM_def bindM_def
      Uint64_def Int64_def split: sum.splits)

lemma updateDeveloperTotalGranted_err:
  "updateDeveloperTotalGranted K d a add s = (Inl e, t) \<Longrightarrow> \<not> is_panic e \<Longrightarrow> t = s"
  by (cases add) (auto simp: updateDeveloperTotalGranted_run granted_end_def split: if_splits sum.splits)

lemma updateDeveloperTotalGranted_Inr:
  "updateDeveloperTotalGranted K d a add s = (Inr (), t) \<Longrightarrow>
     t = set_granted K d (getTotalDevGranted d s + (if add then a else - a)) s"
  by (cases add) (auto simp: updateDeveloperTotalGranted_run granted_end_def split: if_splits sum.splits dest: SafeSub_Inr)

lemma getTotalDevGranted_set [simp]:
  "getTotalDevGranted d' (set_granted K d n s) = (if d' = d then n else getTotalDevGranted d' s)"
  by (simp add: set_granted_def getTotalDevGranted_def TotalDevGrantedKey_def)

lemma user_subs_set_granted [simp]:
  "user_subs (set_granted K d n s) = user_subs s" "GetUserSubscription d' u (set_granted K d n s) = GetUserSubscription d' u s"
  by (simp_all add: set_granted_def GetUserSubscription_def)

lemma granted_off_total:
  "granted_off cd d \<delta> s \<Longrightarrow>
     granted_off cd d (\<delta> - (if e = d then a else 0)) (set_granted K e (getTotalDevGranted e s + a) s)"
  by (auto simp: granted_off_def)

definition resolved :: "('x, 'v) Keeper \<Rightarrow> sdk_ctx \<Rightarrow> addr \<Rightarrow> error + addr" where
  "resolved K ctx d = (if ExtractedDID ctx \<noteq> '''' then GetAddressFromDID (didOps K) (ExtractedDID ctx) else Inr d)"

lemma resolve_developer_liftE: "resolve_developer K ctx d = liftE (resolved K ctx d)"
  by (rule ext) (simp add: resolve_developer_def resolved_def)

text \<open>The address of a DID has 20 bytes, so that it does not collide with the developer either.\<close>

definition apart :: "addr \<Rightarrow> addr \<Rightarrow> bool" where
  "apart d e \<longleftrightarrow> addr_ok e \<and> \<not> collides d e"

lemma addr20_apart: "addr20 d \<Longrightarrow> addr20 e \<Longrightarrow> apart d e"
  using addr20_no_collision by (auto simp: apart_def addr20_def addr_ok_def)

lemma resolved_apart:
  assumes "did_laws (didOps K)" and "addr20 d" and "apart d e0" and "resolved K ctx e0 = Inr e"
  shows "apart d e"
  using assms addr20_apart [of d e]
  by (auto simp: resolved_def addr20_def split: if_splits dest: did_laws_length)

lemma AccString_apart:
  assumes "address_laws cd" and "addr20 d" and "apart d e"
  shows "AccString cd e = AccString cd d \<longleftrightarrow> e = d"
proof
  assume "AccString cd e = AccString cd d"
  moreover have "addr_ok d" "addr_ok e" using assms(2,3) by (auto simp: addr20_def addr_ok_def apart_def)
  ultimately show "e = d" using address_lawsD(1) [OF assms(1), of d] address_lawsD(1) [OF assms(1), of e] by simp
qed simp

lemma SetUserSubscription_Inr:
  "SetUserSubscription K d u sub s = (Inr x, t) \<Longrightarrow>
     t = s\<lparr>user_subs := kv_set (UserSubscriptionKey d u) sub (user_subs s)\<rparr>"
  by (auto simp: SetUserSubscription_def thenM_Inr_iff)

lemma tryM_Inr_Inr: "tryM m s = (Inr (Inr x), t) \<longleftrightarrow> m s = (Inr x, t)"
  by (auto simp: tryM_def split: prod.splits sum.splits)

lemma grant_period_state: "grant_period n s = (r, t) \<Longrightarrow> t = s"
  by (auto simp: grant_period_def Let_def split: if_splits option.splits)

text \<open>The auto-lock of a registration, as \<open>AddUserSubscription\<close> runs it.\<close>

definition auto_lock :: "('x, 'v) Keeper \<Rightarrow> sdk_ctx \<Rightarrow> addr \<Rightarrow> Developer \<Rightarrow> int \<Rightarrow> error option \<Rightarrow> ('x, 'z, unit) TM" where
  "auto_lock K ctx d developer amount err =
     (case err of
        None \<Rightarrow> ret ()
      | Some _ \<Rightarrow>
          if \<not> AutoLockEnabled developer then fail ErrInvalidAmount
          else
            bindM (getM GetParams) (\<lambda>params.
            bindM (liftE (registration_lock amount (RewardRates params))) (\<lambda>lockAmt.
            bindM (tryM (addLockupForRegistration K ctx d lockAmt)) (\<lambda>r.
            case r of Inl _ \<Rightarrow> fail ErrInvalidAmount | Inr _ \<Rightarrow> ret ()))))"

lemma auto_lock_keeps: "stake_invariant K P rate_ok \<Longrightarrow> keeps P (auto_lock K ctx d developer amount err)"
  unfolding auto_lock_def by (intro keeps_rules stake_invariant.addLockup_keeps)

lemma bind_try_fail_Inr:
  "bindM (tryM m) (\<lambda>r. case r of Inl _ \<Rightarrow> fail e | Inr _ \<Rightarrow> k) s = (Inr x, t) \<longleftrightarrow>
     (\<exists>y u. m s = (Inr y, u) \<and> k u = (Inr x, t))"
  by (auto simp: bindM_def tryM_def split: prod.splits sum.splits)

text \<open>The states between the calls of a successful registration.\<close>

lemma AddUserSubscription_Inr:
  assumes "AddUserSubscription K ctx d0 u a n s = (Inr x, t)"
  obtains d s0 dev err s1 s2 lim p s3 s4 where
    "resolve_developer K ctx d0 s = (Inr d, s0)" "GetUserSubscription d u s0 = None" "GetDeveloper d s0 = Some dev"
    "auto_lock K ctx d dev a err s0 = (Inr (), s1)"
    "SetUserSubscription K d u \<lparr>us_Developer = AccString (codec K) d, UserDid = u, CreditAmount = a, us_Period = n,
       StartDate = BlockTime ctx, LastRenewed = BlockTime ctx\<rparr> s1 = (Inr (), s2)"
    "grantPeriodicDIDAllowance K ctx d u lim p s2 = (Inr (), s3)"
    "updateDeveloperTotalGranted K d a True s3 = (Inr (), s4)"
    "t = s4\<lparr>events := events s4 @ [subscription_event ''user_subscription_created'' (AccString (codec K) d) u a n]\<rparr>"
  using assms
  unfolding AddUserSubscription_def auto_lock_def [symmetric] Let_def
  by (auto simp: bindM_Inr_iff [of "resolve_developer K ctx d0"] bindM_Inr_iff [of "grant_period n"] bindM_Inr_iff [of "liftE _"]
      thenM_Inr_iff bind_try_fail_Inr split: option.splits dest!: grant_period_state)

lemma UpdateUserSubscription_Inr:
  assumes "UpdateUserSubscription K ctx d0 u a n s = (Inr x, t)"
  obtains d s0 sub s1 s2 lim p s3 where
    "resolve_developer K ctx d0 s = (Inr d, s0)" "GetUserSubscription d u s0 = Some sub"
    "(if a > CreditAmount sub then updateDeveloperTotalGranted K d (a - CreditAmount sub) True
      else if CreditAmount sub > a then updateDeveloperTotalGranted K d (CreditAmount sub - a) False else ret ()) s0 =
       (Inr (), s1)"
    "SetUserSubscription K d u (sub\<lparr>CreditAmount := a, us_Period := n, LastRenewed := BlockTime ctx\<rparr>) s1 = (Inr (), s2)"
    "grantPeriodicDIDAllowance K ctx d u lim p s2 = (Inr (), s3)"
    "t = s3\<lparr>events := events s3 @ [subscription_event ''user_subscription_updated'' (AccString (codec K) d) u a n]\<rparr>"
  using assms
  unfolding UpdateUserSubscription_def Let_def
  by (auto simp: bindM_Inr_iff [of "resolve_developer K ctx d0"] bindM_Inr_iff [of "grant_period n"] bindM_Inr_iff [of "liftE _"]
      thenM_Inr_iff simp del: if_split split: option.splits dest!: grant_period_state)

lemma grantPeriodic_keeps:
  "indep_ext P \<Longrightarrow> indep_did P \<Longrightarrow> P s \<Longrightarrow> grantPeriodicDIDAllowance K ctx d u lim p s = (Inr x, t) \<Longrightarrow> P t"
  by (blast intro: keepsD_Inr frame_grantPeriodic(1))

text \<open>The invariant of the developer \<open>d\<close> under a registration, an update and a removal by \<open>e0\<close>.\<close>

lemma AddUserSubscription_granted:
  assumes laws: "address_laws (codec K)" "did_laws (didOps K)" and d: "addr20 d" and e0: "apart d e0"
    and s: "granted_inv (codec K) d s" and run: "AddUserSubscription K ctx e0 u a n s = (Inr x, t)"
  shows "granted_inv (codec K) d t"
proof -
  from run obtain e s0 dev err s1 s2 lim p s3 s4 where
    r: "resolve_developer K ctx e0 s = (Inr e, s0)" and new: "GetUserSubscription e u s0 = None"
    and l: "auto_lock K ctx e dev a err s0 = (Inr (), s1)"
    and w: "SetUserSubscription K e u \<lparr>us_Developer = AccString (codec K) e, UserDid = u, CreditAmount = a, us_Period = n,
       StartDate = BlockTime ctx, LastRenewed = BlockTime ctx\<rparr> s1 = (Inr (), s2)"
    and g: "grantPeriodicDIDAllowance K ctx e u lim p s2 = (Inr (), s3)"
    and g': "updateDeveloperTotalGranted K e a True s3 = (Inr (), s4)"
    and t: "t = s4\<lparr>events := events s4 @ [subscription_event ''user_subscription_created'' (AccString (codec K) e) u a n]\<rparr>"
    by (rule AddUserSubscription_Inr)
  have e: "apart d e" "s0 = s" using r resolved_apart [OF laws(2) d e0, of ctx e] by (simp_all add: resolve_developer_liftE split: sum.splits)
  let ?P = "\<lambda>s. granted_inv (codec K) d s \<and> GetUserSubscription e u s = None"
  have "stake_invariant K ?P (\<lambda>_. True)"
    by (intro stake_invariant_frame indep_conj granted_indep) (simp_all add: indep_defs GetUserSubscription_def)
  then have "granted_off (codec K) d 0 s1 \<and> GetUserSubscription e u s1 = None"
    using keepsD_Inr [OF auto_lock_keeps _ l, of ?P] s new e(2) by (simp add: granted_off_0)
  then have "granted_off (codec K) d (if e = d then a else 0) s2"
    using granted_off_set [of d e "codec K" 0 s1 "\<lparr>us_Developer = AccString (codec K) e, UserDid = u,
       CreditAmount = a, us_Period = n, StartDate = BlockTime ctx, LastRenewed = BlockTime ctx\<rparr>" u]
      AccString_apart [OF laws(1) d e(1)] e(1) SetUserSubscription_Inr [OF w]
    by (cases "e = d") (simp_all add: apart_def)
  then have "granted_off (codec K) d (if e = d then a else 0) s3" using grantPeriodic_keeps [OF granted_off_indep] g by blast
  then have "granted_off (codec K) d 0 s4"
    using updateDeveloperTotalGranted_Inr [OF g'] granted_off_total [of "codec K" d "if e = d then a else 0" s3 e a K]
    by (cases "e = d") simp_all
  then show ?thesis by (simp add: t granted_off_0)
qed

lemma stored_developer:
  assumes "granted_off cd d \<delta> s" and "apart d e" and "GetUserSubscription e u s = Some sub"
  shows "us_Developer sub = AccString cd d \<longleftrightarrow> e = d"
proof -
  have "sub_wf cd d (UserSubscriptionKey e u, sub)"
    using assms(1,3) by (auto simp: granted_off_def GetUserSubscription_def dest!: kv_get_in_set)
  then show ?thesis using assms(2) by (simp add: sub_wf_def apart_def prefix_subscription_key)
qed

lemma UpdateUserSubscription_granted:
  assumes laws: "did_laws (didOps K)" and d: "addr20 d" and e0: "apart d e0"
    and s: "granted_inv (codec K) d s" and run: "UpdateUserSubscription K ctx e0 u a n s = (Inr x, t)"
  shows "granted_inv (codec K) d t"
proof -
  from run obtain e s0 sub s1 s2 lim p s3 where
    r: "resolve_developer K ctx e0 s = (Inr e, s0)" and old: "GetUserSubscription e u s0 = Some sub"
    and g': "(if a > CreditAmount sub then updateDeveloperTotalGranted K e (a - CreditAmount sub) True
      else if CreditAmount sub > a then updateDeveloperTotalGranted K e (CreditAmount sub - a) False else ret ()) s0 =
       (Inr (), s1)"
    and w: "SetUserSubscription K e u (sub\<lparr>CreditAmount := a, us_Period := n, LastRenewed := BlockTime ctx\<rparr>) s1 = (Inr (), s2)"
    and g: "grantPeriodicDIDAllowance K ctx e u lim p s2 = (Inr (), s3)"
    and t: "t = s3\<lparr>events := events s3 @ [subscription_event ''user_subscription_updated'' (AccString (codec K) e) u a n]\<rparr>"
    by (rule UpdateUserSubscription_Inr)
  have e: "apart d e" "s0 = s" using r resolved_apart [OF laws d e0, of ctx e] by (simp_all add: resolve_developer_liftE split: sum.splits)
  let ?\<delta> = "if e = d then CreditAmount sub - a else 0"
  have s1: "granted_off (codec K) d ?\<delta> s1 \<and> GetUserSubscription e u s1 = Some sub"
    using g' s old granted_off_total [of "codec K" d 0 s e "a - CreditAmount sub" K] unfolding e(2)
    by (auto simp: granted_off_0 dest!: updateDeveloperTotalGranted_Inr split: if_splits)
  have "us_Developer sub = AccString (codec K) d \<longleftrightarrow> e = d" using stored_developer e(1) s1 by blast
  then have "granted_off (codec K) d 0 s2"
    using granted_off_set [of d e "codec K" ?\<delta> s1
        "sub\<lparr>CreditAmount := a, us_Period := n, LastRenewed := BlockTime ctx\<rparr>" u] s1 e(1) SetUserSubscription_Inr [OF w]
    by (cases "e = d") (simp_all add: apart_def)
  then have "granted_off (codec K) d 0 s3" using grantPeriodic_keeps [OF granted_off_indep] g by blast
  then show ?thesis by (simp add: t granted_off_0)
qed

lemma remove_stored_granted:
  assumes e: "apart d e" and s: "granted_inv (codec K) d s" "GetUserSubscription e u s = Some sub"
    and run: "thenM (updateDeveloperTotalGranted K e (CreditAmount sub) False)
         (thenM (removeUserSubscription e u) m) s = (r, t)" and np: "\<forall>e. r = Inl e \<longrightarrow> \<not> is_panic e"
    and keep: "keeps (granted_inv (codec K) d) m"
  shows "granted_inv (codec K) d t"
proof (cases "fst (updateDeveloperTotalGranted K e (CreditAmount sub) False s)")
  case (Inl err)
  then have "r = Inl err \<and> updateDeveloperTotalGranted K e (CreditAmount sub) False s = (Inl err, t)"
    using run by (auto simp: thenM_def bindM_def split: prod.splits)
  then show ?thesis using np s(1) updateDeveloperTotalGranted_err by blast
next
  case (Inr z)
  define s1 where "s1 = set_granted K e (getTotalDevGranted e s - CreditAmount sub) s"
  have s1: "updateDeveloperTotalGranted K e (CreditAmount sub) False s = (Inr (), s1)"
    using Inr updateDeveloperTotalGranted_Inr [of K e "CreditAmount sub" False s] by (auto simp: s1_def prod_eq_iff)
  have "granted_off (codec K) d (if e = d then CreditAmount sub else 0) s1 \<and> GetUserSubscription e u s1 = Some sub"
    using granted_off_total [of "codec K" d 0 s e "- CreditAmount sub" K] s
    by (cases "e = d") (simp_all add: granted_off_0 s1_def)
  then have "granted_inv (codec K) d (s1\<lparr>user_subs := kv_del (UserSubscriptionKey e u) (user_subs s1)\<rparr>)"
    using granted_off_del [of d e "codec K" "if e = d then CreditAmount sub else 0" s1 u] e
    by (cases "e = d") (simp_all add: granted_off_0 [symmetric] apart_def)
  moreover have "m (s1\<lparr>user_subs := kv_del (UserSubscriptionKey e u) (user_subs s1)\<rparr>) = (r, t)"
    using run by (simp add: s1 thenM_def bindM_def removeUserSubscription_def)
  ultimately show ?thesis using keepsD [OF keep] np by blast
qed

lemma RemoveUserSubscription_granted:
  assumes laws: "did_laws (didOps K)" and d: "addr20 d" and e0: "apart d e0"
  shows "keeps (granted_inv (codec K) d) (RemoveUserSubscription K ctx e0 u)"
proof -
  note keep = keeps_rules frame_did_ops granted_indep
  show ?thesis
    unfolding RemoveUserSubscription_def resolve_developer_liftE
  proof (rule keeps_bind_liftE, rule keepsI, goal_cases)
    case (1 e s q t)
    show ?case
    proof (cases "GetUserSubscription e u s")
      case None
      with 1 show ?thesis by simp
    next
      case (Some sub)
      show ?thesis
        using 1(3) by (intro remove_stored_granted [OF resolved_apart [OF laws d e0 1(1)] 1(2) Some _ 1(4)])
          (auto simp: Some intro!: keep)
    qed
  qed
qed

lemma keeps_bind_collect:
  assumes "\<And>xs. (\<forall>x\<in>set xs. \<exists>k. parse k = Some x) \<Longrightarrow> keeps P (f xs)"
  shows "keeps P (bindM (iterKV parse (\<lambda>i _ acc. ret (acc @ [i])) st []) f)"
proof (cases "keys_parse parse st")
  case True
  have "fold (\<lambda>(k, v) acc. acc @ [the (parse k)]) st xs = xs @ map (\<lambda>p. the (parse (fst p))) st" for xs
    by (induction st arbitrary: xs) auto
  moreover have "\<forall>x\<in>set (map (\<lambda>p. the (parse (fst p))) st). \<exists>k. parse k = Some x"
    using True by (fastforce simp: keys_parse_def)
  ultimately show ?thesis
    using assms by (simp add: iterKV_pure [OF True, where g = "\<lambda>i v acc. acc @ [i]"] case_prod_unfold)
next
  case False
  show ?thesis
  proof (rule keepsI)
    fix s r t
    assume "bindM (iterKV parse (\<lambda>i _ acc. ret (acc @ [i])) st []) f s = (r, t)" "\<forall>e. r = Inl e \<longrightarrow> \<not> is_panic e"
    moreover obtain msg where "iterKV parse (\<lambda>i _ acc. ret (acc @ [i])) st [] s = (Inl (Panic (PanicMsg msg)), s)"
      using iterKV_panics [OF False, of "\<lambda>i v acc. acc @ [i]" "[]" s] by blast
    ultimately show "P t" by (auto simp: bindM_def)
  qed
qed

lemma bindM_assoc: "bindM (bindM m f) g = bindM m (\<lambda>x. bindM (f x) g)"
  by (auto simp: bindM_def fun_eq_iff split: prod.splits sum.splits)

lemma collect_pairs: "(\<lambda>(a, u) _ acc. ret (acc @ [(a, u)])) = (\<lambda>i _ acc. ret (acc @ [i]))"
  by (auto simp: fun_eq_iff)

lemma RemoveDeveloper_granted:
  assumes laws: "did_laws (didOps K)" and d: "addr20 d"
  shows "keeps (granted_inv (codec K) d) (RemoveDeveloper K ctx e)"
proof -
  have r: "keeps (granted_inv (codec K) d) (RemoveUserSubscription K ctx a u)"
    if "\<exists>k. UserSubscriptionKeyToAddresses k = Some (a, u)" for a u
    using that subscription_key.unmk_sound
    by (fastforce intro: RemoveUserSubscription_granted [OF laws d] addr20_apart [OF d])
  have "keeps (granted_inv (codec K) d) (removeDeveloper e)"
    unfolding removeDeveloper_def by (rule keeps_modifyM) (simp add: granted_inv_def getTotalDevGranted_def)
  moreover have "keeps (granted_inv (codec K) d) (forM xs (\<lambda>(a, u). bindM (tryM (RemoveUserSubscription K ctx a u)) (\<lambda>_. ret ())))"
    if "\<forall>x\<in>set xs. \<exists>k. UserSubscriptionKeyToAddresses k = Some x" for xs
    using that by (auto intro!: keeps_rules r)
  ultimately show ?thesis
    unfolding RemoveDeveloper_def mustIterateUserSubscriptionsForDeveloper_def bindM_assoc collect_pairs
    by (intro keeps_bindM [OF keeps_getM] keeps_case_option keeps_fail keeps_bind_collect keeps_thenM keeps_event
        granted_indep) simp_all
qed

definition granted_laws :: "('x, 'v) Keeper \<Rightarrow> bool" where
  "granted_laws K \<longleftrightarrow> address_laws (codec K) \<and> did_laws (didOps K)"

abbreviation granted_total :: "('x, 'v) Keeper \<Rightarrow> addr \<Rightarrow> ('x, 'z) tier_state_scheme \<Rightarrow> bool" where
  "granted_total K d s \<equiv> granted_laws K \<and> addr20 d \<longrightarrow> granted_inv (codec K) d s"

lemma granted_set_developer: "keeps (granted_inv cd d) (SetDeveloper e dv)"
  unfolding SetDeveloper_def by (rule keeps_modifyM) (simp add: granted_inv_def getTotalDevGranted_def)

lemma granted_subs:
  assumes "granted_laws K \<and> addr20 d"
  shows "AccFromBech32 (codec K) x = Inr e \<Longrightarrow> \<not> collides d e \<Longrightarrow>
      keeps (granted_inv (codec K) d) (cacheCtx (AddUserSubscription K ctx e u a n))"
    and "AccFromBech32 (codec K) x = Inr e \<Longrightarrow> \<not> collides d e \<Longrightarrow>
      keeps (granted_inv (codec K) d) (cacheCtx (UpdateUserSubscription K ctx e u a n))"
    and "AccFromBech32 (codec K) x = Inr e \<Longrightarrow> \<not> collides d e \<Longrightarrow>
      keeps (granted_inv (codec K) d) (cacheCtx (RemoveUserSubscription K ctx e u))"
    and "keeps (granted_inv (codec K) d) (cacheCtx (RemoveDeveloper K ctx e))"
proof -
  have l: "address_laws (codec K)" "did_laws (didOps K)" "addr20 d" using assms by (simp_all add: granted_laws_def)
  show "keeps (granted_inv (codec K) d) (cacheCtx (RemoveDeveloper K ctx e))"
    by (intro keeps_cacheCtx RemoveDeveloper_granted l)
  assume "AccFromBech32 (codec K) x = Inr e" and "\<not> collides d e"
  then have e: "apart d e" using address_lawsD(3) [OF l(1)] by (auto simp: apart_def)
  show "keeps (granted_inv (codec K) d) (cacheCtx (AddUserSubscription K ctx e u a n))"
    by (rule keeps_cachedI) (rule AddUserSubscription_granted [OF l e])
  show "keeps (granted_inv (codec K) d) (cacheCtx (UpdateUserSubscription K ctx e u a n))"
    by (rule keeps_cachedI) (rule UpdateUserSubscription_granted [OF l(2,3) e])
  show "keeps (granted_inv (codec K) d) (cacheCtx (RemoveUserSubscription K ctx e u))"
    by (intro keeps_cacheCtx RemoveUserSubscription_granted l e)
qed

interpretation granted: tier_invariant K "granted_total K d" "\<lambda>_. True" "\<lambda>e. \<not> collides d e" fk
  for K :: "('x, 'v) Keeper" and d and fk
proof (intro tier_invariant.intro tier_invariant_axioms.intro)
  show "stake_invariant K (granted_total K d) (\<lambda>_. True)"
    by (intro stake_invariant_frame indep_imp granted_indep)
  show "indep_epochs (granted_total K d)" by (intro indep_imp granted_indep)
  fix s t
  assume "fg_step (codec K) (coinOps K) fk s t" "granted_total K d s"
  then show "granted_total K d t" by (rule fg_step_frame) (intro indep_imp granted_indep)+
qed (auto intro!: keeps_imp intro: granted_set_developer frame_SetParams granted_indep granted_subs)

end
