(* ===== verification/Tier_Allowances.thy ===== *)
theory Tier_Allowances
  imports Tier_Invariants
begin

text \<open>
  The allowances behind the subscriptions. The subscription methods call the feegrant keeper
  directly, not through its messages. The DID queue of the feegrant module stays consistent under
  those calls as well, next to the fee deductions and pruning of the feegrant module itself.
\<close>

lemma did_queue_indep:
  "indep_ext (did_queue_inv cd)" "indep_lockups (did_queue_inv cd)" "indep_unlockings (did_queue_inv cd)"
  "indep_credits (did_queue_inv cd)" "indep_subs (did_queue_inv cd)" "indep_fee (did_queue_inv cd)"
  "indep_epochs (did_queue_inv cd)" "indep_params (did_queue_inv cd)"
  by (auto simp: indep_defs did_queue_inv_def)

lemma sum_absurd: "\<forall>x. r \<noteq> Inr x \<Longrightarrow> \<forall>e. r \<noteq> Inl e \<Longrightarrow> False"
  by (cases r) auto

context codec_spec
begin

lemma marshal_Periodic: "marshal_allowance cd (FPeriodic a) = None \<Longrightarrow> times_ok (FPeriodic a)"
  by (simp add: marshal_periodic_None)

lemma GrantDID_periodic_Inr:
  assumes "addr_ok granter" and "did \<noteq> []" and "did_queue_inv cd s"
    and run: "GrantDIDAllowance cd ctx granter did (FPeriodic a) s = (Inr x, t)"
  shows "did_queue_inv cd t"
proof -
  have "\<exists>g. NewDIDGrant cd granter did (FPeriodic a) = Inr g"
    using run by (auto simp: GrantDIDAllowance_def bindM_Inr_iff thenM_Inr_iff split: sum.splits if_splits dest: sum_absurd)
  then have "times_ok (FPeriodic a)"
    using marshal_Periodic [of a]
    by (auto simp: NewDIDGrant_def NewAnyWithValue_def bindE_Inr_iff split: option.splits)
  then show ?thesis using GrantDID_keeps [OF assms(1,2)] assms(3) run by (blast dest: keepsD_Inr)
qed

lemma grantPeriodic_Inr:
  assumes "codec K = cd" and "addr_ok granter" and "did \<noteq> []" and "did_queue_inv cd s"
    and run: "grantPeriodicDIDAllowance K ctx granter did lim p s = (Inr x, t)"
  shows "did_queue_inv cd t"
proof -
  let ?a = "\<lparr>Basic = \<lparr>SpendLimit = spend_limit lim, Expiration = None\<rparr>, Period = p, PeriodSpendLimit = lim,
    PeriodCanSpend = lim, PeriodReset = BlockTime ctx + p\<rparr>"
  have k: "keeps (did_queue_inv cd) (tryM (UpdateDIDAllowance cd granter did (FPeriodic ?a)))"
    using marshal_Periodic assms(2,3) by (intro keeps_tryM UpdateDID_keeps)
  obtain r u where u: "tryM (UpdateDIDAllowance cd granter did (FPeriodic ?a)) s = (Inr r, u)"
    and rest: "(case r of Inr _ \<Rightarrow> ret () | Inl _ \<Rightarrow> GrantDIDAllowance cd ctx granter did (FPeriodic ?a)) u = (Inr x, t)"
    using run unfolding grantPeriodicDIDAllowance_def assms(1) Let_def by (rule bindM_InrE)
  have "did_queue_inv cd u" using keepsD_Inr [OF k assms(4) u] .
  then show ?thesis
    using rest GrantDID_periodic_Inr [OF assms(2,3)] by (cases r) auto
qed

text \<open>No grant lies under the key of the empty DID.\<close>

lemma no_empty_did:
  assumes "addr_ok granter" and "did_queue_inv cd s"
  shows "\<exists>e. GetDIDAllowance cd granter [] s = Inl e"
proof -
  have key: "FeeAllowanceByDIDKey cd granter [] = Inr (CHR 0x02 # char_of (length granter) # granter)"
    using prefix_lawsD(1,5) [OF prefixes] assms(1) by (simp add: FeeAllowanceByDIDKey_def FeeAllowancePrefixByDID_def DIDFeeAllowanceKeyPrefix_def)
  have "kv_get (fg_did_allowances s) (CHR 0x02 # char_of (length granter) # granter) = None"
  proof (rule ccontr)
    assume "kv_get (fg_did_allowances s) (CHR 0x02 # char_of (length granter) # granter) \<noteq> None"
    then obtain g where "kv_get (fg_did_allowances s) (CHR 0x02 # char_of (length granter) # granter) = Some g" by blast
    with assms(2) have "did_entry_ok cd (CHR 0x02 # char_of (length granter) # granter) g" by (simp add: did_queue_inv_def)
    then obtain gr where "char_of (length granter) # granter = pair_bytes gr (GranteeDid g)" "addr_ok (GranteeDid g)"
      by (auto simp: did_entry_ok_def)
    then have "char_of (length granter) = (char_of (length (GranteeDid g)) :: char)"
      and eq: "granter = GranteeDid g @ char_of (length gr) # gr" by (auto simp: pair_bytes_def)
    then have "of_char (char_of (length granter) :: char) = (of_char (char_of (length (GranteeDid g)) :: char) :: nat)"
      by simp
    moreover have "length granter < 256" "length (GranteeDid g) < 256"
      using assms(1) \<open>addr_ok (GranteeDid g)\<close> by (auto simp: addr_ok_def)
    ultimately have "length granter = length (GranteeDid g)" by (simp only: of_char_char_of_id)
    then show False using eq by simp
  qed
  then show ?thesis using key by (auto simp: GetDIDAllowance_def getDIDGrant_def)
qed

lemma ExpireDID_keeps_any:
  assumes "addr_ok granter" and "time_ok (BlockTime ctx)"
  shows "keeps (did_queue_inv cd) (ExpireDIDAllowance cd ctx granter did)"
proof (cases "did = []")
  case True
  show ?thesis
    by (rule keepsI) (use no_empty_did [OF assms(1)] True in \<open>fastforce simp: ExpireDIDAllowance_def bindM_def\<close>)
qed (simp add: ExpireDID_keeps assms)

end

section \<open>Subscriptions keep the DID queue\<close>

definition allowance_laws :: "('x, 'v) Keeper \<Rightarrow> bool" where
  "allowance_laws K \<longleftrightarrow>
     prefix_laws (codec K) \<and> time_laws (codec K) \<and> address_laws (codec K) \<and> did_laws (didOps K)"

lemma allowance_laws_codec: "allowance_laws K \<Longrightarrow> codec_spec (codec K)"
  by (simp add: allowance_laws_def codec_spec_def)

lemma resolved_addr_ok:
  "allowance_laws K \<Longrightarrow> addr_ok d0 \<Longrightarrow> resolved K ctx d0 = Inr d \<Longrightarrow> addr_ok d"
  by (auto simp: allowance_laws_def resolved_def addr_ok_def split: if_splits dest: did_laws_length)

lemma user_did_nonempty:
  "MsgAddUserSubscription_ValidateBasic cd x u a n = None \<Longrightarrow> u \<noteq> []"
  "MsgUpdateUserSubscription_ValidateBasic cd x u a n = None \<Longrightarrow> u \<noteq> []"
  by (auto simp: MsgAddUserSubscription_ValidateBasic_def MsgUpdateUserSubscription_ValidateBasic_def
      user_did_err_def first_err_None)

lemma AddUserSubscription_queue:
  assumes laws: "allowance_laws K" and d0: "addr_ok d0" and u: "u \<noteq> []"
    and s: "did_queue_inv (codec K) s" and run: "AddUserSubscription K ctx d0 u a n s = (Inr x, t)"
  shows "did_queue_inv (codec K) t"
proof -
  note k = keepsD_Inr [OF frame_subs_ops(3)] keepsD_Inr [OF frame_subs_ops(5)] keepsD_Inr [OF auto_lock_keeps]
  have stake: "stake_invariant K (did_queue_inv (codec K)) (\<lambda>_. True)" by (intro stake_invariant_frame did_queue_indep)
  from run show ?thesis
  proof (rule AddUserSubscription_Inr)
    fix d s0 dev err s1 s2 lim p s3 s4
    assume r: "resolve_developer K ctx d0 s = (Inr d, s0)" and l: "auto_lock K ctx d dev a err s0 = (Inr (), s1)"
      and w: "SetUserSubscription K d u \<lparr>us_Developer = AccString (codec K) d, UserDid = u, CreditAmount = a, us_Period = n,
       StartDate = BlockTime ctx, LastRenewed = BlockTime ctx\<rparr> s1 = (Inr (), s2)"
      and g: "grantPeriodicDIDAllowance K ctx d u lim p s2 = (Inr (), s3)"
      and g': "updateDeveloperTotalGranted K d a True s3 = (Inr (), s4)"
      and t: "t = s4\<lparr>events := events s4 @ [subscription_event ''user_subscription_created'' (AccString (codec K) d) u a n]\<rparr>"
    have "addr_ok d" "s0 = s"
      using r resolved_addr_ok [OF laws d0] by (auto simp: resolve_developer_liftE)
    then have "did_queue_inv (codec K) s2"
      using k(1) [OF did_queue_indep(5) _ w] k(3) [OF stake _ l] s by blast
    then have "did_queue_inv (codec K) s3"
      using codec_spec.grantPeriodic_Inr [OF allowance_laws_codec [OF laws] refl \<open>addr_ok d\<close> u _ g] by blast
    then show "did_queue_inv (codec K) t"
      using k(2) [OF did_queue_indep(5) _ g'] by (simp add: t)
  qed
qed

lemma UpdateUserSubscription_queue:
  assumes laws: "allowance_laws K" and d0: "addr_ok d0" and u: "u \<noteq> []"
    and s: "did_queue_inv (codec K) s" and run: "UpdateUserSubscription K ctx d0 u a n s = (Inr x, t)"
  shows "did_queue_inv (codec K) t"
  using run
proof (rule UpdateUserSubscription_Inr)
  fix d s0 s1 s2 lim p s3 and sub :: UserSubscription
  let ?m = "if a > CreditAmount sub then updateDeveloperTotalGranted K d (a - CreditAmount sub) True
      else if CreditAmount sub > a then updateDeveloperTotalGranted K d (CreditAmount sub - a) False else ret ()"
  assume r: "resolve_developer K ctx d0 s = (Inr d, s0)" and g': "?m s0 = (Inr (), s1)"
    and w: "SetUserSubscription K d u (sub\<lparr>CreditAmount := a, us_Period := n, LastRenewed := BlockTime ctx\<rparr>) s1 = (Inr (), s2)"
    and g: "grantPeriodicDIDAllowance K ctx d u lim p s2 = (Inr (), s3)"
    and t: "t = s3\<lparr>events := events s3 @ [subscription_event ''user_subscription_updated'' (AccString (codec K) d) u a n]\<rparr>"
  have d: "addr_ok d" "s0 = s"
    using r resolved_addr_ok [OF laws d0] by (auto simp: resolve_developer_liftE)
  have "keeps (did_queue_inv (codec K)) ?m" by (intro keeps_rules frame_subs_ops did_queue_indep)
  then have "did_queue_inv (codec K) s2"
    using keepsD_Inr [OF frame_subs_ops(3) _ w] did_queue_indep(5) s g' d(2) by (blast dest: keepsD_Inr)
  then show "did_queue_inv (codec K) t"
    using codec_spec.grantPeriodic_Inr [OF allowance_laws_codec [OF laws] refl d(1) u _ g] by (simp add: t)
qed

lemma RemoveUserSubscription_queue:
  assumes laws: "allowance_laws K" and "addr_ok d0" and "ctx_ok ctx"
  shows "keeps (did_queue_inv (codec K)) (RemoveUserSubscription K ctx d0 u)"
  unfolding RemoveUserSubscription_def resolve_developer_liftE
  using assms(3)
  by (intro keeps_bind_liftE keeps_bindM keeps_getM keeps_case_option keeps_fail keeps_thenM frame_subs_ops did_queue_indep
      keeps_tryM keeps_event codec_spec.ExpireDID_keeps_any [OF allowance_laws_codec [OF laws]]
      resolved_addr_ok [OF laws assms(2)]) (simp_all add: ctx_ok_def)

lemma parsed_addr_ok: "UserSubscriptionKeyToAddresses k = Some (d, u) \<Longrightarrow> addr_ok d"
  using subscription_key.unmk_sound [of k "(d, u)"] by (auto simp: addr20_def addr_ok_def)

lemma RemoveDeveloper_queue:
  assumes laws: "allowance_laws K" and ctx: "ctx_ok ctx"
  shows "keeps (did_queue_inv (codec K)) (RemoveDeveloper K ctx d)"
proof -
  have "keeps (did_queue_inv (codec K)) (forM xs (\<lambda>(a, u). bindM (tryM (RemoveUserSubscription K ctx a u)) (\<lambda>_. ret ())))"
    if "\<forall>x\<in>set xs. \<exists>k. UserSubscriptionKeyToAddresses k = Some x" for xs
    using that by (auto intro!: keeps_rules intro: RemoveUserSubscription_queue [OF laws _ ctx] dest: parsed_addr_ok)
  then show ?thesis
    unfolding RemoveDeveloper_def mustIterateUserSubscriptionsForDeveloper_def bindM_assoc collect_pairs
    by (intro keeps_bindM [OF keeps_getM] keeps_case_option keeps_fail keeps_bind_collect keeps_thenM keeps_event
        did_queue_indep frame_subs_ops) simp_all
qed

abbreviation did_queue :: "('x, 'v) Keeper \<Rightarrow> ('x, 'z) tier_state_scheme \<Rightarrow> bool" where
  "did_queue K s \<equiv> allowance_laws K \<longrightarrow> did_queue_inv (codec K) s"

lemma queue_subs:
  assumes "allowance_laws K" and "AccFromBech32 (codec K) x = Inr d" and "ctx_ok ctx"
  shows "MsgAddUserSubscription_ValidateBasic (codec K) x u a n = None \<Longrightarrow>
      keeps (did_queue_inv (codec K)) (cacheCtx (AddUserSubscription K ctx d u a n))"
    and "MsgUpdateUserSubscription_ValidateBasic (codec K) x u a n = None \<Longrightarrow>
      keeps (did_queue_inv (codec K)) (cacheCtx (UpdateUserSubscription K ctx d u a n))"
    and "keeps (did_queue_inv (codec K)) (cacheCtx (RemoveUserSubscription K ctx d u))"
    and "keeps (did_queue_inv (codec K)) (cacheCtx (RemoveDeveloper K ctx d))"
proof -
  have d: "addr_ok d" using assms(1,2) address_lawsD(3) by (auto simp: allowance_laws_def)
  show "keeps (did_queue_inv (codec K)) (cacheCtx (AddUserSubscription K ctx d u a n))"
    if "MsgAddUserSubscription_ValidateBasic (codec K) x u a n = None"
    by (rule keeps_cachedI) (rule AddUserSubscription_queue [OF assms(1) d user_did_nonempty(1) [OF that]])
  show "keeps (did_queue_inv (codec K)) (cacheCtx (UpdateUserSubscription K ctx d u a n))"
    if "MsgUpdateUserSubscription_ValidateBasic (codec K) x u a n = None"
    by (rule keeps_cachedI) (rule UpdateUserSubscription_queue [OF assms(1) d user_did_nonempty(2) [OF that]])
  show "keeps (did_queue_inv (codec K)) (cacheCtx (RemoveUserSubscription K ctx d u))"
    "keeps (did_queue_inv (codec K)) (cacheCtx (RemoveDeveloper K ctx d))"
    by (intro keeps_cacheCtx RemoveUserSubscription_queue RemoveDeveloper_queue assms d)+
qed

interpretation sub_queue: tier_invariant K "did_queue K" "\<lambda>_. True" "\<lambda>_. True" fk for K :: "('x, 'v) Keeper" and fk
proof (intro tier_invariant.intro tier_invariant_axioms.intro)
  show "stake_invariant K (did_queue K) (\<lambda>_. True)" by (intro stake_invariant_frame indep_imp did_queue_indep)
  show "indep_epochs (did_queue K)" by (intro indep_imp did_queue_indep)
  show "did_queue K t" if "fg_step (codec K) (coinOps K) fk s t" "did_queue K s" for s t
    using that codec_spec.fg_step_inv [OF allowance_laws_codec] by blast
qed (auto intro!: keeps_imp intro: frame_subs_ops frame_SetParams did_queue_indep queue_subs)

end
