(* ===== verification/Tier_Epoch.thy ===== *)
theory Tier_Epoch
  imports Tier_Allowances "HOL-Library.Multiset"
begin

text \<open>
  The start of an epoch: all credits are burned and every delegator is granted the credit of its
  whole stake. \<open>bank_laws\<close> is what the reset relies on of the bank keeper: for the accounts of a set,
  sending, minting and burning of credits succeed when the balance covers them and move exactly the
  amount.
\<close>

section \<open>Stake of a delegator\<close>

definition owner :: "bytes \<Rightarrow> addr" where
  "owner k = fst (the (LockupKeyToAddresses k))"

definition owned :: "addr \<Rightarrow> Lockup kv \<Rightarrow> int" where
  "owned d st = sum_list (map (\<lambda>p. if owner (fst p) = d then Amount (snd p) else 0) st)"

lemma iter_owned:
  assumes "keys_parse LockupKeyToAddresses st"
  shows "iterKV LockupKeyToAddresses (\<lambda>(d, v) l acc. ret (if d = a then acc + Amount l else acc)) st b = ret (b + owned a st)"
proof -
  have "iterKV LockupKeyToAddresses (\<lambda>(d, v) l acc. ret (if d = a then acc + Amount l else acc)) st b =
      iterKV LockupKeyToAddresses (\<lambda>i l acc. ret (if fst i = a then acc + Amount l else acc)) st b"
    by (simp add: case_prod_unfold)
  also have "\<dots> = ret (fold (\<lambda>(k, l) acc. if fst (the (LockupKeyToAddresses k)) = a then acc + Amount l else acc) st b)"
    by (rule iterKV_pure [OF assms])
  also have "fold (\<lambda>(k, l) acc. if fst (the (LockupKeyToAddresses k)) = a then acc + Amount l else acc) st b = b + owned a st"
    by (induction st arbitrary: b) (auto simp: owned_def owner_def case_prod_unfold)
  finally show ?thesis .
qed

lemma proratedCredit_run:
  assumes "keys_parse LockupKeyToAddresses (lockups s)" and "keys_parse LockupKeyToAddresses (insurance s)"
  shows "proratedCredit K ctx d amt s =
    (Inr (calculateProratedCredit (decOps K) (RewardRates (GetParams s)) (owned d (lockups s) + owned d (insurance s)) amt
       (CurrentEpochStartTime (GetEpochInfo EpochIdentifier s)) (BlockTime ctx)
       (Duration (GetEpochInfo EpochIdentifier s))), s)"
  by (simp add: proratedCredit_def totalLockedAmountByAddr_def totalInsuredAmountByAddr_def mustIterateLockups_def
      mustIterateInsuranceLockups_def iter_owned [OF assms(1)] iter_owned [OF assms(2)] bindM_assoc)

section \<open>The bank\<close>

abbreviation credits :: "('x, 'v) Keeper \<Rightarrow> 'x \<Rightarrow> addr \<Rightarrow> int" where
  "credits K x a \<equiv> GetBalance K a MicroCreditDenom x"

definition bank_laws :: "('x, 'v) Keeper \<Rightarrow> addr set \<Rightarrow> bool" where
  "bank_laws K A \<longleftrightarrow>
     (\<forall>x a. 0 \<le> credits K x a) \<and> ModuleAddress K TierModuleName \<notin> A \<and>
     (\<forall>n>0. \<forall>x. \<forall>a\<in>A. n \<le> credits K x a \<longrightarrow>
        (\<exists>x'. SendCoinsFromAccountToModule K a TierModuleName [(MicroCreditDenom, n)] x = (Inr (), x') \<and>
          (\<forall>b. credits K x' b = credits K x b - (if b = a then n else 0)
                                + (if b = ModuleAddress K TierModuleName then n else 0)))) \<and>
     (\<forall>n>0. \<forall>x. \<forall>a\<in>A. n \<le> credits K x (ModuleAddress K TierModuleName) \<longrightarrow>
        (\<exists>x'. SendCoinsFromModuleToAccount K TierModuleName a [(MicroCreditDenom, n)] x = (Inr (), x') \<and>
          (\<forall>b. credits K x' b = credits K x b + (if b = a then n else 0)
                                - (if b = ModuleAddress K TierModuleName then n else 0)))) \<and>
     (\<forall>n>0. \<forall>x. \<exists>x'. MintCoins K TierModuleName [(MicroCreditDenom, n)] x = (Inr (), x') \<and>
          (\<forall>b. credits K x' b = credits K x b + (if b = ModuleAddress K TierModuleName then n else 0))) \<and>
     (\<forall>n>0. \<forall>x. n \<le> credits K x (ModuleAddress K TierModuleName) \<longrightarrow>
        (\<exists>x'. BurnCoins K TierModuleName [(MicroCreditDenom, n)] x = (Inr (), x') \<and>
          (\<forall>b. credits K x' b = credits K x b - (if b = ModuleAddress K TierModuleName then n else 0))))"

lemma bank_lawsD:
  assumes "bank_laws K A"
  shows "0 \<le> credits K x a" and "ModuleAddress K TierModuleName \<notin> A"
    and "0 < n \<Longrightarrow> a \<in> A \<Longrightarrow> n \<le> credits K x a \<Longrightarrow>
        \<exists>x'. SendCoinsFromAccountToModule K a TierModuleName [(MicroCreditDenom, n)] x = (Inr (), x') \<and>
          (\<forall>b. credits K x' b = credits K x b - (if b = a then n else 0)
                                + (if b = ModuleAddress K TierModuleName then n else 0))"
    and "0 < n \<Longrightarrow> a \<in> A \<Longrightarrow> n \<le> credits K x (ModuleAddress K TierModuleName) \<Longrightarrow>
        \<exists>x'. SendCoinsFromModuleToAccount K TierModuleName a [(MicroCreditDenom, n)] x = (Inr (), x') \<and>
          (\<forall>b. credits K x' b = credits K x b + (if b = a then n else 0)
                                - (if b = ModuleAddress K TierModuleName then n else 0))"
    and "0 < n \<Longrightarrow> \<exists>x'. MintCoins K TierModuleName [(MicroCreditDenom, n)] x = (Inr (), x') \<and>
          (\<forall>b. credits K x' b = credits K x b + (if b = ModuleAddress K TierModuleName then n else 0))"
    and "0 < n \<Longrightarrow> n \<le> credits K x (ModuleAddress K TierModuleName) \<Longrightarrow>
        \<exists>x'. BurnCoins K TierModuleName [(MicroCreditDenom, n)] x = (Inr (), x') \<and>
          (\<forall>b. credits K x' b = credits K x b - (if b = ModuleAddress K TierModuleName then n else 0))"
  using assms by (simp_all add: bank_laws_def)

lemma valid_credit_denom: "valid_denom MicroCreditDenom"
  by (simp add: valid_denom_def MicroCreditDenom_def denom_char_def letter_def)

lemma credit_coins: "coin_laws co \<Longrightarrow> 0 < n \<Longrightarrow> NewCoins co MicroCreditDenom n = Inr [(MicroCreditDenom, n)]"
  using coin_lawsD(7) [OF _ valid_credit_denom] by simp

lemma burn_credit_run:
  assumes coins: "coin_laws (coinOps K)" and bank: "bank_laws K A" and d: "d \<in> A"
  shows "\<exists>x. burn_credit K d None s = (Inr None, s\<lparr>ext := x\<rparr>) \<and>
    (\<forall>b. credits K x b = (if b = d then 0 else credits K (ext s) b))"
proof (cases "0 < credits K (ext s) d")
  case False
  then have "credits K (ext s) d = 0" using bank_lawsD(1) [OF bank, where x = "ext s" and a = d] by simp
  then show ?thesis by (intro exI [of _ "ext s"]) (simp add: burn_credit_def)
next
  case True
  let ?n = "credits K (ext s) d" and ?m = "ModuleAddress K TierModuleName"
  have m: "?m \<noteq> d" using bank_lawsD(2) [OF bank] d by auto
  obtain x1 where x1: "SendCoinsFromAccountToModule K d TierModuleName [(MicroCreditDenom, ?n)] (ext s) = (Inr (), x1)"
    "\<forall>b. credits K x1 b = credits K (ext s) b - (if b = d then ?n else 0) + (if b = ?m then ?n else 0)"
    using bank_lawsD(3) [OF bank True d order_refl] by blast
  have "0 \<le> credits K (ext s) ?m" using bank_lawsD(1) [OF bank] by simp
  then have "?n \<le> credits K x1 ?m" using x1(2) m by simp
  then obtain x2 where x2: "BurnCoins K TierModuleName [(MicroCreditDenom, ?n)] x1 = (Inr (), x2)"
    "\<forall>b. credits K x2 b = credits K x1 b - (if b = ?m then ?n else 0)"
    using bank_lawsD(6) [OF bank True] by blast
  have "burn_credit K d None s = (Inr None, s\<lparr>ext := x2\<rparr>)"
    using True x1(1) x2(1) by (simp add: burn_credit_def credit_coins [OF coins] bindM_def tryM_def extM_def)
  then show ?thesis using x1(2) x2(2) m by (intro exI [of _ x2]) auto
qed

section \<open>Burning\<close>

definition delegators :: "Lockup kv \<Rightarrow> addr set" where
  "delegators st = (owner \<circ> fst) ` set st"

lemma delegators_simps [simp]: "delegators [] = {}" "delegators (p # st) = insert (owner (fst p)) (delegators st)"
  by (simp_all add: delegators_def)

lemma iterKV_Cons:
  "parse (fst p) = Some i \<Longrightarrow> iterKV parse cb (p # st) b s =
     (case cb i (snd p) b s of (Inr c, t) \<Rightarrow> iterKV parse cb st c t | (Inl e, t) \<Rightarrow> (Inl e, t))"
  by (cases p) (simp add: iterKV_def bindM_def split: prod.splits sum.splits)

lemma burn_loop:
  assumes coins: "coin_laws (coinOps K)" and bank: "bank_laws K A"
  shows "keys_parse LockupKeyToAddresses st \<Longrightarrow> delegators st \<subseteq> A \<Longrightarrow>
    \<exists>x. iterKV LockupKeyToAddresses (\<lambda>(d, v) _. burn_credit K d) st None s = (Inr None, s\<lparr>ext := x\<rparr>) \<and>
      (\<forall>b. credits K x b = (if b \<in> delegators st then 0 else credits K (ext s) b))"
proof (induction st arbitrary: s)
  case Nil
  show ?case by (intro exI [of _ "ext s"]) (simp add: iterKV_def)
next
  case (Cons p st)
  then obtain d v where p: "LockupKeyToAddresses (fst p) = Some (d, v)" by (auto simp: keys_parse_def)
  then have d: "owner (fst p) = d" by (simp add: owner_def)
  then obtain x where x: "burn_credit K d None s = (Inr None, s\<lparr>ext := x\<rparr>)"
    "\<forall>b. credits K x b = (if b = d then 0 else credits K (ext s) b)"
    using burn_credit_run [OF coins bank, of d s] Cons.prems(2) by auto
  obtain y where y: "iterKV LockupKeyToAddresses (\<lambda>(d, v) _. burn_credit K d) st None (s\<lparr>ext := x\<rparr>) =
      (Inr None, s\<lparr>ext := x\<rparr>\<lparr>ext := y\<rparr>)"
    "\<forall>b. credits K y b = (if b \<in> delegators st then 0 else credits K x b)"
    using Cons.IH [of "s\<lparr>ext := x\<rparr>"] Cons.prems by (auto simp: keys_parse_def)
  show ?case
    using x y d by (intro exI [of _ y]) (auto simp: iterKV_Cons [of LockupKeyToAddresses p "(d, v)", OF p])
qed

lemma burnAllCredits_run:
  assumes "coin_laws (coinOps K)" and "bank_laws K A" and "keys_parse LockupKeyToAddresses (lockups s)"
    and "delegators (lockups s) \<subseteq> A"
  shows "\<exists>x. burnAllCredits K s = (Inr (), s\<lparr>ext := x, total_credits := Some 0\<rparr>) \<and>
    (\<forall>b. credits K x b = (if b \<in> delegators (lockups s) then 0 else credits K (ext s) b))"
proof -
  obtain x where x: "iterKV LockupKeyToAddresses (\<lambda>(d, v) _. burn_credit K d) (lockups s) None s = (Inr None, s\<lparr>ext := x\<rparr>)"
    "\<forall>b. credits K x b = (if b \<in> delegators (lockups s) then 0 else credits K (ext s) b)"
    using burn_loop [OF assms] by blast
  then have "burnAllCredits K s = (Inr (), s\<lparr>ext := x, total_credits := Some 0\<rparr>)"
    by (simp add: burnAllCredits_def mustIterateLockups_def setTotalCreditAmount_def thenM_def bindM_def x(1))
  with x(2) show ?thesis by blast
qed

section \<open>Minting\<close>

text \<open>The lockups of a delegator and the insured part of each.\<close>

definition staked_in :: "addr \<Rightarrow> Lockup kv \<Rightarrow> Lockup kv \<Rightarrow> int" where
  "staked_in d ins st =
     sum_list (map (\<lambda>p. if owner (fst p) = d then Amount (snd p) + opt_val Amount (kv_get ins (fst p)) else 0) st)"

definition staked :: "addr \<Rightarrow> ('x, 'z) tier_state_scheme \<Rightarrow> int" where
  "staked d s = staked_in d (insurance s) (lockups s)"

lemma staked_in_simps [simp]:
  "staked_in d ins [] = 0"
  "staked_in d ins (p # st) =
     (if owner (fst p) = d then Amount (snd p) + opt_val Amount (kv_get ins (fst p)) else 0) + staked_in d ins st"
  by (simp_all add: staked_in_def)

lemma parsed_key:
  assumes "LockupKeyToAddresses k = Some (d, v)"
  shows "addr20 d" "k = LockupKey d v" "addr_ok d"
  using lockup_key.unmk_sound [OF assms] by (auto simp: addr20_def addr_ok_def)

lemma AccString_eq:
  "address_laws cd \<Longrightarrow> addr_ok a \<Longrightarrow> addr_ok b \<Longrightarrow> AccString cd a = AccString cd b \<longleftrightarrow> a = b"
  by (metis address_lawsD(1) sum.inject(2))

lemma locked_loop:
  assumes laws: "address_laws (codec K)"
  shows "keys_parse LockupKeyToAddresses st \<Longrightarrow> kv_ok acc \<Longrightarrow>
    \<exists>res. iterKV LockupKeyToAddresses (\<lambda>(d, v). addLockedAmt K d v) st acc s = (Inr res, s) \<and> kv_ok res \<and>
      fst ` set res = fst ` set acc \<union> AccString (codec K) ` delegators st \<and>
      (\<forall>d. addr_ok d \<longrightarrow> opt_val id (kv_get res (AccString (codec K) d)) =
         opt_val id (kv_get acc (AccString (codec K) d)) + staked_in d (insurance s) st)"
proof (induction st arbitrary: acc)
  case Nil
  then show ?case by (simp add: iterKV_def)
next
  case (Cons p st)
  then obtain d v where p: "LockupKeyToAddresses (fst p) = Some (d, v)" by (auto simp: keys_parse_def)
  note k = parsed_key [OF p]
  define acc' where "acc' = kv_set (AccString (codec K) d)
    (opt_val id (kv_get acc (AccString (codec K) d)) + Amount (snd p) + opt_val Amount (kv_get (insurance s) (fst p))) acc"
  have run: "addLockedAmt K d v (snd p) acc s = (Inr acc', s)"
    by (simp add: addLockedAmt_def getInsuranceLockupAmount_def acc'_def k(2) opt_val_def Let_def id_def)
  have prems: "keys_parse LockupKeyToAddresses st" "kv_ok acc'" using Cons.prems by (auto simp: keys_parse_def acc'_def)
  obtain res where res: "iterKV LockupKeyToAddresses (\<lambda>(d, v). addLockedAmt K d v) st acc' s = (Inr res, s)" "kv_ok res"
    "fst ` set res = fst ` set acc' \<union> AccString (codec K) ` delegators st"
    "\<forall>d. addr_ok d \<longrightarrow> opt_val id (kv_get res (AccString (codec K) d)) =
       opt_val id (kv_get acc' (AccString (codec K) d)) + staked_in d (insurance s) st"
    using Cons.IH [of acc'] prems by blast
  have d: "owner (fst p) = d" using p by (simp add: owner_def)
  show ?case
  proof (intro exI [of _ res] conjI)
    show "iterKV LockupKeyToAddresses (\<lambda>(d, v). addLockedAmt K d v) (p # st) acc s = (Inr res, s)"
      using run res(1) by (simp add: iterKV_Cons [of LockupKeyToAddresses p "(d, v)", OF p])
    show "fst ` set res = fst ` set acc \<union> AccString (codec K) ` delegators (p # st)"
      by (simp add: res(3) acc'_def fst_set_kv_set d)
    show "\<forall>e. addr_ok e \<longrightarrow> opt_val id (kv_get res (AccString (codec K) e)) =
        opt_val id (kv_get acc (AccString (codec K) e)) + staked_in e (insurance s) (p # st)"
      using res(4) AccString_eq [OF laws _ k(3)] by (simp add: acc'_def d)
  qed (rule res(2))
qed

lemma mintCredit_run:
  assumes coins: "coin_laws (coinOps K)" and laws: "address_laws (codec K)" and bank: "bank_laws K A"
    and d: "d \<in> A" "addr_ok d" and n: "0 < n"
  shows "\<exists>x. mintCredit K d n s = (Inr (), s\<lparr>ext := x\<rparr>) \<and>
    (\<forall>b. credits K x b = credits K (ext s) b + (if b = d then n else 0))"
proof -
  let ?m = "ModuleAddress K TierModuleName"
  obtain x1 where x1: "MintCoins K TierModuleName [(MicroCreditDenom, n)] (ext s) = (Inr (), x1)"
    "\<forall>b. credits K x1 b = credits K (ext s) b + (if b = ?m then n else 0)"
    using bank_lawsD(5) [OF bank n] by blast
  have "0 \<le> credits K (ext s) ?m" using bank_lawsD(1) [OF bank] by simp
  then obtain x2 where x2: "SendCoinsFromModuleToAccount K TierModuleName d [(MicroCreditDenom, n)] x1 = (Inr (), x2)"
    "\<forall>b. credits K x2 b = credits K x1 b + (if b = d then n else 0) - (if b = ?m then n else 0)"
    using bank_lawsD(4) [OF bank n d(1), of x1] x1(2) by auto
  have "mintCredit K d n s = (Inr (), s\<lparr>ext := x2\<rparr>)"
    using n x1(1) x2(1) address_lawsD(1) [OF laws d(2)]
    by (simp add: mintCredit_def credit_coins [OF coins n] bindM_def thenM_def extM_def)
  then show ?thesis using x1(2) x2(2) by (intro exI [of _ x2]) auto
qed

lemma mint_loop:
  fixes rates :: "Rate list"
  assumes coins: "coin_laws (coinOps K)" and laws: "address_laws (codec K)" and bank: "bank_laws K A"
  defines "credit \<equiv> \<lambda>n. calculateCredit (decOps K) rates 0 n"
  defines "step \<equiv> \<lambda>(delStrAddr, amount) totalCredit.
       bindM (liftE (case AccFromBech32 (codec K) delStrAddr of
                       Inl _ \<Rightarrow> Inl (Panic (PanicMsg ''bech32'')) | Inr a \<Rightarrow> Inr a)) (\<lambda>delAddr.
       let credit = calculateCredit (decOps K) rates 0 amount in
       thenM (mintCredit K delAddr credit) (ret (totalCredit + credit)))"
  shows "distinct (map fst amts) \<Longrightarrow>
    \<forall>p\<in>set amts. 0 < credit (snd p) \<and> (\<exists>d\<in>A. addr_ok d \<and> fst p = AccString (codec K) d) \<Longrightarrow>
    \<exists>x. foldM step amts c s = (Inr (c + sum_list (map (\<lambda>p. credit (snd p)) amts)), s\<lparr>ext := x\<rparr>) \<and>
      (\<forall>b. addr_ok b \<longrightarrow> credits K x b = credits K (ext s) b +
         opt_val credit (map_of amts (AccString (codec K) b)))"
proof (induction amts arbitrary: c s)
  case Nil
  show ?case by (intro exI [of _ "ext s"]) simp
next
  case (Cons p amts)
  then obtain d where d: "d \<in> A" "addr_ok d" "fst p = AccString (codec K) d" and pos: "0 < credit (snd p)" by auto
  obtain x where x: "mintCredit K d (credit (snd p)) s = (Inr (), s\<lparr>ext := x\<rparr>)"
    "\<forall>b. credits K x b = credits K (ext s) b + (if b = d then credit (snd p) else 0)"
    using mintCredit_run [OF coins laws bank d(1,2) pos] by blast
  have prems: "distinct (map fst amts)"
    "\<forall>p\<in>set amts. 0 < credit (snd p) \<and> (\<exists>d\<in>A. addr_ok d \<and> fst p = AccString (codec K) d)" using Cons.prems by simp_all
  obtain y where y: "foldM step amts (c + credit (snd p)) (s\<lparr>ext := x\<rparr>) =
      (Inr (c + credit (snd p) + sum_list (map (\<lambda>p. credit (snd p)) amts)), s\<lparr>ext := x\<rparr>\<lparr>ext := y\<rparr>)"
    "\<forall>b. addr_ok b \<longrightarrow> credits K y b = credits K x b + opt_val credit (map_of amts (AccString (codec K) b))"
    using Cons.IH [of "c + credit (snd p)" "s\<lparr>ext := x\<rparr>"] prems by auto
  have step: "step p c s = (Inr (c + credit (snd p)), s\<lparr>ext := x\<rparr>)"
    using x(1) d(3) address_lawsD(1) [OF laws d(2)]
    by (cases p) (simp add: step_def credit_def bindM_def thenM_def Let_def)
  have "map_of amts (AccString (codec K) d) = None"
    using Cons.prems(1) d(3) by (auto simp: map_of_eq_None_iff)
  moreover have "AccString (codec K) b = AccString (codec K) d \<longleftrightarrow> b = d" if "addr_ok b" for b
    using AccString_eq [OF laws that d(2)] .
  ultimately show ?case
    using step y x(2) d(3) by (intro exI [of _ y]) (cases p, auto simp: bindM_def add.assoc)
qed

lemma sum_list_perm: "mset xs = mset ys \<Longrightarrow> sum_list (map f xs) = (sum_list (map f ys) :: int)"
  by (metis mset_map sum_mset_sum_list)

text \<open>The map of stakes: one entry per delegator.\<close>

lemma delegators_ok:
  assumes "keys_parse LockupKeyToAddresses st" and "d \<in> delegators st"
  shows "addr_ok d"
  using assms parsed_key(3) by (fastforce simp: delegators_def owner_def keys_parse_def)

lemma locked_amounts:
  assumes laws: "address_laws (codec K)" and keys: "keys_parse LockupKeyToAddresses (lockups s)"
  shows "\<exists>res. iterKV LockupKeyToAddresses (\<lambda>(d, v). addLockedAmt K d v) (lockups s) [] s = (Inr res, s) \<and>
    distinct (map fst res) \<and> set res = (\<lambda>d. (AccString (codec K) d, staked d s)) ` delegators (lockups s)"
proof -
  let ?D = "delegators (lockups s)" and ?A = "AccString (codec K)"
  obtain res where res: "iterKV LockupKeyToAddresses (\<lambda>(d, v). addLockedAmt K d v) (lockups s) [] s = (Inr res, s)"
    "kv_ok res" "fst ` set res = ?A ` ?D" "\<And>d. addr_ok d \<Longrightarrow> opt_val id (kv_get res (?A d)) = staked d s"
    using locked_loop [OF laws keys, of "[]" s] by (auto simp: staked_def)
  note ok = delegators_ok [OF keys]
  have get: "kv_get res (?A d) = Some (staked d s)" if "d \<in> ?D" for d
  proof -
    have "?A d \<in> fst ` set res" unfolding res(3) using that by (rule imageI)
    then obtain n where "kv_get res (?A d) = Some n" by (metis kv_get_None_iff not_None_eq)
    then show ?thesis using res(4) [OF ok [OF that]] by simp
  qed
  have "set res = (\<lambda>d. (?A d, staked d s)) ` ?D"
  proof (intro set_eqI iffI)
    fix p assume p: "p \<in> set res"
    then obtain d where d: "d \<in> ?D" "fst p = ?A d" using res(3) by (metis (no_types, lifting) image_iff)
    then have "kv_get res (?A d) = Some (snd p)" using p kv_get_Some_iff [OF res(2)] by (metis prod.collapse)
    then show "p \<in> (\<lambda>d. (?A d, staked d s)) ` ?D"
      using get d by (intro image_eqI [of _ _ d]) (simp_all add: prod_eq_iff)
  next
    fix p assume "p \<in> (\<lambda>d. (?A d, staked d s)) ` ?D"
    then show "p \<in> set res" using get kv_get_in_set by fastforce
  qed
  then show ?thesis using res(1) kv_ok_distinct [OF res(2)] by blast
qed

text \<open>
  The reset itself. Go ranges over the map of stakes in an order of its own; the result does not
  depend on it.
\<close>

lemma resetAllCredits_run:
  assumes coins: "coin_laws (coinOps K)" and laws: "address_laws (codec K)" and bank: "bank_laws K A"
    and order: "\<And>xs. mset (mapOrder K xs) = mset xs"
    and keys: "keys_parse LockupKeyToAddresses (lockups s)" and del: "delegators (lockups s) \<subseteq> A"
  defines "credit \<equiv> \<lambda>d. calculateCredit (decOps K) (RewardRates (GetParams s)) 0 (staked d s)"
  assumes pos: "\<forall>d\<in>delegators (lockups s). 0 < credit d"
    and fits: "is_i64 (\<Sum>d\<in>delegators (lockups s). credit d)"
  shows "\<exists>x. resetAllCredits K s =
      (Inr (), s\<lparr>ext := x, total_credits := Some (\<Sum>d\<in>delegators (lockups s). credit d)\<rparr>) \<and>
    (\<forall>b. addr_ok b \<longrightarrow> credits K x b = credits K (ext s) b + (if b \<in> delegators (lockups s) then credit b else 0))"
proof -
  let ?D = "delegators (lockups s)" and ?A = "AccString (codec K)"
  let ?c = "\<lambda>n. calculateCredit (decOps K) (RewardRates (GetParams s)) 0 n"
  note ok = delegators_ok [OF keys]
  obtain res where res: "iterKV LockupKeyToAddresses (\<lambda>(d, v). addLockedAmt K d v) (lockups s) [] s = (Inr res, s)"
    "distinct (map fst res)" "set res = (\<lambda>d. (?A d, staked d s)) ` ?D"
    using locked_amounts [OF laws keys] by blast
  let ?o = "mapOrder K res"
  have perm: "mset ?o = mset res" by (rule order)
  have "mset (map fst ?o) = mset (map fst res)" by (simp add: perm)
  then have dist: "distinct (map fst ?o)" using res(2) mset_eq_imp_distinct_iff by blast
  have set: "set ?o = (\<lambda>d. (?A d, staked d s)) ` ?D" using mset_eq_setD [OF perm] res(3) by simp
  have inj: "inj_on (\<lambda>d. (?A d, staked d s)) ?D" using AccString_eq [OF laws ok ok] by (auto simp: inj_on_def)
  have "sum_list (map (\<lambda>p. ?c (snd p)) ?o) = (\<Sum>p\<in>set ?o. ?c (snd p))"
    using dist by (simp add: sum_list_distinct_conv_sum_set distinct_map)
  then have sum: "sum_list (map (\<lambda>p. ?c (snd p)) ?o) = (\<Sum>d\<in>?D. credit d)"
    by (simp add: set sum.reindex [OF inj] credit_def)
  have get: "opt_val ?c (map_of ?o (?A b)) = (if b \<in> ?D then credit b else 0)" if b: "addr_ok b" for b
  proof (cases "b \<in> ?D")
    case True
    then show ?thesis using map_of_is_SomeI [OF dist, of "?A b" "staked b s"] set by (simp add: credit_def)
  next
    case False
    then have "?A b \<notin> ?A ` ?D" using AccString_eq [OF laws b ok] by blast
    then have "map_of ?o (?A b) = None" by (simp add: map_of_eq_None_iff set image_image)
    then show ?thesis using False by simp
  qed
  have "\<forall>p\<in>set ?o. 0 < ?c (snd p) \<and> (\<exists>d\<in>A. addr_ok d \<and> fst p = ?A d)" using pos ok del by (auto simp: set credit_def)
  then obtain x where x: "mint_all K (RewardRates (GetParams s)) ?o s = (Inr (\<Sum>d\<in>?D. credit d), s\<lparr>ext := x\<rparr>)"
    "\<And>b. addr_ok b \<Longrightarrow> credits K x b = credits K (ext s) b + opt_val ?c (map_of ?o (?A b))"
    using mint_loop [OF coins laws bank dist, of "RewardRates (GetParams s)" 0 s] unfolding mint_all_def sum add_0 by blast
  have "0 \<le> (\<Sum>d\<in>?D. credit d)" using pos by (intro sum_nonneg) (simp add: less_imp_le)
  then have "resetAllCredits K s = (Inr (), s\<lparr>ext := x, total_credits := Some (\<Sum>d\<in>?D. credit d)\<rparr>)"
    using res(1) x(1) fits
    by (simp add: resetAllCredits_def mustIterateLockups_def bindM_def setTotalCreditAmount_def thenM_def Int64_def)
  then show ?thesis using x(2) get by (intro exI [of _ x]) simp
qed

section \<open>Locking\<close>

lemma Lock_run:
  assumes "0 < amt" and "GetValidator K v (ext s) = Inr val" and "NewCoins (coinOps K) DefaultBondDenom amt = Inr cs"
    and "DelegateCoinsFromAccountToModule K d TierModuleName cs (ext s) = (Inr u, x1)"
    and "Delegate K (ModuleAddress K TierModuleName) amt Unbonded val True x1 = (Inr sh, x2)"
    and "proratedCredit K ctx d amt (s\<lparr>ext := x2\<rparr>) = (Inr c, s\<lparr>ext := x2\<rparr>)"
    and "mintCredit K d c (s\<lparr>ext := x2\<rparr>) = (Inr u', s\<lparr>ext := x3\<rparr>)"
    and "is_i64 (GetTotalLockupsAmount s + amt)" and "is_i64 (getTotalCreditAmount s + c)"
  shows "Lock K ctx d v amt s =
    (Inr (), s\<lparr>ext := x3, total_lockups := Some (GetTotalLockupsAmount s + amt),
       lockups := kv_set (LockupKey d v) (newLockup K d v (GetLockupAmount d v s + amt)) (lockups s),
       total_credits := Some (getTotalCreditAmount s + c),
       events := events s @ [(''lock'',
                 [(''delegator'', AccString (codec K) d), (''validator'', ValString (codec K) v),
                  (''amount'', itoa amt), (''credit_amount'', itoa c)])]\<rparr>)"
  using assms
  by (simp add: Lock_def bindM_def thenM_def tryM_def extM_def AddLockup_run GetTotalLockupsAmount_def GetLockupAmount_def
      getTotalCreditAmount_def setTotalCreditAmount_def Int64_def Let_def)

end
