(* ===== verification/Demo_Chain.thy ===== *)
theory Demo_Chain
  imports Tier_Epoch
begin

text \<open>
  A small chain that instantiates the keepers of other modules, for the witnesses: balances per
  account and denomination, one list of unbonding entries, and validators named by their address.
  \<open>bank_laws\<close> is the part of the bank keeper that the epoch reset relies on; the chain satisfies it.
\<close>

record demo_chain =
  bal :: "addr \<Rightarrow> string \<Rightarrow> nat"
  unbonding :: "ubd_entry list"

definition add_coins :: "addr \<Rightarrow> coins \<Rightarrow> demo_chain \<Rightarrow> demo_chain" where
  "add_coins a cs x = x\<lparr>bal := (\<lambda>b d. bal x b d + (if b = a then nat (amountOf cs d) else 0))\<rparr>"

definition sub_coins :: "addr \<Rightarrow> coins \<Rightarrow> demo_chain \<Rightarrow> demo_chain" where
  "sub_coins a cs x = x\<lparr>bal := (\<lambda>b d. bal x b d - (if b = a then nat (amountOf cs d) else 0))\<rparr>"

definition has_coins :: "addr \<Rightarrow> coins \<Rightarrow> demo_chain \<Rightarrow> bool" where
  "has_coins a cs x \<longleftrightarrow> (\<forall>c\<in>set cs. snd c \<le> int (bal x a (fst c)))"

definition move_coins :: "addr \<Rightarrow> addr \<Rightarrow> coins \<Rightarrow> (demo_chain, unit) M" where
  "move_coins a b cs x =
     (if has_coins a cs x then (Inr (), add_coins b cs (sub_coins a cs x)) else (Inl (ErrExt ''insufficient funds''), x))"

definition demo_K :: "sdk_codec \<Rightarrow> (demo_chain, string) Keeper" where
  "demo_K cd =
     \<lparr>codec = cd, coinOps = std_coins, decOps = std_decs, didOps = std_did, Rfc3339 = itoa,
      DecFromStr = (\<lambda>x. Inr (int (length x) * dec_one)), ModuleAddress = (\<lambda>m. m), mapOrder = (\<lambda>xs. xs),
      authority = ''accgov'',
      val_Operator = (\<lambda>v. ''val'' @ v), val_Tokens = (\<lambda>v. 100), val_IsBonded = (\<lambda>v. True), val_IsUnbonded = (\<lambda>v. False),
      TokensFromSharesTruncated = (\<lambda>v shares. shares),
      GetBalance = (\<lambda>a d x. int (bal x a d)), IterateAllBalances = (\<lambda>x. []),
      MintCoins = (\<lambda>m cs x. (Inr (), add_coins m cs x)),
      BurnCoins = (\<lambda>m cs x. if has_coins m cs x then (Inr (), sub_coins m cs x) else (Inl (ErrExt ''insufficient funds''), x)),
      SendCoinsFromModuleToAccount = move_coins, SendCoinsFromAccountToModule = move_coins,
      SendCoinsFromModuleToModule = move_coins, DelegateCoinsFromAccountToModule = move_coins,
      UndelegateCoinsFromModuleToAccount = move_coins,
      GetValidator = (\<lambda>a x. Inr a), GetAllValidators = (\<lambda>x. Inr [''v'']), IterateValidators = (\<lambda>x. Inr [''v'']),
      IterateDelegations = (\<lambda>a x. Inr []), GetDelegationShares = (\<lambda>a v x. Inr (50 * dec_one)),
      Delegate = (\<lambda>a n st v sub. ret (n * dec_one)),
      Undelegate = (\<lambda>a v shares x. (Inr (10, quo shares dec_one),
         x\<lparr>unbonding := unbonding x @
            [\<lparr>ube_CreationHeight = 1, ube_CompletionTime = 10, ube_InitialBalance = quo shares dec_one,
              ube_Balance = quo shares dec_one, ube_Id = 0\<rparr>]\<rparr>)),
      BeginRedelegation = (\<lambda>a v w shares. ret 10),
      ValidateUnbondAmount = (\<lambda>a v n x. Inr (n * dec_one)),
      GetUnbondingDelegation = (\<lambda>a v x. Inr \<lparr>ubd_Delegator = a, ubd_Validator = v, Entries = unbonding x\<rparr>),
      SetUnbondingDelegation = (\<lambda>u x. (Inr (), x\<lparr>unbonding := Entries u\<rparr>)),
      RemoveUnbondingDelegation = (\<lambda>u x. (Inr (), x\<lparr>unbonding := []\<rparr>)),
      WithdrawDelegationRewards = (\<lambda>a v. ret [])\<rparr>"

lemma demo_K_simps [simp]:
  "codec (demo_K cd) = cd" "coinOps (demo_K cd) = std_coins" "decOps (demo_K cd) = std_decs"
  "didOps (demo_K cd) = std_did" "GetBalance (demo_K cd) a d x = int (bal x a d)" "ModuleAddress (demo_K cd) m = m"
  "mapOrder (demo_K cd) = (\<lambda>xs. xs)" "authority (demo_K cd) = ''accgov''"
  by (simp_all add: demo_K_def)

definition demo_epoch :: EpochInfo where
  "demo_epoch =
     \<lparr>Identifier = ''tier'', StartTime = 0, Duration = 2000000, CurrentEpoch = 1, CurrentEpochStartTime = 0,
      EpochCountingStarted = True, CurrentEpochStartHeight = 1\<rparr>"

text \<open>Every account holds \<open>n\<close> of each coin; the epoch lasts two milliseconds.\<close>

definition demo_state :: "nat \<Rightarrow> demo_chain tier_state" where
  "demo_state n =
     \<lparr>events = [], epoch_store = [(epochKey EpochIdentifier, demo_epoch)], fg_allowances = [], fg_queue = [], fg_did_allowances = [],
      fg_did_queue = [], ext = \<lparr>bal = (\<lambda>a d. n), unbonding = []\<rparr>, tier_params = Some DefaultParams, lockups = [],
      unlockings = [], insurance = [], user_subs = [], developers = [], dev_granted = [], total_lockups = None,
      total_credits = None\<rparr>"

abbreviation demo_del :: addr where
  "demo_del \<equiv> ''dddddddddddddddddddd''"

abbreviation demo_val :: addr where
  "demo_val \<equiv> ''vvvvvvvvvvvvvvvvvvvv''"

lemma demo_keys [simp]: "keys_parse p []" "owned d [] = 0"
  by (simp_all add: keys_parse_def owned_def)

text \<open>A lock of 10 coins in the middle of the epoch earns 5 credits.\<close>

lemma demo_credit: "calculateProratedCredit std_decs (RewardRates DefaultParams) 0 10 0 1000000 2000000 = 5"
  by (simp add: calculateProratedCredit_def calculateCredit_def DefaultParams_def NewParams_def std_decs_def dec_one_def
      Milliseconds_def time_sub_def quo_def Let_def)

lemma demo_mint:
  assumes "AccFromBech32 cd (AccString cd d) = Inr a"
  shows "mintCredit (demo_K cd) d 5 s =
    (Inr (), s\<lparr>ext := add_coins d [(MicroCreditDenom, 5)] (sub_coins TierModuleName [(MicroCreditDenom, 5)]
       (add_coins TierModuleName [(MicroCreditDenom, 5)] (ext s)))\<rparr>)"
  using assms
  by (simp add: mintCredit_def bindM_def thenM_def extM_def demo_K_def std_coins_def move_coins_def has_coins_def add_coins_def)

definition demo_paid :: "coins \<Rightarrow> demo_chain" where
  "demo_paid cs = add_coins TierModuleName cs (sub_coins demo_del cs (ext (demo_state 100)))"

definition demo_locked :: "sdk_codec \<Rightarrow> demo_chain tier_state" where
  "demo_locked cd = (demo_state 100)\<lparr>
     ext := add_coins demo_del [(MicroCreditDenom, 5)] (sub_coins TierModuleName [(MicroCreditDenom, 5)]
        (add_coins TierModuleName [(MicroCreditDenom, 5)] (demo_paid [(DefaultBondDenom, 10)]))),
     total_lockups := Some 10, lockups := [(LockupKey demo_del demo_val, newLockup (demo_K cd) demo_del demo_val 10)],
     total_credits := Some 5,
     events := [(''lock'', [(''delegator'', AccString cd demo_del), (''validator'', ValString cd demo_val),
        (''amount'', itoa 10), (''credit_amount'', itoa 5)])]\<rparr>"

lemma demo_lock:
  assumes "AccFromBech32 cd (AccString cd demo_del) = Inr a"
  shows "Lock (demo_K cd) (demo_ctx 1000000) demo_del demo_val 10 (demo_state 100) = (Inr (), demo_locked cd)"
proof -
  let ?K = "demo_K cd" and ?s = "demo_state 100" and ?x = "demo_paid [(DefaultBondDenom, 10)]"
  have "proratedCredit ?K (demo_ctx 1000000) demo_del 10 (?s\<lparr>ext := ?x\<rparr>) = (Inr 5, ?s\<lparr>ext := ?x\<rparr>)"
    using demo_credit
    by (subst proratedCredit_run)
      (simp_all add: demo_state_def GetParams_def GetEpochInfo_def demo_epoch_def demo_ctx_def)
  moreover have "mintCredit ?K demo_del 5 (?s\<lparr>ext := ?x\<rparr>) = (Inr (), ?s\<lparr>ext := add_coins demo_del [(MicroCreditDenom, 5)]
      (sub_coins TierModuleName [(MicroCreditDenom, 5)] (add_coins TierModuleName [(MicroCreditDenom, 5)] ?x))\<rparr>)"
    using demo_mint [OF assms, of "?s\<lparr>ext := ?x\<rparr>"] by simp
  moreover have "DelegateCoinsFromAccountToModule ?K demo_del TierModuleName [(DefaultBondDenom, 10)] (ext ?s) = (Inr (), ?x)"
    by (simp add: demo_K_def move_coins_def has_coins_def demo_state_def demo_paid_def)
  ultimately show ?thesis
    by (subst Lock_run [where cs = "[(DefaultBondDenom, 10)]" and val = demo_val and sh = "10 * dec_one" and ?x2.0 = ?x and
          ?x1.0 = ?x and c = 5 and u = "()" and u' = "()"])
      (simp_all add: demo_K_def std_coins_def demo_state_def demo_locked_def GetTotalLockupsAmount_def is_i64_def
        getTotalCreditAmount_def GetLockupAmount_def)
qed

text \<open>Every account but the module's own is an ordinary account of the demo chain.\<close>

lemma demo_bank_laws: "bank_laws (demo_K cd) (- {TierModuleName})"
  unfolding bank_laws_def
  by (auto simp: demo_K_def move_coins_def has_coins_def add_coins_def sub_coins_def)

end
