(* ===== verification/Tier_Props.thy ===== *)
theory Tier_Props
  imports Demo_Chain
begin

text \<open>
  Properties of the tier module that hold in every reachable state: the stored totals, parameters and
  allowances agree with the records they summarise.
\<close>

definition demo_accounts :: "demo_chain fg_keepers" where
  "demo_accounts = \<lparr>HasAccount = (\<lambda>a x. True), BlockedAddr = (\<lambda>a. False), SetNewAccount = (\<lambda>a. ret ())\<rparr>"

text \<open>One step of the demo chain: the lock of 10 coins.\<close>

lemma demo_step:
  assumes "AccFromBech32 cd (AccString cd demo_del) = Inr demo_del" and "ValFromBech32 cd (ValString cd demo_val) = Inr demo_val"
    and "AccString cd demo_del = ''acc'' @ demo_del" "ValString cd demo_val = ''val'' @ demo_val"
  shows "tier_step_if rate_ok dev_ok (demo_K cd) demo_accounts (demo_state 100) (demo_locked cd)"
proof (rule tier_step_if.lock [where ctx = "demo_ctx 1000000" and stake = "(DefaultBondDenom, 10)"])
  show "MsgLock_ValidateBasic (codec (demo_K cd)) (coinOps (demo_K cd)) (AccString cd demo_del) (ValString cd demo_val)
     (DefaultBondDenom, 10) = None"
    using assms validateDenom_None [OF std_coins_laws, of "(DefaultBondDenom, 10)"]
    by (simp add: MsgLock_ValidateBasic_def first_err_None validateAccAddr_def validateValAddr_def is_i64_def)
  show "cacheCtx (Msg_Lock (demo_K cd) (demo_ctx 1000000) (AccString cd demo_del) (ValString cd demo_val) (DefaultBondDenom, 10))
     (demo_state 100) = (Inr (), demo_locked cd)"
    using demo_lock [OF assms(1)] assms
    by (simp add: cacheCtx_def Msg_Lock_def MustAccAddressFromBech32_def MustValAddressFromBech32_def bindM_def)
qed

lemma demo_step_std: "tier_step_if rate_ok dev_ok (demo_K std_codec) demo_accounts (demo_state 100) (demo_locked std_codec)"
  by (rule demo_step) (simp_all add: std_codec_def addr_ok_def)

lemma demo_reach: "(tier_step_if rate_ok dev_ok (demo_K std_codec) demo_accounts)\<^sup>*\<^sup>* (demo_state 100) (demo_locked std_codec)"
  using demo_step_std by (rule r_into_rtranclp)

text \<open>C3: The stored total is the sum of the lockups. From a state where it is and where no lockup is
  negative, every sequence of transactions, begin and end blocks of the three modules, and of changes
  that other modules make to the external state, leads to such a state, provided that every slash it
  contains has a rate that is not negative. The code divides by the stake that is left after the slash
  (\<open>slash_rate\<close>), so the proviso says that no slash takes more of the module's stake with a validator than it
  leaves there. There is no condition on the other steps.\<close>

theorem lockups_total_reachable:
  assumes "dec_laws (decOps K)" and "(tier_step_if (\<lambda>r. 0 \<le> r) (\<lambda>_. True) K fk)\<^sup>*\<^sup>* s t" and "lockups_inv s"
  shows "GetTotalLockupsAmount t = kv_sum Amount (lockups t) \<and> (\<forall>p\<in>set (lockups t). 0 \<le> Amount (snd p)) \<and>
    GetLockupAmount d v t \<le> GetTotalLockupsAmount t"
proof -
  have "lockups_inv t" using lockups_total.reachable_keeps [OF assms(2)] assms(1,3) by blast
  then show ?thesis using lockup_le_total [of t d v] by (auto simp: lockups_inv_def)
qed

theorem lockups_total_reachable_witness:
  "tier_step_if (\<lambda>r. 0 \<le> r) (\<lambda>_. True) (demo_K std_codec) demo_accounts (demo_state 100) (demo_locked std_codec) \<and>
   GetTotalLockupsAmount (demo_locked std_codec) = 10 \<and> kv_sum Amount (lockups (demo_locked std_codec)) = 10"
proof -
  have "lockups_inv (demo_state 100)" by (simp add: lockups_inv_def demo_state_def GetTotalLockupsAmount_def)
  from lockups_total_reachable [OF _ demo_reach this] std_decs_laws
  have "GetTotalLockupsAmount (demo_locked std_codec) = kv_sum Amount (lockups (demo_locked std_codec))" by simp
  then show ?thesis using demo_step_std by (simp add: demo_locked_def newLockup_def)
qed

text \<open>C34: Stored parameters are valid. Whatever the authority submits, in every reachable state the
  stored parameters pass their validation.\<close>

theorem params_valid_reachable:
  assumes "(tier_step K fk)\<^sup>*\<^sup>* s t" and "params_inv s" and "tier_params t = Some p"
  shows "Params_Validate p = None"
  using stored_params.reachable_keeps [OF assms(1,2)] assms(3) by (simp add: params_inv_def)

theorem params_valid_reachable_witness:
  "tier_step (demo_K std_codec) demo_accounts (demo_state 100) (demo_locked std_codec) \<and>
   Params_Validate DefaultParams = None"
proof -
  have "params_inv (demo_state 100)"
    by (simp add: params_inv_def demo_state_def Params_Validate_None DefaultParams_def NewParams_def
        DefaultEpochDuration_def)
  moreover have "tier_params (demo_locked std_codec) = Some DefaultParams" by (simp add: demo_locked_def demo_state_def)
  ultimately show ?thesis
    using params_valid_reachable [OF demo_reach] demo_step_std by simp
qed

text \<open>A developer with 100 credits subscribes a user for 10 credits.\<close>

definition demo_dev :: "demo_chain tier_state" where
  "demo_dev = (demo_state 100)\<lparr>developers := [(DeveloperKey demo_del, \<lparr>dev_Address = ''acc'' @ demo_del, AutoLockEnabled = False\<rparr>)]\<rparr>"

definition demo_sub :: UserSubscription where
  "demo_sub = \<lparr>us_Developer = ''acc'' @ demo_del, UserDid = ''did:x'', CreditAmount = 10, us_Period = 60,
     StartDate = 1000000, LastRenewed = 1000000\<rparr>"

definition demo_allowance :: FeeAllowance where
  "demo_allowance = FPeriodic \<lparr>Basic = \<lparr>SpendLimit = Some [(MicroCreditDenom, 10)], Expiration = None\<rparr>,
     Period = 60 * Second, PeriodSpendLimit = [(MicroCreditDenom, 10)], PeriodCanSpend = [(MicroCreditDenom, 10)],
     PeriodReset = 1000000 + 60 * Second\<rparr>"

abbreviation demo_codec :: "(string \<Rightarrow> error + addr) \<Rightarrow> sdk_codec" where
  "demo_codec f \<equiv> std_codec\<lparr>AccFromBech32 := f\<rparr>"

definition demo_granted :: "demo_chain tier_state \<Rightarrow> demo_chain tier_state" where
  "demo_granted s = s\<lparr>fg_did_allowances := [(CHR 0x02 # pair_bytes demo_del ''did:x'',
       \<lparr>DIDGranter = ''acc'' @ demo_del, GranteeDid = ''did:x'', DIDAllowance = AnyValue demo_allowance\<rparr>)],
     events := events s @ [did_event ''set_did_feegrant'' (''acc'' @ demo_del) ''did:x'']\<rparr>"

lemma demo_grant:
  assumes "fg_did_allowances s = []"
  shows "grantPeriodicDIDAllowance (demo_K (demo_codec f)) (demo_ctx 1000000) demo_del ''did:x'' [(MicroCreditDenom, 10)]
    (60 * Second) s = (Inr (), demo_granted s)"
  by (simp add: grantPeriodicDIDAllowance_def UpdateDIDAllowance_def getDIDGrant_def FeeAllowanceByDIDKey_def
      FeeAllowancePrefixByDID_def std_codec_def assms bindM_def tryM_def GrantDIDAllowance_def GetDIDAllowance_def thenM_def
      Let_def spend_limit_def Basic_ExpiresAt_def Periodic_ExpiresAt_def demo_ctx_def NewDIDGrant_def NewAnyWithValue_def
      marshal_periodic_def marshal_basic_def expired_at_def setDIDGrant_def DIDFeeAllowanceKeyPrefix_def pair_bytes_def
      demo_granted_def demo_allowance_def time_ok_def zero_time_def max_time_def Second_def)

definition demo_subscribed :: "demo_chain tier_state" where
  "demo_subscribed =
     (let s = demo_granted (demo_dev\<lparr>user_subs := [(UserSubscriptionKey demo_del ''did:x'', demo_sub)]\<rparr>) in
      s\<lparr>dev_granted := [(TotalDevGrantedKey demo_del, \<lparr>tdg_Developer = ''acc'' @ demo_del, TotalGranted = 10\<rparr>)],
        events := events s @ [subscription_event ''user_subscription_created'' (''acc'' @ demo_del) ''did:x'' 10 60]\<rparr>)"

lemma AddUserSubscription_run:
  assumes "resolve_developer K ctx d0 s = (Inr d, s)" and "GetUserSubscription d u s = None" and "GetDeveloper d s = Some dev"
    and "validateDeveloperCredits K d a s = None"
    and "SetUserSubscription K d u \<lparr>us_Developer = AccString (codec K) d, UserDid = u, CreditAmount = a, us_Period = n,
       StartDate = BlockTime ctx, LastRenewed = BlockTime ctx\<rparr> s = (Inr (), s1)"
    and "NewCoins (coinOps K) MicroCreditDenom a = Inr lim" and "grant_period n s1 = (Inr p, s1)"
    and "grantPeriodicDIDAllowance K ctx d u lim p s1 = (Inr (), s2)"
    and "updateDeveloperTotalGranted K d a True s2 = (Inr (), s3)"
  shows "AddUserSubscription K ctx d0 u a n s =
    (Inr (), s3\<lparr>events := events s3 @ [subscription_event ''user_subscription_created'' (AccString (codec K) d) u a n]\<rparr>)"
  using assms by (simp add: AddUserSubscription_def bindM_def thenM_def tryM_def Let_def)

lemma demo_subscribe:
  "AddUserSubscription (demo_K (demo_codec f)) (demo_ctx 1000000) demo_del ''did:x'' 10 60 demo_dev = (Inr (), demo_subscribed)"
proof -
  let ?K = "demo_K (demo_codec f)" and ?s1 = "demo_dev\<lparr>user_subs := [(UserSubscriptionKey demo_del ''did:x'', demo_sub)]\<rparr>"
  have sub: "demo_sub = \<lparr>us_Developer = AccString (codec ?K) demo_del, UserDid = ''did:x'', CreditAmount = 10, us_Period = 60,
      StartDate = BlockTime (demo_ctx 1000000), LastRenewed = BlockTime (demo_ctx 1000000)\<rparr>"
    by (simp add: demo_sub_def std_codec_def demo_ctx_def)
  have w: "SetUserSubscription ?K demo_del ''did:x'' demo_sub demo_dev = (Inr (), ?s1)"
    by (simp add: SetUserSubscription_def mustTimes_def demo_sub_def std_codec_def demo_dev_def demo_state_def thenM_def
        bindM_def time_ok_def zero_time_def max_time_def)
  have p: "grant_period 60 ?s1 = (Inr (60 * Second), ?s1)"
    by (simp add: grant_period_def Let_def i64_def Second_def)
  have g: "grantPeriodicDIDAllowance ?K (demo_ctx 1000000) demo_del ''did:x'' [(MicroCreditDenom, 10)] (60 * Second) ?s1 =
      (Inr (), demo_granted ?s1)"
    by (rule demo_grant) (simp add: demo_dev_def demo_state_def)
  have u: "updateDeveloperTotalGranted ?K demo_del 10 True (demo_granted ?s1) =
      (Inr (), (demo_granted ?s1)\<lparr>dev_granted := [(TotalDevGrantedKey demo_del,
         \<lparr>tdg_Developer = ''acc'' @ demo_del, TotalGranted = 10\<rparr>)]\<rparr>)"
    by (simp add: updateDeveloperTotalGranted_run granted_end_def set_granted_def getTotalDevGranted_def demo_granted_def
        demo_dev_def demo_state_def is_u64_def is_i64_def std_codec_def)
  have r: "resolve_developer ?K (demo_ctx 1000000) demo_del demo_dev = (Inr demo_del, demo_dev)"
    "GetUserSubscription demo_del ''did:x'' demo_dev = None"
    "GetDeveloper demo_del demo_dev = Some \<lparr>dev_Address = ''acc'' @ demo_del, AutoLockEnabled = False\<rparr>"
    "validateDeveloperCredits ?K demo_del 10 demo_dev = None" "NewCoins (coinOps ?K) MicroCreditDenom 10 = Inr [(MicroCreditDenom, 10)]"
    by (simp_all add: resolve_developer_def demo_ctx_def GetUserSubscription_def GetDeveloper_def demo_dev_def demo_state_def
        validateDeveloperCredits_def getTotalDevGranted_def std_coins_def)
  show ?thesis
    using AddUserSubscription_run [OF r(1-4) w [unfolded sub] r(5) p [unfolded sub] g [unfolded sub] u [unfolded sub]]
    unfolding sub [symmetric] by (simp add: demo_subscribed_def Let_def std_codec_def)
qed

lemma demo_subscribe_reach:
  assumes "f (''acc'' @ demo_del) = Inr demo_del" and "dev_ok demo_del"
  shows "(tier_step_if rate_ok dev_ok (demo_K (demo_codec f)) demo_accounts)\<^sup>*\<^sup>* demo_dev demo_subscribed"
proof (rule r_into_rtranclp, rule tier_step_if.add_subscription [where ctx = "demo_ctx 1000000"])
  show "MsgAddUserSubscription_ValidateBasic (codec (demo_K (demo_codec f))) (''acc'' @ demo_del) ''did:x'' 10 60 = None"
    using assms by (simp add: MsgAddUserSubscription_ValidateBasic_def first_err_None validateAccAddr_def user_did_err_def)
  show "cacheCtx (Msg_AddUserSubscription (demo_K (demo_codec f)) (demo_ctx 1000000) (''acc'' @ demo_del) ''did:x'' 10 60) demo_dev
     = (Inr (), demo_subscribed)"
    using assms demo_subscribe [of f]
    by (simp add: cacheCtx_def Msg_AddUserSubscription_def MustAccAddressFromBech32_def bindM_def)
qed (use assms in \<open>simp_all add: is_u64_def ctx_ok_def demo_ctx_def time_ok_def zero_time_def max_time_def\<close>)



text \<open>C12: The DID queue stays consistent under the subscriptions too. The tier module grants, updates
  and expires the allowances of subscribed DIDs by calling the feegrant keeper; in every reachable
  state the queue still holds exactly one entry for every DID grant that expires.\<close>

theorem subscriptions_keep_did_queue:
  assumes "allowance_laws K" and "(tier_step K fk)\<^sup>*\<^sup>* s t" and "did_queue_inv (codec K) s"
  shows "did_queue_inv (codec K) t"
  using sub_queue.reachable_keeps [OF assms(2)] assms(1,3) by simp

theorem subscriptions_keep_did_queue_witness:
  "did_queue_inv std_codec demo_subscribed \<and> fg_did_allowances demo_subscribed \<noteq> []"
proof -
  have c: "std_codec = demo_codec (AccFromBech32 std_codec)" by (simp add: std_codec_def)
  have "(tier_step (demo_K std_codec) demo_accounts)\<^sup>*\<^sup>* demo_dev demo_subscribed"
    using demo_subscribe_reach [of "AccFromBech32 std_codec"] unfolding c [symmetric]
    by (simp add: std_codec_def addr_ok_def)
  moreover have "did_queue_inv (codec (demo_K std_codec)) demo_dev"
    by (simp add: did_queue_inv_def demo_dev_def demo_state_def)
  moreover have "allowance_laws (demo_K std_codec)"
    using std_prefix_laws std_time_laws std_address_laws std_did_laws by (simp add: allowance_laws_def)
  ultimately show ?thesis
    using subscriptions_keep_did_queue [of "demo_K std_codec" demo_accounts demo_dev demo_subscribed]
    by (simp add: demo_subscribed_def demo_granted_def Let_def)
qed

end
