(* ===== verification/Credit_Props.thy ===== *)
theory Credit_Props
  imports Tier_Props
begin

text \<open>
  Properties of credits: what a lock earns, that splitting a lock never pays, what proration does, and
  the reset of all credits at the start of an epoch.
\<close>

definition rates_pos :: "Rate list \<Rightarrow> bool" where
  "rates_pos rates \<longleftrightarrow> (\<forall>r\<in>set rates. 0 < rate_Rate r)"

lemma valid_rates_pos: "Params_Validate p = None \<Longrightarrow> rates_pos (RewardRates p)"
  by (simp add: Params_Validate_None rates_pos_def)

text \<open>C17: The credit of a lock is the rate table applied to each unit of stake. \<open>rate_at\<close> is the
  percentage that the unit at a height of the stack earns: the rate of the first entry of the table
  whose amount it reaches. The credit is the sum of these percentages over the units being locked,
  rounded down at most once per entry of the table.\<close>

theorem credit_matches_rates:
  assumes "dec_laws dc" and "rates_pos rates" and "0 \<le> locking"
  shows "100 * calculateCredit dc rates locked locking \<le> (\<Sum>u\<in>{locked..<locked + locking}. rate_at rates u) \<and>
    (\<Sum>u\<in>{locked..<locked + locking}. rate_at rates u) \<le>
      100 * calculateCredit dc rates locked locking + 99 * int (length rates)"
  using tier_sum_rate_at [of locked "locked + locking" rates] assms
  by (simp add: calculateCredit_sum rates_pos_def)

theorem credit_matches_rates_witness:
  "100 * calculateCredit std_decs (RewardRates DefaultParams) 90 120 \<le>
     (\<Sum>u\<in>{90..<210}. rate_at (RewardRates DefaultParams) u) \<and>
   calculateCredit std_decs (RewardRates DefaultParams) 90 120 = 132"
proof -
  have "rates_pos (RewardRates DefaultParams)" by (simp add: rates_pos_def DefaultParams_def NewParams_def)
  from credit_matches_rates [OF std_decs_laws this, of 120 90] show ?thesis
    by (simp add: calculateCredit_def DefaultParams_def NewParams_def std_decs_def dec_one_def quo_def Let_def)
qed

text \<open>Splitting a lock never earns more than locking the same stake at once.\<close>

theorem split_lock_no_gain:
  assumes "dec_laws dc" and "rates_pos rates" and "0 \<le> a" and "0 \<le> b"
  shows "calculateCredit dc rates locked a + calculateCredit dc rates (locked + a) b \<le>
    calculateCredit dc rates locked (a + b)"
  using tier_sum_split [of locked "locked + a" "locked + a + b" rates] assms
  by (simp add: calculateCredit_sum rates_pos_def add.assoc)

theorem split_lock_no_gain_witness:
  "calculateCredit std_decs [\<lparr>rate_Amount = 0, rate_Rate = 150\<rparr>] 0 1 +
     calculateCredit std_decs [\<lparr>rate_Amount = 0, rate_Rate = 150\<rparr>] (0 + 1) 1 \<le>
   calculateCredit std_decs [\<lparr>rate_Amount = 0, rate_Rate = 150\<rparr>] 0 (1 + 1) \<and>
   calculateCredit std_decs [\<lparr>rate_Amount = 0, rate_Rate = 150\<rparr>] 0 2 = 3"
  using split_lock_no_gain [OF std_decs_laws, of "[\<lparr>rate_Amount = 0, rate_Rate = 150\<rparr>]" 1 1 0]
  by (simp add: rates_pos_def calculateCredit_def std_decs_def dec_one_def quo_def)

lemma prorated_at_start: "0 \<le> dur \<Longrightarrow> calculateProratedCredit dc rates locked locking now now dur = 0"
  using pos_imp_zdiv_nonneg_iff [of "10 ^ 6" dur]
  by (auto simp: calculateProratedCredit_def Let_def Milliseconds_def time_sub_def quo_nonneg)

lemma prorated_at_end:
  assumes "10 ^ 6 \<le> dur" and "is_i64 dur" and "start + dur \<le> now"
  shows "calculateProratedCredit dc rates locked locking start now dur = calculateCredit dc rates locked locking"
proof -
  have le: "dur \<le> time_sub now start" using assms by (auto simp: time_sub_def is_i64_def)
  have "Milliseconds dur \<le> Milliseconds (time_sub now start)"
    using le assms(1) zdiv_mono1 [OF le, of "10 ^ 6"] by (simp add: Milliseconds_def quo_nonneg)
  moreover have "0 < Milliseconds dur"
    using assms(1) by (simp add: Milliseconds_def quo_nonneg pos_imp_zdiv_pos_iff)
  ultimately show ?thesis by (simp add: calculateProratedCredit_def Let_def)
qed

text \<open>A prorated credit lies between nothing and the full credit; it is nothing at the start of
  the epoch and the full credit once the epoch is over.\<close>

theorem prorated_credit_bounds:
  assumes "dec_laws dc" and "rates_pos rates" and "0 \<le> locking" and "start \<le> now" and "10 ^ 6 \<le> dur" and "is_i64 dur"
  shows "0 \<le> calculateProratedCredit dc rates locked locking start now dur \<and>
    calculateProratedCredit dc rates locked locking start now dur \<le> calculateCredit dc rates locked locking \<and>
    calculateProratedCredit dc rates locked locking start start dur = 0 \<and>
    calculateProratedCredit dc rates locked locking start (start + dur) dur = calculateCredit dc rates locked locking"
proof -
  have "0 \<le> dur" using assms(5) by simp
  then show ?thesis
    using calculateProratedCredit_bounds [OF assms(1) _ assms(3,4)] assms(2) prorated_at_start
      prorated_at_end [OF assms(5,6) order_refl] by (simp add: rates_pos_def)
qed

theorem prorated_credit_bounds_witness:
  "0 \<le> calculateProratedCredit std_decs (RewardRates DefaultParams) 0 10 0 1000000 2000000 \<and>
   calculateProratedCredit std_decs (RewardRates DefaultParams) 0 10 0 1000000 2000000 \<le>
     calculateCredit std_decs (RewardRates DefaultParams) 0 10 \<and>
   calculateProratedCredit std_decs (RewardRates DefaultParams) 0 10 0 1000000 2000000 = 5"
proof -
  have "rates_pos (RewardRates DefaultParams)" by (simp add: rates_pos_def DefaultParams_def NewParams_def)
  from prorated_credit_bounds [OF std_decs_laws this, of 10 0 1000000 2000000 0] demo_credit show ?thesis
    by (simp add: is_i64_def)
qed

text \<open>C16: The start of an epoch resets the credits. Burning all credits and resetting them succeeds and
  leaves every delegator with exactly the credit of its stake, lockups and insured parts together,
  whatever it held before and in whatever order Go ranges over the map of stakes; the stored total is
  the sum. The delegators are ordinary accounts of the bank, each earns some credit, and the total
  fits an \<open>int64\<close>.\<close>

theorem epoch_resets_credits:
  assumes "coin_laws (coinOps K)" and "address_laws (codec K)" and "bank_laws K A"
    and "\<And>xs. mset (mapOrder K xs) = mset xs"
    and "keys_parse LockupKeyToAddresses (lockups s)" and "delegators (lockups s) \<subseteq> A"
    and "\<forall>d\<in>delegators (lockups s). 0 < calculateCredit (decOps K) (RewardRates (GetParams s)) 0 (staked d s)"
    and "is_i64 (\<Sum>d\<in>delegators (lockups s). calculateCredit (decOps K) (RewardRates (GetParams s)) 0 (staked d s))"
  shows "\<exists>t. thenM (burnAllCredits K) (resetAllCredits K) s = (Inr (), t) \<and>
    (\<forall>d\<in>delegators (lockups s).
       GetBalance K d MicroCreditDenom (ext t) = calculateCredit (decOps K) (RewardRates (GetParams s)) 0 (staked d s)) \<and>
    getTotalCreditAmount t =
      (\<Sum>d\<in>delegators (lockups s). calculateCredit (decOps K) (RewardRates (GetParams s)) 0 (staked d s)) \<and>
    lockups t = lockups s"
proof -
  obtain x where x: "burnAllCredits K s = (Inr (), s\<lparr>ext := x, total_credits := Some 0\<rparr>)"
    "\<And>b. b \<in> delegators (lockups s) \<Longrightarrow> credits K x b = 0"
    using burnAllCredits_run [OF assms(1,3,5,6)] by auto
  let ?s = "s\<lparr>ext := x, total_credits := Some 0\<rparr>"
  have same: "lockups ?s = lockups s" "staked d ?s = staked d s" "GetParams ?s = GetParams s" for d
    by (simp_all add: staked_def GetParams_def)
  let ?c = "\<lambda>d. calculateCredit (decOps K) (RewardRates (GetParams s)) 0 (staked d s)"
  obtain y where y: "resetAllCredits K ?s = (Inr (), ?s\<lparr>ext := y, total_credits := Some (\<Sum>d\<in>delegators (lockups s). ?c d)\<rparr>)"
    "\<And>b. addr_ok b \<Longrightarrow> credits K y b = credits K x b + (if b \<in> delegators (lockups s) then ?c b else 0)"
    using resetAllCredits_run [OF assms(1-4), of ?s] assms(5-8) unfolding same by auto
  have "0 \<le> (\<Sum>d\<in>delegators (lockups s). ?c d)" using assms(7) by (intro sum_nonneg) (simp add: less_imp_le)
  then show ?thesis
    using x y delegators_ok [OF assms(5)] by (simp add: thenM_def bindM_def getTotalCreditAmount_def)
qed

lemma demo_locked_stake:
  "keys_parse LockupKeyToAddresses (lockups (demo_locked cd))" "delegators (lockups (demo_locked cd)) = {demo_del}"
  "staked demo_del (demo_locked cd) = 10" "GetParams (demo_locked cd) = DefaultParams"
proof -
  have p: "LockupKeyToAddresses (LockupKey demo_del demo_val) = Some (demo_del, demo_val)"
    using lockup_key.unmk_mk [of "(demo_del, demo_val)"] by (simp add: addr20_def)
  show "keys_parse LockupKeyToAddresses (lockups (demo_locked cd))" using p by (simp add: demo_locked_def keys_parse_def)
  show "delegators (lockups (demo_locked cd)) = {demo_del}" using p by (simp add: demo_locked_def owner_def)
  show "staked demo_del (demo_locked cd) = 10"
    using p by (simp add: staked_def demo_locked_def demo_state_def owner_def newLockup_def)
  show "GetParams (demo_locked cd) = DefaultParams" by (simp add: demo_locked_def demo_state_def GetParams_def)
qed

theorem epoch_resets_credits_witness:
  "\<exists>t. thenM (burnAllCredits (demo_K std_codec)) (resetAllCredits (demo_K std_codec)) (demo_locked std_codec) = (Inr (), t) \<and>
     bal (ext (demo_locked std_codec)) demo_del MicroCreditDenom = 105 \<and>
     GetBalance (demo_K std_codec) demo_del MicroCreditDenom (ext t) = 10"
proof -
  let ?K = "demo_K std_codec" and ?s = "demo_locked std_codec"
  have c: "calculateCredit std_decs (RewardRates DefaultParams) 0 10 = 10"
    by (simp add: calculateCredit_def DefaultParams_def NewParams_def std_decs_def dec_one_def quo_def Let_def)
  have "\<exists>t. thenM (burnAllCredits ?K) (resetAllCredits ?K) ?s = (Inr (), t) \<and>
      GetBalance ?K demo_del MicroCreditDenom (ext t) = 10"
    using epoch_resets_credits [of ?K "- {TierModuleName}" ?s] std_coins_laws std_address_laws demo_bank_laws [of std_codec]
      demo_locked_stake [of std_codec] c by (auto simp: TierModuleName_def is_i64_def)
  moreover have "bal (ext ?s) demo_del MicroCreditDenom = 105"
    by (simp add: demo_locked_def demo_paid_def add_coins_def sub_coins_def demo_state_def MicroCreditDenom_def
        DefaultBondDenom_def TierModuleName_def)
  ultimately show ?thesis by blast
qed

end
