(* ===== verification/Stake_Props.thy ===== *)
theory Stake_Props
  imports Credit_Props
begin

text \<open>
  What the staking methods do to the records of the module, on success and on failure.
\<close>

section \<open>Effects of a method\<close>

definition same_stake :: "('x, 'z) tier_state_scheme \<Rightarrow> ('x, 'z) tier_state_scheme \<Rightarrow> bool" where
  "same_stake s t \<longleftrightarrow> lockups t = lockups s \<and> insurance t = insurance s \<and> unlockings t = unlockings s \<and>
     total_lockups t = total_lockups s"

lemma same_stake_indep: "indep_ext (same_stake s)" "indep_credits (same_stake s)"
  by (auto simp: indep_defs same_stake_def)

lemma same_stake_refl [simp]: "same_stake s s"
  by (simp add: same_stake_def)

lemma same_stakeD:
  assumes "same_stake s t"
  shows "GetLockupAmount d v t = GetLockupAmount d v s" "GetTotalLockupsAmount t = GetTotalLockupsAmount s"
    "lockups t = lockups s" "insurance t = insurance s" "unlockings t = unlockings s"
    "getInsuranceLockupAmount d v t = getInsuranceLockupAmount d v s" "lockups_inv t = lockups_inv s"
    "GetUnlockingLockup d v h t = GetUnlockingLockup d v h s" "hasLockup d v t = hasLockup d v s"
  using assms by (simp_all add: same_stake_def GetLockupAmount_def GetTotalLockupsAmount_def
      getInsuranceLockupAmount_def lockups_inv_def GetUnlockingLockup_def hasLockup_def)

lemmas same_stake_rules = keeps_rules frame_setTotalCredit frame_mintCredit same_stake_indep

lemma extM_state: "extM m s = (r, t) \<Longrightarrow> \<exists>y. t = s\<lparr>ext := y\<rparr>"
  by (auto simp: extM_def split: prod.splits)

lemma mintCredit_pos: "mintCredit K d c s = (Inr x, t) \<Longrightarrow> 0 < c"
  by (auto simp: mintCredit_def bindM_Inr_iff split: if_splits)

lemma bindM_liftE_run: "bindM (liftE r) f s = (case r of Inl e \<Rightarrow> (Inl e, s) | Inr x \<Rightarrow> f x s)"
  by (cases r) (simp_all add: bindM_def)

lemma bindM_try_extR:
  "bindM (tryM (extR g)) f s =
     (case g (ext s) of Inl e \<Rightarrow> if is_panic e then (Inl e, s) else f (Inl e) s | Inr x \<Rightarrow> f (Inr x) s)"
  by (cases "g (ext s)") (simp_all add: bindM_def tryM_def)

lemma bindM_extR_run: "bindM (extR g) f s = (case g (ext s) of Inl e \<Rightarrow> (Inl e, s) | Inr x \<Rightarrow> f x s)"
  by (cases "g (ext s)") (simp_all add: bindM_def)

lemmas bind_runs = bindM_liftE_run bindM_try_extR bindM_extR_run

lemma Lock_Inr:
  assumes "Lock K ctx d v a s = (Inr x, t)"
  obtains y c x3 s1 s2 where "0 < a" "proratedCredit K ctx d a (s\<lparr>ext := y\<rparr>) = (Inr c, x3)" "0 < c"
    "same_stake s s1" "AddLockup K d v a s1 = (Inr (), s2)" "same_stake s2 t"
proof -
  have a: "0 < a" using assms by (simp add: Lock_def split: if_splits)
  obtain val cs where "bindM (extM (DelegateCoinsFromAccountToModule K d TierModuleName cs)) (\<lambda>_.
      bindM (extM (Delegate K (ModuleAddress K TierModuleName) a Unbonded val True)) (\<lambda>_.
      bindM (proratedCredit K ctx d a) (\<lambda>c. bindM (mintCredit K d c) (\<lambda>_. bindM (AddLockup K d v a) (\<lambda>_.
      bindM (getM getTotalCreditAmount) (\<lambda>tc. bindM (setTotalCreditAmount (tc + c)) (\<lambda>_.
      EmitEvent (''lock'', [(''delegator'', AccString (codec K) d), (''validator'', ValString (codec K) v),
                  (''amount'', itoa a), (''credit_amount'', itoa c)])))))))) s = (Inr x, t)"
    using assms a by (simp add: Lock_def thenM_def bind_runs split: sum.splits if_splits)
  then obtain u1 x1 u2 x2 c x3 u4 s1 s2 s3 u5 where
    m: "extM (DelegateCoinsFromAccountToModule K d TierModuleName cs) s = (Inr u1, x1)"
      "extM (Delegate K (ModuleAddress K TierModuleName) a Unbonded val True) x1 = (Inr u2, x2)"
      "proratedCredit K ctx d a x2 = (Inr c, x3)" "mintCredit K d c x3 = (Inr u4, s1)"
      "AddLockup K d v a s1 = (Inr (), s2)" "setTotalCreditAmount (getTotalCreditAmount s2 + c) s2 = (Inr u5, s3)"
      "EmitEvent (''lock'', [(''delegator'', AccString (codec K) d), (''validator'', ValString (codec K) v),
                  (''amount'', itoa a), (''credit_amount'', itoa c)]) s3 = (Inr x, t)"
    by (elim bindM_InrE) simp
  have k: "keeps (same_stake s) (extM m)" "keeps (same_stake s) (proratedCredit K ctx d a)" "keeps (same_stake s) (mintCredit K d n)"
    "keeps (same_stake s2) (setTotalCreditAmount n)" "keeps (same_stake s2) (EmitEvent e)" for m :: "('a, 'f) M" and n e
    by (intro same_stake_rules)+
  have s1: "same_stake s s1"
    using keepsD_Inr [OF k(3) keepsD_Inr [OF k(2) keepsD_Inr [OF k(1) keepsD_Inr [OF k(1) same_stake_refl m(1)] m(2)] m(3)] m(4)] .
  have s2: "same_stake s2 t" using keepsD_Inr [OF k(5) keepsD_Inr [OF k(4) same_stake_refl m(6)] m(7)] .
  obtain y where y: "x2 = s\<lparr>ext := y\<rparr>"
    using extM_state [OF m(1)] extM_state [OF m(2)] by auto
  show ?thesis
  proof (rule that)
    show "proratedCredit K ctx d a (s\<lparr>ext := y\<rparr>) = (Inr c, x3)" using m(3) y by simp
    show "0 < c" using m(4) by (rule mintCredit_pos)
    show "AddLockup K d v a s1 = (Inr (), s2)" by (rule m(5))
  qed (rule a s1 s2)+
qed

lemma AddLockup_Inr:
  assumes "AddLockup K d v a s = (Inr x, t)"
  shows "t = s\<lparr>total_lockups := Some (GetTotalLockupsAmount s + a),
      lockups := kv_set (LockupKey d v) (newLockup K d v (GetLockupAmount d v s + a)) (lockups s)\<rparr>"
  using assms by (auto simp: AddLockup_run Let_def split: if_splits)

lemma total_ge_0: "0 \<le> GetTotalLockupsAmount s"
  by (simp add: GetTotalLockupsAmount_def split: option.splits)

lemma AddLockup_effect:
  assumes "AddLockup K d v a s = (Inr x, t)" and "0 < a"
  shows "GetLockupAmount d v t = GetLockupAmount d v s + a" "GetTotalLockupsAmount t = GetTotalLockupsAmount s + a"
    "k \<noteq> LockupKey d v \<Longrightarrow> kv_get (lockups t) k = kv_get (lockups s) k" "unlockings t = unlockings s" "insurance t = insurance s"
  using AddLockup_Inr [OF assms(1)] assms(2) total_ge_0 [of s]
  by (auto simp: GetLockupAmount_def GetTotalLockupsAmount_def split: option.splits)

text \<open>A lock adds its amount to the lockup of the delegator with the validator and to the total,
  and changes no other lockup, unlocking or insurance record.\<close>

theorem lock_effect:
  assumes "Lock K ctx d v a s = (Inr x, t)"
  shows "0 < a \<and> GetLockupAmount d v t = GetLockupAmount d v s + a \<and>
    GetTotalLockupsAmount t = GetTotalLockupsAmount s + a \<and>
    (k \<noteq> LockupKey d v \<longrightarrow> kv_get (lockups t) k = kv_get (lockups s) k) \<and>
    unlockings t = unlockings s \<and> insurance t = insurance s"
  using assms
proof (rule Lock_Inr)
  fix s1 s2 :: "('a, 'b) tier_state_scheme"
  assume a: "0 < a" and l: "same_stake s s1" "AddLockup K d v a s1 = (Inr (), s2)" "same_stake s2 t"
  then show ?thesis
    using AddLockup_effect [OF l(2) a] same_stakeD [OF l(1)] same_stakeD [OF l(3)] by simp
qed

theorem lock_effect_witness:
  "fst (Lock (demo_K std_codec) (demo_ctx 1000000) demo_del demo_val 10 (demo_state 100)) = Inr () \<and>
   GetLockupAmount demo_del demo_val (demo_locked std_codec) = GetLockupAmount demo_del demo_val (demo_state 100) + 10"
proof -
  have "AccFromBech32 std_codec (AccString std_codec demo_del) = Inr demo_del" by (simp add: std_codec_def addr_ok_def)
  from lock_effect [OF demo_lock [OF this]] demo_lock [OF this] show ?thesis by simp
qed

section \<open>Failures of a lock\<close>

lemma cacheCtx_fail: "(\<And>x t. m s = (Inr x, t) \<Longrightarrow> False) \<Longrightarrow> \<exists>e. cacheCtx m s = (Inl e, s)"
  by (cases "m s"; cases "fst (m s)") (auto simp: cacheCtx_def)

text \<open>A lock that earns no credit fails. When the prorated credit is zero, as it is for every amount
  at the start of an epoch, the message fails whatever the bank and staking modules answer, and leaves
  the state as it was.\<close>

theorem lock_without_credit_fails:
  assumes "keys_parse LockupKeyToAddresses (lockups s)" and "keys_parse LockupKeyToAddresses (insurance s)"
    and "calculateProratedCredit (decOps K) (RewardRates (GetParams s)) (owned d (lockups s) + owned d (insurance s)) a
       (CurrentEpochStartTime (GetEpochInfo EpochIdentifier s)) (BlockTime ctx)
       (Duration (GetEpochInfo EpochIdentifier s)) \<le> 0"
  shows "\<exists>e. cacheCtx (Lock K ctx d v a) s = (Inl e, s)"
proof (rule cacheCtx_fail)
  fix x t
  assume "Lock K ctx d v a s = (Inr x, t)"
  then show False
  proof (rule Lock_Inr)
    fix y c x3
    assume "proratedCredit K ctx d a (s\<lparr>ext := y\<rparr>) = (Inr c, x3)" "0 < c"
    then show False
      using proratedCredit_run [of "s\<lparr>ext := y\<rparr>" K ctx d a] assms by (simp add: GetParams_def GetEpochInfo_def)
  qed
qed

theorem lock_without_credit_fails_witness:
  "\<exists>e. cacheCtx (Lock (demo_K std_codec) (demo_ctx 0) demo_del demo_val 10) (demo_state 100) = (Inl e, demo_state 100)"
proof (rule lock_without_credit_fails)
  show "calculateProratedCredit (decOps (demo_K std_codec)) (RewardRates (GetParams (demo_state 100)))
     (owned demo_del (lockups (demo_state 100)) + owned demo_del (insurance (demo_state 100))) 10
     (CurrentEpochStartTime (GetEpochInfo EpochIdentifier (demo_state 100))) (BlockTime (demo_ctx 0))
     (Duration (GetEpochInfo EpochIdentifier (demo_state 100))) \<le> 0"
    using prorated_at_start [of 2000000 std_decs "RewardRates DefaultParams" 0 10 0]
    by (simp add: demo_state_def GetParams_def GetEpochInfo_def demo_epoch_def demo_ctx_def)
qed (simp_all add: demo_state_def)

section \<open>Unlocking\<close>

lemma if_fail_Inr: "(if b then fail e else m) s = (Inr x, t) \<longleftrightarrow> \<not> b \<and> m s = (Inr x, t)"
  by simp

lemma extR_Inr: "extR g s = (Inr x, t) \<longleftrightarrow> g (ext s) = Inr x \<and> t = s"
  by auto

lemmas inr_iffs = thenM_Inr_iff bindM_Inr_iff [of "extM _"] bindM_Inr_iff [of "extR _"] if_fail_Inr extR_Inr

lemma Unlock_Inr:
  assumes "Unlock K ctx d v a s = (Inr r, t)"
  obtains s1 s2 y dur amt ct s3 ev where "0 < a" "subtractLockup K d v a s = (Inr (), s1)"
    "s2 = (if hasLockup d v s1 then s1 else s1\<lparr>insurance := kv_del (LockupKey d v) (insurance s1)\<rparr>)"
    "EpochDuration (GetParams s2) = Some dur" "amt \<le> a"
    "SetUnlockingLockup K d v (BlockHeight ctx) amt ct (BlockTime ctx + i64 (dur * UnlockingEpochs (GetParams s2)))
       (s2\<lparr>ext := y\<rparr>) = (Inr (), s3)"
    "t = s3\<lparr>events := events s3 @ [ev]\<rparr>" "r = (BlockHeight ctx, ct, BlockTime ctx + i64 (dur * UnlockingEpochs (GetParams s2)))"
proof -
  have a: "0 < a" using assms by (simp add: Unlock_def split: if_splits)
  from assms a obtain s1 s2 sh x3 ct ra where s1: "subtractLockup K d v a s = (Inr (), s1)"
    and s2: "(if hasLockup d v s1 then ret () else removeInsuranceLockup d v) s1 = (Inr (), s2)"
    and x3: "extM (Undelegate K (ModuleAddress K TierModuleName) v sh) s2 = (Inr (ct, ra), x3)"
    and rest: "(let amt = (if ra < a then ra else a) in
            bindM (getM GetParams) (\<lambda>params.
            case EpochDuration params of
              None \<Rightarrow> panicM ''nil pointer dereference''
            | Some epochDuration \<Rightarrow>
                let creationHeight = BlockHeight ctx;
                    unlockTime = BlockTime ctx + i64 (epochDuration * UnlockingEpochs params) in
                thenM (SetUnlockingLockup K d v creationHeight amt ct unlockTime)
                (thenM
                  (EmitEvent (''unlock'',
                     [(''delegator'', AccString (codec K) d), (''validator'', ValString (codec K) v),
                      (''creation_height'', itoa creationHeight), (''amount'', itoa amt),
                      (''completion_time'', Rfc3339 K ct), (''unlock_time'', Rfc3339 K unlockTime)]))
                (ret (creationHeight, ct, unlockTime))))) x3 = (Inr r, t)"
    unfolding Unlock_def Let_def [of "ModuleAddress K TierModuleName"]
    by (simp add: inr_iffs del: if_split) blast
  obtain y where y: "x3 = s2\<lparr>ext := y\<rparr>" using extM_state [OF x3] by blast
  have s2': "s2 = (if hasLockup d v s1 then s1 else s1\<lparr>insurance := kv_del (LockupKey d v) (insurance s1)\<rparr>)"
    using s2 by (auto simp: removeInsuranceLockup_def split: if_splits)
  have p: "GetParams x3 = GetParams s2" by (simp add: y GetParams_def)
  obtain dur where dur: "EpochDuration (GetParams s2) = Some dur"
    using rest by (cases "EpochDuration (GetParams s2)") (auto simp: Let_def p)
  then obtain s3 where s3: "SetUnlockingLockup K d v (BlockHeight ctx) (if ra < a then ra else a) ct
      (BlockTime ctx + i64 (dur * UnlockingEpochs (GetParams s2))) x3 = (Inr (), s3)"
    "\<exists>ev. t = s3\<lparr>events := events s3 @ [ev]\<rparr>"
    "r = (BlockHeight ctx, ct, BlockTime ctx + i64 (dur * UnlockingEpochs (GetParams s2)))"
    using rest by (auto simp: Let_def p thenM_Inr_iff simp del: if_split)
  show ?thesis
    using that [OF a s1 s2' dur, of "if ra < a then ra else a" ct y s3] s3 unfolding y by auto
qed

lemma subtractLockup_Inr:
  assumes "subtractLockup K d v a s = (Inr x, t)"
  obtains l where "GetLockup d v s = Some l" "a + getInsuranceLockupAmount d v s \<le> Amount l"
    "t = s\<lparr>total_lockups := Some (GetTotalLockupsAmount s - a),
           lockups := (if a = Amount l then kv_del (LockupKey d v) (lockups s)
                       else kv_set (LockupKey d v) (newLockup K d v (Amount l - a)) (lockups s))\<rparr>"
  using assms
  by (auto simp: subtractLockup_run Let_def dest!: SafeSub_Inr split: option.splits if_splits sum.splits)

lemma subtractLockup_effect:
  assumes "subtractLockup K d v a s = (Inr x, t)" and "lockups_inv s"
  shows "a + getInsuranceLockupAmount d v s \<le> GetLockupAmount d v s"
    "GetLockupAmount d v t = GetLockupAmount d v s - a" "GetTotalLockupsAmount t = GetTotalLockupsAmount s - a"
    "k \<noteq> LockupKey d v \<Longrightarrow> kv_get (lockups t) k = kv_get (lockups s) k" "unlockings t = unlockings s" "insurance t = insurance s"
proof -
  obtain l where l: "GetLockup d v s = Some l" "a + getInsuranceLockupAmount d v s \<le> Amount l"
    and t: "t = s\<lparr>total_lockups := Some (GetTotalLockupsAmount s - a),
           lockups := (if a = Amount l then kv_del (LockupKey d v) (lockups s)
                       else kv_set (LockupKey d v) (newLockup K d v (Amount l - a)) (lockups s))\<rparr>"
    using assms(1) by (rule subtractLockup_Inr)
  note g = GetLockup_amount [OF l(1)] insurance_amount_nonneg [OF assms(2), of d v] lockup_le_total [OF assms(2), of d v]
  show "a + getInsuranceLockupAmount d v s \<le> GetLockupAmount d v s" using l(2) g by simp
  show "GetLockupAmount d v t = GetLockupAmount d v s - a" using g(1) by (simp add: t GetLockupAmount_def)
  show "GetTotalLockupsAmount t = GetTotalLockupsAmount s - a" using g l(2) by (simp add: t GetTotalLockupsAmount_def)
qed (use assms(1) in \<open>auto elim!: subtractLockup_Inr\<close>)

lemma SetUnlockingLockup_Inr:
  "SetUnlockingLockup K d v h a ct ut s = (Inr x, t) \<Longrightarrow>
     t = s\<lparr>unlockings := kv_set (UnlockingLockupKey d v h)
       \<lparr>ul_DelegatorAddress = AccString (codec K) d, ul_ValidatorAddress = ValString (codec K) v, CreationHeight = h,
        ul_Amount = a, CompletionTime = ct, UnlockTime = ut\<rparr> (unlockings s)\<rparr>"
  by (auto simp: SetUnlockingLockup_def thenM_Inr_iff)

lemma Unlock_effect:
  assumes "lockups_inv s" and run: "Unlock K ctx d v a s = (Inr (h, ct, ut), t)"
  shows "0 < a" "a + getInsuranceLockupAmount d v s \<le> GetLockupAmount d v s"
    "GetLockupAmount d v t = GetLockupAmount d v s - a" "GetTotalLockupsAmount t = GetTotalLockupsAmount s - a"
    "\<exists>u. unlockings t = kv_set (UnlockingLockupKey d v (BlockHeight ctx)) u (unlockings s) \<and> ul_Amount u \<le> a \<and>
       CompletionTime u = ct \<and> UnlockTime u = ut"
    "lockups_inv t"
proof -
  from run obtain s1 s2 y dur amt ct' s3 ev where a: "0 < a" and s1: "subtractLockup K d v a s = (Inr (), s1)"
    and s2: "s2 = (if hasLockup d v s1 then s1 else s1\<lparr>insurance := kv_del (LockupKey d v) (insurance s1)\<rparr>)"
    and amt: "amt \<le> a"
    and s3: "SetUnlockingLockup K d v (BlockHeight ctx) amt ct' (BlockTime ctx + i64 (dur * UnlockingEpochs (GetParams s2)))
       (s2\<lparr>ext := y\<rparr>) = (Inr (), s3)"
    and t: "t = s3\<lparr>events := events s3 @ [ev]\<rparr>"
      "(h, ct, ut) = (BlockHeight ctx, ct', BlockTime ctx + i64 (dur * UnlockingEpochs (GetParams s2)))"
    by (rule Unlock_Inr) blast
  note e = subtractLockup_effect [OF s1 assms(1)] and w = SetUnlockingLockup_Inr [OF s3]
  have f: "lockups t = lockups s1 \<and> total_lockups t = total_lockups s1 \<and> insurance t = insurance s2"
    by (simp add: t w s2)
  then show "GetLockupAmount d v t = GetLockupAmount d v s - a" "GetTotalLockupsAmount t = GetTotalLockupsAmount s - a"
    using e by (simp_all add: GetLockupAmount_def GetTotalLockupsAmount_def)
  have "unlockings s2 = unlockings s" using e(5) by (simp add: s2)
  then show "\<exists>u. unlockings t = kv_set (UnlockingLockupKey d v (BlockHeight ctx)) u (unlockings s) \<and> ul_Amount u \<le> a \<and>
      CompletionTime u = ct \<and> UnlockTime u = ut"
    using amt t(2) by (intro exI [of _ "\<lparr>ul_DelegatorAddress = AccString (codec K) d, ul_ValidatorAddress = ValString (codec K) v,
      CreationHeight = BlockHeight ctx, ul_Amount = amt, CompletionTime = ct, UnlockTime = ut\<rparr>"]) (simp add: t(1) w)
  have "lockups_inv s1" using subtractLockup_inv [of a] assms(1) s1 a by (auto dest: keepsD_Inr)
  then show "lockups_inv t" using f by (auto simp: lockups_inv_def s2 set_kv_del GetTotalLockupsAmount_def)
qed (use assms in \<open>auto elim!: Unlock_Inr dest: subtractLockup_effect(1)\<close>)

lemma Unlock_run:
  assumes "0 < a" and "subtractLockup K d v a s = (Inr (), s1)" and "hasLockup d v s1"
    and "ValidateUnbondAmount K (ModuleAddress K TierModuleName) v a (ext s1) = Inr sh" and "0 < sh"
    and "Undelegate K (ModuleAddress K TierModuleName) v sh (ext s1) = (Inr (ct, ra), y)"
    and "EpochDuration (GetParams s1) = Some dur" and "ut = BlockTime ctx + i64 (dur * UnlockingEpochs (GetParams s1))"
    and "mustTimes (codec K) [ct, ut] = Inr ()"
  shows "\<exists>es. Unlock K ctx d v a s = (Inr (BlockHeight ctx, ct, ut),
     s1\<lparr>ext := y, unlockings := kv_set (UnlockingLockupKey d v (BlockHeight ctx))
        \<lparr>ul_DelegatorAddress = AccString (codec K) d, ul_ValidatorAddress = ValString (codec K) v,
         CreationHeight = BlockHeight ctx, ul_Amount = (if ra < a then ra else a), CompletionTime = ct, UnlockTime = ut\<rparr>
        (unlockings s1), events := es\<rparr>)"
proof -
  have "GetParams (s1\<lparr>ext := y\<rparr>) = GetParams s1" by (simp add: GetParams_def)
  then show ?thesis
    using assms by (simp add: Unlock_def thenM_def bindM_def extM_def SetUnlockingLockup_def Let_def) blast
qed

lemma demo_subtract:
  assumes "kv_get (lockups s) (LockupKey d v) = Some l" and "a < Amount l" and "0 < a" and "Amount l \<le> 10"
    and "insurance s = []" and "total_lockups s = Some (Amount l)"
  shows "subtractLockup K d v a s = (Inr (), s\<lparr>total_lockups := Some (Amount l - a),
    lockups := kv_set (LockupKey d v) (newLockup K d v (Amount l - a)) (lockups s)\<rparr>)"
  using assms by (simp add: subtractLockup_run GetLockup_def getInsuranceLockupAmount_def GetTotalLockupsAmount_def
      SafeSub_def is_i64_def Let_def)

definition demo_unlocking :: "sdk_ctx \<Rightarrow> int \<Rightarrow> UnlockingLockup" where
  "demo_unlocking ctx a = \<lparr>ul_DelegatorAddress = AccString std_codec demo_del, ul_ValidatorAddress = ValString std_codec demo_val,
     CreationHeight = BlockHeight ctx, ul_Amount = a, CompletionTime = 10, UnlockTime = BlockTime ctx + 600000000000\<rparr>"

lemma demo_unlock:
  assumes "kv_get (lockups s) (LockupKey demo_del demo_val) = Some l" and "a < Amount l" and "0 < a" and "Amount l \<le> 10"
    and "insurance s = []" and "total_lockups s = Some (Amount l)" and "tier_params s = Some DefaultParams"
    and "0 \<le> BlockTime ctx" and "BlockTime ctx \<le> 1000000"
  shows "\<exists>es. Unlock (demo_K std_codec) ctx demo_del demo_val a s = (Inr (BlockHeight ctx, 10, BlockTime ctx + 600000000000),
     s\<lparr>total_lockups := Some (Amount l - a),
       lockups := kv_set (LockupKey demo_del demo_val) (newLockup (demo_K std_codec) demo_del demo_val (Amount l - a)) (lockups s),
       ext := snd (Undelegate (demo_K std_codec) TierModuleName demo_val (a * dec_one) (ext s)),
       unlockings := kv_set (UnlockingLockupKey demo_del demo_val (BlockHeight ctx)) (demo_unlocking ctx a) (unlockings s), events := es\<rparr>)"
proof -
  let ?K = "demo_K std_codec" and ?m = "ModuleAddress (demo_K std_codec) TierModuleName"
  define s1 where "s1 = s\<lparr>total_lockups := Some (Amount l - a),
    lockups := kv_set (LockupKey demo_del demo_val) (newLockup ?K demo_del demo_val (Amount l - a)) (lockups s)\<rparr>"
  have sub: "subtractLockup ?K demo_del demo_val a s = (Inr (), s1)"
    unfolding s1_def by (rule demo_subtract [OF assms(1-6)])
  have p: "GetParams s1 = DefaultParams" using assms(7) by (simp add: GetParams_def s1_def)
  have has: "hasLockup demo_del demo_val s1" by (simp add: hasLockup_def s1_def)
  have m: "?m = TierModuleName" "codec ?K = std_codec" by (simp_all add: demo_K_def)
  have v: "ValidateUnbondAmount ?K ?m demo_val a (ext s1) = Inr (a * dec_one)" "0 < a * dec_one"
    using assms(3) by (simp_all add: demo_K_def dec_one_def)
  have u: "Undelegate ?K ?m demo_val (a * dec_one) (ext s1) =
      (Inr (10, a), snd (Undelegate ?K ?m demo_val (a * dec_one) (ext s1)))"
    using assms(3) by (simp add: demo_K_def dec_one_def quo_nonneg)
  have dur: "EpochDuration (GetParams s1) = Some DefaultEpochDuration"
    "BlockTime ctx + 600000000000 = BlockTime ctx + i64 (DefaultEpochDuration * UnlockingEpochs (GetParams s1))"
    by (simp_all add: p DefaultParams_def NewParams_def DefaultEpochDuration_def is_i64_def)
  have tm: "mustTimes (codec ?K) [10, BlockTime ctx + 600000000000] = Inr ()"
    using assms(8,9) by (simp add: demo_K_def mustTimes_def std_codec_def time_ok_def zero_time_def max_time_def)
  from Unlock_run [OF assms(3) sub has v u dur tm] show ?thesis
    by (auto simp: s1_def demo_unlocking_def m)
qed

lemma kv_set_overwrite [simp]: "kv_set k v (kv_set k w st) = kv_set k v st"
  by (induction st) auto

text \<open>C36: Two unlocks of the same delegator and validator in one block share one key: the second replaces
  the record of the first. The lockup and the total go down by both amounts, but one record is left,
  and it holds at most the second amount.\<close>

theorem unlock_overwrites:
  assumes "lockups_inv s" and "Unlock K ctx d v a s = (Inr (h1, ct1, ut1), s1)"
    and "Unlock K ctx d v b s1 = (Inr (h2, ct2, ut2), t)"
  shows "h1 = h2 \<and> GetLockupAmount d v t = GetLockupAmount d v s - a - b \<and>
    GetTotalLockupsAmount t = GetTotalLockupsAmount s - a - b \<and>
    (\<exists>u. unlockings t = kv_set (UnlockingLockupKey d v h1) u (unlockings s) \<and> ul_Amount u \<le> b)"
proof -
  note e = Unlock_effect [OF assms(1,2)]
  note f = Unlock_effect [OF e(6) assms(3)]
  have h: "h1 = BlockHeight ctx" "h2 = BlockHeight ctx" using assms(2,3) by (auto elim!: Unlock_Inr)
  from e(5) f(5) have "\<exists>u. unlockings t = kv_set (UnlockingLockupKey d v h1) u (unlockings s) \<and> ul_Amount u \<le> b"
    by (auto simp: h)
  with e(3,4) f(3,4) h show ?thesis by simp
qed

lemma demo_locked_fields:
  "lockups (demo_locked cd) = [(LockupKey demo_del demo_val, newLockup (demo_K cd) demo_del demo_val 10)]"
  "insurance (demo_locked cd) = []" "total_lockups (demo_locked cd) = Some 10" "unlockings (demo_locked cd) = []"
  "tier_params (demo_locked cd) = Some DefaultParams" "lockups_inv (demo_locked cd)"
  by (simp_all add: demo_locked_def demo_state_def lockups_inv_def GetTotalLockupsAmount_def)

theorem unlock_overwrites_witness:
  "\<exists>r1 s1 r2 t. Unlock (demo_K std_codec) (demo_ctx 1000000) demo_del demo_val 3 (demo_locked std_codec) = (Inr r1, s1) \<and>
    Unlock (demo_K std_codec) (demo_ctx 1000000) demo_del demo_val 4 s1 = (Inr r2, t) \<and>
    GetLockupAmount demo_del demo_val t = 3 \<and> (\<exists>k u. unlockings t = [(k, u)] \<and> ul_Amount u \<le> 4)"
proof -
  let ?K = "demo_K std_codec" and ?s = "demo_locked std_codec" and ?c = "demo_ctx 1000000"
  note f = demo_locked_fields [of std_codec]
  have c: "0 \<le> BlockTime ?c" "BlockTime ?c \<le> 1000000" by (simp_all add: demo_ctx_def)
  obtain es where s1: "Unlock ?K ?c demo_del demo_val 3 ?s = (Inr (BlockHeight ?c, 10, BlockTime ?c + 600000000000),
     ?s\<lparr>total_lockups := Some 7, lockups := [(LockupKey demo_del demo_val, newLockup ?K demo_del demo_val 7)],
       ext := snd (Undelegate ?K TierModuleName demo_val (3 * dec_one) (ext ?s)),
       unlockings := [(UnlockingLockupKey demo_del demo_val (BlockHeight ?c), demo_unlocking ?c 3)], events := es\<rparr>)"
    (is "_ = (_, ?s1)")
    using demo_unlock [of ?s "newLockup ?K demo_del demo_val 10" 3, OF _ _ _ _ _ _ _ c] by (auto simp: f)
  obtain r2 t where t: "Unlock ?K ?c demo_del demo_val 4 ?s1 = (Inr r2, t)"
    using demo_unlock [of ?s1 "newLockup ?K demo_del demo_val 7" 4, OF _ _ _ _ _ _ _ c] by (auto simp: f)
  from unlock_overwrites [OF f(6) s1, of 4 "fst r2" "fst (snd r2)" "snd (snd r2)" t] t s1 show ?thesis
    by (cases r2) (auto simp: f GetLockupAmount_def)
qed

section \<open>Cancelling an unlock\<close>

lemma subtractUnlockingLockup_Inr:
  assumes "subtractUnlockingLockup K d v h a s = (Inr x, t)"
  obtains u where "GetUnlockingLockup d v h s = Some u" "a \<le> ul_Amount u"
    "\<exists>us. t = s\<lparr>unlockings := us\<rparr>"
    "a = ul_Amount u \<Longrightarrow> GetUnlockingLockup d v h t = None"
    "a \<noteq> ul_Amount u \<Longrightarrow> \<exists>w. GetUnlockingLockup d v h t = Some w \<and> ul_Amount w = ul_Amount u - a"
proof -
  obtain u where u: "GetUnlockingLockup d v h s = Some u"
    using assms by (cases "GetUnlockingLockup d v h s") (simp_all add: subtractUnlockingLockup_def bindM_def)
  then have a: "a \<le> ul_Amount u"
    using assms by (auto simp: subtractUnlockingLockup_def bindM_def split: if_splits)
  show thesis
  proof (cases "a = ul_Amount u")
    case True
    then have "t = s\<lparr>unlockings := kv_del (UnlockingLockupKey d v h) (unlockings s)\<rparr>"
      using assms u by (simp add: subtractUnlockingLockup_def bindM_def removeUnlockingLockup_def)
    with True u a show thesis by (intro that) (auto simp: GetUnlockingLockup_def)
  next
    case False
    with a u assms have "SetUnlockingLockup K d v h (ul_Amount u - a) (CompletionTime u) (UnlockTime u) s = (Inr x, t)"
      by (auto simp: subtractUnlockingLockup_def bind_runs bindM_def SafeSub_def split: if_splits)
    from SetUnlockingLockup_Inr [OF this] False u a show thesis
      by (intro that) (auto simp: GetUnlockingLockup_def)
  qed
qed

lemma CancelUnlocking_Inr:
  assumes "CancelUnlocking K ctx d v h a s = (Inr x, t)"
  obtains s1 s2 s3 where "0 < a" "same_stake s s1" "subtractUnlockingLockup K d v h a s1 = (Inr (), s2)"
    "AddLockup K d v a s2 = (Inr (), s3)" "same_stake s3 t"
proof -
  have a: "0 < a" using assms by (simp add: CancelUnlocking_def split: if_splits)
  obtain f y1 y2 g s2 ev where d: "extM f s = (Inr (y1 :: dec), y2)" and b: "extM g y2 = (Inr (), s2)"
    and r: "thenM (subtractUnlockingLockup K d v h a) (thenM (AddLockup K d v a) (EmitEvent ev)) s2 = (Inr x, t)"
    using assms a unfolding CancelUnlocking_def
    by (auto simp: bind_runs thenM_Inr_iff [of "extM _"] thenM_Inr_iff [of "if _ then extM _ else extM _"] Let_def
        split: sum.splits option.splits prod.splits simp del: if_split split: if_splits)
  have "same_stake s s2" using extM_state [OF d] extM_state [OF b] by (auto simp: same_stake_def)
  moreover from r obtain s3 s4 ev where "subtractUnlockingLockup K d v h a s2 = (Inr (), s3)" "AddLockup K d v a s3 = (Inr (), s4)"
    "t = s4\<lparr>events := ev\<rparr>" by (auto simp: thenM_Inr_iff)
  ultimately show thesis by (intro that [of s2 s3 s4] a) (simp_all add: same_stake_def)
qed

lemma CancelUnlocking_effect:
  assumes "CancelUnlocking K ctx d v h a s = (Inr x, t)"
  shows "0 < a" "\<exists>u. GetUnlockingLockup d v h s = Some u \<and> a \<le> ul_Amount u \<and>
      (if a = ul_Amount u then GetUnlockingLockup d v h t = None
       else \<exists>w. GetUnlockingLockup d v h t = Some w \<and> ul_Amount w = ul_Amount u - a)"
    "GetLockupAmount d v t = GetLockupAmount d v s + a" "GetTotalLockupsAmount t = GetTotalLockupsAmount s + a"
proof -
  from assms obtain s1 s2 s3 where a: "0 < a" and r: "same_stake s s1" "subtractUnlockingLockup K d v h a s1 = (Inr (), s2)"
    "AddLockup K d v a s2 = (Inr (), s3)" "same_stake s3 t"
    by (rule CancelUnlocking_Inr)
  from r(2) obtain u us where u: "GetUnlockingLockup d v h s1 = Some u" "a \<le> ul_Amount u" "s2 = s1\<lparr>unlockings := us\<rparr>"
    "a = ul_Amount u \<Longrightarrow> GetUnlockingLockup d v h s2 = None"
    "a \<noteq> ul_Amount u \<Longrightarrow> \<exists>w. GetUnlockingLockup d v h s2 = Some w \<and> ul_Amount w = ul_Amount u - a"
    by (rule subtractUnlockingLockup_Inr) blast
  note e = AddLockup_effect [OF r(3) a] same_stakeD [OF r(1)] same_stakeD [OF r(4)]
  have k: "GetLockupAmount d v s2 = GetLockupAmount d v s1" "GetTotalLockupsAmount s2 = GetTotalLockupsAmount s1"
    by (simp_all add: u(3) GetLockupAmount_def GetTotalLockupsAmount_def)
  have g: "GetUnlockingLockup d v h s3 = GetUnlockingLockup d v h s2" using e by (simp add: GetUnlockingLockup_def)
  show "0 < a" by (rule a)
  show "\<exists>u. GetUnlockingLockup d v h s = Some u \<and> a \<le> ul_Amount u \<and>
      (if a = ul_Amount u then GetUnlockingLockup d v h t = None
       else \<exists>w. GetUnlockingLockup d v h t = Some w \<and> ul_Amount w = ul_Amount u - a)"
    using u e g by (intro exI [of _ u]) auto
  show "GetLockupAmount d v t = GetLockupAmount d v s + a" "GetTotalLockupsAmount t = GetTotalLockupsAmount s + a"
    using e k by simp_all
qed

text \<open>C35: Cancelling an unlock gives back what it took. After an unlock of \<open>a\<close>, a cancel of \<open>b\<close> at the
  height of the unlock restores \<open>b\<close> of the lockup and of the total, never more than was unlocked, and a
  cancel of the whole amount leaves no unlocking record.\<close>

theorem unlock_cancel_roundtrip:
  assumes "lockups_inv s" and "Unlock K ctx d v a s = (Inr (h, ct, ut), s1)"
    and "CancelUnlocking K ctx' d v h b s1 = (Inr (), t)"
  shows "0 < b \<and> b \<le> a \<and> GetLockupAmount d v t = GetLockupAmount d v s - a + b \<and>
    GetTotalLockupsAmount t = GetTotalLockupsAmount s - a + b \<and>
    (b = a \<longrightarrow> GetUnlockingLockup d v h t = None)"
proof -
  note e = Unlock_effect [OF assms(1,2)] and c = CancelUnlocking_effect [OF assms(3)]
  have h: "h = BlockHeight ctx" using assms(2) by (auto elim!: Unlock_Inr)
  obtain u where u: "GetUnlockingLockup d v h s1 = Some u" "ul_Amount u \<le> a"
    using e(5) by (auto simp: h GetUnlockingLockup_def)
  from c(2) u have "b \<le> ul_Amount u" "b = ul_Amount u \<longrightarrow> GetUnlockingLockup d v h t = None" by (auto split: if_splits)
  with u(2) have "b \<le> a \<and> (b = a \<longrightarrow> GetUnlockingLockup d v h t = None)" by auto
  with c(1,3,4) e(3,4) show ?thesis by simp
qed

definition demo_block1 :: sdk_ctx where
  "demo_block1 = (demo_ctx 5)\<lparr>BlockHeight := 1\<rparr>"

lemma demo_cancel:
  assumes "unbonding (ext s) = [\<lparr>ube_CreationHeight = 1, ube_CompletionTime = 10, ube_InitialBalance = 4, ube_Balance = 4, ube_Id = 0\<rparr>]"
    and "GetUnlockingLockup d v 1 s = Some u" and "ul_Amount u = 4" and "total_lockups s = Some 6"
  shows "\<exists>t. CancelUnlocking (demo_K cd) demo_block1 d v 1 4 s = (Inr (), t)"
  using assms by (simp add: CancelUnlocking_def demo_K_def demo_block1_def demo_ctx_def tryM_def thenM_def bindM_def extM_def
      cancel_entry_def Let_def subtractUnlockingLockup_def removeUnlockingLockup_def AddLockup_run
      GetTotalLockupsAmount_def is_i64_def GetUnlockingLockup_def)

theorem unlock_cancel_roundtrip_witness:
  "\<exists>r s1 t. Unlock (demo_K std_codec) demo_block1 demo_del demo_val 4 (demo_locked std_codec) = (Inr r, s1) \<and>
    GetLockupAmount demo_del demo_val s1 = 6 \<and>
    CancelUnlocking (demo_K std_codec) demo_block1 demo_del demo_val 1 4 s1 = (Inr (), t) \<and>
    GetLockupAmount demo_del demo_val t = 10 \<and> GetUnlockingLockup demo_del demo_val 1 t = None"
proof -
  let ?K = "demo_K std_codec" and ?s = "demo_locked std_codec" and ?c = demo_block1
  note f = demo_locked_fields [of std_codec]
  have c: "0 \<le> BlockTime ?c" "BlockTime ?c \<le> 1000000" "BlockHeight ?c = 1" by (simp_all add: demo_block1_def demo_ctx_def)
  obtain es where s1: "Unlock ?K ?c demo_del demo_val 4 ?s = (Inr (1, 10, BlockTime ?c + 600000000000),
     ?s\<lparr>total_lockups := Some 6, lockups := [(LockupKey demo_del demo_val, newLockup ?K demo_del demo_val 6)],
       ext := snd (Undelegate ?K TierModuleName demo_val (4 * dec_one) (ext ?s)),
       unlockings := [(UnlockingLockupKey demo_del demo_val 1, demo_unlocking ?c 4)], events := es\<rparr>)"
    (is "_ = (_, ?s1)")
    using demo_unlock [of ?s "newLockup ?K demo_del demo_val 10" 4, OF _ _ _ _ _ _ _ c(1,2)] by (auto simp: f c(3))
  have "unbonding (ext ?s) = []"
    by (simp add: demo_locked_def demo_paid_def add_coins_def sub_coins_def demo_state_def)
  then obtain t where t: "CancelUnlocking ?K ?c demo_del demo_val 1 4 ?s1 = (Inr (), t)"
    using demo_cancel [of ?s1 demo_del demo_val "demo_unlocking ?c 4" std_codec]
    by (auto simp: demo_unlocking_def GetUnlockingLockup_def demo_K_def [of std_codec] dec_one_def quo_def)
  from unlock_cancel_roundtrip [OF f(6) s1 t] s1 t show ?thesis
    by (auto simp: f GetLockupAmount_def)
qed

section \<open>Redelegation and overdrawing\<close>

lemma Redelegate_Inr:
  assumes "Redelegate K ctx d v w a s = (Inr x, t)"
  obtains s1 s2 s3 where "0 < a" "subtractLockup K d v a s = (Inr (), s1)" "AddLockup K d w a s1 = (Inr (), s2)"
    "(if hasLockup d v s2 then ret ()
      else bindM (getM (getInsuranceLockupAmount d v)) (\<lambda>i.
        if 0 < i then thenM (removeInsuranceLockup d v) (AddInsuranceLockup K d w i) else ret ())) s2 = (Inr (), s3)"
    "same_stake s3 t"
proof -
  have a: "0 < a" using assms by (simp add: Redelegate_def split: if_splits)
  obtain s1 s2 s3 f y x4 ev where r: "subtractLockup K d v a s = (Inr (), s1)" "AddLockup K d w a s1 = (Inr (), s2)"
    "(if hasLockup d v s2 then ret ()
      else bindM (getM (getInsuranceLockupAmount d v)) (\<lambda>i.
        if 0 < i then thenM (removeInsuranceLockup d v) (AddInsuranceLockup K d w i) else ret ())) s2 = (Inr (), s3)"
    "extM f s3 = (Inr (y :: time), x4)" "t = x4\<lparr>events := ev\<rparr>"
    using assms a unfolding Redelegate_def Let_def
    by (auto simp: inr_iffs simp del: if_split)
  have "same_stake s3 t" using extM_state [OF r(4)] by (auto simp: r(5) same_stake_def)
  with a r(1-3) show thesis by (rule that)
qed

text \<open>Redelegation conserves stake. It moves the amount from the lockup with the source validator to
  the one with the destination and leaves the total, every other lockup, the unlockings and the
  insurance as they were: an insured part cannot be withdrawn from its lockup, so the branch that moves
  the insurance to the destination never runs.\<close>

theorem redelegate_conserves:
  assumes "lockups_inv s" and "Redelegate K ctx d v w a s = (Inr ct, t)"
  shows "0 < a \<and> GetTotalLockupsAmount t = GetTotalLockupsAmount s \<and> unlockings t = unlockings s \<and> insurance t = insurance s \<and>
    (k \<noteq> LockupKey d v \<and> k \<noteq> LockupKey d w \<longrightarrow> kv_get (lockups t) k = kv_get (lockups s) k) \<and>
    (if v = w then GetLockupAmount d v t = GetLockupAmount d v s
     else GetLockupAmount d v t = GetLockupAmount d v s - a \<and> GetLockupAmount d w t = GetLockupAmount d w s + a)"
proof -
  from assms(2) obtain s1 s2 s3 where a: "0 < a" and s1: "subtractLockup K d v a s = (Inr (), s1)"
    and s2: "AddLockup K d w a s1 = (Inr (), s2)"
    and m: "(if hasLockup d v s2 then ret ()
      else bindM (getM (getInsuranceLockupAmount d v)) (\<lambda>i.
        if 0 < i then thenM (removeInsuranceLockup d v) (AddInsuranceLockup K d w i) else ret ())) s2 = (Inr (), s3)"
    and t: "same_stake s3 t"
    by (rule Redelegate_Inr)
  note e = subtractLockup_effect [OF s1 assms(1)] and f = AddLockup_effect [OF s2 a]
  have i: "getInsuranceLockupAmount d v s2 = getInsuranceLockupAmount d v s"
    using e(6) f(5) by (simp add: getInsuranceLockupAmount_def)
  have "s3 = s2"
  proof (cases "hasLockup d v s2")
    case False
    then have "v \<noteq> w \<and> \<not> hasLockup d v s1"
      using AddLockup_Inr [OF s2] f(3) [of "LockupKey d v"] by (auto simp: hasLockup_def LockupKey_def split: if_splits)
    then have "GetLockupAmount d v s1 = 0" by (simp add: hasLockup_def GetLockupAmount_def)
    then have "getInsuranceLockupAmount d v s \<le> 0" using e(1,2) by simp
    with m False i show ?thesis by simp
  qed (use m in simp)
  note k = same_stakeD [OF t, unfolded this]
  have o: "GetLockupAmount d v s2 = GetLockupAmount d v s1" "GetLockupAmount d w s1 = GetLockupAmount d w s" if "v \<noteq> w"
    using that f(3) [of "LockupKey d v"] e(4) [of "LockupKey d w"] by (auto simp: GetLockupAmount_def LockupKey_def)
  show ?thesis using a e f k o by auto
qed

lemma demo_redelegate:
  assumes "kv_get (lockups s) (LockupKey d v) = Some l" and "a < Amount l" and "0 < a" and "Amount l \<le> 10"
    and "insurance s = []" and "total_lockups s = Some (Amount l)"
  shows "\<exists>t. Redelegate (demo_K cd) ctx d v w a s = (Inr 10, t)"
proof -
  have "ValidateUnbondAmount (demo_K cd) m v a x = Inr (a * dec_one)" "BeginRedelegation (demo_K cd) m v w sh x = (Inr 10, x)" for m sh x
    by (simp_all add: demo_K_def)
  then show ?thesis
    using assms(2-6) demo_subtract [OF assms, of "demo_K cd"]
    by (simp add: Redelegate_def thenM_def bindM_def AddLockup_run GetTotalLockupsAmount_def is_i64_def hasLockup_def Let_def extM_def)
qed

theorem redelegate_conserves_witness:
  "\<exists>t. Redelegate (demo_K std_codec) (demo_ctx 5) demo_del demo_val ''wwwwwwwwwwwwwwwwwwww'' 4 (demo_locked std_codec) = (Inr 10, t) \<and>
    GetLockupAmount demo_del demo_val t = 6 \<and> GetLockupAmount demo_del ''wwwwwwwwwwwwwwwwwwww'' t = 4"
proof -
  let ?w = "''wwwwwwwwwwwwwwwwwwww''"
  note f = demo_locked_fields [of std_codec]
  obtain t where t: "Redelegate (demo_K std_codec) (demo_ctx 5) demo_del demo_val ?w 4 (demo_locked std_codec) = (Inr 10, t)"
    using demo_redelegate [of "demo_locked std_codec" demo_del demo_val "newLockup (demo_K std_codec) demo_del demo_val 10" 4
      std_codec "demo_ctx 5" ?w]
    by (auto simp: f)
  have "demo_val \<noteq> ?w" by simp
  with redelegate_conserves [OF f(6) t] t show ?thesis
    by (auto simp: f GetLockupAmount_def LockupKey_def)
qed

text \<open>Nobody can unlock or redelegate more than the uninsured part of a lockup. Such a message fails
  before anything is written: with \<open>ErrNotFound\<close> when there is no lockup and \<open>ErrInvalidAmount\<close> otherwise,
  which is also the answer to an amount that is not positive.\<close>

theorem overdraw_fails:
  assumes "a \<le> 0 \<or> GetLockupAmount d v s < a + getInsuranceLockupAmount d v s \<or> \<not> hasLockup d v s"
  shows "Unlock K ctx d v a s = (Inl (if 0 < a \<and> \<not> hasLockup d v s then ErrNotFound else ErrInvalidAmount), s) \<and>
    Redelegate K ctx d v w a s = (Inl (if 0 < a \<and> \<not> hasLockup d v s then ErrNotFound else ErrInvalidAmount), s)"
proof -
  have "subtractLockup K d v a s = (Inl (if \<not> hasLockup d v s then ErrNotFound else ErrInvalidAmount), s)" if "0 < a"
    using assms that by (auto simp: subtractLockup_run hasLockup_def GetLockup_def GetLockupAmount_def split: option.splits)
  then show ?thesis
    by (simp add: Unlock_def Redelegate_def thenM_def bindM_def)
qed

theorem overdraw_fails_witness:
  "Unlock (demo_K std_codec) (demo_ctx 5) demo_del demo_val 11 (demo_locked std_codec) = (Inl ErrInvalidAmount, demo_locked std_codec) \<and>
   Redelegate (demo_K std_codec) (demo_ctx 5) demo_del demo_val demo_val 11 (demo_locked std_codec) = (Inl ErrInvalidAmount, demo_locked std_codec)"
  using overdraw_fails [of 11 demo_del demo_val "demo_locked std_codec" "demo_K std_codec" "demo_ctx 5" demo_val]
  by (simp add: demo_locked_fields GetLockupAmount_def hasLockup_def getInsuranceLockupAmount_def)

end
