(* ===== verification/Unlocking_Props.thy ===== *)
theory Unlocking_Props
  imports Stake_Props
begin

text \<open>
  The end of an unlock: \<open>CompleteUnlocking\<close> pays the records that are due and only those, and what a
  record under a malformed key does to the loops over the lockups.
\<close>

section \<open>Due records\<close>

definition matured :: "sdk_ctx \<Rightarrow> UnlockingLockup \<Rightarrow> bool" where
  "matured ctx u \<longleftrightarrow> CompletionTime u \<le> BlockTime ctx \<and> UnlockTime u \<le> BlockTime ctx"

definition canonical :: "bytes \<Rightarrow> bool" where
  "canonical k \<longleftrightarrow> (case UnlockingLockupKeyToAddressesAtHeight k of None \<Rightarrow> False | Some (d, v, h) \<Rightarrow> UnlockingLockupKey d v h = k)"

lemma canonical_parse:
  assumes "canonical k"
  obtains d v h where "UnlockingLockupKeyToAddressesAtHeight k = Some (d, v, h)" "UnlockingLockupKey d v h = k"
  using assms by (auto simp: canonical_def split: option.splits)

lemma canonical_key: "addr20 d \<Longrightarrow> addr20 v \<Longrightarrow> is_i64 h \<Longrightarrow> canonical (UnlockingLockupKey d v h)"
  using unlocking_key.unmk_mk [of "(d, v, h)"] by (simp add: canonical_def)

lemma complete_one_early: "\<not> matured ctx u \<Longrightarrow> complete_one K ctx d v h u = ret ()"
  by (auto simp: complete_one_def matured_def)

lemma complete_one_keeps:
  assumes "k \<noteq> UnlockingLockupKey d v h \<or> \<not> matured ctx w"
  shows "keeps (\<lambda>s. kv_get (unlockings s) k = Some u) (complete_one K ctx d v h w)"
proof (cases "matured ctx w")
  case True
  with assms show ?thesis
    by (auto simp: complete_one_def removeUnlockingLockup_def indep_ext_def intro!: keeps_rules keeps_modifyM)
qed (simp add: complete_one_early keeps_rules)

text \<open>C19: No unlock completes early. A record whose unbonding or unlock time is still to come stays
  exactly as it is when the due unlockings are completed, whatever the result.\<close>

theorem unlocking_never_early:
  assumes "kv_ok (unlockings s)" and "\<forall>p\<in>set (unlockings s). canonical (fst p)"
    and "kv_get (unlockings s) k = Some u" and "BlockTime ctx < CompletionTime u \<or> BlockTime ctx < UnlockTime u"
    and "cacheCtx (CompleteUnlocking K ctx) s = (r, t)"
  shows "kv_get (unlockings t) k = Some u"
proof -
  have "keeps (\<lambda>s. kv_get (unlockings s) k = Some u)
     (iterKV UnlockingLockupKeyToAddressesAtHeight (\<lambda>(d, v, h) l _. complete_one K ctx d v h l) (unlockings s) ())"
  proof (rule keeps_iterKV)
    fix k' w i b
    assume k': "(k', w) \<in> set (unlockings s)" "UnlockingLockupKeyToAddressesAtHeight k' = Some i"
    obtain d v h where i: "i = (d, v, h)" by (cases i)
    have "UnlockingLockupKey d v h = k'" using assms(2) k' i by (fastforce simp: canonical_def)
    moreover have "k = k' \<Longrightarrow> w = u" using k'(1) assms(1,3) kv_get_Some_iff [of "unlockings s" k' w] by simp
    ultimately show "keeps (\<lambda>s. kv_get (unlockings s) k = Some u) ((case i of (d, v, h) \<Rightarrow> \<lambda>l _. complete_one K ctx d v h l) w b)"
      using assms(4) by (auto simp: i matured_def intro!: complete_one_keeps)
  qed
  then show ?thesis
    using assms(3,5)
    by (auto simp: cacheCtx_def CompleteUnlocking_def iterateUnlockingLockups_def split: prod.splits sum.splits
        dest!: keepsD_Inr)
qed

definition demo_due :: "demo_chain tier_state" where
  "demo_due = (demo_locked std_codec)\<lparr>unlockings := [(UnlockingLockupKey demo_del demo_val 1, demo_unlocking demo_block1 4)]\<rparr>"

lemma demo_due_keys: "kv_ok (unlockings demo_due)" "\<forall>p\<in>set (unlockings demo_due). canonical (fst p)"
  using canonical_key [of demo_del demo_val 1] by (simp_all add: demo_due_def addr20_def is_i64_def)

theorem unlocking_never_early_witness:
  "kv_get (unlockings (snd (cacheCtx (CompleteUnlocking (demo_K std_codec) demo_block1) demo_due))) (UnlockingLockupKey demo_del demo_val 1) =
     Some (demo_unlocking demo_block1 4)"
proof (rule unlocking_never_early [OF demo_due_keys, of _ _ demo_block1 "demo_K std_codec"])
  show "cacheCtx (CompleteUnlocking (demo_K std_codec) demo_block1) demo_due =
    (fst (cacheCtx (CompleteUnlocking (demo_K std_codec) demo_block1) demo_due), snd (cacheCtx (CompleteUnlocking (demo_K std_codec) demo_block1) demo_due))"
    by simp
qed (simp_all add: demo_due_def demo_unlocking_def)

section \<open>Paying out\<close>

abbreviation stake_bal :: "('x, 'v) Keeper \<Rightarrow> 'x \<Rightarrow> addr \<Rightarrow> int" where
  "stake_bal K x a \<equiv> GetBalance K a DefaultBondDenom x"

text \<open>
  The bank pays any positive amount the module holds to an ordinary account (one of \<open>A\<close>).
\<close>

definition payout_laws :: "('x, 'v) Keeper \<Rightarrow> addr set \<Rightarrow> bool" where
  "payout_laws K A \<longleftrightarrow> ModuleAddress K TierModuleName \<notin> A \<and>
     (\<forall>n>0. \<forall>x. \<forall>a\<in>A. n \<le> stake_bal K x (ModuleAddress K TierModuleName) \<longrightarrow>
        (\<exists>x'. UndelegateCoinsFromModuleToAccount K TierModuleName a [(DefaultBondDenom, n)] x = (Inr (), x') \<and>
          (\<forall>b. stake_bal K x' b = stake_bal K x b + (if b = a then n else 0)
                                - (if b = ModuleAddress K TierModuleName then n else 0))))"

definition ul_owner :: "bytes \<Rightarrow> addr" where
  "ul_owner k = (case UnlockingLockupKeyToAddressesAtHeight k of None \<Rightarrow> [] | Some (d, v, h) \<Rightarrow> d)"

definition owed :: "sdk_ctx \<Rightarrow> addr \<Rightarrow> UnlockingLockup kv \<Rightarrow> int" where
  "owed ctx a st = sum_list (map (\<lambda>p. if matured ctx (snd p) \<and> ul_owner (fst p) = a then ul_Amount (snd p) else 0) st)"

definition all_owed :: "sdk_ctx \<Rightarrow> UnlockingLockup kv \<Rightarrow> int" where
  "all_owed ctx st = sum_list (map (\<lambda>p. if matured ctx (snd p) then ul_Amount (snd p) else 0) st)"

lemma owed_simps [simp]:
  "owed ctx a [] = 0" "all_owed ctx [] = 0"
  "owed ctx a (p # st) = (if matured ctx (snd p) \<and> ul_owner (fst p) = a then ul_Amount (snd p) else 0) + owed ctx a st"
  "all_owed ctx (p # st) = (if matured ctx (snd p) then ul_Amount (snd p) else 0) + all_owed ctx st"
  by (simp_all add: owed_def all_owed_def)

lemma all_owed_nonneg: "\<forall>p\<in>set st. 0 < ul_Amount (snd p) \<Longrightarrow> 0 \<le> all_owed ctx st"
  by (induction st) (auto simp: less_imp_le)

lemma complete_one_pays:
  assumes "coin_laws (coinOps K)" and "payout_laws K A" and "d \<in> A" and "matured ctx u" and "0 < ul_Amount u"
    and "ul_Amount u \<le> stake_bal K (ext s) (ModuleAddress K TierModuleName)"
  shows "\<exists>x es. complete_one K ctx d v h u s =
      (Inr (), s\<lparr>ext := x, unlockings := kv_del (UnlockingLockupKey d v h) (unlockings s), events := es\<rparr>) \<and>
    (\<forall>b. stake_bal K x b = stake_bal K (ext s) b + (if b = d then ul_Amount u else 0)
       - (if b = ModuleAddress K TierModuleName then ul_Amount u else 0))"
proof -
  have nc: "NewCoins (coinOps K) DefaultBondDenom (ul_Amount u) = Inr [(DefaultBondDenom, ul_Amount u)]"
    using coin_lawsD(7) [OF assms(1)] assms(5) by (simp add: valid_denom_def DefaultBondDenom_def denom_char_def letter_def)
  obtain x where "UndelegateCoinsFromModuleToAccount K TierModuleName d [(DefaultBondDenom, ul_Amount u)] (ext s) = (Inr (), x)"
    "\<forall>b. stake_bal K x b = stake_bal K (ext s) b + (if b = d then ul_Amount u else 0)
       - (if b = ModuleAddress K TierModuleName then ul_Amount u else 0)"
    using assms(2,3,5,6) unfolding payout_laws_def by blast
  then show ?thesis
    using assms(4,6) nc by (intro exI [of _ x]) (auto simp: complete_one_def matured_def thenM_def bindM_def extM_def removeUnlockingLockup_def)
qed

lemma complete_loop:
  assumes laws: "coin_laws (coinOps K)" "payout_laws K A"
  shows "\<lbrakk>distinct (map fst (ys @ st)); unlockings s = ys @ st;
      \<forall>p\<in>set st. canonical (fst p) \<and> ul_owner (fst p) \<in> A \<and> 0 < ul_Amount (snd p);
      all_owed ctx st \<le> stake_bal K (ext s) (ModuleAddress K TierModuleName)\<rbrakk> \<Longrightarrow>
    \<exists>x es. iterKV UnlockingLockupKeyToAddressesAtHeight (\<lambda>(d, v, h) l _. complete_one K ctx d v h l) st () s =
        (Inr (), s\<lparr>ext := x, unlockings := ys @ filter (\<lambda>p. \<not> matured ctx (snd p)) st, events := es\<rparr>) \<and>
      (\<forall>b. b \<noteq> ModuleAddress K TierModuleName \<longrightarrow> stake_bal K x b = stake_bal K (ext s) b + owed ctx b st)"
proof (induction st arbitrary: s ys)
  case Nil
  then show ?case by (intro exI [of _ "ext s"] exI [of _ "events s"]) (simp add: iterKV_def)
next
  case (Cons p st)
  let ?it = "iterKV UnlockingLockupKeyToAddressesAtHeight (\<lambda>(d, v, h) l _. complete_one K ctx d v h l)"
    and ?m = "ModuleAddress K TierModuleName"
  from Cons.prems(3) obtain d v h where k: "UnlockingLockupKeyToAddressesAtHeight (fst p) = Some (d, v, h)"
    "UnlockingLockupKey d v h = fst p" by (auto elim: canonical_parse)
  have d: "ul_owner (fst p) = d" "d \<in> A" using Cons.prems(3) by (auto simp: ul_owner_def k(1))
  have m: "?m \<notin> A" using laws(2) by (simp add: payout_laws_def)
  note step = iterKV_Cons [of UnlockingLockupKeyToAddressesAtHeight p "(d, v, h)", OF k(1)]
  show ?case
  proof (cases "matured ctx (snd p)")
    case False
    from Cons.IH [of "ys @ [p]" s] Cons.prems False show ?thesis by (auto simp: step complete_one_early)
  next
    case True
    then have "ul_Amount (snd p) \<le> stake_bal K (ext s) ?m"
      using Cons.prems(3,4) all_owed_nonneg [of st ctx] by simp
    then obtain x es where x: "complete_one K ctx d v h (snd p) s =
        (Inr (), s\<lparr>ext := x, unlockings := kv_del (UnlockingLockupKey d v h) (unlockings s), events := es\<rparr>)"
      "\<forall>b. stake_bal K x b = stake_bal K (ext s) b + (if b = d then ul_Amount (snd p) else 0) - (if b = ?m then ul_Amount (snd p) else 0)"
      using complete_one_pays [OF laws d(2) True, of s v h] Cons.prems(3) by auto
    let ?s = "s\<lparr>ext := x, unlockings := ys @ st, events := es\<rparr>"
    have "kv_del (fst p) ys = ys" "kv_del (fst p) st = st"
      using Cons.prems(1) by (auto intro!: kv_del_absent)
    then have "kv_del (fst p) (ys @ p # st) = ys @ st" by (simp add: kv_del_def)
    then have c: "complete_one K ctx d v h (snd p) s = (Inr (), ?s)" using x(1) k(2) Cons.prems(2) by simp
    have "all_owed ctx st \<le> stake_bal K (ext ?s) ?m" using Cons.prems(4) x(2) True d m by auto
    then obtain y fs where "?it st () ?s = (Inr (), ?s\<lparr>ext := y, unlockings := ys @ filter (\<lambda>p. \<not> matured ctx (snd p)) st, events := fs\<rparr>)"
      "\<forall>b. b \<noteq> ?m \<longrightarrow> stake_bal K y b = stake_bal K x b + owed ctx b st"
      using Cons.IH [of ys ?s] Cons.prems(1,3) by auto
    then show ?thesis using x(2) d True by (intro exI [of _ y] exI [of _ fs]) (auto simp: step c)
  qed
qed

text \<open>C18: Due unlocks are paid. When the module account holds the stake that is due, completing the
  unlockings succeeds, removes exactly the due records, and pays every delegator the sum of their due
  amounts.\<close>

theorem unlocking_pays:
  assumes "coin_laws (coinOps K)" and "payout_laws K A" and "kv_ok (unlockings s)"
    and "\<forall>p\<in>set (unlockings s). canonical (fst p) \<and> ul_owner (fst p) \<in> A \<and> 0 < ul_Amount (snd p)"
    and "all_owed ctx (unlockings s) \<le> stake_bal K (ext s) (ModuleAddress K TierModuleName)"
  shows "\<exists>x es. CompleteUnlocking K ctx s =
      (Inr (), s\<lparr>ext := x, unlockings := filter (\<lambda>p. \<not> matured ctx (snd p)) (unlockings s), events := es\<rparr>) \<and>
    (\<forall>a. a \<noteq> ModuleAddress K TierModuleName \<longrightarrow> stake_bal K x a = stake_bal K (ext s) a + owed ctx a (unlockings s))"
proof -
  have "distinct (map fst ([] @ unlockings s))"
    using kv_ok_distinct [OF assms(3)] by simp
  from complete_loop [OF assms(1,2) this _ assms(4,5)] show ?thesis
    by (simp add: CompleteUnlocking_def iterateUnlockingLockups_def bindM_def)
qed

lemma demo_payout_laws: "payout_laws (demo_K cd) (- {TierModuleName})"
  by (auto simp: payout_laws_def demo_K_def move_coins_def has_coins_def add_coins_def sub_coins_def)

theorem unlocking_pays_witness:
  "\<exists>t. CompleteUnlocking (demo_K std_codec) (demo_ctx 1000000000000) demo_due = (Inr (), t) \<and> unlockings t = [] \<and>
    bal (ext t) demo_del DefaultBondDenom = bal (ext demo_due) demo_del DefaultBondDenom + 4"
proof -
  let ?K = "demo_K std_codec" and ?c = "demo_ctx 1000000000000" and ?k = "UnlockingLockupKey demo_del demo_val 1"
  have o: "ul_owner ?k = demo_del"
    using unlocking_key.unmk_mk [of "(demo_del, demo_val, 1)"] by (simp add: ul_owner_def addr20_def is_i64_def)
  have u: "unlockings demo_due = [(?k, demo_unlocking demo_block1 4)]" by (simp add: demo_due_def)
  have m: "matured ?c (demo_unlocking demo_block1 4)"
    by (simp add: matured_def demo_unlocking_def demo_block1_def demo_ctx_def)
  have a: "ul_Amount (demo_unlocking demo_block1 4) = 4" by (simp add: demo_unlocking_def)
  have b: "4 \<le> stake_bal ?K (ext demo_due) (ModuleAddress ?K TierModuleName)"
    by (simp add: demo_due_def demo_K_def demo_locked_def demo_paid_def add_coins_def sub_coins_def demo_state_def
        MicroCreditDenom_def DefaultBondDenom_def TierModuleName_def)
  have c: "coin_laws (coinOps ?K)" by (simp add: demo_K_def std_coins_laws)
  obtain x es where x: "CompleteUnlocking ?K ?c demo_due =
      (Inr (), demo_due\<lparr>ext := x, unlockings := filter (\<lambda>p. \<not> matured ?c (snd p)) (unlockings demo_due), events := es\<rparr>)"
    "\<forall>a. a \<noteq> ModuleAddress ?K TierModuleName \<longrightarrow> stake_bal ?K x a = stake_bal ?K (ext demo_due) a + owed ?c a (unlockings demo_due)"
    using unlocking_pays [OF c demo_payout_laws demo_due_keys(1), of ?c] demo_due_keys(2) b
    by (auto simp: u o m a TierModuleName_def)
  have "owed ?c demo_del (unlockings demo_due) = 4" by (simp add: u o m a)
  moreover have "stake_bal ?K y demo_del = int (bal y demo_del DefaultBondDenom)" "ModuleAddress ?K TierModuleName \<noteq> demo_del" for y
    by (simp_all add: demo_K_def TierModuleName_def)
  ultimately have "int (bal x demo_del DefaultBondDenom) = int (bal (ext demo_due) demo_del DefaultBondDenom) + 4"
    using x(2) by metis
  with x(1) show ?thesis by (auto simp: u m)
qed

section \<open>Accounts whose address does not have 20 bytes\<close>

lemma iterKV_malformed: "\<not> keys_parse parse st \<Longrightarrow> \<exists>e t. iterKV parse cb st b s = (Inl e, t)"
proof (induction st arbitrary: b s)
  case (Cons p st)
  show ?case
  proof (cases "parse (fst p)")
    case None
    then show ?thesis by (cases p) (simp add: iterKV_def bindM_def)
  next
    case (Some i)
    with Cons.prems have bad: "\<not> keys_parse parse st" by (auto simp: keys_parse_def)
    show ?thesis
    proof (cases "cb i (snd p) b s")
      case (Pair r t)
      then show ?thesis using Cons.IH [OF bad, of _ t] by (cases r) (simp_all add: iterKV_Cons [of parse p i, OF Some])
    qed
  qed
qed (simp add: keys_parse_def)

lemma bad_key_prorated:
  assumes "\<not> keys_parse LockupKeyToAddresses (lockups s)"
  shows "\<exists>e t. proratedCredit K ctx d a s = (Inl e, t)"
  using iterKV_malformed [OF assms, of "\<lambda>(d', v) l acc. ret (if d' = d then acc + Amount l else acc)" 0 s]
  by (auto simp: proratedCredit_def totalLockedAmountByAddr_def mustIterateLockups_def bindM_def)

lemma bad_key_Lock: "\<not> keys_parse LockupKeyToAddresses (lockups s) \<Longrightarrow> Lock K ctx d v a s \<noteq> (Inr x, t)"
proof
  assume bad: "\<not> keys_parse LockupKeyToAddresses (lockups s)" and "Lock K ctx d v a s = (Inr x, t)"
  from this(2) obtain y c x3 where "proratedCredit K ctx d a (s\<lparr>ext := y\<rparr>) = (Inr c, x3)" by (rule Lock_Inr)
  with bad_key_prorated [of "s\<lparr>ext := y\<rparr>" K ctx d a] bad show False by simp
qed

lemma bad_key_epoch:
  assumes "\<not> keys_parse LockupKeyToAddresses (lockups s)"
  shows "snd (panicCatchingEpochHook (BeforeEpochStart (Tier_EpochHooks K)) ctx EpochIdentifier n s) = s"
proof -
  obtain e t where "burnAllCredits K s = (Inl e, t)"
    using iterKV_malformed [OF assms, of "\<lambda>(d, v) _. burn_credit K d" None s]
    by (auto simp: burnAllCredits_def mustIterateLockups_def bindM_def)
  then have "BeforeEpochStart (Tier_EpochHooks K) ctx EpochIdentifier n s = (Inl e, t)"
    by (simp add: Tier_EpochHooks_def Tier_BeforeEpochStart_def thenM_def bindM_def)
  then show ?thesis by (auto simp: panicCatchingEpochHook_def applyFunc_def bindM_def)
qed

lemma LockupKey_malformed: "length d + length v \<noteq> 40 \<Longrightarrow> LockupKeyToAddresses (LockupKey d v) = None"
  by (simp add: LockupKeyToAddresses_def LockupKey_def)

text \<open>C37: One lock by an account whose address does not have 20 bytes (an interchain or a derived module
  account has 32) stops the module. The lock succeeds and stores its record under a key that the parser
  refuses. From then on every lock of every account fails, and the credits of the epoch are neither
  burned nor granted again.\<close>

theorem long_address_freezes_credits:
  assumes "Lock K ctx d v a s = (Inr (), t)" and "length d + length v \<noteq> 40"
  shows "(\<exists>e. cacheCtx (Lock K ctx' d' v' a') t = (Inl e, t)) \<and>
    snd (panicCatchingEpochHook (BeforeEpochStart (Tier_EpochHooks K)) ctx' EpochIdentifier n t) = t"
proof -
  from assms(1) obtain s1 s2 where s1: "AddLockup K d v a s1 = (Inr (), s2)" "same_stake s2 t"
    by (rule Lock_Inr)
  then have "lockups t = kv_set (LockupKey d v) (newLockup K d v (GetLockupAmount d v s1 + a)) (lockups s1)"
    using AddLockup_Inr [OF s1(1)] same_stakeD(3) [OF s1(2)] by auto
  then have bad: "\<not> keys_parse LockupKeyToAddresses (lockups t)"
    using LockupKey_malformed [OF assms(2)] kv_get_in_set [of "lockups t" "LockupKey d v"] by (force simp: keys_parse_def)
  then have "\<exists>e. cacheCtx (Lock K ctx' d' v' a') t = (Inl e, t)"
    using bad_key_Lock [OF bad] by (intro cacheCtx_fail) blast
  with bad_key_epoch [OF bad] show ?thesis by simp
qed

lemma demo_lock_any:
  assumes "AccFromBech32 cd (AccString cd d) = Inr a" and "d \<noteq> TierModuleName"
  shows "\<exists>t. Lock (demo_K cd) (demo_ctx 1000000) d demo_val 10 (demo_state 100) = (Inr (), t)"
proof -
  let ?K = "demo_K cd" and ?s = "demo_state 100"
  define x where "x = add_coins TierModuleName [(DefaultBondDenom, 10)] (sub_coins d [(DefaultBondDenom, 10)] (ext ?s))"
  have "proratedCredit ?K (demo_ctx 1000000) d 10 (?s\<lparr>ext := x\<rparr>) = (Inr 5, ?s\<lparr>ext := x\<rparr>)"
    using demo_credit
    by (subst proratedCredit_run) (simp_all add: demo_state_def GetParams_def GetEpochInfo_def demo_epoch_def demo_ctx_def)
  moreover have "DelegateCoinsFromAccountToModule ?K d TierModuleName [(DefaultBondDenom, 10)] (ext ?s) = (Inr (), x)"
    by (simp add: demo_K_def move_coins_def has_coins_def demo_state_def x_def)
  moreover obtain x3 where "mintCredit ?K d 5 (?s\<lparr>ext := x\<rparr>) = (Inr (), ?s\<lparr>ext := x3\<rparr>)"
    using demo_mint [OF assms(1), of "?s\<lparr>ext := x\<rparr>"] by auto
  ultimately show ?thesis
    by (subst Lock_run [where cs = "[(DefaultBondDenom, 10)]" and val = demo_val and sh = "10 * dec_one" and ?x2.0 = x and
          ?x1.0 = x and c = 5 and u = "()" and u' = "()" and ?x3.0 = x3])
      (simp_all add: demo_K_def std_coins_def demo_state_def GetTotalLockupsAmount_def is_i64_def getTotalCreditAmount_def)
qed

theorem long_address_freezes_credits_witness:
  "\<exists>t. Lock (demo_K std_codec) (demo_ctx 1000000) ''iiiiiiiiiiiiiiiiiiiiiiiiiiiiiiii'' demo_val 10 (demo_state 100) = (Inr (), t) \<and>
    (\<exists>e. cacheCtx (Lock (demo_K std_codec) (demo_ctx 1000000) demo_del demo_val 10) t = (Inl e, t))"
proof -
  let ?d = "''iiiiiiiiiiiiiiiiiiiiiiiiiiiiiiii''"
  have "AccFromBech32 std_codec (AccString std_codec ?d) = Inr ?d" by (simp add: std_codec_def addr_ok_def)
  then obtain t where t: "Lock (demo_K std_codec) (demo_ctx 1000000) ?d demo_val 10 (demo_state 100) = (Inr (), t)"
    using demo_lock_any [of std_codec ?d] by (auto simp: TierModuleName_def)
  have "length ?d + length demo_val \<noteq> 40" by simp
  from long_address_freezes_credits [OF t this] t show ?thesis by blast
qed

end
