(* ===== verification/Epoch_Props.thy ===== *)
theory Epoch_Props
  imports Unlocking_Props
begin

text \<open>
  The epochs module with the hooks of the tier module installed (no other module provides hooks):
  every begin block steps the stored timers as their specification \<open>epoch_tick\<close> does, whatever the
  hooks do.
\<close>

section \<open>The hooks leave the timers alone\<close>

lemma epoch_store_indep:
  "indep_ext (\<lambda>s. epoch_store s = st)" "indep_credits (\<lambda>s. epoch_store s = st)"
  "indep_unlockings (\<lambda>s. epoch_store s = st)" "indep_lockups (\<lambda>s. epoch_store s = st)"
  by (simp_all add: indep_defs)

interpretation timer_frame: stake_invariant K "\<lambda>s. epoch_store s = st" "\<lambda>_. True" for K st
  by (rule stake_invariant_frame) (rule epoch_store_indep)+

interpretation tier_hooks: epoch_hooks "[Tier_EpochHooks K]" for K
  by unfold_locales (auto simp: Tier_EpochHooks_def intro: timer_frame.hooks_keep)

lemma blocks_Inl: "Epochs_blocks hooks cs s = (Inl e, t) \<Longrightarrow> IsOutOfGasError e"
  unfolding Epochs_blocks_def by (rule forM_Inl [rotated]) (auto dest: BeginBlocker_Inl)


lemma demo_state_epochs: "epochs_wf (epoch_store (demo_state n))"
  "kv_get (epoch_store (demo_state n)) (epochKey EpochIdentifier) = Some demo_epoch"
  by (simp_all add: demo_state_def epochs_wf_def demo_epoch_def EpochIdentifier_def TierModuleName_def)


text \<open>C29: A running timer catches up. Once blocks carry times of at least \<open>T\<close>, at most
  \<open>(T - start of the current epoch) / duration\<close> of them pass before the current epoch ends no earlier
  than \<open>T\<close>. No hook can stop the begin blocks short of running out of gas, and on the way the start of
  the epoch stays \<open>StartTime + (CurrentEpoch - 1) * Duration\<close>.\<close>

theorem epoch_catches_up:
  assumes "epochs_wf (epoch_store s)" and "kv_get (epoch_store s) (epochKey i) = Some e"
    and "epoch_ok e" and "EpochCountingStarted e" and "StartTime e \<le> T"
    and "\<forall>c\<in>set cs. T \<le> BlockTime c"
    and "CurrentEpoch e + int (length cs) < 2 ^ 63"
    and "T - CurrentEpochStartTime e \<le> (int (length cs) + 1) * Duration e"
    and "Epochs_blocks [Tier_EpochHooks K] cs s = (r, t)" and "\<forall>err. IsOutOfGasError err \<longrightarrow> r \<noteq> Inl err"
  shows "r = Inr () \<and> epoch_ok (GetEpochInfo i t) \<and> T \<le> CurrentEpochStartTime (GetEpochInfo i t) + Duration e \<and>
         CurrentEpoch (GetEpochInfo i t) \<le> CurrentEpoch e + int (length cs)"
proof -
  have r: "r = Inr ()" using assms(9,10) by (cases r) (auto dest: blocks_Inl)
  then have "GetEpochInfo i t = tick_run cs e" using tier_hooks.blocks_get [OF assms(1) _ assms(2)] assms(9) by simp
  then show ?thesis using r tick_run_catch_up [OF assms(3-8)] tick_run_ok [OF assms(3,4,7)] by simp
qed

definition quiet :: "'x tier_state \<Rightarrow> bool" where
  "quiet s \<longleftrightarrow> lockups s = [] \<and> unlockings s = [] \<and> user_subs s = []"

lemma demo_hooks:
  assumes "quiet s"
  shows "Tier_AfterEpochEnd (demo_K cd) ctx i n s = (Inr (), s)"
    and "Tier_BeforeEpochStart (demo_K cd) ctx i n s = (Inr (), if i = EpochIdentifier then s\<lparr>total_credits := Some 0\<rparr> else s)"
  using assms
  by (simp_all add: quiet_def Tier_AfterEpochEnd_def Tier_BeforeEpochStart_def CompleteUnlocking_def iterateUnlockingLockups_def
      iterKV_def burnAllCredits_def resetAllCredits_def mustIterateLockups_def checkDeveloperCredits_def
      mustIterateUserSubscriptions_def mint_all_def setTotalCreditAmount_def Int64_def is_i64_def thenM_def bindM_def)

lemma demo_keeper_hooks:
  assumes "quiet s"
  shows "Keeper_AfterEpochEnd [Tier_EpochHooks (demo_K cd)] ctx i n s = (Inr (), s)"
    and "Keeper_BeforeEpochStart [Tier_EpochHooks (demo_K cd)] ctx i n s =
      (Inr (), if i = EpochIdentifier then s\<lparr>total_credits := Some 0\<rparr> else s)"
  by (simp_all add: Keeper_AfterEpochEnd_def Keeper_BeforeEpochStart_def Multi_AfterEpochEnd_def Multi_BeforeEpochStart_def
      panicCatchingEpochHook_def applyFunc_def forM_def tryM_def Tier_EpochHooks_def demo_hooks [OF assms] bindM_def)

lemma demo_begin_epoch:
  assumes "quiet s"
  shows "\<exists>t. begin_block_epoch [Tier_EpochHooks (demo_K cd)] ctx e s = (Inr False, t) \<and> quiet t"
  using assms
  by (auto simp: begin_block_epoch_def SetEpochInfo_def thenM_def bindM_def Let_def demo_keeper_hooks quiet_def)

lemma demo_begin_block:
  assumes "quiet s"
  shows "\<exists>t. Epochs_BeginBlocker [Tier_EpochHooks (demo_K cd)] ctx s = (Inr (), t) \<and> quiet t"
proof -
  have "\<exists>t. iter_epochs (\<lambda>_. begin_block_epoch [Tier_EpochHooks (demo_K cd)] ctx) i ps s = (Inr (), t) \<and> quiet t" for i ps
    using assms
  proof (induction ps arbitrary: i s)
    case (Cons p ps)
    then show ?case using demo_begin_epoch [OF Cons.prems, of cd ctx "snd p"] by (fastforce simp: bindM_def)
  qed simp
  then show ?thesis by (simp add: Epochs_BeginBlocker_def IterateEpochInfo_def)
qed

theorem epoch_catches_up_witness:
  "\<exists>t. Epochs_blocks [Tier_EpochHooks (demo_K std_codec)] [demo_ctx 5000000, demo_ctx 5000001] (demo_state 100) = (Inr (), t) \<and>
    5000000 \<le> CurrentEpochStartTime (GetEpochInfo EpochIdentifier t) + 2000000"
proof -
  have "quiet (demo_state 100)" by (simp add: quiet_def demo_state_def)
  from demo_begin_block [OF this, of std_codec "demo_ctx 5000000"] obtain t1 where
    t1: "Epochs_BeginBlocker [Tier_EpochHooks (demo_K std_codec)] (demo_ctx 5000000) (demo_state 100) = (Inr (), t1)" "quiet t1"
    by blast
  from demo_begin_block [OF t1(2), of std_codec "demo_ctx 5000001"] obtain t where
    "Epochs_BeginBlocker [Tier_EpochHooks (demo_K std_codec)] (demo_ctx 5000001) t1 = (Inr (), t)" by blast
  with t1 have t: "Epochs_blocks [Tier_EpochHooks (demo_K std_codec)] [demo_ctx 5000000, demo_ctx 5000001] (demo_state 100) = (Inr (), t)"
    by (simp add: Epochs_blocks_def forM_def bindM_def)
  have "5000000 \<le> CurrentEpochStartTime (GetEpochInfo EpochIdentifier t) + Duration demo_epoch"
    using epoch_catches_up [OF demo_state_epochs _ _ _ _ _ _ t, of 5000000]
    by (simp add: demo_epoch_def epoch_ok_def demo_ctx_def)
  with t show ?thesis by (simp add: demo_epoch_def)
qed

end
