(* ===== verification/Go_Strings.thy ===== *)
theory Go_Strings
  imports Sdk_Params "HOL-Library.Word"
begin

text \<open>
  What the orbis module uses of Go's standard library on strings and byte slices, which are both
  lists of bytes: \<open>encoding/hex\<close>, \<open>strings.ToLower\<close>, \<open>strings.TrimSpace\<close>, \<open>strings.TrimPrefix\<close>,
  \<open>strings.SplitN(s, sep, 2)[0]\<close>, \<open>utf8.Valid\<close>, \<open>binary.BigEndian\<close> on 32 and 64 bit words,
  \<open>slices.Sort\<close>, \<open>slices.Index\<close> with \<open>slices.Delete\<close>, and maps used as sets of seen strings.
\<close>

section \<open>Big-endian words\<close>

definition be_nat :: "bytes \<Rightarrow> nat" where
  "be_nat bs = foldl (\<lambda>n c. n * 256 + of_char c) 0 bs"

definition putU32 :: "32 word \<Rightarrow> bytes" where
  "putU32 w = big_endian 4 (unat w)"

definition putU64 :: "64 word \<Rightarrow> bytes" where
  "putU64 w = big_endian 8 (unat w)"

definition getU32 :: "bytes \<Rightarrow> 32 word" where
  "getU32 bs = of_nat (be_nat bs)"

definition getU64 :: "bytes \<Rightarrow> 64 word" where
  "getU64 bs = of_nat (be_nat bs)"

lemma length_putU [simp]: "length (putU32 w) = 4" "length (putU64 x) = 8"
  by (simp_all add: putU32_def putU64_def)

lemma be_nat_snoc: "be_nat (bs @ [c]) = be_nat bs * 256 + of_char c"
  by (simp add: be_nat_def)

lemma be_nat_big_endian: "n < 256 ^ k \<Longrightarrow> be_nat (big_endian k n) = n"
proof (induction k arbitrary: n)
  case 0
  then show ?case by (simp add: be_nat_def)
next
  case (Suc k)
  then have "n div 256 < 256 ^ k" by (simp add: less_mult_imp_div_less mult.commute)
  with Suc.IH show ?case by (simp add: be_nat_snoc)
qed

lemma getU_putU [simp]: "getU32 (putU32 w) = w" "getU64 (putU64 x) = x"
proof -
  have "unat w < 256 ^ 4" "unat x < 256 ^ 8"
    using unsigned_less [of w, where 'a = nat] unsigned_less [of x, where 'a = nat] by simp_all
  then show "getU32 (putU32 w) = w" "getU64 (putU64 x) = x"
    by (simp_all add: getU32_def putU32_def getU64_def putU64_def be_nat_big_endian)
qed

lemma putU_inj [simp]: "putU32 w = putU32 w' \<longleftrightarrow> w = w'" "putU64 x = putU64 x' \<longleftrightarrow> x = x'"
  by (metis getU_putU(1)) (metis getU_putU(2))

lemma putU64_less [simp]: "putU64 x < putU64 y \<longleftrightarrow> x < y"
proof -
  have "unat x < 256 ^ 8" "unat y < 256 ^ 8"
    using unsigned_less [of x, where 'a = nat] unsigned_less [of y, where 'a = nat] by simp_all
  then show ?thesis by (simp add: putU64_def big_endian_less word_less_nat_alt)
qed

section \<open>Hexadecimal\<close>

definition hex_digit :: "nat \<Rightarrow> char" where
  "hex_digit n = char_of (if n < 10 then 48 + n else 87 + n)"

definition hex_val :: "char \<Rightarrow> nat option" where
  "hex_val c =
     (let n = (of_char c :: nat)
      in if 48 \<le> n \<and> n \<le> 57 then Some (n - 48)
         else if 97 \<le> n \<and> n \<le> 102 then Some (n - 87)
         else if 65 \<le> n \<and> n \<le> 70 then Some (n - 55)
         else None)"

definition hex_EncodeToString :: "bytes \<Rightarrow> string" where
  "hex_EncodeToString bs =
     concat (map (\<lambda>c. [hex_digit (of_char c div 16), hex_digit (of_char c mod 16)]) bs)"

fun hex_DecodeString :: "string \<Rightarrow> bytes option" where
  "hex_DecodeString [] = Some []"
| "hex_DecodeString [c] = None"
| "hex_DecodeString (a # b # cs) =
     (case (hex_val a, hex_val b, hex_DecodeString cs) of
        (Some i, Some j, Some bs) \<Rightarrow> Some (char_of (16 * i + j) # bs)
      | _ \<Rightarrow> None)"

lemma hex_val_digit: "n < 16 \<Longrightarrow> hex_val (hex_digit n) = Some n"
  by (auto simp: hex_val_def hex_digit_def Let_def)

lemma of_char_less [simp]: "(of_char c :: nat) < 256"
  using of_char_mod_256 [of c, where 'a = nat] by (metis mod_less_divisor zero_less_numeral)

lemma hex_decode_encode [simp]: "hex_DecodeString (hex_EncodeToString bs) = Some bs"
proof (induction bs)
  case Nil
  then show ?case by (simp add: hex_EncodeToString_def)
next
  case (Cons c bs)
  have "(of_char c :: nat) div 16 < 16" "16 * ((of_char c :: nat) div 16) + of_char c mod 16 = of_char c"
    using of_char_less [of c] by (simp_all add: less_mult_imp_div_less)
  with Cons show ?case by (simp add: hex_EncodeToString_def hex_val_digit)
qed

lemma hex_encode_inj [simp]: "hex_EncodeToString a = hex_EncodeToString b \<longleftrightarrow> a = b"
  by (metis hex_decode_encode option.inject)

lemma length_hex_encode [simp]: "length (hex_EncodeToString bs) = 2 * length bs"
  by (induction bs) (auto simp: hex_EncodeToString_def)

section \<open>Case, space and prefixes\<close>

text \<open>
  \<open>strings.ToLower\<close> maps ASCII letters, and of the other characters only U+0130 and U+212A to an
  ASCII letter. The remaining non-ASCII letters are left alone: their lower case is not ASCII either,
  and every result is compared with an ASCII string or decoded as hexadecimal.
\<close>

fun toLower :: "string \<Rightarrow> string" where
  "toLower [] = []"
| "toLower (c # cs) =
     (let n = (of_char c :: nat) in
      if 65 \<le> n \<and> n \<le> 90 then char_of (n + 32) # toLower cs
      else if n = 196 then
        (case cs of
           d # ds \<Rightarrow> if of_char d = (176 :: nat) then CHR ''i'' # toLower ds else c # toLower cs
         | [] \<Rightarrow> [c])
      else if n = 226 then
        (case cs of
           d # e # ds \<Rightarrow>
             if of_char d = (132 :: nat) \<and> of_char e = (170 :: nat) then CHR ''k'' # toLower ds else c # toLower cs
         | _ \<Rightarrow> c # toLower cs)
      else c # toLower cs)"

text \<open>The UTF-8 encodings of the characters that \<open>unicode.IsSpace\<close> accepts.\<close>

definition space_codes :: "nat list list" where
  "space_codes =
     [[9], [10], [11], [12], [13], [32], [194, 133], [194, 160], [225, 154, 128]] @
     map (\<lambda>n. [226, 128, n]) ([128..<139] @ [168, 169, 175]) @ [[226, 129, 159], [227, 128, 128]]"

definition spaces :: "bytes list" where
  "spaces = map (map char_of) space_codes"

lemma spaces_nonempty: "w \<in> set spaces \<Longrightarrow> w \<noteq> []"
  by (auto simp: spaces_def space_codes_def)

function trimLeft :: "bytes \<Rightarrow> bytes" where
  "trimLeft bs =
     (case find (\<lambda>w. prefix w bs) spaces of
        None \<Rightarrow> bs
      | Some w \<Rightarrow> trimLeft (drop (length w) bs))"
  by pat_completeness auto

lemma find_space:
  "find (\<lambda>w. prefix w bs) spaces = Some w \<Longrightarrow> w \<in> set spaces \<and> prefix w bs"
  by (metis find_Some_iff nth_mem)

termination trimLeft
proof (relation "measure length")
  fix bs w
  assume "find (\<lambda>w. prefix w bs) spaces = Some w"
  then have "w \<noteq> []" "prefix w bs"
    using find_space spaces_nonempty by blast+
  then have "length w \<le> length bs" "0 < length w"
    by (simp_all add: prefix_length_le)
  then show "(drop (length w) bs, bs) \<in> measure length"
    by (simp add: diff_less del: length_greater_0_conv)
qed simp

declare trimLeft.simps [simp del]

text \<open>\<open>trimRight\<close> removes the same characters from the right.\<close>

function trimRight :: "bytes \<Rightarrow> bytes" where
  "trimRight bs =
     (case find (\<lambda>w. suffix w bs) spaces of
        None \<Rightarrow> bs
      | Some w \<Rightarrow> trimRight (take (length bs - length w) bs))"
  by pat_completeness auto

termination trimRight
proof (relation "measure length")
  fix bs w
  assume "find (\<lambda>w. suffix w bs) spaces = Some w"
  then have "w \<in> set spaces" "suffix w bs"
    by (metis find_Some_iff nth_mem)+
  then have "0 < length w" "length w \<le> length bs"
    using spaces_nonempty by (auto simp: suffix_length_le)
  then show "(take (length bs - length w) bs, bs) \<in> measure length"
    by (simp add: diff_less del: length_greater_0_conv)
qed simp

declare trimRight.simps [simp del]

definition TrimSpace :: "string \<Rightarrow> string" where
  "TrimSpace str = trimRight (trimLeft str)"

lemma spaces_not_printable:
  "w \<in> set spaces \<Longrightarrow> \<not> (of_char (hd w) \<in> {33::nat..<128}) \<and> \<not> (of_char (last w) \<in> {33::nat..<128})"
  by (auto simp: spaces_def space_codes_def)

lemma find_NoneI: "(\<And>w. w \<in> set ws \<Longrightarrow> \<not> P w) \<Longrightarrow> find P ws = None"
  by (auto simp: find_None_iff)

text \<open>Strings that start and end with printable ASCII characters are not trimmed.\<close>

lemma TrimSpace_printable:
  assumes "str \<noteq> []" and "of_char (hd str) \<in> {33::nat..<128}" and "of_char (last str) \<in> {33::nat..<128}"
  shows "TrimSpace str = str"
proof -
  have "\<not> prefix w str" if "w \<in> set spaces" for w
    using that spaces_not_printable [OF that] spaces_nonempty [OF that] assms(2) by (cases w) (auto simp: prefix_def)
  then have "find (\<lambda>w. prefix w str) spaces = None"
    by (rule find_NoneI)
  then have left: "trimLeft str = str"
    by (subst trimLeft.simps) simp
  have "\<not> suffix w str" if "w \<in> set spaces" for w
    using that spaces_not_printable [OF that] spaces_nonempty [OF that] assms(3) by (auto simp: suffix_def)
  then have "find (\<lambda>w. suffix w str) spaces = None"
    by (rule find_NoneI)
  then have "trimRight str = str"
    by (subst trimRight.simps) simp
  with left show ?thesis by (simp add: TrimSpace_def)
qed

definition TrimPrefix :: "string \<Rightarrow> string \<Rightarrow> string" where
  "TrimPrefix str pre = (if prefix pre str then drop (length pre) str else str)"

text \<open>\<open>strings.SplitN(str, c, 2)[0]\<close> for a one-byte separator.\<close>

definition splitHead :: "string \<Rightarrow> char \<Rightarrow> string" where
  "splitHead str c = takeWhile (\<lambda>d. d \<noteq> c) str"

section \<open>UTF-8\<close>

definition cont :: "char \<Rightarrow> bool" where
  "cont c \<longleftrightarrow> (let n = (of_char c :: nat) in 128 \<le> n \<and> n \<le> 191)"

definition within :: "nat \<Rightarrow> nat \<Rightarrow> char \<Rightarrow> bool" where
  "within lo hi c \<longleftrightarrow> (let n = (of_char c :: nat) in lo \<le> n \<and> n \<le> hi)"

text \<open>\<open>utf8.Valid\<close>: shortest encodings of the code points up to U+10FFFF without surrogates.\<close>

fun utf8_Valid :: "bytes \<Rightarrow> bool" where
  "utf8_Valid [] = True"
| "utf8_Valid (a # cs) =
     (if within 0 127 a then utf8_Valid cs
      else case cs of
        [] \<Rightarrow> False
      | b # ds \<Rightarrow>
          if within 194 223 a then cont b \<and> utf8_Valid ds
          else case ds of
            [] \<Rightarrow> False
          | c # es \<Rightarrow>
              if within 224 239 a then
                within (if a = char_of (224 :: nat) then 160 else 128) (if a = char_of (237 :: nat) then 159 else 191) b \<and>
                cont c \<and> utf8_Valid es
              else case es of
                [] \<Rightarrow> False
              | d # fs \<Rightarrow>
                  within 240 244 a \<and>
                  within (if a = char_of (240 :: nat) then 144 else 128) (if a = char_of (244 :: nat) then 143 else 191) b \<and>
                  cont c \<and> cont d \<and> utf8_Valid fs)"

section \<open>Slices of strings\<close>

text \<open>\<open>slices.Delete(xs, i, i+1)\<close> at \<open>i = slices.Index(xs, x)\<close>, when \<open>x\<close> occurs.\<close>

definition deleteAt :: "string \<Rightarrow> string list \<Rightarrow> string list" where
  "deleteAt x xs = remove1 x xs"

text \<open>
  The loops that collect \<open>seen\<close> strings: \<open>uniqueBy chk e seen xs\<close> returns the first error of \<open>chk\<close>, or
  \<open>e\<close> at the first repetition.
\<close>

fun uniqueBy :: "(string \<Rightarrow> error option) \<Rightarrow> error \<Rightarrow> string list \<Rightarrow> string list \<Rightarrow> error option" where
  "uniqueBy chk e seen [] = None"
| "uniqueBy chk e seen (x # xs) =
     (case chk x of
        Some err \<Rightarrow> Some err
      | None \<Rightarrow> if x \<in> set seen then Some e else uniqueBy chk e (x # seen) xs)"

lemma uniqueBy_None:
  "uniqueBy chk e seen xs = None \<longleftrightarrow>
     (\<forall>x\<in>set xs. chk x = None) \<and> distinct xs \<and> set xs \<inter> set seen = {}"
  by (induction xs arbitrary: seen) (auto split: option.splits)

lemma uniqueBy_sort [simp]: "uniqueBy chk e [] (sort xs) = None \<longleftrightarrow> uniqueBy chk e [] xs = None"
  by (simp add: uniqueBy_None)

text \<open>Chains of checks.\<close>

definition orElse :: "error option \<Rightarrow> error option \<Rightarrow> error option" where
  "orElse a b = (case a of Some e \<Rightarrow> Some e | None \<Rightarrow> b)"

definition failIf :: "bool \<Rightarrow> error \<Rightarrow> error option" where
  "failIf b e = (if b then Some e else None)"

definition checkE :: "error option \<Rightarrow> error + unit" where
  "checkE r = (case r of Some e \<Rightarrow> Inl e | None \<Rightarrow> Inr ())"

definition firstErr :: "error option list \<Rightarrow> error option" where
  "firstErr xs = foldr orElse xs None"

lemma failIf_None [simp]: "failIf b e = None \<longleftrightarrow> \<not> b"
  by (simp add: failIf_def)

lemma firstErr_None [simp]:
  "firstErr [] = None" "firstErr (x # xs) = None \<longleftrightarrow> x = None \<and> firstErr xs = None"
  by (auto simp: firstErr_def orElse_def split: option.splits)

lemma checkE_Inr [simp]: "checkE r = Inr u \<longleftrightarrow> r = None"
  by (simp add: checkE_def split: option.splits)

end
