(* ===== verification/Orbis_Types.thy ===== *)
theory Orbis_Types
  imports Acp_Did Go_Strings
begin

text \<open>
  The data of the orbis module (\<open>x/orbis/types\<close>, \<open>x/orbis/keeper/validation.go\<close>, \<open>ring_upgrade.go\<close> and
  \<open>node_info.go\<close>): rings (committees of nodes that hold a shared key), their upgrade and reporting
  settings, documents, key derivations and node infos, with the validation of each, the identifiers
  derived from their contents and the scheduled protocol upgrades.

  A nil \<open>oneof\<close> field is \<open>None\<close>. Integers keep their width: \<open>uint32\<close> and \<open>uint64\<close> are words.

  \<open>orbis_lib\<close> holds the libraries the module calls: SHA-256, the JSON decoder, the BLS and Jubjub
  verifiers and the protobuf encoding of the two sign documents.
\<close>

type_synonym uint32 = "32 word"
type_synonym uint64 = "64 word"

section \<open>Errors\<close>

abbreviation "ErrInvalidSigner \<equiv> ErrReg ''orbis'' 1200"
abbreviation "ErrInvalidRingId \<equiv> ErrReg ''orbis'' 1202"
abbreviation "ErrInvalidDocumentId \<equiv> ErrReg ''orbis'' 1203"
abbreviation "ErrInvalidKeyDerivationId \<equiv> ErrReg ''orbis'' 1204"
abbreviation "ErrInvalidRing \<equiv> ErrReg ''orbis'' 1205"
abbreviation "ErrRingAlreadyExists \<equiv> ErrReg ''orbis'' 1206"
abbreviation "ErrRingNotFound \<equiv> ErrReg ''orbis'' 1207"
abbreviation "ErrDocumentAlreadyExists \<equiv> ErrReg ''orbis'' 1208"
abbreviation "ErrKeyDerivationAlreadyExists \<equiv> ErrReg ''orbis'' 1210"
abbreviation "ErrInvalidDocument \<equiv> ErrReg ''orbis'' 1212"
abbreviation "ErrInvalidKeyDerivation \<equiv> ErrReg ''orbis'' 1213"
abbreviation "ErrReshareInProgress \<equiv> ErrReg ''orbis'' 1216"
abbreviation "ErrInvalidThresholdSignature \<equiv> ErrReg ''orbis'' 1217"
abbreviation "ErrInvalidSignatureScheme \<equiv> ErrReg ''orbis'' 1218"
abbreviation "ErrInvalidSignaturePayload \<equiv> ErrReg ''orbis'' 1219"
abbreviation "ErrNodeInfoAlreadyExists \<equiv> ErrReg ''orbis'' 1220"
abbreviation "ErrNodeInfoNotFound \<equiv> ErrReg ''orbis'' 1221"
abbreviation "ErrInvalidNodeInfo \<equiv> ErrReg ''orbis'' 1222"
abbreviation "ErrUnauthorizedNodeInfoUpdate \<equiv> ErrReg ''orbis'' 1223"
abbreviation "ErrRingAlreadyFinalized \<equiv> ErrReg ''orbis'' 1225"
abbreviation "ErrInvalidRingFinalizer \<equiv> ErrReg ''orbis'' 1226"
abbreviation "ErrDuplicateConfirmation \<equiv> ErrReg ''orbis'' 1227"
abbreviation "ErrRingNotFinalized \<equiv> ErrReg ''orbis'' 1228"
abbreviation "ErrUnauthorizedRingUpdate \<equiv> ErrReg ''orbis'' 1229"
abbreviation "ErrUnauthorizedRingCreate \<equiv> ErrReg ''orbis'' 1230"
abbreviation "ErrNodeWhitelistEntryExists \<equiv> ErrReg ''orbis'' 1231"
abbreviation "ErrNodeWhitelistEntryNotFound \<equiv> ErrReg ''orbis'' 1232"
abbreviation "ErrRingPssIntervalUnchanged \<equiv> ErrReg ''orbis'' 1233"
abbreviation "ErrRingUpgradeNotScheduled \<equiv> ErrReg ''orbis'' 1234"
abbreviation "ErrRingUpgradeAlreadyActive \<equiv> ErrReg ''orbis'' 1235"
abbreviation "ErrNodeInfoUnchanged \<equiv> ErrReg ''orbis'' 1236"
abbreviation "ErrRingUpgradeUnchanged \<equiv> ErrReg ''orbis'' 1237"
abbreviation "ErrInvalidRingCanceller \<equiv> ErrReg ''orbis'' 1238"
abbreviation "ErrInvalidReport \<equiv> ErrReg ''orbis'' 1239"
abbreviation "ErrReportAlreadyAccepted \<equiv> ErrReg ''orbis'' 1240"
abbreviation "ErrRingTrustedAuthRelayNotFound \<equiv> ErrReg ''orbis'' 1241"
abbreviation "ErrRingAuthRelaysDisabled \<equiv> ErrReg ''orbis'' 1242"
abbreviation "ErrRingAuthRelayExists \<equiv> ErrReg ''orbis'' 1243"
abbreviation "ErrReshareNotInProgress \<equiv> ErrReg ''orbis'' 1244"
abbreviation "ErrNodeKeyBalanceEmpty \<equiv> ErrReg ''orbis'' 1245"

section \<open>Data\<close>

record UpgradeInfo =
  CurrentVersion :: uint64
  NextVersion :: "uint64 option"
  ActivationTime :: "uint64 option"

record DemeritConfig =
  NodeOfflineDemerits :: uint64
  ResetIntervalSeconds :: uint64
  InvalidCryptoResponseDemerits :: uint64
  UnauthorizedRequestDemerits :: uint64

record ReportingConfig =
  ring_DemeritConfig :: DemeritConfig
  BackupNodeKeys :: "string list"
  ring_KickThreshold :: uint64

record RingConfirmation =
  conf_NodeKey :: string
  conf_RingPk :: string
  conf_PetPk :: "string option"

record Ring =
  ring_Id :: string
  ring_CreatorDid :: string
  ring_Pk :: string
  PeerNodeKeys :: "string list"
  Threshold :: uint32
  NewPeerNodeKeys :: "string list"
  NewThreshold :: "uint32 option"
  PssInterval :: uint64
  BlockNumberNonce :: uint64
  ring_PolicyId :: string
  Confirmations :: "RingConfirmation list"
  ring_UpgradeInfo :: UpgradeInfo
  ring_Reporting :: ReportingConfig
  TrustedAuthRelayDids :: "string list"
  AllowTrustedAuthRelays :: bool
  RequiresPet :: bool
  ring_PetPk :: "string option"

record ReportingDefaults =
  def_DemeritConfig :: DemeritConfig
  def_KickThreshold :: uint64

record OrbisParams =
  DefaultReporting :: ReportingDefaults

record Document =
  doc_Id :: string
  doc_CreatorDid :: string
  doc_RingId :: string
  doc_Document :: string
  doc_Proof :: string
  doc_PolicyId :: string
  doc_Resource :: string
  doc_Permission :: string
  doc_Tier :: "string option"
  doc_Timestamp :: "uint64 option"
  doc_PetTag :: "string option"
  doc_PetTagProof :: "string option"

record KeyDerivation =
  kd_Id :: string
  kd_CreatorDid :: string
  kd_RingId :: string
  kd_Derivation :: string
  kd_PolicyId :: string
  kd_Resource :: string
  kd_Permission :: string

record NodeInfo =
  PeerId :: string
  ControllerKey :: string
  WhitelistedPolicyIds :: "string list"
  WhitelistedRingIds :: "string list"

record RingReshareSignState =
  rs_RingPk :: string
  rs_PeerNodeKeys :: "string list"
  rs_Threshold :: uint32
  rs_NewPeerNodeKeys :: "string list"
  rs_NewThreshold :: "uint32 option"
  rs_BlockNumberNonce :: uint64
  rs_PolicyId :: string
  rs_TrustedAuthRelayDids :: "string list"
  rs_AllowTrustedAuthRelays :: bool

record RingReshareFinalizeSignDoc =
  sd_Domain :: string
  sd_ChainId :: string
  sd_RingId :: string
  sd_RingPk :: string
  sd_CurrentRingSha256 :: bytes
  sd_FinalizedRingSha256 :: bytes
  sd_BlockNumberNonce :: uint64

record orbis_lib =
  Sha256 :: "bytes \<Rightarrow> bytes"
  JsonObject :: "string \<Rightarrow> error + (string \<times> bytes) list"
  JsonElems :: "bytes \<Rightarrow> error + bytes list"
  JsonUint16 :: "bytes \<Rightarrow> error + nat"
  BlsVerifyCompressed :: "bytes \<Rightarrow> bytes \<Rightarrow> bytes \<Rightarrow> bool"
  BlsKeyValidate :: "bytes \<Rightarrow> bool option"
  JubjubIsIdentity :: "bytes \<Rightarrow> error + bool"
  JubjubVerify :: "bytes \<Rightarrow> bytes \<Rightarrow> bytes \<Rightarrow> error + bool"
  MarshalSignState :: "RingReshareSignState \<Rightarrow> error + bytes"
  MarshalSignDoc :: "RingReshareFinalizeSignDoc \<Rightarrow> error + bytes"
  DecodeDIDKey :: "string \<Rightarrow> error + (bytes \<times> KeyType)"

text \<open>
  \<open>JsonObject raw\<close> are the keys and raw values that \<open>json.Decoder\<close> streams from \<open>raw\<close> when it is one JSON
  object and nothing follows it; \<open>JsonElems\<close> and \<open>JsonUint16\<close> are \<open>json.Unmarshal\<close> into a slice of raw
  messages and into a \<open>uint16\<close>. \<open>BlsVerifyCompressed pk msg sig\<close> verifies with the key prepended to the
  message; \<open>BlsKeyValidate pk\<close> is \<open>None\<close> when \<open>pk\<close> is not the encoding of a point.
\<close>

section \<open>Parameters and their defaults\<close>

definition DefaultDemeritConfig :: DemeritConfig where
  "DefaultDemeritConfig =
     \<lparr>NodeOfflineDemerits = 1, ResetIntervalSeconds = 86400, InvalidCryptoResponseDemerits = 1,
      UnauthorizedRequestDemerits = 1\<rparr>"

definition DefaultReportingDefaults :: ReportingDefaults where
  "DefaultReportingDefaults = \<lparr>def_DemeritConfig = DefaultDemeritConfig, def_KickThreshold = 3\<rparr>"

definition Orbis_DefaultParams :: OrbisParams where
  "Orbis_DefaultParams = \<lparr>DefaultReporting = DefaultReportingDefaults\<rparr>"

definition ReportingConfigFromDefaults :: "ReportingDefaults \<Rightarrow> ReportingConfig" where
  "ReportingConfigFromDefaults d =
     \<lparr>ring_DemeritConfig = def_DemeritConfig d, BackupNodeKeys = [], ring_KickThreshold = def_KickThreshold d\<rparr>"

definition ValidateDemeritConfig :: "DemeritConfig \<Rightarrow> error option" where
  "ValidateDemeritConfig c = firstErr
     [failIf (NodeOfflineDemerits c = 0) ErrInvalidRing,
      failIf (InvalidCryptoResponseDemerits c = 0) ErrInvalidRing,
      failIf (UnauthorizedRequestDemerits c = 0) ErrInvalidRing,
      failIf (ResetIntervalSeconds c = 0) ErrInvalidRing]"

definition ValidateReportingDefaults :: "ReportingDefaults \<Rightarrow> error option" where
  "ValidateReportingDefaults d = firstErr
     [ValidateDemeritConfig (def_DemeritConfig d), failIf (def_KickThreshold d = 0) ErrInvalidRing]"

definition Orbis_Params_Validate :: "OrbisParams \<Rightarrow> error option" where
  "Orbis_Params_Validate p = ValidateReportingDefaults (DefaultReporting p)"

definition ValidateReportingConfig :: "ReportingConfig \<Rightarrow> error option" where
  "ValidateReportingConfig c = firstErr
     [ValidateDemeritConfig (ring_DemeritConfig c), failIf (ring_KickThreshold c = 0) ErrInvalidRing]"

definition MinPSSIntervalSeconds :: uint64 where
  "MinPSSIntervalSeconds = 86400"

definition ValidatePSSInterval :: "uint64 \<Rightarrow> error option" where
  "ValidatePSSInterval i = failIf (i < MinPSSIntervalSeconds) ErrInvalidRing"

definition ValidateTrustedAuthRelayDIDs :: "orbis_lib \<Rightarrow> string list \<Rightarrow> error option" where
  "ValidateTrustedAuthRelayDIDs L relayDIDs =
     uniqueBy (\<lambda>relayDID.
       if relayDID = '''' \<or> TrimSpace relayDID \<noteq> relayDID then Some ErrInvalidRing
       else case DecodeDIDKey L relayDID of
         Inl e \<Rightarrow> Some ErrInvalidRing
       | Inr (_, keyType) \<Rightarrow> failIf (keyType \<noteq> Ed25519) ErrInvalidRing)
     ErrInvalidRing [] relayDIDs"

definition ValidateTrustedAuthRelayConfig :: "orbis_lib \<Rightarrow> bool \<Rightarrow> string list \<Rightarrow> error option" where
  "ValidateTrustedAuthRelayConfig L allow relayDIDs = firstErr
     [failIf (\<not> allow \<and> relayDIDs \<noteq> []) ErrInvalidRing, ValidateTrustedAuthRelayDIDs L relayDIDs]"

lemma ReportingConfigFromDefaults_valid:
  "ValidateReportingDefaults d = None \<Longrightarrow> ValidateReportingConfig (ReportingConfigFromDefaults d) = None"
  by (simp add: ValidateReportingDefaults_def ValidateReportingConfig_def ReportingConfigFromDefaults_def)

lemma DefaultParams_valid: "Orbis_Params_Validate Orbis_DefaultParams = None"
  by (simp add: Orbis_Params_Validate_def Orbis_DefaultParams_def ValidateReportingDefaults_def
      DefaultReportingDefaults_def ValidateDemeritConfig_def DefaultDemeritConfig_def)

section \<open>Scheduled upgrades\<close>

text \<open>\<open>Unix()\<close> of a time is the number of whole seconds since the epoch.\<close>

definition Unix :: "time \<Rightarrow> int" where
  "Unix t = t div 10 ^ 9"

definition MinRingUpgradeLeadSeconds :: uint64 where
  "MinRingUpgradeLeadSeconds = 600"

definition currentBlockUnixTime :: "'z sdk_ctx_scheme \<Rightarrow> error + uint64" where
  "currentBlockUnixTime ctx =
     (if Unix (BlockTime ctx) < 0 then Inl ErrInvalidRing else Inr (word_of_int (Unix (BlockTime ctx))))"

definition clearRingUpgrade :: "Ring \<Rightarrow> Ring" where
  "clearRingUpgrade ring =
     ring\<lparr>ring_UpgradeInfo := (ring_UpgradeInfo ring)\<lparr>NextVersion := None, ActivationTime := None\<rparr>\<rparr>"

definition setRingUpgrade :: "Ring \<Rightarrow> uint64 \<Rightarrow> uint64 \<Rightarrow> Ring" where
  "setRingUpgrade ring nextVersion activationTime =
     ring\<lparr>ring_UpgradeInfo :=
       (ring_UpgradeInfo ring)\<lparr>NextVersion := Some nextVersion, ActivationTime := Some activationTime\<rparr>\<rparr>"

definition normalized_event :: "string \<Rightarrow> uint64 \<Rightarrow> uint64 \<Rightarrow> uint64 \<Rightarrow> event" where
  "normalized_event ringId previousVersion currentVersion activationTime =
     (''EventRingUpgradeNormalized'',
      [(''ring_id'', ringId), (''previous_version'', utoa (unat previousVersion)),
       (''current_version'', utoa (unat currentVersion)), (''activation_time'', utoa (unat activationTime))])"

definition normalizeMaturedRingUpgrade :: "Ring \<Rightarrow> uint64 \<Rightarrow> Ring \<times> event option" where
  "normalizeMaturedRingUpgrade ring currentTime =
     (case (NextVersion (ring_UpgradeInfo ring), ActivationTime (ring_UpgradeInfo ring)) of
        (Some next, Some activationTime) \<Rightarrow>
          if currentTime < activationTime then (ring, None)
          else
            let previousVersion = CurrentVersion (ring_UpgradeInfo ring);
                ring' = clearRingUpgrade
                  (ring\<lparr>ring_UpgradeInfo := (ring_UpgradeInfo ring)\<lparr>CurrentVersion := next\<rparr>\<rparr>)
            in (ring', Some (normalized_event (ring_Id ring) previousVersion next activationTime))
      | _ \<Rightarrow> (ring, None))"

definition maybeNormalizeMaturedRingUpgrade ::
  "'z sdk_ctx_scheme \<Rightarrow> Ring \<Rightarrow> error + (Ring \<times> event option)" where
  "maybeNormalizeMaturedRingUpgrade ctx ring =
     (if NextVersion (ring_UpgradeInfo ring) = None then Inr (ring, None)
      else bindE (currentBlockUnixTime ctx) (\<lambda>now. Inr (normalizeMaturedRingUpgrade ring now)))"

definition validateRingUpgradeSchedule :: "uint64 \<Rightarrow> uint64 \<Rightarrow> uint64 \<Rightarrow> Ring \<Rightarrow> error option" where
  "validateRingUpgradeSchedule nextVersion activationTime currentTime existing = firstErr
     [failIf (nextVersion \<le> CurrentVersion (ring_UpgradeInfo existing)) ErrInvalidRing,
      failIf (currentTime > not 0 - MinRingUpgradeLeadSeconds) ErrInvalidRing,
      failIf (activationTime < currentTime + MinRingUpgradeLeadSeconds) ErrInvalidRing]"

definition validateUpgradeInfo :: "UpgradeInfo \<Rightarrow> error option" where
  "validateUpgradeInfo info =
     (if (NextVersion info = None) \<noteq> (ActivationTime info = None) then Some ErrInvalidRing
      else case (NextVersion info, ActivationTime info) of
        (Some next, Some activationTime) \<Rightarrow> firstErr
          [failIf (next \<le> CurrentVersion info) ErrInvalidRing, failIf (activationTime = 0) ErrInvalidRing]
      | _ \<Rightarrow> None)"

section \<open>Rings\<close>

definition canonicalStrings :: "string list \<Rightarrow> string list" where
  "canonicalStrings xs = sort xs"

definition compressedPubKeyLen :: nat where
  "compressedPubKeyLen = 33"

definition validatePeerNodeKeyFormat :: "string \<Rightarrow> error option" where
  "validatePeerNodeKeyFormat key =
     (if key = '''' then Some ErrInvalidRing
      else case hex_DecodeString (TrimPrefix key ''0x'') of
        None \<Rightarrow> Some ErrInvalidRing
      | Some decoded \<Rightarrow> failIf (length decoded \<noteq> compressedPubKeyLen) ErrInvalidRing)"

definition validateUniquePeerNodeKeys :: "string list \<Rightarrow> error option" where
  "validateUniquePeerNodeKeys nodeKeys = uniqueBy validatePeerNodeKeyFormat ErrInvalidRing [] nodeKeys"

definition validateEffectiveReshareThreshold :: "uint32 \<Rightarrow> nat \<Rightarrow> error option" where
  "validateEffectiveReshareThreshold threshold committeeSize =
     failIf (threshold > of_nat committeeSize) ErrInvalidRing"

definition validateReportingConfig :: "ReportingConfig \<Rightarrow> error option" where
  "validateReportingConfig config = firstErr
     [ValidateReportingConfig config,
      (if BackupNodeKeys config \<noteq> [] then validateUniquePeerNodeKeys (BackupNodeKeys config) else None)]"

definition validateRing :: "orbis_lib \<Rightarrow> Ring \<Rightarrow> error option" where
  "validateRing L ring = firstErr
     [failIf (ring_Id ring = '''') ErrInvalidRingId,
      failIf (PeerNodeKeys ring = []) ErrInvalidRing,
      failIf (Threshold ring = 0 \<or> unat (Threshold ring) > length (PeerNodeKeys ring)) ErrInvalidRing,
      failIf (ring_PolicyId ring = '''') ErrInvalidRing,
      validateUpgradeInfo (ring_UpgradeInfo ring),
      validateReportingConfig (ring_Reporting ring),
      ValidateTrustedAuthRelayConfig L (AllowTrustedAuthRelays ring) (TrustedAuthRelayDids ring),
      validateUniquePeerNodeKeys (PeerNodeKeys ring),
      (if NewPeerNodeKeys ring \<noteq> [] then validateUniquePeerNodeKeys (NewPeerNodeKeys ring) else None),
      failIf (NewThreshold ring = Some 0) ErrInvalidRing,
      (if NewPeerNodeKeys ring \<noteq> [] \<or> NewThreshold ring \<noteq> None then
         validateEffectiveReshareThreshold
           (case NewThreshold ring of Some t \<Rightarrow> t | None \<Rightarrow> Threshold ring)
           (if NewPeerNodeKeys ring \<noteq> [] then length (NewPeerNodeKeys ring) else length (PeerNodeKeys ring))
       else None)]"

definition validateRingPSSInterval :: "Ring \<Rightarrow> error option" where
  "validateRingPSSInterval ring = ValidatePSSInterval (PssInterval ring)"

definition requireRingFinalized :: "Ring \<Rightarrow> error option" where
  "requireRingFinalized ring = failIf (ring_Pk ring = '''') ErrRingNotFinalized"

definition reshareInProgress :: "Ring \<Rightarrow> bool" where
  "reshareInProgress ring \<longleftrightarrow> NewPeerNodeKeys ring \<noteq> [] \<or> NewThreshold ring \<noteq> None"

definition validateStartRingReshare :: "string list \<Rightarrow> uint32 option \<Rightarrow> Ring \<Rightarrow> error option" where
  "validateStartRingReshare newPeerNodeKeys newThreshold existing =
     (let committeeChanged = newPeerNodeKeys \<noteq> [] \<and> newPeerNodeKeys \<noteq> PeerNodeKeys existing;
          thresholdChanged = newThreshold \<noteq> None \<and> newThreshold \<noteq> Some (Threshold existing)
      in firstErr
        [failIf (reshareInProgress existing) ErrReshareInProgress,
         failIf (\<not> committeeChanged \<and> \<not> thresholdChanged) ErrInvalidRing,
         (if newPeerNodeKeys \<noteq> [] then validateUniquePeerNodeKeys newPeerNodeKeys else None),
         failIf (newThreshold = Some 0) ErrInvalidRing,
         failIf (newPeerNodeKeys = [] \<and>
           (case newThreshold of Some t \<Rightarrow> t > of_nat (length (PeerNodeKeys existing)) | None \<Rightarrow> False)) ErrInvalidRing,
         (if newPeerNodeKeys \<noteq> [] then
            validateEffectiveReshareThreshold
              (case newThreshold of Some t \<Rightarrow> t | None \<Rightarrow> Threshold existing) (length newPeerNodeKeys)
          else None)])"

definition ringForReshareFinalization :: "orbis_lib \<Rightarrow> Ring \<Rightarrow> error + Ring" where
  "ringForReshareFinalization L currentRing =
     (if \<not> reshareInProgress currentRing then Inl ErrInvalidRing
      else
        let finalized = currentRing
              \<lparr>PeerNodeKeys := if NewPeerNodeKeys currentRing \<noteq> [] then NewPeerNodeKeys currentRing else PeerNodeKeys currentRing,
               Threshold := (case NewThreshold currentRing of Some t \<Rightarrow> t | None \<Rightarrow> Threshold currentRing),
               NewPeerNodeKeys := [], NewThreshold := None\<rparr>
        in case validateRing L finalized of
             Some e \<Rightarrow> Inl e
           | None \<Rightarrow> Inr finalized)"

section \<open>Documents, key derivations and nodes\<close>

definition validateDocument :: "Document \<Rightarrow> error option" where
  "validateDocument d = firstErr
     [failIf (doc_Id d = '''') ErrInvalidDocumentId,
      failIf (doc_RingId d = '''') ErrInvalidRingId,
      failIf (doc_Document d = '''') ErrInvalidDocument,
      failIf (doc_Proof d = '''') ErrInvalidDocument,
      failIf (doc_PolicyId d = '''' \<or> doc_Resource d = '''' \<or> doc_Permission d = '''') ErrInvalidDocument]"

definition validateKeyDerivation :: "KeyDerivation \<Rightarrow> error option" where
  "validateKeyDerivation d = firstErr
     [failIf (kd_Id d = '''') ErrInvalidKeyDerivationId,
      failIf (kd_RingId d = '''') ErrInvalidRingId,
      failIf (kd_Derivation d = '''') ErrInvalidKeyDerivation,
      failIf (kd_PolicyId d = '''' \<or> kd_Resource d = '''' \<or> kd_Permission d = '''') ErrInvalidKeyDerivation]"

definition maxNodeWhitelistLen :: nat where
  "maxNodeWhitelistLen = 256"

definition validateUniqueNonEmptyStrings :: "string list \<Rightarrow> error option" where
  "validateUniqueNonEmptyStrings xs =
     uniqueBy (\<lambda>x. failIf (x = '''') ErrInvalidNodeInfo) ErrInvalidNodeInfo [] xs"

definition normalizeAndValidateNodeInfo :: "NodeInfo \<Rightarrow> error + NodeInfo" where
  "normalizeAndValidateNodeInfo nodeInfo =
     bindE (checkE (firstErr
       [failIf (PeerId nodeInfo = '''') ErrInvalidNodeInfo,
        failIf (ControllerKey nodeInfo = '''') ErrInvalidNodeInfo,
        failIf (length (WhitelistedPolicyIds nodeInfo) > maxNodeWhitelistLen) ErrInvalidNodeInfo,
        failIf (length (WhitelistedRingIds nodeInfo) > maxNodeWhitelistLen) ErrInvalidNodeInfo,
        validateUniqueNonEmptyStrings (WhitelistedPolicyIds nodeInfo),
        validateUniqueNonEmptyStrings (WhitelistedRingIds nodeInfo)])) (\<lambda>_.
     let keyHex = toLower (TrimPrefix (ControllerKey nodeInfo) ''0x'')
     in case hex_DecodeString keyHex of
          None \<Rightarrow> Inl ErrInvalidNodeInfo
        | Some decoded \<Rightarrow>
            if length decoded \<noteq> compressedPubKeyLen then Inl ErrInvalidNodeInfo
            else Inr (nodeInfo\<lparr>ControllerKey := keyHex\<rparr>))"

definition nodeInfoAllowsRing :: "NodeInfo \<Rightarrow> Ring \<Rightarrow> bool" where
  "nodeInfoAllowsRing nodeInfo ring \<longleftrightarrow>
     ring_PolicyId ring \<in> set (WhitelistedPolicyIds nodeInfo) \<or> ring_Id ring \<in> set (WhitelistedRingIds nodeInfo)"

definition nodeKeyAccAddress :: "did_ops \<Rightarrow> string \<Rightarrow> error + addr" where
  "nodeKeyAccAddress dops nodeKey =
     (case hex_DecodeString (TrimPrefix nodeKey ''0x'') of
        None \<Rightarrow> Inl ErrInvalidNodeInfo
      | Some decoded \<Rightarrow>
          if length decoded \<noteq> compressedPubKeyLen then Inl ErrInvalidNodeInfo
          else PubKeyAddress dops (Secp256k1PubKey decoded))"

section \<open>Identifiers\<close>

definition writeBytes :: "bytes \<Rightarrow> bytes" where
  "writeBytes v = putU32 (of_nat (length v)) @ v"

definition writeBool :: "bool \<Rightarrow> bytes" where
  "writeBool b = (if b then [char_of (1 :: nat)] else [char_of (0 :: nat)])"

definition writeOptionalString :: "string option \<Rightarrow> bytes" where
  "writeOptionalString x = (case x of None \<Rightarrow> [char_of (0 :: nat)] | Some v \<Rightarrow> char_of (1 :: nat) # writeBytes v)"

definition writeOptionalUint64 :: "uint64 option \<Rightarrow> bytes" where
  "writeOptionalUint64 x = (case x of None \<Rightarrow> [char_of (0 :: nat)] | Some v \<Rightarrow> char_of (1 :: nat) # putU64 v)"

definition writeStringSlice :: "string list \<Rightarrow> bytes" where
  "writeStringSlice xs = putU32 (of_nat (length xs)) @ concat (map writeBytes xs)"

definition idSum :: "orbis_lib \<Rightarrow> bytes \<Rightarrow> string" where
  "idSum L bs = hex_EncodeToString (Sha256 L bs)"

definition ringIDBytes ::
  "string list \<Rightarrow> uint32 \<Rightarrow> uint64 \<Rightarrow> string \<Rightarrow> string option \<Rightarrow> uint64 \<Rightarrow> bool \<Rightarrow> string list \<Rightarrow> bool \<Rightarrow> bytes" where
  "ringIDBytes peerNodeKeys threshold pssInterval policyID nonce currentVersion allowRelays relayDIDs requiresPet =
     writeBytes ''orbis/ring'' @ writeStringSlice (sort peerNodeKeys) @ putU32 threshold @ putU64 pssInterval @
     writeBytes policyID @ writeOptionalString nonce @ putU64 currentVersion @ writeBool allowRelays @
     writeStringSlice (sort relayDIDs) @ writeBool requiresPet"

definition GenerateRingID ::
  "orbis_lib \<Rightarrow> string list \<Rightarrow> uint32 \<Rightarrow> uint64 \<Rightarrow> string \<Rightarrow> string option \<Rightarrow> uint64 \<Rightarrow> bool \<Rightarrow> string list \<Rightarrow> bool \<Rightarrow> string" where
  "GenerateRingID L peerNodeKeys threshold pssInterval policyID nonce currentVersion allowRelays relayDIDs requiresPet =
     idSum L (ringIDBytes peerNodeKeys threshold pssInterval policyID nonce currentVersion allowRelays relayDIDs requiresPet)"

definition idBytes_UnmarshalJSON :: "orbis_lib \<Rightarrow> bytes \<Rightarrow> error + bytes" where
  "idBytes_UnmarshalJSON L data =
     (if TrimSpace data = ''null'' then Inl (ErrStd ''expected an array of bytes, got null'')
      else bindE (JsonElems L data) (\<lambda>elems.
        foldr (\<lambda>elem rest.
          if TrimSpace elem = ''null'' then Inl (ErrStd ''array element is null'')
          else bindE (JsonUint16 L elem) (\<lambda>n.
            if n > 255 then Inl (ErrStd ''byte value out of range'')
            else bindE rest (\<lambda>bs. Inr (char_of n # bs)))) elems (Inr [])))"

fun decodeWanted :: "orbis_lib \<Rightarrow> (string \<times> bytes) list \<Rightarrow> string list \<Rightarrow> error + bytes list" where
  "decodeWanted L seen [] = Inr []"
| "decodeWanted L seen (key # want) =
     (case map_of seen key of
        None \<Rightarrow> Inl (ErrStd ''missing or misnamed field'')
      | Some v \<Rightarrow> bindE (idBytes_UnmarshalJSON L v) (\<lambda>b. bindE (decodeWanted L seen want) (\<lambda>bs. Inr (b # bs))))"

definition decodeIDByteFields :: "orbis_lib \<Rightarrow> string \<Rightarrow> string list \<Rightarrow> error + bytes list" where
  "decodeIDByteFields L raw want =
     bindE (JsonObject L raw) (\<lambda>seen.
     if \<not> distinct (map fst seen) then Inl (ErrStd ''duplicate field'')
     else if length seen \<noteq> length want then Inl (ErrStd ''expected exactly the fields'')
     else decodeWanted L seen want)"

definition writeOptionalPetTag :: "orbis_lib \<Rightarrow> string option \<Rightarrow> string option \<Rightarrow> error + bytes" where
  "writeOptionalPetTag L petTag petTagProof =
     (case (petTag, petTagProof) of
        (None, None) \<Rightarrow> Inr []
      | (Some t, Some p) \<Rightarrow>
          bindE (decodeIDByteFields L t [''ephemeral_point'', ''masked_fingerprint'']) (\<lambda>tag.
          bindE (decodeIDByteFields L p [''challenge'', ''response'']) (\<lambda>proof.
          Inr (concat (map writeBytes (tag @ proof)))))
      | _ \<Rightarrow> Inl (ErrStd ''pet_tag and pet_tag_proof must be present or absent together''))"

definition documentIDBytes ::
  "orbis_lib \<Rightarrow> string \<Rightarrow> string \<Rightarrow> string \<Rightarrow> string \<Rightarrow> string \<Rightarrow> string \<Rightarrow> string option \<Rightarrow> uint64 option \<Rightarrow>
   string option \<Rightarrow> string option \<Rightarrow> error + bytes" where
  "documentIDBytes L ringID document proof policyID resource permission tier timestamp petTag petTagProof =
     bindE (decodeIDByteFields L document [''enc_cmt'', ''encrypted_data'', ''nonce'']) (\<lambda>secret.
     bindE (decodeIDByteFields L proof [''challenge'', ''response'']) (\<lambda>pf.
     bindE (writeOptionalPetTag L petTag petTagProof) (\<lambda>pet.
     Inr (writeBytes ''orbis/document/v1'' @ writeBytes ringID @ concat (map writeBytes (secret @ pf)) @
          writeBytes policyID @ writeBytes resource @ writeBytes permission @
          writeOptionalString tier @ writeOptionalUint64 timestamp @ pet))))"

definition GenerateDocumentID ::
  "orbis_lib \<Rightarrow> string \<Rightarrow> string \<Rightarrow> string \<Rightarrow> string \<Rightarrow> string \<Rightarrow> string \<Rightarrow> string option \<Rightarrow> uint64 option \<Rightarrow>
   string option \<Rightarrow> string option \<Rightarrow> error + string" where
  "GenerateDocumentID L ringID document proof policyID resource permission tier timestamp petTag petTagProof =
     bindE (documentIDBytes L ringID document proof policyID resource permission tier timestamp petTag petTagProof)
       (\<lambda>bs. Inr (idSum L bs))"

definition GenerateKeyDerivationID :: "orbis_lib \<Rightarrow> string \<Rightarrow> string \<Rightarrow> string \<Rightarrow> string \<Rightarrow> string \<Rightarrow> string" where
  "GenerateKeyDerivationID L ringID derivation policyID resource permission =
     idSum L (writeBytes ''orbis/key_derivation/v1'' @ writeBytes ringID @ writeBytes derivation @
       writeBytes policyID @ writeBytes resource @ writeBytes permission)"

section \<open>Threshold signatures\<close>

definition decodeHexBytes :: "string \<Rightarrow> error + bytes" where
  "decodeHexBytes v =
     (let value = TrimSpace v in
      if value = '''' then Inl (ErrStd ''empty value'')
      else case hex_DecodeString value of None \<Rightarrow> Inl (ErrStd ''expected plain hex'') | Some bs \<Rightarrow> Inr bs)"

definition normalizeThresholdSignatureScheme :: "string \<Rightarrow> string" where
  "normalizeThresholdSignatureScheme scheme = toLower (TrimSpace scheme)"

definition verifyBLS12381ThresholdSignature :: "orbis_lib \<Rightarrow> string \<Rightarrow> bytes \<Rightarrow> bytes \<Rightarrow> error option" where
  "verifyBLS12381ThresholdSignature L ringPK message signature =
     (case decodeHexBytes ringPK of
        Inl e \<Rightarrow> Some ErrInvalidThresholdSignature
      | Inr publicKey \<Rightarrow> firstErr
          [failIf (length publicKey \<noteq> 48) ErrInvalidThresholdSignature,
           failIf (length signature \<noteq> 96) ErrInvalidThresholdSignature,
           failIf (\<not> BlsVerifyCompressed L publicKey message signature) ErrInvalidThresholdSignature])"

definition verifyJubjubFROSTThresholdSignature :: "orbis_lib \<Rightarrow> string \<Rightarrow> bytes \<Rightarrow> bytes \<Rightarrow> error option" where
  "verifyJubjubFROSTThresholdSignature L ringPK message signature =
     (case decodeHexBytes ringPK of
        Inl e \<Rightarrow> Some ErrInvalidThresholdSignature
      | Inr publicKey \<Rightarrow> firstErr
          [failIf (length publicKey \<noteq> 32) ErrInvalidThresholdSignature,
           failIf (length signature \<noteq> 64) ErrInvalidThresholdSignature,
           failIf (JubjubIsIdentity L publicKey \<noteq> Inr False) ErrInvalidThresholdSignature,
           failIf (JubjubVerify L publicKey message signature \<noteq> Inr True) ErrInvalidThresholdSignature])"

definition verifyThresholdSignature :: "orbis_lib \<Rightarrow> string \<Rightarrow> string \<Rightarrow> bytes \<Rightarrow> bytes \<Rightarrow> error option" where
  "verifyThresholdSignature L scheme ringPK message signature =
     (let s = normalizeThresholdSignatureScheme scheme in
      if s = ''bls12_381_g1_pk_g2_sig_aug_v1'' then verifyBLS12381ThresholdSignature L ringPK message signature
      else if s = ''jubjub_frost'' then verifyJubjubFROSTThresholdSignature L ringPK message signature
      else Some ErrInvalidThresholdSignature)"

definition rejectIdentityRingPublicKey :: "orbis_lib \<Rightarrow> string \<Rightarrow> error option" where
  "rejectIdentityRingPublicKey L ringPK =
     (case decodeHexBytes ringPK of
        Inl e \<Rightarrow> None
      | Inr publicKey \<Rightarrow>
          if length publicKey = 32 then failIf (JubjubIsIdentity L publicKey = Inr True) ErrInvalidRing
          else if length publicKey = 48 then failIf (BlsKeyValidate L publicKey = Some False) ErrInvalidRing
          else None)"

section \<open>Sign bytes of a reshare\<close>

definition ringReshareSignState :: "Ring \<Rightarrow> RingReshareSignState" where
  "ringReshareSignState ring =
     \<lparr>rs_RingPk = ring_Pk ring, rs_PeerNodeKeys = PeerNodeKeys ring, rs_Threshold = Threshold ring,
      rs_NewPeerNodeKeys = NewPeerNodeKeys ring, rs_NewThreshold = NewThreshold ring,
      rs_BlockNumberNonce = BlockNumberNonce ring, rs_PolicyId = ring_PolicyId ring,
      rs_TrustedAuthRelayDids = TrustedAuthRelayDids ring, rs_AllowTrustedAuthRelays = AllowTrustedAuthRelays ring\<rparr>"

definition ringReshareSignStateHash :: "orbis_lib \<Rightarrow> Ring \<Rightarrow> error + bytes" where
  "ringReshareSignStateHash L ring =
     bindE (MarshalSignState L (ringReshareSignState ring)) (\<lambda>bs. Inr (Sha256 L bs))"

definition ringReshareFinalizeSignBytes :: "orbis_lib \<Rightarrow> string \<Rightarrow> Ring \<Rightarrow> Ring \<Rightarrow> error + bytes" where
  "ringReshareFinalizeSignBytes L chainID currentRing finalizedRing =
     bindE (ringReshareSignStateHash L currentRing) (\<lambda>currentRingHash.
     bindE (ringReshareSignStateHash L finalizedRing) (\<lambda>finalizedRingHash.
     MarshalSignDoc L
       \<lparr>sd_Domain = ''orbis-ring-reshare-finalize'', sd_ChainId = chainID, sd_RingId = ring_Id currentRing,
        sd_RingPk = ring_Pk currentRing, sd_CurrentRingSha256 = currentRingHash,
        sd_FinalizedRingSha256 = finalizedRingHash, sd_BlockNumberNonce = BlockNumberNonce currentRing\<rparr>))"

end
