(* ===== verification/Orbis_Codec.thy ===== *)
theory Orbis_Codec
  imports Orbis_Types
begin

text \<open>
  The canonical encoding of fault reports (\<open>x/orbis/keeper/report.go\<close>): the writer that produces the
  bytes a committee signs, the decoder of the payloads, the report envelope with its identifier and
  the evidence statements of every report type.

  A writer step is the bytes it appends or the error it records; \<open>catW\<close> runs the steps and finishes. A
  decoder is a function from the bytes that remain to a value and the bytes that remain after it: the
  cursor of the Go decoder is the start of the remaining bytes. The labels of the fields only occur in
  error messages. Every decoding error is \<open>ErrInvalidReport\<close>, so the order in which a statement's fields
  are checked cannot be observed.

  \<open>wire_format\<close> is the interface between the two: what is written is read back, and the rest follows.
\<close>

section \<open>Writer\<close>

fun catW :: "(error + bytes) list \<Rightarrow> error + bytes" where
  "catW [] = Inr []"
| "catW (w # ws) = bindE w (\<lambda>a. bindE (catW ws) (\<lambda>b. Inr (a @ b)))"

definition w_U32 :: "uint32 \<Rightarrow> error + bytes" where
  "w_U32 v = Inr (putU32 v)"

definition w_U64 :: "uint64 \<Rightarrow> error + bytes" where
  "w_U64 v = Inr (putU64 v)"

definition w_Bool :: "bool \<Rightarrow> error + bytes" where
  "w_Bool v = Inr [char_of (if v then 1 else 0 :: nat)]"

definition w_Bytes :: "bytes \<Rightarrow> error + bytes" where
  "w_Bytes v = (if length v > 4294967295 then Inl ErrInvalidReport else Inr (putU32 (of_nat (length v)) @ v))"

definition w_StringSlice :: "string list \<Rightarrow> error + bytes" where
  "w_StringSlice vs =
     (if length vs > 4294967295 then Inl ErrInvalidReport
      else catW (w_U32 (of_nat (length vs)) # map w_Bytes vs))"

definition w_Optional :: "('a \<Rightarrow> error + bytes) \<Rightarrow> 'a option \<Rightarrow> error + bytes" where
  "w_Optional w v = (case v of None \<Rightarrow> Inr [char_of (0 :: nat)] | Some x \<Rightarrow> catW [Inr [char_of (1 :: nat)], w x])"

definition w_DemeritConfig :: "DemeritConfig \<Rightarrow> error + bytes" where
  "w_DemeritConfig v = catW
     [w_U64 (NodeOfflineDemerits v), w_U64 (ResetIntervalSeconds v),
      w_U64 (InvalidCryptoResponseDemerits v), w_U64 (UnauthorizedRequestDemerits v)]"

definition w_ReportingConfig :: "ReportingConfig \<Rightarrow> error + bytes" where
  "w_ReportingConfig v = catW
     [w_DemeritConfig (ring_DemeritConfig v), w_StringSlice (BackupNodeKeys v), w_U64 (ring_KickThreshold v)]"

section \<open>Decoder\<close>

type_synonym 'a decoder = "bytes \<Rightarrow> error + ('a \<times> bytes)"

definition retD :: "'a \<Rightarrow> 'a decoder" where
  "retD x bs = Inr (x, bs)"

definition bindD :: "'a decoder \<Rightarrow> ('a \<Rightarrow> 'b decoder) \<Rightarrow> 'b decoder" where
  "bindD d f bs = bindE (d bs) (\<lambda>(x, rest). f x rest)"

definition checkD :: "bool \<Rightarrow> unit decoder" where
  "checkD b bs = (if b then Inr ((), bs) else Inl ErrInvalidReport)"

definition thenD :: "'a decoder \<Rightarrow> 'b decoder \<Rightarrow> 'b decoder" where
  "thenD d e = bindD d (\<lambda>_. e)"

text \<open>\<open>runD d bs\<close> decodes \<open>bs\<close> from the start and calls \<open>finish\<close>.\<close>

definition runD :: "'a decoder \<Rightarrow> bytes \<Rightarrow> error + 'a" where
  "runD d bs = bindE (d bs) (\<lambda>(x, rest). if rest = [] then Inr x else Inl ErrInvalidReport)"

definition readByte :: "nat decoder" where
  "readByte bs = (case bs of [] \<Rightarrow> Inl ErrInvalidReport | c # cs \<Rightarrow> Inr (of_char c, cs))"

definition readFixed32 :: "bytes decoder" where
  "readFixed32 bs = (if length bs < 32 then Inl ErrInvalidReport else Inr (take 32 bs, drop 32 bs))"

definition readByteBool :: "bool decoder" where
  "readByteBool = bindD readByte (\<lambda>v. thenD (checkD (v = 0 \<or> v = 1)) (retD (v = 1)))"

definition readU32 :: "uint32 decoder" where
  "readU32 bs = (if length bs < 4 then Inl ErrInvalidReport else Inr (getU32 (take 4 bs), drop 4 bs))"

definition readU64 :: "uint64 decoder" where
  "readU64 bs = (if length bs < 8 then Inl ErrInvalidReport else Inr (getU64 (take 8 bs), drop 8 bs))"

definition readBytes :: "bytes decoder" where
  "readBytes = bindD readU32 (\<lambda>n bs.
     if length bs < unat n then Inl ErrInvalidReport else Inr (take (unat n) bs, drop (unat n) bs))"

definition readString :: "string decoder" where
  "readString = bindD readBytes (\<lambda>v. thenD (checkD (utf8_Valid v)) (retD v))"

definition readOptionalBytes :: "bytes decoder" where
  "readOptionalBytes = bindD readByte (\<lambda>tag. thenD (checkD (tag \<le> 1)) (if tag = 0 then retD [] else readBytes))"

definition readOptionalU64 :: "uint64 option decoder" where
  "readOptionalU64 = bindD readByte (\<lambda>tag.
     thenD (checkD (tag \<le> 1)) (if tag = 0 then retD None else bindD readU64 (\<lambda>v. retD (Some v))))"

lemmas decoder_defs = retD_def bindD_def checkD_def thenD_def

subsection \<open>What is written is read back\<close>

locale wire_format =
  fixes wr :: "'a \<Rightarrow> error + bytes"
    and rd :: "'a decoder"
    and wf :: "'a \<Rightarrow> bool"
  assumes rd_wr: "wf x \<Longrightarrow> wr x = Inr bs \<Longrightarrow> rd (bs @ rest) = Inr (x, rest)"
begin

lemma wr_prefix_free:
  assumes "wf x" and "wf y" and "wr x = Inr a" and "wr y = Inr b" and "a @ u = b @ v"
  shows "x = y \<and> u = v"
  using rd_wr [OF assms(1,3), of u] rd_wr [OF assms(2,4), of v] assms(5) by simp

lemma bindD_wr: "wf x \<Longrightarrow> wr x = Inr bs \<Longrightarrow> bindD rd f (bs @ rest) = f x rest"
  by (simp add: bindD_def rd_wr)

lemma wr_inj: "wf x \<Longrightarrow> wf y \<Longrightarrow> wr x = Inr a \<Longrightarrow> wr y = Inr a \<Longrightarrow> x = y"
  using wr_prefix_free [of x y a a "[]" "[]"] by simp

end

interpretation wire_u32: wire_format w_U32 readU32 "\<lambda>_. True"
  by unfold_locales (auto simp: w_U32_def readU32_def)

interpretation wire_u64: wire_format w_U64 readU64 "\<lambda>_. True"
  by unfold_locales (auto simp: w_U64_def readU64_def)

interpretation wire_bool: wire_format w_Bool readByteBool "\<lambda>_. True"
  by unfold_locales (auto simp: w_Bool_def readByteBool_def readByte_def decoder_defs)

lemma unat_of_length: "n \<le> 4294967295 \<Longrightarrow> unat (of_nat n :: uint32) = n"
  by (simp add: unat_of_nat)

interpretation wire_bytes: wire_format w_Bytes readBytes "\<lambda>_. True"
proof unfold_locales
  fix x bs rest
  assume "w_Bytes x = Inr bs"
  then have len: "length x \<le> 4294967295" and bs: "bs = putU32 (of_nat (length x)) @ x"
    by (auto simp: w_Bytes_def split: if_splits)
  then have "bindD readU32 f (bs @ rest) = f (of_nat (length x)) (x @ rest)" for f :: "uint32 \<Rightarrow> bytes decoder"
    using wire_u32.bindD_wr [of "of_nat (length x)" "putU32 (of_nat (length x))" f "x @ rest"]
    by (simp add: w_U32_def)
  with len show "readBytes (bs @ rest) = Inr (x, rest)"
    by (simp add: readBytes_def unat_of_length)
qed

interpretation wire_string: wire_format w_Bytes readString utf8_Valid
  by unfold_locales (simp add: readString_def decoder_defs wire_bytes.rd_wr)

interpretation wire_optional_u64: wire_format "w_Optional w_U64" readOptionalU64 "\<lambda>_. True"
proof unfold_locales
  fix x bs rest
  assume *: "w_Optional w_U64 x = Inr bs"
  show "readOptionalU64 (bs @ rest) = Inr (x, rest)"
  proof (cases x)
    case None
    with * show ?thesis by (auto simp: w_Optional_def readOptionalU64_def readByte_def decoder_defs)
  next
    case (Some v)
    with * have "bs = char_of (1 :: nat) # putU64 v"
      by (auto simp: w_Optional_def w_U64_def)
    with Some show ?thesis
      by (auto simp: readOptionalU64_def readByte_def decoder_defs readU64_def)
  qed
qed

section \<open>Report envelopes\<close>

record ReportEnvelope =
  rep_Domain :: string
  rep_ReportType :: string
  rep_ChainId :: string
  rep_RingId :: string
  rep_RingPk :: string
  rep_RingStateSha256 :: string
  rep_ReporterNodeKey :: string
  rep_AccusedNodeKey :: string
  rep_AccusedPeerId :: string
  rep_ObservedAt :: uint64
  rep_ExpiresAt :: uint64
  rep_Payload :: bytes
  rep_SessionId :: string

definition ReportDomain :: string where
  "ReportDomain = ''orbis-mpc-fault-report''"

definition NodeOfflineReportType :: string where
  "NodeOfflineReportType = ''node_offline''"

definition InvalidCryptoResponseReportType :: string where
  "InvalidCryptoResponseReportType = ''invalid_crypto_response''"

definition UnauthorizedRequestReportType :: string where
  "UnauthorizedRequestReportType = ''unauthorized_request''"

definition ReportTTLSeconds :: uint64 where
  "ReportTTLSeconds = 120"

definition reportObservedAtGraceSecs :: uint64 where
  "reportObservedAtGraceSecs = 10"

definition relayCheckMaxDriftSecs :: uint64 where
  "relayCheckMaxDriftSecs = 30"

definition validateReportEnvelopeShape :: "ReportEnvelope \<Rightarrow> uint64 \<Rightarrow> error option" where
  "validateReportEnvelopeShape r now = firstErr
     [failIf (rep_Domain r \<noteq> ReportDomain) ErrInvalidReport,
      failIf (rep_ObservedAt r > rep_ExpiresAt r) ErrInvalidReport,
      failIf (rep_ObservedAt r > now) ErrInvalidReport,
      failIf (rep_ExpiresAt r - rep_ObservedAt r \<noteq> ReportTTLSeconds) ErrInvalidReport,
      failIf (now > rep_ExpiresAt r) ErrInvalidReport,
      failIf (rep_ReporterNodeKey r = rep_AccusedNodeKey r) ErrInvalidReport,
      failIf (rep_Payload r = []) ErrInvalidReport,
      failIf (rep_SessionId r = '''') ErrInvalidReport,
      failIf ('''' \<in> set [rep_ReportType r, rep_ChainId r, rep_RingId r, rep_RingPk r, rep_RingStateSha256 r,
                          rep_ReporterNodeKey r, rep_AccusedNodeKey r, rep_AccusedPeerId r]) ErrInvalidReport,
      failIf (hex_DecodeString (rep_RingStateSha256 r) = None \<or> length (rep_RingStateSha256 r) \<noteq> 64) ErrInvalidReport]"

definition reportEnvelopeCanonicalBytes :: "ReportEnvelope \<Rightarrow> error + bytes" where
  "reportEnvelopeCanonicalBytes r = catW
     [w_Bytes (rep_Domain r), w_Bytes (rep_ReportType r), w_Bytes (rep_ChainId r), w_Bytes (rep_RingId r),
      w_Bytes (rep_RingPk r), w_Bytes (rep_RingStateSha256 r), w_Bytes (rep_ReporterNodeKey r),
      w_Bytes (rep_AccusedNodeKey r), w_Bytes (rep_AccusedPeerId r), w_U64 (rep_ObservedAt r),
      w_U64 (rep_ExpiresAt r), w_Bytes (rep_Payload r), w_Bytes (rep_SessionId r)]"

definition reportEnvelopeCanonicalMessageAndID :: "orbis_lib \<Rightarrow> ReportEnvelope \<Rightarrow> error + (bytes \<times> string)" where
  "reportEnvelopeCanonicalMessageAndID L r =
     bindE (reportEnvelopeCanonicalBytes r) (\<lambda>message. Inr (message, idSum L message))"

section \<open>Evidence\<close>

definition committeeScopeCurrent :: nat where
  "committeeScopeCurrent = 1"

definition committeeScopePendingNew :: nat where
  "committeeScopePendingNew = 2"

record reportPayload =
  pay_originProtocol :: string
  pay_originProtocolVersion :: uint64
  pay_accusedCommitteeScope :: nat
  pay_signingCommitteeScope :: nat
  pay_attemptID :: bytes

record statement =
  st_chainID :: string
  st_ringID :: string
  st_ringPk :: string
  st_ringStateSha256 :: string
  st_protocolVersion :: uint64
  st_requestID :: string
  st_signedAt :: uint64
  st_nodeKey :: string
  st_originProtocol :: string
  st_accusedScope :: nat
  st_signingScope :: nat

record invalidCryptoResponseStatement = statement +
  st_endpointOrigin :: bytes
  st_attemptID :: bytes

record dkgCommitmentStatement = statement +
  dkg_fromNodeID :: uint32
  dkg_commitment :: bytes
  dkg_sessionNonce :: bytes
  dkg_attemptID :: bytes
  dkg_cryptoBackend :: string

text \<open>
  The fields that every statement starts with after its domain, and the scopes: \<open>statement\<close> is the
  common part of the three statement structs of the source (\<open>relayRequestStatement\<close> has no other field).
\<close>

definition isValidReportCommitteeScope :: "nat \<Rightarrow> bool" where
  "isValidReportCommitteeScope scope \<longleftrightarrow> scope = committeeScopeCurrent \<or> scope = committeeScopePendingNew"

definition isValidOfflineOriginProtocol :: "string \<Rightarrow> bool" where
  "isValidOfflineOriginProtocol p \<longleftrightarrow> p \<in> set [''pre'', ''sign'', ''pss_refresh'', ''pss_reshare'']"

definition isValidInvalidCryptoOriginProtocol :: "string \<Rightarrow> string \<Rightarrow> bool" where
  "isValidInvalidCryptoOriginProtocol evidenceKind p \<longleftrightarrow>
     (if p = ''pre'' then evidenceKind = ''pre''
      else if p \<in> set [''sign'', ''pss_refresh'', ''pss_reshare'', ''report''] then evidenceKind = ''sign''
      else False)"

definition isValidInvalidCryptoDkgOriginProtocol :: "string \<Rightarrow> bool" where
  "isValidInvalidCryptoDkgOriginProtocol p \<longleftrightarrow> p = ''pss_refresh'' \<or> p = ''pss_reshare''"

definition isDkgPublicOriginPhase :: "string \<Rightarrow> bool" where
  "isDkgPublicOriginPhase p \<longleftrightarrow>
     p \<in> set [''commitments'', ''commitment_audit'', ''refresh_health_check'', ''reshare_participant_set'']"

definition isDkgControlAckMessageKind :: "string \<Rightarrow> bool" where
  "isDkgControlAckMessageKind k \<longleftrightarrow> k \<in> set [''prepared'', ''activated'', ''begun'']"

definition readScope :: "nat decoder" where
  "readScope = bindD readByte (\<lambda>scope. thenD (checkD (isValidReportCommitteeScope scope)) (retD scope))"

definition readDomain :: "string \<Rightarrow> unit decoder" where
  "readDomain expected = bindD readString (\<lambda>domain. checkD (domain = expected))"

definition readBinding :: "statement decoder" where
  "readBinding =
     bindD readString (\<lambda>chainID. bindD readString (\<lambda>ringID. bindD readString (\<lambda>ringPk.
     bindD readString (\<lambda>ringStateSha256. bindD readU64 (\<lambda>protocolVersion.
     retD \<lparr>st_chainID = chainID, st_ringID = ringID, st_ringPk = ringPk, st_ringStateSha256 = ringStateSha256,
           st_protocolVersion = protocolVersion, st_requestID = '''', st_signedAt = 0, st_nodeKey = '''',
           st_originProtocol = '''', st_accusedScope = committeeScopeCurrent,
           st_signingScope = committeeScopeCurrent\<rparr>)))))"

definition readRequest :: "statement \<Rightarrow> statement decoder" where
  "readRequest b =
     bindD readString (\<lambda>requestID. bindD readU64 (\<lambda>signedAt. bindD readString (\<lambda>nodeKey.
     retD (b\<lparr>st_requestID := requestID, st_signedAt := signedAt, st_nodeKey := nodeKey\<rparr>))))"

definition readOrigin :: "statement \<Rightarrow> statement decoder" where
  "readOrigin b = bindD readString (\<lambda>originProtocol. retD (b\<lparr>st_originProtocol := originProtocol\<rparr>))"

definition readScopes :: "statement \<Rightarrow> statement decoder" where
  "readScopes b = bindD readScope (\<lambda>accused. bindD readScope (\<lambda>signing.
     retD (b\<lparr>st_accusedScope := accused, st_signingScope := signing\<rparr>)))"

definition toInvalidCrypto :: "statement \<Rightarrow> bytes \<Rightarrow> bytes \<Rightarrow> invalidCryptoResponseStatement" where
  "toInvalidCrypto b endpointOrigin attemptID =
     statement.extend b \<lparr>st_endpointOrigin = endpointOrigin, st_attemptID = attemptID\<rparr>"

definition sized :: "nat \<Rightarrow> bytes \<Rightarrow> bool" where
  "sized n blob \<longleftrightarrow> blob \<noteq> [] \<and> length blob \<le> n"

definition decodeNodeOfflinePayload :: "bytes \<Rightarrow> error + reportPayload" where
  "decodeNodeOfflinePayload = runD
     (bindD readString (\<lambda>originProtocol. bindD readU64 (\<lambda>originProtocolVersion.
      bindD readScope (\<lambda>accusedScope. bindD readScope (\<lambda>signingScope.
      retD \<lparr>pay_originProtocol = originProtocol, pay_originProtocolVersion = originProtocolVersion,
            pay_accusedCommitteeScope = accusedScope, pay_signingCommitteeScope = signingScope,
            pay_attemptID = []\<rparr>)))))"

definition decodePreReencryptResponseStatement :: "bytes \<Rightarrow> error + invalidCryptoResponseStatement" where
  "decodePreReencryptResponseStatement = runD
     (thenD (readDomain ''orbis-pre-reencrypt-response-v1'')
      (bindD readBinding (\<lambda>b. bindD (readRequest b) (\<lambda>b. bindD (readOrigin b) (\<lambda>b.
      thenD (checkD (isValidInvalidCryptoOriginProtocol ''pre'' (st_originProtocol b)))
      (bindD readString (\<lambda>objectID.
      thenD (checkD (st_requestID b \<noteq> '''' \<and> st_nodeKey b \<noteq> '''' \<and> objectID \<noteq> ''''))
      (bindD readBytes (\<lambda>rdrPk. bindD readOptionalBytes (\<lambda>derivation.
      thenD (checkD (length derivation \<le> 4096))
      (thenD readU32
      (bindD readBytes (\<lambda>share. bindD readBytes (\<lambda>challenge. bindD readBytes (\<lambda>proof.
      bindD readString (\<lambda>cryptoBackend. thenD (checkD (cryptoBackend \<noteq> ''''))
      (thenD readOptionalU64 (thenD readByteBool
      (thenD (checkD (list_all (sized 512) [rdrPk, share, challenge, proof]))
      (retD (toInvalidCrypto b [] [])))))))))))))))))))))"

definition decodeSignResponseStatement :: "bytes \<Rightarrow> error + invalidCryptoResponseStatement" where
  "decodeSignResponseStatement = runD
     (thenD (readDomain ''orbis-sign-response-v1'')
      (bindD readBinding (\<lambda>b. bindD (readRequest b) (\<lambda>b. bindD (readOrigin b) (\<lambda>b.
      thenD (checkD (isValidInvalidCryptoOriginProtocol ''sign'' (st_originProtocol b)))
      (bindD (readScopes b) (\<lambda>b. thenD readU32
      (bindD readBytes (\<lambda>message. bindD readBytes (\<lambda>signingCommitments.
      bindD readOptionalBytes (\<lambda>derivation. bindD readOptionalBytes (\<lambda>metadata.
      bindD readBytes (\<lambda>sigShare. bindD readString (\<lambda>cryptoBackend.
      thenD (checkD (st_requestID b \<noteq> '''' \<and> st_nodeKey b \<noteq> '''' \<and> cryptoBackend \<noteq> '''' \<and>
        sized 1048576 message \<and> length signingCommitments \<le> 1048576 \<and> length derivation \<le> 4096 \<and>
        length metadata \<le> 4096 \<and> sized 4096 sigShare))
      (retD (toInvalidCrypto b [] []))))))))))))))))"

definition decodePetBlindRevealStatement :: "bytes \<Rightarrow> error + invalidCryptoResponseStatement" where
  "decodePetBlindRevealStatement = runD
     (thenD (readDomain ''orbis-pet-blind-reveal-response-v2'')
      (bindD readBinding (\<lambda>b. bindD readString (\<lambda>attemptID.
      thenD readFixed32 (thenD readFixed32
      (bindD readString (\<lambda>responderNodeKey.
      thenD (checkD (attemptID \<noteq> '''' \<and> responderNodeKey \<noteq> '''' \<and> length attemptID \<le> 512))
      (thenD readU32
      (bindD readBytes (\<lambda>commitment. bindD readBytes (\<lambda>blindedR. bindD readBytes (\<lambda>blindedDiff.
      thenD readFixed32
      (bindD readBytes (\<lambda>challenge. bindD readBytes (\<lambda>proof. bindD readU64 (\<lambda>signedAt.
      thenD (checkD (list_all (sized 512) [commitment, blindedR, challenge, proof] \<and> length blindedDiff \<le> 512))
      (retD (toInvalidCrypto
        (b\<lparr>st_requestID := attemptID, st_signedAt := signedAt, st_nodeKey := responderNodeKey,
           st_originProtocol := ''pet_blind_reveal''\<rparr>) [] []))))))))))))))))))"

definition decodePetBlindDecryptStatement :: "bytes \<Rightarrow> error + invalidCryptoResponseStatement" where
  "decodePetBlindDecryptStatement = runD
     (thenD (readDomain ''orbis-pet-blind-decrypt-response-v2'')
      (bindD readBinding (\<lambda>b. bindD readString (\<lambda>attemptID.
      thenD readFixed32 (thenD readFixed32
      (bindD readString (\<lambda>responderNodeKey.
      thenD (checkD (attemptID \<noteq> '''' \<and> responderNodeKey \<noteq> ''''))
      (thenD readU32
      (bindD readBytes (\<lambda>aggregateR. bindD readBytes (\<lambda>aggregateDiff. bindD readBytes (\<lambda>partial.
      bindD readBytes (\<lambda>challenge. bindD readBytes (\<lambda>proof. bindD readU64 (\<lambda>signedAt.
      bindD readBytes (\<lambda>publicPolynomial.
      thenD (checkD (list_all (sized 512) [aggregateR, partial, challenge, proof] \<and>
        length aggregateDiff \<le> 512 \<and> sized 1048576 publicPolynomial))
      (retD (toInvalidCrypto
        (b\<lparr>st_requestID := attemptID, st_signedAt := signedAt, st_nodeKey := responderNodeKey,
           st_originProtocol := ''pet_blind_decrypt''\<rparr>) [] []))))))))))))))))))"

definition decodeDkgCommitmentStatement :: "bytes \<Rightarrow> error + dkgCommitmentStatement" where
  "decodeDkgCommitmentStatement statementBytes =
     (if length statementBytes > 1048576 then Inl ErrInvalidReport
      else runD
       (thenD (readDomain ''orbis-dkg-commitment-v1'')
        (bindD readBinding (\<lambda>b. bindD (readRequest b) (\<lambda>b. bindD (readOrigin b) (\<lambda>b.
        thenD (checkD (isValidInvalidCryptoDkgOriginProtocol (st_originProtocol b)))
        (bindD (readScopes b) (\<lambda>b.
        bindD readU32 (\<lambda>fromNodeID. bindD readBytes (\<lambda>commitment. bindD readBytes (\<lambda>sessionNonce.
        bindD readBytes (\<lambda>attemptID. bindD readString (\<lambda>cryptoBackend.
        thenD (checkD (st_requestID b \<noteq> '''' \<and> st_nodeKey b \<noteq> '''' \<and>
          st_accusedScope b = committeeScopeCurrent \<and> st_signingScope b = committeeScopeCurrent \<and>
          fromNodeID \<noteq> 0 \<and> sized 1048576 commitment \<and> length sessionNonce = 16 \<and> length attemptID = 32 \<and>
          cryptoBackend \<noteq> ''''))
        (retD (statement.extend b
          \<lparr>dkg_fromNodeID = fromNodeID, dkg_commitment = commitment, dkg_sessionNonce = sessionNonce,
           dkg_attemptID = attemptID, dkg_cryptoBackend = cryptoBackend\<rparr>))))))))))))))
       statementBytes)"

text \<open>The bindings that a commitment shares with the statement it is nested in: all but \<open>signedAt\<close>.\<close>

definition sameBinding :: "'a statement_scheme \<Rightarrow> 'b statement_scheme \<Rightarrow> bool" where
  "sameBinding a b \<longleftrightarrow>
     (statement.truncate a)\<lparr>st_signedAt := 0\<rparr> = (statement.truncate b)\<lparr>st_signedAt := 0\<rparr>"

definition decodeDkgShareStatement :: "bytes \<Rightarrow> error + invalidCryptoResponseStatement" where
  "decodeDkgShareStatement statementBytes =
     (if length statementBytes > 1048576 then Inl ErrInvalidReport
      else bindE (runD
       (thenD (readDomain ''orbis-dkg-share-v1'')
        (bindD readBinding (\<lambda>b. bindD (readRequest b) (\<lambda>b. bindD readString (\<lambda>receiverNodeKey.
        bindD (readOrigin b) (\<lambda>b.
        thenD (checkD (isValidInvalidCryptoDkgOriginProtocol (st_originProtocol b)))
        (bindD (readScopes b) (\<lambda>b. bindD readU32 (\<lambda>fromNodeID. bindD readU32 (\<lambda>toNodeID.
        bindD readBytes (\<lambda>commitmentStatementBytes. bindD readBytes (\<lambda>commitmentSignature.
        bindD readBytes (\<lambda>shareValue. bindD readBytes (\<lambda>nonce. bindD readString (\<lambda>cryptoBackend.
        thenD (checkD (st_requestID b \<noteq> '''' \<and> st_nodeKey b \<noteq> '''' \<and> receiverNodeKey \<noteq> '''' \<and>
          st_accusedScope b = committeeScopeCurrent \<and> st_signingScope b = committeeScopeCurrent \<and>
          fromNodeID \<noteq> 0 \<and> toNodeID \<noteq> 0 \<and> sized 1048576 commitmentStatementBytes \<and>
          length commitmentSignature = 64 \<and> sized 4096 shareValue \<and> length nonce = 16 \<and> cryptoBackend \<noteq> ''''))
        (retD (b, fromNodeID, commitmentStatementBytes, cryptoBackend)))))))))))))))))
       statementBytes) (\<lambda>(b, fromNodeID, commitmentStatementBytes, cryptoBackend).
      bindE (decodeDkgCommitmentStatement commitmentStatementBytes) (\<lambda>commitment.
      if \<not> sameBinding commitment b \<or> dkg_fromNodeID commitment \<noteq> fromNodeID \<or>
         dkg_cryptoBackend commitment \<noteq> cryptoBackend then Inl ErrInvalidReport
      else if st_signedAt commitment > st_signedAt b then Inl ErrInvalidReport
      else Inr (toInvalidCrypto b [] (dkg_attemptID commitment)))))"

definition decodeDkgInvalidRefreshCommitmentStatement :: "bytes \<Rightarrow> error + invalidCryptoResponseStatement" where
  "decodeDkgInvalidRefreshCommitmentStatement statementBytes =
     bindE (decodeDkgCommitmentStatement statementBytes) (\<lambda>commitment.
     if st_originProtocol commitment \<noteq> ''pss_refresh'' then Inl ErrInvalidReport
     else Inr (toInvalidCrypto (statement.truncate commitment) [] (dkg_attemptID commitment)))"

definition decodeDkgEquivocationStatements ::
  "bytes \<Rightarrow> bytes \<Rightarrow> bytes \<Rightarrow> bytes \<Rightarrow> error + invalidCryptoResponseStatement" where
  "decodeDkgEquivocationStatements aBytes aSignature bBytes bSignature =
     (if length aSignature \<noteq> 64 \<or> length bSignature \<noteq> 64 then Inl ErrInvalidReport
      else bindE (decodeDkgCommitmentStatement aBytes) (\<lambda>a.
       bindE (decodeDkgCommitmentStatement bBytes) (\<lambda>b.
       if \<not> sameBinding a b \<or> dkg_fromNodeID a \<noteq> dkg_fromNodeID b \<or> dkg_attemptID a \<noteq> dkg_attemptID b \<or>
          dkg_cryptoBackend a \<noteq> dkg_cryptoBackend b then Inl ErrInvalidReport
       else if dkg_sessionNonce a \<noteq> dkg_sessionNonce b then Inl ErrInvalidReport
       else if dkg_commitment a = dkg_commitment b then Inl ErrInvalidReport
       else Inr (toInvalidCrypto
         ((statement.truncate a)\<lparr>st_signedAt := max (st_signedAt a) (st_signedAt b)\<rparr>) [] (dkg_attemptID a)))))"

definition decodeDkgStatementHeader :: "string \<Rightarrow> statement decoder" where
  "decodeDkgStatementHeader expectedDomain =
     thenD (readDomain expectedDomain)
     (bindD readBinding (\<lambda>b. bindD (readRequest b) (\<lambda>b. bindD (readOrigin b) (\<lambda>b. readScopes b))))"

definition decodeEndpointSignedContribution :: "(bytes \<times> bytes \<times> bytes) decoder" where
  "decodeEndpointSignedContribution =
     bindD readBytes (\<lambda>origin. bindD readBytes (\<lambda>signature. bindD readBytes (\<lambda>data.
     thenD (checkD (length origin = 32 \<and> length signature = 64 \<and> sized 1048576 data))
     (retD (origin, signature, data)))))"

definition decodeControlMessageArtifact :: "(bytes \<times> bytes \<times> uint64) decoder" where
  "decodeControlMessageArtifact =
     bindD readBytes (\<lambda>signature. bindD readBytes (\<lambda>data. bindD readU64 (\<lambda>signedAt.
     thenD (checkD (length signature = 64 \<and> sized 1048576 data))
     (retD (signature, data, signedAt)))))"

definition decodeOptionalPart :: "'a decoder \<Rightarrow> 'a option decoder" where
  "decodeOptionalPart d = bindD readByte (\<lambda>tag.
     thenD (checkD (tag \<le> 1)) (if tag = 0 then retD None else bindD d (\<lambda>x. retD (Some x))))"

text \<open>The checks that all header-based DKG statements start their final \<open>switch\<close> with.\<close>

definition dkgPolicy :: "statement \<Rightarrow> bytes \<Rightarrow> bool" where
  "dkgPolicy b attemptID \<longleftrightarrow>
     length attemptID = 32 \<and> st_requestID b \<noteq> '''' \<and> st_nodeKey b \<noteq> '''' \<and>
     (st_originProtocol b = ''pss_refresh'' \<or> st_originProtocol b = ''pss_reshare'') \<and>
     st_signingScope b = committeeScopeCurrent \<and>
     (st_originProtocol b = ''pss_refresh'' \<longrightarrow> st_accusedScope b = committeeScopeCurrent)"

definition reshareAccusesNew :: "statement \<Rightarrow> bool" where
  "reshareAccusesNew b \<longleftrightarrow>
     (st_originProtocol b = ''pss_reshare'' \<longrightarrow> st_accusedScope b = committeeScopePendingNew)"

definition decodeDkgPublicOriginFaultStatement :: "bytes \<Rightarrow> error + invalidCryptoResponseStatement" where
  "decodeDkgPublicOriginFaultStatement = runD
     (bindD (decodeDkgStatementHeader ''orbis-dkg-public-origin-fault-v1'') (\<lambda>b.
      bindD readBytes (\<lambda>attemptID. bindD readString (\<lambda>phase. bindD readString (\<lambda>faultKind.
      bindD decodeEndpointSignedContribution (\<lambda>(aOrigin, _).
      bindD (decodeOptionalPart decodeEndpointSignedContribution) (\<lambda>contributionB.
      thenD (checkD (dkgPolicy b attemptID \<and> isDkgPublicOriginPhase phase \<and>
        (faultKind = ''invalid_payload'' \<longrightarrow> contributionB = None) \<and>
        (faultKind = ''origin_equivocation'' \<longrightarrow> contributionB \<noteq> None \<and> phase \<noteq> ''commitments'') \<and>
        (faultKind = ''invalid_payload'' \<or> faultKind = ''origin_equivocation'') \<and>
        (case contributionB of None \<Rightarrow> True | Some (bOrigin, _) \<Rightarrow> aOrigin = bOrigin)))
      (retD (toInvalidCrypto b aOrigin attemptID)))))))))"

text \<open>
  \<open>decodeDkgLeaderEquivocationStatement\<close> and \<open>decodeDkgLeaderBatchMismatchStatement\<close> are the same code
  under two domains.
\<close>

definition decodeDkgLeaderPair :: "string \<Rightarrow> bytes \<Rightarrow> error + invalidCryptoResponseStatement" where
  "decodeDkgLeaderPair expectedDomain = runD
     (bindD (decodeDkgStatementHeader expectedDomain) (\<lambda>b.
      bindD readBytes (\<lambda>attemptID. bindD readString (\<lambda>phase.
      bindD readBytes (\<lambda>deliveryIDA. bindD decodeEndpointSignedContribution (\<lambda>(aOrigin, _).
      bindD readBytes (\<lambda>deliveryIDB. bindD decodeEndpointSignedContribution (\<lambda>(bOrigin, _).
      thenD (checkD (dkgPolicy b attemptID \<and> length deliveryIDA = 16 \<and> length deliveryIDB = 16 \<and>
        reshareAccusesNew b \<and> isDkgPublicOriginPhase phase \<and> aOrigin = bOrigin \<and> deliveryIDA \<noteq> deliveryIDB))
      (retD (toInvalidCrypto b aOrigin attemptID))))))))))"

definition decodeDkgLeaderEquivocationStatement :: "bytes \<Rightarrow> error + invalidCryptoResponseStatement" where
  "decodeDkgLeaderEquivocationStatement = decodeDkgLeaderPair ''orbis-dkg-leader-equivocation-v1''"

definition decodeDkgLeaderBatchMismatchStatement :: "bytes \<Rightarrow> error + invalidCryptoResponseStatement" where
  "decodeDkgLeaderBatchMismatchStatement = decodeDkgLeaderPair ''orbis-dkg-leader-batch-mismatch-v1''"

definition decodeDkgLeaderPublicFaultStatement :: "bytes \<Rightarrow> error + invalidCryptoResponseStatement" where
  "decodeDkgLeaderPublicFaultStatement = runD
     (bindD (decodeDkgStatementHeader ''orbis-dkg-leader-public-fault-v1'') (\<lambda>b.
      bindD readBytes (\<lambda>attemptID. bindD readString (\<lambda>phase. bindD readString (\<lambda>faultKind.
      bindD readBytes (\<lambda>deliveryID. bindD decodeEndpointSignedContribution (\<lambda>(origin, _).
      thenD (checkD (dkgPolicy b attemptID \<and> length deliveryID = 16 \<and> reshareAccusesNew b \<and>
        isDkgPublicOriginPhase phase \<and>
        faultKind \<in> set [''invalid_manifest'', ''chunk_index_out_of_range'', ''oversized_chunk'', ''duplicate_chunk_origin'']))
      (retD (toInvalidCrypto b origin attemptID)))))))))"

definition decodeDkgControlMessageFaultStatement :: "bytes \<Rightarrow> error + invalidCryptoResponseStatement" where
  "decodeDkgControlMessageFaultStatement = runD
     (bindD (decodeDkgStatementHeader ''orbis-dkg-control-message-fault-v1'') (\<lambda>b.
      bindD readBytes (\<lambda>attemptID. bindD readString (\<lambda>messageKind. bindD readString (\<lambda>faultKind.
      bindD decodeControlMessageArtifact (\<lambda>artifactA.
      bindD (decodeOptionalPart decodeControlMessageArtifact) (\<lambda>artifactB.
      thenD (checkD (dkgPolicy b attemptID \<and>
        (faultKind = ''leader_prepare_fault'' \<longrightarrow>
           reshareAccusesNew b \<and> messageKind = ''prepare'' \<and> artifactB = None) \<and>
        (faultKind = ''ack_equivocation'' \<longrightarrow> isDkgControlAckMessageKind messageKind \<and> artifactB \<noteq> None) \<and>
        (faultKind = ''oversized_repair_page'' \<longrightarrow>
           reshareAccusesNew b \<and> messageKind = ''public_phase_response'' \<and> artifactB = None) \<and>
        faultKind \<in> set [''leader_prepare_fault'', ''ack_equivocation'', ''oversized_repair_page'']))
      (retD (toInvalidCrypto b [] attemptID)))))))))"

definition decodeSingleStatementInvalidCryptoPayloadTail :: "bytes \<Rightarrow> error + (bytes \<times> bytes)" where
  "decodeSingleStatementInvalidCryptoPayloadTail = runD
     (bindD readBytes (\<lambda>statementBytes. bindD readBytes (\<lambda>responseSignature.
      retD (statementBytes, responseSignature))))"

definition decodeSigned ::
  "(bytes \<Rightarrow> error + invalidCryptoResponseStatement) \<Rightarrow> bytes \<Rightarrow> error + invalidCryptoResponseStatement" where
  "decodeSigned decode bs =
     bindE (decodeSingleStatementInvalidCryptoPayloadTail bs) (\<lambda>(statementBytes, responseSignature).
     if length responseSignature \<noteq> 64 then Inl ErrInvalidReport else decode statementBytes)"

definition decodeInvalidCryptoResponsePayload :: "bytes \<Rightarrow> error + invalidCryptoResponseStatement" where
  "decodeInvalidCryptoResponsePayload payload =
     bindE (readString payload) (\<lambda>(kind, tail).
     if kind = ''pre'' then decodeSigned decodePreReencryptResponseStatement tail
     else if kind = ''sign'' then decodeSigned decodeSignResponseStatement tail
     else if kind = ''pet_blind_reveal'' then decodeSigned decodePetBlindRevealStatement tail
     else if kind = ''pet_blind_decrypt'' then decodeSigned decodePetBlindDecryptStatement tail
     else if kind = ''dkg_share'' then decodeSigned decodeDkgShareStatement tail
     else if kind = ''dkg_invalid_refresh_commitment'' then decodeSigned decodeDkgInvalidRefreshCommitmentStatement tail
     else if kind = ''dkg_equivocation'' then
       bindE (runD (bindD readBytes (\<lambda>a. bindD readBytes (\<lambda>sa. bindD readBytes (\<lambda>b. bindD readBytes (\<lambda>sb.
         retD (a, sa, b, sb)))))) tail) (\<lambda>(a, sa, b, sb). decodeDkgEquivocationStatements a sa b sb)
     else
       (case map_of
          [(''dkg_public_origin_fault'', decodeDkgPublicOriginFaultStatement),
           (''dkg_leader_equivocation'', decodeDkgLeaderEquivocationStatement),
           (''dkg_control_message_fault'', decodeDkgControlMessageFaultStatement),
           (''dkg_leader_public_fault'', decodeDkgLeaderPublicFaultStatement),
           (''dkg_leader_batch_mismatch'', decodeDkgLeaderBatchMismatchStatement)] kind of
          None \<Rightarrow> Inl ErrInvalidReport
        | Some decode \<Rightarrow> bindE (runD readBytes tail) decode))"

definition absDiffUint64 :: "uint64 \<Rightarrow> uint64 \<Rightarrow> uint64" where
  "absDiffUint64 a b = (if a > b then a - b else b - a)"

definition decodeRelayRequestStatement :: "bytes \<Rightarrow> error + statement" where
  "decodeRelayRequestStatement = runD
     (thenD (readDomain ''orbis-relay-request-v1'')
      (bindD readBinding (\<lambda>b. bindD readString (\<lambda>requestID. bindD readU64 (\<lambda>signedAt.
      bindD readU64 (\<lambda>userSignedAt. bindD readString (\<lambda>relayerNodeKey. bindD readString (\<lambda>originProtocol.
      bindD (readScopes b) (\<lambda>b. bindD readU32 (\<lambda>fromNodeID. bindD readString (\<lambda>actorID.
      bindD readString (\<lambda>objectID. bindD readOptionalU64 (\<lambda>validWindowStart.
      bindD readOptionalU64 (\<lambda>validWindowEnd. thenD readOptionalU64 (thenD readByteBool
      (thenD (checkD ((originProtocol = ''pre'' \<or> originProtocol = ''sign'') \<and>
        st_accusedScope b = committeeScopeCurrent \<and> st_signingScope b = committeeScopeCurrent \<and>
        fromNodeID \<noteq> 0 \<and> requestID \<noteq> '''' \<and> relayerNodeKey \<noteq> '''' \<and> actorID \<noteq> '''' \<and> objectID \<noteq> '''' \<and>
        (validWindowStart = None \<longleftrightarrow> validWindowEnd = None) \<and>
        absDiffUint64 signedAt userSignedAt \<le> relayCheckMaxDriftSecs))
      (retD (b\<lparr>st_requestID := requestID, st_signedAt := signedAt, st_nodeKey := relayerNodeKey,
               st_originProtocol := originProtocol\<rparr>))))))))))))))))))"

definition decodeUnauthorizedRequestPayload :: "bytes \<Rightarrow> error + statement" where
  "decodeUnauthorizedRequestPayload payload =
     bindE (runD (bindD readBytes (\<lambda>statementBytes. bindD readBytes (\<lambda>relaySignature.
       bindD readString (\<lambda>checkedAtAnchor. retD (statementBytes, relaySignature, checkedAtAnchor))))) payload)
     (\<lambda>(statementBytes, relaySignature, checkedAtAnchor).
     if length relaySignature \<noteq> 64 \<or> checkedAtAnchor = '''' then Inl ErrInvalidReport
     else decodeRelayRequestStatement statementBytes)"

text \<open>The binding of a statement to the envelope, common to both kinds of signed evidence.\<close>

definition statementBound :: "ReportEnvelope \<Rightarrow> 'z statement_scheme \<Rightarrow> bool" where
  "statementBound r b \<longleftrightarrow>
     st_chainID b = rep_ChainId r \<and> st_ringID b = rep_RingId r \<and> st_ringPk b = rep_RingPk r \<and>
     st_ringStateSha256 b = rep_RingStateSha256 r \<and> st_requestID b = rep_SessionId r \<and>
     st_nodeKey b = rep_AccusedNodeKey r \<and> st_signedAt b \<ge> reportObservedAtGraceSecs \<and>
     rep_ObservedAt r = st_signedAt b - reportObservedAtGraceSecs"

definition validateInvalidCryptoResponseStatement ::
  "ReportEnvelope \<Rightarrow> invalidCryptoResponseStatement \<Rightarrow> error option" where
  "validateInvalidCryptoResponseStatement r b =
     (let accusedEndpoint = toLower (splitHead (rep_AccusedPeerId r) CHR ''@'') in
      firstErr
        [failIf (\<not> statementBound r b) ErrInvalidReport,
         failIf (st_endpointOrigin b \<noteq> [] \<and> hex_EncodeToString (st_endpointOrigin b) \<noteq> accusedEndpoint) ErrInvalidReport])"

definition validateRelayRequestStatement :: "ReportEnvelope \<Rightarrow> statement \<Rightarrow> error option" where
  "validateRelayRequestStatement r b = failIf (\<not> statementBound r b) ErrInvalidReport"

end
