(* ===== verification/Orbis_Keeper.thy ===== *)
theory Orbis_Keeper
  imports Orbis_Codec
begin

text \<open>
  The keeper of the orbis module (\<open>x/orbis/keeper\<close>): its prefix stores (\<open>store.go\<close>), the parameters
  (\<open>params.go\<close>), the access checks (\<open>acp.go\<close>, \<open>node_info.go\<close>) and the demerit counters. The messages
  are in \<open>Orbis_Msgs\<close>, the fault reports in \<open>Orbis_Reports\<close>.

  \<open>orbis_state\<close> has one field per prefix store. \<open>orbis_ext\<close> is the state of the other keepers, which
  \<open>OrbisKeeper\<close> accesses: accounts, interchain accounts, the bank and the access control module.
\<close>

record orbis_ctx = sdk_ctx +
  ChainID :: string

record 'x orbis_state = base_state +
  orbis_params :: "OrbisParams option"
  ring_store :: "Ring kv"
  document_store :: "Document kv"
  key_derivation_store :: "KeyDerivation kv"
  node_info_store :: "NodeInfo kv"
  accepted_report_store :: "bytes kv"
  accepted_session_store :: "bytes kv"
  accepted_expiry_store :: "string kv"
  node_demerit_store :: "bytes kv"
  orbis_ext :: 'x

type_synonym ('x, 'a) OM = "('x orbis_state, 'a) M"

record 'x OrbisKeeper =
  orb_lib :: orbis_lib
  orb_codec :: sdk_codec
  orb_did :: did_ops
  orb_authority :: string
  orb_FromBech32 :: "string \<Rightarrow> error + addr"
  orb_GetAccount :: "addr \<Rightarrow> 'x \<Rightarrow> PubKey option option"
  orb_HasICA :: "string \<Rightarrow> 'x \<Rightarrow> bool"
  orb_RegisterObject :: "orbis_ctx \<Rightarrow> string \<Rightarrow> string \<Rightarrow> string \<Rightarrow> string \<Rightarrow> ('x, unit) M"
  orb_VerifyAccess :: "string \<Rightarrow> string \<Rightarrow> string \<Rightarrow> string \<Rightarrow> string \<Rightarrow> 'x \<Rightarrow> error + bool"
  orb_SpendableCoins :: "addr \<Rightarrow> 'x \<Rightarrow> coins"
  orb_IsZeroCoins :: "coins \<Rightarrow> bool"
  orb_CoinsString :: "coins \<Rightarrow> string"
  orb_SendCoins :: "addr \<Rightarrow> addr \<Rightarrow> coins \<Rightarrow> ('x, unit) M"

text \<open>
  \<open>orb_RegisterObject ctx creator policy resource object\<close> is \<open>DirectPolicyCmd\<close> of the access control
  module with a register-object command; \<open>orb_VerifyAccess policy resource object permission actor\<close> is
  \<open>VerifyAccessRequest\<close>. \<open>orb_FromBech32\<close> is \<open>types.AccAddressFromBech32\<close>.
\<close>

definition extO :: "('x, 'a) M \<Rightarrow> ('x, 'a) OM" where
  "extO m s = (case m (orbis_ext s) of (r, x) \<Rightarrow> (r, s\<lparr>orbis_ext := x\<rparr>))"

definition extOR :: "('x \<Rightarrow> error + 'a) \<Rightarrow> ('x, 'a) OM" where
  "extOR f = readM (\<lambda>s. f (orbis_ext s))"

definition checkM :: "error option \<Rightarrow> ('s, unit) M" where
  "checkM r = liftE (checkE r)"

definition someM :: "error \<Rightarrow> 'a option \<Rightarrow> ('s, 'a) M" where
  "someM e x = liftE (case x of None \<Rightarrow> Inl e | Some v \<Rightarrow> Inr v)"

section \<open>Parameters\<close>

definition Orbis_GetParams :: "'x orbis_state \<Rightarrow> OrbisParams" where
  "Orbis_GetParams s = (case orbis_params s of None \<Rightarrow> Orbis_DefaultParams | Some p \<Rightarrow> p)"

definition Orbis_SetParams :: "OrbisParams \<Rightarrow> ('x, unit) OM" where
  "Orbis_SetParams p =
     thenM (checkM (Orbis_Params_Validate p)) (modifyM (\<lambda>s. s\<lparr>orbis_params := Some p\<rparr>))"

section \<open>Stores\<close>

definition canonicalRing :: "Ring \<Rightarrow> Ring" where
  "canonicalRing ring = ring
     \<lparr>PeerNodeKeys := canonicalStrings (PeerNodeKeys ring),
      NewPeerNodeKeys := canonicalStrings (NewPeerNodeKeys ring),
      TrustedAuthRelayDids := canonicalStrings (TrustedAuthRelayDids ring)\<rparr>"

definition SetRing :: "Ring \<Rightarrow> ('x, unit) OM" where
  "SetRing ring = modifyM (\<lambda>s. s\<lparr>ring_store := kv_set (ring_Id ring) (canonicalRing ring) (ring_store s)\<rparr>)"

definition GetRing :: "string \<Rightarrow> 'x orbis_state \<Rightarrow> Ring option" where
  "GetRing ringID s = kv_get (ring_store s) ringID"

definition DeleteRing :: "string \<Rightarrow> ('x, unit) OM" where
  "DeleteRing ringID = modifyM (\<lambda>s. s\<lparr>ring_store := kv_del ringID (ring_store s)\<rparr>)"

definition GetAllRings :: "'x orbis_state \<Rightarrow> Ring list" where
  "GetAllRings s = map snd (ring_store s)"

definition SetDocument :: "Document \<Rightarrow> ('x, unit) OM" where
  "SetDocument d = modifyM (\<lambda>s. s\<lparr>document_store := kv_set (doc_Id d) d (document_store s)\<rparr>)"

definition GetDocument :: "string \<Rightarrow> 'x orbis_state \<Rightarrow> Document option" where
  "GetDocument documentID s = kv_get (document_store s) documentID"

definition GetAllDocuments :: "'x orbis_state \<Rightarrow> Document list" where
  "GetAllDocuments s = map snd (document_store s)"

definition SetKeyDerivation :: "KeyDerivation \<Rightarrow> ('x, unit) OM" where
  "SetKeyDerivation d = modifyM (\<lambda>s. s\<lparr>key_derivation_store := kv_set (kd_Id d) d (key_derivation_store s)\<rparr>)"

definition GetKeyDerivation :: "string \<Rightarrow> 'x orbis_state \<Rightarrow> KeyDerivation option" where
  "GetKeyDerivation keyDerivationID s = kv_get (key_derivation_store s) keyDerivationID"

definition GetAllKeyDerivations :: "'x orbis_state \<Rightarrow> KeyDerivation list" where
  "GetAllKeyDerivations s = map snd (key_derivation_store s)"

definition SetNodeInfo :: "string \<Rightarrow> NodeInfo \<Rightarrow> ('x, unit) OM" where
  "SetNodeInfo nodeKey n = modifyM (\<lambda>s. s\<lparr>node_info_store := kv_set nodeKey n (node_info_store s)\<rparr>)"

definition GetNodeInfo :: "string \<Rightarrow> 'x orbis_state \<Rightarrow> NodeInfo option" where
  "GetNodeInfo nodeKey s = kv_get (node_info_store s) nodeKey"

definition GetAllNodeInfos :: "'x orbis_state \<Rightarrow> (string \<times> NodeInfo) list" where
  "GetAllNodeInfos s = node_info_store s"

subsection \<open>Accepted reports\<close>

definition acceptedExpiryKey :: "uint64 \<Rightarrow> string \<Rightarrow> bytes" where
  "acceptedExpiryKey expiresAt reportID = putU64 expiresAt @ reportID"

definition SetAcceptedReportPair :: "string \<Rightarrow> string \<Rightarrow> uint64 \<Rightarrow> ('x, unit) OM" where
  "SetAcceptedReportPair reportID sessionID expiresAt = modifyM (\<lambda>s. s
     \<lparr>accepted_report_store := kv_set reportID [char_of (1 :: nat)] (accepted_report_store s),
      accepted_session_store := kv_set sessionID [char_of (1 :: nat)] (accepted_session_store s),
      accepted_expiry_store := kv_set (acceptedExpiryKey expiresAt reportID) sessionID (accepted_expiry_store s)\<rparr>)"

definition HasAcceptedReport :: "string \<Rightarrow> 'x orbis_state \<Rightarrow> bool" where
  "HasAcceptedReport reportID s \<longleftrightarrow> kv_get (accepted_report_store s) reportID \<noteq> None"

definition HasAcceptedReportSession :: "string \<Rightarrow> 'x orbis_state \<Rightarrow> bool" where
  "HasAcceptedReportSession sessionID s \<longleftrightarrow> kv_get (accepted_session_store s) sessionID \<noteq> None"

text \<open>
  The loop of \<open>DeleteExpiredAcceptedReportPairs\<close> walks the expiry store in key order, skips keys that
  are too short and stops at the first key that lies in the future.
\<close>

fun expiredPairs :: "uint64 \<Rightarrow> string kv \<Rightarrow> (bytes \<times> string \<times> string) list" where
  "expiredPairs now [] = []"
| "expiredPairs now ((key, sessionID) # rest) =
     (if length key < 8 then expiredPairs now rest
      else if getU64 (take 8 key) > now then []
      else (key, drop 8 key, sessionID) # expiredPairs now rest)"

definition deletePair :: "bytes \<times> string \<times> string \<Rightarrow> 'x orbis_state \<Rightarrow> 'x orbis_state" where
  "deletePair p s = (case p of (expiryKey, reportID, sessionID) \<Rightarrow> s
     \<lparr>accepted_expiry_store := kv_del expiryKey (accepted_expiry_store s),
      accepted_report_store := kv_del reportID (accepted_report_store s),
      accepted_session_store := kv_del sessionID (accepted_session_store s)\<rparr>)"

definition DeleteExpiredAcceptedReportPairs :: "uint64 \<Rightarrow> ('x, unit) OM" where
  "DeleteExpiredAcceptedReportPairs now =
     modifyM (\<lambda>s. fold deletePair (expiredPairs now (accepted_expiry_store s)) s)"

record AcceptedReportPairEntry =
  arp_ReportId :: string
  arp_SessionId :: string
  arp_ExpiresAt :: uint64

definition GetAllAcceptedReportPairs :: "'x orbis_state \<Rightarrow> AcceptedReportPairEntry list" where
  "GetAllAcceptedReportPairs s =
     map (\<lambda>(key, sessionID). \<lparr>arp_ReportId = drop 8 key, arp_SessionId = sessionID, arp_ExpiresAt = getU64 (take 8 key)\<rparr>)
       (filter (\<lambda>(key, _). \<not> length key < 8) (accepted_expiry_store s))"

subsection \<open>Demerits\<close>

record nodeDemeritState =
  points :: uint64
  windowStartedAt :: uint64

definition nodeDemeritStoreKey :: "string \<Rightarrow> string \<Rightarrow> bytes" where
  "nodeDemeritStoreKey ringID nodeKey = putU32 (of_nat (length ringID)) @ ringID @ nodeKey"

definition decodeNodeDemeritStoreKey :: "bytes \<Rightarrow> (string \<times> string) option" where
  "decodeNodeDemeritStoreKey key =
     (if length key < 4 then None
      else let n = unat (getU32 (take 4 key)) in
        if length key < 4 + n then None
        else Some (take n (drop 4 key), drop (4 + n) key))"

definition getNodeDemeritState :: "string \<Rightarrow> string \<Rightarrow> 'x orbis_state \<Rightarrow> nodeDemeritState option" where
  "getNodeDemeritState ringID nodeKey s =
     (case kv_get (node_demerit_store s) (nodeDemeritStoreKey ringID nodeKey) of
        None \<Rightarrow> None
      | Some bz \<Rightarrow>
          if length bz \<noteq> 16 then None
          else Some \<lparr>points = getU64 (take 8 bz), windowStartedAt = getU64 (drop 8 bz)\<rparr>)"

definition setNodeDemeritState :: "string \<Rightarrow> string \<Rightarrow> nodeDemeritState \<Rightarrow> ('x, unit) OM" where
  "setNodeDemeritState ringID nodeKey d = modifyM (\<lambda>s. s
     \<lparr>node_demerit_store :=
        kv_set (nodeDemeritStoreKey ringID nodeKey) (putU64 (points d) @ putU64 (windowStartedAt d)) (node_demerit_store s)\<rparr>)"

definition nodeDemeritWindowExpired :: "uint64 \<Rightarrow> uint64 \<Rightarrow> uint64 \<Rightarrow> bool" where
  "nodeDemeritWindowExpired started now resetIntervalSeconds \<longleftrightarrow>
     now \<ge> started \<and> now - started \<ge> resetIntervalSeconds"

definition GetNodeDemerits :: "string \<Rightarrow> string \<Rightarrow> 'x orbis_state \<Rightarrow> uint64" where
  "GetNodeDemerits ringID nodeKey s =
     (case getNodeDemeritState ringID nodeKey s of None \<Rightarrow> 0 | Some d \<Rightarrow> points d)"

definition GetEffectiveNodeDemerits :: "string \<Rightarrow> string \<Rightarrow> uint64 \<Rightarrow> uint64 \<Rightarrow> 'x orbis_state \<Rightarrow> uint64" where
  "GetEffectiveNodeDemerits ringID nodeKey now resetIntervalSeconds s =
     (case getNodeDemeritState ringID nodeKey s of
        None \<Rightarrow> 0
      | Some d \<Rightarrow> if nodeDemeritWindowExpired (windowStartedAt d) now resetIntervalSeconds then 0 else points d)"

definition IncrementNodeDemerits :: "string \<Rightarrow> string \<Rightarrow> uint64 \<Rightarrow> uint64 \<Rightarrow> uint64 \<Rightarrow> ('x, uint64) OM" where
  "IncrementNodeDemerits ringID nodeKey amount now resetIntervalSeconds =
     bindM (getM (getNodeDemeritState ringID nodeKey)) (\<lambda>found.
     let d = (case found of
                Some d \<Rightarrow>
                  if nodeDemeritWindowExpired (windowStartedAt d) now resetIntervalSeconds
                  then \<lparr>points = 0, windowStartedAt = now\<rparr> else d
              | None \<Rightarrow> \<lparr>points = 0, windowStartedAt = now\<rparr>);
         d' = d\<lparr>points := points d + amount\<rparr>
     in thenM (setNodeDemeritState ringID nodeKey d') (ret (points d')))"

definition SetNodeDemerits :: "string \<Rightarrow> string \<Rightarrow> uint64 \<Rightarrow> uint64 \<Rightarrow> ('x, unit) OM" where
  "SetNodeDemerits ringID nodeKey pts started =
     setNodeDemeritState ringID nodeKey \<lparr>points = pts, windowStartedAt = started\<rparr>"

record NodeDemeritEntry =
  nde_RingId :: string
  nde_NodeKey :: string
  nde_Points :: uint64
  nde_WindowStartedAt :: uint64

definition demeritEntry :: "bytes \<times> bytes \<Rightarrow> error + NodeDemeritEntry" where
  "demeritEntry p = (case p of (key, bz) \<Rightarrow>
     (case decodeNodeDemeritStoreKey key of
        None \<Rightarrow> Inl (Panic (PanicMsg ''invalid node demerit key''))
      | Some (ringID, nodeKey) \<Rightarrow>
          if length bz \<noteq> 16 then Inl (Panic (PanicMsg ''invalid node demerit state size''))
          else Inr \<lparr>nde_RingId = ringID, nde_NodeKey = nodeKey, nde_Points = getU64 (take 8 bz),
                    nde_WindowStartedAt = getU64 (drop 8 bz)\<rparr>))"

definition GetAllNodeDemerits :: "('x, NodeDemeritEntry list) OM" where
  "GetAllNodeDemerits =
     bindM (getM node_demerit_store) (\<lambda>st.
     foldM (\<lambda>p acc. bindM (liftE (demeritEntry p)) (\<lambda>e. ret (acc @ [e]))) st [])"

section \<open>Access checks\<close>

definition actorDID :: "'x OrbisKeeper \<Rightarrow> orbis_ctx \<Rightarrow> string \<Rightarrow> ('x, string) OM" where
  "actorDID K ctx accountAddr =
     extOR (\<lambda>x. GetActorDID (orb_did K) (orb_FromBech32 K) (\<lambda>a. orb_GetAccount K a x) (\<lambda>a. orb_HasICA K a x) ctx accountAddr)"

definition pubKeyBytes :: "PubKey \<Rightarrow> bytes" where
  "pubKeyBytes pk = (case pk of Secp256k1PubKey b \<Rightarrow> b | Secp256r1PubKey b \<Rightarrow> b | Ed25519PubKey b \<Rightarrow> b | OtherPubKey b \<Rightarrow> b)"

definition signerPublicKeyHex :: "'x OrbisKeeper \<Rightarrow> string \<Rightarrow> ('x, string) OM" where
  "signerPublicKeyHex K address =
     extOR (\<lambda>x.
       case AccFromBech32 (orb_codec K) address of
         Inl e \<Rightarrow> Inl ErrInvalidNodeInfo
       | Inr a \<Rightarrow>
           (case orb_GetAccount K a x of
              None \<Rightarrow> Inl ErrInvalidNodeInfo
            | Some None \<Rightarrow> Inl ErrInvalidNodeInfo
            | Some (Some pk) \<Rightarrow> Inr (hex_EncodeToString (pubKeyBytes pk))))"

definition registerRingACPObject :: "'x OrbisKeeper \<Rightarrow> orbis_ctx \<Rightarrow> string \<Rightarrow> string \<Rightarrow> string \<Rightarrow> ('x, unit) OM" where
  "registerRingACPObject K ctx creator policyID ringID =
     extO (orb_RegisterObject K ctx creator policyID ''ring'' ringID)"

definition ensureRingCreatePermission :: "'x OrbisKeeper \<Rightarrow> string \<Rightarrow> string \<Rightarrow> ('x, unit) OM" where
  "ensureRingCreatePermission K policyID creatorDID =
     thenM (guardM (policyID \<noteq> '''') ErrInvalidRing)
     (bindM (extOR (orb_VerifyAccess K policyID ''ring_policy'' policyID ''create_ring'' creatorDID)) (\<lambda>valid.
      guardM valid ErrUnauthorizedRingCreate))"

definition ensureRingUpdatePermission :: "'x OrbisKeeper \<Rightarrow> Ring \<Rightarrow> string \<Rightarrow> ('x, unit) OM" where
  "ensureRingUpdatePermission K ring updaterDID =
     thenM (guardM (ring_PolicyId ring \<noteq> '''') ErrInvalidRing)
     (bindM (extOR (orb_VerifyAccess K (ring_PolicyId ring) ''ring'' (ring_Id ring) ''update_ring'' updaterDID)) (\<lambda>valid.
      guardM valid ErrUnauthorizedRingUpdate))"

definition requireReportingBackupNodeInfos :: "string list \<Rightarrow> ('x, unit) OM" where
  "requireReportingBackupNodeInfos backupNodeKeys =
     forM backupNodeKeys (\<lambda>nodeKey. thenM (bindM (getM (GetNodeInfo nodeKey)) (someM ErrInvalidRing)) (ret ()))"

definition requireWhitelisted :: "Ring \<Rightarrow> string list \<Rightarrow> ('x, unit) OM" where
  "requireWhitelisted ring nodeKeys =
     forM nodeKeys (\<lambda>nodeKey.
       bindM (bindM (getM (GetNodeInfo nodeKey)) (someM ErrInvalidRing)) (\<lambda>nodeInfo.
       guardM (nodeInfoAllowsRing nodeInfo ring) ErrInvalidRing))"

definition authorizeNodeInfoUpdate :: "'x OrbisKeeper \<Rightarrow> string \<Rightarrow> string \<Rightarrow> ('x, NodeInfo) OM" where
  "authorizeNodeInfoUpdate K nodeKey creator =
     bindM (bindM (getM (GetNodeInfo nodeKey)) (someM ErrNodeInfoNotFound)) (\<lambda>nodeInfo.
     bindM (signerPublicKeyHex K creator) (\<lambda>signerKey.
     if signerKey \<noteq> ControllerKey nodeInfo then fail ErrUnauthorizedNodeInfoUpdate
     else ret nodeInfo))"

end
