(* ===== verification/Orbis_Msgs.thy ===== *)
theory Orbis_Msgs
  imports Orbis_Keeper
begin

text \<open>
  The messages of the orbis module (\<open>x/orbis/keeper/msg_server.go\<close>) except \<open>SubmitReport\<close>. A handler
  that works on a pointer to a ring changes a copy here, and stores it where the Go code calls
  \<open>SetRing\<close>. Typed events are the name of the event with its fields.
\<close>

definition RingEvent :: "string \<Rightarrow> string \<Rightarrow> string \<Rightarrow> string \<Rightarrow> event" where
  "RingEvent name ringId key v = (name, [(''ring_id'', ringId), (key, v)])"

definition emitRingUpdated :: "string \<Rightarrow> string \<Rightarrow> ('x, unit) OM" where
  "emitRingUpdated ringId updaterDID = EmitEvent (RingEvent ''EventRingUpdated'' ringId ''updater_did'' updaterDID)"

definition emitMaybe :: "event option \<Rightarrow> ('x, unit) OM" where
  "emitMaybe e = (case e of None \<Rightarrow> ret () | Some ev \<Rightarrow> EmitEvent ev)"

text \<open>The ring of a message, or \<open>ErrRingNotFound\<close>.\<close>

definition theRing :: "string \<Rightarrow> ('x, Ring) OM" where
  "theRing ringId = bindM (getM (GetRing ringId)) (someM ErrRingNotFound)"

text \<open>Validate, then store: the end of every handler that changes a ring.\<close>

definition validateAndSetRing :: "'x OrbisKeeper \<Rightarrow> Ring \<Rightarrow> ('x, unit) OM" where
  "validateAndSetRing K ring = thenM (checkM (validateRing (orb_lib K) ring)) (SetRing ring)"

section \<open>Parameters\<close>

definition Orbis_UpdateParams :: "'x OrbisKeeper \<Rightarrow> string \<Rightarrow> OrbisParams \<Rightarrow> ('x, unit) OM" where
  "Orbis_UpdateParams K authority params =
     thenM (guardM (orb_authority K = authority) ErrInvalidSigner) (Orbis_SetParams params)"

section \<open>Creating and finalizing rings\<close>

record MsgCreateRing =
  cr_Creator :: string
  cr_PeerNodeKeys :: "string list"
  cr_Threshold :: uint32
  cr_PssInterval :: uint64
  cr_PolicyId :: string
  cr_Nonce :: "string option"
  cr_CurrentVersion :: uint64
  cr_Reporting :: "ReportingConfig option"
  cr_TrustedAuthRelayDids :: "string list"
  cr_AllowTrustedAuthRelays :: bool
  cr_RequiresPet :: bool

definition createdRing :: "MsgCreateRing \<Rightarrow> string \<Rightarrow> string \<Rightarrow> ReportingConfig \<Rightarrow> Ring" where
  "createdRing msg ringID creatorDID reporting =
     \<lparr>ring_Id = ringID, ring_CreatorDid = creatorDID, ring_Pk = '''',
      PeerNodeKeys = canonicalStrings (cr_PeerNodeKeys msg), Threshold = cr_Threshold msg,
      NewPeerNodeKeys = [], NewThreshold = None, PssInterval = cr_PssInterval msg, BlockNumberNonce = 0,
      ring_PolicyId = cr_PolicyId msg, Confirmations = [],
      ring_UpgradeInfo = \<lparr>CurrentVersion = cr_CurrentVersion msg, NextVersion = None, ActivationTime = None\<rparr>,
      ring_Reporting = reporting, TrustedAuthRelayDids = canonicalStrings (cr_TrustedAuthRelayDids msg),
      AllowTrustedAuthRelays = cr_AllowTrustedAuthRelays msg, RequiresPet = cr_RequiresPet msg,
      ring_PetPk = None\<rparr>"

definition CreateRing :: "'x OrbisKeeper \<Rightarrow> orbis_ctx \<Rightarrow> MsgCreateRing \<Rightarrow> ('x, string) OM" where
  "CreateRing K ctx msg =
     bindM (actorDID K ctx (cr_Creator msg)) (\<lambda>creatorDID.
     let peerNodeKeys = canonicalStrings (cr_PeerNodeKeys msg);
         trustedAuthRelayDIDs = canonicalStrings (cr_TrustedAuthRelayDids msg);
         ringID = GenerateRingID (orb_lib K) peerNodeKeys (cr_Threshold msg) (cr_PssInterval msg) (cr_PolicyId msg)
           (cr_Nonce msg) (cr_CurrentVersion msg) (cr_AllowTrustedAuthRelays msg) trustedAuthRelayDIDs (cr_RequiresPet msg)
     in
     thenM (forM peerNodeKeys (\<lambda>nodeKey. thenM (bindM (getM (GetNodeInfo nodeKey)) (someM ErrInvalidRing)) (ret ())))
     (bindM (getM (GetRing ringID)) (\<lambda>existing.
     thenM (guardM (existing = None) ErrRingAlreadyExists)
     (bindM (getM Orbis_GetParams) (\<lambda>params.
     let reporting = (case cr_Reporting msg of Some r \<Rightarrow> r | None \<Rightarrow> ReportingConfigFromDefaults (DefaultReporting params));
         ring = createdRing msg ringID creatorDID reporting
     in
     thenM (checkM (validateRingPSSInterval ring))
     (thenM (checkM (validateRing (orb_lib K) ring))
     (thenM (requireReportingBackupNodeInfos (BackupNodeKeys (ring_Reporting ring)))
     (thenM (ensureRingCreatePermission K (cr_PolicyId msg) creatorDID)
     (thenM (registerRingACPObject K ctx (cr_Creator msg) (cr_PolicyId msg) ringID)
     (thenM (SetRing ring)
     (thenM (EmitEvent (RingEvent ''EventRingCreated'' ringID ''creator_did'' creatorDID))
     (ret ringID))))))))))))"

datatype FinalizeRingOutcome = CONFIRMATION_RECORDED | RING_FINALIZED | CONFLICT_DELETED

text \<open>\<open>c.GetPetPk()\<close> and \<open>petPk.Value()\<close> read a missing key as the empty string.\<close>

definition petValue :: "string option \<Rightarrow> string" where
  "petValue p = (case p of None \<Rightarrow> '''' | Some v \<Rightarrow> v)"

definition confirmationConflicts :: "Ring \<Rightarrow> string \<Rightarrow> string option \<Rightarrow> RingConfirmation \<Rightarrow> bool" where
  "confirmationConflicts ring ringPk petPk c \<longleftrightarrow>
     conf_RingPk c \<noteq> ringPk \<or> (RequiresPet ring \<and> petValue (conf_PetPk c) \<noteq> petValue petPk)"

definition FinalizeRing ::
  "'x OrbisKeeper \<Rightarrow> orbis_ctx \<Rightarrow> string \<Rightarrow> string \<Rightarrow> string \<Rightarrow> string option \<Rightarrow> ('x, FinalizeRingOutcome) OM" where
  "FinalizeRing K ctx creator ringId ringPk petPk =
     bindM (theRing ringId) (\<lambda>ring.
     thenM (guardM (ring_Pk ring = '''') ErrRingAlreadyFinalized)
     (thenM (checkM (rejectIdentityRingPublicKey (orb_lib K) ringPk))
     (thenM (guardM (RequiresPet ring \<longrightarrow> petPk \<noteq> None) ErrInvalidRing)
     (thenM (guardM (\<not> RequiresPet ring \<longrightarrow> petPk = None) ErrInvalidRing)
     (thenM (checkM (case petPk of None \<Rightarrow> None | Some pk \<Rightarrow> rejectIdentityRingPublicKey (orb_lib K) pk))
     (bindM (signerPublicKeyHex K creator) (\<lambda>signerKey.
     thenM (guardM (signerKey \<in> set (PeerNodeKeys ring)) ErrInvalidRingFinalizer)
     (thenM (guardM (signerKey \<notin> set (map conf_NodeKey (Confirmations ring))) ErrDuplicateConfirmation)
     (if list_ex (confirmationConflicts ring ringPk petPk) (Confirmations ring) then
        thenM (DeleteRing (ring_Id ring))
        (thenM (EmitEvent (RingEvent ''EventRingDeleted'' (ring_Id ring) ''reason'' ''ring_pk_conflict''))
        (ret CONFLICT_DELETED))
      else
        let ring1 = ring\<lparr>Confirmations :=
              Confirmations ring @ [\<lparr>conf_NodeKey = signerKey, conf_RingPk = ringPk, conf_PetPk = petPk\<rparr>]\<rparr>
        in if length (Confirmations ring1) < length (PeerNodeKeys ring1) then
             thenM (SetRing ring1) (ret CONFIRMATION_RECORDED)
           else
             bindM (actorDID K ctx creator) (\<lambda>finalizerDID.
             let ring2 = ring1\<lparr>ring_Pk := ringPk, ring_PetPk := petPk, Confirmations := []\<rparr>
             in thenM (validateAndSetRing K ring2)
                (thenM (emitRingUpdated (ring_Id ring2) finalizerDID)
                (ret RING_FINALIZED))))))))))))"

definition CancelPendingRing :: "'x OrbisKeeper \<Rightarrow> orbis_ctx \<Rightarrow> string \<Rightarrow> string \<Rightarrow> ('x, unit) OM" where
  "CancelPendingRing K ctx creator ringId =
     bindM (theRing ringId) (\<lambda>ring.
     thenM (guardM (ring_Pk ring = '''') ErrRingAlreadyFinalized)
     (bindM (signerPublicKeyHex K creator) (\<lambda>signerKey.
     bindM
       (if signerKey \<in> set (PeerNodeKeys ring) then ret True
        else bindM (actorDID K ctx creator) (\<lambda>cancellerDID. ret (cancellerDID = ring_CreatorDid ring)))
     (\<lambda>authorized.
     thenM (guardM authorized ErrInvalidRingCanceller)
     (thenM (DeleteRing (ring_Id ring))
     (EmitEvent (RingEvent ''EventRingDeleted'' (ring_Id ring) ''reason'' ''dkg_cancelled'')))))))"

section \<open>Updates authorised by the access control policy\<close>

text \<open>
  The updates start alike: the ring exists and is finalized, and the sender may update it.
\<close>

definition beginRingUpdate :: "'x OrbisKeeper \<Rightarrow> orbis_ctx \<Rightarrow> string \<Rightarrow> string \<Rightarrow> ('x, Ring \<times> string) OM" where
  "beginRingUpdate K ctx creator ringId =
     bindM (theRing ringId) (\<lambda>ring.
     thenM (checkM (requireRingFinalized ring))
     (bindM (actorDID K ctx creator) (\<lambda>updaterDID.
     thenM (ensureRingUpdatePermission K ring updaterDID)
     (ret (ring, updaterDID)))))"

definition StartRingReshareByAcp ::
  "'x OrbisKeeper \<Rightarrow> orbis_ctx \<Rightarrow> string \<Rightarrow> string \<Rightarrow> string list \<Rightarrow> uint32 option \<Rightarrow> ('x, unit) OM" where
  "StartRingReshareByAcp K ctx creator ringId newKeys newThreshold =
     bindM (beginRingUpdate K ctx creator ringId) (\<lambda>(ring0, updaterDID).
     bindM (liftE (maybeNormalizeMaturedRingUpgrade ctx ring0)) (\<lambda>(ring, upgradeNormalizedEvent).
     let newPeerNodeKeys = canonicalStrings newKeys in
     thenM (checkM (validateStartRingReshare newPeerNodeKeys newThreshold ring))
     (thenM (requireWhitelisted ring newPeerNodeKeys)
     (let ring1 = (if newPeerNodeKeys \<noteq> [] then ring\<lparr>NewPeerNodeKeys := newPeerNodeKeys\<rparr> else ring);
          ring2 = (if newThreshold \<noteq> None then ring1\<lparr>NewThreshold := newThreshold\<rparr> else ring1)
      in thenM (validateAndSetRing K ring2)
         (thenM (emitRingUpdated (ring_Id ring2) updaterDID)
         (emitMaybe upgradeNormalizedEvent))))))"

definition CancelRingReshareByAcp :: "'x OrbisKeeper \<Rightarrow> orbis_ctx \<Rightarrow> string \<Rightarrow> string \<Rightarrow> ('x, unit) OM" where
  "CancelRingReshareByAcp K ctx creator ringId =
     bindM (beginRingUpdate K ctx creator ringId) (\<lambda>(ring, updaterDID).
     thenM (guardM (reshareInProgress ring) ErrReshareNotInProgress)
     (thenM (validateAndSetRing K (ring\<lparr>NewPeerNodeKeys := [], NewThreshold := None\<rparr>))
     (thenM (emitRingUpdated (ring_Id ring) updaterDID)
     (EmitEvent (RingEvent ''EventRingReshareCancelled'' (ring_Id ring) ''updater_did'' updaterDID)))))"

definition SetRingPssIntervalByAcp :: "'x OrbisKeeper \<Rightarrow> orbis_ctx \<Rightarrow> string \<Rightarrow> string \<Rightarrow> uint64 \<Rightarrow> ('x, unit) OM" where
  "SetRingPssIntervalByAcp K ctx creator ringId pssInterval =
     bindM (beginRingUpdate K ctx creator ringId) (\<lambda>(ring0, updaterDID).
     bindM (liftE (maybeNormalizeMaturedRingUpgrade ctx ring0)) (\<lambda>(ring, upgradeNormalizedEvent).
     thenM (checkM (validateRingPSSInterval (ring\<lparr>PssInterval := pssInterval\<rparr>)))
     (thenM (guardM (PssInterval ring \<noteq> pssInterval) ErrRingPssIntervalUnchanged)
     (thenM (validateAndSetRing K (ring\<lparr>PssInterval := pssInterval\<rparr>))
     (thenM (emitRingUpdated (ring_Id ring) updaterDID)
     (emitMaybe upgradeNormalizedEvent))))))"

definition ScheduleRingUpgradeByAcp ::
  "'x OrbisKeeper \<Rightarrow> orbis_ctx \<Rightarrow> string \<Rightarrow> string \<Rightarrow> uint64 \<Rightarrow> uint64 \<Rightarrow> ('x, unit) OM" where
  "ScheduleRingUpgradeByAcp K ctx creator ringId nextVersion activationTime =
     bindM (beginRingUpdate K ctx creator ringId) (\<lambda>(ring0, updaterDID).
     bindM (liftE (currentBlockUnixTime ctx)) (\<lambda>currentTime.
     case normalizeMaturedRingUpgrade ring0 currentTime of (ring, upgradeNormalizedEvent) \<Rightarrow>
     thenM (guardM (\<not> (NextVersion (ring_UpgradeInfo ring) = Some nextVersion \<and>
                        ActivationTime (ring_UpgradeInfo ring) = Some activationTime)) ErrRingUpgradeUnchanged)
     (thenM (checkM (validateRingUpgradeSchedule nextVersion activationTime currentTime ring))
     (let ring1 = setRingUpgrade ring nextVersion activationTime in
      thenM (validateAndSetRing K ring1)
      (thenM (emitRingUpdated (ring_Id ring1) updaterDID)
      (thenM (emitMaybe upgradeNormalizedEvent)
      (EmitEvent (''EventRingUpgradeScheduled'',
        [(''ring_id'', ring_Id ring1), (''current_version'', utoa (unat (CurrentVersion (ring_UpgradeInfo ring1)))),
         (''next_version'', utoa (unat nextVersion)), (''activation_time'', utoa (unat activationTime))]))))))))"

definition CancelRingUpgradeByAcp :: "'x OrbisKeeper \<Rightarrow> orbis_ctx \<Rightarrow> string \<Rightarrow> string \<Rightarrow> ('x, unit) OM" where
  "CancelRingUpgradeByAcp K ctx creator ringId =
     bindM (beginRingUpdate K ctx creator ringId) (\<lambda>(ring, updaterDID).
     case (NextVersion (ring_UpgradeInfo ring), ActivationTime (ring_UpgradeInfo ring)) of
       (Some nextVersion, Some activationTime) \<Rightarrow>
         bindM (liftE (currentBlockUnixTime ctx)) (\<lambda>currentTime.
         thenM (guardM (\<not> currentTime \<ge> activationTime) ErrRingUpgradeAlreadyActive)
         (thenM (validateAndSetRing K (clearRingUpgrade ring))
         (thenM (emitRingUpdated (ring_Id ring) updaterDID)
         (EmitEvent (RingEvent ''EventRingUpgradeCancelled'' (ring_Id ring) ''current_version''
            (utoa (unat (CurrentVersion (ring_UpgradeInfo ring)))))))))
     | _ \<Rightarrow> fail ErrRingUpgradeNotScheduled)"

definition SetRingReportingByAcp ::
  "'x OrbisKeeper \<Rightarrow> orbis_ctx \<Rightarrow> string \<Rightarrow> string \<Rightarrow> ReportingConfig \<Rightarrow> ('x, unit) OM" where
  "SetRingReportingByAcp K ctx creator ringId reporting =
     bindM (beginRingUpdate K ctx creator ringId) (\<lambda>(ring0, updaterDID).
     bindM (liftE (maybeNormalizeMaturedRingUpgrade ctx ring0)) (\<lambda>(ring, upgradeNormalizedEvent).
     let ring1 = ring\<lparr>ring_Reporting := reporting\<rparr> in
     thenM (checkM (validateRing (orb_lib K) ring1))
     (thenM (requireWhitelisted ring1 (BackupNodeKeys (ring_Reporting ring1)))
     (thenM (SetRing ring1)
     (thenM (emitRingUpdated (ring_Id ring1) updaterDID)
     (emitMaybe upgradeNormalizedEvent))))))"

text \<open>The relay messages do not ask for a finalized ring.\<close>

definition beginRelayUpdate :: "'x OrbisKeeper \<Rightarrow> orbis_ctx \<Rightarrow> string \<Rightarrow> string \<Rightarrow> string \<Rightarrow> ('x, Ring \<times> string) OM" where
  "beginRelayUpdate K ctx creator ringId relayDid =
     bindM (theRing ringId) (\<lambda>ring.
     thenM (guardM (AllowTrustedAuthRelays ring) ErrRingAuthRelaysDisabled)
     (thenM (checkM (ValidateTrustedAuthRelayDIDs (orb_lib K) [relayDid]))
     (bindM (actorDID K ctx creator) (\<lambda>updaterDID.
     thenM (ensureRingUpdatePermission K ring updaterDID)
     (ret (ring, updaterDID))))))"

definition AddRingTrustedAuthRelayByAcp :: "'x OrbisKeeper \<Rightarrow> orbis_ctx \<Rightarrow> string \<Rightarrow> string \<Rightarrow> string \<Rightarrow> ('x, unit) OM" where
  "AddRingTrustedAuthRelayByAcp K ctx creator ringId relayDid =
     bindM (beginRelayUpdate K ctx creator ringId relayDid) (\<lambda>(ring, updaterDID).
     thenM (guardM (relayDid \<notin> set (TrustedAuthRelayDids ring)) ErrRingAuthRelayExists)
     (thenM (validateAndSetRing K (ring\<lparr>TrustedAuthRelayDids := TrustedAuthRelayDids ring @ [relayDid]\<rparr>))
     (emitRingUpdated (ring_Id ring) updaterDID)))"

definition RemoveRingTrustedAuthRelayByAcp :: "'x OrbisKeeper \<Rightarrow> orbis_ctx \<Rightarrow> string \<Rightarrow> string \<Rightarrow> string \<Rightarrow> ('x, unit) OM" where
  "RemoveRingTrustedAuthRelayByAcp K ctx creator ringId relayDid =
     bindM (beginRelayUpdate K ctx creator ringId relayDid) (\<lambda>(ring, updaterDID).
     thenM (guardM (relayDid \<in> set (TrustedAuthRelayDids ring)) ErrRingTrustedAuthRelayNotFound)
     (thenM (validateAndSetRing K (ring\<lparr>TrustedAuthRelayDids := deleteAt relayDid (TrustedAuthRelayDids ring)\<rparr>))
     (emitRingUpdated (ring_Id ring) updaterDID)))"

definition FinalizeRingReshareByThresholdSignature ::
  "'x OrbisKeeper \<Rightarrow> orbis_ctx \<Rightarrow> string \<Rightarrow> string \<Rightarrow> string \<Rightarrow> bytes \<Rightarrow> ('x, unit) OM" where
  "FinalizeRingReshareByThresholdSignature K ctx creator ringId scheme signature =
     bindM (theRing ringId) (\<lambda>ring.
     bindM (actorDID K ctx creator) (\<lambda>updaterDID.
     bindM (liftE (ringForReshareFinalization (orb_lib K) ring)) (\<lambda>signDocFinalizedRing.
     bindM (liftE (ringReshareFinalizeSignBytes (orb_lib K) (ChainID ctx) ring signDocFinalizedRing)) (\<lambda>signBytes.
     thenM (checkM (verifyThresholdSignature (orb_lib K) scheme (ring_Pk ring) signBytes signature))
     (let finalizedRing = signDocFinalizedRing\<lparr>BlockNumberNonce := word_of_int (BlockHeight ctx)\<rparr> in
      thenM (SetRing finalizedRing)
      (emitRingUpdated (ring_Id finalizedRing) updaterDID))))))"

section \<open>Documents and key derivations\<close>

record MsgStoreDocument =
  sdoc_Creator :: string
  sdoc_RingId :: string
  sdoc_Document :: string
  sdoc_Proof :: string
  sdoc_PolicyId :: string
  sdoc_Resource :: string
  sdoc_Permission :: string
  sdoc_Tier :: "string option"
  sdoc_Timestamp :: "uint64 option"
  sdoc_PetTag :: "string option"
  sdoc_PetTagProof :: "string option"

definition StoreDocument :: "'x OrbisKeeper \<Rightarrow> orbis_ctx \<Rightarrow> MsgStoreDocument \<Rightarrow> ('x, string) OM" where
  "StoreDocument K ctx msg =
     bindM (theRing (sdoc_RingId msg)) (\<lambda>ring.
     thenM (checkM (requireRingFinalized ring))
     (bindM (actorDID K ctx (sdoc_Creator msg)) (\<lambda>creatorDID.
     thenM (guardM (RequiresPet ring \<longrightarrow> sdoc_PetTag msg \<noteq> None \<and> sdoc_PetTagProof msg \<noteq> None) ErrInvalidDocument)
     (thenM (guardM (\<not> RequiresPet ring \<longrightarrow> sdoc_PetTag msg = None \<and> sdoc_PetTagProof msg = None) ErrInvalidDocument)
     (bindM (liftE (case GenerateDocumentID (orb_lib K) (sdoc_RingId msg) (sdoc_Document msg) (sdoc_Proof msg)
         (sdoc_PolicyId msg) (sdoc_Resource msg) (sdoc_Permission msg) (sdoc_Tier msg) (sdoc_Timestamp msg)
         (sdoc_PetTag msg) (sdoc_PetTagProof msg) of Inl e \<Rightarrow> Inl ErrInvalidDocument | Inr i \<Rightarrow> Inr i)) (\<lambda>documentID.
     bindM (getM (GetDocument documentID)) (\<lambda>existing.
     thenM (guardM (existing = None) ErrDocumentAlreadyExists)
     (let document =
        \<lparr>doc_Id = documentID, doc_CreatorDid = creatorDID, doc_RingId = sdoc_RingId msg, doc_Document = sdoc_Document msg,
         doc_Proof = sdoc_Proof msg, doc_PolicyId = sdoc_PolicyId msg, doc_Resource = sdoc_Resource msg,
         doc_Permission = sdoc_Permission msg, doc_Tier = sdoc_Tier msg, doc_Timestamp = sdoc_Timestamp msg,
         doc_PetTag = sdoc_PetTag msg, doc_PetTagProof = sdoc_PetTagProof msg\<rparr>
      in
      thenM (checkM (validateDocument document))
      (thenM (SetDocument document)
      (thenM (EmitEvent (''EventDocumentStored'', [(''document_id'', documentID), (''creator_did'', creatorDID)]))
      (ret documentID)))))))))))"

record MsgStoreKeyDerivation =
  skd_Creator :: string
  skd_RingId :: string
  skd_Derivation :: string
  skd_PolicyId :: string
  skd_Resource :: string
  skd_Permission :: string

definition StoreKeyDerivation :: "'x OrbisKeeper \<Rightarrow> orbis_ctx \<Rightarrow> MsgStoreKeyDerivation \<Rightarrow> ('x, string) OM" where
  "StoreKeyDerivation K ctx msg =
     bindM (theRing (skd_RingId msg)) (\<lambda>ring.
     thenM (checkM (requireRingFinalized ring))
     (bindM (actorDID K ctx (skd_Creator msg)) (\<lambda>creatorDID.
     let keyDerivationID = GenerateKeyDerivationID (orb_lib K) (skd_RingId msg) (skd_Derivation msg)
           (skd_PolicyId msg) (skd_Resource msg) (skd_Permission msg)
     in
     bindM (getM (GetKeyDerivation keyDerivationID)) (\<lambda>existing.
     thenM (guardM (existing = None) ErrKeyDerivationAlreadyExists)
     (let keyDerivation =
        \<lparr>kd_Id = keyDerivationID, kd_CreatorDid = creatorDID, kd_RingId = skd_RingId msg,
         kd_Derivation = skd_Derivation msg, kd_PolicyId = skd_PolicyId msg, kd_Resource = skd_Resource msg,
         kd_Permission = skd_Permission msg\<rparr>
      in
      thenM (checkM (validateKeyDerivation keyDerivation))
      (thenM (SetKeyDerivation keyDerivation)
      (thenM (EmitEvent (''EventKeyDerivationStored'', [(''key_derivation_id'', keyDerivationID), (''creator_did'', creatorDID)]))
      (ret keyDerivationID))))))))"

section \<open>Nodes\<close>

definition emitNodeInfo :: "string \<Rightarrow> NodeInfo \<Rightarrow> ('x, unit) OM" where
  "emitNodeInfo name n = EmitEvent (name, [(''peer_id'', PeerId n), (''controller_key'', ControllerKey n)])"

definition CreateNodeInfo ::
  "'x OrbisKeeper \<Rightarrow> string \<Rightarrow> string \<Rightarrow> string \<Rightarrow> string list \<Rightarrow> string list \<Rightarrow> ('x, unit) OM" where
  "CreateNodeInfo K creator peerId controllerKey policyIds ringIds =
     bindM (signerPublicKeyHex K creator) (\<lambda>nodeKey.
     bindM (getM (GetNodeInfo nodeKey)) (\<lambda>existing.
     thenM (guardM (existing = None) ErrNodeInfoAlreadyExists)
     (bindM (liftE (normalizeAndValidateNodeInfo
        \<lparr>PeerId = peerId, ControllerKey = controllerKey, WhitelistedPolicyIds = policyIds,
         WhitelistedRingIds = ringIds\<rparr>)) (\<lambda>nodeInfo.
     thenM (SetNodeInfo nodeKey nodeInfo)
     (emitNodeInfo ''EventNodeInfoCreated'' nodeInfo)))))"

text \<open>Normalise, store, report: the end of the handlers that change a node info.\<close>

definition storeNodeInfo :: "string \<Rightarrow> NodeInfo \<Rightarrow> ('x, unit) OM" where
  "storeNodeInfo nodeKey changed =
     bindM (liftE (normalizeAndValidateNodeInfo changed)) (\<lambda>nodeInfo.
     thenM (SetNodeInfo nodeKey nodeInfo)
     (emitNodeInfo ''EventNodeInfoUpdated'' nodeInfo))"

definition UpdateNodePeerId :: "'x OrbisKeeper \<Rightarrow> string \<Rightarrow> string \<Rightarrow> string \<Rightarrow> ('x, unit) OM" where
  "UpdateNodePeerId K creator nodeKey peerId =
     bindM (authorizeNodeInfoUpdate K nodeKey creator) (\<lambda>nodeInfo.
     thenM (guardM (peerId \<noteq> '''') ErrInvalidNodeInfo)
     (thenM (guardM (PeerId nodeInfo \<noteq> peerId) ErrNodeInfoUnchanged)
     (storeNodeInfo nodeKey (nodeInfo\<lparr>PeerId := peerId\<rparr>))))"

definition TransferNodeController :: "'x OrbisKeeper \<Rightarrow> string \<Rightarrow> string \<Rightarrow> string \<Rightarrow> ('x, unit) OM" where
  "TransferNodeController K creator nodeKey controllerKey =
     bindM (authorizeNodeInfoUpdate K nodeKey creator) (\<lambda>nodeInfo.
     bindM (liftE (normalizeAndValidateNodeInfo (nodeInfo\<lparr>ControllerKey := controllerKey\<rparr>))) (\<lambda>changed.
     thenM (guardM (ControllerKey changed \<noteq> ControllerKey nodeInfo) ErrNodeInfoUnchanged)
     (thenM (SetNodeInfo nodeKey changed)
     (emitNodeInfo ''EventNodeInfoUpdated'' changed))))"

datatype WhitelistTarget = TargetPolicy string | TargetRing string

definition AddNodeToWhitelist :: "'x OrbisKeeper \<Rightarrow> string \<Rightarrow> string \<Rightarrow> WhitelistTarget option \<Rightarrow> ('x, unit) OM" where
  "AddNodeToWhitelist K creator nodeKey target =
     bindM (authorizeNodeInfoUpdate K nodeKey creator) (\<lambda>nodeInfo.
     case target of
       Some (TargetPolicy policyId) \<Rightarrow>
         thenM (guardM (policyId \<noteq> '''') ErrInvalidNodeInfo)
         (thenM (guardM (policyId \<notin> set (WhitelistedPolicyIds nodeInfo)) ErrNodeWhitelistEntryExists)
         (storeNodeInfo nodeKey (nodeInfo\<lparr>WhitelistedPolicyIds := WhitelistedPolicyIds nodeInfo @ [policyId]\<rparr>)))
     | Some (TargetRing ringId) \<Rightarrow>
         thenM (guardM (ringId \<noteq> '''') ErrInvalidNodeInfo)
         (thenM (guardM (ringId \<notin> set (WhitelistedRingIds nodeInfo)) ErrNodeWhitelistEntryExists)
         (storeNodeInfo nodeKey (nodeInfo\<lparr>WhitelistedRingIds := WhitelistedRingIds nodeInfo @ [ringId]\<rparr>)))
     | None \<Rightarrow> fail ErrInvalidNodeInfo)"

definition RemoveNodeFromWhitelist :: "'x OrbisKeeper \<Rightarrow> string \<Rightarrow> string \<Rightarrow> WhitelistTarget option \<Rightarrow> ('x, unit) OM" where
  "RemoveNodeFromWhitelist K creator nodeKey target =
     bindM (authorizeNodeInfoUpdate K nodeKey creator) (\<lambda>nodeInfo.
     case target of
       Some (TargetPolicy policyId) \<Rightarrow>
         thenM (guardM (policyId \<noteq> '''') ErrInvalidNodeInfo)
         (thenM (guardM (policyId \<in> set (WhitelistedPolicyIds nodeInfo)) ErrNodeWhitelistEntryNotFound)
         (storeNodeInfo nodeKey (nodeInfo\<lparr>WhitelistedPolicyIds := deleteAt policyId (WhitelistedPolicyIds nodeInfo)\<rparr>)))
     | Some (TargetRing ringId) \<Rightarrow>
         thenM (guardM (ringId \<noteq> '''') ErrInvalidNodeInfo)
         (thenM (guardM (ringId \<in> set (WhitelistedRingIds nodeInfo)) ErrNodeWhitelistEntryNotFound)
         (storeNodeInfo nodeKey (nodeInfo\<lparr>WhitelistedRingIds := deleteAt ringId (WhitelistedRingIds nodeInfo)\<rparr>)))
     | None \<Rightarrow> fail ErrInvalidNodeInfo)"

definition DrainNodeKey :: "'x OrbisKeeper \<Rightarrow> string \<Rightarrow> string \<Rightarrow> ('x, coins) OM" where
  "DrainNodeKey K creator nodeKey =
     thenM (authorizeNodeInfoUpdate K nodeKey creator)
     (bindM (liftE (nodeKeyAccAddress (orb_did K) nodeKey)) (\<lambda>nodeAddr.
     bindM (liftE (case AccFromBech32 (orb_codec K) creator of Inl e \<Rightarrow> Inl ErrInvalidNodeInfo | Inr a \<Rightarrow> Inr a)) (\<lambda>controllerAddr.
     bindM (getM (\<lambda>s. orb_SpendableCoins K nodeAddr (orbis_ext s))) (\<lambda>balance.
     thenM (guardM (\<not> orb_IsZeroCoins K balance) ErrNodeKeyBalanceEmpty)
     (thenM (extO (orb_SendCoins K nodeAddr controllerAddr balance))
     (thenM (EmitEvent (''EventNodeKeyDrained'',
        [(''node_key'', nodeKey), (''recipient'', creator), (''amount'', orb_CoinsString K balance)]))
     (ret balance)))))))"

end
