(* ===== verification/Orbis_Reports.thy ===== *)
theory Orbis_Reports
  imports Orbis_Msgs
begin

text \<open>
  Fault reports (\<open>x/orbis/keeper/report.go\<close>, \<open>demerits.go\<close>, \<open>endblock.go\<close>): the validation of a submitted
  report against the ring it names, the demerits it adds, the replacement of a node that has collected
  too many, and the end of a block, which forgets old reports. The last sections have the genesis of
  the module, \<open>ValidateBasic\<close> of the messages and the transactions of the module.
\<close>

section \<open>Digest of a ring\<close>

definition reportRingStateCanonicalBytesWithRelayState :: "Ring \<Rightarrow> bool \<Rightarrow> error + bytes" where
  "reportRingStateCanonicalBytesWithRelayState ring includeRelayState = catW
     ([w_Bytes (ring_Pk ring), w_StringSlice (PeerNodeKeys ring), w_U32 (Threshold ring),
       w_Optional w_StringSlice (if NewPeerNodeKeys ring = [] then None else Some (NewPeerNodeKeys ring)),
       w_Optional w_U32 (NewThreshold ring), w_U64 (PssInterval ring), w_U64 (BlockNumberNonce ring),
       w_Optional w_Bytes (if ring_PolicyId ring = '''' then None else Some (ring_PolicyId ring))] @
      (if includeRelayState then [w_Bool (AllowTrustedAuthRelays ring), w_StringSlice (TrustedAuthRelayDids ring)] else []) @
      [w_U64 (CurrentVersion (ring_UpgradeInfo ring)), w_Optional w_U64 (NextVersion (ring_UpgradeInfo ring)),
       w_Optional w_U64 (ActivationTime (ring_UpgradeInfo ring)), w_ReportingConfig (ring_Reporting ring)])"

definition reportRingStateSHA256 :: "orbis_lib \<Rightarrow> Ring \<Rightarrow> error + string" where
  "reportRingStateSHA256 L ring =
     bindE (reportRingStateCanonicalBytesWithRelayState ring True) (\<lambda>canonical. Inr (idSum L canonical))"

definition reportRingStateDigestMatches :: "orbis_lib \<Rightarrow> Ring \<Rightarrow> string \<Rightarrow> error + bool" where
  "reportRingStateDigestMatches L ring digest =
     bindE (reportRingStateSHA256 L ring) (\<lambda>current.
     if digest = current then Inr True
     else if AllowTrustedAuthRelays ring \<or> TrustedAuthRelayDids ring \<noteq> [] then Inr False
     else bindE (reportRingStateCanonicalBytesWithRelayState ring False) (\<lambda>legacy.
       Inr (digest = idSum L legacy)))"

section \<open>Validation of a submitted report\<close>

definition reportBlockUnixTime :: "'z sdk_ctx_scheme \<Rightarrow> error + uint64" where
  "reportBlockUnixTime ctx =
     (if Unix (BlockTime ctx) < 0 then Inl ErrInvalidReport else Inr (word_of_int (Unix (BlockTime ctx))))"

definition reportSessionDedupeID :: "orbis_lib \<Rightarrow> ReportEnvelope \<Rightarrow> reportPayload \<Rightarrow> error + string" where
  "reportSessionDedupeID L r payload =
     bindE (catW
       [w_Bytes ''orbis-mpc-fault-report-session'', w_Bytes (rep_ChainId r), w_Bytes (rep_RingId r),
        w_Bytes (rep_ReportType r), w_Bytes (pay_originProtocol payload), w_Bytes (rep_AccusedNodeKey r),
        w_Bytes (rep_SessionId r), w_Bytes (pay_attemptID payload)]) (\<lambda>message. Inr (idSum L message))"

definition effectiveReportProtocolVersion :: "Ring \<Rightarrow> uint64 \<Rightarrow> uint64" where
  "effectiveReportProtocolVersion ring now =
     (case (NextVersion (ring_UpgradeInfo ring), ActivationTime (ring_UpgradeInfo ring)) of
        (Some next, Some activationTime) \<Rightarrow>
          if now \<ge> activationTime then next else CurrentVersion (ring_UpgradeInfo ring)
      | _ \<Rightarrow> CurrentVersion (ring_UpgradeInfo ring))"

definition reportCommitteeForScope :: "Ring \<Rightarrow> nat \<Rightarrow> error + (string list \<times> uint32)" where
  "reportCommitteeForScope ring scope =
     (if scope = committeeScopeCurrent then Inr (PeerNodeKeys ring, Threshold ring)
      else if scope = committeeScopePendingNew then
        (if \<not> reshareInProgress ring then Inl ErrInvalidReport
         else Inr (if NewPeerNodeKeys ring = [] then PeerNodeKeys ring else NewPeerNodeKeys ring,
                   case NewThreshold ring of Some t \<Rightarrow> t | None \<Rightarrow> Threshold ring))
      else Inl ErrInvalidReport)"

definition validateReportCommitteeAuthorization ::
  "ReportEnvelope \<Rightarrow> reportPayload \<Rightarrow> Ring \<Rightarrow> 'x orbis_state \<Rightarrow> error + unit" where
  "validateReportCommitteeAuthorization r payload ring s =
     bindE (reportCommitteeForScope ring (pay_accusedCommitteeScope payload)) (\<lambda>(accusedKeys, _).
     bindE (reportCommitteeForScope ring (pay_signingCommitteeScope payload)) (\<lambda>(signingKeys, threshold).
     bindE (checkE (firstErr
       [failIf (threshold < 2) ErrInvalidReport,
        failIf (unat threshold > length signingKeys) ErrInvalidReport,
        failIf (rep_AccusedNodeKey r \<in> set signingKeys \<and> int (unat threshold) > int (length signingKeys) - 1) ErrInvalidReport,
        failIf (rep_ReporterNodeKey r \<notin> set signingKeys) ErrInvalidReport,
        failIf (rep_AccusedNodeKey r \<notin> set accusedKeys) ErrInvalidReport])) (\<lambda>_.
     case GetNodeInfo (rep_AccusedNodeKey r) s of
       None \<Rightarrow> Inl ErrNodeInfoNotFound
     | Some accusedInfo \<Rightarrow> checkE (failIf (PeerId accusedInfo \<noteq> rep_AccusedPeerId r) ErrInvalidReport))))"

definition payloadOf :: "'z statement_scheme \<Rightarrow> bytes \<Rightarrow> reportPayload" where
  "payloadOf b attemptID =
     \<lparr>pay_originProtocol = st_originProtocol b, pay_originProtocolVersion = st_protocolVersion b,
      pay_accusedCommitteeScope = st_accusedScope b, pay_signingCommitteeScope = st_signingScope b,
      pay_attemptID = attemptID\<rparr>"

definition decodeReportPayload :: "ReportEnvelope \<Rightarrow> error + reportPayload" where
  "decodeReportPayload r =
     (if rep_ReportType r = NodeOfflineReportType then
        bindE (decodeNodeOfflinePayload (rep_Payload r)) (\<lambda>payload.
        if isValidOfflineOriginProtocol (pay_originProtocol payload) then Inr payload else Inl ErrInvalidReport)
      else if rep_ReportType r = InvalidCryptoResponseReportType then
        bindE (decodeInvalidCryptoResponsePayload (rep_Payload r)) (\<lambda>b.
        bindE (checkE (validateInvalidCryptoResponseStatement r b)) (\<lambda>_. Inr (payloadOf b (st_attemptID b))))
      else if rep_ReportType r = UnauthorizedRequestReportType then
        bindE (decodeUnauthorizedRequestPayload (rep_Payload r)) (\<lambda>b.
        bindE (checkE (validateRelayRequestStatement r b)) (\<lambda>_. Inr (payloadOf b [])))
      else Inl ErrInvalidReport)"

record validatedSubmittedReport =
  vr_reportID :: string
  vr_sessionDedupeID :: string
  vr_ring :: Ring
  vr_blockUnixTime :: uint64

definition validateSubmittedReport ::
  "orbis_lib \<Rightarrow> orbis_ctx \<Rightarrow> ReportEnvelope \<Rightarrow> string \<Rightarrow> string \<Rightarrow> bytes \<Rightarrow> 'x orbis_state \<Rightarrow>
   error + validatedSubmittedReport" where
  "validateSubmittedReport L ctx r claimedReportID scheme signature s =
     bindE (reportBlockUnixTime ctx) (\<lambda>now.
     bindE (checkE (validateReportEnvelopeShape r now)) (\<lambda>_.
     bindE (checkE (failIf (rep_ChainId r \<noteq> ChainID ctx) ErrInvalidReport)) (\<lambda>_.
     bindE (reportEnvelopeCanonicalMessageAndID L r) (\<lambda>(message, reportID).
     bindE (checkE (failIf (claimedReportID \<noteq> reportID) ErrInvalidReport)) (\<lambda>_.
     bindE (checkE (failIf (HasAcceptedReport reportID s) ErrReportAlreadyAccepted)) (\<lambda>_.
     bindE (decodeReportPayload r) (\<lambda>payload.
     case GetRing (rep_RingId r) s of
       None \<Rightarrow> Inl ErrRingNotFound
     | Some ring \<Rightarrow>
         bindE (checkE (requireRingFinalized ring)) (\<lambda>_.
         bindE (checkE (failIf (rep_RingPk r \<noteq> ring_Pk ring) ErrInvalidReport)) (\<lambda>_.
         bindE (reportRingStateDigestMatches L ring (rep_RingStateSha256 r)) (\<lambda>ringStateMatches.
         bindE (checkE (failIf (\<not> ringStateMatches) ErrInvalidReport)) (\<lambda>_.
         bindE (checkE (failIf (pay_originProtocolVersion payload \<noteq>
           effectiveReportProtocolVersion ring (rep_ObservedAt r)) ErrInvalidReport)) (\<lambda>_.
         bindE (validateReportCommitteeAuthorization r payload ring s) (\<lambda>_.
         bindE (reportSessionDedupeID L r payload) (\<lambda>sessionDedupeID.
         bindE (checkE (failIf (HasAcceptedReportSession sessionDedupeID s) ErrReportAlreadyAccepted)) (\<lambda>_.
         bindE (checkE (verifyThresholdSignature L scheme (ring_Pk ring) message signature)) (\<lambda>_.
         Inr \<lparr>vr_reportID = reportID, vr_sessionDedupeID = sessionDedupeID, vr_ring = ring,
              vr_blockUnixTime = now\<rparr>))))))))))))))))"

section \<open>Accepting a report\<close>

definition DemeritAmountForReportType :: "Ring \<Rightarrow> string \<Rightarrow> error + uint64" where
  "DemeritAmountForReportType ring reportType =
     (let c = ring_DemeritConfig (ring_Reporting ring) in
      if reportType = NodeOfflineReportType then Inr (NodeOfflineDemerits c)
      else if reportType = InvalidCryptoResponseReportType then Inr (InvalidCryptoResponseDemerits c)
      else if reportType = UnauthorizedRequestReportType then Inr (UnauthorizedRequestDemerits c)
      else Inl ErrInvalidReport)"

text \<open>The first backup that is not in the committee and whitelists the ring, with the other backups.\<close>

fun selectReplacement :: "'x orbis_state \<Rightarrow> Ring \<Rightarrow> string list \<Rightarrow> string list \<Rightarrow> (string \<times> string list) option" where
  "selectReplacement s ring before [] = None"
| "selectReplacement s ring before (backup # after) =
     (if backup \<in> set (PeerNodeKeys ring) then selectReplacement s ring (before @ [backup]) after
      else case GetNodeInfo backup s of
        None \<Rightarrow> selectReplacement s ring (before @ [backup]) after
      | Some nodeInfo \<Rightarrow>
          if nodeInfoAllowsRing nodeInfo ring then Some (backup, before @ after)
          else selectReplacement s ring (before @ [backup]) after)"

definition selectAutoReshareReplacement :: "Ring \<Rightarrow> 'x orbis_state \<Rightarrow> (string \<times> string list) option" where
  "selectAutoReshareReplacement ring s = selectReplacement s ring [] (BackupNodeKeys (ring_Reporting ring))"

definition maybeScheduleAutoReshareForReport :: "'x OrbisKeeper \<Rightarrow> Ring \<Rightarrow> string \<Rightarrow> uint64 \<Rightarrow> ('x, unit) OM" where
  "maybeScheduleAutoReshareForReport K ring accusedNodeKey effectiveDemerits =
     (if effectiveDemerits < ring_KickThreshold (ring_Reporting ring) then ret ()
      else if reshareInProgress ring then ret ()
      else if accusedNodeKey \<notin> set (PeerNodeKeys ring) then ret ()
      else bindM (getM (selectAutoReshareReplacement ring)) (\<lambda>found.
        case found of
          None \<Rightarrow> ret ()
        | Some (replacementNodeKey, remainingBackups) \<Rightarrow>
            let nextPeerNodeKeys = filter (\<lambda>k. k \<noteq> accusedNodeKey) (PeerNodeKeys ring) @ [replacementNodeKey];
                nextRing = ring
                  \<lparr>NewPeerNodeKeys := canonicalStrings nextPeerNodeKeys, NewThreshold := None,
                   ring_Reporting := (ring_Reporting ring)\<lparr>BackupNodeKeys := remainingBackups\<rparr>\<rparr>
            in thenM (validateAndSetRing K nextRing)
               (EmitEvent (''EventRingAutoReshareScheduled'',
                  [(''ring_id'', ring_Id ring), (''accused_node_key'', accusedNodeKey),
                   (''replacement_node_key'', replacementNodeKey),
                   (''kick_threshold'', utoa (unat (ring_KickThreshold (ring_Reporting ring)))),
                   (''demerits'', utoa (unat effectiveDemerits))]))))"

definition SubmitReport ::
  "'x OrbisKeeper \<Rightarrow> orbis_ctx \<Rightarrow> ReportEnvelope \<Rightarrow> string \<Rightarrow> string \<Rightarrow> bytes \<Rightarrow> ('x, string) OM" where
  "SubmitReport K ctx r reportId scheme signature =
     bindM (readM (validateSubmittedReport (orb_lib K) ctx r reportId scheme signature)) (\<lambda>v.
     bindM (liftE (DemeritAmountForReportType (vr_ring v) (rep_ReportType r))) (\<lambda>demeritAmount.
     thenM (SetAcceptedReportPair (vr_reportID v) (vr_sessionDedupeID v) (vr_blockUnixTime v + ReportTTLSeconds))
     (bindM (IncrementNodeDemerits (rep_RingId r) (rep_AccusedNodeKey r) demeritAmount (vr_blockUnixTime v)
        (ResetIntervalSeconds (ring_DemeritConfig (ring_Reporting (vr_ring v))))) (\<lambda>effectiveDemerits.
     thenM (maybeScheduleAutoReshareForReport K (vr_ring v) (rep_AccusedNodeKey r) effectiveDemerits)
     (thenM (EmitEvent (''EventReportAccepted'',
        [(''report_id'', vr_reportID v), (''ring_id'', rep_RingId r), (''report_type'', rep_ReportType r),
         (''reporter_node_key'', rep_ReporterNodeKey r), (''accused_node_key'', rep_AccusedNodeKey r)]))
     (ret (vr_reportID v)))))))"

definition Orbis_EndBlock :: "orbis_ctx \<Rightarrow> ('x, unit) OM" where
  "Orbis_EndBlock ctx = DeleteExpiredAcceptedReportPairs (word_of_int (Unix (BlockTime ctx)))"

section \<open>Genesis\<close>

record OrbisGenesis =
  og_Params :: OrbisParams
  og_Rings :: "Ring list"
  og_Documents :: "Document list"
  og_KeyDerivations :: "KeyDerivation list"
  og_NodeInfos :: "(string \<times> NodeInfo option) list"
  og_NodeDemerits :: "NodeDemeritEntry list"
  og_AcceptedReportPairs :: "AcceptedReportPairEntry list"

definition zeroReportingConfig :: ReportingConfig where
  "zeroReportingConfig =
     \<lparr>ring_DemeritConfig = \<lparr>NodeOfflineDemerits = 0, ResetIntervalSeconds = 0, InvalidCryptoResponseDemerits = 0,
        UnauthorizedRequestDemerits = 0\<rparr>, BackupNodeKeys = [], ring_KickThreshold = 0\<rparr>"

definition validateGenesisRing :: "orbis_lib \<Rightarrow> Ring \<Rightarrow> error option" where
  "validateGenesisRing L r = firstErr
     [ValidateTrustedAuthRelayConfig L (AllowTrustedAuthRelays r) (TrustedAuthRelayDids r),
      (if ring_Reporting r = zeroReportingConfig then None
       else firstErr
         [ValidateReportingConfig (ring_Reporting r),
          uniqueBy (\<lambda>_. None) (ErrStd ''duplicate backup node key'') [] (BackupNodeKeys (ring_Reporting r))])]"

fun validateGenesisDemerits :: "string list \<Rightarrow> (string \<times> string) list \<Rightarrow> NodeDemeritEntry list \<Rightarrow> error option" where
  "validateGenesisDemerits knownRings seen [] = None"
| "validateGenesisDemerits knownRings seen (e # es) = firstErr
     [failIf (nde_RingId e = '''') (ErrStd ''node_demerits ring_id cannot be empty''),
      failIf (nde_NodeKey e = '''') (ErrStd ''node_demerits node_key cannot be empty''),
      failIf (nde_Points e = 0) (ErrStd ''node_demerits points must be at least 1''),
      failIf (nde_RingId e \<notin> set knownRings) (ErrStd ''node_demerits references unknown ring''),
      failIf ((nde_RingId e, nde_NodeKey e) \<in> set seen) (ErrStd ''duplicate node_demerits entry''),
      validateGenesisDemerits knownRings ((nde_RingId e, nde_NodeKey e) # seen) es]"

fun validateGenesisPairs :: "string list \<Rightarrow> string list \<Rightarrow> AcceptedReportPairEntry list \<Rightarrow> error option" where
  "validateGenesisPairs seenReports seenSessions [] = None"
| "validateGenesisPairs seenReports seenSessions (e # es) = firstErr
     [failIf (arp_ReportId e = '''') (ErrStd ''accepted_report_pairs report_id cannot be empty''),
      failIf (arp_SessionId e = '''') (ErrStd ''accepted_report_pairs session_id cannot be empty''),
      failIf (arp_ExpiresAt e = 0) (ErrStd ''accepted_report_pairs expires_at cannot be zero''),
      failIf (arp_ReportId e \<in> set seenReports) (ErrStd ''duplicate accepted_report_pairs entry for report_id''),
      failIf (arp_SessionId e \<in> set seenSessions) (ErrStd ''duplicate accepted_report_pairs entry for session_id''),
      validateGenesisPairs (arp_ReportId e # seenReports) (arp_SessionId e # seenSessions) es]"

definition OrbisGenesis_Validate :: "orbis_lib \<Rightarrow> OrbisGenesis \<Rightarrow> error option" where
  "OrbisGenesis_Validate L gs = firstErr
     [Orbis_Params_Validate (og_Params gs),
      firstErr (map (validateGenesisRing L) (og_Rings gs)),
      validateGenesisDemerits (map ring_Id (og_Rings gs)) [] (og_NodeDemerits gs),
      validateGenesisPairs [] [] (og_AcceptedReportPairs gs)]"

definition genesisRing :: "OrbisParams \<Rightarrow> Ring \<Rightarrow> Ring" where
  "genesisRing params ring =
     (if ring_Reporting ring = zeroReportingConfig
      then ring\<lparr>ring_Reporting := ReportingConfigFromDefaults (DefaultReporting params)\<rparr> else ring)"

definition Orbis_InitGenesis :: "OrbisGenesis \<Rightarrow> ('x, unit) OM" where
  "Orbis_InitGenesis gs =
     bindM (tryM (Orbis_SetParams (og_Params gs))) (\<lambda>r.
     case r of
       Inl e \<Rightarrow> panicM ''InitGenesis''
     | Inr _ \<Rightarrow>
         thenM (forM (og_Rings gs) (\<lambda>ring. SetRing (genesisRing (og_Params gs) ring)))
         (thenM (forM (og_Documents gs) SetDocument)
         (thenM (forM (og_KeyDerivations gs) SetKeyDerivation)
         (thenM (forM (og_NodeInfos gs) (\<lambda>(nodeKey, info).
            case info of None \<Rightarrow> ret () | Some n \<Rightarrow> SetNodeInfo nodeKey n))
         (thenM (forM (og_NodeDemerits gs) (\<lambda>e.
            SetNodeDemerits (nde_RingId e) (nde_NodeKey e) (nde_Points e) (nde_WindowStartedAt e)))
         (forM (og_AcceptedReportPairs gs) (\<lambda>e.
            SetAcceptedReportPair (arp_ReportId e) (arp_SessionId e) (arp_ExpiresAt e))))))))"

definition Orbis_ExportGenesis :: "('x, OrbisGenesis) OM" where
  "Orbis_ExportGenesis =
     bindM GetAllNodeDemerits (\<lambda>demerits.
     getM (\<lambda>s. \<lparr>og_Params = Orbis_GetParams s, og_Rings = GetAllRings s, og_Documents = GetAllDocuments s,
       og_KeyDerivations = GetAllKeyDerivations s,
       og_NodeInfos = map (\<lambda>(k, n). (k, Some n)) (GetAllNodeInfos s),
       og_NodeDemerits = demerits, og_AcceptedReportPairs = GetAllAcceptedReportPairs s\<rparr>))"

section \<open>Transactions\<close>

datatype OrbisMsg =
    MsgUpdateParams string OrbisParams
  | MsgCreateRingTx MsgCreateRing
  | MsgFinalizeRing string string string "string option"
  | MsgCancelPendingRing string string
  | MsgStartRingReshareByAcp string string "string list" "uint32 option"
  | MsgCancelRingReshareByAcp string string
  | MsgSetRingPssIntervalByAcp string string uint64
  | MsgScheduleRingUpgradeByAcp string string uint64 uint64
  | MsgCancelRingUpgradeByAcp string string
  | MsgSetRingReportingByAcp string string ReportingConfig
  | MsgAddRingTrustedAuthRelayByAcp string string string
  | MsgRemoveRingTrustedAuthRelayByAcp string string string
  | MsgFinalizeRingReshareByThresholdSignature string string string bytes
  | MsgSubmitReport string ReportEnvelope string string bytes
  | MsgStoreDocumentTx MsgStoreDocument
  | MsgStoreKeyDerivationTx MsgStoreKeyDerivation
  | MsgCreateNodeInfo string string string "string list" "string list"
  | MsgUpdateNodePeerId string string string
  | MsgTransferNodeController string string string
  | MsgAddNodeToWhitelist string string "WhitelistTarget option"
  | MsgRemoveNodeFromWhitelist string string "WhitelistTarget option"
  | MsgDrainNodeKey string string

definition creatorErr :: "sdk_codec \<Rightarrow> string \<Rightarrow> error option" where
  "creatorErr cd creator = (case AccFromBech32 cd creator of Inl e \<Rightarrow> Some SdkErrInvalidAddress | Inr _ \<Rightarrow> None)"

definition ringMsgErr :: "sdk_codec \<Rightarrow> string \<Rightarrow> string \<Rightarrow> error option" where
  "ringMsgErr cd creator ringId = firstErr [creatorErr cd creator, failIf (ringId = '''') ErrInvalidRingId]"

definition nodeMsgErr :: "sdk_codec \<Rightarrow> string \<Rightarrow> string \<Rightarrow> error option" where
  "nodeMsgErr cd creator nodeKey = firstErr [creatorErr cd creator, failIf (nodeKey = '''') ErrInvalidNodeInfo]"

definition targetErr :: "WhitelistTarget option \<Rightarrow> error option" where
  "targetErr target =
     (case target of
        Some (TargetPolicy p) \<Rightarrow> failIf (p = '''') ErrInvalidNodeInfo
      | Some (TargetRing r) \<Rightarrow> failIf (r = '''') ErrInvalidNodeInfo
      | None \<Rightarrow> Some ErrInvalidNodeInfo)"

definition MsgCreateRing_ValidateBasic :: "orbis_lib \<Rightarrow> sdk_codec \<Rightarrow> MsgCreateRing \<Rightarrow> error option" where
  "MsgCreateRing_ValidateBasic L cd msg = firstErr
     [creatorErr cd (cr_Creator msg),
      failIf (cr_PeerNodeKeys msg = []) ErrInvalidRing,
      failIf (cr_Threshold msg = 0 \<or> unat (cr_Threshold msg) > length (cr_PeerNodeKeys msg)) ErrInvalidRing,
      failIf (cr_PolicyId msg = '''') ErrInvalidRing,
      ValidatePSSInterval (cr_PssInterval msg),
      (case cr_Reporting msg of None \<Rightarrow> None | Some c \<Rightarrow> ValidateReportingConfig c),
      ValidateTrustedAuthRelayConfig L (cr_AllowTrustedAuthRelays msg) (cr_TrustedAuthRelayDids msg)]"

definition MsgStoreDocument_ValidateBasic :: "sdk_codec \<Rightarrow> MsgStoreDocument \<Rightarrow> error option" where
  "MsgStoreDocument_ValidateBasic cd msg = firstErr
     [ringMsgErr cd (sdoc_Creator msg) (sdoc_RingId msg),
      failIf (sdoc_Document msg = '''') ErrInvalidDocument,
      failIf (sdoc_Proof msg = '''') ErrInvalidDocument,
      failIf (sdoc_PolicyId msg = '''' \<or> sdoc_Resource msg = '''' \<or> sdoc_Permission msg = '''') ErrInvalidDocument]"

definition MsgStoreKeyDerivation_ValidateBasic :: "sdk_codec \<Rightarrow> MsgStoreKeyDerivation \<Rightarrow> error option" where
  "MsgStoreKeyDerivation_ValidateBasic cd msg = firstErr
     [ringMsgErr cd (skd_Creator msg) (skd_RingId msg),
      failIf (skd_Derivation msg = '''') ErrInvalidKeyDerivation,
      failIf (skd_PolicyId msg = '''' \<or> skd_Resource msg = '''' \<or> skd_Permission msg = '''') ErrInvalidKeyDerivation]"

definition MsgSubmitReport_ValidateBasic ::
  "sdk_codec \<Rightarrow> string \<Rightarrow> ReportEnvelope \<Rightarrow> string \<Rightarrow> string \<Rightarrow> bytes \<Rightarrow> error option" where
  "MsgSubmitReport_ValidateBasic cd creator r reportId scheme signature = firstErr
     [creatorErr cd creator,
      failIf (reportId = '''') ErrInvalidReport,
      failIf (scheme = '''') ErrInvalidSignatureScheme,
      failIf (signature = []) ErrInvalidSignaturePayload,
      failIf (rep_Domain r = '''') ErrInvalidReport,
      failIf (rep_ReportType r = '''') ErrInvalidReport,
      failIf (rep_RingId r = '''') ErrInvalidRingId]"

definition Orbis_MsgUpdateParams_ValidateBasic :: "sdk_codec \<Rightarrow> string \<Rightarrow> OrbisParams \<Rightarrow> error option" where
  "Orbis_MsgUpdateParams_ValidateBasic cd authority params =
     firstErr [(case AccFromBech32 cd authority of Inl e \<Rightarrow> Some e | Inr _ \<Rightarrow> None), Orbis_Params_Validate params]"

definition MsgFinalizeRing_ValidateBasic ::
  "sdk_codec \<Rightarrow> string \<Rightarrow> string \<Rightarrow> string \<Rightarrow> string option \<Rightarrow> error option" where
  "MsgFinalizeRing_ValidateBasic cd creator ringId ringPk petPk =
     firstErr [ringMsgErr cd creator ringId, failIf (ringPk = '''') ErrInvalidRing]"

definition MsgCancelPendingRing_ValidateBasic :: "sdk_codec \<Rightarrow> string \<Rightarrow> string \<Rightarrow> error option" where
  "MsgCancelPendingRing_ValidateBasic cd creator ringId =
     ringMsgErr cd creator ringId"

definition MsgStartRingReshareByAcp_ValidateBasic ::
  "sdk_codec \<Rightarrow> string \<Rightarrow> string \<Rightarrow> string list \<Rightarrow> uint32 option \<Rightarrow> error option" where
  "MsgStartRingReshareByAcp_ValidateBasic cd creator ringId keys threshold =
     firstErr [ringMsgErr cd creator ringId, failIf (keys = [] \<and> threshold = None) ErrInvalidRing,
     failIf (threshold = Some 0) ErrInvalidRing]"

definition MsgCancelRingReshareByAcp_ValidateBasic :: "sdk_codec \<Rightarrow> string \<Rightarrow> string \<Rightarrow> error option" where
  "MsgCancelRingReshareByAcp_ValidateBasic cd creator ringId =
     ringMsgErr cd creator ringId"

definition MsgSetRingPssIntervalByAcp_ValidateBasic :: "sdk_codec \<Rightarrow> string \<Rightarrow> string \<Rightarrow> uint64 \<Rightarrow> error option" where
  "MsgSetRingPssIntervalByAcp_ValidateBasic cd creator ringId pssInterval =
     firstErr [ringMsgErr cd creator ringId, ValidatePSSInterval pssInterval]"

definition MsgScheduleRingUpgradeByAcp_ValidateBasic ::
  "sdk_codec \<Rightarrow> string \<Rightarrow> string \<Rightarrow> uint64 \<Rightarrow> uint64 \<Rightarrow> error option" where
  "MsgScheduleRingUpgradeByAcp_ValidateBasic cd creator ringId nextVersion activationTime =
     firstErr [ringMsgErr cd creator ringId, failIf (nextVersion = 0) ErrInvalidRing,
     failIf (activationTime = 0) ErrInvalidRing]"

definition MsgCancelRingUpgradeByAcp_ValidateBasic :: "sdk_codec \<Rightarrow> string \<Rightarrow> string \<Rightarrow> error option" where
  "MsgCancelRingUpgradeByAcp_ValidateBasic cd creator ringId =
     ringMsgErr cd creator ringId"

definition MsgSetRingReportingByAcp_ValidateBasic ::
  "sdk_codec \<Rightarrow> string \<Rightarrow> string \<Rightarrow> ReportingConfig \<Rightarrow> error option" where
  "MsgSetRingReportingByAcp_ValidateBasic cd creator ringId reporting =
     firstErr [ringMsgErr cd creator ringId, ValidateReportingConfig reporting]"

definition MsgAddRingTrustedAuthRelayByAcp_ValidateBasic ::
  "orbis_lib \<Rightarrow> sdk_codec \<Rightarrow> string \<Rightarrow> string \<Rightarrow> string \<Rightarrow> error option" where
  "MsgAddRingTrustedAuthRelayByAcp_ValidateBasic L cd creator ringId relayDid =
     firstErr [ringMsgErr cd creator ringId, ValidateTrustedAuthRelayDIDs L [relayDid]]"

definition MsgRemoveRingTrustedAuthRelayByAcp_ValidateBasic ::
  "orbis_lib \<Rightarrow> sdk_codec \<Rightarrow> string \<Rightarrow> string \<Rightarrow> string \<Rightarrow> error option" where
  "MsgRemoveRingTrustedAuthRelayByAcp_ValidateBasic L cd creator ringId relayDid =
     firstErr [ringMsgErr cd creator ringId, ValidateTrustedAuthRelayDIDs L [relayDid]]"

definition MsgFinalizeRingReshareByThresholdSignature_ValidateBasic ::
  "sdk_codec \<Rightarrow> string \<Rightarrow> string \<Rightarrow> string \<Rightarrow> bytes \<Rightarrow> error option" where
  "MsgFinalizeRingReshareByThresholdSignature_ValidateBasic cd creator ringId scheme signature =
     firstErr [ringMsgErr cd creator ringId, failIf (scheme = '''') ErrInvalidSignatureScheme,
     failIf (signature = []) ErrInvalidSignaturePayload]"

definition MsgCreateNodeInfo_ValidateBasic ::
  "sdk_codec \<Rightarrow> string \<Rightarrow> string \<Rightarrow> string \<Rightarrow> string list \<Rightarrow> string list \<Rightarrow> error option" where
  "MsgCreateNodeInfo_ValidateBasic cd creator peerId controllerKey policyIds ringIds =
     firstErr [creatorErr cd creator, failIf (peerId = '''') ErrInvalidNodeInfo,
     failIf (controllerKey = '''') ErrInvalidNodeInfo]"

definition MsgUpdateNodePeerId_ValidateBasic :: "sdk_codec \<Rightarrow> string \<Rightarrow> string \<Rightarrow> string \<Rightarrow> error option" where
  "MsgUpdateNodePeerId_ValidateBasic cd creator nodeKey peerId =
     firstErr [nodeMsgErr cd creator nodeKey, failIf (peerId = '''') ErrInvalidNodeInfo]"

definition MsgTransferNodeController_ValidateBasic :: "sdk_codec \<Rightarrow> string \<Rightarrow> string \<Rightarrow> string \<Rightarrow> error option" where
  "MsgTransferNodeController_ValidateBasic cd creator nodeKey controllerKey =
     firstErr [nodeMsgErr cd creator nodeKey, failIf (controllerKey = '''') ErrInvalidNodeInfo]"

definition MsgAddNodeToWhitelist_ValidateBasic ::
  "sdk_codec \<Rightarrow> string \<Rightarrow> string \<Rightarrow> WhitelistTarget option \<Rightarrow> error option" where
  "MsgAddNodeToWhitelist_ValidateBasic cd creator nodeKey target =
     firstErr [nodeMsgErr cd creator nodeKey, targetErr target]"

definition MsgRemoveNodeFromWhitelist_ValidateBasic ::
  "sdk_codec \<Rightarrow> string \<Rightarrow> string \<Rightarrow> WhitelistTarget option \<Rightarrow> error option" where
  "MsgRemoveNodeFromWhitelist_ValidateBasic cd creator nodeKey target =
     firstErr [nodeMsgErr cd creator nodeKey, targetErr target]"

definition MsgDrainNodeKey_ValidateBasic :: "sdk_codec \<Rightarrow> string \<Rightarrow> string \<Rightarrow> error option" where
  "MsgDrainNodeKey_ValidateBasic cd creator nodeKey =
     nodeMsgErr cd creator nodeKey"

fun Orbis_ValidateBasic :: "orbis_lib \<Rightarrow> sdk_codec \<Rightarrow> OrbisMsg \<Rightarrow> error option" where
  "Orbis_ValidateBasic L cd (MsgUpdateParams authority params) =
     Orbis_MsgUpdateParams_ValidateBasic cd authority params"
| "Orbis_ValidateBasic L cd (MsgCreateRingTx msg) = MsgCreateRing_ValidateBasic L cd msg"
| "Orbis_ValidateBasic L cd (MsgFinalizeRing creator ringId ringPk petPk) =
     MsgFinalizeRing_ValidateBasic cd creator ringId ringPk petPk"
| "Orbis_ValidateBasic L cd (MsgCancelPendingRing creator ringId) =
     MsgCancelPendingRing_ValidateBasic cd creator ringId"
| "Orbis_ValidateBasic L cd (MsgStartRingReshareByAcp creator ringId keys threshold) =
     MsgStartRingReshareByAcp_ValidateBasic cd creator ringId keys threshold"
| "Orbis_ValidateBasic L cd (MsgCancelRingReshareByAcp creator ringId) =
     MsgCancelRingReshareByAcp_ValidateBasic cd creator ringId"
| "Orbis_ValidateBasic L cd (MsgSetRingPssIntervalByAcp creator ringId pssInterval) =
     MsgSetRingPssIntervalByAcp_ValidateBasic cd creator ringId pssInterval"
| "Orbis_ValidateBasic L cd (MsgScheduleRingUpgradeByAcp creator ringId nextVersion activationTime) =
     MsgScheduleRingUpgradeByAcp_ValidateBasic cd creator ringId nextVersion activationTime"
| "Orbis_ValidateBasic L cd (MsgCancelRingUpgradeByAcp creator ringId) =
     MsgCancelRingUpgradeByAcp_ValidateBasic cd creator ringId"
| "Orbis_ValidateBasic L cd (MsgSetRingReportingByAcp creator ringId reporting) =
     MsgSetRingReportingByAcp_ValidateBasic cd creator ringId reporting"
| "Orbis_ValidateBasic L cd (MsgAddRingTrustedAuthRelayByAcp creator ringId relayDid) =
     MsgAddRingTrustedAuthRelayByAcp_ValidateBasic L cd creator ringId relayDid"
| "Orbis_ValidateBasic L cd (MsgRemoveRingTrustedAuthRelayByAcp creator ringId relayDid) =
     MsgRemoveRingTrustedAuthRelayByAcp_ValidateBasic L cd creator ringId relayDid"
| "Orbis_ValidateBasic L cd (MsgFinalizeRingReshareByThresholdSignature creator ringId scheme signature) =
     MsgFinalizeRingReshareByThresholdSignature_ValidateBasic cd creator ringId scheme signature"
| "Orbis_ValidateBasic L cd (MsgSubmitReport creator r reportId scheme signature) =
     MsgSubmitReport_ValidateBasic cd creator r reportId scheme signature"
| "Orbis_ValidateBasic L cd (MsgStoreDocumentTx msg) = MsgStoreDocument_ValidateBasic cd msg"
| "Orbis_ValidateBasic L cd (MsgStoreKeyDerivationTx msg) = MsgStoreKeyDerivation_ValidateBasic cd msg"
| "Orbis_ValidateBasic L cd (MsgCreateNodeInfo creator peerId controllerKey policyIds ringIds) =
     MsgCreateNodeInfo_ValidateBasic cd creator peerId controllerKey policyIds ringIds"
| "Orbis_ValidateBasic L cd (MsgUpdateNodePeerId creator nodeKey peerId) =
     MsgUpdateNodePeerId_ValidateBasic cd creator nodeKey peerId"
| "Orbis_ValidateBasic L cd (MsgTransferNodeController creator nodeKey controllerKey) =
     MsgTransferNodeController_ValidateBasic cd creator nodeKey controllerKey"
| "Orbis_ValidateBasic L cd (MsgAddNodeToWhitelist creator nodeKey target) =
     MsgAddNodeToWhitelist_ValidateBasic cd creator nodeKey target"
| "Orbis_ValidateBasic L cd (MsgRemoveNodeFromWhitelist creator nodeKey target) =
     MsgRemoveNodeFromWhitelist_ValidateBasic cd creator nodeKey target"
| "Orbis_ValidateBasic L cd (MsgDrainNodeKey creator nodeKey) =
     MsgDrainNodeKey_ValidateBasic cd creator nodeKey"

lemmas ValidateBasic_defs =
  Orbis_MsgUpdateParams_ValidateBasic_def MsgFinalizeRing_ValidateBasic_def
  MsgCancelPendingRing_ValidateBasic_def MsgStartRingReshareByAcp_ValidateBasic_def
  MsgCancelRingReshareByAcp_ValidateBasic_def MsgSetRingPssIntervalByAcp_ValidateBasic_def
  MsgScheduleRingUpgradeByAcp_ValidateBasic_def MsgCancelRingUpgradeByAcp_ValidateBasic_def
  MsgSetRingReportingByAcp_ValidateBasic_def MsgAddRingTrustedAuthRelayByAcp_ValidateBasic_def
  MsgRemoveRingTrustedAuthRelayByAcp_ValidateBasic_def MsgFinalizeRingReshareByThresholdSignature_ValidateBasic_def
  MsgCreateNodeInfo_ValidateBasic_def MsgUpdateNodePeerId_ValidateBasic_def
  MsgTransferNodeController_ValidateBasic_def MsgAddNodeToWhitelist_ValidateBasic_def
  MsgRemoveNodeFromWhitelist_ValidateBasic_def MsgDrainNodeKey_ValidateBasic_def

definition noResult :: "('s, 'a) M \<Rightarrow> ('s, unit) M" where
  "noResult m = thenM m (ret ())"

fun Orbis_handle :: "'x OrbisKeeper \<Rightarrow> orbis_ctx \<Rightarrow> OrbisMsg \<Rightarrow> ('x, unit) OM" where
  "Orbis_handle K ctx (MsgUpdateParams authority params) = Orbis_UpdateParams K authority params"
| "Orbis_handle K ctx (MsgCreateRingTx msg) = noResult (CreateRing K ctx msg)"
| "Orbis_handle K ctx (MsgFinalizeRing creator ringId ringPk petPk) = noResult (FinalizeRing K ctx creator ringId ringPk petPk)"
| "Orbis_handle K ctx (MsgCancelPendingRing creator ringId) = CancelPendingRing K ctx creator ringId"
| "Orbis_handle K ctx (MsgStartRingReshareByAcp creator ringId keys threshold) =
     StartRingReshareByAcp K ctx creator ringId keys threshold"
| "Orbis_handle K ctx (MsgCancelRingReshareByAcp creator ringId) = CancelRingReshareByAcp K ctx creator ringId"
| "Orbis_handle K ctx (MsgSetRingPssIntervalByAcp creator ringId pssInterval) =
     SetRingPssIntervalByAcp K ctx creator ringId pssInterval"
| "Orbis_handle K ctx (MsgScheduleRingUpgradeByAcp creator ringId nextVersion activationTime) =
     ScheduleRingUpgradeByAcp K ctx creator ringId nextVersion activationTime"
| "Orbis_handle K ctx (MsgCancelRingUpgradeByAcp creator ringId) = CancelRingUpgradeByAcp K ctx creator ringId"
| "Orbis_handle K ctx (MsgSetRingReportingByAcp creator ringId reporting) =
     SetRingReportingByAcp K ctx creator ringId reporting"
| "Orbis_handle K ctx (MsgAddRingTrustedAuthRelayByAcp creator ringId relayDid) =
     AddRingTrustedAuthRelayByAcp K ctx creator ringId relayDid"
| "Orbis_handle K ctx (MsgRemoveRingTrustedAuthRelayByAcp creator ringId relayDid) =
     RemoveRingTrustedAuthRelayByAcp K ctx creator ringId relayDid"
| "Orbis_handle K ctx (MsgFinalizeRingReshareByThresholdSignature creator ringId scheme signature) =
     FinalizeRingReshareByThresholdSignature K ctx creator ringId scheme signature"
| "Orbis_handle K ctx (MsgSubmitReport creator r reportId scheme signature) =
     noResult (SubmitReport K ctx r reportId scheme signature)"
| "Orbis_handle K ctx (MsgStoreDocumentTx msg) = noResult (StoreDocument K ctx msg)"
| "Orbis_handle K ctx (MsgStoreKeyDerivationTx msg) = noResult (StoreKeyDerivation K ctx msg)"
| "Orbis_handle K ctx (MsgCreateNodeInfo creator peerId controllerKey policyIds ringIds) =
     CreateNodeInfo K creator peerId controllerKey policyIds ringIds"
| "Orbis_handle K ctx (MsgUpdateNodePeerId creator nodeKey peerId) = UpdateNodePeerId K creator nodeKey peerId"
| "Orbis_handle K ctx (MsgTransferNodeController creator nodeKey controllerKey) =
     TransferNodeController K creator nodeKey controllerKey"
| "Orbis_handle K ctx (MsgAddNodeToWhitelist creator nodeKey target) = AddNodeToWhitelist K creator nodeKey target"
| "Orbis_handle K ctx (MsgRemoveNodeFromWhitelist creator nodeKey target) = RemoveNodeFromWhitelist K creator nodeKey target"
| "Orbis_handle K ctx (MsgDrainNodeKey creator nodeKey) = noResult (DrainNodeKey K creator nodeKey)"

text \<open>A transaction with one message: the basic checks, then the handler; nothing is kept on an error.\<close>

definition Orbis_deliver :: "'x OrbisKeeper \<Rightarrow> orbis_ctx \<Rightarrow> OrbisMsg \<Rightarrow> ('x, unit) OM" where
  "Orbis_deliver K ctx msg =
     cacheCtx (thenM (checkM (Orbis_ValidateBasic (orb_lib K) (orb_codec K) msg)) (Orbis_handle K ctx msg))"

text \<open>
  Steps of the chain at a given block: a transaction, the end of the block, or a change of the other
  modules' state.
\<close>

inductive orbis_step :: "'x OrbisKeeper \<Rightarrow> orbis_ctx \<Rightarrow> 'x orbis_state \<Rightarrow> 'x orbis_state \<Rightarrow> bool"
  for K :: "'x OrbisKeeper" and ctx :: orbis_ctx where
  tx: "Orbis_deliver K ctx msg s = (r, t) \<Longrightarrow> orbis_step K ctx s t"
| end_block: "Orbis_EndBlock ctx s = (r, t) \<Longrightarrow> orbis_step K ctx s t"
| other_modules: "orbis_step K ctx s (s\<lparr>orbis_ext := x, events := ev\<rparr>)"

inductive_cases orbis_stepE: "orbis_step K ctx s t"

text \<open>A run from \<open>s\<close> to \<open>t\<close> lists the block contexts of its steps, in order.\<close>

inductive orbis_run :: "'x OrbisKeeper \<Rightarrow> orbis_ctx list \<Rightarrow> 'x orbis_state \<Rightarrow> 'x orbis_state \<Rightarrow> bool"
  for K :: "'x OrbisKeeper" where
  run_Nil: "orbis_run K [] s s"
| run_snoc: "orbis_run K cs s t \<Longrightarrow> orbis_step K c t u \<Longrightarrow> orbis_run K (cs @ [c]) s u"

definition orbis_init :: "'x \<Rightarrow> 'x orbis_state" where
  "orbis_init x =
     \<lparr>events = [], orbis_params = None, ring_store = [], document_store = [], key_derivation_store = [],
      node_info_store = [], accepted_report_store = [], accepted_session_store = [], accepted_expiry_store = [],
      node_demerit_store = [], orbis_ext = x\<rparr>"

text \<open>The chain starts from a genesis on empty stores.\<close>

definition orbis_reachable :: "'x OrbisKeeper \<Rightarrow> OrbisGenesis \<Rightarrow> orbis_ctx list \<Rightarrow> 'x orbis_state \<Rightarrow> bool" where
  "orbis_reachable K g cs s \<longleftrightarrow>
     (\<exists>x s0. Orbis_InitGenesis g (orbis_init x) = (Inr (), s0) \<and> orbis_run K cs s0 s)"

end
