(* ===== verification/Orbis_Frames.thy ===== *)
theory Orbis_Frames
  imports Orbis_Reports
begin

text \<open>
  What the operations of the orbis module leave alone, and the rules by which invariants of its stores
  are carried through the handlers.

  \<open>leaves f m\<close> says that \<open>m\<close> does not change the part \<open>f\<close> of the state, whatever its outcome. The
  collection \<open>leaves_rules\<close> follows the structure of a method; \<open>ring_view\<close> and \<open>report_view\<close> are the two
  parts that the invariants speak about.
\<close>

named_theorems leaves_rules "structural rules for leaves"

definition leaves :: "('s \<Rightarrow> 'v) \<Rightarrow> ('s, 'a) M \<Rightarrow> bool" where
  "leaves f m \<longleftrightarrow> (\<forall>s. f (snd (m s)) = f s)"

lemma leavesI: "(\<And>s r t. m s = (r, t) \<Longrightarrow> f t = f s) \<Longrightarrow> leaves f m"
  by (simp add: leaves_def split: prod.splits) (metis prod.collapse)

lemma leavesD: "leaves f m \<Longrightarrow> m s = (r, t) \<Longrightarrow> f t = f s"
  unfolding leaves_def by (metis snd_conv)

lemma leaves_basic [leaves_rules]:
  "leaves f (ret x)" "leaves f (fail e)" "leaves f (getM g)" "leaves f (readM h)" "leaves f (liftE r)"
  "leaves f (guardM b e)" "leaves f (checkM q)" "leaves f (someM e o')" "leaves f (panicM msg)"
  by (auto intro!: leavesI simp: checkM_def someM_def split: option.splits)

lemma leaves_extOR [leaves_rules]: "leaves f (extOR k)"
  by (auto intro!: leavesI simp: extOR_def)

lemma leaves_modifyM: "(\<And>s. f (g s) = f s) \<Longrightarrow> leaves f (modifyM g)"
  by (auto intro: leavesI)

lemma leaves_bindM [leaves_rules]:
  assumes "leaves f m" and "\<And>x. leaves f (k x)"
  shows "leaves f (bindM m k)"
  using assms by (auto simp: leaves_def bindM_def split: prod.splits sum.splits) (metis snd_conv)+

lemma leaves_thenM [leaves_rules]: "leaves f m \<Longrightarrow> leaves f k \<Longrightarrow> leaves f (thenM m k)"
  unfolding thenM_def by (rule leaves_bindM)

lemma leaves_noResult [leaves_rules]: "leaves f m \<Longrightarrow> leaves f (noResult m)"
  unfolding noResult_def by (intro leaves_rules)

lemma leaves_if [leaves_rules]: "(b \<Longrightarrow> leaves f m) \<Longrightarrow> (\<not> b \<Longrightarrow> leaves f k) \<Longrightarrow> leaves f (if b then m else k)"
  by simp

lemma leaves_cases [leaves_rules]:
  "(x = None \<Longrightarrow> leaves f m) \<Longrightarrow> (\<And>y. x = Some y \<Longrightarrow> leaves f (g y)) \<Longrightarrow>
   leaves f (case x of None \<Rightarrow> m | Some y \<Rightarrow> g y)"
  "(\<And>a b. p = (a, b) \<Longrightarrow> leaves f (h a b)) \<Longrightarrow> leaves f (case p of (a, b) \<Rightarrow> h a b)"
  "(\<And>w. t = TargetPolicy w \<Longrightarrow> leaves f (u w)) \<Longrightarrow> (\<And>w. t = TargetRing w \<Longrightarrow> leaves f (v w)) \<Longrightarrow>
   leaves f (case t of TargetPolicy w \<Rightarrow> u w | TargetRing w \<Rightarrow> v w)"
proof -
  show "leaves f (case x of None \<Rightarrow> m | Some y \<Rightarrow> g y)"
    if "x = None \<Longrightarrow> leaves f m" "\<And>y. x = Some y \<Longrightarrow> leaves f (g y)"
    using that by (cases x) auto
  show "leaves f (case p of (a, b) \<Rightarrow> h a b)" if "\<And>a b. p = (a, b) \<Longrightarrow> leaves f (h a b)"
    using that by (cases p) auto
  show "leaves f (case t of TargetPolicy w \<Rightarrow> u w | TargetRing w \<Rightarrow> v w)"
    if "\<And>w. t = TargetPolicy w \<Longrightarrow> leaves f (u w)" "\<And>w. t = TargetRing w \<Longrightarrow> leaves f (v w)"
    using that by (cases t) auto
qed

lemma leaves_Let [leaves_rules]: "(\<And>x. leaves f (k x)) \<Longrightarrow> leaves f (Let v k)"
  by simp

lemma leaves_foldM [leaves_rules]: "(\<And>x b. leaves f (g x b)) \<Longrightarrow> leaves f (foldM g xs b)"
  by (induction xs arbitrary: b) (auto intro!: leaves_rules)

lemma leaves_forM [leaves_rules]: "(\<And>x. leaves f (g x)) \<Longrightarrow> leaves f (forM xs g)"
  unfolding forM_def by (rule leaves_foldM)

lemma leaves_extO [leaves_rules]: "(\<And>s x. f (s\<lparr>orbis_ext := x\<rparr>) = f s) \<Longrightarrow> leaves f (extO m)"
  by (auto intro!: leavesI simp: extO_def split: prod.splits)

lemma leaves_EmitEvent [leaves_rules]: "(\<And>s v. f (s\<lparr>events := v\<rparr>) = f s) \<Longrightarrow> leaves f (EmitEvent e)"
  by (auto intro!: leavesI simp: EmitEvent_def)

text \<open>An invariant of the part that a method leaves alone is kept by it.\<close>

lemma keeps_leaves: "leaves f m \<Longrightarrow> (\<And>s t. f s = f t \<Longrightarrow> P t \<Longrightarrow> P s) \<Longrightarrow> keeps P m"
  by (rule keepsI) (blast dest: leavesD)

lemma cacheCtx_leaves [leaves_rules]: "leaves f m \<Longrightarrow> leaves f (cacheCtx m)"
  by (rule leavesI) (auto simp: cacheCtx_def split: prod.splits sum.splits dest: leavesD)

section \<open>Views\<close>

definition report_view :: "'x orbis_state \<Rightarrow> bytes kv \<times> bytes kv \<times> string kv" where
  "report_view s = (accepted_report_store s, accepted_session_store s, accepted_expiry_store s)"

lemmas op_defs = SetRing_def DeleteRing_def SetDocument_def SetKeyDerivation_def SetNodeInfo_def
  setNodeDemeritState_def SetAcceptedReportPair_def DeleteExpiredAcceptedReportPairs_def

lemma leaves_ring_ops [leaves_rules]:
  "leaves ring_store (SetDocument d)"
  "leaves ring_store (SetKeyDerivation kd)"
  "leaves ring_store (SetNodeInfo k n)"
  "leaves ring_store (setNodeDemeritState i k ds)"
  "leaves ring_store (SetAcceptedReportPair a b e)"
  by (auto simp: op_defs intro!: leaves_modifyM)

lemma leaves_report_ops [leaves_rules]:
  "leaves report_view (SetRing r)"
  "leaves report_view (DeleteRing i)"
  "leaves report_view (SetDocument d)"
  "leaves report_view (SetKeyDerivation kd)"
  "leaves report_view (SetNodeInfo k n)"
  "leaves report_view (setNodeDemeritState i k ds)"
  by (auto simp: op_defs report_view_def intro!: leaves_modifyM)

lemma leaves_node_ops [leaves_rules]:
  "leaves node_info_store (SetRing r)"
  "leaves node_info_store (DeleteRing i)"
  "leaves node_info_store (SetDocument d)"
  "leaves node_info_store (SetKeyDerivation kd)"
  "leaves node_info_store (setNodeDemeritState i k ds)"
  "leaves node_info_store (SetAcceptedReportPair a b e)"
  by (auto simp: op_defs intro!: leaves_modifyM)

lemma leaves_views [leaves_rules]:
  "ring_store (s\<lparr>orbis_ext := x\<rparr>) = ring_store s" "ring_store (s\<lparr>events := v\<rparr>) = ring_store s"
  "report_view (s\<lparr>orbis_ext := x\<rparr>) = report_view s" "report_view (s\<lparr>events := v\<rparr>) = report_view s"
  "node_info_store (s\<lparr>orbis_ext := x\<rparr>) = node_info_store s" "node_info_store (s\<lparr>events := v\<rparr>) = node_info_store s"
  by (simp_all add: report_view_def)

lemma leaves_SetParams [leaves_rules]:
  "leaves ring_store (Orbis_SetParams p)" "leaves report_view (Orbis_SetParams p)" "leaves node_info_store (Orbis_SetParams p)"
  by (auto simp: Orbis_SetParams_def report_view_def intro!: leaves_rules leaves_modifyM)

lemma fold_deletePair_simps [simp]:
  "ring_store (fold deletePair ps s) = ring_store s"
  "node_info_store (fold deletePair ps s) = node_info_store s"
  by (induction ps arbitrary: s) (auto simp: deletePair_def split: prod.splits)

lemma leaves_DeleteExpired [leaves_rules]:
  "leaves ring_store (DeleteExpiredAcceptedReportPairs now)"
  "leaves node_info_store (DeleteExpiredAcceptedReportPairs now)"
  by (auto simp: op_defs intro!: leaves_modifyM)

lemmas common_defs = theRing_def validateAndSetRing_def actorDID_def signerPublicKeyHex_def
  registerRingACPObject_def ensureRingCreatePermission_def ensureRingUpdatePermission_def
  requireReportingBackupNodeInfos_def requireWhitelisted_def authorizeNodeInfoUpdate_def
  emitRingUpdated_def emitMaybe_def emitNodeInfo_def storeNodeInfo_def beginRingUpdate_def beginRelayUpdate_def

lemmas ring_msg_defs = CreateRing_def FinalizeRing_def CancelPendingRing_def StartRingReshareByAcp_def
  CancelRingReshareByAcp_def SetRingPssIntervalByAcp_def ScheduleRingUpgradeByAcp_def CancelRingUpgradeByAcp_def
  SetRingReportingByAcp_def AddRingTrustedAuthRelayByAcp_def RemoveRingTrustedAuthRelayByAcp_def
  FinalizeRingReshareByThresholdSignature_def

lemmas other_msg_defs = StoreDocument_def StoreKeyDerivation_def CreateNodeInfo_def UpdateNodePeerId_def
  TransferNodeController_def AddNodeToWhitelist_def RemoveNodeFromWhitelist_def DrainNodeKey_def Orbis_UpdateParams_def

text \<open>The messages about documents and nodes leave the rings alone.\<close>

lemma leaves_ring_other [leaves_rules]:
  "leaves ring_store (Orbis_UpdateParams K a p)"
  "leaves ring_store (StoreDocument K ctx md)"
  "leaves ring_store (StoreKeyDerivation K ctx mk)"
  "leaves ring_store (CreateNodeInfo K c pid ck ps rs)"
  "leaves ring_store (UpdateNodePeerId K c nk pid)"
  "leaves ring_store (TransferNodeController K c nk ck)"
  "leaves ring_store (AddNodeToWhitelist K c nk tg)"
  "leaves ring_store (RemoveNodeFromWhitelist K c nk tg)"
  "leaves ring_store (DrainNodeKey K c nk)"
  unfolding other_msg_defs common_defs Let_def by (intro leaves_rules)+

text \<open>Only reports change the records of accepted reports.\<close>

lemma leaves_report_other [leaves_rules]:
  "leaves report_view (Orbis_UpdateParams K a p)"
  "leaves report_view (StoreDocument K ctx md)"
  "leaves report_view (StoreKeyDerivation K ctx mk)"
  "leaves report_view (CreateNodeInfo K c pid ck ps rs)"
  "leaves report_view (UpdateNodePeerId K c nk pid)"
  "leaves report_view (TransferNodeController K c nk ck)"
  "leaves report_view (AddNodeToWhitelist K c nk tg)"
  "leaves report_view (RemoveNodeFromWhitelist K c nk tg)"
  "leaves report_view (DrainNodeKey K c nk)"
  unfolding other_msg_defs common_defs Let_def by (intro leaves_rules)+

lemma leaves_report_ring_msgs [leaves_rules]:
  "leaves report_view (CreateRing K ctx mc)"
  "leaves report_view (FinalizeRing K ctx c i pk pp)"
  "leaves report_view (CancelPendingRing K ctx c i)"
  "leaves report_view (StartRingReshareByAcp K ctx c i ks th)"
  "leaves report_view (CancelRingReshareByAcp K ctx c i)"
  "leaves report_view (SetRingPssIntervalByAcp K ctx c i pss)"
  "leaves report_view (ScheduleRingUpgradeByAcp K ctx c i nv at)"
  "leaves report_view (CancelRingUpgradeByAcp K ctx c i)"
  "leaves report_view (SetRingReportingByAcp K ctx c i rc)"
  "leaves report_view (AddRingTrustedAuthRelayByAcp K ctx c i d)"
  "leaves report_view (RemoveRingTrustedAuthRelayByAcp K ctx c i d)"
  "leaves report_view (FinalizeRingReshareByThresholdSignature K ctx c i sch sg)"
  unfolding ring_msg_defs common_defs Let_def by (intro leaves_rules)+

lemma keeps_checkM [keeps_rules]: "(q = None \<Longrightarrow> keeps P k) \<Longrightarrow> keeps P (thenM (checkM q) k)"
  by (cases q) (auto simp: checkM_def thenM_def checkE_def intro!: keeps_rules keeps_bind_liftE)

text \<open>An invariant of the messages, of the end of the block and of the other modules holds after a step.\<close>

lemma orbis_step_keeps:
  assumes "orbis_step K ctx s t" and "P s"
    and "\<And>msg. Orbis_ValidateBasic (orb_lib K) (orb_codec K) msg = None \<Longrightarrow> keeps P (Orbis_handle K ctx msg)"
    and "keeps P (Orbis_EndBlock ctx)"
    and "\<And>s x ev. P s \<Longrightarrow> P (s\<lparr>orbis_ext := x, events := ev\<rparr>)"
  shows "P t"
  using assms(1)
proof (cases rule: orbis_step.cases)
  case (tx msg r)
  have "keeps P (thenM (checkM (Orbis_ValidateBasic (orb_lib K) (orb_codec K) msg)) (Orbis_handle K ctx msg))"
    by (rule keeps_checkM) (rule assms(3))
  then show ?thesis
    using tx assms(2) unfolding Orbis_deliver_def by (blast intro: cacheCtx_invariant)
next
  case (end_block r)
  show ?thesis
    using end_block assms(2, 4) by (auto simp: Orbis_EndBlock_def DeleteExpiredAcceptedReportPairs_def dest: keepsD_Inr)
next
  case (other_modules x ev)
  then show ?thesis using assms(2, 5) by simp
qed

end
