(* ===== verification/Orbis_Rings.thy ===== *)
theory Orbis_Rings
  imports Orbis_Frames
begin

text \<open>
  Properties of rings that the messages keep.

  \<open>ring_property\<close> is the contract of a property of finalized rings that survives every ring update
  except a reshare; \<open>resharing_ring_property\<close> extends it to reshares. Its lemmas say that every step of
  the chain keeps such a property of a given ring. It is interpreted three times: for what identifies a
  ring, for its committee and for its protocol version.
\<close>

section \<open>Rules\<close>

lemma keeps_valid_bind:
  assumes "valid P m (\<lambda>x s. P s \<and> B x) P" and "\<And>x. B x \<Longrightarrow> keeps P (f x)"
  shows "keeps P (bindM m f)"
  unfolding keeps_def
proof (rule valid_bind [OF assms(1)])
  show "valid (\<lambda>s. P s \<and> B x) (f x) (\<lambda>_. P) P" for x
    using assms(2) [of x] by (auto simp: keeps_def intro!: validI dest: validD_Inr validD_Inl)
qed

lemma keeps_then_guardM [keeps_rules]: "(b \<Longrightarrow> keeps P k) \<Longrightarrow> keeps P (thenM (guardM b e) k)"
  by (auto intro!: keepsI split: if_splits dest: keepsD)

lemma keeps_noResult [keeps_rules]: "keeps P m \<Longrightarrow> keeps P (noResult m)"
  unfolding noResult_def by (intro keeps_rules)

definition keyed :: "'x orbis_state \<Rightarrow> bool" where
  "keyed s \<longleftrightarrow> (\<forall>i r. GetRing i s = Some r \<longrightarrow> ring_Id r = i)"

definition ring_holds :: "string \<Rightarrow> (Ring \<Rightarrow> bool) \<Rightarrow> 'x orbis_state \<Rightarrow> bool" where
  "ring_holds i Q s \<longleftrightarrow> keyed s \<and> (\<exists>r. GetRing i s = Some r \<and> Q r)"

lemma ring_holds_view: "ring_store s = ring_store t \<Longrightarrow> ring_holds i Q t \<Longrightarrow> ring_holds i Q s"
  by (simp add: ring_holds_def keyed_def GetRing_def)

lemma keeps_ring_leaves: "leaves ring_store m \<Longrightarrow> keeps (ring_holds i Q) m"
  by (erule keeps_leaves) (rule ring_holds_view)

lemma keeps_emit [keeps_rules]:
  "keeps (ring_holds i Q) (EmitEvent e)"
  "keeps (ring_holds i Q) (emitRingUpdated j d)"
  "keeps (ring_holds i Q) (emitMaybe ev)"
  "keeps (ring_holds i Q) (actorDID K ctx c)"
  "keeps (ring_holds i Q) (signerPublicKeyHex K c)"
  "keeps (ring_holds i Q) (ensureRingUpdatePermission K r d)"
  "keeps (ring_holds i Q) (ensureRingCreatePermission K pol d)"
  "keeps (ring_holds i Q) (registerRingACPObject K ctx c pol j)"
  "keeps (ring_holds i Q) (requireReportingBackupNodeInfos ks)"
  "keeps (ring_holds i Q) (requireWhitelisted r ks)"
  "keeps (ring_holds i Q) (someM er x)"
  unfolding common_defs by (rule keeps_ring_leaves, intro leaves_rules)+

lemma canonicalRing_Id [simp]: "ring_Id (canonicalRing r) = ring_Id r"
  by (simp add: canonicalRing_def)

lemma keeps_SetRing:
  "(ring_Id r = i \<Longrightarrow> Q (canonicalRing r)) \<Longrightarrow> keeps (ring_holds i Q) (SetRing r)"
  unfolding SetRing_def by (rule keeps_modifyM) (auto simp: ring_holds_def keyed_def GetRing_def)

lemma keeps_DeleteRing: "j \<noteq> i \<Longrightarrow> keeps (ring_holds i Q) (DeleteRing j)"
  unfolding DeleteRing_def by (rule keeps_modifyM) (auto simp: ring_holds_def keyed_def GetRing_def)

lemma keeps_validateAndSetRing:
  "(ring_Id r = i \<Longrightarrow> validateRing (orb_lib K) r = None \<Longrightarrow> Q (canonicalRing r)) \<Longrightarrow>
   keeps (ring_holds i Q) (validateAndSetRing K r)"
  unfolding validateAndSetRing_def by (intro keeps_rules keeps_SetRing)

text \<open>What is known of a ring that a message has read.\<close>

definition read_ring :: "string \<Rightarrow> (Ring \<Rightarrow> bool) \<Rightarrow> string \<Rightarrow> Ring \<Rightarrow> bool" where
  "read_ring i Q j r \<longleftrightarrow> ring_Id r = j \<and> (j = i \<longrightarrow> Q r)"

lemma valid_theRing:
  "valid (ring_holds i Q) (theRing j) (\<lambda>r s. ring_holds i Q s \<and> read_ring i Q j r) (ring_holds i Q)"
  by (auto intro!: validI simp: theRing_def someM_def bindM_def ring_holds_def keyed_def read_ring_def
      split: option.splits)

lemma keeps_theRing:
  "(\<And>r. read_ring i Q j r \<Longrightarrow> keeps (ring_holds i Q) (f r)) \<Longrightarrow> keeps (ring_holds i Q) (bindM (theRing j) f)"
  by (rule keeps_valid_bind [OF valid_theRing])

lemma valid_bind_keeps:
  assumes "valid P m (\<lambda>x s. P s \<and> B x) P" and "\<And>x. B x \<Longrightarrow> valid P (f x) (\<lambda>y s. P s \<and> C y) P"
  shows "valid P (bindM m f) (\<lambda>y s. P s \<and> C y) P"
proof (rule valid_bind [OF assms(1)])
  show "valid (\<lambda>s. P s \<and> B x) (f x) (\<lambda>y s. P s \<and> C y) P" for x
    using assms(2) [of x] by (auto intro!: validI dest: validD_Inr validD_Inl)
qed

lemma valid_then_keeps:
  "keeps P m \<Longrightarrow> valid P k (\<lambda>y s. P s \<and> C y) P \<Longrightarrow> valid P (thenM m k) (\<lambda>y s. P s \<and> C y) P"
  unfolding thenM_def by (rule valid_bind_keeps [where B = "\<lambda>_. True"]) (simp_all add: keeps_def)

lemma valid_ret: "C x \<Longrightarrow> valid P (ret x) (\<lambda>y s. P s \<and> C y) P"
  by (auto intro: validI)

lemma keeps_valid_True: "keeps P m \<Longrightarrow> valid P m (\<lambda>x s. P s \<and> True) P"
  by (simp add: keeps_def)

lemma keeps_checkM_only [keeps_rules]: "keeps P (checkM q)"
  by (auto simp: checkM_def intro!: keeps_rules)

lemma valid_beginRingUpdate:
  "valid (ring_holds i Q) (beginRingUpdate K ctx c j)
     (\<lambda>x s. ring_holds i Q s \<and> (case x of (r, d) \<Rightarrow> read_ring i Q j r)) (ring_holds i Q)"
  unfolding beginRingUpdate_def
  by (rule valid_bind_keeps [OF valid_theRing])
    (intro valid_then_keeps valid_bind_keeps [OF keeps_valid_True] keeps_rules valid_ret, simp)

lemma valid_beginRelayUpdate:
  "valid (ring_holds i Q) (beginRelayUpdate K ctx c j w)
     (\<lambda>x s. ring_holds i Q s \<and> (case x of (r, d) \<Rightarrow> read_ring i Q j r)) (ring_holds i Q)"
  unfolding beginRelayUpdate_def
  by (rule valid_bind_keeps [OF valid_theRing])
    (intro valid_then_keeps valid_bind_keeps [OF keeps_valid_True] keeps_rules valid_ret, simp)

lemma keeps_beginRingUpdate:
  "(\<And>r d. read_ring i Q j r \<Longrightarrow> keeps (ring_holds i Q) (f r d)) \<Longrightarrow>
   keeps (ring_holds i Q) (bindM (beginRingUpdate K ctx c j) (\<lambda>(r, d). f r d))"
  by (rule keeps_valid_bind [OF valid_beginRingUpdate]) auto

lemma keeps_beginRelayUpdate:
  "(\<And>r d. read_ring i Q j r \<Longrightarrow> keeps (ring_holds i Q) (f r d)) \<Longrightarrow>
   keeps (ring_holds i Q) (bindM (beginRelayUpdate K ctx c j w) (\<lambda>(r, d). f r d))"
  by (rule keeps_valid_bind [OF valid_beginRelayUpdate]) auto

section \<open>Accepted reports and their ring\<close>

lemma validateSubmittedReport_Inr:
  assumes "validateSubmittedReport L ctx r rid scheme sig s = Inr v"
  shows "GetRing (rep_RingId r) s = Some (vr_ring v)"
    and "ring_Pk (vr_ring v) \<noteq> ''''"
    and "reportBlockUnixTime ctx = Inr (vr_blockUnixTime v)"
    and "validateReportEnvelopeShape r (vr_blockUnixTime v) = None"
    and "\<exists>message. reportEnvelopeCanonicalMessageAndID L r = Inr (message, vr_reportID v) \<and>
           verifyThresholdSignature L scheme (ring_Pk (vr_ring v)) message sig = None"
    and "rid = vr_reportID v"
    and "\<not> HasAcceptedReport (vr_reportID v) s"
    and "\<not> HasAcceptedReportSession (vr_sessionDedupeID v) s"
    and "\<exists>payload. decodeReportPayload r = Inr payload \<and> reportSessionDedupeID L r payload = Inr (vr_sessionDedupeID v)"
  using assms unfolding validateSubmittedReport_def
  by (auto simp: bindE_Inr_iff requireRingFinalized_def split: option.splits prod.splits)

section \<open>The contract of a ring property\<close>

locale ring_property =
  fixes ctx :: orbis_ctx
    and Q :: "Ring \<Rightarrow> bool"
  assumes finalized: "Q r \<Longrightarrow> ring_Pk r \<noteq> ''''"
    and canonical: "Q r \<Longrightarrow> Q (canonicalRing r)"
    and set_reshare: "Q r \<Longrightarrow> Q (r\<lparr>NewPeerNodeKeys := ks, NewThreshold := th\<rparr>)"
    and set_pss: "Q r \<Longrightarrow> Q (r\<lparr>PssInterval := p\<rparr>)"
    and set_reporting: "Q r \<Longrightarrow> Q (r\<lparr>ring_Reporting := c\<rparr>)"
    and set_relays: "Q r \<Longrightarrow> Q (r\<lparr>TrustedAuthRelayDids := ds\<rparr>)"
    and normalized: "Q r \<Longrightarrow> currentBlockUnixTime ctx = Inr now \<Longrightarrow> Q (fst (normalizeMaturedRingUpgrade r now))"
    and scheduled: "Q r \<Longrightarrow> currentBlockUnixTime ctx = Inr now \<Longrightarrow> n = fst (normalizeMaturedRingUpgrade r now) \<Longrightarrow>
      validateRingUpgradeSchedule v a now n = None \<Longrightarrow> Q (setRingUpgrade n v a)"
    and cleared: "Q r \<Longrightarrow> currentBlockUnixTime ctx = Inr now \<Longrightarrow> NextVersion (ring_UpgradeInfo r) = Some v \<Longrightarrow>
      ActivationTime (ring_UpgradeInfo r) = Some a \<Longrightarrow> \<not> now \<ge> a \<Longrightarrow> Q (clearRingUpgrade r)"
begin

lemma set_keys: "Q r \<Longrightarrow> Q (r\<lparr>NewPeerNodeKeys := ks\<rparr>)"
  using set_reshare [where ks = ks and th = "NewThreshold r" and r = r] by simp

lemma set_threshold: "Q r \<Longrightarrow> Q (r\<lparr>NewThreshold := th\<rparr>)"
  using set_reshare [where ks = "NewPeerNodeKeys r" and th = th and r = r] by simp

end

lemma upgrade_Id [simp]:
  "ring_Id (fst (normalizeMaturedRingUpgrade r now)) = ring_Id r"
  "ring_Id (clearRingUpgrade r) = ring_Id r"
  "ring_Id (setRingUpgrade r v a) = ring_Id r"
  by (auto simp: normalizeMaturedRingUpgrade_def clearRingUpgrade_def setRingUpgrade_def Let_def split: option.splits)

lemma maybeNormalize_cases:
  assumes "maybeNormalizeMaturedRingUpgrade ctx r0 = Inr (r, ev)"
  obtains "r = r0" | now where "currentBlockUnixTime ctx = Inr now" "r = fst (normalizeMaturedRingUpgrade r0 now)"
  using assms by (auto simp: maybeNormalizeMaturedRingUpgrade_def bindE_Inr_iff split: if_splits)

context ring_property
begin

lemma keeps_normalized:
  assumes "read_ring i Q j r0" and "\<And>r ev. read_ring i Q j r \<Longrightarrow> keeps (ring_holds i Q) (f r ev)"
  shows "keeps (ring_holds i Q) (bindM (liftE (maybeNormalizeMaturedRingUpgrade ctx r0)) (\<lambda>(r, ev). f r ev))"
proof (rule keeps_bind_liftE)
  fix x assume *: "maybeNormalizeMaturedRingUpgrade ctx r0 = Inr x"
  obtain r ev where x: "x = (r, ev)" by (cases x)
  have "read_ring i Q j r"
    using assms(1) * unfolding x
    by (auto elim!: maybeNormalize_cases simp: read_ring_def intro: normalized)
  then show "keeps (ring_holds i Q) (case x of (r, ev) \<Rightarrow> f r ev)"
    using assms(2) x by simp
qed

lemma keeps_read_absent:
  assumes "\<And>x. (j = i \<Longrightarrow> x \<noteq> None) \<Longrightarrow> keeps (ring_holds i Q) (f x)"
  shows "keeps (ring_holds i Q) (bindM (getM (GetRing j)) f)"
  by (rule keeps_bind_getM [where B = "\<lambda>x. j = i \<longrightarrow> x \<noteq> None"]) (auto simp: ring_holds_def intro: assms)

lemma keeps_CreateRing: "keeps (ring_holds i Q) (CreateRing K ctx msg)"
  unfolding CreateRing_def Let_def
  by (intro keeps_bindM keeps_emit keeps_thenM keeps_forM keeps_read_absent keeps_then_guardM keeps_checkM
      keeps_getM keeps_SetRing keeps_ret) (simp_all add: createdRing_def)

lemma keeps_FinalizeRing: "keeps (ring_holds i Q) (FinalizeRing K ctx c j pk pp)"
  unfolding FinalizeRing_def Let_def
  by (rule keeps_theRing)
    (intro keeps_then_guardM keeps_checkM keeps_bindM keeps_emit keeps_if keeps_thenM keeps_DeleteRing keeps_SetRing
      keeps_validateAndSetRing keeps_ret; auto simp: read_ring_def dest: finalized)

lemma keeps_CancelPendingRing: "keeps (ring_holds i Q) (CancelPendingRing K ctx c j)"
  unfolding CancelPendingRing_def
  by (rule keeps_theRing)
    (intro keeps_then_guardM keeps_bindM keeps_emit keeps_if keeps_thenM keeps_DeleteRing keeps_ret;
      auto simp: read_ring_def dest: finalized)

lemma keeps_StartRingReshare: "keeps (ring_holds i Q) (StartRingReshareByAcp K ctx c j ks th)"
  unfolding StartRingReshareByAcp_def Let_def
  by (rule keeps_beginRingUpdate, erule keeps_normalized)
    (intro keeps_checkM keeps_thenM keeps_emit keeps_validateAndSetRing;
      auto simp: read_ring_def intro!: canonical set_keys set_threshold set_reshare)

lemma keeps_CancelRingReshare: "keeps (ring_holds i Q) (CancelRingReshareByAcp K ctx c j)"
  unfolding CancelRingReshareByAcp_def
  by (rule keeps_beginRingUpdate)
    (intro keeps_then_guardM keeps_thenM keeps_emit keeps_validateAndSetRing;
      auto simp: read_ring_def intro!: canonical set_reshare)

lemma keeps_SetRingPssInterval: "keeps (ring_holds i Q) (SetRingPssIntervalByAcp K ctx c j p)"
  unfolding SetRingPssIntervalByAcp_def
  by (rule keeps_beginRingUpdate, erule keeps_normalized)
    (intro keeps_checkM keeps_then_guardM keeps_thenM keeps_emit keeps_validateAndSetRing;
      auto simp: read_ring_def intro!: canonical set_pss)

lemma keeps_ScheduleRingUpgrade: "keeps (ring_holds i Q) (ScheduleRingUpgradeByAcp K ctx c j v a)"
  unfolding ScheduleRingUpgradeByAcp_def Let_def
  by (rule keeps_beginRingUpdate)
    (intro keeps_bind_liftE keeps_case_prod keeps_then_guardM keeps_checkM keeps_thenM keeps_emit keeps_validateAndSetRing;
      auto simp: read_ring_def dest!: arg_cong [of _ _ fst] intro!: canonical scheduled)

lemma keeps_CancelRingUpgrade: "keeps (ring_holds i Q) (CancelRingUpgradeByAcp K ctx c j)"
  unfolding CancelRingUpgradeByAcp_def
  by (rule keeps_beginRingUpdate)
    (intro keeps_case_prod keeps_case_option keeps_fail keeps_bind_liftE keeps_then_guardM keeps_checkM keeps_thenM
      keeps_emit keeps_validateAndSetRing; auto simp: read_ring_def intro!: canonical cleared)

lemma keeps_SetRingReporting: "keeps (ring_holds i Q) (SetRingReportingByAcp K ctx c j rc)"
  unfolding SetRingReportingByAcp_def Let_def
  by (rule keeps_beginRingUpdate, erule keeps_normalized)
    (intro keeps_checkM keeps_thenM keeps_emit keeps_SetRing;
      auto simp: read_ring_def intro!: canonical set_reporting)

lemma keeps_AddRelay: "keeps (ring_holds i Q) (AddRingTrustedAuthRelayByAcp K ctx c j d)"
  unfolding AddRingTrustedAuthRelayByAcp_def
  by (rule keeps_beginRelayUpdate)
    (intro keeps_then_guardM keeps_thenM keeps_emit keeps_validateAndSetRing;
      auto simp: read_ring_def intro!: canonical set_relays)

lemma keeps_RemoveRelay: "keeps (ring_holds i Q) (RemoveRingTrustedAuthRelayByAcp K ctx c j d)"
  unfolding RemoveRingTrustedAuthRelayByAcp_def
  by (rule keeps_beginRelayUpdate)
    (intro keeps_then_guardM keeps_thenM keeps_emit keeps_validateAndSetRing;
      auto simp: read_ring_def intro!: canonical set_relays)

lemma keeps_SubmitReport: "keeps (ring_holds i Q) (SubmitReport K ctx r rid scheme sig)"
  unfolding SubmitReport_def
proof (rule keeps_bind_readM)
  show "read_ring i Q (rep_RingId r) (vr_ring v)"
    if "ring_holds i Q s" "validateSubmittedReport (orb_lib K) ctx r rid scheme sig s = Inr v" for s v
    using that validateSubmittedReport_Inr(1) [OF that(2)] by (auto simp: ring_holds_def keyed_def read_ring_def)
next
  fix v assume v: "read_ring i Q (rep_RingId r) (vr_ring v)"
  have "keeps (ring_holds i Q) (maybeScheduleAutoReshareForReport K (vr_ring v) k n)" for k n
    unfolding maybeScheduleAutoReshareForReport_def Let_def using v
    by (intro keeps_if keeps_ret keeps_bindM keeps_getM keeps_case_option keeps_case_prod keeps_thenM keeps_emit
        keeps_validateAndSetRing; auto simp: read_ring_def intro!: canonical set_reporting set_reshare)
  then show "keeps (ring_holds i Q) (bindM (liftE (DemeritAmountForReportType (vr_ring v) (rep_ReportType r))) (\<lambda>amount.
      thenM (SetAcceptedReportPair (vr_reportID v) (vr_sessionDedupeID v) (vr_blockUnixTime v + ReportTTLSeconds))
      (bindM (IncrementNodeDemerits (rep_RingId r) (rep_AccusedNodeKey r) amount (vr_blockUnixTime v)
         (ResetIntervalSeconds (ring_DemeritConfig (ring_Reporting (vr_ring v))))) (\<lambda>d.
      thenM (maybeScheduleAutoReshareForReport K (vr_ring v) (rep_AccusedNodeKey r) d)
      (thenM (EmitEvent (''EventReportAccepted'',
         [(''report_id'', vr_reportID v), (''ring_id'', rep_RingId r), (''report_type'', rep_ReportType r),
          (''reporter_node_key'', rep_ReporterNodeKey r), (''accused_node_key'', rep_AccusedNodeKey r)]))
      (ret (vr_reportID v)))))))"
    unfolding IncrementNodeDemerits_def Let_def
    by (intro keeps_bindM keeps_liftE keeps_thenM keeps_getM keeps_ret keeps_emit)
      (auto intro: keeps_ring_leaves leaves_rules)
qed

end

locale resharing_ring_property = ring_property +
  fixes L :: orbis_lib
  assumes reshared: "Q r \<Longrightarrow> ringForReshareFinalization L r = Inr r' \<Longrightarrow> Q (r'\<lparr>BlockNumberNonce := n\<rparr>)"

context ring_property
begin

text \<open>Every message but the reshare finalization keeps the property of a ring.\<close>

lemma keeps_handle:
  assumes "\<And>c j sch sg. msg \<noteq> MsgFinalizeRingReshareByThresholdSignature c j sch sg"
  shows "keeps (ring_holds i Q) (Orbis_handle K ctx msg)"
proof (cases msg)
  case (MsgFinalizeRingReshareByThresholdSignature c j sch sg)
  with assms show ?thesis by blast
qed (auto intro!: keeps_noResult keeps_CreateRing keeps_FinalizeRing keeps_CancelPendingRing keeps_StartRingReshare
    keeps_CancelRingReshare keeps_SetRingPssInterval keeps_ScheduleRingUpgrade keeps_CancelRingUpgrade
    keeps_SetRingReporting keeps_AddRelay keeps_RemoveRelay keeps_SubmitReport intro: keeps_ring_leaves leaves_rules)

end

lemma reshare_Id: "ringForReshareFinalization L r = Inr r' \<Longrightarrow> ring_Id r' = ring_Id r"
  by (auto simp: ringForReshareFinalization_def Let_def split: if_splits option.splits)

text \<open>A ring with a property survives every step of the chain with the property.\<close>

context resharing_ring_property
begin

lemma keeps_FinalizeReshare:
  "orb_lib K = L \<Longrightarrow> keeps (ring_holds i Q) (FinalizeRingReshareByThresholdSignature K ctx c j sch sg)"
  unfolding FinalizeRingReshareByThresholdSignature_def Let_def
  by (rule keeps_theRing)
    (intro keeps_bindM keeps_bind_liftE keeps_checkM keeps_thenM keeps_emit keeps_SetRing;
      auto simp: read_ring_def dest: reshare_Id intro!: canonical reshared)

lemma step_keeps:
  assumes "orb_lib K = L" and "orbis_step K ctx s t" and "ring_holds i Q s"
  shows "ring_holds i Q t"
  using assms(2, 3)
proof (rule orbis_step_keeps)
  show "keeps (ring_holds i Q) (Orbis_handle K ctx msg)" for msg
  proof (cases msg)
    case (MsgFinalizeRingReshareByThresholdSignature c j sch sg)
    then show ?thesis using keeps_FinalizeReshare [OF assms(1)] by simp
  qed (rule keeps_handle; simp)+
  show "keeps (ring_holds i Q) (Orbis_EndBlock ctx)"
    unfolding Orbis_EndBlock_def by (intro keeps_ring_leaves leaves_rules)
qed (simp add: ring_holds_def keyed_def GetRing_def)

end

section \<open>Identity, committee and protocol version\<close>

definition ring_identity :: "Ring \<Rightarrow> string \<times> string \<times> string \<times> string \<times> bool \<times> bool \<times> string option" where
  "ring_identity r = (ring_Id r, ring_CreatorDid r, ring_Pk r, ring_PolicyId r, AllowTrustedAuthRelays r, RequiresPet r, ring_PetPk r)"

definition ring_committee :: "Ring \<Rightarrow> string list \<times> uint32" where
  "ring_committee r = (canonicalStrings (PeerNodeKeys r), Threshold r)"

lemmas ring_op_defs = canonicalRing_def canonicalStrings_def normalizeMaturedRingUpgrade_def clearRingUpgrade_def
  setRingUpgrade_def ringForReshareFinalization_def

interpretation identity: resharing_ring_property ctx "\<lambda>r. ring_Pk r \<noteq> '''' \<and> ring_identity r = idn" L for ctx idn L
  by unfold_locales
    (auto simp: ring_identity_def ring_op_defs Let_def split: option.splits if_splits)

interpretation committee: ring_property ctx "\<lambda>r. ring_Pk r \<noteq> '''' \<and> ring_committee r = cm" for ctx cm
  by unfold_locales
    (auto simp: ring_committee_def ring_op_defs Let_def sorted_sort_id split: option.splits if_splits)

definition version_reached :: "orbis_ctx \<Rightarrow> uint64 \<Rightarrow> Ring \<Rightarrow> bool" where
  "version_reached ctx v r \<longleftrightarrow> ring_Pk r \<noteq> '''' \<and> validateUpgradeInfo (ring_UpgradeInfo r) = None \<and>
     v \<le> effectiveReportProtocolVersion r (word_of_int (Unix (BlockTime ctx)))"

lemma upgrade_lead_pos:
  "\<not> (- 1 - MinRingUpgradeLeadSeconds < now) \<Longrightarrow> 0 < now + MinRingUpgradeLeadSeconds"
  unfolding MinRingUpgradeLeadSeconds_def by uint_arith simp

interpretation version: resharing_ring_property ctx "version_reached ctx v" L for ctx v L
  by unfold_locales
    (auto simp: version_reached_def ring_op_defs Let_def validateUpgradeInfo_def effectiveReportProtocolVersion_def
      currentBlockUnixTime_def validateRingUpgradeSchedule_def upgrade_lead_pos split: option.splits if_splits)

end
