(* ===== verification/Orbis_Ring_Inv.thy ===== *)
theory Orbis_Ring_Inv
  imports Orbis_Rings
begin

text \<open>
  Invariants of all stored rings.

  \<open>ring_invariant\<close> is the contract of a property that every ring gets when it is created and keeps when
  it collects confirmations, is finalized, is updated or is reshared; its lemmas carry the property
  through every step of the chain. It is interpreted for the trivial property, which leaves that a
  ring is stored under its own id, and for the well-formedness of rings.
\<close>

definition rings_all :: "(Ring \<Rightarrow> bool) \<Rightarrow> 'x orbis_state \<Rightarrow> bool" where
  "rings_all W s \<longleftrightarrow> (\<forall>i r. GetRing i s = Some r \<longrightarrow> ring_Id r = i \<and> W r)"

lemma rings_all_keyed: "rings_all W s \<Longrightarrow> keyed s"
  by (simp add: rings_all_def keyed_def)

lemma keeps_rings_leaves: "leaves ring_store m \<Longrightarrow> keeps (rings_all W) m"
  by (erule keeps_leaves) (simp add: rings_all_def GetRing_def)

lemma keeps_all_emit [keeps_rules]:
  "keeps (rings_all W) (EmitEvent e)"
  "keeps (rings_all W) (emitRingUpdated j d)"
  "keeps (rings_all W) (emitMaybe ev)"
  "keeps (rings_all W) (actorDID K ctx c)"
  "keeps (rings_all W) (signerPublicKeyHex K c)"
  "keeps (rings_all W) (ensureRingUpdatePermission K r d)"
  "keeps (rings_all W) (ensureRingCreatePermission K pol d)"
  "keeps (rings_all W) (registerRingACPObject K ctx c pol j)"
  "keeps (rings_all W) (requireReportingBackupNodeInfos ks)"
  "keeps (rings_all W) (requireWhitelisted r ks)"
  "keeps (rings_all W) (someM er x)"
  unfolding common_defs by (rule keeps_rings_leaves, intro leaves_rules)+

lemma keeps_all_SetRing: "W (canonicalRing r) \<Longrightarrow> keeps (rings_all W) (SetRing r)"
  unfolding SetRing_def by (rule keeps_modifyM) (auto simp: rings_all_def GetRing_def)

lemma keeps_all_DeleteRing: "keeps (rings_all W) (DeleteRing j)"
  unfolding DeleteRing_def by (rule keeps_modifyM) (auto simp: rings_all_def GetRing_def)

lemma keeps_all_validateAndSetRing:
  "(validateRing (orb_lib K) r = None \<Longrightarrow> W (canonicalRing r)) \<Longrightarrow> keeps (rings_all W) (validateAndSetRing K r)"
  unfolding validateAndSetRing_def by (intro keeps_rules keeps_all_SetRing)

lemma valid_all_theRing:
  "valid (rings_all W) (theRing j) (\<lambda>r s. rings_all W s \<and> W r) (rings_all W)"
  by (auto intro!: validI simp: theRing_def someM_def bindM_def rings_all_def split: option.splits)

lemma keeps_all_theRing:
  "(\<And>r. W r \<Longrightarrow> keeps (rings_all W) (f r)) \<Longrightarrow> keeps (rings_all W) (bindM (theRing j) f)"
  by (rule keeps_valid_bind [OF valid_all_theRing])

lemma valid_then_checkM:
  "(q = None \<Longrightarrow> valid P k (\<lambda>y s. P s \<and> C y) P) \<Longrightarrow> valid P (thenM (checkM q) k) (\<lambda>y s. P s \<and> C y) P"
  by (cases q) (auto simp: checkM_def checkE_def thenM_def bindM_def valid_def split: prod.splits sum.splits)

lemma keeps_all_beginRingUpdate:
  assumes "\<And>r d. W r \<Longrightarrow> ring_Pk r \<noteq> '''' \<Longrightarrow> keeps (rings_all W) (f r d)"
  shows "keeps (rings_all W) (bindM (beginRingUpdate K ctx c j) (\<lambda>(r, d). f r d))"
proof -
  have "valid (rings_all W) (beginRingUpdate K ctx c j)
     (\<lambda>x s. rings_all W s \<and> (case x of (r, d) \<Rightarrow> W r \<and> ring_Pk r \<noteq> '''')) (rings_all W)"
    unfolding beginRingUpdate_def
    by (rule valid_bind_keeps [OF valid_all_theRing])
      (intro valid_then_checkM valid_then_keeps valid_bind_keeps [OF keeps_valid_True] keeps_rules valid_ret,
        simp add: requireRingFinalized_def)
  then show ?thesis
    by (rule keeps_valid_bind) (auto intro: assms)
qed

lemma keeps_all_beginRelayUpdate:
  assumes "\<And>r d. W r \<Longrightarrow> keeps (rings_all W) (f r d)"
  shows "keeps (rings_all W) (bindM (beginRelayUpdate K ctx c j w) (\<lambda>(r, d). f r d))"
proof -
  have "valid (rings_all W) (beginRelayUpdate K ctx c j w)
     (\<lambda>x s. rings_all W s \<and> (case x of (r, d) \<Rightarrow> W r)) (rings_all W)"
    unfolding beginRelayUpdate_def
    by (rule valid_bind_keeps [OF valid_all_theRing])
      (intro valid_then_keeps valid_bind_keeps [OF keeps_valid_True] keeps_rules valid_ret, simp)
  then show ?thesis
    by (rule keeps_valid_bind) (auto intro: assms)
qed

section \<open>The contract of an invariant of rings\<close>

text \<open>What an update of a ring may change: not its keys, and of a pending ring only the relays.\<close>

definition same_keys :: "Ring \<Rightarrow> Ring \<Rightarrow> bool" where
  "same_keys r r' \<longleftrightarrow> ring_Id r' = ring_Id r \<and> ring_Pk r' = ring_Pk r \<and> ring_PetPk r' = ring_PetPk r \<and>
     RequiresPet r' = RequiresPet r \<and> Confirmations r' = Confirmations r \<and> PeerNodeKeys r' = PeerNodeKeys r"

locale ring_invariant =
  fixes L :: orbis_lib
    and W :: "Ring \<Rightarrow> bool"
  assumes created: "validateRingPSSInterval r = None \<Longrightarrow> validateRing L r = None \<Longrightarrow> ring_Pk r = '''' \<Longrightarrow>
      NewPeerNodeKeys r = [] \<Longrightarrow> NewThreshold r = None \<Longrightarrow> Confirmations r = [] \<Longrightarrow> ring_PetPk r = None \<Longrightarrow>
      W (canonicalRing r)"
    and confirmed: "W r \<Longrightarrow> ring_Pk r = '''' \<Longrightarrow> conf_NodeKey c \<in> set (PeerNodeKeys r) \<Longrightarrow>
      conf_NodeKey c \<notin> set (map conf_NodeKey (Confirmations r)) \<Longrightarrow>
      \<not> list_ex (confirmationConflicts r (conf_RingPk c) (conf_PetPk c)) (Confirmations r) \<Longrightarrow>
      (conf_PetPk c \<noteq> None) = RequiresPet r \<Longrightarrow> length (Confirmations r @ [c]) < length (PeerNodeKeys r) \<Longrightarrow>
      W (canonicalRing (r\<lparr>Confirmations := Confirmations r @ [c]\<rparr>))"
    and completed: "W r \<Longrightarrow> ring_Pk r = '''' \<Longrightarrow> pk \<noteq> '''' \<Longrightarrow> (pet \<noteq> None) = RequiresPet r \<Longrightarrow>
      r' = r\<lparr>ring_Pk := pk, ring_PetPk := pet, Confirmations := []\<rparr> \<Longrightarrow> validateRing L r' = None \<Longrightarrow>
      W (canonicalRing r')"
    and updated: "W r \<Longrightarrow> same_keys r r' \<Longrightarrow>
      ring_Pk r \<noteq> '''' \<or> (NewPeerNodeKeys r' = NewPeerNodeKeys r \<and> NewThreshold r' = NewThreshold r) \<Longrightarrow>
      PssInterval r' = PssInterval r \<or> validateRingPSSInterval r' = None \<Longrightarrow> validateRing L r' = None \<Longrightarrow>
      W (canonicalRing r')"
    and reshared: "W r \<Longrightarrow> ringForReshareFinalization L r = Inr r' \<Longrightarrow> W (canonicalRing (r'\<lparr>BlockNumberNonce := n\<rparr>))"

lemma same_keys_upgrade [simp]:
  "same_keys r (fst (normalizeMaturedRingUpgrade r now))"
  "same_keys r (clearRingUpgrade r)"
  "PssInterval (fst (normalizeMaturedRingUpgrade r now)) = PssInterval r"
  "PssInterval (clearRingUpgrade r) = PssInterval r"
  "same_keys r (setRingUpgrade n v a) = same_keys r n"
  "PssInterval (setRingUpgrade r v a) = PssInterval r"
  by (auto simp: same_keys_def normalizeMaturedRingUpgrade_def clearRingUpgrade_def setRingUpgrade_def Let_def
      split: option.splits)

lemma same_keys_set [simp]:
  "same_keys r (r'\<lparr>NewPeerNodeKeys := ks\<rparr>) = same_keys r r'"
  "same_keys r (r'\<lparr>NewThreshold := th\<rparr>) = same_keys r r'"
  "same_keys r (r'\<lparr>PssInterval := p\<rparr>) = same_keys r r'"
  "same_keys r (r'\<lparr>ring_Reporting := c\<rparr>) = same_keys r r'"
  "same_keys r (r'\<lparr>TrustedAuthRelayDids := ds\<rparr>) = same_keys r r'"
  "same_keys r r"
  by (simp_all add: same_keys_def)

lemma same_keys_normalized:
  assumes "maybeNormalizeMaturedRingUpgrade ctx r0 = Inr (r, ev)"
  shows "same_keys r0 r" "PssInterval r = PssInterval r0"
  using assms by (auto elim!: maybeNormalize_cases)

section \<open>Every message keeps the invariant\<close>

context ring_invariant
begin

lemma all_normalized:
  assumes "\<And>r ev. same_keys r0 r \<Longrightarrow> PssInterval r = PssInterval r0 \<Longrightarrow> keeps (rings_all W) (f r ev)"
  shows "keeps (rings_all W) (bindM (liftE (maybeNormalizeMaturedRingUpgrade ctx r0)) (\<lambda>(r, ev). f r ev))"
  by (rule keeps_bind_liftE) (auto intro!: assms dest: same_keys_normalized)

lemma all_CreateRing: "orb_lib K = L \<Longrightarrow> keeps (rings_all W) (CreateRing K ctx msg)"
  unfolding CreateRing_def Let_def
  by (intro keeps_bindM keeps_all_emit keeps_thenM keeps_forM keeps_then_guardM keeps_checkM
      keeps_getM keeps_all_SetRing keeps_ret) (rule created, simp_all add: createdRing_def)

lemma all_FinalizeRing:
  assumes "orb_lib K = L" and "pk \<noteq> ''''"
  shows "keeps (rings_all W) (FinalizeRing K ctx c j pk pp)"
  unfolding FinalizeRing_def Let_def
proof (rule keeps_all_theRing, intro keeps_then_guardM keeps_checkM keeps_bindM keeps_all_emit keeps_if keeps_thenM
    keeps_all_DeleteRing keeps_all_SetRing keeps_all_validateAndSetRing keeps_ret)
  fix r k
  assume *: "W r" "ring_Pk r = ''''" "RequiresPet r \<longrightarrow> pp \<noteq> None" "\<not> RequiresPet r \<longrightarrow> pp = None"
    "k \<in> set (PeerNodeKeys r)" "k \<notin> set (map conf_NodeKey (Confirmations r))"
    "\<not> list_ex (confirmationConflicts r pk pp) (Confirmations r)"
  let ?c = "\<lparr>conf_NodeKey = k, conf_RingPk = pk, conf_PetPk = pp\<rparr>"
  show "W (canonicalRing (r\<lparr>Confirmations := Confirmations r @ [?c]\<rparr>))"
    if "length (Confirmations (r\<lparr>Confirmations := Confirmations r @ [?c]\<rparr>))
        < length (PeerNodeKeys (r\<lparr>Confirmations := Confirmations r @ [?c]\<rparr>))"
    by (rule confirmed) (use * that in auto)
  show "W (canonicalRing (r\<lparr>Confirmations := Confirmations r @ [?c], ring_Pk := pk, ring_PetPk := pp, Confirmations := []\<rparr>))"
    if "validateRing (orb_lib K) (r\<lparr>Confirmations := Confirmations r @ [?c], ring_Pk := pk, ring_PetPk := pp, Confirmations := []\<rparr>) = None"
    by (rule completed [OF *(1, 2) assms(2)]) (use * that assms(1) in auto)
qed

lemma all_CancelPendingRing: "keeps (rings_all W) (CancelPendingRing K ctx c j)"
  unfolding CancelPendingRing_def
  by (rule keeps_all_theRing)
    (intro keeps_then_guardM keeps_bindM keeps_all_emit keeps_if keeps_thenM keeps_all_DeleteRing keeps_ret)

lemma all_StartRingReshare: "orb_lib K = L \<Longrightarrow> keeps (rings_all W) (StartRingReshareByAcp K ctx c j ks th)"
  unfolding StartRingReshareByAcp_def Let_def
  by (rule keeps_all_beginRingUpdate, rule all_normalized)
    (intro keeps_checkM keeps_thenM keeps_all_emit keeps_all_validateAndSetRing, erule updated, auto)

lemma all_CancelRingReshare: "orb_lib K = L \<Longrightarrow> keeps (rings_all W) (CancelRingReshareByAcp K ctx c j)"
  unfolding CancelRingReshareByAcp_def
  by (rule keeps_all_beginRingUpdate)
    (intro keeps_then_guardM keeps_thenM keeps_all_emit keeps_all_validateAndSetRing, erule updated, auto)

lemma all_SetRingPssInterval: "orb_lib K = L \<Longrightarrow> keeps (rings_all W) (SetRingPssIntervalByAcp K ctx c j p)"
  unfolding SetRingPssIntervalByAcp_def
  by (rule keeps_all_beginRingUpdate, rule all_normalized)
    (intro keeps_checkM keeps_then_guardM keeps_thenM keeps_all_emit keeps_all_validateAndSetRing, erule updated, auto)

lemma all_ScheduleRingUpgrade: "orb_lib K = L \<Longrightarrow> keeps (rings_all W) (ScheduleRingUpgradeByAcp K ctx c j v a)"
  unfolding ScheduleRingUpgradeByAcp_def Let_def
  by (rule keeps_all_beginRingUpdate)
    (intro keeps_bind_liftE keeps_case_prod keeps_then_guardM keeps_checkM keeps_thenM keeps_all_emit
      keeps_all_validateAndSetRing, erule updated, auto dest!: arg_cong [of _ _ fst])

lemma all_CancelRingUpgrade: "orb_lib K = L \<Longrightarrow> keeps (rings_all W) (CancelRingUpgradeByAcp K ctx c j)"
  unfolding CancelRingUpgradeByAcp_def
  by (rule keeps_all_beginRingUpdate)
    (intro keeps_case_prod keeps_case_option keeps_fail keeps_bind_liftE keeps_then_guardM keeps_checkM keeps_thenM
      keeps_all_emit keeps_all_validateAndSetRing, erule updated, auto)

lemma all_SetRingReporting: "orb_lib K = L \<Longrightarrow> keeps (rings_all W) (SetRingReportingByAcp K ctx c j rc)"
  unfolding SetRingReportingByAcp_def Let_def
  by (rule keeps_all_beginRingUpdate, rule all_normalized)
    (intro keeps_checkM keeps_thenM keeps_all_emit keeps_all_SetRing, erule updated, auto)

lemma all_relays:
  assumes "orb_lib K = L"
  shows "keeps (rings_all W) (AddRingTrustedAuthRelayByAcp K ctx c j d)"
    and "keeps (rings_all W) (RemoveRingTrustedAuthRelayByAcp K ctx c j d)"
  unfolding AddRingTrustedAuthRelayByAcp_def RemoveRingTrustedAuthRelayByAcp_def using assms
  by (rule_tac [!] keeps_all_beginRelayUpdate)
    (intro keeps_then_guardM keeps_thenM keeps_all_emit keeps_all_validateAndSetRing, erule updated, auto)+

lemma all_FinalizeReshare:
  "orb_lib K = L \<Longrightarrow> keeps (rings_all W) (FinalizeRingReshareByThresholdSignature K ctx c j sch sg)"
  unfolding FinalizeRingReshareByThresholdSignature_def Let_def
  by (rule keeps_all_theRing)
    (intro keeps_bindM keeps_bind_liftE keeps_checkM keeps_thenM keeps_all_emit keeps_all_SetRing, auto intro: reshared)

end

lemma SubmitReport_rest_leaves:
  "leaves ring_store (IncrementNodeDemerits i k a now n)"
  unfolding IncrementNodeDemerits_def Let_def by (intro leaves_rules)

context ring_invariant
begin

lemma all_AutoReshare:
  "orb_lib K = L \<Longrightarrow> W r \<Longrightarrow> ring_Pk r \<noteq> '''' \<Longrightarrow> keeps (rings_all W) (maybeScheduleAutoReshareForReport K r k n)"
  unfolding maybeScheduleAutoReshareForReport_def Let_def
  by (intro keeps_if keeps_ret keeps_bindM keeps_getM keeps_case_option keeps_case_prod keeps_thenM keeps_all_emit
      keeps_all_validateAndSetRing, erule updated, auto)

lemma all_SubmitReport:
  assumes "orb_lib K = L"
  shows "keeps (rings_all W) (SubmitReport K ctx r rid scheme sig)"
  unfolding SubmitReport_def
proof (rule keeps_bind_readM)
  show "W (vr_ring v) \<and> ring_Pk (vr_ring v) \<noteq> ''''"
    if "rings_all W s" "validateSubmittedReport (orb_lib K) ctx r rid scheme sig s = Inr v" for s v
    using that(1) validateSubmittedReport_Inr(1, 2) [OF that(2)] by (auto simp: rings_all_def)
qed (intro keeps_bindM keeps_liftE keeps_thenM keeps_getM keeps_ret keeps_all_emit all_AutoReshare [OF assms],
  auto intro: keeps_rings_leaves leaves_rules SubmitReport_rest_leaves)

lemma all_handle:
  assumes "orb_lib K = L" and "Orbis_ValidateBasic (orb_lib K) (orb_codec K) msg = None"
  shows "keeps (rings_all W) (Orbis_handle K ctx msg)"
  using assms by (cases msg)
    (auto simp: ValidateBasic_defs
      intro!: keeps_noResult all_CreateRing all_FinalizeRing all_CancelPendingRing all_StartRingReshare
      all_CancelRingReshare all_SetRingPssInterval all_ScheduleRingUpgrade all_CancelRingUpgrade
      all_SetRingReporting all_relays all_FinalizeReshare all_SubmitReport intro: keeps_rings_leaves leaves_rules)

lemma all_step:
  assumes "orb_lib K = L" and "orbis_step K ctx s t" and "rings_all W s"
  shows "rings_all W t"
  using assms(2, 3)
proof (rule orbis_step_keeps)
  show "keeps (rings_all W) (Orbis_EndBlock ctx)"
    unfolding Orbis_EndBlock_def by (intro keeps_rings_leaves leaves_rules)
  show "keeps (rings_all W) (Orbis_handle K ctx msg)"
    if "Orbis_ValidateBasic (orb_lib K) (orb_codec K) msg = None" for msg
    using assms(1) that by (rule all_handle)
qed (simp add: rings_all_def GetRing_def)

lemma all_run:
  assumes "orb_lib K = L" and "orbis_run K cs s t" and "rings_all W s"
  shows "rings_all W t"
  using assms(2, 3)
proof (induction rule: orbis_run.induct)
  case (run_snoc cs s t c u)
  then show ?case using all_step [OF assms(1)] by simp
qed

end

section \<open>Well-formed rings\<close>

text \<open>
  A stored ring passes the validation of rings and has its lists in canonical order. A pending ring
  has fewer confirmations than peers; they come from different peers and agree on the keys; it has no
  public key yet and no reshare. A finalized ring has no confirmations left.
\<close>

definition confirmations_ok :: "Ring \<Rightarrow> bool" where
  "confirmations_ok r \<longleftrightarrow>
     distinct (map conf_NodeKey (Confirmations r)) \<and>
     set (map conf_NodeKey (Confirmations r)) \<subseteq> set (PeerNodeKeys r) \<and>
     (\<forall>c\<in>set (Confirmations r). (conf_PetPk c \<noteq> None) = RequiresPet r \<and>
        conf_RingPk c = conf_RingPk (hd (Confirmations r)) \<and> conf_PetPk c = conf_PetPk (hd (Confirmations r)))"

definition ring_wf :: "orbis_lib \<Rightarrow> Ring \<Rightarrow> bool" where
  "ring_wf L r \<longleftrightarrow> validateRing L r = None \<and> validateRingPSSInterval r = None \<and> canonicalRing r = r \<and>
     confirmations_ok r \<and>
     (if ring_Pk r = '''' then \<not> reshareInProgress r \<and> ring_PetPk r = None \<and> length (Confirmations r) < length (PeerNodeKeys r)
      else Confirmations r = [] \<and> (ring_PetPk r \<noteq> None) = RequiresPet r)"

lemma sort_eq_Nil_iff [simp]: "sort xs = [] \<longleftrightarrow> xs = []"
  by (metis length_0_conv length_sort)

lemma validateRing_canonical [simp]: "validateRing L (canonicalRing r) = None \<longleftrightarrow> validateRing L r = None"
  by (cases "NewThreshold r") (simp_all add: validateRing_def canonicalRing_def canonicalStrings_def
      validateUniquePeerNodeKeys_def ValidateTrustedAuthRelayConfig_def ValidateTrustedAuthRelayDIDs_def)

lemma canonicalRing_idem [simp]: "canonicalRing (canonicalRing r) = canonicalRing r"
  by (simp add: canonicalRing_def canonicalStrings_def sorted_sort_id)

lemma canonicalRing_simps [simp]:
  "ring_Pk (canonicalRing r) = ring_Pk r" "ring_PetPk (canonicalRing r) = ring_PetPk r"
  "RequiresPet (canonicalRing r) = RequiresPet r" "Confirmations (canonicalRing r) = Confirmations r"
  "PssInterval (canonicalRing r) = PssInterval r" "set (PeerNodeKeys (canonicalRing r)) = set (PeerNodeKeys r)"
  "length (PeerNodeKeys (canonicalRing r)) = length (PeerNodeKeys r)"
  "reshareInProgress (canonicalRing r) = reshareInProgress r"
  "validateRingPSSInterval (canonicalRing r) = validateRingPSSInterval r"
  by (simp_all add: canonicalRing_def canonicalStrings_def reshareInProgress_def validateRingPSSInterval_def)

lemma confirmations_ok_canonical [simp]: "confirmations_ok (canonicalRing r) = confirmations_ok r"
  by (simp add: confirmations_ok_def)

lemma ring_wf_canonical:
  "ring_wf L (canonicalRing r) \<longleftrightarrow> validateRing L r = None \<and> validateRingPSSInterval r = None \<and> confirmations_ok r \<and>
     (if ring_Pk r = '''' then \<not> reshareInProgress r \<and> ring_PetPk r = None \<and> length (Confirmations r) < length (PeerNodeKeys r)
      else Confirmations r = [] \<and> (ring_PetPk r \<noteq> None) = RequiresPet r)"
  by (simp add: ring_wf_def)

lemma validateRing_irrelevant [simp]:
  "validateRing L (r\<lparr>Confirmations := cs\<rparr>) = validateRing L r"
  "validateRing L (r\<lparr>BlockNumberNonce := n\<rparr>) = validateRing L r"
  by (cases "NewThreshold r"; simp add: validateRing_def)+

lemma confirmations_ok_snoc:
  assumes "confirmations_ok r" and "conf_NodeKey c \<in> set (PeerNodeKeys r)"
    and "conf_NodeKey c \<notin> set (map conf_NodeKey (Confirmations r))"
    and "\<not> list_ex (confirmationConflicts r (conf_RingPk c) (conf_PetPk c)) (Confirmations r)"
    and "(conf_PetPk c \<noteq> None) = RequiresPet r"
  shows "confirmations_ok (r\<lparr>Confirmations := Confirmations r @ [c]\<rparr>)"
proof (cases "Confirmations r")
  case (Cons d ds)
  have agree: "conf_RingPk x = conf_RingPk c \<and> conf_PetPk x = conf_PetPk c" if "x \<in> set (Confirmations r)" for x
    using assms(1, 4, 5) that
    by (auto simp: list_ex_iff confirmationConflicts_def confirmations_ok_def petValue_def split: option.splits)
  show ?thesis
    using assms agree Cons by (auto simp: confirmations_ok_def)
qed (use assms in \<open>auto simp: confirmations_ok_def\<close>)

lemma same_keys_confirmations_ok: "same_keys r r' \<Longrightarrow> confirmations_ok r' = confirmations_ok r"
  by (simp add: same_keys_def confirmations_ok_def)

lemma confirmations_ok_Nil: "Confirmations r = [] \<Longrightarrow> confirmations_ok r"
  by (simp add: confirmations_ok_def)

interpretation keyed_rings: ring_invariant L "\<lambda>_. True" for L
  by unfold_locales simp_all

interpretation wf_rings: ring_invariant L "ring_wf L" for L
proof unfold_locales
  show "ring_wf L (canonicalRing r)"
    if "validateRingPSSInterval r = None" "validateRing L r = None" "ring_Pk r = ''''" "NewPeerNodeKeys r = []"
      "NewThreshold r = None" "Confirmations r = []" "ring_PetPk r = None" for r
    using that by (simp add: ring_wf_canonical confirmations_ok_def reshareInProgress_def) (simp add: validateRing_def)
  show "ring_wf L (canonicalRing (r\<lparr>Confirmations := Confirmations r @ [c]\<rparr>))"
    if "ring_wf L r" "ring_Pk r = ''''" "conf_NodeKey c \<in> set (PeerNodeKeys r)"
      "conf_NodeKey c \<notin> set (map conf_NodeKey (Confirmations r))"
      "\<not> list_ex (confirmationConflicts r (conf_RingPk c) (conf_PetPk c)) (Confirmations r)"
      "(conf_PetPk c \<noteq> None) = RequiresPet r" "length (Confirmations r @ [c]) < length (PeerNodeKeys r)" for r c
    using that confirmations_ok_snoc [OF _ that(3-6)]
    by (simp add: ring_wf_canonical) (simp add: ring_wf_def reshareInProgress_def validateRingPSSInterval_def)
  show "ring_wf L (canonicalRing r')"
    if "ring_wf L r" "ring_Pk r = ''''" "pk \<noteq> ''''" "(pet \<noteq> None) = RequiresPet r"
      "r' = r\<lparr>ring_Pk := pk, ring_PetPk := pet, Confirmations := []\<rparr>" "validateRing L r' = None" for r r' pk pet
  proof -
    have "validateRingPSSInterval r = None" using that(1) by (simp only: ring_wf_def)
    then show ?thesis
      using that(3, 4, 6) unfolding ring_wf_canonical that(5) by (simp add: confirmations_ok_def validateRingPSSInterval_def)
  qed
  show "ring_wf L (canonicalRing r')"
    if "ring_wf L r" "same_keys r r'"
      "ring_Pk r \<noteq> '''' \<or> NewPeerNodeKeys r' = NewPeerNodeKeys r \<and> NewThreshold r' = NewThreshold r"
      "PssInterval r' = PssInterval r \<or> validateRingPSSInterval r' = None" "validateRing L r' = None" for r r'
    using that(1, 3-5) same_keys_confirmations_ok [OF that(2)] that(2) [unfolded same_keys_def]
    unfolding ring_wf_canonical unfolding ring_wf_def reshareInProgress_def validateRingPSSInterval_def
    by (auto split: if_splits)
  show "ring_wf L (canonicalRing (r'\<lparr>BlockNumberNonce := n\<rparr>))"
    if "ring_wf L r" "ringForReshareFinalization L r = Inr r'" for r r' n
    using that unfolding ring_wf_canonical
    by (auto simp: ringForReshareFinalization_def Let_def ring_wf_def confirmations_ok_Nil validateRingPSSInterval_def
        split: if_splits option.splits)
qed

section \<open>Reachable states\<close>

lemma keeps_all_genesis:
  assumes "\<And>r. r \<in> set (og_Rings g) \<Longrightarrow> W (canonicalRing (genesisRing (og_Params g) r))"
  shows "keeps (rings_all W) (Orbis_InitGenesis g)"
  unfolding Orbis_InitGenesis_def
proof (intro keeps_bindM keeps_case_sum keeps_thenM keeps_forM keeps_panicM keeps_case_prod keeps_case_option keeps_ret)
  show "keeps (rings_all W) (tryM (Orbis_SetParams (og_Params g)))"
    by (intro keeps_tryM keeps_rings_leaves leaves_rules)
qed (auto intro: keeps_rings_leaves leaves_rules keeps_all_SetRing assms simp: SetNodeDemerits_def)

lemma rings_all_init: "rings_all W (orbis_init x)"
  by (simp add: rings_all_def orbis_init_def GetRing_def)

context ring_invariant
begin

lemma all_reachable:
  assumes "orb_lib K = L" and "orbis_reachable K g cs s"
    and "\<And>r. r \<in> set (og_Rings g) \<Longrightarrow> W (canonicalRing (genesisRing (og_Params g) r))"
  shows "rings_all W s"
proof -
  have "keeps (rings_all W) (Orbis_InitGenesis g)"
    by (rule keeps_all_genesis) (rule assms(3))
  then show ?thesis
    using assms(2) all_run [OF assms(1)] keepsD_Inr rings_all_init unfolding orbis_reachable_def by metis
qed

end

lemma reachable_keyed: "orbis_reachable K g cs s \<Longrightarrow> keyed s"
  by (rule rings_all_keyed, rule keyed_rings.all_reachable) simp_all

end
