(* ===== verification/Orbis_Props.thy ===== *)
theory Orbis_Props
  imports Orbis_Ring_Inv
begin

text \<open>
  The properties of rings: what a finalized ring keeps, that stored rings are well formed, that a ring
  is finalized by all its peers, and that its protocol version never goes back.
\<close>

section \<open>Demonstration values\<close>

text \<open>
  Witnesses run the module on a small instance: every account has the public key that is written in
  its address, every access request is granted, every signature is valid and all hashes are alike.
\<close>

definition demo_lib :: orbis_lib where
  "demo_lib =
     \<lparr>Sha256 = (\<lambda>_. replicate 32 CHR 0x00), JsonObject = (\<lambda>_. Inl ErrNotFound), JsonElems = (\<lambda>_. Inl ErrNotFound),
      JsonUint16 = (\<lambda>_. Inl ErrNotFound), BlsVerifyCompressed = (\<lambda>_ _ _. True), BlsKeyValidate = (\<lambda>_. Some True),
      JubjubIsIdentity = (\<lambda>_. Inr False), JubjubVerify = (\<lambda>_ _ _. Inr True),
      MarshalSignState = (\<lambda>_. Inr []), MarshalSignDoc = (\<lambda>_. Inr []),
      DecodeDIDKey = (\<lambda>d. Inr (d, Ed25519))\<rparr>"

definition demo_orbis :: "unit OrbisKeeper" where
  "demo_orbis =
     \<lparr>orb_lib = demo_lib, orb_codec = std_codec\<lparr>AccFromBech32 := Inr\<rparr>, orb_did = std_did, orb_authority = ''gov'',
      orb_FromBech32 = Inr, orb_GetAccount = (\<lambda>a _. Some (Some (Secp256k1PubKey a))), orb_HasICA = (\<lambda>_ _. False),
      orb_RegisterObject = (\<lambda>_ _ _ _ _. ret ()), orb_VerifyAccess = (\<lambda>_ _ _ _ _ _. Inr True),
      orb_SpendableCoins = (\<lambda>_ _. []), orb_IsZeroCoins = (\<lambda>_. True), orb_CoinsString = (\<lambda>_. ''''),
      orb_SendCoins = (\<lambda>_ _ _. ret ())\<rparr>"

text \<open>The public keys of three nodes, and their names in a ring.\<close>

definition addr_a :: addr where "addr_a = CHR 0x02 # replicate 32 CHR 0x00"
definition addr_b :: addr where "addr_b = CHR 0x03 # replicate 32 CHR 0x00"
definition addr_c :: addr where "addr_c = CHR 0x04 # replicate 32 CHR 0x00"
definition key_a :: string where "key_a = hex_EncodeToString addr_a"
definition key_b :: string where "key_b = hex_EncodeToString addr_b"
definition key_c :: string where "key_c = hex_EncodeToString addr_c"

lemma hex_digit_not_x: "n < 16 \<Longrightarrow> hex_digit n \<noteq> CHR ''x''"
proof
  assume "n < 16" "hex_digit n = CHR ''x''"
  then show False using hex_val_digit [of n] by (simp add: hex_val_def)
qed

lemma TrimPrefix_hex: "TrimPrefix (hex_EncodeToString bs) ''0x'' = hex_EncodeToString bs"
  by (cases bs) (auto simp: TrimPrefix_def hex_EncodeToString_def hex_digit_not_x [THEN not_sym])

lemma hex_key_ok: "length bs = 33 \<Longrightarrow> validatePeerNodeKeyFormat (hex_EncodeToString bs) = None"
  by (auto simp: validatePeerNodeKeyFormat_def TrimPrefix_hex compressedPubKeyLen_def failIf_def
      dest: arg_cong [of _ _ length])

lemmas key_defs = key_a_def key_b_def key_c_def addr_a_def addr_b_def addr_c_def

lemma keys_ok [simp]:
  "validatePeerNodeKeyFormat key_a = None" "validatePeerNodeKeyFormat key_b = None" "validatePeerNodeKeyFormat key_c = None"
  by (simp_all add: key_defs hex_key_ok)

lemma keys_less [simp]: "key_a < key_b" "key_b < key_c"
  by (simp_all add: key_defs hex_EncodeToString_def hex_digit_def less_char_def)

lemma length_keys [simp]: "length key_a = 66" "length key_b = 66" "length key_c = 66"
  by (simp_all add: key_defs)

lemma keys_neq [simp]:
  "key_a \<noteq> key_b" "key_b \<noteq> key_a" "key_a \<noteq> key_c" "key_b \<noteq> key_c" "key_c \<noteq> key_a" "key_c \<noteq> key_b"
  "\<not> key_b \<le> key_a" "key_a \<le> key_b" "key_b \<le> key_c" "\<not> key_c \<le> key_b" "key_a \<le> key_c"
  using keys_less less_trans [OF keys_less] by (auto simp del: keys_less)

lemma keys_nonempty [simp]:
  "key_a \<noteq> ''''" "key_b \<noteq> ''''" "key_c \<noteq> ''''" "'''' \<noteq> key_a" "'''' \<noteq> key_b" "'''' \<noteq> key_c"
  by (metis length_keys list.size(3) zero_neq_numeral)+

definition demo_ring :: Ring where
  "demo_ring =
     \<lparr>ring_Id = ''ring'', ring_CreatorDid = ''did:key:creator'', ring_Pk = ''aa'', PeerNodeKeys = [key_a, key_b], Threshold = 2,
      NewPeerNodeKeys = [], NewThreshold = Some 1, PssInterval = 86400, BlockNumberNonce = 0, ring_PolicyId = ''policy'',
      Confirmations = [], ring_UpgradeInfo = \<lparr>CurrentVersion = 1, NextVersion = Some 2, ActivationTime = Some 1000\<rparr>,
      ring_Reporting = ReportingConfigFromDefaults DefaultReportingDefaults, TrustedAuthRelayDids = [],
      AllowTrustedAuthRelays = False, RequiresPet = False, ring_PetPk = None\<rparr>"

definition demo_pending :: Ring where
  "demo_pending = demo_ring\<lparr>ring_Pk := '''', NewThreshold := None,
     Confirmations := [\<lparr>conf_NodeKey = key_a, conf_RingPk = ''aa'', conf_PetPk = None\<rparr>]\<rparr>"

definition demo_fresh :: Ring where
  "demo_fresh = demo_pending\<lparr>Confirmations := []\<rparr>"

definition demo_genesis :: "Ring list \<Rightarrow> OrbisGenesis" where
  "demo_genesis rs =
     \<lparr>og_Params = Orbis_DefaultParams, og_Rings = rs, og_Documents = [], og_KeyDerivations = [], og_NodeInfos = [],
      og_NodeDemerits = [], og_AcceptedReportPairs = []\<rparr>"

definition demo_at :: "int \<Rightarrow> orbis_ctx" where
  "demo_at n = \<lparr>BlockTime = n * 1000000000, BlockHeight = 7, ExtractedDID = '''', ChainID = ''vera''\<rparr>"

definition demo_rings :: "Ring list \<Rightarrow> unit orbis_state" where
  "demo_rings rs = snd (Orbis_InitGenesis (demo_genesis rs) (orbis_init ()))"

lemma forM_modifyM: "forM xs (\<lambda>x. modifyM (g x)) s = (Inr (), fold g xs s)"
  unfolding forM_def by (induction xs arbitrary: s) simp_all

lemma demo_genesis_run:
  "Orbis_InitGenesis (demo_genesis rs) (orbis_init x) =
     (Inr (), (orbis_init x)\<lparr>orbis_params := Some Orbis_DefaultParams,
        ring_store := fold (\<lambda>r. kv_set (ring_Id r) (canonicalRing (genesisRing Orbis_DefaultParams r))) rs []\<rparr>)"
proof -
  have rings: "fold (\<lambda>r s. s\<lparr>ring_store := kv_set (h r) (f r) (ring_store s)\<rparr>) rs s =
      s\<lparr>ring_store := fold (\<lambda>r. kv_set (h r) (f r)) rs (ring_store s)\<rparr>"
    for h f and s :: "'a orbis_state"
    by (induction rs arbitrary: s) simp_all
  have "tryM (Orbis_SetParams Orbis_DefaultParams) s = (Inr (Inr ()), s\<lparr>orbis_params := Some Orbis_DefaultParams\<rparr>)"
    for s :: "'a orbis_state"
    by (simp add: Orbis_SetParams_def DefaultParams_valid checkM_def checkE_def tryM_def m_defs)
  moreover have "ring_Id (genesisRing p r) = ring_Id r" for p r
    by (simp add: genesisRing_def)
  ultimately show ?thesis
    by (simp add: Orbis_InitGenesis_def demo_genesis_def SetRing_def forM_modifyM rings bindM_def thenM_def forM_Nil
        orbis_init_def)
qed

lemma demo_reachable: "orbis_reachable demo_orbis (demo_genesis rs) [] (demo_rings rs)"
  unfolding orbis_reachable_def demo_rings_def by (auto simp: demo_genesis_run intro: orbis_run.run_Nil)

lemma demo_ring_wf: "ring_wf demo_lib demo_ring" "ring_wf demo_lib demo_pending" "ring_wf demo_lib demo_fresh"
  by (simp_all add: ring_wf_def demo_ring_def demo_pending_def demo_fresh_def validateRing_def validateUpgradeInfo_def
      validateReportingConfig_def ReportingConfigFromDefaults_def DefaultReportingDefaults_def ValidateReportingConfig_def
      ValidateDemeritConfig_def DefaultDemeritConfig_def ValidateTrustedAuthRelayConfig_def ValidateTrustedAuthRelayDIDs_def
      validateUniquePeerNodeKeys_def uniqueBy_None validateEffectiveReshareThreshold_def validateRingPSSInterval_def
      ValidatePSSInterval_def MinPSSIntervalSeconds_def canonicalRing_def canonicalStrings_def confirmations_ok_def
      reshareInProgress_def word_le_nat_alt)

lemma demo_genesis_ring:
  "canonicalRing (genesisRing Orbis_DefaultParams demo_ring) = demo_ring"
  "canonicalRing (genesisRing Orbis_DefaultParams demo_pending) = demo_pending"
  "canonicalRing (genesisRing Orbis_DefaultParams demo_fresh) = demo_fresh"
  using demo_ring_wf
  by (simp_all add: genesisRing_def demo_ring_def demo_pending_def demo_fresh_def zeroReportingConfig_def ReportingConfigFromDefaults_def
      DefaultReportingDefaults_def DefaultDemeritConfig_def ring_wf_def)

lemma demo_rings_get:
  "GetRing ''ring'' (demo_rings [demo_ring]) = Some demo_ring"
  "GetRing ''ring'' (demo_rings [demo_pending]) = Some demo_pending"
  "GetRing ''ring'' (demo_rings [demo_fresh]) = Some demo_fresh"
  by (simp_all add: demo_rings_def demo_genesis_run demo_genesis_ring GetRing_def)
    (simp_all add: demo_ring_def demo_pending_def demo_fresh_def)

lemma demo_end_block: "Orbis_EndBlock ctx (demo_rings rs) = (Inr (), demo_rings rs)"
proof -
  have "accepted_expiry_store (demo_rings rs) = []"
    by (simp add: demo_rings_def demo_genesis_run) (simp add: orbis_init_def)
  then show ?thesis by (simp add: Orbis_EndBlock_def DeleteExpiredAcceptedReportPairs_def)
qed

section \<open>Finalized rings\<close>

lemma actorDID_Inr: "actorDID K ctx c s = (Inr d, t) \<Longrightarrow> t = s"
  by (auto simp: actorDID_def extOR_def)

lemma theRing_Inr: "theRing j s = (Inr r, t) \<longleftrightarrow> GetRing j s = Some r \<and> t = s"
  by (auto simp: theRing_def someM_def bindM_def split: option.splits)

text \<open>What a reshare needs, and the ring it stores.\<close>

definition reshare_signed :: "'x OrbisKeeper \<Rightarrow> orbis_ctx \<Rightarrow> Ring \<Rightarrow> Ring \<Rightarrow> bool" where
  "reshare_signed K ctx r r' \<longleftrightarrow> (\<exists>n scheme signature message.
     ringForReshareFinalization (orb_lib K) r = Inr n \<and>
     ringReshareFinalizeSignBytes (orb_lib K) (ChainID ctx) r n = Inr message \<and>
     verifyThresholdSignature (orb_lib K) scheme (ring_Pk r) message signature = None \<and>
     r' = canonicalRing (n\<lparr>BlockNumberNonce := word_of_int (BlockHeight ctx)\<rparr>))"

lemma FinalizeReshare_Inr:
  assumes "FinalizeRingReshareByThresholdSignature K ctx c j scheme signature s = (Inr (), t)" and "keyed s"
  shows "\<exists>r r'. GetRing j s = Some r \<and> reshare_signed K ctx r r' \<and> ring_store t = kv_set j r' (ring_store s)"
proof -
  obtain r d n message where *: "GetRing j s = Some r" "ringForReshareFinalization (orb_lib K) r = Inr n"
    "ringReshareFinalizeSignBytes (orb_lib K) (ChainID ctx) r n = Inr message"
    "verifyThresholdSignature (orb_lib K) scheme (ring_Pk r) message signature = None"
    "ring_store t = kv_set (ring_Id n) (canonicalRing (n\<lparr>BlockNumberNonce := word_of_int (BlockHeight ctx)\<rparr>)) (ring_store s)"
    using assms(1) unfolding FinalizeRingReshareByThresholdSignature_def Let_def
    by (auto simp: bindM_Inr_iff thenM_Inr_iff theRing_Inr checkM_def checkE_Inr SetRing_def emitRingUpdated_def EmitEvent_def
        dest!: actorDID_Inr)
  moreover have "ring_Id n = j"
    using reshare_Id [OF *(2)] *(1) assms(2) by (auto simp: keyed_def)
  ultimately show ?thesis
    unfolding reshare_signed_def by blast
qed

lemma reshare_committee:
  assumes "keyed s" and "GetRing i s = Some r" and "GetRing i t = Some r'"
    and "Orbis_deliver K ctx (MsgFinalizeRingReshareByThresholdSignature c j scheme signature) s = (u, t)"
  shows "r' = r \<or> reshare_signed K ctx r r'"
proof (cases u)
  case (Inl e)
  then have "t = s" using assms(4) unfolding Orbis_deliver_def by (auto dest: cacheCtx_Inl)
  then show ?thesis using assms(2, 3) by simp
next
  case (Inr y)
  then have "FinalizeRingReshareByThresholdSignature K ctx c j scheme signature s = (Inr (), t)"
    using assms(4) unfolding Orbis_deliver_def
    by (auto simp: cacheCtx_def checkM_def thenM_Inr_iff split: prod.splits sum.splits)
  from FinalizeReshare_Inr [OF this assms(1)] show ?thesis
    using assms(2, 3) by (auto simp: GetRing_def split: if_splits)
qed

lemma committee_step:
  assumes "keyed s" and "GetRing i s = Some r" and "ring_Pk r \<noteq> ''''" and "orbis_step K ctx s t"
    and "GetRing i t = Some r'"
  shows "ring_committee r' = ring_committee r \<or> reshare_signed K ctx r r'"
proof -
  let ?Q = "\<lambda>r'. ring_Pk r' \<noteq> '''' \<and> ring_committee r' = ring_committee r"
  have s: "ring_holds i ?Q s" using assms(1-3) by (simp add: ring_holds_def)
  have kept: "ring_committee r' = ring_committee r" if "ring_holds i ?Q t"
    using that assms(5) by (simp add: ring_holds_def)
  show ?thesis
    using assms(4)
  proof (cases rule: orbis_step.cases)
    case (tx msg u)
    show ?thesis
    proof (cases "\<exists>c j sch sg. msg = MsgFinalizeRingReshareByThresholdSignature c j sch sg")
      case True
      then show ?thesis using tx reshare_committee [OF assms(1, 2, 5)] by blast
    next
      case False
      then have "keeps (ring_holds i ?Q) (Orbis_handle K ctx msg)"
        by (intro committee.keeps_handle) blast
      then have "keeps (ring_holds i ?Q) (thenM (checkM (Orbis_ValidateBasic (orb_lib K) (orb_codec K) msg)) (Orbis_handle K ctx msg))"
        by (intro keeps_checkM)
      then show ?thesis
        using tx s kept unfolding Orbis_deliver_def by (blast dest: cacheCtx_invariant)
    qed
  next
    case (end_block u)
    then have "ring_store t = ring_store s"
      by (auto simp: Orbis_EndBlock_def intro: leavesD [OF leaves_DeleteExpired(1)])
    then show ?thesis using s kept by (blast intro: ring_holds_view)
  next
    case (other_modules x ev)
    then have "ring_store t = ring_store s" by simp
    then show ?thesis using s kept by (blast intro: ring_holds_view)
  qed
qed

text \<open>C1: From any reachable state, whatever the next step of the chain is, a finalized ring is still
  there afterwards under its id, with the same public keys, policy, creator and relay switch. Its
  committee and threshold are unchanged too, unless the step is a reshare finalization whose threshold
  signature verifies, under the ring's public key, over the sign bytes of this very change; then the
  new committee and threshold are the announced ones.
\<close>

theorem finalized_ring_protected:
  assumes "orbis_reachable K g cs s" and "GetRing i s = Some r" and "ring_Pk r \<noteq> ''''"
    and "orbis_step K ctx s t"
  shows "\<exists>r'. GetRing i t = Some r' \<and> ring_identity r' = ring_identity r \<and>
    (ring_committee r' = ring_committee r \<or> reshare_signed K ctx r r')"
proof -
  have keyed: "keyed s" using assms(1) by (rule reachable_keyed)
  have "ring_holds i (\<lambda>r'. ring_Pk r' \<noteq> '''' \<and> ring_identity r' = ring_identity r) t"
    by (rule identity.step_keeps [OF refl assms(4)]) (use keyed assms(2, 3) in \<open>simp add: ring_holds_def\<close>)
  then show ?thesis
    using committee_step [OF keyed assms(2-4)] by (auto simp: ring_holds_def)
qed

theorem finalized_ring_protected_witness:
  "\<exists>r'. GetRing ''ring'' (demo_rings [demo_ring]) = Some r' \<and> ring_identity r' = ring_identity demo_ring"
proof -
  have "orbis_step demo_orbis (demo_at 5) (demo_rings [demo_ring]) (demo_rings [demo_ring])"
    using demo_end_block by (rule orbis_step.end_block)
  from finalized_ring_protected [OF demo_reachable _ _ this, of "''ring''" demo_ring] show ?thesis
    using demo_rings_get(1) by (auto simp: demo_ring_def)
qed

text \<open>C4: Every ring that the chain stores is well formed, if the rings of the genesis are: it is stored
  under its own id, passes \<open>validateRing\<close>, refreshes at most once a day and has its lists in
  canonical order; a pending ring has fewer confirmations than peers, they come from distinct peers and
  agree on the keys, and it has no reshare and no key; a finalized ring has no confirmations left, and
  a privacy key exactly when it needs one.
\<close>

theorem stored_rings_well_formed:
  assumes "orbis_reachable K g cs s"
    and "\<And>r. r \<in> set (og_Rings g) \<Longrightarrow> ring_wf (orb_lib K) (canonicalRing (genesisRing (og_Params g) r))"
    and "GetRing i s = Some r"
  shows "ring_Id r = i \<and> ring_wf (orb_lib K) r"
  using wf_rings.all_reachable [OF refl assms(1, 2)] assms(3) by (simp add: rings_all_def)

theorem stored_rings_well_formed_witness: "ring_Id demo_pending = ''ring'' \<and> ring_wf demo_lib demo_pending"
  using stored_rings_well_formed [OF demo_reachable [of "[demo_pending]"], of "''ring''" demo_pending]
    demo_rings_get(2) demo_genesis_ring(2) demo_ring_wf(2)
  by (simp add: demo_genesis_def demo_orbis_def)

section \<open>Finalization\<close>

lemma signerPublicKeyHex_iff: "signerPublicKeyHex K c s = (u, t) \<longleftrightarrow> fst (signerPublicKeyHex K c s) = u \<and> t = s"
  by (auto simp: signerPublicKeyHex_def extOR_def)

text \<open>What an accepted confirmation of node \<open>k\<close> does to the ring \<open>r\<close>.\<close>

definition confirmation_effect ::
  "Ring \<Rightarrow> string \<Rightarrow> string \<Rightarrow> string option \<Rightarrow> 'x orbis_state \<Rightarrow> 'x orbis_state \<Rightarrow> FinalizeRingOutcome \<Rightarrow> bool" where
  "confirmation_effect r k pk pet s t out \<longleftrightarrow> (case out of
       CONFLICT_DELETED \<Rightarrow> list_ex (confirmationConflicts r pk pet) (Confirmations r) \<and>
         ring_store t = kv_del (ring_Id r) (ring_store s)
     | CONFIRMATION_RECORDED \<Rightarrow> \<not> list_ex (confirmationConflicts r pk pet) (Confirmations r) \<and>
         Suc (length (Confirmations r)) < length (PeerNodeKeys r) \<and>
         ring_store t = kv_set (ring_Id r) (canonicalRing (r\<lparr>Confirmations := Confirmations r @
           [\<lparr>conf_NodeKey = k, conf_RingPk = pk, conf_PetPk = pet\<rparr>]\<rparr>)) (ring_store s)
     | RING_FINALIZED \<Rightarrow> \<not> list_ex (confirmationConflicts r pk pet) (Confirmations r) \<and>
         length (PeerNodeKeys r) \<le> Suc (length (Confirmations r)) \<and>
         ring_store t = kv_set (ring_Id r)
           (canonicalRing (r\<lparr>ring_Pk := pk, ring_PetPk := pet, Confirmations := []\<rparr>)) (ring_store s))"

lemma FinalizeRing_Inr:
  assumes "FinalizeRing K ctx c j pk pet s = (Inr out, t)"
  obtains r k where "GetRing j s = Some r" "ring_Pk r = ''''" "(pet \<noteq> None) = RequiresPet r"
    "fst (signerPublicKeyHex K c s) = Inr k" "k \<in> set (PeerNodeKeys r)" "k \<notin> set (map conf_NodeKey (Confirmations r))"
    "confirmation_effect r k pk pet s t out"
proof -
  obtain r k where *: "GetRing j s = Some r" "ring_Pk r = ''''" "(pet \<noteq> None) = RequiresPet r"
      "fst (signerPublicKeyHex K c s) = Inr k" "k \<in> set (PeerNodeKeys r)" "k \<notin> set (map conf_NodeKey (Confirmations r))"
    using assms unfolding FinalizeRing_def
    by (auto simp: bindM_Inr_iff thenM_Inr_iff theRing_Inr signerPublicKeyHex_iff checkM_def split: if_split_asm)
  then show ?thesis
    using assms unfolding FinalizeRing_def Let_def
    by (intro that [of r k], unfold confirmation_effect_def)
      (auto simp: bindM_Inr_iff thenM_Inr_iff theRing_Inr checkM_def SetRing_def DeleteRing_def emitRingUpdated_def
        EmitEvent_def validateAndSetRing_def signerPublicKeyHex_iff dest!: actorDID_Inr split: if_splits)
qed

lemma confirmations_complete:
  assumes "ring_wf L r" and "ring_Pk r = ''''" and "k \<in> set (PeerNodeKeys r)" "k \<notin> set (map conf_NodeKey (Confirmations r))"
    and "length (PeerNodeKeys r) \<le> Suc (length (Confirmations r))"
  shows "set (PeerNodeKeys r) = insert k (conf_NodeKey ` set (Confirmations r))"
proof -
  let ?ks = "k # map conf_NodeKey (Confirmations r)"
  have "distinct ?ks" "set ?ks \<subseteq> set (PeerNodeKeys r)"
    using assms(1, 3, 4) by (auto simp: ring_wf_def confirmations_ok_def)
  moreover have "card (set (PeerNodeKeys r)) \<le> length ?ks"
    using assms(5) card_length [of "PeerNodeKeys r"] by simp
  ultimately have "set ?ks = set (PeerNodeKeys r)"
    by (metis List.finite_set card_seteq distinct_card)
  then show ?thesis by auto
qed

text \<open>C10: A ring is finalized only by all its peers together, if the rings of the genesis are well formed: when
  \<open>FinalizeRing\<close> answers that the ring is final, the peers of the ring are exactly the nodes whose confirmations are stored and the sender,
  each stored confirmation names the same public keys as the message, and these become the keys of
  the stored ring, with the committee unchanged.
\<close>

theorem finalized_by_all_peers:
  assumes "orbis_reachable K g cs s"
    and "\<And>r. r \<in> set (og_Rings g) \<Longrightarrow> ring_wf (orb_lib K) (canonicalRing (genesisRing (og_Params g) r))"
    and "FinalizeRing K ctx creator i pk pet s = (Inr RING_FINALIZED, t)"
  shows "\<exists>r k r'. GetRing i s = Some r \<and> fst (signerPublicKeyHex K creator s) = Inr k \<and>
    set (PeerNodeKeys r) = insert k (conf_NodeKey ` set (Confirmations r)) \<and>
    (\<forall>c\<in>set (Confirmations r). conf_RingPk c = pk \<and> conf_PetPk c = pet) \<and>
    GetRing i t = Some r' \<and> ring_Pk r' = pk \<and> ring_PetPk r' = pet \<and> ring_committee r' = ring_committee r"
  using assms(3)
proof (rule FinalizeRing_Inr)
  fix r k
  assume *: "GetRing i s = Some r" "ring_Pk r = ''''" "(pet \<noteq> None) = RequiresPet r" "fst (signerPublicKeyHex K creator s) = Inr k"
    "k \<in> set (PeerNodeKeys r)" "k \<notin> set (map conf_NodeKey (Confirmations r))"
    and "confirmation_effect r k pk pet s t RING_FINALIZED"
  then have out: "\<not> list_ex (confirmationConflicts r pk pet) (Confirmations r)"
      "length (PeerNodeKeys r) \<le> Suc (length (Confirmations r))"
      "ring_store t = kv_set (ring_Id r) (canonicalRing (r\<lparr>ring_Pk := pk, ring_PetPk := pet, Confirmations := []\<rparr>)) (ring_store s)"
    by (simp_all add: confirmation_effect_def)
  have wf: "ring_Id r = i" "ring_wf (orb_lib K) r"
    using wf_rings.all_reachable [OF refl assms(1, 2)] *(1) by (simp_all add: rings_all_def)
  have "conf_RingPk c = pk \<and> conf_PetPk c = pet" if "c \<in> set (Confirmations r)" for c
    using out(1) that wf(2) *(3)
    by (auto simp: list_ex_iff confirmationConflicts_def ring_wf_def confirmations_ok_def petValue_def split: option.splits)
  then show ?thesis
    using * wf out confirmations_complete [OF wf(2) *(2, 5, 6) out(2)]
    by (auto simp: GetRing_def ring_committee_def canonicalRing_def canonicalStrings_def sorted_sort_id)
qed

lemma demo_signer:
  "signerPublicKeyHex demo_orbis addr_a s = (Inr key_a, s)" "signerPublicKeyHex demo_orbis addr_b s = (Inr key_b, s)"
  by (simp_all add: signerPublicKeyHex_def extOR_def demo_orbis_def pubKeyBytes_def key_a_def key_b_def)

lemma demo_actor: "\<exists>d. actorDID demo_orbis (demo_at n) addr_b s = (Inr d, s)"
  by (simp add: actorDID_def extOR_def GetActorDID_def demo_at_def IssueDIDFromAccountAddr_def demo_orbis_def DIDFromPubKey_def
      std_did_def)

lemmas demo_ring_defs = demo_fresh_def demo_pending_def demo_ring_def

lemma demo_pending_simps:
  "ring_Pk demo_pending = ''''" "RequiresPet demo_pending = False" "PeerNodeKeys demo_pending = [key_a, key_b]"
  "Confirmations demo_pending = [\<lparr>conf_NodeKey = key_a, conf_RingPk = ''aa'', conf_PetPk = None\<rparr>]"
  by (simp_all add: demo_ring_defs)

lemma demo_genesis_wf:
  "r \<in> set (og_Rings (demo_genesis [demo_pending])) \<Longrightarrow>
     ring_wf (orb_lib demo_orbis) (canonicalRing (genesisRing (og_Params (demo_genesis [demo_pending])) r))"
  "r \<in> set (og_Rings (demo_genesis [demo_fresh])) \<Longrightarrow>
     ring_wf (orb_lib demo_orbis) (canonicalRing (genesisRing (og_Params (demo_genesis [demo_fresh])) r))"
  "r \<in> set (og_Rings (demo_genesis [demo_ring])) \<Longrightarrow>
     ring_wf (orb_lib demo_orbis) (canonicalRing (genesisRing (og_Params (demo_genesis [demo_ring])) r))"
  using demo_genesis_ring demo_ring_wf by (auto simp: demo_genesis_def demo_orbis_def)

lemma demo_confirm:
  "\<exists>t. FinalizeRing demo_orbis (demo_at 5) addr_a ''ring'' ''aa'' None (demo_rings [demo_fresh]) = (Inr CONFIRMATION_RECORDED, t)"
  "\<exists>t. FinalizeRing demo_orbis (demo_at 5) addr_b ''ring'' ''aa'' None (demo_rings [demo_pending]) = (Inr RING_FINALIZED, t)"
proof -
  have lib: "orb_lib demo_orbis = demo_lib" by (simp add: demo_orbis_def)
  have aa: "rejectIdentityRingPublicKey demo_lib ''aa'' = None"
    by (simp add: rejectIdentityRingPublicKey_def decodeHexBytes_def TrimSpace_printable hex_val_def)
  have valid: "validateRing demo_lib (demo_pending\<lparr>ring_Pk := ''aa'', ring_PetPk := None\<rparr>) = None"
    using demo_ring_wf(2) by (simp add: ring_wf_def validateRing_def demo_ring_defs)
  show "\<exists>t. FinalizeRing demo_orbis (demo_at 5) addr_a ''ring'' ''aa'' None (demo_rings [demo_fresh]) = (Inr CONFIRMATION_RECORDED, t)"
    by (simp add: FinalizeRing_def bindM_Inr_iff thenM_Inr_iff theRing_Inr demo_rings_get checkM_def demo_signer lib aa SetRing_def)
      (simp add: demo_ring_defs SetRing_def)
  obtain d where "actorDID demo_orbis (demo_at 5) addr_b (demo_rings [demo_pending]) = (Inr d, demo_rings [demo_pending])"
    using demo_actor by blast
  then show "\<exists>t. FinalizeRing demo_orbis (demo_at 5) addr_b ''ring'' ''aa'' None (demo_rings [demo_pending]) = (Inr RING_FINALIZED, t)"
    using valid
    by (simp add: FinalizeRing_def bindM_Inr_iff thenM_Inr_iff theRing_Inr demo_rings_get checkM_def demo_signer lib aa
        validateAndSetRing_def SetRing_def emitRingUpdated_def EmitEvent_def demo_pending_simps confirmationConflicts_def)
qed

theorem finalized_by_all_peers_witness:
  "\<exists>r k r'. GetRing ''ring'' (demo_rings [demo_pending]) = Some r \<and>
     fst (signerPublicKeyHex demo_orbis addr_b (demo_rings [demo_pending])) = Inr k \<and>
     set (PeerNodeKeys r) = insert k (conf_NodeKey ` set (Confirmations r)) \<and>
     (\<forall>c\<in>set (Confirmations r). conf_RingPk c = ''aa'' \<and> conf_PetPk c = None) \<and>
     GetRing ''ring'' (snd (FinalizeRing demo_orbis (demo_at 5) addr_b ''ring'' ''aa'' None (demo_rings [demo_pending]))) = Some r' \<and>
     ring_Pk r' = ''aa'' \<and> ring_PetPk r' = None \<and> ring_committee r' = ring_committee r"
proof (rule finalized_by_all_peers [OF demo_reachable demo_genesis_wf(1)])
  let ?m = "FinalizeRing demo_orbis (demo_at 5) addr_b ''ring'' ''aa'' None (demo_rings [demo_pending])"
  show "?m = (Inr RING_FINALIZED, snd ?m)"
    using demo_confirm(2) by (metis snd_conv)
qed

text \<open>The messages that only record a confirmation of a ring.\<close>

definition confirm_recorded :: "'x OrbisKeeper \<Rightarrow> string \<Rightarrow> 'x orbis_state \<Rightarrow> 'x orbis_state \<Rightarrow> bool" where
  "confirm_recorded K i s t \<longleftrightarrow> (\<exists>ctx creator pk pet. FinalizeRing K ctx creator i pk pet s = (Inr CONFIRMATION_RECORDED, t))"

lemma confirm_recorded_ring:
  assumes "confirm_recorded K i s t" and "keyed s" and "GetRing i s = Some r"
  shows "keyed t \<and> (\<exists>r'. GetRing i t = Some r' \<and> length (Confirmations r') = Suc (length (Confirmations r)) \<and>
    length (PeerNodeKeys r') = length (PeerNodeKeys r) \<and> length (Confirmations r') < length (PeerNodeKeys r'))"
proof -
  obtain ctx c pk pet where "FinalizeRing K ctx c i pk pet s = (Inr CONFIRMATION_RECORDED, t)"
    using assms(1) by (auto simp: confirm_recorded_def)
  then show ?thesis
    using assms(2, 3)
    by (elim FinalizeRing_Inr) (auto simp: confirmation_effect_def keyed_def GetRing_def)
qed

text \<open>C30: The finalization of a ring comes to an end, if the rings of the genesis are well formed: of the messages \<open>FinalizeRing\<close> for a pending ring,
  fewer than the ring has peers without a confirmation can be accepted and leave it pending; the next
  accepted one finalizes the ring or deletes it.
\<close>

theorem finalization_ends:
  assumes "orbis_reachable K g cs s"
    and "\<And>r. r \<in> set (og_Rings g) \<Longrightarrow> ring_wf (orb_lib K) (canonicalRing (genesisRing (og_Params g) r))"
    and "GetRing i s = Some r" and "ring_Pk r = ''''" and "(confirm_recorded K i ^^ n) s t"
  shows "n < length (PeerNodeKeys r) - length (Confirmations r)"
proof -
  have pending: "length (Confirmations r) < length (PeerNodeKeys r)"
    using wf_rings.all_reachable [OF refl assms(1, 2)] assms(3, 4) by (simp add: rings_all_def ring_wf_def)
  have "keyed t \<and> (\<exists>r'. GetRing i t = Some r' \<and> length (Confirmations r') = length (Confirmations r) + n \<and>
      length (PeerNodeKeys r') = length (PeerNodeKeys r) \<and> length (Confirmations r') < length (PeerNodeKeys r'))"
    using assms(5)
  proof (induction n arbitrary: t)
    case 0
    then show ?case using reachable_keyed [OF assms(1)] assms(3) pending by simp
  next
    case (Suc n)
    then show ?case by (fastforce dest: confirm_recorded_ring)
  qed
  then show ?thesis by auto
qed

theorem finalization_ends_witness: "1 < length (PeerNodeKeys demo_fresh) - length (Confirmations demo_fresh)"
proof -
  obtain t where "(confirm_recorded demo_orbis ''ring'' ^^ 1) (demo_rings [demo_fresh]) t"
    unfolding relpowp_1 confirm_recorded_def using demo_confirm(1) by blast
  from finalization_ends [OF demo_reachable demo_genesis_wf(2) demo_rings_get(3) _ this] show ?thesis
    by (simp add: demo_ring_defs)
qed

section \<open>Protocol versions\<close>

abbreviation blockSeconds :: "orbis_ctx \<Rightarrow> int" where
  "blockSeconds ctx \<equiv> Unix (BlockTime ctx)"

lemma seconds_le: "0 \<le> a \<Longrightarrow> a \<le> b \<Longrightarrow> b < 2 ^ 64 \<Longrightarrow> (word_of_int a :: uint64) \<le> word_of_int b"
  by (simp add: word_le_def uint_word_of_int)

lemma version_reached_later:
  assumes "version_reached c v r" and "0 \<le> blockSeconds c" and "blockSeconds c \<le> blockSeconds c'" and "blockSeconds c' < 2 ^ 64"
  shows "version_reached c' v r"
  using assms(1) seconds_le [OF assms(2-4)]
  by (auto simp: version_reached_def effectiveReportProtocolVersion_def validateUpgradeInfo_def split: option.splits if_splits)

lemma ring_holds_mono: "(\<And>r. Q r \<Longrightarrow> Q' r) \<Longrightarrow> ring_holds i Q s \<Longrightarrow> ring_holds i Q' s"
  by (auto simp: ring_holds_def)

lemma version_run:
  assumes "orbis_run K cs s t" and "ring_holds i (version_reached c v) s" and "0 \<le> blockSeconds c"
    and "sorted (map blockSeconds (c # cs))" and "\<forall>c'\<in>set (c # cs). blockSeconds c' < 2 ^ 64"
  shows "ring_holds i (version_reached (last (c # cs)) v) t"
  using assms
proof (induction rule: orbis_run.induct)
  case (run_snoc cs s t c' u)
  let ?l = "last (c # cs)"
  have "sorted (map blockSeconds ((c # cs) @ [c']))" using run_snoc.prems(3) by simp
  then have "blockSeconds c \<le> blockSeconds ?l" "blockSeconds ?l \<le> blockSeconds c'" "sorted (map blockSeconds (c # cs))"
    unfolding map_append sorted_append by (auto simp: last_in_set)
  note le = this
  have "ring_holds i (version_reached ?l v) t"
    by (rule run_snoc.IH) (use run_snoc.prems le in simp_all)
  moreover have "version_reached c' v r" if "version_reached ?l v r" for r
    by (rule version_reached_later [OF that]) (use run_snoc.prems(2, 4) le(1, 2) in \<open>auto simp del: last.simps\<close>)
  ultimately have "ring_holds i (version_reached c' v) t"
    by (rule ring_holds_mono [rotated])
  then show ?case
    using version.step_keeps [OF refl run_snoc.hyps(2)] by simp
qed simp

text \<open>C20: The protocol version that a finalized ring runs at the time of the block never decreases, from a
  genesis with well-formed rings, along a run of the chain whose block times do not go back (nor beyond 64 bits of seconds): neither
  scheduled, cancelled, matured nor normalised upgrades, nor reshares or automatic reshares, bring an
  older version back.
\<close>

theorem protocol_version_monotone:
  assumes "orbis_reachable K g ks s"
    and "\<And>r. r \<in> set (og_Rings g) \<Longrightarrow> ring_wf (orb_lib K) (canonicalRing (genesisRing (og_Params g) r))"
    and "GetRing i s = Some r" and "ring_Pk r \<noteq> ''''" and "orbis_run K cs s t"
    and "0 \<le> blockSeconds c" and "sorted (map blockSeconds (c # cs))" and "\<forall>c'\<in>set (c # cs). blockSeconds c' < 2 ^ 64"
  shows "\<exists>r'. GetRing i t = Some r' \<and>
    effectiveReportProtocolVersion r (word_of_int (blockSeconds c)) \<le>
    effectiveReportProtocolVersion r' (word_of_int (blockSeconds (last (c # cs))))"
proof -
  let ?v = "effectiveReportProtocolVersion r (word_of_int (blockSeconds c))"
  have "ring_wf (orb_lib K) r"
    using wf_rings.all_reachable [OF refl assms(1, 2)] assms(3) by (simp add: rings_all_def)
  then have "version_reached c ?v r"
    using assms(4) by (simp add: version_reached_def ring_wf_def validateRing_def)
  then have "ring_holds i (version_reached c ?v) s"
    using assms(3) reachable_keyed [OF assms(1)] by (simp add: ring_holds_def)
  from version_run [OF assms(5) this assms(6-8)] show ?thesis
    by (auto simp: ring_holds_def version_reached_def)
qed

theorem protocol_version_monotone_witness:
  "effectiveReportProtocolVersion demo_ring 5 = 1 \<and> effectiveReportProtocolVersion demo_ring 2000 = 2 \<and>
   (\<exists>r'. GetRing ''ring'' (demo_rings [demo_ring]) = Some r' \<and> 1 \<le> effectiveReportProtocolVersion r' 2000)"
proof -
  have time: "blockSeconds (demo_at n) = n" for n
    by (simp add: demo_at_def Unix_def)
  have versions: "effectiveReportProtocolVersion demo_ring 5 = 1" "effectiveReportProtocolVersion demo_ring 2000 = 2"
    by (simp_all add: effectiveReportProtocolVersion_def demo_ring_def word_le_nat_alt)
  have "orbis_run demo_orbis [demo_at 2000] (demo_rings [demo_ring]) (demo_rings [demo_ring])"
    using orbis_run.run_snoc [OF orbis_run.run_Nil orbis_step.end_block [OF demo_end_block]] by simp
  from protocol_version_monotone [OF demo_reachable demo_genesis_wf(3) demo_rings_get(1) _ this, of "demo_at 5"]
  show ?thesis
    by (simp add: time versions demo_ring_defs(3)) (simp add: demo_ring_defs(3) [symmetric] versions)
qed

end
