(* ===== verification/Orbis_Demo.thy ===== *)
theory Orbis_Demo
  imports Orbis_Props
begin

text \<open>
  A report that the demonstration instance accepts: three nodes, of which one reports another as
  offline, with all the checks of \<open>validateSubmittedReport\<close> evaluated.
\<close>

definition zero_hex :: string where
  "zero_hex = hex_EncodeToString (replicate 32 CHR 0x00)"

definition report_ring :: Ring where
  "report_ring =
     \<lparr>ring_Id = ''ring'', ring_CreatorDid = ''did:key:creator'', ring_Pk = zero_hex, PeerNodeKeys = [key_a, key_b, key_c],
      Threshold = 2, NewPeerNodeKeys = [], NewThreshold = None, PssInterval = 86400, BlockNumberNonce = 0,
      ring_PolicyId = ''policy'', Confirmations = [],
      ring_UpgradeInfo = \<lparr>CurrentVersion = 1, NextVersion = None, ActivationTime = None\<rparr>,
      ring_Reporting = ReportingConfigFromDefaults DefaultReportingDefaults, TrustedAuthRelayDids = [],
      AllowTrustedAuthRelays = False, RequiresPet = False, ring_PetPk = None\<rparr>"

definition demo_payload :: bytes where
  "demo_payload = putU32 4 @ ''sign'' @ putU64 1 @ [CHR 0x01, CHR 0x01]"

definition demo_report :: "uint64 \<Rightarrow> ReportEnvelope" where
  "demo_report observed =
     \<lparr>rep_Domain = ReportDomain, rep_ReportType = NodeOfflineReportType, rep_ChainId = ''vera'', rep_RingId = ''ring'',
      rep_RingPk = zero_hex, rep_RingStateSha256 = zero_hex, rep_ReporterNodeKey = key_a, rep_AccusedNodeKey = key_b,
      rep_AccusedPeerId = ''peer'', rep_ObservedAt = observed, rep_ExpiresAt = observed + 120, rep_Payload = demo_payload,
      rep_SessionId = ''session''\<rparr>"

definition report_genesis :: OrbisGenesis where
  "report_genesis = (demo_genesis [report_ring])\<lparr>og_NodeInfos :=
     [(key_b, Some \<lparr>PeerId = ''peer'', ControllerKey = ''k'', WhitelistedPolicyIds = [], WhitelistedRingIds = []\<rparr>)]\<rparr>"

definition report_state :: "unit orbis_state" where
  "report_state = (orbis_init ())\<lparr>orbis_params := Some Orbis_DefaultParams, ring_store := [(''ring'', report_ring)],
     node_info_store := [(key_b, \<lparr>PeerId = ''peer'', ControllerKey = ''k'', WhitelistedPolicyIds = [], WhitelistedRingIds = []\<rparr>)]\<rparr>"

lemma report_ring_genesis: "canonicalRing (genesisRing Orbis_DefaultParams report_ring) = report_ring"
  by (simp add: genesisRing_def canonicalRing_def canonicalStrings_def report_ring_def zeroReportingConfig_def
      ReportingConfigFromDefaults_def DefaultReportingDefaults_def DefaultDemeritConfig_def)

lemma report_genesis_run: "Orbis_InitGenesis report_genesis (orbis_init ()) = (Inr (), report_state)"
proof -
  note report_ring_genesis
  moreover have "ring_Id (genesisRing p r) = ring_Id r" for p r
    by (simp add: genesisRing_def)
  moreover have "ring_Id report_ring = ''ring''" by (simp add: report_ring_def)
  ultimately show ?thesis
    by (simp add: Orbis_InitGenesis_def report_genesis_def demo_genesis_def Orbis_SetParams_def DefaultParams_valid checkM_def
        checkE_def tryM_def m_defs forM_def SetRing_def SetNodeInfo_def orbis_init_def report_state_def)
qed

lemma report_reachable: "orbis_reachable demo_orbis report_genesis [] report_state"
  unfolding orbis_reachable_def using report_genesis_run by (blast intro: orbis_run.run_Nil)

lemma report_pairs: "validateGenesisPairs [] [] (og_AcceptedReportPairs report_genesis) = None"
  by (simp add: report_genesis_def demo_genesis_def)

section \<open>The checks\<close>

lemma zero_hex_simps:
  "length zero_hex = 64" "hex_DecodeString zero_hex = Some (replicate 32 CHR 0x00)" "zero_hex \<noteq> []" "TrimSpace zero_hex = zero_hex"
proof -
  show l: "length zero_hex = 64" "hex_DecodeString zero_hex = Some (replicate 32 CHR 0x00)"
    by (simp_all add: zero_hex_def)
  have "hex_EncodeToString (replicate n CHR 0x00) = replicate (2 * n) (hex_digit 0)" for n
    by (induction n) (simp_all add: hex_EncodeToString_def)
  then have z: "zero_hex = replicate 64 (hex_digit 0)" by (simp add: zero_hex_def)
  show "zero_hex \<noteq> []" "TrimSpace zero_hex = zero_hex"
    unfolding z by (simp_all add: TrimSpace_printable hex_digit_def)
qed

lemma demo_idSum: "idSum demo_lib bs = zero_hex"
  by (simp add: idSum_def demo_lib_def zero_hex_def)

lemma demo_decode:
  "decodeReportPayload (demo_report n) = Inr \<lparr>pay_originProtocol = ''sign'', pay_originProtocolVersion = 1,
     pay_accusedCommitteeScope = 1, pay_signingCommitteeScope = 1, pay_attemptID = []\<rparr>"
proof -
  have s: "readString (putU32 4 @ ''sign'' @ rest) = Inr (''sign'', rest)" for rest
    using wire_string.rd_wr [of "''sign''" "putU32 4 @ ''sign''" rest] by (simp add: w_Bytes_def within_def)
  have v: "readU64 (putU64 1 @ rest) = Inr (1, rest)" for rest
    using wire_u64.rd_wr [of 1 "putU64 1" rest] by (simp add: w_U64_def)
  show ?thesis
    by (simp add: decodeReportPayload_def demo_report_def demo_payload_def decodeNodeOfflinePayload_def runD_def decoder_defs s [simplified] v
        readScope_def readByte_def isValidReportCommitteeScope_def committeeScopeCurrent_def committeeScopePendingNew_def
        isValidOfflineOriginProtocol_def)
qed

lemma w_Bytes_Inr: "length v \<le> 4294967295 \<Longrightarrow> w_Bytes v = Inr (putU32 (of_nat (length v)) @ v)"
  by (simp add: w_Bytes_def)

lemma demo_message: "\<exists>message. reportEnvelopeCanonicalMessageAndID demo_lib (demo_report n) = Inr (message, zero_hex)"
  by (simp add: reportEnvelopeCanonicalMessageAndID_def reportEnvelopeCanonicalBytes_def demo_report_def w_Bytes_Inr w_U64_def
      demo_idSum ReportDomain_def NodeOfflineReportType_def zero_hex_simps demo_payload_def)

lemma demo_session:
  "reportSessionDedupeID demo_lib (demo_report n) \<lparr>pay_originProtocol = ''sign'', pay_originProtocolVersion = 1,
     pay_accusedCommitteeScope = 1, pay_signingCommitteeScope = 1, pay_attemptID = []\<rparr> = Inr zero_hex"
  by (simp add: reportSessionDedupeID_def demo_report_def w_Bytes_Inr demo_idSum NodeOfflineReportType_def)

lemma demo_digest: "reportRingStateDigestMatches demo_lib report_ring zero_hex = Inr True"
  by (simp add: reportRingStateDigestMatches_def reportRingStateSHA256_def reportRingStateCanonicalBytesWithRelayState_def
      report_ring_def w_Bytes_Inr w_U32_def w_U64_def w_Bool_def w_StringSlice_def w_Optional_def w_ReportingConfig_def
      w_DemeritConfig_def demo_idSum zero_hex_simps ReportingConfigFromDefaults_def)

lemma demo_authorized:
  "validateReportCommitteeAuthorization (demo_report n) \<lparr>pay_originProtocol = ''sign'', pay_originProtocolVersion = 1,
     pay_accusedCommitteeScope = 1, pay_signingCommitteeScope = 1, pay_attemptID = []\<rparr> report_ring report_state = Inr ()"
  by (simp add: validateReportCommitteeAuthorization_def reportCommitteeForScope_def committeeScopeCurrent_def demo_report_def
      report_ring_def GetNodeInfo_def report_state_def word_less_nat_alt checkE_def failIf_def firstErr_def orElse_def)

lemma demo_signature: "verifyThresholdSignature demo_lib ''jubjub_frost'' zero_hex message (replicate 64 CHR 0x00) = None"
  by (simp add: verifyThresholdSignature_def normalizeThresholdSignatureScheme_def TrimSpace_printable
      verifyJubjubFROSTThresholdSignature_def decodeHexBytes_def zero_hex_simps demo_lib_def)

lemma demo_shape: "validateReportEnvelopeShape (demo_report 990) 1000 = None" "validateReportEnvelopeShape (demo_report 1000) 1000 = None"
  by (simp_all add: validateReportEnvelopeShape_def demo_report_def ReportTTLSeconds_def NodeOfflineReportType_def
      demo_payload_def zero_hex_simps zero_hex_simps(3) [symmetric] word_less_nat_alt)

lemma demo_validates:
  assumes "n = 990 \<or> n = 1000"
  shows "validateSubmittedReport demo_lib (demo_at 1000) (demo_report n) zero_hex ''jubjub_frost'' (replicate 64 CHR 0x00) report_state =
    Inr \<lparr>vr_reportID = zero_hex, vr_sessionDedupeID = zero_hex, vr_ring = report_ring, vr_blockUnixTime = 1000\<rparr>"
proof -
  have time: "reportBlockUnixTime (demo_at 1000) = Inr 1000"
    by (simp add: reportBlockUnixTime_def demo_at_def Unix_def)
  have shape: "validateReportEnvelopeShape (demo_report n) 1000 = None"
    using assms demo_shape by auto
  obtain message where message: "reportEnvelopeCanonicalMessageAndID demo_lib (demo_report n) = Inr (message, zero_hex)"
    using demo_message by blast
  have fields: "rep_ChainId (demo_report n) = ''vera''" "rep_RingId (demo_report n) = ''ring''"
    "rep_RingPk (demo_report n) = zero_hex" "rep_RingStateSha256 (demo_report n) = zero_hex" "ring_Pk report_ring = zero_hex"
    "GetRing ''ring'' report_state = Some report_ring" "ChainID (demo_at 1000) = ''vera''"
    "effectiveReportProtocolVersion report_ring k = 1"
    "\<not> HasAcceptedReport i report_state" "\<not> HasAcceptedReportSession i report_state" for i k
    by (simp_all add: demo_report_def report_ring_def report_state_def GetRing_def demo_at_def HasAcceptedReport_def
        effectiveReportProtocolVersion_def HasAcceptedReportSession_def orbis_init_def)
  show ?thesis
    unfolding validateSubmittedReport_def
    by (simp add: time shape message fields demo_decode demo_digest demo_authorized demo_session demo_signature
        requireRingFinalized_def zero_hex_simps(3) checkE_def failIf_def del: One_nat_def)
qed

lemma demo_submitted:
  assumes "n = 990 \<or> n = 1000"
  shows "\<exists>t. SubmitReport demo_orbis (demo_at 1000) (demo_report n) zero_hex ''jubjub_frost'' (replicate 64 CHR 0x00) report_state =
    (Inr zero_hex, t)"
proof -
  have lib: "orb_lib demo_orbis = demo_lib" by (simp add: demo_orbis_def)
  have "DemeritAmountForReportType report_ring (rep_ReportType (demo_report n)) = Inr 1"
    "ring_KickThreshold (ring_Reporting report_ring) = 3"
    by (simp_all add: DemeritAmountForReportType_def demo_report_def report_ring_def ReportingConfigFromDefaults_def
        DefaultReportingDefaults_def DefaultDemeritConfig_def)
  moreover have "getNodeDemeritState i k (snd (SetAcceptedReportPair a b e report_state)) = None" for i k a b e
    by (simp add: getNodeDemeritState_def SetAcceptedReportPair_def report_state_def orbis_init_def)
  ultimately show ?thesis
    using demo_validates [OF assms]
    by (simp add: SubmitReport_def lib m_defs SetAcceptedReportPair_def IncrementNodeDemerits_def setNodeDemeritState_def
        maybeScheduleAutoReshareForReport_def EmitEvent_def word_less_nat_alt readM_def)
qed

lemma report_ring_wf: "ring_wf demo_lib report_ring"
  by (simp add: ring_wf_def report_ring_def validateRing_def validateUpgradeInfo_def validateReportingConfig_def
      ReportingConfigFromDefaults_def DefaultReportingDefaults_def ValidateReportingConfig_def ValidateDemeritConfig_def
      DefaultDemeritConfig_def ValidateTrustedAuthRelayConfig_def ValidateTrustedAuthRelayDIDs_def
      validateUniquePeerNodeKeys_def uniqueBy_None validateRingPSSInterval_def ValidatePSSInterval_def
      MinPSSIntervalSeconds_def canonicalRing_def canonicalStrings_def confirmations_ok_def reshareInProgress_def zero_hex_simps)

end
