(* ===== verification/Orbis_Dedupe.thy ===== *)
theory Orbis_Dedupe
  imports Orbis_Frames
begin

text \<open>
  The records of accepted reports (\<open>x/orbis/keeper/store.go\<close>): the three stores agree, the end of a
  block forgets exactly the pairs that have expired, and the messages and the end of the block keep
  the agreement.
\<close>

section \<open>Keys of the expiry store\<close>

definition keyExpiry :: "bytes \<Rightarrow> uint64" where
  "keyExpiry k = getU64 (take 8 k)"

definition keyReport :: "bytes \<Rightarrow> string" where
  "keyReport k = drop 8 k"

lemma acceptedExpiryKey_simps [simp]:
  "keyExpiry (acceptedExpiryKey e i) = e" "keyReport (acceptedExpiryKey e i) = i" "\<not> length (acceptedExpiryKey e i) < 8"
  by (simp_all add: acceptedExpiryKey_def keyExpiry_def keyReport_def)

lemma acceptedExpiryKey_less: "acceptedExpiryKey e i < acceptedExpiryKey e' i' \<Longrightarrow> e \<le> e'"
  by (auto simp: acceptedExpiryKey_def bytes_less_append)

section \<open>Agreement of the stores\<close>

definition pairs_ok :: "'x orbis_state \<Rightarrow> bool" where
  "pairs_ok s \<longleftrightarrow>
     kv_ok (accepted_expiry_store s) \<and>
     (\<forall>p\<in>set (accepted_expiry_store s). \<exists>e i. fst p = acceptedExpiryKey e i) \<and>
     inj_on (\<lambda>p. keyReport (fst p)) (set (accepted_expiry_store s)) \<and> inj_on snd (set (accepted_expiry_store s)) \<and>
     (\<forall>i. HasAcceptedReport i s \<longleftrightarrow> i \<in> (\<lambda>p. keyReport (fst p)) ` set (accepted_expiry_store s)) \<and>
     (\<forall>i. HasAcceptedReportSession i s \<longleftrightarrow> i \<in> snd ` set (accepted_expiry_store s))"

lemma HasAccepted_view:
  "report_view s = report_view t \<Longrightarrow> HasAcceptedReport i s = HasAcceptedReport i t"
  "report_view s = report_view t \<Longrightarrow> HasAcceptedReportSession i s = HasAcceptedReportSession i t"
  by (simp_all add: report_view_def HasAcceptedReport_def HasAcceptedReportSession_def)

lemma pairs_ok_view: "report_view s = report_view t \<Longrightarrow> pairs_ok t \<Longrightarrow> pairs_ok s"
  using HasAccepted_view [of s t] by (simp add: pairs_ok_def) (simp add: report_view_def)

lemma pairs_ok_init: "pairs_ok (orbis_init x)"
  by (simp add: pairs_ok_def orbis_init_def HasAcceptedReport_def HasAcceptedReportSession_def)

text \<open>Adding a pair whose ids are new.\<close>

lemma pairs_ok_add:
  assumes "pairs_ok s" and "\<not> HasAcceptedReport rid s" and "\<not> HasAcceptedReportSession sid s"
    and "SetAcceptedReportPair rid sid e s = (r, t)"
  shows "pairs_ok t" and "set (accepted_expiry_store t) = insert (acceptedExpiryKey e rid, sid) (set (accepted_expiry_store s))"
proof -
  let ?k = "acceptedExpiryKey e rid"
  have t: "t = s\<lparr>accepted_report_store := kv_set rid [char_of (1 :: nat)] (accepted_report_store s),
      accepted_session_store := kv_set sid [char_of (1 :: nat)] (accepted_session_store s),
      accepted_expiry_store := kv_set ?k sid (accepted_expiry_store s)\<rparr>"
    using assms(4) by (simp add: SetAcceptedReportPair_def)
  have new: "rid \<notin> (\<lambda>p. keyReport (fst p)) ` set (accepted_expiry_store s)" "sid \<notin> snd ` set (accepted_expiry_store s)"
    using assms(1-3) by (simp_all add: pairs_ok_def)
  then have "kv_get (accepted_expiry_store s) ?k = None"
    unfolding kv_get_None_iff by force
  then show "set (accepted_expiry_store t) = insert (?k, sid) (set (accepted_expiry_store s))"
    by (simp add: t set_kv_set_fresh)
  then show "pairs_ok t"
    using assms(1) new
    by (auto simp: pairs_ok_def t HasAcceptedReport_def HasAcceptedReportSession_def)
qed

section \<open>The end of a block\<close>

lemma expiredPairs_eq:
  assumes "kv_ok st" and "\<forall>p\<in>set st. \<exists>e i. fst p = acceptedExpiryKey e i"
  shows "expiredPairs now st = map (\<lambda>(k, v). (k, keyReport k, v)) (filter (\<lambda>p. keyExpiry (fst p) \<le> now) st)"
  using assms
proof (induction st)
  case (Cons p st)
  obtain e i v where p: "p = (acceptedExpiryKey e i, v)"
    using Cons.prems(2) by (cases p) auto
  have later: "e \<le> keyExpiry (fst q)" if "q \<in> set st" for q
    using Cons.prems that acceptedExpiryKey_less unfolding p by (auto; metis acceptedExpiryKey_simps(1) fst_conv)
  show ?case
  proof (cases "e \<le> now")
    case True
    then show ?thesis using Cons p by (auto simp: keyExpiry_def [symmetric] keyReport_def [symmetric] not_less)
  next
    case False
    then have "filter (\<lambda>p. keyExpiry (fst p) \<le> now) st = []"
      using later by (force simp: filter_empty_conv)
    then show ?thesis using False p by (simp add: keyExpiry_def [symmetric])
  qed
qed simp

lemma fold_deletePair:
  "accepted_expiry_store (fold deletePair ps s) = filter (\<lambda>p. fst p \<notin> fst ` set ps) (accepted_expiry_store s)"
  "kv_get (accepted_report_store (fold deletePair ps s)) i =
     (if i \<in> (\<lambda>p. fst (snd p)) ` set ps then None else kv_get (accepted_report_store s) i)"
  "kv_get (accepted_session_store (fold deletePair ps s)) i =
     (if i \<in> (\<lambda>p. snd (snd p)) ` set ps then None else kv_get (accepted_session_store s) i)"
proof -
  show "accepted_expiry_store (fold deletePair ps s) = filter (\<lambda>p. fst p \<notin> fst ` set ps) (accepted_expiry_store s)"
    by (induction ps arbitrary: s) (auto simp: deletePair_def kv_del_def intro!: filter_cong split: prod.splits)
qed (induction ps arbitrary: s; auto simp: deletePair_def split: prod.splits)+

lemma filter_fst_kept:
  "kv_ok st \<Longrightarrow> filter (\<lambda>p. fst p \<notin> fst ` {q \<in> set st. Q q}) st = filter (\<lambda>p. \<not> Q p) st"
  by (rule filter_cong) (auto dest: kv_in_set_fun)

lemma DeleteExpired_effect:
  assumes "pairs_ok s" and "DeleteExpiredAcceptedReportPairs now s = (r, t)"
  shows "accepted_expiry_store t = filter (\<lambda>p. \<not> keyExpiry (fst p) \<le> now) (accepted_expiry_store s)"
    and "HasAcceptedReport i t \<longleftrightarrow> i \<in> (\<lambda>p. keyReport (fst p)) ` {p \<in> set (accepted_expiry_store s). \<not> keyExpiry (fst p) \<le> now}"
    and "HasAcceptedReportSession i t \<longleftrightarrow> i \<in> snd ` {p \<in> set (accepted_expiry_store s). \<not> keyExpiry (fst p) \<le> now}"
proof -
  let ?st = "accepted_expiry_store s" and ?Q = "\<lambda>p. keyExpiry (fst p) \<le> now"
  let ?ps = "map (\<lambda>(k, v). (k, keyReport k, v)) (filter ?Q ?st)"
  note ok = assms(1) [unfolded pairs_ok_def]
  have t: "t = fold deletePair ?ps s"
    using assms(2) ok by (auto simp: DeleteExpiredAcceptedReportPairs_def expiredPairs_eq)
  have "fst ` set ?ps = fst ` {q \<in> set ?st. ?Q q}" by (auto simp: image_iff; force)
  then show "accepted_expiry_store t = filter (\<lambda>p. \<not> ?Q p) ?st"
    using ok by (simp only: t fold_deletePair filter_fst_kept)
  have "(\<lambda>p. fst (snd p)) ` set ?ps = (\<lambda>p. keyReport (fst p)) ` {q \<in> set ?st. ?Q q}" by (auto simp: image_iff; force)
  then show "HasAcceptedReport i t \<longleftrightarrow> i \<in> (\<lambda>p. keyReport (fst p)) ` {p \<in> set ?st. \<not> ?Q p}"
    using ok unfolding HasAcceptedReport_def t fold_deletePair by (auto simp: inj_on_def)
  have "(\<lambda>p. snd (snd p)) ` set ?ps = snd ` {q \<in> set ?st. ?Q q}" by (auto simp: image_iff; force)
  then show "HasAcceptedReportSession i t \<longleftrightarrow> i \<in> snd ` {p \<in> set ?st. \<not> ?Q p}"
    using ok unfolding HasAcceptedReportSession_def t fold_deletePair by (auto simp: inj_on_def)
qed

lemma pairs_ok_DeleteExpired:
  assumes "pairs_ok s" and "DeleteExpiredAcceptedReportPairs now s = (r, t)"
  shows "pairs_ok t"
proof -
  let ?E = "{p \<in> set (accepted_expiry_store s). \<not> keyExpiry (fst p) \<le> now}"
  have E: "set (accepted_expiry_store t) = ?E" "kv_ok (accepted_expiry_store t)"
    using assms(1) by (simp_all add: DeleteExpired_effect(1) [OF assms] pairs_ok_def)
  show ?thesis
    unfolding pairs_ok_def E DeleteExpired_effect(2, 3) [OF assms]
    using assms(1) E(2) by (auto simp: pairs_ok_def intro: inj_on_subset)
qed

section \<open>Submitting a report\<close>

lemma leaves_after_pair:
  "leaves report_view (bindM (IncrementNodeDemerits i k a now n) (\<lambda>d.
     thenM (maybeScheduleAutoReshareForReport K ring k d) (thenM (EmitEvent e) (ret x))))"
  unfolding IncrementNodeDemerits_def maybeScheduleAutoReshareForReport_def validateAndSetRing_def Let_def
  by (intro leaves_rules)

lemma thenM_eval: "m s = (Inr x, t) \<Longrightarrow> thenM m k s = k t"
  by (simp add: thenM_def bindM_def)

lemma bindM_eval: "m s = (Inr x, t) \<Longrightarrow> bindM m f s = f x t"
  by (simp add: bindM_def)

lemma SubmitReport_cases:
  assumes "SubmitReport K ctx r rid scheme sig s = (u, t)"
  obtains e where "u = Inl e" "report_view t = report_view s"
  | v t0 where "validateSubmittedReport (orb_lib K) ctx r rid scheme sig s = Inr v"
      "SetAcceptedReportPair (vr_reportID v) (vr_sessionDedupeID v) (vr_blockUnixTime v + ReportTTLSeconds) s = (Inr (), t0)"
      "report_view t = report_view t0"
proof -
  consider e where "validateSubmittedReport (orb_lib K) ctx r rid scheme sig s = Inl e"
    | v e where "validateSubmittedReport (orb_lib K) ctx r rid scheme sig s = Inr v"
        "DemeritAmountForReportType (vr_ring v) (rep_ReportType r) = Inl e"
    | v a where "validateSubmittedReport (orb_lib K) ctx r rid scheme sig s = Inr v"
        "DemeritAmountForReportType (vr_ring v) (rep_ReportType r) = Inr a"
    by (metis sum.exhaust)
  then show ?thesis
  proof cases
    case (3 v a)
    obtain t0 where t0: "SetAcceptedReportPair (vr_reportID v) (vr_sessionDedupeID v) (vr_blockUnixTime v + ReportTTLSeconds) s = (Inr (), t0)"
      by (simp add: SetAcceptedReportPair_def)
    with assms 3 have "report_view t = report_view t0"
      by (simp add: SubmitReport_def bindM_eval thenM_eval) (erule leavesD [OF leaves_after_pair])
    then show ?thesis using 3 t0 by (intro that(2))
  qed (use assms that(1) in \<open>auto simp: SubmitReport_def bindM_def\<close>)
qed

lemma validateSubmittedReport_fresh:
  assumes "validateSubmittedReport L ctx r rid scheme sig s = Inr v"
  shows "\<not> HasAcceptedReport (vr_reportID v) s" "\<not> HasAcceptedReportSession (vr_sessionDedupeID v) s"
  using assms unfolding validateSubmittedReport_def
  by (auto simp: bindE_Inr_iff split: option.splits prod.splits)

lemma keeps_pairs_SubmitReport: "keeps pairs_ok (SubmitReport K ctx r rid scheme sig)"
  by (rule keepsI, erule SubmitReport_cases)
    (auto intro: pairs_ok_view, metis pairs_ok_view pairs_ok_add(1) validateSubmittedReport_fresh)

lemma keeps_pairs_leaves: "leaves report_view m \<Longrightarrow> keeps pairs_ok m"
  by (erule keeps_leaves) (rule pairs_ok_view)

lemma keeps_pairs_handle: "keeps pairs_ok (Orbis_handle K ctx msg)"
proof (cases msg)
  case (MsgSubmitReport c r rid scheme sig)
  then show ?thesis by (simp add: noResult_def keeps_thenM keeps_ret keeps_pairs_SubmitReport)
qed (auto intro!: keeps_pairs_leaves intro: leaves_rules)

lemma keeps_pairs_EndBlock: "keeps pairs_ok (Orbis_EndBlock ctx)"
  unfolding Orbis_EndBlock_def by (rule keepsI) (rule pairs_ok_DeleteExpired)

end
