(* ===== verification/Orbis_Report_Props.thy ===== *)
theory Orbis_Report_Props
  imports Orbis_Demo Orbis_Dedupe
begin

text \<open>
  The properties of reports: expired records of accepted reports are forgotten, an accepted report is
  not accepted again, and the bytes that are signed identify the report.
\<close>

section \<open>Reachable records of accepted reports\<close>

lemma pairs_ok_genesis_pairs:
  assumes "pairs_ok s" and "validateGenesisPairs R S es = None"
    and "\<And>i. HasAcceptedReport i s \<Longrightarrow> i \<in> set R" and "\<And>i. HasAcceptedReportSession i s \<Longrightarrow> i \<in> set S"
    and "forM es (\<lambda>e. SetAcceptedReportPair (arp_ReportId e) (arp_SessionId e) (arp_ExpiresAt e)) s = (Inr (), t)"
  shows "pairs_ok t"
  using assms
proof (induction es arbitrary: R S s)
  case (Cons e es)
  obtain s1 where s1: "SetAcceptedReportPair (arp_ReportId e) (arp_SessionId e) (arp_ExpiresAt e) s = (Inr (), s1)"
    and rest: "forM es (\<lambda>e. SetAcceptedReportPair (arp_ReportId e) (arp_SessionId e) (arp_ExpiresAt e)) s1 = (Inr (), t)"
  proof -
    have "SetAcceptedReportPair (arp_ReportId e) (arp_SessionId e) (arp_ExpiresAt e) s =
        (Inr (), snd (SetAcceptedReportPair (arp_ReportId e) (arp_SessionId e) (arp_ExpiresAt e) s))"
      by (simp add: SetAcceptedReportPair_def)
    then show ?thesis
      using Cons.prems(5) that by (simp add: forM_def bindM_eval)
  qed
  have new: "\<not> HasAcceptedReport (arp_ReportId e) s" "\<not> HasAcceptedReportSession (arp_SessionId e) s"
    using Cons.prems(2-4) by auto
  show ?case
  proof (rule Cons.IH [OF _ _ _ _ rest])
    show "pairs_ok s1" using pairs_ok_add(1) [OF Cons.prems(1) new s1] .
    show "validateGenesisPairs (arp_ReportId e # R) (arp_SessionId e # S) es = None"
      using Cons.prems(2) by simp
    show "i \<in> set (arp_ReportId e # R)" if "HasAcceptedReport i s1" for i
      using that s1 Cons.prems(3) [of i] by (auto simp: SetAcceptedReportPair_def HasAcceptedReport_def split: if_splits)
    show "i \<in> set (arp_SessionId e # S)" if "HasAcceptedReportSession i s1" for i
      using that s1 Cons.prems(4) [of i] by (auto simp: SetAcceptedReportPair_def HasAcceptedReportSession_def split: if_splits)
  qed
qed (simp add: forM_def)

lemma thenM_skip:
  assumes "thenM m k s = (Inr x, t)" and "leaves f m"
  obtains s' where "f s' = f s" and "k s' = (Inr x, t)"
  using assms by (auto simp: thenM_Inr_iff dest: leavesD)

lemma pairs_ok_genesis:
  assumes "Orbis_InitGenesis g (orbis_init x) = (Inr (), s)" and "validateGenesisPairs [] [] (og_AcceptedReportPairs g) = None"
  shows "pairs_ok s"
proof -
  have leaves: "leaves report_view (tryM (Orbis_SetParams p))"
    "leaves report_view (forM rs (\<lambda>r. SetRing (f r)))" "leaves report_view (forM ds SetDocument)"
    "leaves report_view (forM ks SetKeyDerivation)"
    "leaves report_view (forM ns (\<lambda>(k, info). case info of None \<Rightarrow> ret () | Some n \<Rightarrow> SetNodeInfo k n))"
    "leaves report_view (forM es (\<lambda>e. SetNodeDemerits (nde_RingId e) (nde_NodeKey e) (nde_Points e) (nde_WindowStartedAt e)))"
    for p rs f ds ks ns es
    unfolding SetNodeDemerits_def
    by (intro leaves_rules leavesI, auto simp: tryM_def split: prod.splits sum.splits if_splits dest: leavesD [OF leaves_SetParams(2)])
      (intro leaves_rules)+
  obtain t0 where t0: "report_view t0 = report_view (orbis_init x)"
    and rest: "thenM (forM (og_Rings g) (\<lambda>ring. SetRing (genesisRing (og_Params g) ring)))
         (thenM (forM (og_Documents g) SetDocument)
         (thenM (forM (og_KeyDerivations g) SetKeyDerivation)
         (thenM (forM (og_NodeInfos g) (\<lambda>(nodeKey, info). case info of None \<Rightarrow> ret () | Some n \<Rightarrow> SetNodeInfo nodeKey n))
         (thenM (forM (og_NodeDemerits g) (\<lambda>e.
            SetNodeDemerits (nde_RingId e) (nde_NodeKey e) (nde_Points e) (nde_WindowStartedAt e)))
         (forM (og_AcceptedReportPairs g) (\<lambda>e.
            SetAcceptedReportPair (arp_ReportId e) (arp_SessionId e) (arp_ExpiresAt e))))))) t0 = (Inr (), s)"
    using assms(1) unfolding Orbis_InitGenesis_def
    by (auto simp: bindM_Inr_iff split: sum.split_asm dest: leaves(1) [THEN leavesD])
      (metis (full_types) old.unit.exhaust sum.exhaust)
  obtain t where t: "report_view t = report_view (orbis_init x)"
    "forM (og_AcceptedReportPairs g) (\<lambda>e. SetAcceptedReportPair (arp_ReportId e) (arp_SessionId e) (arp_ExpiresAt e)) t = (Inr (), s)"
    using rest t0 by (elim thenM_skip [OF _ leaves(2)] thenM_skip [OF _ leaves(3)] thenM_skip [OF _ leaves(4)]
        thenM_skip [OF _ leaves(5)] thenM_skip [OF _ leaves(6)]) (intro that, simp_all)
  show ?thesis
    by (rule pairs_ok_genesis_pairs [OF pairs_ok_view [OF t(1) pairs_ok_init] assms(2) _ _ t(2)])
      (simp_all only: HasAccepted_view [OF t(1)], simp_all add: orbis_init_def HasAcceptedReport_def HasAcceptedReportSession_def)
qed

lemma pairs_ok_step: "orbis_step K ctx s t \<Longrightarrow> pairs_ok s \<Longrightarrow> pairs_ok t"
  by (erule orbis_step_keeps)
    (auto intro: keeps_pairs_handle keeps_pairs_EndBlock pairs_ok_view simp: report_view_def)

lemma pairs_ok_run: "orbis_run K cs s t \<Longrightarrow> pairs_ok s \<Longrightarrow> pairs_ok t"
  by (induction rule: orbis_run.induct) (auto dest: pairs_ok_step)

lemma pairs_ok_reachable:
  "orbis_reachable K g cs s \<Longrightarrow> validateGenesisPairs [] [] (og_AcceptedReportPairs g) = None \<Longrightarrow> pairs_ok s"
  by (auto simp: orbis_reachable_def intro: pairs_ok_run pairs_ok_genesis)

text \<open>C21: The end of a block forgets exactly the accepted reports that have expired: the pairs that the
  module lists afterwards are those it listed before whose expiry lies after the block, and a report or
  a session counts as accepted exactly when it is in one of them. The loop may stop at the first pair
  that has not expired because the keys of the store are in the order of the expiry times.
\<close>

theorem end_block_forgets_expired:
  assumes "orbis_reachable K g cs s" and "validateGenesisPairs [] [] (og_AcceptedReportPairs g) = None"
    and "Orbis_EndBlock ctx s = (r, t)"
  shows "GetAllAcceptedReportPairs t =
      filter (\<lambda>e. arp_ExpiresAt e > word_of_int (Unix (BlockTime ctx))) (GetAllAcceptedReportPairs s) \<and>
    (\<forall>i. HasAcceptedReport i t \<longleftrightarrow> i \<in> arp_ReportId ` set (GetAllAcceptedReportPairs t)) \<and>
    (\<forall>i. HasAcceptedReportSession i t \<longleftrightarrow> i \<in> arp_SessionId ` set (GetAllAcceptedReportPairs t))"
proof -
  let ?now = "word_of_int (Unix (BlockTime ctx))"
  have s: "pairs_ok s" using assms(1, 2) by (rule pairs_ok_reachable)
  have d: "DeleteExpiredAcceptedReportPairs ?now s = (r, t)"
    using assms(3) by (simp add: Orbis_EndBlock_def)
  have all: "GetAllAcceptedReportPairs u = map (\<lambda>(k, v). \<lparr>arp_ReportId = keyReport k, arp_SessionId = v, arp_ExpiresAt = keyExpiry k\<rparr>)
      (accepted_expiry_store u)" if "pairs_ok u" for u :: "'a orbis_state"
  proof -
    have "filter (\<lambda>(key, _). \<not> length key < 8) (accepted_expiry_store u) = accepted_expiry_store u"
      using that by (intro filter_True) (auto simp: pairs_ok_def)
    then show ?thesis
      by (simp add: GetAllAcceptedReportPairs_def keyReport_def keyExpiry_def)
  qed
  have t: "pairs_ok t" using s d by (rule pairs_ok_DeleteExpired)
  have "GetAllAcceptedReportPairs t = filter (\<lambda>e. arp_ExpiresAt e > ?now) (GetAllAcceptedReportPairs s)"
    unfolding all [OF s] all [OF t] DeleteExpired_effect(1) [OF s d]
    by (simp add: filter_map comp_def split_def not_le)
  moreover have "(\<forall>i. HasAcceptedReport i t \<longleftrightarrow> i \<in> arp_ReportId ` set (GetAllAcceptedReportPairs t)) \<and>
      (\<forall>i. HasAcceptedReportSession i t \<longleftrightarrow> i \<in> arp_SessionId ` set (GetAllAcceptedReportPairs t))"
    using t unfolding all [OF t] by (auto simp: pairs_ok_def image_iff split_def)
  ultimately show ?thesis by blast
qed

definition demo_pairs :: OrbisGenesis where
  "demo_pairs = (demo_genesis [])\<lparr>og_AcceptedReportPairs :=
     [\<lparr>arp_ReportId = ''r2'', arp_SessionId = ''s2'', arp_ExpiresAt = 300\<rparr>,
      \<lparr>arp_ReportId = ''r1'', arp_SessionId = ''s1'', arp_ExpiresAt = 100\<rparr>]\<rparr>"

theorem end_block_forgets_expired_witness:
  "\<exists>s t :: unit orbis_state. Orbis_InitGenesis demo_pairs (orbis_init ()) = (Inr (), s) \<and>
     Orbis_EndBlock (demo_at 100) s = (Inr (), t) \<and>
     map arp_ReportId (GetAllAcceptedReportPairs s) = [''r1'', ''r2''] \<and>
     map arp_ReportId (GetAllAcceptedReportPairs t) = [''r2''] \<and> \<not> HasAcceptedReport ''r1'' t"
proof -
  let ?s = "(orbis_init ())\<lparr>orbis_params := Some Orbis_DefaultParams,
    accepted_report_store := [(''r1'', [char_of (1 :: nat)]), (''r2'', [char_of (1 :: nat)])],
    accepted_session_store := [(''s1'', [char_of (1 :: nat)]), (''s2'', [char_of (1 :: nat)])],
    accepted_expiry_store := [(acceptedExpiryKey 100 ''r1'', ''s1''), (acceptedExpiryKey 300 ''r2'', ''s2'')]\<rparr>"
  have "acceptedExpiryKey 100 ''r1'' < acceptedExpiryKey 300 ''r2''"
    by (simp add: acceptedExpiryKey_def bytes_less_append word_less_nat_alt)
  then have g: "Orbis_InitGenesis demo_pairs (orbis_init ()) = (Inr (), ?s)"
    by (simp add: Orbis_InitGenesis_def demo_pairs_def demo_genesis_def Orbis_SetParams_def DefaultParams_valid checkM_def
        checkE_def tryM_def m_defs forM_Nil forM_def SetAcceptedReportPair_def orbis_init_def)
  then have "orbis_reachable demo_orbis demo_pairs [] ?s"
    unfolding orbis_reachable_def by (blast intro: orbis_run.run_Nil)
  moreover obtain t where t: "Orbis_EndBlock (demo_at 100) ?s = (Inr (), t)"
    by (simp add: Orbis_EndBlock_def DeleteExpiredAcceptedReportPairs_def)
  moreover have "validateGenesisPairs [] [] (og_AcceptedReportPairs demo_pairs) = None"
    by (simp add: demo_pairs_def)
  ultimately have "GetAllAcceptedReportPairs t = filter (\<lambda>e. arp_ExpiresAt e > word_of_int (Unix (BlockTime (demo_at 100))))
      (GetAllAcceptedReportPairs ?s) \<and> (\<forall>i. HasAcceptedReport i t \<longleftrightarrow> i \<in> arp_ReportId ` set (GetAllAcceptedReportPairs t))"
    using end_block_forgets_expired [of demo_orbis demo_pairs "[]" ?s "demo_at 100" "Inr ()" t] by simp
  moreover have "GetAllAcceptedReportPairs ?s = rev (og_AcceptedReportPairs demo_pairs)"
    by (simp add: GetAllAcceptedReportPairs_def acceptedExpiryKey_def demo_pairs_def)
  moreover have "(word_of_int (Unix (BlockTime (demo_at 100))) :: uint64) = 100"
    by (simp add: demo_at_def Unix_def)
  ultimately have "map arp_ReportId (GetAllAcceptedReportPairs ?s) = [''r1'', ''r2'']"
      "map arp_ReportId (GetAllAcceptedReportPairs t) = [''r2'']" "\<not> HasAcceptedReport ''r1'' t"
    by (auto simp: demo_pairs_def word_less_nat_alt)
  with g t show ?thesis by (intro exI [of _ ?s] exI [of _ t] conjI)
qed

section \<open>Replays\<close>

definition has_pair :: "uint64 \<Rightarrow> string \<Rightarrow> string \<Rightarrow> 'x orbis_state \<Rightarrow> bool" where
  "has_pair e rid sid s \<longleftrightarrow> pairs_ok s \<and> (acceptedExpiryKey e rid, sid) \<in> set (accepted_expiry_store s)"

lemma has_pair_view: "report_view s = report_view t \<Longrightarrow> has_pair e rid sid t \<Longrightarrow> has_pair e rid sid s"
  using pairs_ok_view [of s t] by (simp add: has_pair_def report_view_def)

lemma has_pair_accepted:
  "has_pair e rid sid s \<Longrightarrow> HasAcceptedReport rid s \<and> HasAcceptedReportSession sid s"
  by (auto simp: has_pair_def pairs_ok_def intro!: image_eqI [where x = "(acceptedExpiryKey e rid, sid)"])

lemma has_pair_SubmitReport: "keeps (has_pair e rid sid) (SubmitReport K ctx r i scheme sig)"
proof (rule keepsI, erule SubmitReport_cases)
  fix s t t0 :: "'a orbis_state" and v
  assume *: "has_pair e rid sid s" "validateSubmittedReport (orb_lib K) ctx r i scheme sig s = Inr v"
    "SetAcceptedReportPair (vr_reportID v) (vr_sessionDedupeID v) (vr_blockUnixTime v + ReportTTLSeconds) s = (Inr (), t0)"
    "report_view t = report_view t0"
  have "has_pair e rid sid t0"
    using *(1) pairs_ok_add [OF _ validateSubmittedReport_fresh [OF *(2)] *(3)] by (simp add: has_pair_def)
  with *(4) show "has_pair e rid sid t" by (rule has_pair_view)
qed (rule has_pair_view)

lemma has_pair_leaves: "leaves report_view m \<Longrightarrow> keeps (has_pair e rid sid) m"
  by (erule keeps_leaves) (rule has_pair_view)

lemma has_pair_step:
  assumes "orbis_step K ctx s t" and "has_pair e rid sid s" and "word_of_int (Unix (BlockTime ctx)) < e"
  shows "has_pair e rid sid t"
  using assms(1, 2)
proof (rule orbis_step_keeps)
  show "keeps (has_pair e rid sid) (Orbis_handle K ctx msg)" for msg
  proof (cases msg)
    case (MsgSubmitReport c r rid scheme sig)
    then show ?thesis by (simp add: noResult_def keeps_thenM keeps_ret has_pair_SubmitReport)
  qed (auto intro!: has_pair_leaves intro: leaves_rules)
  show "keeps (has_pair e rid sid) (Orbis_EndBlock ctx)"
    unfolding Orbis_EndBlock_def
  proof (rule keepsI)
    fix s t u
    assume *: "has_pair e rid sid s" and d: "DeleteExpiredAcceptedReportPairs (word_of_int (Unix (BlockTime ctx))) s = (u, t)"
    have s: "pairs_ok s" using * by (simp add: has_pair_def)
    show "has_pair e rid sid t"
      using * assms(3) pairs_ok_DeleteExpired [OF s d]
      unfolding has_pair_def DeleteExpired_effect(1) [OF s d] by (simp add: not_le)
  qed
qed (erule has_pair_view [rotated], simp add: report_view_def)

lemma has_pair_run:
  assumes "orbis_run K cs s t" and "has_pair e rid sid s" and "\<forall>c\<in>set cs. word_of_int (Unix (BlockTime c)) < e"
  shows "has_pair e rid sid t"
  using assms by (induction rule: orbis_run.induct) (auto intro: has_pair_step)

lemma accepted_has_pair:
  assumes "SubmitReport K ctx r rid scheme sig s = (Inr x, t)" and "pairs_ok s"
  obtains v where "validateSubmittedReport (orb_lib K) ctx r rid scheme sig s = Inr v"
    and "has_pair (vr_blockUnixTime v + ReportTTLSeconds) (vr_reportID v) (vr_sessionDedupeID v) t"
  using assms(1)
proof (rule SubmitReport_cases)
  fix v t0
  assume *: "validateSubmittedReport (orb_lib K) ctx r rid scheme sig s = Inr v"
    "SetAcceptedReportPair (vr_reportID v) (vr_sessionDedupeID v) (vr_blockUnixTime v + ReportTTLSeconds) s = (Inr (), t0)"
    "report_view t = report_view t0"
  have "has_pair (vr_blockUnixTime v + ReportTTLSeconds) (vr_reportID v) (vr_sessionDedupeID v) t0"
    using pairs_ok_add [OF assms(2) validateSubmittedReport_fresh [OF *(1)] *(2)] by (simp add: has_pair_def)
  then show thesis using * that by (blast intro: has_pair_view)
qed simp

text \<open>Two reports that concern the same session.\<close>

definition same_session :: "orbis_lib \<Rightarrow> ReportEnvelope \<Rightarrow> ReportEnvelope \<Rightarrow> bool" where
  "same_session L r r' \<longleftrightarrow> (\<exists>p p' sid. decodeReportPayload r = Inr p \<and> decodeReportPayload r' = Inr p' \<and>
     reportSessionDedupeID L r p = Inr sid \<and> reportSessionDedupeID L r' p' = Inr sid)"

lemma blocked_while_recorded:
  assumes "has_pair e (vr_reportID v) (vr_sessionDedupeID v) u"
    and "validateSubmittedReport L c0 r rid0 scheme0 sig0 s = Inr v" and "r' = r \<or> same_session L r r'"
  shows "validateSubmittedReport L c r' rid scheme sig u \<noteq> Inr v'"
proof
  assume v': "validateSubmittedReport L c r' rid scheme sig u = Inr v'"
  have known: "HasAcceptedReport (vr_reportID v) u" "HasAcceptedReportSession (vr_sessionDedupeID v) u"
    using has_pair_accepted [OF assms(1)] by auto
  note fresh = validateSubmittedReport_fresh [OF v']
  have "vr_reportID v' = vr_reportID v" if "r' = r"
    using validateSubmittedReport_Inr(5) [OF assms(2)] validateSubmittedReport_Inr(5) [OF v'] that by auto
  moreover have "vr_sessionDedupeID v' = vr_sessionDedupeID v" if "same_session L r r'"
    using validateSubmittedReport_Inr(9) [OF assms(2)] validateSubmittedReport_Inr(9) [OF v'] that
    by (auto simp: same_session_def)
  ultimately show False using assms(3) known fresh by auto
qed

lemma plus_120: "uint a < 2 ^ 64 - 120 \<Longrightarrow> uint (a + 120 :: uint64) = uint a + 120"
  using uint_ge_0 [of a] by (simp add: uint_word_ariths(1) take_bit_eq_mod)

lemma report_time_left:
  assumes "validateReportEnvelopeShape r now = None" and "rep_ObservedAt r < a" and "uint a < 2 ^ 64 - 120"
  shows "now < a + ReportTTLSeconds"
proof -
  have "rep_ExpiresAt r - rep_ObservedAt r = 120" "now \<le> rep_ExpiresAt r"
    using assms(1) by (auto simp: validateReportEnvelopeShape_def ReportTTLSeconds_def)
  then have "now \<le> rep_ObservedAt r + 120"
    by (metis add.commute diff_add_cancel)
  then show ?thesis
    using assms(2, 3) plus_120 [of a] plus_120 [of "rep_ObservedAt r"]
    unfolding ReportTTLSeconds_def word_le_def word_less_def by linarith
qed

lemma within_record:
  assumes "uint a < 2 ^ 64 - 120"
    and "(rep_ObservedAt r < a \<and> validateReportEnvelopeShape r now = None) \<or> uint now < uint a + 120"
  shows "now < a + ReportTTLSeconds"
  using assms(2) report_time_left [OF _ _ assms(1)] plus_120 [OF assms(1)] by (auto simp: ReportTTLSeconds_def word_less_def)

lemma reportBlockUnixTime_Inr:
  "reportBlockUnixTime ctx = Inr now \<longleftrightarrow> 0 \<le> blockSeconds ctx \<and> now = word_of_int (blockSeconds ctx)"
  by (auto simp: reportBlockUnixTime_def)

lemma uint_seconds: "0 \<le> n \<Longrightarrow> n < 2 ^ 64 \<Longrightarrow> uint (word_of_int n :: uint64) = n"
  by (simp add: uint_word_of_int)

text \<open>C2: A report that was accepted is not accepted again, by whatever steps the chain gets from the one
  submission to the other, if the block times do not go back. The same envelope is refused for ever
  when it was observed before the second of the block that accepted it: first because it is on record,
  and after the record has been dropped because it has expired. Any other report about the same session
  of the same node is refused for the two minutes for which the first one stays on record.
\<close>

theorem accepted_report_not_replayed:
  assumes "orbis_reachable K g ks s" and "validateGenesisPairs [] [] (og_AcceptedReportPairs g) = None"
    and "SubmitReport K c0 r rid0 scheme0 sig0 s = (Inr x, t)" and "orbis_run K cs t u"
    and "sorted (map blockSeconds (c0 # cs @ [c]))" and "blockSeconds c < 2 ^ 64 - 120"
    and "(r' = r \<and> rep_ObservedAt r < word_of_int (blockSeconds c0)) \<or>
         (same_session (orb_lib K) r r' \<and> blockSeconds c < blockSeconds c0 + 120)"
  shows "\<exists>e. fst (SubmitReport K c r' rid scheme sig u) = Inl e"
proof (rule ccontr)
  assume "\<nexists>e. fst (SubmitReport K c r' rid scheme sig u) = Inl e"
  then obtain y w where y: "SubmitReport K c r' rid scheme sig u = (Inr y, w)"
    by (metis prod.collapse sum.exhaust)
  from y obtain v' where v': "validateSubmittedReport (orb_lib K) c r' rid scheme sig u = Inr v'"
    by (elim SubmitReport_cases) auto
  obtain v where v: "validateSubmittedReport (orb_lib K) c0 r rid0 scheme0 sig0 s = Inr v"
    and pair: "has_pair (vr_blockUnixTime v + ReportTTLSeconds) (vr_reportID v) (vr_sessionDedupeID v) t"
    using accepted_has_pair [OF assms(3) pairs_ok_reachable [OF assms(1, 2)]] .
  let ?a = "word_of_int (blockSeconds c0) :: uint64" and ?now = "word_of_int (blockSeconds c) :: uint64"
  have times: "0 \<le> blockSeconds c0" "vr_blockUnixTime v = ?a" "0 \<le> blockSeconds c" "vr_blockUnixTime v' = ?now"
    using validateSubmittedReport_Inr(3) [OF v] validateSubmittedReport_Inr(3) [OF v'] by (simp_all add: reportBlockUnixTime_Inr)
  have le: "\<forall>c'\<in>set cs. blockSeconds c0 \<le> blockSeconds c' \<and> blockSeconds c' \<le> blockSeconds c" "blockSeconds c0 \<le> blockSeconds c"
    using assms(5) by (auto simp: sorted_append)
  then have a: "uint ?a = blockSeconds c0" "uint ?now = blockSeconds c" "uint ?a < 2 ^ 64 - 120"
    using times(1, 3) assms(6) by (simp_all add: uint_seconds)
  have "?now < ?a + ReportTTLSeconds"
    using validateSubmittedReport_Inr(4) [OF v'] assms(7) unfolding times(4) by (intro within_record [OF a(3)]) (auto simp: a)
  moreover have "word_of_int (blockSeconds c') \<le> ?now" if "c' \<in> set cs" for c'
    using le(1) that times(1) assms(6) by (intro seconds_le) auto
  ultimately have "\<forall>c'\<in>set cs. word_of_int (blockSeconds c') < vr_blockUnixTime v + ReportTTLSeconds"
    unfolding times(2) by (meson le_less_trans)
  from has_pair_run [OF assms(4) pair this] show False
    using blocked_while_recorded [OF _ v] assms(7) v' by blast
qed

theorem accepted_report_not_replayed_witness:
  "\<exists>t e. SubmitReport demo_orbis (demo_at 1000) (demo_report 990) zero_hex ''jubjub_frost'' (replicate 64 CHR 0x00) report_state =
       (Inr zero_hex, t) \<and>
     fst (SubmitReport demo_orbis (demo_at 1005) (demo_report 990) zero_hex ''jubjub_frost'' (replicate 64 CHR 0x00) t) = Inl e"
proof -
  have time: "blockSeconds (demo_at n) = n" for n
    by (simp add: demo_at_def Unix_def)
  obtain t where t: "SubmitReport demo_orbis (demo_at 1000) (demo_report 990) zero_hex ''jubjub_frost'' (replicate 64 CHR 0x00)
      report_state = (Inr zero_hex, t)"
    using demo_submitted by blast
  moreover have "rep_ObservedAt (demo_report 990) < word_of_int (blockSeconds (demo_at 1000))"
    by (simp add: demo_report_def time word_less_nat_alt)
  ultimately have "\<exists>e. fst (SubmitReport demo_orbis (demo_at 1005) (demo_report 990) zero_hex ''jubjub_frost''
      (replicate 64 CHR 0x00) t) = Inl e"
    by (intro accepted_report_not_replayed [OF report_reachable report_pairs t orbis_run.run_Nil]) (simp_all add: time)
  with t show ?thesis by blast
qed

lemma pair_dropped:
  assumes "has_pair e rid sid t"
  shows "rid \<notin> (\<lambda>p. keyReport (fst p)) ` {p \<in> set (accepted_expiry_store t). \<not> keyExpiry (fst p) \<le> e}"
    and "sid \<notin> snd ` {p \<in> set (accepted_expiry_store t). \<not> keyExpiry (fst p) \<le> e}"
proof -
  let ?p = "(acceptedExpiryKey e rid, sid)"
  have p: "?p \<in> set (accepted_expiry_store t)" "inj_on (\<lambda>p. keyReport (fst p)) (set (accepted_expiry_store t))"
    "inj_on snd (set (accepted_expiry_store t))"
    using assms by (simp_all add: has_pair_def pairs_ok_def)
  show "rid \<notin> (\<lambda>p. keyReport (fst p)) ` {p \<in> set (accepted_expiry_store t). \<not> keyExpiry (fst p) \<le> e}"
  proof
    assume "rid \<in> (\<lambda>p. keyReport (fst p)) ` {p \<in> set (accepted_expiry_store t). \<not> keyExpiry (fst p) \<le> e}"
    then obtain q where "q \<in> set (accepted_expiry_store t)" "keyReport (fst q) = rid" "\<not> keyExpiry (fst q) \<le> e" by auto
    with inj_onD [OF p(2), of q ?p] p(1) show False by simp
  qed
  show "sid \<notin> snd ` {p \<in> set (accepted_expiry_store t). \<not> keyExpiry (fst p) \<le> e}"
  proof
    assume "sid \<in> snd ` {p \<in> set (accepted_expiry_store t). \<not> keyExpiry (fst p) \<le> e}"
    then obtain q where "q \<in> set (accepted_expiry_store t)" "snd q = sid" "\<not> keyExpiry (fst q) \<le> e" by auto
    with inj_onD [OF p(3), of q ?p] p(1) show False by simp
  qed
qed

lemma validateSubmittedReport_again:
  assumes "validateSubmittedReport L c0 r rid scheme sig s = Inr v"
    and "validateReportEnvelopeShape r now = None" and "reportBlockUnixTime c = Inr now" and "ChainID c = ChainID c0"
    and "ring_store u = ring_store s" and "node_info_store u = node_info_store s"
    and "\<not> HasAcceptedReport (vr_reportID v) u" and "\<not> HasAcceptedReportSession (vr_sessionDedupeID v) u"
  shows "validateSubmittedReport L c r rid scheme sig u = Inr (v\<lparr>vr_blockUnixTime := now\<rparr>)"
proof -
  have "GetRing i u = GetRing i s" "validateReportCommitteeAuthorization r p ring u = validateReportCommitteeAuthorization r p ring s" for i p ring
    using assms(5, 6) by (simp_all add: GetRing_def GetNodeInfo_def validateReportCommitteeAuthorization_def)
  then show ?thesis
    using assms(1-4, 7, 8) unfolding validateSubmittedReport_def
    by (auto simp: bindE_Inr_iff split: option.splits prod.splits)
qed

lemma shape_at_expiry:
  assumes "validateReportEnvelopeShape r a = None" and "rep_ObservedAt r = a" and "a \<le> a + 120"
  shows "validateReportEnvelopeShape r (a + 120) = None"
proof -
  have "rep_ExpiresAt r = a + 120"
    using assms(1, 2) by (simp add: validateReportEnvelopeShape_def ReportTTLSeconds_def) (metis add.commute diff_add_cancel)
  then show ?thesis
    using assms by (simp add: validateReportEnvelopeShape_def not_less)
qed

text \<open>
  The record of an accepted report is dropped at the end of the block in the second in which the report
  expires, but in that second the report is still valid. If it was observed in the second in which it
  was accepted, and the ring has not changed, the next block of the same second accepts it again.
\<close>

theorem report_valid_after_record_dropped:
  assumes "orbis_reachable K g ks s" and "validateGenesisPairs [] [] (og_AcceptedReportPairs g) = None"
    and "SubmitReport K c0 r rid scheme sig s = (Inr x, t)" and "ring_store t = ring_store s" and "node_info_store t = node_info_store s"
    and "rep_ObservedAt r = word_of_int (blockSeconds c0)" and "blockSeconds c = blockSeconds c0 + 120"
    and "blockSeconds c < 2 ^ 64" and "ChainID c = ChainID c0" and "Orbis_EndBlock c t = (Inr (), u)"
  shows "\<exists>v. validateSubmittedReport (orb_lib K) c r rid scheme sig u = Inr v"
proof -
  obtain v where v: "validateSubmittedReport (orb_lib K) c0 r rid scheme sig s = Inr v"
    and pair: "has_pair (vr_blockUnixTime v + ReportTTLSeconds) (vr_reportID v) (vr_sessionDedupeID v) t"
    using accepted_has_pair [OF assms(3) pairs_ok_reachable [OF assms(1, 2)]] .
  have a: "0 \<le> blockSeconds c0" "vr_blockUnixTime v = word_of_int (blockSeconds c0)"
    using validateSubmittedReport_Inr(3) [OF v] by (simp_all add: reportBlockUnixTime_Inr)
  let ?now = "word_of_int (blockSeconds c) :: uint64"
  have now: "?now = vr_blockUnixTime v + 120" "reportBlockUnixTime c = Inr ?now"
    using a assms(7) by (simp_all add: reportBlockUnixTime_Inr)
  have t: "pairs_ok t" using pair by (simp add: has_pair_def)
  have d: "DeleteExpiredAcceptedReportPairs ?now t = (Inr (), u)"
    using assms(10) by (simp add: Orbis_EndBlock_def)
  have stores: "ring_store u = ring_store s" "node_info_store u = node_info_store s"
    using leavesD [OF leaves_DeleteExpired(1) d] leavesD [OF leaves_DeleteExpired(2) d] assms(4, 5) by simp_all
  have dropped: "\<not> HasAcceptedReport (vr_reportID v) u" "\<not> HasAcceptedReportSession (vr_sessionDedupeID v) u"
    unfolding DeleteExpired_effect(2, 3) [OF t d] using pair_dropped [OF pair] now(1) by (auto simp: ReportTTLSeconds_def)
  have shape: "validateReportEnvelopeShape r ?now = None"
    unfolding now(1) using validateSubmittedReport_Inr(4) [OF v]
    by (rule shape_at_expiry) (use a assms(6-8) seconds_le [of "blockSeconds c0" "blockSeconds c"] in simp_all)
  show ?thesis
    by (rule exI) (rule validateSubmittedReport_again [OF v shape now(2) assms(9) stores dropped])
qed

end
