(* ===== verification/Orbis_Accept_Props.thy ===== *)
theory Orbis_Accept_Props
  imports Orbis_Report_Props
begin

text \<open>
  What the signed bytes of a report say, and what an accepted report does: the bytes identify the
  report, and a report that passes the checks is always accepted, adds its demerits and at most
  schedules the replacement of the accused node.
\<close>

section \<open>The signed bytes\<close>

definition same_bytes :: "(error + bytes) list \<Rightarrow> (error + bytes) list \<Rightarrow> bool" where
  "same_bytes ws vs \<longleftrightarrow> (\<exists>b. catW ws = Inr b \<and> catW vs = Inr b)"

context wire_format
begin

lemma same_bytes_Cons:
  assumes "same_bytes (wr x # ws) (wr y # vs)" and "wf x" and "wf y"
  shows "x = y \<and> same_bytes ws vs"
proof -
  obtain a b c d where *: "wr x = Inr a" "wr y = Inr b" "catW ws = Inr c" "catW vs = Inr d" "a @ c = b @ d"
    using assms(1) by (auto simp: same_bytes_def bindE_Inr_iff)
  with wr_prefix_free [OF assms(2, 3) *(1, 2, 5)] show ?thesis by (simp add: same_bytes_def)
qed

end

lemma reportEnvelopeCanonicalBytes_inj:
  assumes "reportEnvelopeCanonicalBytes r = Inr b" and "reportEnvelopeCanonicalBytes r' = Inr b"
  shows "r = r'"
proof -
  let ?fields = "\<lambda>r. [w_Bytes (rep_Domain r), w_Bytes (rep_ReportType r), w_Bytes (rep_ChainId r), w_Bytes (rep_RingId r),
      w_Bytes (rep_RingPk r), w_Bytes (rep_RingStateSha256 r), w_Bytes (rep_ReporterNodeKey r),
      w_Bytes (rep_AccusedNodeKey r), w_Bytes (rep_AccusedPeerId r), w_U64 (rep_ObservedAt r),
      w_U64 (rep_ExpiresAt r), w_Bytes (rep_Payload r), w_Bytes (rep_SessionId r)]"
  have "same_bytes (?fields r) (?fields r')"
    using assms unfolding same_bytes_def reportEnvelopeCanonicalBytes_def by blast
  then show ?thesis
    by (auto dest!: wire_bytes.same_bytes_Cons wire_u64.same_bytes_Cons)
qed

text \<open>C31: The bytes that a committee signs for a report identify the report: two reports with the same
  bytes agree in every field, so a signature for one cannot be presented with another. Their
  identifiers agree exactly when the hashes of the bytes do.
\<close>

theorem report_bytes_identify_report:
  assumes "reportEnvelopeCanonicalMessageAndID L r = Inr (m, i)" and "reportEnvelopeCanonicalMessageAndID L r' = Inr (m', i')"
  shows "(m = m' \<longleftrightarrow> r = r') \<and> (i = i' \<longleftrightarrow> Sha256 L m = Sha256 L m')"
  using assms reportEnvelopeCanonicalBytes_inj [of r m r']
  by (auto simp: reportEnvelopeCanonicalMessageAndID_def bindE_Inr_iff idSum_def)

theorem report_bytes_identify_report_witness:
  "\<exists>m m'. reportEnvelopeCanonicalMessageAndID demo_lib (demo_report 990) = Inr (m, zero_hex) \<and>
     reportEnvelopeCanonicalMessageAndID demo_lib (demo_report 1000) = Inr (m', zero_hex) \<and> m \<noteq> m'"
proof -
  obtain m m' where *: "reportEnvelopeCanonicalMessageAndID demo_lib (demo_report 990) = Inr (m, zero_hex)"
    "reportEnvelopeCanonicalMessageAndID demo_lib (demo_report 1000) = Inr (m', zero_hex)"
    using demo_message by blast
  moreover have "demo_report 990 \<noteq> demo_report 1000" by (simp add: demo_report_def)
  ultimately show ?thesis using report_bytes_identify_report [OF *] by blast
qed

section \<open>The automatic replacement of a node\<close>

lemma selectReplacement_Some:
  assumes "selectReplacement s ring before xs = Some (rep, rest)"
  shows "\<exists>ys zs. xs = ys @ rep # zs \<and> rest = before @ ys @ zs \<and> rep \<notin> set (PeerNodeKeys ring) \<and>
    (\<exists>n. GetNodeInfo rep s = Some n \<and> nodeInfoAllowsRing n ring)"
  using assms
proof (induction s ring before xs rule: selectReplacement.induct)
  case (2 s ring before x xs)
  let ?C = "rep \<notin> set (PeerNodeKeys ring) \<and> (\<exists>n. GetNodeInfo rep s = Some n \<and> nodeInfoAllowsRing n ring)"
  have skip: "\<exists>ys zs. x # xs = ys @ rep # zs \<and> rest = before @ ys @ zs \<and> ?C"
    if "\<exists>ys zs. xs = ys @ rep # zs \<and> rest = (before @ [x]) @ ys @ zs \<and> ?C"
    using that by (metis append.assoc append_Cons append_Nil)
  show ?case
  proof (cases "x \<notin> set (PeerNodeKeys ring) \<and> (\<exists>n. GetNodeInfo x s = Some n \<and> nodeInfoAllowsRing n ring)")
    case True
    then show ?thesis using 2(4) by - (rule exI [of _ "[]"], rule exI [of _ xs], auto)
  next
    case False
    then show ?thesis using 2 by (intro skip) (auto split: if_splits option.splits)
  qed
qed simp

definition replaced :: "Ring \<Rightarrow> string \<Rightarrow> string \<Rightarrow> string list \<Rightarrow> Ring" where
  "replaced ring accused rep backups = ring
     \<lparr>NewPeerNodeKeys := canonicalStrings (filter (\<lambda>k. k \<noteq> accused) (PeerNodeKeys ring) @ [rep]), NewThreshold := None,
      ring_Reporting := (ring_Reporting ring)\<lparr>BackupNodeKeys := backups\<rparr>\<rparr>"

lemma length_replaced:
  "distinct xs \<Longrightarrow> k \<in> set xs \<Longrightarrow> length (filter (\<lambda>x. x \<noteq> k) xs @ [rep]) = length xs"
  by (induction xs) (auto, subst filter_True, auto)

lemma validateUniquePeerNodeKeys_None:
  "validateUniquePeerNodeKeys ks = None \<longleftrightarrow> (\<forall>k\<in>set ks. validatePeerNodeKeyFormat k = None) \<and> distinct ks"
  by (simp add: validateUniquePeerNodeKeys_def uniqueBy_None)

lemma validate_replaced:
  assumes "validateRing L ring = None" and "k \<in> set (PeerNodeKeys ring)" and "rep \<notin> set (PeerNodeKeys ring)"
    and "BackupNodeKeys (ring_Reporting ring) = ys @ rep # zs" and "length (PeerNodeKeys ring) < 2 ^ 32"
  shows "validateRing L (replaced ring k rep (ys @ zs)) = None"
proof -
  let ?ks = "filter (\<lambda>x. x \<noteq> k) (PeerNodeKeys ring) @ [rep]"
  have ring: "validateUniquePeerNodeKeys (PeerNodeKeys ring) = None" "validateReportingConfig (ring_Reporting ring) = None"
    "unat (Threshold ring) \<le> length (PeerNodeKeys ring)"
    using assms(1) by (auto simp: validateRing_def)
  then have backups: "validateUniquePeerNodeKeys (ys @ rep # zs) = None" "ValidateReportingConfig (ring_Reporting ring) = None"
    using assms(4) by (auto simp: validateReportingConfig_def)
  have len: "length ?ks = length (PeerNodeKeys ring)"
    using ring(1) assms(2) by (intro length_replaced) (simp_all add: validateUniquePeerNodeKeys_None)
  have "validateUniquePeerNodeKeys (canonicalStrings ?ks) = None"
    using ring(1) backups(1) assms(3) by (auto simp: validateUniquePeerNodeKeys_None canonicalStrings_def)
  moreover have "validateReportingConfig ((ring_Reporting ring)\<lparr>BackupNodeKeys := ys @ zs\<rparr>) = None"
    using backups by (auto simp: validateReportingConfig_def validateUniquePeerNodeKeys_None ValidateReportingConfig_def)
  moreover have "validateEffectiveReshareThreshold (Threshold ring) (length (canonicalStrings ?ks)) = None"
    using ring(3) assms(5) len
    by (simp add: validateEffectiveReshareThreshold_def canonicalStrings_def word_less_nat_alt unat_of_nat)
  ultimately show ?thesis
    using assms(1) by (simp add: validateRing_def replaced_def)
qed

text \<open>The effect of the automatic replacement on the stored ring.\<close>

definition auto_reshared :: "'x orbis_state \<Rightarrow> Ring \<Rightarrow> string \<Rightarrow> Ring \<Rightarrow> bool" where
  "auto_reshared s ring accused ring' \<longleftrightarrow> \<not> reshareInProgress ring \<and> accused \<in> set (PeerNodeKeys ring) \<and>
     (\<exists>rep ys zs n. BackupNodeKeys (ring_Reporting ring) = ys @ rep # zs \<and> rep \<notin> set (PeerNodeKeys ring) \<and>
        GetNodeInfo rep s = Some n \<and> nodeInfoAllowsRing n ring \<and> ring' = canonicalRing (replaced ring accused rep (ys @ zs)) \<and>
        set (NewPeerNodeKeys ring') = insert rep (set (PeerNodeKeys ring) - {accused}) \<and>
        length (NewPeerNodeKeys ring') = length (PeerNodeKeys ring))"

lemma auto_reshare_runs:
  assumes "ring_wf (orb_lib K) ring" and "length (PeerNodeKeys ring) < 2 ^ 32"
  shows "\<exists>t. maybeScheduleAutoReshareForReport K ring accused d s = (Inr (), t) \<and>
    (ring_store t = ring_store s \<or>
     (\<exists>ring'. auto_reshared s ring accused ring' \<and> ring_store t = kv_set (ring_Id ring) ring' (ring_store s)))"
proof (cases "selectAutoReshareReplacement ring s")
  case None
  then show ?thesis by (simp add: maybeScheduleAutoReshareForReport_def)
next
  case (Some p)
  obtain rep rest where p: "p = (rep, rest)" by (cases p)
  obtain ys zs n where rep: "BackupNodeKeys (ring_Reporting ring) = ys @ rep # zs" "rest = ys @ zs"
    "rep \<notin> set (PeerNodeKeys ring)" "GetNodeInfo rep s = Some n" "nodeInfoAllowsRing n ring"
    using selectReplacement_Some [of s ring "[]" "BackupNodeKeys (ring_Reporting ring)" rep rest] Some p
    by (auto simp: selectAutoReshareReplacement_def)
  show ?thesis
  proof (cases "d < ring_KickThreshold (ring_Reporting ring) \<or> reshareInProgress ring \<or> accused \<notin> set (PeerNodeKeys ring)")
    case True
    then show ?thesis by (auto simp: maybeScheduleAutoReshareForReport_def)
  next
    case False
    have valid: "validateRing (orb_lib K) ring = None" using assms(1) by (simp add: ring_wf_def)
    then have "distinct (PeerNodeKeys ring)" by (simp add: validateRing_def validateUniquePeerNodeKeys_None)
    then have "auto_reshared s ring accused (canonicalRing (replaced ring accused rep rest))"
      using False rep length_replaced [of "PeerNodeKeys ring" accused rep]
      by (auto simp: auto_reshared_def replaced_def canonicalRing_def canonicalStrings_def)
    moreover have "validateRing (orb_lib K) (replaced ring accused rep rest) = None"
      using validate_replaced [OF valid _ rep(3, 1) assms(2)] False rep(2) by simp
    ultimately show ?thesis
      using False Some p unfolding replaced_def
      by (auto simp: maybeScheduleAutoReshareForReport_def bindM_Inr_iff thenM_Inr_iff checkM_def validateAndSetRing_def
          SetRing_def EmitEvent_def)
  qed
qed

section \<open>Accepting a report\<close>

lemma demerit_amount:
  assumes "decodeReportPayload r = Inr p"
  shows "\<exists>a. DemeritAmountForReportType ring (rep_ReportType r) = Inr a"
  using assms by (auto simp: decodeReportPayload_def DemeritAmountForReportType_def Let_def split: if_splits)

lemma IncrementNodeDemerits_runs:
  "\<exists>t. IncrementNodeDemerits i k a now n s = (Inr (GetEffectiveNodeDemerits i k now n s + a), t) \<and>
     GetNodeDemerits i k t = GetEffectiveNodeDemerits i k now n s + a \<and>
     ring_store t = ring_store s \<and> node_info_store t = node_info_store s"
  by (simp add: IncrementNodeDemerits_def Let_def GetEffectiveNodeDemerits_def GetNodeDemerits_def setNodeDemeritState_def
      getNodeDemeritState_def m_defs split: option.splits)

lemma leaves_demerits_AutoReshare: "leaves node_demerit_store (maybeScheduleAutoReshareForReport K ring k d)"
  unfolding maybeScheduleAutoReshareForReport_def validateAndSetRing_def SetRing_def Let_def
  by (intro leaves_rules leaves_modifyM) simp_all

text \<open>C11: A report that passes the checks is always accepted, if the rings of the genesis are well formed (and
  the committee has fewer than \<open>2 ^ 32\<close> members): its demerits are added to those that still
  count for the accused node, no other ring changes, and the ring of the report is either unchanged or
  has a reshare scheduled that replaces exactly the accused node by a backup node that allows the ring,
  with the committee of the same size. The automatic reshare never makes the report fail.
\<close>

theorem valid_report_accepted:
  assumes "orbis_reachable K g cs s"
    and "\<And>r. r \<in> set (og_Rings g) \<Longrightarrow> ring_wf (orb_lib K) (canonicalRing (genesisRing (og_Params g) r))"
    and "validateSubmittedReport (orb_lib K) ctx r rid scheme sig s = Inr v" and "length (PeerNodeKeys (vr_ring v)) < 2 ^ 32"
  shows "\<exists>t a. SubmitReport K ctx r rid scheme sig s = (Inr (vr_reportID v), t) \<and>
    DemeritAmountForReportType (vr_ring v) (rep_ReportType r) = Inr a \<and>
    GetNodeDemerits (rep_RingId r) (rep_AccusedNodeKey r) t =
      GetEffectiveNodeDemerits (rep_RingId r) (rep_AccusedNodeKey r) (vr_blockUnixTime v)
        (ResetIntervalSeconds (ring_DemeritConfig (ring_Reporting (vr_ring v)))) s + a \<and>
    (ring_store t = ring_store s \<or>
     (\<exists>ring'. auto_reshared s (vr_ring v) (rep_AccusedNodeKey r) ring' \<and> ring_store t = kv_set (rep_RingId r) ring' (ring_store s)))"
proof -
  let ?i = "rep_RingId r" and ?k = "rep_AccusedNodeKey r" and ?now = "vr_blockUnixTime v"
    and ?n = "ResetIntervalSeconds (ring_DemeritConfig (ring_Reporting (vr_ring v)))"
  obtain a where a: "DemeritAmountForReportType (vr_ring v) (rep_ReportType r) = Inr a"
    using validateSubmittedReport_Inr(9) [OF assms(3)] demerit_amount by blast
  have ring: "ring_Id (vr_ring v) = ?i" "ring_wf (orb_lib K) (vr_ring v)"
    using wf_rings.all_reachable [OF refl assms(1, 2)] validateSubmittedReport_Inr(1) [OF assms(3)] by (simp_all add: rings_all_def)
  obtain s1 where s1: "SetAcceptedReportPair (vr_reportID v) (vr_sessionDedupeID v) (?now + ReportTTLSeconds) s = (Inr (), s1)"
    "ring_store s1 = ring_store s" "node_info_store s1 = node_info_store s" "node_demerit_store s1 = node_demerit_store s"
    by (simp add: SetAcceptedReportPair_def)
  have eff: "GetEffectiveNodeDemerits ?i ?k ?now ?n s1 = GetEffectiveNodeDemerits ?i ?k ?now ?n s"
    using s1(4) by (simp add: GetEffectiveNodeDemerits_def getNodeDemeritState_def)
  obtain s2 where s2: "IncrementNodeDemerits ?i ?k a ?now ?n s1 = (Inr (GetEffectiveNodeDemerits ?i ?k ?now ?n s + a), s2)"
    "GetNodeDemerits ?i ?k s2 = GetEffectiveNodeDemerits ?i ?k ?now ?n s + a" "ring_store s2 = ring_store s"
    "node_info_store s2 = node_info_store s"
    using IncrementNodeDemerits_runs [of ?i ?k a ?now ?n s1] unfolding eff s1(2, 3) by blast
  obtain s3 where s3: "maybeScheduleAutoReshareForReport K (vr_ring v) ?k (GetEffectiveNodeDemerits ?i ?k ?now ?n s + a) s2 = (Inr (), s3)"
    "ring_store s3 = ring_store s \<or> (\<exists>ring'. auto_reshared s2 (vr_ring v) ?k ring' \<and> ring_store s3 = kv_set ?i ring' (ring_store s))"
    using auto_reshare_runs [OF ring(2) assms(4), of ?k "GetEffectiveNodeDemerits ?i ?k ?now ?n s + a" s2]
    unfolding ring(1) s2(3) by blast
  have "GetNodeDemerits ?i ?k s3 = GetNodeDemerits ?i ?k s2"
    using leavesD [OF leaves_demerits_AutoReshare s3(1)] by (simp add: GetNodeDemerits_def getNodeDemeritState_def)
  moreover have "auto_reshared s2 (vr_ring v) ?k ring' = auto_reshared s (vr_ring v) ?k ring'" for ring'
    using s2(4) by (simp add: auto_reshared_def GetNodeInfo_def)
  ultimately show ?thesis
    using s2(2) s3(2) assms(3) a s1(1) s2(1) s3(1)
    by (auto simp: SubmitReport_def bindM_eval thenM_eval EmitEvent_def GetNodeDemerits_def getNodeDemeritState_def)
qed

theorem valid_report_accepted_witness:
  "\<exists>t a. SubmitReport demo_orbis (demo_at 1000) (demo_report 990) zero_hex ''jubjub_frost'' (replicate 64 CHR 0x00) report_state =
       (Inr zero_hex, t) \<and> DemeritAmountForReportType report_ring NodeOfflineReportType = Inr a \<and>
     GetNodeDemerits ''ring'' key_b t = GetEffectiveNodeDemerits ''ring'' key_b 1000 86400 report_state + a"
proof -
  let ?v = "\<lparr>vr_reportID = zero_hex, vr_sessionDedupeID = zero_hex, vr_ring = report_ring, vr_blockUnixTime = 1000\<rparr>"
  have wf: "ring_wf (orb_lib demo_orbis) (canonicalRing (genesisRing (og_Params report_genesis) r))"
    if "r \<in> set (og_Rings report_genesis)" for r
    using that report_ring_wf report_ring_genesis by (auto simp: report_genesis_def demo_genesis_def demo_orbis_def)
  have "validateSubmittedReport (orb_lib demo_orbis) (demo_at 1000) (demo_report 990) zero_hex ''jubjub_frost''
      (replicate 64 CHR 0x00) report_state = Inr ?v"
    using demo_validates [of 990] by (simp add: demo_orbis_def)
  from valid_report_accepted [OF report_reachable wf this] show ?thesis
    by (auto simp: demo_report_def report_ring_def ReportingConfigFromDefaults_def DefaultReportingDefaults_def
        DefaultDemeritConfig_def)
qed

end
