(* ===== verification/Core_Keeper.thy ===== *)
theory Core_Keeper
  imports Go_Strings
begin

text \<open>
  The core module (\<open>x/core\<close>): the registry of the bearer tokens (JWS) that transactions have used, with
  an index by issuer and one by account, the interchain accounts, the parameters and the chain
  configuration that the genesis fixes.

  The prefix stores of the module are fields of \<open>core_state\<close>; a stored record is the value itself, and
  decoding it cannot fail. Marshalling a record fails when one of its times is outside the range of a
  protobuf timestamp. The iterators walk the store as it was when the loop started.

  The keepers of the IBC modules that \<open>HandleICAChannelOpen\<close> receives are function arguments, as is the
  SHA-256 of \<open>core_lib\<close>.
\<close>

section \<open>Errors\<close>

abbreviation "CoreErrInvalidSigner \<equiv> ErrReg ''core'' 1100"
abbreviation "CoreErrInvalidInput \<equiv> ErrReg ''core'' 1102"
abbreviation "ErrJWSTokenNotFound \<equiv> ErrReg ''core'' 1103"
abbreviation "ErrJWSTokenAlreadyInvalid \<equiv> ErrReg ''core'' 1104"
abbreviation "ErrUnauthorizedInvalidation \<equiv> ErrReg ''core'' 1105"
abbreviation "ErrFailedToInvalidateToken \<equiv> ErrReg ''core'' 1106"
abbreviation "ErrJWSTokenExpired \<equiv> ErrReg ''core'' 1107"
abbreviation "ErrJWSTokenInvalid \<equiv> ErrReg ''core'' 1108"
abbreviation "ErrConfigSet \<equiv> ErrReg ''core'' 1109"

section \<open>Data\<close>

record CoreParams =
  TrustedRelayFeeGranters :: "string list"

record ChainConfig =
  AllowZeroFeeTxs :: bool
  IgnoreBearerAuth :: bool
  AllowAnyRelay :: bool

record ICAConnection =
  IcaAddress :: string
  ControllerAddress :: string
  ControllerChainId :: string
  ConnectionId :: string

datatype JWSTokenStatus = STATUS_UNSPECIFIED | STATUS_VALID | STATUS_INVALID

record JWSTokenRecord =
  TokenHash :: string
  BearerToken :: string
  IssuerDid :: string
  AuthorizedAccount :: string
  IssuedAt :: time
  jws_ExpiresAt :: time
  Status :: JWSTokenStatus
  FirstUsedAt :: "time option"
  LastUsedAt :: "time option"
  InvalidatedAt :: "time option"
  InvalidatedBy :: string

record core_state = base_state +
  core_params :: "CoreParams option"
  chain_config :: "ChainConfig option"
  ica_store :: "ICAConnection kv"
  jws_store :: "JWSTokenRecord kv"
  jws_did_store :: "bytes kv"
  jws_account_store :: "bytes kv"

record core_lib =
  core_codec :: sdk_codec
  core_Sha256 :: "bytes \<Rightarrow> bytes"
  core_authority :: string
  GetFromBech32 :: "string \<Rightarrow> string \<Rightarrow> error + bytes"
  VerifyAddressFormat :: "bytes \<Rightarrow> error option"

section \<open>Addresses of the chain\<close>

definition AccountAddrPrefix :: string where
  "AccountAddrPrefix = ''vera''"

definition IsValidVeraAddr :: "core_lib \<Rightarrow> string \<Rightarrow> error option" where
  "IsValidVeraAddr L a =
     (case GetFromBech32 L a AccountAddrPrefix of Inl e \<Rightarrow> Some e | Inr bz \<Rightarrow> VerifyAddressFormat L bz)"

definition Vera_AccAddressFromBech32 :: "core_lib \<Rightarrow> string \<Rightarrow> error + addr" where
  "Vera_AccAddressFromBech32 L address =
     (if length (TrimSpace address) = 0 then Inl (ErrStd ''empty address string is not allowed'')
      else bindE (GetFromBech32 L address AccountAddrPrefix) (\<lambda>bz.
        case VerifyAddressFormat L bz of Some e \<Rightarrow> Inl e | None \<Rightarrow> Inr bz))"

section \<open>Parameters and chain configuration\<close>

definition Core_Params_Validate :: "core_lib \<Rightarrow> CoreParams \<Rightarrow> error option" where
  "Core_Params_Validate L p =
     uniqueBy (IsValidVeraAddr L) (ErrStd ''duplicate trusted relay fee granter'') [] (TrustedRelayFeeGranters p)"

definition IsTrustedRelayFeeGranter :: "CoreParams \<Rightarrow> string \<Rightarrow> bool" where
  "IsTrustedRelayFeeGranter p address = list_ex (\<lambda>trusted. trusted = address) (TrustedRelayFeeGranters p)"

definition DefaultChainConfig :: ChainConfig where
  "DefaultChainConfig = \<lparr>AllowZeroFeeTxs = False, IgnoreBearerAuth = False, AllowAnyRelay = False\<rparr>"

definition Core_GetParams :: "'z core_state_scheme \<Rightarrow> CoreParams" where
  "Core_GetParams s = (case core_params s of None \<Rightarrow> \<lparr>TrustedRelayFeeGranters = []\<rparr> | Some p \<Rightarrow> p)"

definition Core_SetParams :: "core_lib \<Rightarrow> CoreParams \<Rightarrow> ('z core_state_scheme, unit) M" where
  "Core_SetParams L p =
     thenM (liftE (checkE (Core_Params_Validate L p))) (modifyM (\<lambda>s. s\<lparr>core_params := Some p\<rparr>))"

definition SetChainConfig :: "ChainConfig \<Rightarrow> ('z core_state_scheme, unit) M" where
  "SetChainConfig cfg =
     bindM (getM chain_config) (\<lambda>stored.
     thenM (guardM (stored = None) ErrConfigSet) (modifyM (\<lambda>s. s\<lparr>chain_config := Some cfg\<rparr>)))"

definition GetChainConfig :: "'z core_state_scheme \<Rightarrow> ChainConfig" where
  "GetChainConfig s = (case chain_config s of None \<Rightarrow> DefaultChainConfig | Some cfg \<Rightarrow> cfg)"

section \<open>Interchain accounts\<close>

definition SetICAConnection :: "string \<Rightarrow> string \<Rightarrow> string \<Rightarrow> string \<Rightarrow> ('z core_state_scheme, unit) M" where
  "SetICAConnection icaAddress controllerAddress controllerChainID connectionID =
     thenM (guardM (icaAddress \<noteq> '''') CoreErrInvalidInput)
     (modifyM (\<lambda>s. s\<lparr>ica_store := kv_set icaAddress
        \<lparr>IcaAddress = icaAddress, ControllerAddress = controllerAddress,
         ControllerChainId = controllerChainID, ConnectionId = connectionID\<rparr> (ica_store s)\<rparr>))"

definition GetICAConnection :: "string \<Rightarrow> 'z core_state_scheme \<Rightarrow> ICAConnection option" where
  "GetICAConnection icaAddress s = kv_get (ica_store s) icaAddress"

definition GetAllICAConnections :: "'z core_state_scheme \<Rightarrow> ICAConnection list" where
  "GetAllICAConnections s = map snd (ica_store s)"

definition ControllerPortPrefix :: string where
  "ControllerPortPrefix = ''icacontroller-''"

text \<open>
  \<open>icaAddr connection port\<close> and \<open>clientOf connection\<close> are the lookups of the interchain account host and
  of the connection keeper, \<open>clientState client\<close> that of the client keeper: a client state that is not of
  the Tendermint light client is \<open>Some None\<close>, one that is has a chain id.
\<close>

definition HandleICAChannelOpen ::
  "(string \<Rightarrow> string \<Rightarrow> string option) \<Rightarrow> (string \<Rightarrow> string option) \<Rightarrow> (string \<Rightarrow> string option option) \<Rightarrow>
   string \<Rightarrow> string \<Rightarrow> ('z core_state_scheme, unit) M" where
  "HandleICAChannelOpen icaAddr clientOf clientState connectionID controllerPortID =
     (case icaAddr connectionID controllerPortID of
        None \<Rightarrow> fail CoreErrInvalidInput
      | Some addr \<Rightarrow>
          bindM (getM (GetICAConnection addr)) (\<lambda>existing.
          thenM (guardM (existing = None) CoreErrInvalidInput)
          (thenM (guardM (prefix ControllerPortPrefix controllerPortID) CoreErrInvalidInput)
          (case clientOf connectionID of
             None \<Rightarrow> fail CoreErrInvalidInput
           | Some clientId \<Rightarrow>
               (case clientState clientId of
                  None \<Rightarrow> fail CoreErrInvalidInput
                | Some None \<Rightarrow> fail CoreErrInvalidInput
                | Some (Some chainID) \<Rightarrow>
                    if chainID = '''' then fail CoreErrInvalidInput
                    else SetICAConnection addr (TrimPrefix controllerPortID ControllerPortPrefix) chainID connectionID)))))"

section \<open>Store keys of tokens\<close>

definition HashJWSToken :: "core_lib \<Rightarrow> string \<Rightarrow> string" where
  "HashJWSToken L jwsToken = hex_EncodeToString (core_Sha256 L jwsToken)"

definition JWSTokenKeyPrefix :: bytes where "JWSTokenKeyPrefix = [CHR 0x01]"
definition JWSTokenByDIDKeyPrefix :: bytes where "JWSTokenByDIDKeyPrefix = [CHR 0x02]"
definition JWSTokenByAccountKeyPrefix :: bytes where "JWSTokenByAccountKeyPrefix = [CHR 0x03]"

definition JWSTokenDIDPrefix :: "sdk_codec \<Rightarrow> string \<Rightarrow> error + bytes" where
  "JWSTokenDIDPrefix cd did = bindE (MustLengthPrefix cd did) (\<lambda>b. Inr (JWSTokenByDIDKeyPrefix @ b))"

definition JWSTokenAccountPrefix :: "sdk_codec \<Rightarrow> string \<Rightarrow> error + bytes" where
  "JWSTokenAccountPrefix cd account = bindE (MustLengthPrefix cd account) (\<lambda>b. Inr (JWSTokenByAccountKeyPrefix @ b))"

definition JWSTokenByDIDKey :: "sdk_codec \<Rightarrow> string \<Rightarrow> string \<Rightarrow> error + bytes" where
  "JWSTokenByDIDKey cd did tokenHash =
     bindE (MustLengthPrefix cd did) (\<lambda>a. bindE (MustLengthPrefix cd tokenHash) (\<lambda>b.
     Inr ((JWSTokenByDIDKeyPrefix @ a) @ b)))"

definition JWSTokenByAccountKey :: "sdk_codec \<Rightarrow> string \<Rightarrow> string \<Rightarrow> error + bytes" where
  "JWSTokenByAccountKey cd account tokenHash =
     bindE (MustLengthPrefix cd account) (\<lambda>a. bindE (MustLengthPrefix cd tokenHash) (\<lambda>b.
     Inr ((JWSTokenByAccountKeyPrefix @ a) @ b)))"

definition JWSTokenKey :: "sdk_codec \<Rightarrow> string \<Rightarrow> error + bytes" where
  "JWSTokenKey cd tokenHash = bindE (MustLengthPrefix cd tokenHash) (\<lambda>b. Inr (JWSTokenKeyPrefix @ b))"

definition ParseJWSTokenKey :: "sdk_codec \<Rightarrow> bytes \<Rightarrow> error + string" where
  "ParseJWSTokenKey cd key =
     (if key = [] then Inl (ErrStd ''empty key'')
      else bindE (ParseLengthPrefixedBytes cd key 0 1) (\<lambda>(tokenHashLen, tokenHashLenEndIndex).
        if tokenHashLen = [] then Inl (ErrStd ''invalid key: missing token hash length'')
        else bindE (ParseLengthPrefixedBytes cd key (tokenHashLenEndIndex + 1) (of_char (hd tokenHashLen)))
          (\<lambda>(tokenHashBz, _). Inr tokenHashBz)))"

definition ParseJWSTokenByDIDKey :: "sdk_codec \<Rightarrow> bytes \<Rightarrow> error + (string \<times> string)" where
  "ParseJWSTokenByDIDKey cd key =
     (if key = [] then Inl (ErrStd ''empty key'')
      else bindE (ParseLengthPrefixedBytes cd key 0 1) (\<lambda>(didLen, didLenEndIndex).
        if didLen = [] then Inl (ErrStd ''invalid key: missing DID length'')
        else bindE (ParseLengthPrefixedBytes cd key (didLenEndIndex + 1) (of_char (hd didLen))) (\<lambda>(didBz, tokenHashStartIndex).
          bindE (ParseLengthPrefixedBytes cd key (tokenHashStartIndex + 1) 1) (\<lambda>(tokenHashLen, tokenHashLenEndIndex).
          if tokenHashLen = [] then Inl (ErrStd ''invalid key: missing token hash length'')
          else bindE (ParseLengthPrefixedBytes cd key (tokenHashLenEndIndex + 1) (of_char (hd tokenHashLen)))
            (\<lambda>(tokenHashBz, _). Inr (didBz, tokenHashBz))))))"

definition ParseJWSTokenByAccountKey :: "sdk_codec \<Rightarrow> bytes \<Rightarrow> error + (string \<times> string)" where
  "ParseJWSTokenByAccountKey cd key =
     (if key = [] then Inl (ErrStd ''empty key'')
      else bindE (ParseLengthPrefixedBytes cd key 0 1) (\<lambda>(accountLen, accountLenEndIndex).
        if accountLen = [] then Inl (ErrStd ''invalid key: missing account length'')
        else bindE (ParseLengthPrefixedBytes cd key (accountLenEndIndex + 1) (of_char (hd accountLen))) (\<lambda>(accountBz, tokenHashStartIndex).
          bindE (ParseLengthPrefixedBytes cd key (tokenHashStartIndex + 1) 1) (\<lambda>(tokenHashLen, tokenHashLenEndIndex).
          if tokenHashLen = [] then Inl (ErrStd ''invalid key: missing token hash length'')
          else bindE (ParseLengthPrefixedBytes cd key (tokenHashLenEndIndex + 1) (of_char (hd tokenHashLen)))
            (\<lambda>(tokenHashBz, _). Inr (accountBz, tokenHashBz))))))"

section \<open>Tokens\<close>

definition marshalRecord :: "sdk_codec \<Rightarrow> JWSTokenRecord \<Rightarrow> error option" where
  "marshalRecord cd r = firstErr
     (map (\<lambda>t. case t of None \<Rightarrow> None | Some x \<Rightarrow> StdTimeMarshal cd x)
       [InvalidatedAt r, LastUsedAt r, FirstUsedAt r, Some (jws_ExpiresAt r), Some (IssuedAt r)])"

definition SetJWSToken :: "sdk_codec \<Rightarrow> JWSTokenRecord \<Rightarrow> ('z core_state_scheme, unit) M" where
  "SetJWSToken cd r =
     thenM (guardM (TokenHash r \<noteq> '''') CoreErrInvalidInput)
     (thenM (guardM (IssuerDid r \<noteq> '''') CoreErrInvalidInput)
     (bindM (getM GetChainConfig) (\<lambda>cfg.
     thenM (if AuthorizedAccount r \<noteq> ''''
            then (case AccFromBech32 cd (AuthorizedAccount r) of Inl e \<Rightarrow> fail CoreErrInvalidInput | Inr _ \<Rightarrow> ret ())
            else guardM (IgnoreBearerAuth cfg) CoreErrInvalidInput)
     (thenM (liftE (checkE (marshalRecord cd r)))
     (thenM (modifyM (\<lambda>s. s\<lparr>jws_store := kv_set (TokenHash r) r (jws_store s)\<rparr>))
     (bindM (liftE (JWSTokenByDIDKey cd (IssuerDid r) (TokenHash r))) (\<lambda>didKey.
     thenM (modifyM (\<lambda>s. s\<lparr>jws_did_store :=
        kv_set (drop (length JWSTokenByDIDKeyPrefix) didKey) [CHR 0x01] (jws_did_store s)\<rparr>))
     (if AuthorizedAccount r \<noteq> ''''
      then bindM (liftE (JWSTokenByAccountKey cd (AuthorizedAccount r) (TokenHash r))) (\<lambda>accountKey.
        modifyM (\<lambda>s. s\<lparr>jws_account_store :=
          kv_set (drop (length JWSTokenByAccountKeyPrefix) accountKey) [CHR 0x01] (jws_account_store s)\<rparr>))
      else ret ()))))))))"

definition GetJWSToken :: "string \<Rightarrow> 'z core_state_scheme \<Rightarrow> JWSTokenRecord option" where
  "GetJWSToken tokenHash s = kv_get (jws_store s) tokenHash"

definition theToken :: "string \<Rightarrow> ('z core_state_scheme, JWSTokenRecord) M" where
  "theToken tokenHash =
     bindM (getM (GetJWSToken tokenHash)) (\<lambda>found.
     case found of None \<Rightarrow> fail ErrJWSTokenNotFound | Some r \<Rightarrow> ret r)"

definition DeleteJWSToken :: "sdk_codec \<Rightarrow> string \<Rightarrow> ('z core_state_scheme, unit) M" where
  "DeleteJWSToken cd tokenHash =
     bindM (theToken tokenHash) (\<lambda>r.
     thenM (modifyM (\<lambda>s. s\<lparr>jws_store := kv_del tokenHash (jws_store s)\<rparr>))
     (bindM (liftE (JWSTokenByDIDKey cd (IssuerDid r) tokenHash)) (\<lambda>didKey.
     thenM (modifyM (\<lambda>s. s\<lparr>jws_did_store := kv_del (drop (length JWSTokenByDIDKeyPrefix) didKey) (jws_did_store s)\<rparr>))
     (if AuthorizedAccount r \<noteq> ''''
      then bindM (liftE (JWSTokenByAccountKey cd (AuthorizedAccount r) tokenHash)) (\<lambda>accountKey.
        modifyM (\<lambda>s. s\<lparr>jws_account_store :=
          kv_del (drop (length JWSTokenByAccountKeyPrefix) accountKey) (jws_account_store s)\<rparr>))
      else ret ()))))"

text \<open>The loop over an index: a key that does not parse is skipped, a marker without a record too.\<close>

fun indexedTokens :: "(bytes \<Rightarrow> error + (string \<times> string)) \<Rightarrow> JWSTokenRecord kv \<Rightarrow> bytes kv \<Rightarrow> error + JWSTokenRecord list" where
  "indexedTokens parse st [] = Inr []"
| "indexedTokens parse st ((key, _) # rest) =
     (case parse key of
        Inl e \<Rightarrow> if is_panic e then Inl e else indexedTokens parse st rest
      | Inr (_, tokenHash) \<Rightarrow>
          bindE (indexedTokens parse st rest) (\<lambda>records.
          Inr (case kv_get st tokenHash of None \<Rightarrow> records | Some r \<Rightarrow> r # records)))"

definition GetJWSTokensByDID :: "sdk_codec \<Rightarrow> string \<Rightarrow> 'z core_state_scheme \<Rightarrow> error + JWSTokenRecord list" where
  "GetJWSTokensByDID cd did s =
     bindE (JWSTokenDIDPrefix cd did) (\<lambda>pre.
     indexedTokens (ParseJWSTokenByDIDKey cd) (jws_store s)
       (kv_prefix (drop (length JWSTokenByDIDKeyPrefix) pre) (jws_did_store s)))"

definition GetJWSTokensByAccount :: "sdk_codec \<Rightarrow> string \<Rightarrow> 'z core_state_scheme \<Rightarrow> error + JWSTokenRecord list" where
  "GetJWSTokensByAccount cd account s =
     bindE (JWSTokenAccountPrefix cd account) (\<lambda>pre.
     indexedTokens (ParseJWSTokenByAccountKey cd) (jws_store s)
       (kv_prefix (drop (length JWSTokenByAccountKeyPrefix) pre) (jws_account_store s)))"

definition GetAllJWSTokens :: "'z core_state_scheme \<Rightarrow> JWSTokenRecord list" where
  "GetAllJWSTokens s = map snd (jws_store s)"

definition UpdateJWSTokenStatus ::
  "sdk_codec \<Rightarrow> 'c sdk_ctx_scheme \<Rightarrow> string \<Rightarrow> JWSTokenStatus \<Rightarrow> string \<Rightarrow> ('z core_state_scheme, unit) M" where
  "UpdateJWSTokenStatus cd ctx tokenHash status invalidatedBy =
     thenM (guardM (tokenHash \<noteq> '''') CoreErrInvalidInput)
     (bindM (theToken tokenHash) (\<lambda>record.
     let r1 = record\<lparr>Status := status\<rparr>;
         r2 = (if status = STATUS_INVALID
               then let r = r1\<lparr>InvalidatedAt := Some (BlockTime ctx)\<rparr>
                    in if invalidatedBy \<noteq> '''' then r\<lparr>InvalidatedBy := invalidatedBy\<rparr> else r
               else r1)
     in SetJWSToken cd r2))"

definition RecordJWSTokenUsage :: "sdk_codec \<Rightarrow> 'c sdk_ctx_scheme \<Rightarrow> string \<Rightarrow> ('z core_state_scheme, unit) M" where
  "RecordJWSTokenUsage cd ctx tokenHash =
     thenM (guardM (tokenHash \<noteq> '''') CoreErrInvalidInput)
     (bindM (theToken tokenHash) (\<lambda>record.
     let r1 = (if FirstUsedAt record = None then record\<lparr>FirstUsedAt := Some (BlockTime ctx)\<rparr> else record)
     in SetJWSToken cd (r1\<lparr>LastUsedAt := Some (BlockTime ctx)\<rparr>)))"

text \<open>A token without expiry has the zero time. An error of the update is logged and the loop goes on.\<close>

definition tokenExpired :: "time \<Rightarrow> JWSTokenRecord \<Rightarrow> bool" where
  "tokenExpired now r \<longleftrightarrow> Status r \<noteq> STATUS_INVALID \<and> jws_ExpiresAt r \<noteq> zero_time \<and> \<not> jws_ExpiresAt r > now"

definition CheckAndUpdateExpiredTokens :: "sdk_codec \<Rightarrow> 'c sdk_ctx_scheme \<Rightarrow> ('z core_state_scheme, unit) M" where
  "CheckAndUpdateExpiredTokens cd ctx =
     bindM (getM GetAllJWSTokens) (\<lambda>records.
     forM records (\<lambda>r.
       if tokenExpired (BlockTime ctx) r
       then thenM (tryM (UpdateJWSTokenStatus cd ctx (TokenHash r) STATUS_INVALID '''')) (ret ())
       else ret ()))"

definition Core_EndBlocker :: "sdk_codec \<Rightarrow> 'c sdk_ctx_scheme \<Rightarrow> ('z core_state_scheme, unit) M" where
  "Core_EndBlocker cd ctx = thenM (tryM (CheckAndUpdateExpiredTokens cd ctx)) (ret ())"

definition StoreOrUpdateJWSToken ::
  "core_lib \<Rightarrow> 'c sdk_ctx_scheme \<Rightarrow> string \<Rightarrow> string \<Rightarrow> string \<Rightarrow> time \<Rightarrow> time \<Rightarrow> ('z core_state_scheme, unit) M" where
  "StoreOrUpdateJWSToken L ctx bearerToken issuerDid authorizedAccount issuedAt expiresAt =
     (let tokenHash = HashJWSToken L bearerToken in
      bindM (getM (GetJWSToken tokenHash)) (\<lambda>found.
      case found of
        Some record \<Rightarrow>
          if Status record \<noteq> STATUS_VALID then fail ErrJWSTokenInvalid
          else RecordJWSTokenUsage (core_codec L) ctx tokenHash
      | None \<Rightarrow>
          if expiresAt \<noteq> zero_time \<and> \<not> expiresAt > BlockTime ctx then fail ErrJWSTokenExpired
          else SetJWSToken (core_codec L)
            \<lparr>TokenHash = tokenHash, BearerToken = bearerToken, IssuerDid = issuerDid,
             AuthorizedAccount = authorizedAccount, IssuedAt = issuedAt, jws_ExpiresAt = expiresAt,
             Status = STATUS_VALID, FirstUsedAt = Some (BlockTime ctx), LastUsedAt = Some (BlockTime ctx),
             InvalidatedAt = None, InvalidatedBy = ''''\<rparr>))"

section \<open>Messages\<close>

definition InvalidateJWS ::
  "sdk_codec \<Rightarrow> 'c sdk_ctx_scheme \<Rightarrow> string \<Rightarrow> string \<Rightarrow> ('z core_state_scheme, unit) M" where
  "InvalidateJWS cd ctx creator tokenHash =
     bindM (theToken tokenHash) (\<lambda>record.
     thenM (guardM (Status record \<noteq> STATUS_INVALID) ErrJWSTokenAlreadyInvalid)
     (let extractedDID = ExtractedDID ctx;
          authorized = (if extractedDID \<noteq> '''' \<and> extractedDID = IssuerDid record then True
                        else if creator = AuthorizedAccount record then True else False)
      in
      thenM (guardM authorized ErrUnauthorizedInvalidation)
      (bindM (tryM (UpdateJWSTokenStatus cd ctx tokenHash STATUS_INVALID creator)) (\<lambda>r.
      case r of
        Inl e \<Rightarrow> fail ErrFailedToInvalidateToken
      | Inr _ \<Rightarrow>
          EmitEvent (''EventJWSTokenInvalidated'',
            [(''token_hash'', tokenHash), (''issuer_did'', IssuerDid record),
             (''authorized_account'', AuthorizedAccount record), (''invalidated_by'', creator)])))))"

definition MsgInvalidateJWS_ValidateBasic :: "sdk_codec \<Rightarrow> string \<Rightarrow> string \<Rightarrow> error option" where
  "MsgInvalidateJWS_ValidateBasic cd creator tokenHash =
     (case AccFromBech32 cd creator of Inl e \<Rightarrow> Some e | Inr _ \<Rightarrow> failIf (tokenHash = '''') CoreErrInvalidInput)"

definition Core_MsgUpdateParams_ValidateBasic :: "core_lib \<Rightarrow> string \<Rightarrow> CoreParams \<Rightarrow> error option" where
  "Core_MsgUpdateParams_ValidateBasic L authority params =
     (case AccFromBech32 (core_codec L) authority of Inl e \<Rightarrow> Some e | Inr _ \<Rightarrow> Core_Params_Validate L params)"

definition Core_UpdateParams :: "core_lib \<Rightarrow> string \<Rightarrow> CoreParams \<Rightarrow> ('z core_state_scheme, unit) M" where
  "Core_UpdateParams L authority params =
     thenM (guardM (core_authority L = authority) CoreErrInvalidSigner) (Core_SetParams L params)"

section \<open>Genesis\<close>

record CoreGenesis =
  cg_Params :: CoreParams
  cg_IcaConnections :: "ICAConnection list"
  cg_JwsTokens :: "JWSTokenRecord list"
  cg_ChainConfig :: ChainConfig

definition Core_DefaultGenesis :: CoreGenesis where
  "Core_DefaultGenesis =
     \<lparr>cg_Params = \<lparr>TrustedRelayFeeGranters = []\<rparr>, cg_IcaConnections = [], cg_JwsTokens = [],
      cg_ChainConfig = DefaultChainConfig\<rparr>"

definition CoreGenesis_Validate :: "core_lib \<Rightarrow> CoreGenesis \<Rightarrow> error option" where
  "CoreGenesis_Validate L gs = Core_Params_Validate L (cg_Params gs)"

text \<open>\<open>panicOnErr\<close> is \<open>if err := f(); err != nil { panic(err) }\<close>.\<close>

definition panicOnErr :: "('s, unit) M \<Rightarrow> ('s, unit) M" where
  "panicOnErr m = bindM (tryM m) (\<lambda>r. case r of Inl e \<Rightarrow> panicM ''InitGenesis'' | Inr _ \<Rightarrow> ret ())"

definition Core_InitGenesis :: "core_lib \<Rightarrow> CoreGenesis \<Rightarrow> ('z core_state_scheme, unit) M" where
  "Core_InitGenesis L gs =
     thenM (panicOnErr (Core_SetParams L (cg_Params gs)))
     (thenM (forM (cg_IcaConnections gs) (\<lambda>c.
        panicOnErr (SetICAConnection (IcaAddress c) (ControllerAddress c) (ControllerChainId c) (ConnectionId c))))
     (thenM (forM (cg_JwsTokens gs) (\<lambda>r. panicOnErr (SetJWSToken (core_codec L) r)))
     (panicOnErr (SetChainConfig (cg_ChainConfig gs)))))"

definition Core_ExportGenesis :: "'z core_state_scheme \<Rightarrow> CoreGenesis" where
  "Core_ExportGenesis s =
     \<lparr>cg_Params = Core_GetParams s, cg_IcaConnections = GetAllICAConnections s,
      cg_JwsTokens = GetAllJWSTokens s, cg_ChainConfig = GetChainConfig s\<rparr>"

section \<open>Transactions and blocks\<close>

datatype CoreMsg =
    MsgInvalidateJWS string string
  | MsgUpdateCoreParams string CoreParams

fun Core_ValidateBasic :: "core_lib \<Rightarrow> CoreMsg \<Rightarrow> error option" where
  "Core_ValidateBasic L (MsgInvalidateJWS creator tokenHash) = MsgInvalidateJWS_ValidateBasic (core_codec L) creator tokenHash"
| "Core_ValidateBasic L (MsgUpdateCoreParams authority params) = Core_MsgUpdateParams_ValidateBasic L authority params"

fun Core_handle :: "core_lib \<Rightarrow> 'c sdk_ctx_scheme \<Rightarrow> CoreMsg \<Rightarrow> ('z core_state_scheme, unit) M" where
  "Core_handle L ctx (MsgInvalidateJWS creator tokenHash) = InvalidateJWS (core_codec L) ctx creator tokenHash"
| "Core_handle L ctx (MsgUpdateCoreParams authority params) = Core_UpdateParams L authority params"

definition Core_deliver :: "core_lib \<Rightarrow> 'c sdk_ctx_scheme \<Rightarrow> CoreMsg \<Rightarrow> ('z core_state_scheme, unit) M" where
  "Core_deliver L ctx msg =
     cacheCtx (thenM (liftE (checkE (Core_ValidateBasic L msg))) (Core_handle L ctx msg))"

text \<open>
  A step of the chain as the module sees it: a transaction with a message of the module, the ante handler
  recording the bearer token of a transaction, the opening of an interchain account channel, the end of a
  block, or anything that leaves its stores alone.
\<close>

inductive core_step :: "core_lib \<Rightarrow> 'c sdk_ctx_scheme \<Rightarrow> core_state \<Rightarrow> core_state \<Rightarrow> bool" for L ctx where
  core_tx: "Core_deliver L ctx msg s = (r, t) \<Longrightarrow> core_step L ctx s t"
| core_token: "cacheCtx (StoreOrUpdateJWSToken L ctx token did account iat exp) s = (r, t) \<Longrightarrow> core_step L ctx s t"
| core_channel: "cacheCtx (HandleICAChannelOpen icaAddr clientOf clientState conn port) s = (r, t) \<Longrightarrow> core_step L ctx s t"
| core_end: "Core_EndBlocker (core_codec L) ctx s = (Inr (), t) \<Longrightarrow> core_step L ctx s t"
| core_other: "core_step L ctx s (s\<lparr>events := ev\<rparr>)"

inductive_cases core_stepE: "core_step L ctx s t"

inductive core_run :: "core_lib \<Rightarrow> 'c sdk_ctx_scheme list \<Rightarrow> core_state \<Rightarrow> core_state \<Rightarrow> bool" for L where
  core_run_nil: "core_run L [] s s"
| core_run_snoc: "core_run L cs s t \<Longrightarrow> core_step L c t u \<Longrightarrow> core_run L (cs @ [c]) s u"

definition core_init :: core_state where
  "core_init = \<lparr>events = [], core_params = None, chain_config = None, ica_store = [], jws_store = [],
     jws_did_store = [], jws_account_store = []\<rparr>"

definition core_reachable :: "core_lib \<Rightarrow> CoreGenesis \<Rightarrow> 'c sdk_ctx_scheme list \<Rightarrow> core_state \<Rightarrow> bool" where
  "core_reachable L g cs s \<longleftrightarrow> (\<exists>s0. Core_InitGenesis L g core_init = (Inr (), s0) \<and> core_run L cs s0 s)"

end
