(* ===== verification/Ante_Handler.thy ===== *)
theory Ante_Handler
  imports Core_Keeper Feegrant_Keeper Acp_Did
begin

text \<open>
  The ante handler (\<open>app/ante\<close>), which runs before the messages of a transaction: the check of the signature
  modes, the bearer token in the extension option, the minimum fee and the deduction of the fee.

  \<open>ante_state\<close> holds the stores of the core and of the feegrant module; the accounts and balances are the
  external state \<open>ext\<close> of the latter. A decorator returns the context that it hands to the next one. The
  handler is built with the core and feegrant keepers of the application, so the branches for a nil keeper
  are not modelled.

  \<open>ante_lib\<close> bundles what the decorators call outside the repository: parsing and verifying a JWS, JSON
  decoding (the keys of an object, the two token structs), public keys, the price of a denomination and
  rounding. \<open>'k\<close> is the type of public keys. The other decorators of the handler belong to the SDK and to
  IBC and are an argument of \<open>NewAnteHandler\<close>.
\<close>

section \<open>Transactions\<close>

record sdk_msg =
  MsgTypeURL :: string
  GetCreator :: "string option"

datatype ExtOption = JWSExtensionOption string | OtherExtensionOption

datatype SignMode = SIGN_MODE_LEGACY_AMINO_JSON | OtherSignMode

datatype SignatureData =
    SingleSignatureData SignMode
  | MultiSignatureData "SignatureData list"
  | OtherSignatureData

record ante_tx =
  IsFeeTx :: bool
  IsSigVerifiableTx :: bool
  GetGas :: int
  GetFee :: coins
  FeePayer :: addr
  FeeGranter :: "bytes option"
  GetMsgs :: "sdk_msg list"
  GetExtensionOptions :: "ExtOption list option"
  GetSignaturesV2 :: "error + SignatureData list"

record ante_ctx = sdk_ctx +
  TrustedRelayFeeGranter :: string
  IsCheckTx :: bool
  MinGasPrices :: "(string \<times> dec) list"

record 'x ante_state =
  ante_core :: core_state
  ante_fg :: "'x feegrant_state"

definition coreM :: "(core_state, 'a) M \<Rightarrow> ('x ante_state, 'a) M" where
  "coreM m s = (case m (ante_core s) of (r, c) \<Rightarrow> (r, s\<lparr>ante_core := c\<rparr>))"

definition fgM :: "('x feegrant_state, 'a) M \<Rightarrow> ('x ante_state, 'a) M" where
  "fgM m s = (case m (ante_fg s) of (r, f) \<Rightarrow> (r, s\<lparr>ante_fg := f\<rparr>))"

section \<open>Tokens\<close>

record BearerToken =
  IssuerID :: string
  bt_ProviderToken :: string
  bt_AuthorizedAccount :: string
  IssuedTime :: int
  ExpirationTime :: int

record ProviderToken =
  ProviderName :: string
  UserID :: string
  ActorDID :: string

record ('x, 'k) ante_lib =
  a_core :: core_lib
  a_did :: did_ops
  a_coins :: coin_ops
  a_dec :: dec_ops
  ParseSigned :: "string \<Rightarrow> error + bytes"
  json_keys :: "bytes \<Rightarrow> error + string list"
  json_BearerToken :: "bytes \<Rightarrow> error + BearerToken"
  json_ProviderToken :: "string \<Rightarrow> error + ProviderToken"
  BytesToPubKey :: "bytes \<Rightarrow> KeyType \<Rightarrow> error + 'k"
  secpToECDSA :: "'k \<Rightarrow> 'k option"
  AlgorithmsForKey :: "'k \<Rightarrow> error + string list"
  jws_Verify :: "string \<Rightarrow> string \<Rightarrow> 'k \<Rightarrow> error option"
  DecAmountOf :: "(string \<times> dec) list \<Rightarrow> string \<Rightarrow> dec option"
  DecRoundInt :: "dec \<Rightarrow> int"
  CoinsString :: "coins \<Rightarrow> string"
  GetModuleAddress :: "string \<Rightarrow> addr option"
  GetAccountAddress :: "addr \<Rightarrow> 'x \<Rightarrow> addr option"
  SendCoinsFromAccountToModule :: "addr \<Rightarrow> string \<Rightarrow> coins \<Rightarrow> ('x, unit) M"

definition RequiredClaims :: "string list" where
  "RequiredClaims = [''iat'', ''iss'', ''exp'']"

definition unmarshalJWSPayload :: "('x, 'k) ante_lib \<Rightarrow> bytes \<Rightarrow> error + BearerToken" where
  "unmarshalJWSPayload A payload =
     bindE (json_keys A payload) (\<lambda>obj.
     if list_all (\<lambda>claim. claim \<in> set obj) RequiredClaims then json_BearerToken A payload
     else Inl (ErrStd ''missing required claim''))"

definition validateProviderToken :: "ProviderToken \<Rightarrow> error option" where
  "validateProviderToken token =
     (if ProviderName token = '''' then Some (ErrStd ''provider token missing provider_name'')
      else if UserID token = '''' then Some (ErrStd ''provider token missing user_id'')
      else if ActorDID token = '''' then Some (ErrStd ''provider token missing actor_did'')
      else None)"

definition validateBearerTokenValues :: "('x, 'k) ante_lib \<Rightarrow> BearerToken \<Rightarrow> bool \<Rightarrow> error option" where
  "validateBearerTokenValues A token trustedRelay = firstErr
     [if prefix ''did:'' (IssuerID token) then IsValidDID (a_did A) (IssuerID token)
      else (case json_ProviderToken A (IssuerID token) of Inl e \<Rightarrow> Some e | Inr _ \<Rightarrow> None),
      failIf (bt_ProviderToken token \<noteq> '''' \<and> \<not> trustedRelay) (ErrStd ''provider token requires a trusted relay''),
      if \<not> trustedRelay then IsValidVeraAddr (a_core A) (bt_AuthorizedAccount token) else None,
      failIf (ExpirationTime token < IssuedTime token) (ErrStd ''issue time cannot be after expiration time'')]"

definition TrimLeft :: "string \<Rightarrow> string" where
  "TrimLeft = dropWhile (\<lambda>c. c \<in> set [CHR '' '', CHR 0x0A, CHR 0x09, CHR 0x0D])"

definition verifyKey :: "('x, 'k) ante_lib \<Rightarrow> 'k \<Rightarrow> error + (string \<times> 'k)" where
  "verifyKey A pubKey =
     (case secpToECDSA A pubKey of
        Some k \<Rightarrow> Inr (''ES256K'', k)
      | None \<Rightarrow>
          bindE (AlgorithmsForKey A pubKey) (\<lambda>algs.
          case algs of [] \<Rightarrow> Inl (Panic (PanicMsg ''index out of range'')) | alg # _ \<Rightarrow> Inr (alg, pubKey)))"

definition parseValidateJWS :: "('x, 'k) ante_lib \<Rightarrow> string \<Rightarrow> bool \<Rightarrow> error + BearerToken" where
  "parseValidateJWS A bearer trustedRelay =
     (let bearerJWS = TrimLeft bearer in
      if prefix ''{'' bearerJWS then Inl (ErrStd ''JSON serialization is not supported for security reasons'')
      else
        bindE (ParseSigned A bearerJWS) (\<lambda>payloadBytes.
        bindE (unmarshalJWSPayload A payloadBytes) (\<lambda>token.
        bindE (checkE (validateBearerTokenValues A token trustedRelay)) (\<lambda>_.
        bindE (DIDDecode (a_did A) (IssuerID token)) (\<lambda>(pubBytes, keytype).
        bindE (BytesToPubKey A pubBytes keytype) (\<lambda>pubKey.
        bindE (verifyKey A pubKey) (\<lambda>(alg, key).
        bindE (checkE (jws_Verify A bearerJWS alg key)) (\<lambda>_. Inr token))))))))"

definition validateBearerToken :: "('x, 'k) ante_lib \<Rightarrow> BearerToken \<Rightarrow> time \<Rightarrow> bool \<Rightarrow> error option" where
  "validateBearerToken A token currentTime trustedRelay = firstErr
     [validateBearerTokenValues A token trustedRelay,
      (let now = currentTime div 10 ^ 9 in failIf (now > ExpirationTime token) (ErrStd ''token expired''))]"

definition validateJWSExtension :: "('x, 'k) ante_lib \<Rightarrow> string \<Rightarrow> time \<Rightarrow> bool \<Rightarrow> error + (string \<times> string)" where
  "validateJWSExtension A bearerToken currentTime trustedRelay =
     bindE (parseValidateJWS A bearerToken trustedRelay) (\<lambda>token.
     bindE (checkE (validateBearerToken A token currentTime trustedRelay)) (\<lambda>_.
     if bt_ProviderToken token \<noteq> '''' then
       bindE (json_ProviderToken A (bt_ProviderToken token)) (\<lambda>providerToken.
       bindE (checkE (validateProviderToken providerToken)) (\<lambda>_.
       Inr (ActorDID providerToken, bt_AuthorizedAccount token)))
     else Inr (IssuerID token, bt_AuthorizedAccount token)))"

text \<open>\<open>time.Unix(sec, 0)\<close>: the seconds since year 1 are an int64.\<close>

definition timeUnix :: "int \<Rightarrow> time" where
  "timeUnix sec = (i64 (sec + 62135596800) - 62135596800) * 10 ^ 9"

section \<open>The bearer token of a transaction\<close>

abbreviation "SdkErrTxDecode \<equiv> ErrExt ''tx parse error''"
abbreviation "SdkErrInvalidGasLimit \<equiv> ErrExt ''invalid gas limit''"
abbreviation "SdkErrInsufficientFee \<equiv> ErrExt ''insufficient fee''"
abbreviation "SdkErrInsufficientFunds \<equiv> ErrExt ''insufficient funds''"
abbreviation "SdkErrUnknownAddress \<equiv> ErrExt ''unknown address''"

text \<open>An error reported under another sentinel; a panic passes.\<close>

definition wrapAs :: "error \<Rightarrow> error + 'a \<Rightarrow> error + 'a" where
  "wrapAs e r = (case r of Inl e' \<Rightarrow> Inl (if is_panic e' then e' else e) | Inr x \<Rightarrow> Inr x)"

definition creatorOf :: "sdk_msg \<Rightarrow> string" where
  "creatorOf msg = (case GetCreator msg of None \<Rightarrow> '''' | Some c \<Rightarrow> c)"

text \<open>The loops over the messages: every one has a creator, and it is the expected account.\<close>

fun checkCreators :: "string \<Rightarrow> sdk_msg list \<Rightarrow> error option" where
  "checkCreators account [] = None"
| "checkCreators account (msg # msgs) =
     (if creatorOf msg = '''' then Some SdkErrInvalidRequest
      else if creatorOf msg \<noteq> account then Some SdkErrUnauthorized
      else checkCreators account msgs)"

definition validateRelay :: "('x, 'k) ante_lib \<Rightarrow> ante_tx \<Rightarrow> 'z core_state_scheme \<Rightarrow> error + string" where
  "validateRelay A tx s =
     (let chainConfig = GetChainConfig s in
      if \<not> IgnoreBearerAuth chainConfig then Inr ''''
      else if \<not> IsFeeTx tx then Inl SdkErrTxDecode
      else (case FeeGranter tx of
          None \<Rightarrow> Inl SdkErrUnauthorized
        | Some [] \<Rightarrow> Inl SdkErrUnauthorized
        | Some feeGranter \<Rightarrow>
            let feeGranterAddress = AccString (core_codec (a_core A)) feeGranter in
            if \<not> AllowAnyRelay chainConfig \<and> \<not> IsTrustedRelayFeeGranter (Core_GetParams s) feeGranterAddress
            then Inl SdkErrUnauthorized
            else bindE (checkE (checkCreators (AccString (core_codec (a_core A)) (FeePayer tx)) (GetMsgs tx)))
              (\<lambda>_. Inr feeGranterAddress)))"

definition recordToken ::
  "('x, 'k) ante_lib \<Rightarrow> ante_ctx \<Rightarrow> bool \<Rightarrow> string \<Rightarrow> string \<Rightarrow> string \<Rightarrow> BearerToken \<Rightarrow> ('x ante_state, unit) M" where
  "recordToken A ctx simulate bearer did authorizedAccount token =
     (if simulate then ret ()
      else bindM (tryM (coreM (StoreOrUpdateJWSToken (a_core A) ctx bearer did authorizedAccount
             (timeUnix (IssuedTime token)) (timeUnix (ExpirationTime token))))) (\<lambda>r.
           case r of Inl _ \<Rightarrow> fail SdkErrUnauthorized | Inr _ \<Rightarrow> ret ()))"

definition processJWS ::
  "('x, 'k) ante_lib \<Rightarrow> ante_ctx \<Rightarrow> ante_tx \<Rightarrow> bool \<Rightarrow> string \<Rightarrow> ('x ante_state, ante_ctx) M" where
  "processJWS A ctx tx simulate bearer =
     bindM (readM (\<lambda>s. validateRelay A tx (ante_core s))) (\<lambda>relayFeeGranter.
     let isRelay = relayFeeGranter \<noteq> '''' in
     bindM (liftE (wrapAs SdkErrInvalidRequest (validateJWSExtension A bearer (BlockTime ctx) isRelay)))
       (\<lambda>(did, authorizedAccount).
     bindM (liftE (wrapAs SdkErrInvalidRequest (parseValidateJWS A bearer isRelay))) (\<lambda>bearerToken.
     thenM (recordToken A ctx simulate bearer did authorizedAccount bearerToken)
     (thenM (guardM (GetMsgs tx \<noteq> []) SdkErrInvalidRequest)
     (thenM (if isRelay then ret () else liftE (checkE (checkCreators authorizedAccount (GetMsgs tx))))
     (ret (if isRelay then ctx\<lparr>ExtractedDID := did, TrustedRelayFeeGranter := relayFeeGranter\<rparr>
           else ctx\<lparr>ExtractedDID := did\<rparr>)))))))"

definition ExtensionOptions_AnteHandle ::
  "('x, 'k) ante_lib \<Rightarrow> ante_ctx \<Rightarrow> ante_tx \<Rightarrow> bool \<Rightarrow> ('x ante_state, ante_ctx) M" where
  "ExtensionOptions_AnteHandle A ctx tx simulate =
     (case GetExtensionOptions tx of
        None \<Rightarrow> ret ctx
      | Some [] \<Rightarrow> ret ctx
      | Some [JWSExtensionOption bearer] \<Rightarrow> processJWS A ctx tx simulate bearer
      | Some _ \<Rightarrow> fail SdkErrInvalidRequest)"

section \<open>Signature modes\<close>

fun hasLegacyAminoSignMode :: "SignatureData \<Rightarrow> bool" where
  "hasLegacyAminoSignMode (SingleSignatureData m) = (m = SIGN_MODE_LEGACY_AMINO_JSON)"
| "hasLegacyAminoSignMode (MultiSignatureData sigs) = (True \<in> set (map hasLegacyAminoSignMode sigs))"
| "hasLegacyAminoSignMode OtherSignatureData = False"

definition RejectLegacyTx_AnteHandle :: "ante_ctx \<Rightarrow> ante_tx \<Rightarrow> ('s, ante_ctx) M" where
  "RejectLegacyTx_AnteHandle ctx tx =
     thenM (guardM (IsSigVerifiableTx tx) SdkErrTxDecode)
     (bindM (liftE (GetSignaturesV2 tx)) (\<lambda>sigs.
     thenM (guardM (list_all (\<lambda>sig. \<not> hasLegacyAminoSignMode sig) sigs) SdkErrInvalidRequest) (ret ctx)))"

section \<open>Fees\<close>

definition CreditFeeMultiplier :: int where "CreditFeeMultiplier = 10"
definition DefaultMinGasPrice :: dec where "DefaultMinGasPrice = 10 ^ 15"
definition FeeCollectorName :: string where "FeeCollectorName = ''fee_collector''"

definition LegacyNewDec :: "int \<Rightarrow> dec" where
  "LegacyNewDec n = n * dec_one"

definition requiredFee :: "('x, 'k) ante_lib \<Rightarrow> dec \<Rightarrow> int \<Rightarrow> string \<Rightarrow> int" where
  "requiredFee A price gas denom =
     (let minGasPrice = (if price = 0 then DefaultMinGasPrice else price);
          denomFeeMultiplier = (if denom = ''ucredit'' then LegacyNewDec CreditFeeMultiplier else LegacyNewDec 1)
      in DecRoundInt A (DecCeil (a_dec A)
           (DecMul (a_dec A) (DecMul (a_dec A) minGasPrice (LegacyNewDec (i64 gas))) denomFeeMultiplier)))"

definition checkTxFeeWithMinGasPrices ::
  "('x, 'k) ante_lib \<Rightarrow> ante_ctx \<Rightarrow> ante_tx \<Rightarrow> 'z core_state_scheme \<Rightarrow> error + coins" where
  "checkTxFeeWithMinGasPrices A ctx tx s =
     (if \<not> IsFeeTx tx then Inl SdkErrTxDecode
      else (case GetFee tx of
          [] \<Rightarrow> if AllowZeroFeeTxs (GetChainConfig s) then Inr [] else Inl SdkErrInsufficientFee
        | [(denom, amount)] \<Rightarrow>
            if IsCheckTx ctx then
              (case DecAmountOf A (MinGasPrices ctx) denom of
                 None \<Rightarrow> Inl SdkErrInvalidCoins
               | Some price \<Rightarrow>
                   if amount < requiredFee A price (GetGas tx) denom then Inl SdkErrInsufficientFee
                   else Inr [(denom, amount)])
            else Inr [(denom, amount)]
        | _ \<Rightarrow> Inl SdkErrInvalidCoins))"

definition useGrantedFees ::
  "('x, 'k) ante_lib \<Rightarrow> ante_ctx \<Rightarrow> addr \<Rightarrow> addr \<Rightarrow> coins \<Rightarrow> sdk_msg list \<Rightarrow> ('x ante_state, unit) M" where
  "useGrantedFees A ctx granter feePayer fees msgs =
     fgM (UseGrantedFees (core_codec (a_core A)) (a_coins A) (sdk_ctx.truncate ctx) granter feePayer fees (map MsgTypeURL msgs))"

text \<open>The second half of \<open>handleFeegrant\<close>: the fee granter of the transaction, or the fee payer.\<close>

definition standardFeegrant ::
  "('x, 'k) ante_lib \<Rightarrow> ante_ctx \<Rightarrow> bytes option \<Rightarrow> addr \<Rightarrow> coins \<Rightarrow> sdk_msg list \<Rightarrow> ('x ante_state, addr) M" where
  "standardFeegrant A ctx feeGranter feePayer fees msgs =
     (case feeGranter of
        None \<Rightarrow> ret feePayer
      | Some granter \<Rightarrow>
          thenM (if granter \<noteq> feePayer then useGrantedFees A ctx granter feePayer fees msgs else ret ()) (ret granter))"

definition handleFeegrant ::
  "('x, 'k) ante_lib \<Rightarrow> ante_ctx \<Rightarrow> bytes option \<Rightarrow> addr \<Rightarrow> coins \<Rightarrow> sdk_msg list \<Rightarrow> ('x ante_state, addr) M" where
  "handleFeegrant A ctx feeGranter feePayer fees msgs =
     (if TrustedRelayFeeGranter ctx \<noteq> '''' then
        (case feeGranter of
           None \<Rightarrow> fail SdkErrUnauthorized
         | Some granter \<Rightarrow>
             thenM (guardM (granter \<noteq> []) SdkErrUnauthorized)
             (thenM (guardM (AccString (core_codec (a_core A)) granter = TrustedRelayFeeGranter ctx) SdkErrUnauthorized)
             (thenM (guardM (granter \<noteq> feePayer) SdkErrUnauthorized)
             (thenM (useGrantedFees A ctx granter feePayer fees msgs) (ret granter)))))
      else if ExtractedDID ctx \<noteq> '''' then
        bindM (tryM (fgM (UseFirstAvailableDIDGrant (core_codec (a_core A)) (a_coins A) (sdk_ctx.truncate ctx)
                 (ExtractedDID ctx) fees (map MsgTypeURL msgs))))
          (\<lambda>r. case r of Inr usedGranter \<Rightarrow> ret usedGranter | Inl _ \<Rightarrow> standardFeegrant A ctx feeGranter feePayer fees msgs)
      else standardFeegrant A ctx feeGranter feePayer fees msgs)"

definition deductFees :: "('x, 'k) ante_lib \<Rightarrow> addr \<Rightarrow> coins \<Rightarrow> ('x ante_state, unit) M" where
  "deductFees A acc fees =
     thenM (guardM (IsValidCoins (a_coins A) fees) SdkErrInsufficientFee)
     (bindM (tryM (fgM (extM (SendCoinsFromAccountToModule A acc FeeCollectorName fees)))) (\<lambda>r.
      case r of Inl _ \<Rightarrow> fail SdkErrInsufficientFunds | Inr _ \<Rightarrow> ret ()))"

definition checkDeductFee :: "('x, 'k) ante_lib \<Rightarrow> ante_ctx \<Rightarrow> ante_tx \<Rightarrow> coins \<Rightarrow> ('x ante_state, unit) M" where
  "checkDeductFee A ctx tx fees =
     thenM (guardM (IsFeeTx tx) SdkErrTxDecode)
     (thenM (guardM (GetModuleAddress A FeeCollectorName \<noteq> None) (ErrStd ''fee collector module account has not been set''))
     (bindM (handleFeegrant A ctx (FeeGranter tx) (FeePayer tx) fees (GetMsgs tx)) (\<lambda>deductFeesFrom.
     bindM (getM (\<lambda>s. GetAccountAddress A deductFeesFrom (ext (ante_fg s)))) (\<lambda>acc.
     case acc of
       None \<Rightarrow> fail SdkErrUnknownAddress
     | Some deductFeesFromAcc \<Rightarrow>
         thenM (if \<not> IsZeroCoins (a_coins A) fees then deductFees A deductFeesFromAcc fees else ret ())
         (fgM (EmitEvent (''tx'', [(''fee'', CoinsString A fees),
            (''fee_payer'', AccString (core_codec (a_core A)) deductFeesFrom)])))))))"

definition CustomDeductFee_AnteHandle ::
  "('x, 'k) ante_lib \<Rightarrow> ante_ctx \<Rightarrow> ante_tx \<Rightarrow> bool \<Rightarrow> ('x ante_state, ante_ctx) M" where
  "CustomDeductFee_AnteHandle A ctx tx simulate =
     thenM (guardM (IsFeeTx tx) SdkErrTxDecode)
     (if BlockHeight ctx = 0 then ret ctx
      else
        thenM (guardM (\<not> (\<not> simulate \<and> BlockHeight ctx > 0 \<and> GetGas tx = 0)) SdkErrInvalidGasLimit)
        (bindM (if simulate then ret (GetFee tx)
                else readM (\<lambda>s. checkTxFeeWithMinGasPrices A ctx tx (ante_core s))) (\<lambda>fees.
        thenM (checkDeductFee A ctx tx fees) (ret ctx))))"

section \<open>The handler\<close>

datatype decorator =
    SetUpContext | RejectLegacyTx | ExtensionOptions | ValidateBasicDecorator | TxTimeoutHeight | ValidateMemo
  | ConsumeGasForTxSize | CustomDeductFee | SetPubKey | ValidateSigCount | SigGasConsume | SigVerification
  | IncrementSequence | RedundantRelay

definition decorators :: "decorator list" where
  "decorators =
     [SetUpContext, RejectLegacyTx, ExtensionOptions, ValidateBasicDecorator, TxTimeoutHeight, ValidateMemo,
      ConsumeGasForTxSize, CustomDeductFee, SetPubKey, ValidateSigCount, SigGasConsume, SigVerification,
      IncrementSequence, RedundantRelay]"

text \<open>
  A decorator gets the rest of the chain as its continuation. The decorators of the repository end with
  the call of it; those of the SDK and of IBC are the argument \<open>sdk\<close>, which may run the continuation
  with another context, not at all, or recover from its panics as \<open>SetUpContextDecorator\<close> does for gas.
\<close>

type_synonym 'x ante_handler = "ante_ctx \<Rightarrow> ante_tx \<Rightarrow> bool \<Rightarrow> ('x ante_state, ante_ctx) M"
type_synonym 'x sdk_decorators = "decorator \<Rightarrow> ante_ctx \<Rightarrow> ante_tx \<Rightarrow> bool \<Rightarrow> 'x ante_handler \<Rightarrow> ('x ante_state, ante_ctx) M"

definition decorate :: "'x sdk_decorators \<Rightarrow> ('x, 'k) ante_lib \<Rightarrow> decorator \<Rightarrow> 'x ante_handler \<Rightarrow> 'x ante_handler" where
  "decorate sdk A d next ctx tx simulate =
     (case d of
        RejectLegacyTx \<Rightarrow> bindM (RejectLegacyTx_AnteHandle ctx tx) (\<lambda>newCtx. next newCtx tx simulate)
      | ExtensionOptions \<Rightarrow> bindM (ExtensionOptions_AnteHandle A ctx tx simulate) (\<lambda>newCtx. next newCtx tx simulate)
      | CustomDeductFee \<Rightarrow> bindM (CustomDeductFee_AnteHandle A ctx tx simulate) (\<lambda>newCtx. next newCtx tx simulate)
      | _ \<Rightarrow> sdk d ctx tx simulate next)"

text \<open>
  \<open>HandlePanicDecorator\<close> catches a panic and raises it again as the text \<open>fmt.Sprint(r, FormatTx(tx))\<close>, the
  argument \<open>sprint\<close>.
\<close>

definition HandlePanic :: "(panic \<Rightarrow> ante_tx \<Rightarrow> string) \<Rightarrow> ante_tx \<Rightarrow> ('s, 'a) M \<Rightarrow> ('s, 'a) M" where
  "HandlePanic sprint tx m s =
     (case m s of (Inl (Panic p), t) \<Rightarrow> (Inl (Panic (PanicMsg (sprint p tx))), t) | r \<Rightarrow> r)"

definition NewAnteHandler ::
  "(panic \<Rightarrow> ante_tx \<Rightarrow> string) \<Rightarrow> 'x sdk_decorators \<Rightarrow> ('x, 'k) ante_lib \<Rightarrow> 'x ante_handler" where
  "NewAnteHandler sprint sdk A ctx tx simulate =
     HandlePanic sprint tx (foldr (decorate sdk A) decorators (\<lambda>ctx tx simulate. ret ctx) ctx tx simulate)"

end
