(* ===== verification/Core_Inv.thy ===== *)
theory Core_Inv
  imports Core_Keeper Feegrant_Types
begin

text \<open>
  The invariant of the core module. Every stored token passed the checks of \<open>SetJWSToken\<close> and stands under
  its own hash; each index holds exactly one marker per token that has the indexed field; the interchain
  accounts stand under their own address.

  \<open>core_later\<close> is the contract of the module over time: tokens are never dropped, their identity never
  changes, an invalid token never changes again, an interchain account keeps its controller and the chain
  configuration is fixed.

  The locale \<open>token_index\<close> is the interface of a secondary index; it is interpreted on the index by issuer
  and on the index by account.
\<close>

section \<open>A secondary index\<close>

definition index_entry :: "(JWSTokenRecord \<Rightarrow> string) \<Rightarrow> JWSTokenRecord kv \<Rightarrow> bytes \<Rightarrow> bool" where
  "index_entry f st k \<longleftrightarrow> (\<exists>p\<in>set st. f (snd p) \<noteq> '''' \<and> k = pair_bytes (fst p) (f (snd p)))"

definition index_ok :: "(JWSTokenRecord \<Rightarrow> string) \<Rightarrow> bytes kv \<Rightarrow> JWSTokenRecord kv \<Rightarrow> bool" where
  "index_ok f ix st \<longleftrightarrow>
     kv_ok ix \<and> (\<forall>k. kv_get ix k = (if index_entry f st k then Some [CHR 0x01] else None))"

lemma kv_set_same: "kv_ok s \<Longrightarrow> kv_get s k = Some v \<Longrightarrow> kv_set k v s = s"
  by (rule kv_ok_ext) auto

lemma set_kv_set_ok: "kv_ok s \<Longrightarrow> set (kv_set k v s) = insert (k, v) {p \<in> set s. fst p \<noteq> k}"
proof (rule set_eqI)
  fix p assume s: "kv_ok s"
  show "p \<in> set (kv_set k v s) \<longleftrightarrow> p \<in> insert (k, v) {p \<in> set s. fst p \<noteq> k}"
    using kv_get_Some_iff [OF kv_ok_set [OF s, of k v], of "fst p" "snd p"] kv_get_Some_iff [OF s, of "fst p" "snd p"]
    by (cases p) (auto split: if_splits)
qed

lemma index_ok_insert:
  assumes "index_ok f ix st" and "kv_ok st" and "kv_get st h = None" and "f r \<noteq> ''''"
  shows "index_ok f (kv_set (pair_bytes h (f r)) [CHR 0x01] ix) (kv_set h r st)"
  using assms by (auto simp: index_ok_def index_entry_def set_kv_set_fresh)

lemma index_ok_skip:
  assumes "index_ok f ix st" and "kv_get st h = None" and "f r = ''''"
  shows "index_ok f ix (kv_set h r st)"
  using assms by (auto simp: index_ok_def index_entry_def set_kv_set_fresh)

lemma index_ok_update:
  assumes "index_ok f ix st" and "kv_ok st" and "kv_get st h = Some r0" and "f r = f r0"
  shows "index_ok f ix (kv_set h r st)"
proof -
  have h: "(h, r0) \<in> set st" using assms(3) by (rule kv_get_in_set)
  have st: "set st = insert (h, r0) {p \<in> set st. fst p \<noteq> h}"
    using set_kv_set_ok [OF assms(2), of h r0] kv_set_same [OF assms(2,3)] by simp
  have "index_entry f (kv_set h r st) k \<longleftrightarrow> index_entry f st k" for k
    unfolding index_entry_def by (subst st) (simp add: set_kv_set_ok [OF assms(2)] assms(4))
  then show ?thesis using assms(1) by (simp add: index_ok_def)
qed

lemma index_ok_has:
  "index_ok f ix st \<Longrightarrow> kv_get st h = Some r \<Longrightarrow> f r \<noteq> '''' \<Longrightarrow> kv_set (pair_bytes h (f r)) [CHR 0x01] ix = ix"
  by (rule kv_set_same) (force simp: index_ok_def index_entry_def dest!: kv_get_in_set)+

lemma index_keys: "index_ok f ix st \<Longrightarrow> k \<in> fst ` set ix \<longleftrightarrow> index_entry f st k"
  using kv_get_None_iff [of ix k] by (simp add: index_ok_def split: if_splits)

lemma pair_bytes_prefix:
  assumes "addr_ok d" and "addr_ok d'"
  shows "prefix (char_of (length d) # d) (pair_bytes h d') \<longleftrightarrow> d = d'"
proof
  assume p: "prefix (char_of (length d) # d) (pair_bytes h d')"
  have "length d < 256" "length d' < 256" using assms by (auto simp: addr_ok_def)
  moreover have c: "char_of (length d) = (char_of (length d') :: char)" and pre: "prefix d (d' @ char_of (length h) # h)"
    using p by (auto simp: pair_bytes_def)
  ultimately have "length d = length d'" by (metis of_char_char_of_id)
  then show "d = d'" using pre by (auto simp: prefix_def append_eq_append_conv)
next
  assume "d = d'"
  then show "prefix (char_of (length d) # d) (pair_bytes h d')" by (simp add: pair_bytes_def)
qed

lemma indexedTokens_map:
  "(\<And>p. p \<in> set ix \<Longrightarrow> \<exists>a h. parse (fst p) = Inr (a, h) \<and> kv_get st h = Some (g p)) \<Longrightarrow>
   indexedTokens parse st ix = Inr (map g ix)"
proof (induction ix)
  case Nil
  then show ?case by simp
next
  case (Cons p ix)
  obtain a h where "parse (fst p) = Inr (a, h)" "kv_get st h = Some (g p)" using Cons.prems by fastforce
  moreover have "indexedTokens parse st ix = Inr (map g ix)"
    using Cons by simp
  ultimately show ?case by (cases p) simp
qed

text \<open>The contract of an index: the parser of its keys, the field it is on.\<close>

locale token_index =
  fixes parse :: "bytes \<Rightarrow> error + (string \<times> string)" and f :: "JWSTokenRecord \<Rightarrow> string"
  assumes parse_key: "addr_ok a \<Longrightarrow> addr_ok h \<Longrightarrow> parse (pair_bytes h a) = Inr (a, h)"
begin

lemma prefix_entry:
  assumes ix: "index_ok f ix st" and "p \<in> set (kv_prefix (char_of (length d) # d) ix)" and d: "addr_ok d"
    and ok: "\<And>h r. (h, r) \<in> set st \<Longrightarrow> TokenHash r = h \<and> addr_ok h \<and> (f r \<noteq> '''' \<longrightarrow> addr_ok (f r))"
  shows "\<exists>r. (TokenHash r, r) \<in> set st \<and> f r = d \<and> fst p = pair_bytes (TokenHash r) d"
proof -
  have p: "fst p \<in> fst ` set ix" "prefix (char_of (length d) # d) (fst p)" using assms(2) by (auto simp: kv_prefix_def)
  then obtain h r where r: "(h, r) \<in> set st" "f r \<noteq> ''''" "fst p = pair_bytes h (f r)"
    unfolding index_keys [OF ix] index_entry_def by auto
  then have "f r = d" using p(2) ok pair_bytes_prefix [OF d] by metis
  then show ?thesis using r ok by blast
qed

lemma lookup_exact:
  assumes ix: "index_ok f ix st" and st: "kv_ok st"
    and ok: "\<And>h r. (h, r) \<in> set st \<Longrightarrow> TokenHash r = h \<and> addr_ok h \<and> (f r \<noteq> '''' \<longrightarrow> addr_ok (f r))"
    and d: "addr_ok d"
  shows "\<exists>rs. indexedTokens parse st (kv_prefix (char_of (length d) # d) ix) = Inr rs \<and>
           distinct rs \<and> set rs = {r \<in> snd ` set st. f r = d}"
proof -
  let ?ix = "kv_prefix (char_of (length d) # d) ix"
  have "\<forall>p\<in>set ?ix. \<exists>r. (TokenHash r, r) \<in> set st \<and> f r = d \<and> fst p = pair_bytes (TokenHash r) d"
    using prefix_entry [OF ix _ d ok] by blast
  then obtain g where g: "\<And>p. p \<in> set ?ix \<Longrightarrow>
      (TokenHash (g p), g p) \<in> set st \<and> f (g p) = d \<and> fst p = pair_bytes (TokenHash (g p)) d"
    by metis
  have "indexedTokens parse st ?ix = Inr (map g ?ix)"
  proof (rule indexedTokens_map)
    fix p assume "p \<in> set ?ix"
    then show "\<exists>a h. parse (fst p) = Inr (a, h) \<and> kv_get st h = Some (g p)"
      using g [of p] ok [of "TokenHash (g p)" "g p"] parse_key [OF d] kv_get_Some_iff [OF st] by simp
  qed
  moreover have "distinct (map g ?ix)"
  proof -
    have "distinct (map fst ?ix)"
      using ix by (auto simp: index_ok_def kv_prefix_def intro!: kv_ok_distinct)
    moreover have "map fst ?ix = map (\<lambda>r. pair_bytes (TokenHash r) d) (map g ?ix)" using g by auto
    ultimately show ?thesis by (metis distinct_map)
  qed
  moreover
  have "r \<in> g ` set ?ix" if r: "(h, r) \<in> set st" "f r = d" for h r
  proof -
    have "index_entry f st (pair_bytes h d)" using r d by (force simp: index_entry_def addr_ok_def)
    then have "pair_bytes h d \<in> fst ` set ix" by (simp only: index_keys [OF ix])
    then obtain p where p: "p \<in> set ?ix" "fst p = pair_bytes h d"
      using pair_bytes_prefix [OF d d] by (auto simp: kv_prefix_def)
    then have "TokenHash (g p) = h"
      using g [OF p(1)] parse_key [OF d] ok r(1) by (metis Inr_inject prod.inject)
    then have "g p = r" using g [OF p(1)] kv_in_set_fun [OF st r(1)] by auto
    then show ?thesis using p(1) by blast
  qed
  then have "g ` set ?ix = {r \<in> snd ` set st. f r = d}"
    using g by (auto simp: image_iff) (metis snd_conv)+
  ultimately show ?thesis by simp
qed

end

section \<open>The invariant\<close>

definition token_accepted :: "sdk_codec \<Rightarrow> ChainConfig \<Rightarrow> JWSTokenRecord \<Rightarrow> bool" where
  "token_accepted cd cfg r \<longleftrightarrow>
     addr_ok (TokenHash r) \<and> addr_ok (IssuerDid r) \<and>
     (if AuthorizedAccount r = '''' then IgnoreBearerAuth cfg
      else addr_ok (AuthorizedAccount r) \<and> (\<exists>a. AccFromBech32 cd (AuthorizedAccount r) = Inr a)) \<and>
     marshalRecord cd r = None"

definition put_token :: "JWSTokenRecord \<Rightarrow> 'z core_state_scheme \<Rightarrow> 'z core_state_scheme" where
  "put_token r s = s\<lparr>jws_store := kv_set (TokenHash r) r (jws_store s),
     jws_did_store := kv_set (pair_bytes (TokenHash r) (IssuerDid r)) [CHR 0x01] (jws_did_store s),
     jws_account_store := (if AuthorizedAccount r = '''' then jws_account_store s
       else kv_set (pair_bytes (TokenHash r) (AuthorizedAccount r)) [CHR 0x01] (jws_account_store s))\<rparr>"

definition core_inv :: "core_lib \<Rightarrow> 'z core_state_scheme \<Rightarrow> bool" where
  "core_inv L s \<longleftrightarrow>
     kv_ok (jws_store s) \<and>
     (\<forall>h r. (h, r) \<in> set (jws_store s) \<longrightarrow> TokenHash r = h \<and> token_accepted (core_codec L) (GetChainConfig s) r) \<and>
     index_ok IssuerDid (jws_did_store s) (jws_store s) \<and>
     index_ok AuthorizedAccount (jws_account_store s) (jws_store s) \<and>
     kv_ok (ica_store s) \<and> (\<forall>a c. (a, c) \<in> set (ica_store s) \<longrightarrow> IcaAddress c = a \<and> a \<noteq> '''') \<and>
     (\<forall>p. core_params s = Some p \<longrightarrow> Core_Params_Validate L p = None)"

lemma core_invD:
  assumes "core_inv L s" and "kv_get (jws_store s) h = Some r"
  shows "TokenHash r = h" and "token_accepted (core_codec L) (GetChainConfig s) r"
  using assms kv_get_in_set [of "jws_store s" h r] by (auto simp: core_inv_def)

lemma core_inv_events [simp]: "core_inv L (s\<lparr>events := ev\<rparr>) = core_inv L s"
  by (simp add: core_inv_def GetChainConfig_def)

text \<open>A record of a known hash with the same issuer and account only replaces the old one.\<close>

lemma put_token_update:
  assumes "core_inv L s" and "kv_get (jws_store s) (TokenHash r) = Some r0"
    and "IssuerDid r = IssuerDid r0" and "AuthorizedAccount r = AuthorizedAccount r0"
  shows "put_token r s = s\<lparr>jws_store := kv_set (TokenHash r) r (jws_store s)\<rparr>"
  using assms index_ok_has [of IssuerDid "jws_did_store s" "jws_store s" "TokenHash r" r0]
    index_ok_has [of AuthorizedAccount "jws_account_store s" "jws_store s" "TokenHash r" r0] core_invD(2) [OF assms(1,2)]
  by (auto simp: put_token_def core_inv_def token_accepted_def addr_ok_def)

lemma put_token_inv_update:
  assumes "core_inv L s" and "kv_get (jws_store s) (TokenHash r) = Some r0"
    and "IssuerDid r = IssuerDid r0" and "AuthorizedAccount r = AuthorizedAccount r0"
    and "token_accepted (core_codec L) (GetChainConfig s) r"
  shows "core_inv L (put_token r s)"
  using assms(1,3,4,5) index_ok_update [OF _ _ assms(2), of IssuerDid "jws_did_store s" r]
    index_ok_update [OF _ _ assms(2), of AuthorizedAccount "jws_account_store s" r]
  by (auto simp: put_token_update [OF assms(1-4)] core_inv_def GetChainConfig_def set_kv_set_ok)

lemma put_token_inv_fresh:
  assumes "core_inv L s" and "kv_get (jws_store s) (TokenHash r) = None"
    and "token_accepted (core_codec L) (GetChainConfig s) r"
  shows "core_inv L (put_token r s)"
proof -
  have "index_ok AuthorizedAccount (jws_account_store (put_token r s)) (kv_set (TokenHash r) r (jws_store s))"
    using assms(1) index_ok_insert [OF _ _ assms(2), of AuthorizedAccount "jws_account_store s" r]
      index_ok_skip [OF _ assms(2), of AuthorizedAccount "jws_account_store s" r]
    by (simp add: put_token_def core_inv_def)
  moreover have "index_ok IssuerDid (jws_did_store (put_token r s)) (kv_set (TokenHash r) r (jws_store s))"
    using assms(1,3) index_ok_insert [OF _ _ assms(2), of IssuerDid "jws_did_store s" r]
    by (simp add: put_token_def core_inv_def token_accepted_def addr_ok_def)
  ultimately show ?thesis
    using assms(1,3) by (auto simp: put_token_def core_inv_def GetChainConfig_def set_kv_set_ok)
qed

section \<open>Storing a token\<close>

sublocale codec_spec \<subseteq> by_did: token_index "ParseJWSTokenByDIDKey cd" IssuerDid
proof
  fix a h :: string assume "addr_ok a" "addr_ok h"
  then show "ParseJWSTokenByDIDKey cd (pair_bytes h a) = Inr (a, h)"
    by (auto simp: ParseJWSTokenByDIDKey_def pair_bytes_def prefix_lawsD(2) [OF prefixes] addr_ok_def drop_Cons')
qed

sublocale codec_spec \<subseteq> by_account: token_index "ParseJWSTokenByAccountKey cd" AuthorizedAccount
proof
  fix a h :: string assume "addr_ok a" "addr_ok h"
  then show "ParseJWSTokenByAccountKey cd (pair_bytes h a) = Inr (a, h)"
    by (auto simp: ParseJWSTokenByAccountKey_def pair_bytes_def prefix_lawsD(2) [OF prefixes] addr_ok_def drop_Cons')
qed

lemma marshalRecord_None:
  assumes "time_laws cd"
  shows "marshalRecord cd r = None \<longleftrightarrow>
     time_ok (IssuedAt r) \<and> time_ok (jws_ExpiresAt r) \<and>
     list_all (\<lambda>t. case t of None \<Rightarrow> True | Some x \<Rightarrow> time_ok x) [InvalidatedAt r, LastUsedAt r, FirstUsedAt r]"
  by (auto simp: marshalRecord_def time_lawsD(3) [OF assms] split: option.splits)

lemma marshalRecord_not_panic: "time_laws cd \<Longrightarrow> marshalRecord cd r = Some e \<Longrightarrow> \<not> is_panic e"
  by (auto simp: marshalRecord_def firstErr_def orElse_def time_lawsD(4) split: option.splits)

context codec_spec
begin

lemma length_prefix_Inl: "MustLengthPrefix cd b = Inl e \<Longrightarrow> \<exists>p. e = Panic p"
  using prefix_lawsD(1) [OF prefixes, of b] prefix_lawsD(4) [OF prefixes, of b] prefix_lawsD(5) [OF prefixes]
  by (cases "b = []"; cases "length b \<le> 255") (auto simp: addr_ok_def)

lemma length_prefix_Inr: "MustLengthPrefix cd b = Inr y \<Longrightarrow> b \<noteq> [] \<Longrightarrow> addr_ok b \<and> y = char_of (length b) # b"
  using prefix_lawsD(1) [OF prefixes, of b] prefix_lawsD(4) [OF prefixes, of b]
  by (cases "length b \<le> 255") (auto simp: addr_ok_def)

lemma SetJWSToken_ok:
  "token_accepted cd (GetChainConfig s) r \<Longrightarrow> SetJWSToken cd r s = (Inr (), put_token r s)"
  by (auto simp: SetJWSToken_def token_accepted_def put_token_def JWSTokenByDIDKey_def JWSTokenByAccountKey_def
      JWSTokenByDIDKeyPrefix_def JWSTokenByAccountKeyPrefix_def prefix_lawsD(1) [OF prefixes] pair_bytes_def checkE_def
      addr_ok_def thenM_def bindM_def guardM_def split: if_splits)

lemma SetJWSToken_cases:
  assumes "SetJWSToken cd r s = (x, t)"
  obtains (stored) "x = Inr ()" "t = put_token r s" "token_accepted cd (GetChainConfig s) r"
  | (refused) e where "x = Inl e" "\<not> is_panic e" "t = s"
  | (panicked) p where "x = Inl (Panic p)"
proof (cases "token_accepted cd (GetChainConfig s) r")
  case True
  then show thesis using stored SetJWSToken_ok [OF True] assms by simp
next
  case False
  show thesis
  proof (cases "\<exists>p. x = Inl (Panic p)")
    case True
    then show thesis using panicked by blast
  next
    case np: False
    have "\<exists>e. x = Inl e \<and> \<not> is_panic e \<and> t = s"
      using assms False np
      by (auto simp: SetJWSToken_def token_accepted_def JWSTokenByDIDKey_def JWSTokenByAccountKey_def
          thenM_def bindM_def guardM_def bindE_def checkE_def
          split: if_splits sum.splits option.splits dest!: length_prefix_Inl length_prefix_Inr
          dest: marshalRecord_not_panic [OF times])
    then show thesis using refused by blast
  qed
qed

end

section \<open>The module over time\<close>

definition tok_later :: "JWSTokenRecord \<Rightarrow> JWSTokenRecord \<Rightarrow> bool" where
  "tok_later r r' \<longleftrightarrow>
     TokenHash r' = TokenHash r \<and> BearerToken r' = BearerToken r \<and> IssuerDid r' = IssuerDid r \<and>
     AuthorizedAccount r' = AuthorizedAccount r \<and> IssuedAt r' = IssuedAt r \<and> jws_ExpiresAt r' = jws_ExpiresAt r \<and>
     (Status r = STATUS_INVALID \<longrightarrow> r' = r)"

definition core_later :: "'z core_state_scheme \<Rightarrow> 'z core_state_scheme \<Rightarrow> bool" where
  "core_later s t \<longleftrightarrow>
     (\<forall>h r. GetJWSToken h s = Some r \<longrightarrow> (\<exists>r'. GetJWSToken h t = Some r' \<and> tok_later r r')) \<and>
     (\<forall>a c. GetICAConnection a s = Some c \<longrightarrow> GetICAConnection a t = Some c) \<and>
     chain_config t = chain_config s \<and> (core_params s \<noteq> None \<longrightarrow> core_params t \<noteq> None)"

lemma tok_later_refl [simp]: "tok_later r r"
  by (simp add: tok_later_def)

lemma tok_later_trans: "tok_later a b \<Longrightarrow> tok_later b c \<Longrightarrow> tok_later a c"
  by (auto simp: tok_later_def)

lemma core_later_refl [simp]: "core_later s s"
  by (simp add: core_later_def)

lemma core_later_trans: "core_later s t \<Longrightarrow> core_later t u \<Longrightarrow> core_later s u"
  unfolding core_later_def by (fastforce dest: tok_later_trans)

lemma core_later_events [simp]:
  "core_later s (t\<lparr>events := ev\<rparr>) = core_later s t" "core_later s t \<Longrightarrow> core_later s (t\<lparr>core_params := Some p\<rparr>)"
  by (simp_all add: core_later_def GetJWSToken_def GetICAConnection_def)

lemma put_token_later:
  "(\<And>r0. kv_get (jws_store s) (TokenHash r) = Some r0 \<Longrightarrow> tok_later r0 r) \<Longrightarrow> core_later s (put_token r s)"
  by (auto simp: core_later_def put_token_def GetJWSToken_def GetICAConnection_def)

text \<open>What every step keeps, seen from an earlier state \<open>s0\<close>.\<close>

definition core_since :: "core_lib \<Rightarrow> 'z core_state_scheme \<Rightarrow> 'z core_state_scheme \<Rightarrow> bool" where
  "core_since L s0 s \<longleftrightarrow> core_inv L s \<and> core_later s0 s"

lemma core_since_events [simp]: "core_since L s0 (s\<lparr>events := ev\<rparr>) = core_since L s0 s"
  by (simp add: core_since_def)

lemma core_since_trans: "core_since L s t \<Longrightarrow> core_later s0 s \<Longrightarrow> core_since L s0 t"
  by (auto simp: core_since_def intro: core_later_trans)

lemma GetChainConfig_later: "core_later s t \<Longrightarrow> GetChainConfig t = GetChainConfig s"
  by (simp add: core_later_def GetChainConfig_def)

locale core_env = codec_spec "core_codec L" for L :: core_lib
begin

abbreviation "ccd \<equiv> core_codec L"

lemma since_update:
  assumes "core_since L s0 s" and "GetJWSToken h s = Some r" and "tok_later r r'"
    and run: "SetJWSToken ccd r' s = (x, t)" and np: "\<forall>e. x = Inl e \<longrightarrow> \<not> is_panic e"
  shows "core_since L s0 t"
  using run
proof (cases rule: SetJWSToken_cases)
  case stored
  have s: "core_inv L s" using assms(1) by (simp add: core_since_def)
  have h: "h = TokenHash r'" "IssuerDid r' = IssuerDid r" "AuthorizedAccount r' = AuthorizedAccount r"
    using core_invD(1) [OF s] assms(2,3) by (auto simp: tok_later_def GetJWSToken_def)
  then have "core_inv L t"
    using put_token_inv_update [OF s, of r' r] stored assms(2) by (simp add: GetJWSToken_def)
  moreover have "core_later s t"
    unfolding stored(2) using assms(2,3) h(1) by (intro put_token_later) (auto simp: GetJWSToken_def)
  ultimately show ?thesis using assms(1) core_later_trans by (auto simp: core_since_def)
qed (use assms(1) np in auto)

lemma since_insert:
  assumes "core_since L s0 s" and "GetJWSToken (TokenHash r) s = None"
    and run: "SetJWSToken ccd r s = (x, t)" and np: "\<forall>e. x = Inl e \<longrightarrow> \<not> is_panic e"
  shows "core_since L s0 t"
  using run
proof (cases rule: SetJWSToken_cases)
  case stored
  have "core_inv L t"
    using put_token_inv_fresh [of L s r] stored assms(1,2) by (simp add: core_since_def GetJWSToken_def)
  moreover have "core_later s t"
    unfolding stored(2) using assms(2) by (intro put_token_later) (auto simp: GetJWSToken_def)
  ultimately show ?thesis using assms(1) core_later_trans by (auto simp: core_since_def)
qed (use assms(1) np in auto)

lemma since_usage:
  assumes "core_since L s0 s" and "GetJWSToken h s = Some r" and "Status r \<noteq> STATUS_INVALID"
    and "RecordJWSTokenUsage ccd ctx h s = (x, t)" and "\<forall>e. x = Inl e \<longrightarrow> \<not> is_panic e"
  shows "core_since L s0 t"
  using assms
  by (auto simp: RecordJWSTokenUsage_def theToken_def bindM_def Let_def split: if_splits
      elim!: since_update [OF assms(1,2), rotated 1] simp: tok_later_def)

lemma since_invalidate:
  assumes "core_since L s0 s" and "GetJWSToken h s = Some r" and "Status r \<noteq> STATUS_INVALID"
    and "UpdateJWSTokenStatus ccd ctx h STATUS_INVALID who s = (x, t)" and "\<forall>e. x = Inl e \<longrightarrow> \<not> is_panic e"
  shows "core_since L s0 t"
  using assms
  by (auto simp: UpdateJWSTokenStatus_def theToken_def bindM_def Let_def split: if_splits
      elim!: since_update [OF assms(1,2), rotated 1] simp: tok_later_def)

lemma since_StoreOrUpdate: "keeps (core_since L s0) (StoreOrUpdateJWSToken L ctx token did account iat exp)"
proof (rule keepsI)
  fix s x t
  assume *: "core_since L s0 s" "StoreOrUpdateJWSToken L ctx token did account iat exp s = (x, t)"
    "\<forall>e. x = Inl e \<longrightarrow> \<not> is_panic e"
  show "core_since L s0 t"
  proof (cases "GetJWSToken (HashJWSToken L token) s")
    case None
    then show ?thesis
      using * by (auto simp: StoreOrUpdateJWSToken_def Let_def split: if_splits
          elim!: since_insert [OF *(1), rotated 1])
  next
    case (Some r)
    then show ?thesis
      using * by (auto simp: StoreOrUpdateJWSToken_def Let_def split: if_splits
          elim!: since_usage [OF *(1) Some, rotated 1])
  qed
qed

lemma since_InvalidateJWS: "keeps (core_since L s0) (InvalidateJWS ccd ctx creator h)"
proof (rule keepsI)
  fix s x t
  assume *: "core_since L s0 s" "InvalidateJWS ccd ctx creator h s = (x, t)" "\<forall>e. x = Inl e \<longrightarrow> \<not> is_panic e"
  obtain y u where u: "UpdateJWSTokenStatus ccd ctx h STATUS_INVALID creator s = (y, u)" by fastforce
  show "core_since L s0 t"
    using *(1,2,3) u since_invalidate [OF *(1) _ _ u]
    by (auto simp: InvalidateJWS_def theToken_def bindM_def tryM_def Let_def split: if_splits option.splits sum.splits)
qed

end

section \<open>The end of a block\<close>

definition expire :: "time \<Rightarrow> JWSTokenRecord \<Rightarrow> JWSTokenRecord" where
  "expire now r = (if tokenExpired now r then r\<lparr>Status := STATUS_INVALID, InvalidatedAt := Some now\<rparr> else r)"

definition sweepToken :: "sdk_codec \<Rightarrow> 'c sdk_ctx_scheme \<Rightarrow> JWSTokenRecord \<Rightarrow> ('z core_state_scheme, unit) M" where
  "sweepToken cd ctx r =
     (if tokenExpired (BlockTime ctx) r
      then thenM (tryM (UpdateJWSTokenStatus cd ctx (TokenHash r) STATUS_INVALID '''')) (ret ())
      else ret ())"

lemma CheckAndUpdateExpiredTokens_sweep:
  "CheckAndUpdateExpiredTokens cd ctx = bindM (getM GetAllJWSTokens) (\<lambda>records. forM records (sweepToken cd ctx))"
  by (simp add: CheckAndUpdateExpiredTokens_def sweepToken_def [abs_def])

declare forM_Nil [simp]

lemma tokenExpired_not_invalid: "tokenExpired now r \<Longrightarrow> Status r \<noteq> STATUS_INVALID"
  by (simp add: tokenExpired_def)

lemma UpdateJWSTokenStatus_frame:
  assumes "UpdateJWSTokenStatus cd ctx h st who s = (x, t)" and "h' \<noteq> h" and "core_inv L s"
  shows "GetJWSToken h' t = GetJWSToken h' s"
  using assms(1,2) core_invD(1) [OF assms(3), of h]
  by (auto simp: UpdateJWSTokenStatus_def theToken_def SetJWSToken_def GetJWSToken_def Let_def bindM_def thenM_def
      guardM_def split: if_splits option.splits sum.splits)

context core_env
begin

lemma sweep_since:
  assumes "core_since L s0 s" and "GetJWSToken (TokenHash r) s = Some r"
    and run: "sweepToken ccd ctx r s = (x, t)" and np: "\<forall>e. x = Inl e \<longrightarrow> \<not> is_panic e"
  shows "x = Inr () \<and> core_since L s0 t \<and> (\<forall>h. h \<noteq> TokenHash r \<longrightarrow> GetJWSToken h t = GetJWSToken h s)"
proof (cases "tokenExpired (BlockTime ctx) r")
  case False
  then show ?thesis using assms(1) run by (simp add: sweepToken_def)
next
  case True
  obtain y u where u: "UpdateJWSTokenStatus ccd ctx (TokenHash r) STATUS_INVALID '''' s = (y, u)" by fastforce
  have "x = Inr () \<and> t = u \<and> (\<forall>e. y = Inl e \<longrightarrow> \<not> is_panic e)"
    using True run np u by (auto simp: sweepToken_def thenM_def bindM_def tryM_def split: sum.splits if_splits)
  then show ?thesis
    using since_invalidate [OF assms(1,2) tokenExpired_not_invalid [OF True] u]
      UpdateJWSTokenStatus_frame [OF u, of _ L] assms(1) by (auto simp: core_since_def)
qed

lemma sweep_loop_since:
  assumes "core_since L s0 s" and "\<forall>r\<in>set rs. GetJWSToken (TokenHash r) s = Some r" and "distinct (map TokenHash rs)"
    and "forM rs (sweepToken ccd ctx) s = (x, t)" and "\<forall>e. x = Inl e \<longrightarrow> \<not> is_panic e"
  shows "core_since L s0 t"
  using assms
proof (induction rs arbitrary: s)
  case Nil
  then show ?case by simp
next
  case (Cons r rs)
  obtain y u where u: "sweepToken ccd ctx r s = (y, u)" by fastforce
  have "\<forall>e. y = Inl e \<longrightarrow> \<not> is_panic e"
    using Cons.prems(4,5) u by (auto simp: forM_Cons thenM_def bindM_def split: sum.splits)
  from sweep_since [OF Cons.prems(1) _ u this] Cons.prems(2)
  have y: "y = Inr ()" "core_since L s0 u" "\<forall>h. h \<noteq> TokenHash r \<longrightarrow> GetJWSToken h u = GetJWSToken h s" by auto
  have "forM rs (sweepToken ccd ctx) u = (x, t)"
    using Cons.prems(4) u y(1) by (simp add: forM_Cons thenM_def bindM_def)
  moreover have "\<forall>r'\<in>set rs. GetJWSToken (TokenHash r') u = Some r'"
    using Cons.prems(2,3) y(3) by (metis image_eqI image_set list.set_intros(2) distinct.simps(2) list.simps(9))
  ultimately show ?case using Cons.IH [OF y(2)] Cons.prems(3,5) by simp
qed

lemma all_tokens:
  assumes "core_inv L s"
  shows "distinct (map TokenHash (GetAllJWSTokens s))"
    and "r \<in> set (GetAllJWSTokens s) \<longleftrightarrow> GetJWSToken (TokenHash r) s = Some r"
proof -
  have k: "kv_ok (jws_store s)" and h: "\<And>h r. (h, r) \<in> set (jws_store s) \<Longrightarrow> TokenHash r = h"
    using assms by (auto simp: core_inv_def)
  have "map TokenHash (GetAllJWSTokens s) = map fst (jws_store s)" using h by (auto simp: GetAllJWSTokens_def)
  then show "distinct (map TokenHash (GetAllJWSTokens s))" using kv_ok_distinct [OF k] by simp
  show "r \<in> set (GetAllJWSTokens s) \<longleftrightarrow> GetJWSToken (TokenHash r) s = Some r"
  proof -
    have "r \<in> set (GetAllJWSTokens s) \<longleftrightarrow> (\<exists>h. (h, r) \<in> set (jws_store s))"
      by (auto simp: GetAllJWSTokens_def image_iff) (metis snd_conv)
    then show ?thesis using h kv_get_Some_iff [OF k, of "TokenHash r" r] by (auto simp: GetJWSToken_def)
  qed
qed

lemma find_token:
  assumes "core_inv L s"
  shows "find (\<lambda>r. TokenHash r = h) (GetAllJWSTokens s) = kv_get (jws_store s) h"
proof -
  have "find (\<lambda>r. TokenHash r = h) (map snd st) = kv_get st h"
    if "\<forall>p\<in>set st. TokenHash (snd p) = fst p" for st :: "JWSTokenRecord kv"
    using that by (induction st) auto
  then show ?thesis using assms by (simp add: core_inv_def GetAllJWSTokens_def split_paired_Ball_Sigma)
qed

lemma since_EndBlocker: "keeps (core_since L s0) (Core_EndBlocker ccd ctx)"
proof -
  have "keeps (core_since L s0) (CheckAndUpdateExpiredTokens ccd ctx)"
  proof (rule keepsI)
    fix s x t
    assume *: "core_since L s0 s" "CheckAndUpdateExpiredTokens ccd ctx s = (x, t)" "\<forall>e. x = Inl e \<longrightarrow> \<not> is_panic e"
    from *(1) have "core_inv L s" by (simp add: core_since_def)
    then show "core_since L s0 t"
      using sweep_loop_since [OF *(1) _ _ _ *(3), of "GetAllJWSTokens s" ctx t] *(2)
      by (simp add: CheckAndUpdateExpiredTokens_sweep all_tokens)
  qed
  then show ?thesis unfolding Core_EndBlocker_def by (intro keeps_rules)
qed

end

text \<open>With a block time in the range of timestamps no update is refused.\<close>

definition sweep_store :: "time \<Rightarrow> JWSTokenRecord list \<Rightarrow> JWSTokenRecord kv \<Rightarrow> JWSTokenRecord kv" where
  "sweep_store now rs st = fold (\<lambda>r. kv_set (TokenHash r) (expire now r)) rs st"

lemma tok_later_expire: "tok_later r (expire now r)"
  using tokenExpired_not_invalid [of now r] by (auto simp: tok_later_def expire_def)

lemma kv_get_sweep_store:
  "distinct (map TokenHash rs) \<Longrightarrow>
   kv_get (sweep_store now rs st) h =
     (case find (\<lambda>r. TokenHash r = h) rs of Some r \<Rightarrow> Some (expire now r) | None \<Rightarrow> kv_get st h)"
  unfolding sweep_store_def
proof (induction rs arbitrary: st)
  case Nil
  then show ?case by simp
next
  case (Cons r rs)
  have "TokenHash r \<notin> TokenHash ` set rs" using Cons.prems by simp
  then have "find (\<lambda>r'. TokenHash r' = TokenHash r) rs = None" unfolding find_None_iff image_iff by metis
  with Cons show ?case by (auto split: option.splits)
qed

lemma kv_ok_sweep_store: "kv_ok st \<Longrightarrow> kv_ok (sweep_store now rs st)"
  unfolding sweep_store_def by (induction rs arbitrary: st) auto

context core_env
begin

lemma accepted_expire:
  "token_accepted ccd cfg r \<Longrightarrow> time_ok now \<Longrightarrow> token_accepted ccd cfg (expire now r)"
  by (auto simp: token_accepted_def expire_def marshalRecord_None [OF times])

lemma sweep_exact:
  assumes s: "core_inv L s" and r: "GetJWSToken (TokenHash r) s = Some r" and now: "time_ok (BlockTime ctx)"
  shows "sweepToken ccd ctx r s = (Inr (), s\<lparr>jws_store := kv_set (TokenHash r) (expire (BlockTime ctx) r) (jws_store s)\<rparr>)"
    and "core_inv L (s\<lparr>jws_store := kv_set (TokenHash r) (expire (BlockTime ctx) r) (jws_store s)\<rparr>)"
proof -
  let ?e = "expire (BlockTime ctx) r" and ?t = "s\<lparr>jws_store := kv_set (TokenHash r) (expire (BlockTime ctx) r) (jws_store s)\<rparr>"
  have g: "kv_get (jws_store s) (TokenHash ?e) = Some r" and id: "TokenHash ?e = TokenHash r"
    "IssuerDid ?e = IssuerDid r" "AuthorizedAccount ?e = AuthorizedAccount r"
    using r by (auto simp: GetJWSToken_def expire_def)
  have acc: "token_accepted ccd (GetChainConfig s) ?e"
    using accepted_expire now core_invD(2) [OF s] r by (auto simp: GetJWSToken_def)
  have put: "put_token ?e s = ?t" using put_token_update [OF s g] id by simp
  show "core_inv L ?t" using put_token_inv_update [OF s g id(2,3) acc] by (simp only: put)
  show "sweepToken ccd ctx r s = (Inr (), ?t)"
  proof (cases "tokenExpired (BlockTime ctx) r")
    case False
    then show ?thesis
      using s r by (simp add: sweepToken_def expire_def kv_set_same core_inv_def GetJWSToken_def)
  next
    case True
    have "TokenHash r \<noteq> ''''" using core_invD(2) [OF s g] by (auto simp: token_accepted_def addr_ok_def)
    then have "UpdateJWSTokenStatus ccd ctx (TokenHash r) STATUS_INVALID '''' s = SetJWSToken ccd ?e s"
      using r True by (simp add: UpdateJWSTokenStatus_def theToken_def expire_def Let_def bindM_def)
    also have "\<dots> = (Inr (), ?t)" using SetJWSToken_ok [OF acc] put by simp
    finally show ?thesis using True by (simp add: sweepToken_def thenM_def bindM_def tryM_def)
  qed
qed

lemma sweep_loop_exact:
  assumes "core_inv L s" and "\<forall>r\<in>set rs. GetJWSToken (TokenHash r) s = Some r" and "distinct (map TokenHash rs)"
    and "time_ok (BlockTime ctx)"
  shows "forM rs (sweepToken ccd ctx) s = (Inr (), s\<lparr>jws_store := sweep_store (BlockTime ctx) rs (jws_store s)\<rparr>)"
  using assms
proof (induction rs arbitrary: s)
  case Nil
  then show ?case by (simp add: sweep_store_def)
next
  case (Cons r rs)
  let ?t = "s\<lparr>jws_store := kv_set (TokenHash r) (expire (BlockTime ctx) r) (jws_store s)\<rparr>"
  have "GetJWSToken (TokenHash r) s = Some r" using Cons.prems(2) by simp
  note e = sweep_exact [OF Cons.prems(1) this Cons.prems(4)]
  have "TokenHash r' \<noteq> TokenHash r" if "r' \<in> set rs" for r'
    using Cons.prems(3) imageI [OF that, of TokenHash] by auto
  then have "\<forall>r'\<in>set rs. GetJWSToken (TokenHash r') ?t = Some r'"
    using Cons.prems(2) by (simp add: GetJWSToken_def)
  from Cons.IH [OF e(2) this] Cons.prems(3,4) show ?case
    by (simp add: forM_Cons thenM_def bindM_def e(1) sweep_store_def)
qed

lemma EndBlocker_exact:
  assumes s: "core_inv L s" and now: "time_ok (BlockTime ctx)"
  shows "Core_EndBlocker ccd ctx s =
    (Inr (), s\<lparr>jws_store := map (\<lambda>p. (fst p, expire (BlockTime ctx) (snd p))) (jws_store s)\<rparr>)"
proof -
  let ?rs = "GetAllJWSTokens s" and ?now = "BlockTime ctx"
  have k: "kv_ok (jws_store s)" using s by (simp add: core_inv_def)
  have "sweep_store ?now ?rs (jws_store s) = map (\<lambda>p. (fst p, expire ?now (snd p))) (jws_store s)"
  proof (rule kv_ok_ext)
    show "kv_ok (sweep_store ?now ?rs (jws_store s))" using k by (rule kv_ok_sweep_store)
    show "kv_ok (map (\<lambda>p. (fst p, expire ?now (snd p))) (jws_store s))" using k by (simp add: kv_ok_def comp_def)
    fix h
    have "find (\<lambda>r. TokenHash r = h) ?rs = kv_get (jws_store s) h"
      using find_token [OF s] by simp
    then show "kv_get (sweep_store ?now ?rs (jws_store s)) h
        = kv_get (map (\<lambda>p. (fst p, expire ?now (snd p))) (jws_store s)) h"
      by (simp add: kv_get_sweep_store all_tokens(1) [OF s] kv_get_map split: option.splits)
  qed
  then show ?thesis
    using sweep_loop_exact [OF s _ all_tokens(1) [OF s] now] all_tokens(2) [OF s]
    by (simp add: Core_EndBlocker_def CheckAndUpdateExpiredTokens_sweep thenM_def bindM_def tryM_def)
qed

end

end
