(* ===== verification/Core_Props.thy ===== *)
theory Core_Props
  imports Core_Inv
begin

text \<open>
  The genesis of the core module, its steps, and the properties of the states it reaches: lookups by issuer
  and by account are exact, tokens are permanent and revocation is final, the end of a block invalidates
  exactly the expired tokens, and what the export of a chain needs to be imported again.
\<close>

section \<open>Rebuilding a store\<close>

lemma kv_set_last: "\<forall>p\<in>set acc. fst p < k \<Longrightarrow> kv_set k v acc = acc @ [(k, v)]"
  by (induction acc) fastforce+

lemma fold_kv_set_append:
  "kv_ok xs \<Longrightarrow> \<forall>p\<in>set acc. \<forall>q\<in>set xs. fst p < fst q \<Longrightarrow> fold (\<lambda>p. kv_set (fst p) (snd p)) xs acc = acc @ xs"
proof (induction xs arbitrary: acc)
  case Nil
  then show ?case by simp
next
  case (Cons q xs)
  have "kv_set (fst q) (snd q) acc = acc @ [q]" using Cons.prems(2) by (simp add: kv_set_last)
  then show ?case using Cons by auto
qed

lemma fold_rebuild:
  assumes "kv_ok st" and "\<forall>p\<in>set st. key (snd p) = fst p"
  shows "fold (\<lambda>v. kv_set (key v) v) (map snd st) [] = st"
proof -
  have "fold (\<lambda>v. kv_set (key v) v) (map snd st) [] = fold (\<lambda>p. kv_set (fst p) (snd p)) st []"
    unfolding fold_map using assms(2) by (intro fold_cong) (auto simp: comp_def)
  then show ?thesis using fold_kv_set_append [OF assms(1), of "[]"] by simp
qed

lemma index_ok_unique: "index_ok f ix st \<Longrightarrow> index_ok f ix' st \<Longrightarrow> ix = ix'"
  by (auto simp: index_ok_def intro: kv_ok_ext)

section \<open>Genesis\<close>

lemma panicOnErr_Inr: "panicOnErr m s = (Inr (), t) \<longleftrightarrow> m s = (Inr (), t)"
  by (cases "m s") (auto simp: panicOnErr_def bindM_def tryM_def split: sum.splits)

lemma panicOnErr_Inl: "panicOnErr m s = (Inl e, t) \<Longrightarrow> \<exists>p. e = Panic p"
  by (cases "m s") (auto simp: panicOnErr_def bindM_def tryM_def split: sum.splits if_splits elim: is_panic.elims)

lemma forM_panicOnErr_Inl: "forM xs (\<lambda>x. panicOnErr (f x)) s = (Inl e, t) \<Longrightarrow> \<exists>p. e = Panic p"
  by (induction xs arbitrary: s)
    (auto simp: forM_Cons thenM_def bindM_def split: prod.splits sum.splits dest: panicOnErr_Inl)

lemma InitGenesis_Inl: "Core_InitGenesis L g s = (Inl e, t) \<Longrightarrow> \<exists>p. e = Panic p"
  by (auto simp: Core_InitGenesis_def thenM_def bindM_def split: prod.splits sum.splits
      dest: panicOnErr_Inl forM_panicOnErr_Inl)

definition put_ica :: "ICAConnection \<Rightarrow> 'z core_state_scheme \<Rightarrow> 'z core_state_scheme" where
  "put_ica c s = s\<lparr>ica_store := kv_set (IcaAddress c) c (ica_store s)\<rparr>"

lemma ica_eta:
  "\<lparr>IcaAddress = IcaAddress c, ControllerAddress = ControllerAddress c, ControllerChainId = ControllerChainId c,
    ConnectionId = ConnectionId c\<rparr> = c"
  by simp

lemma ica_loop:
  "forM cs (\<lambda>c. panicOnErr (SetICAConnection (IcaAddress c) (ControllerAddress c) (ControllerChainId c) (ConnectionId c))) s
     = (Inr (), t) \<longleftrightarrow> (\<forall>c\<in>set cs. IcaAddress c \<noteq> '''') \<and> t = fold put_ica cs s"
proof (induction cs arbitrary: s)
  case Nil
  then show ?case by auto
next
  case (Cons c cs)
  then show ?case
    by (auto simp: forM_Cons thenM_Inr_iff panicOnErr_Inr SetICAConnection_def put_ica_def ica_eta)
qed

lemma put_token_fields [simp]:
  "GetChainConfig (put_token r s) = GetChainConfig s" "jws_store (put_token r s) = kv_set (TokenHash r) r (jws_store s)"
  "events (put_token r s) = events s" "core_params (put_token r s) = core_params s"
  "chain_config (put_token r s) = chain_config s" "ica_store (put_token r s) = ica_store s"
  by (simp_all add: put_token_def GetChainConfig_def)

lemma fold_put_ica:
  "fold put_ica cs s = s\<lparr>ica_store := fold (\<lambda>c. kv_set (IcaAddress c) c) cs (ica_store s)\<rparr>"
  by (induction cs arbitrary: s) (auto simp: put_ica_def)

lemma fold_put_token:
  "GetChainConfig (fold put_token rs s) = GetChainConfig s"
  "jws_store (fold put_token rs s) = fold (\<lambda>r. kv_set (TokenHash r) r) rs (jws_store s)"
  "events (fold put_token rs s) = events s" "core_params (fold put_token rs s) = core_params s"
  "chain_config (fold put_token rs s) = chain_config s" "ica_store (fold put_token rs s) = ica_store s"
  by (induction rs arbitrary: s) simp_all

definition genesis_state :: "CoreGenesis \<Rightarrow> core_state" where
  "genesis_state g = (fold put_token (cg_JwsTokens g)
     (fold put_ica (cg_IcaConnections g) (core_init\<lparr>core_params := Some (cg_Params g)\<rparr>)))
     \<lparr>chain_config := Some (cg_ChainConfig g)\<rparr>"

text \<open>A genesis file is accepted when all its parts are; its tokens are checked with the default configuration.\<close>

definition genesis_accepted :: "core_lib \<Rightarrow> CoreGenesis \<Rightarrow> bool" where
  "genesis_accepted L g \<longleftrightarrow>
     Core_Params_Validate L (cg_Params g) = None \<and> (\<forall>c\<in>set (cg_IcaConnections g). IcaAddress c \<noteq> '''') \<and>
     (\<forall>r\<in>set (cg_JwsTokens g). token_accepted (core_codec L) DefaultChainConfig r)"

context core_env
begin

lemma SetJWSToken_Inr:
  "SetJWSToken ccd r s = (Inr (), t) \<longleftrightarrow> token_accepted ccd (GetChainConfig s) r \<and> t = put_token r s"
  using SetJWSToken_ok [of s r] by (auto elim: SetJWSToken_cases)

lemma tokens_loop:
  "forM rs (\<lambda>r. panicOnErr (SetJWSToken ccd r)) s = (Inr (), t) \<longleftrightarrow>
     (\<forall>r\<in>set rs. token_accepted ccd (GetChainConfig s) r) \<and> t = fold put_token rs s"
  by (induction rs arbitrary: s) (auto simp: forM_Cons thenM_Inr_iff panicOnErr_Inr SetJWSToken_Inr)

lemma InitGenesis_Inr:
  "Core_InitGenesis L g core_init = (Inr (), s) \<longleftrightarrow> genesis_accepted L g \<and> s = genesis_state g"
  by (auto simp: Core_InitGenesis_def thenM_Inr_iff panicOnErr_Inr ica_loop tokens_loop genesis_accepted_def
      genesis_state_def Core_SetParams_def SetChainConfig_def fold_put_ica fold_put_token core_init_def GetChainConfig_def)

lemma put_tokens_inv:
  assumes "core_inv L s" and "\<forall>r\<in>set rs. token_accepted ccd (GetChainConfig s) r" and "distinct (map TokenHash rs)"
    and "\<forall>r\<in>set rs. kv_get (jws_store s) (TokenHash r) = None"
  shows "core_inv L (fold put_token rs s)"
  using assms
proof (induction rs arbitrary: s)
  case Nil
  then show ?case by simp
next
  case (Cons r rs)
  have "TokenHash r' \<noteq> TokenHash r" if "r' \<in> set rs" for r'
    using Cons.prems(3) imageI [OF that, of TokenHash] by auto
  then have "\<forall>r'\<in>set rs. kv_get (jws_store (put_token r s)) (TokenHash r') = None"
    using Cons.prems(4) by simp
  then show ?case using Cons put_token_inv_fresh [OF Cons.prems(1)] by simp
qed

lemma put_icas_inv: "core_inv L s \<Longrightarrow> \<forall>c\<in>set cs. IcaAddress c \<noteq> '''' \<Longrightarrow> core_inv L (fold put_ica cs s)"
proof (induction cs arbitrary: s)
  case Nil
  then show ?case by simp
next
  case (Cons c cs)
  have "core_inv L (put_ica c s)"
    using Cons.prems set_kv_set_ok [of "ica_store s" "IcaAddress c" c]
    by (auto simp: core_inv_def put_ica_def GetChainConfig_def)
  then show ?case using Cons by simp
qed

lemma genesis_inv:
  assumes "genesis_accepted L g" and "distinct (map TokenHash (cg_JwsTokens g))"
  shows "core_inv L (genesis_state g)"
proof -
  let ?p = "core_init\<lparr>core_params := Some (cg_Params g)\<rparr>"
  have "core_inv L ?p"
    using assms(1) by (simp add: core_inv_def core_init_def index_ok_def index_entry_def genesis_accepted_def)
  then have "core_inv L (fold put_ica (cg_IcaConnections g) ?p)" (is "core_inv L ?i")
    using assms(1) by (intro put_icas_inv) (auto simp: genesis_accepted_def)
  then have "core_inv L (fold put_token (cg_JwsTokens g) ?i)" (is "core_inv L ?t")
    using assms by (intro put_tokens_inv)
      (auto simp: genesis_accepted_def fold_put_ica GetChainConfig_def core_init_def)
  moreover have "GetChainConfig ?t = DefaultChainConfig"
    by (simp add: fold_put_token fold_put_ica GetChainConfig_def core_init_def)
  ultimately show ?thesis
    by (fastforce simp: genesis_state_def core_inv_def token_accepted_def DefaultChainConfig_def split: if_splits)
qed

end

section \<open>Steps\<close>

context core_env
begin

lemma since_UpdateParams: "keeps (core_since L s0) (Core_UpdateParams L authority params)"
  unfolding Core_UpdateParams_def Core_SetParams_def thenM_def
  by (intro keeps_bindM keeps_guardM keeps_bind_liftE keeps_modifyM)
    (auto simp: core_since_def core_inv_def GetChainConfig_def)

lemma SetICAConnection_put:
  "SetICAConnection a b c d s = (x, t) \<Longrightarrow> t = s \<or> (\<exists>con. IcaAddress con = a \<and> a \<noteq> [] \<and> t = put_ica con s)"
  by (auto simp: SetICAConnection_def put_ica_def split: if_splits)
    (metis ICAConnection.select_convs(1))

lemma since_ChannelOpen: "keeps (core_since L s0) (HandleICAChannelOpen icaAddr clientOf clientState conn port)"
proof (rule keepsI)
  fix s x t
  assume *: "core_since L s0 s" "HandleICAChannelOpen icaAddr clientOf clientState conn port s = (x, t)"
  have "t = s \<or> (\<exists>c. kv_get (ica_store s) (IcaAddress c) = None \<and> IcaAddress c \<noteq> '''' \<and> t = put_ica c s)"
    using *(2) by (auto simp: HandleICAChannelOpen_def GetICAConnection_def split: option.splits if_splits
        dest: SetICAConnection_put)
  moreover have "core_since L s0 (put_ica c s)" if "kv_get (ica_store s) (IcaAddress c) = None" "IcaAddress c \<noteq> ''''" for c
    using *(1) put_icas_inv [of s "[c]"] that
    by (auto simp: core_since_def core_later_def put_ica_def GetICAConnection_def GetJWSToken_def)
  ultimately show "core_since L s0 t" using *(1) by blast
qed

lemma since_handle: "keeps (core_since L s0) (Core_handle L ctx msg)"
  by (cases msg) (simp_all add: since_InvalidateJWS since_UpdateParams)

lemma since_deliver: "keeps (core_since L s0) (thenM (liftE (checkE (Core_ValidateBasic L msg))) (Core_handle L ctx msg))"
  by (intro keeps_thenM keeps_liftE since_handle)

lemma since_step:
  assumes "core_step L ctx s t" and s: "core_since L s0 s"
  shows "core_since L s0 t"
  using assms(1)
proof cases
  case (core_tx msg r)
  show ?thesis by (rule cacheCtx_invariant [OF since_deliver s core_tx [unfolded Core_deliver_def]])
next
  case (core_token token did account iat exp r)
  show ?thesis by (rule cacheCtx_invariant [OF since_StoreOrUpdate s core_token])
next
  case (core_channel icaAddr clientOf clientState conn port r)
  show ?thesis by (rule cacheCtx_invariant [OF since_ChannelOpen s core_channel])
next
  case core_end
  show ?thesis by (rule keepsD_Inr [OF since_EndBlocker s core_end])
next
  case (core_other ev)
  then show ?thesis using s by simp
qed

lemma since_run: "core_run L cs s t \<Longrightarrow> core_since L s0 s \<Longrightarrow> core_since L s0 t"
  by (induction rule: core_run.induct) (auto intro: since_step)

lemma reachable_inv:
  assumes "core_reachable L g cs s" and "distinct (map TokenHash (cg_JwsTokens g))"
  shows "core_inv L s" and "chain_config s = Some (cg_ChainConfig g)" and "core_params s \<noteq> None"
proof -
  obtain s0 where s0: "Core_InitGenesis L g core_init = (Inr (), s0)" "core_run L cs s0 s"
    using assms(1) by (auto simp: core_reachable_def)
  then have g: "genesis_accepted L g" "s0 = genesis_state g" by (simp_all add: InitGenesis_Inr)
  have "core_since L s0 s"
    using since_run [OF s0(2), of s0] genesis_inv [OF g(1) assms(2)] by (simp add: core_since_def g(2))
  moreover have "chain_config s0 = Some (cg_ChainConfig g)" "core_params s0 \<noteq> None"
    by (simp_all add: g(2) genesis_state_def fold_put_token fold_put_ica)
  ultimately show "core_inv L s" "chain_config s = Some (cg_ChainConfig g)" "core_params s \<noteq> None"
    by (auto simp: core_since_def core_later_def)
qed

lemma lookup:
  assumes s: "core_inv L s" and d: "addr_ok d"
  shows "\<exists>rs. GetJWSTokensByDID ccd d s = Inr rs \<and> distinct rs \<and> set rs = {r \<in> set (GetAllJWSTokens s). IssuerDid r = d}"
    and "\<exists>rs. GetJWSTokensByAccount ccd d s = Inr rs \<and> distinct rs \<and> set rs = {r \<in> set (GetAllJWSTokens s). AuthorizedAccount r = d}"
proof -
  have ok: "TokenHash r = h \<and> addr_ok h \<and> addr_ok (IssuerDid r) \<and> (AuthorizedAccount r \<noteq> [] \<longrightarrow> addr_ok (AuthorizedAccount r))"
    if "(h, r) \<in> set (jws_store s)" for h r
    using s that by (auto simp: core_inv_def token_accepted_def split: if_splits)
  show "\<exists>rs. GetJWSTokensByDID ccd d s = Inr rs \<and> distinct rs \<and> set rs = {r \<in> set (GetAllJWSTokens s). IssuerDid r = d}"
    using by_did.lookup_exact [of "jws_did_store s" "jws_store s" d] s d ok
    by (simp add: GetJWSTokensByDID_def JWSTokenDIDPrefix_def prefix_lawsD(1) [OF prefixes d] JWSTokenByDIDKeyPrefix_def
        GetAllJWSTokens_def core_inv_def)
  show "\<exists>rs. GetJWSTokensByAccount ccd d s = Inr rs \<and> distinct rs \<and> set rs = {r \<in> set (GetAllJWSTokens s). AuthorizedAccount r = d}"
    using by_account.lookup_exact [of "jws_account_store s" "jws_store s" d] s d ok
    by (simp add: GetJWSTokensByAccount_def JWSTokenAccountPrefix_def prefix_lawsD(1) [OF prefixes d]
        JWSTokenByAccountKeyPrefix_def GetAllJWSTokens_def core_inv_def)
qed

lemma export_accepted:
  assumes s: "core_inv L s" and "core_params s \<noteq> None"
    and "\<forall>r\<in>set (GetAllJWSTokens s). AuthorizedAccount r \<noteq> []"
  shows "genesis_accepted L (Core_ExportGenesis s)"
proof -
  have "token_accepted ccd DefaultChainConfig r" if r: "r \<in> set (GetAllJWSTokens s)" for r
    using r assms(3) core_invD(2) [OF s, of "TokenHash r" r] all_tokens(2) [OF s, of r]
    by (simp add: token_accepted_def GetJWSToken_def)
  moreover have "IcaAddress c \<noteq> []" if "c \<in> set (GetAllICAConnections s)" for c
    using s that by (auto simp: core_inv_def GetAllICAConnections_def)
  moreover have "Core_Params_Validate L (Core_GetParams s) = None"
    using s assms(2) by (auto simp: core_inv_def Core_GetParams_def)
  ultimately show ?thesis by (simp add: genesis_accepted_def Core_ExportGenesis_def)
qed

lemma export_genesis_state:
  assumes s: "core_inv L s" and "core_params s \<noteq> None" and "chain_config s = Some cfg"
    and "\<forall>r\<in>set (GetAllJWSTokens s). AuthorizedAccount r \<noteq> []"
  shows "genesis_state (Core_ExportGenesis s) = s\<lparr>events := []\<rparr>"
proof -
  let ?g = "genesis_state (Core_ExportGenesis s)"
  have j: "jws_store ?g = jws_store s" and i: "ica_store ?g = ica_store s"
    using s fold_rebuild [of "jws_store s" TokenHash] fold_rebuild [of "ica_store s" IcaAddress]
    by (auto simp: genesis_state_def Core_ExportGenesis_def fold_put_token fold_put_ica core_init_def core_inv_def
        GetAllJWSTokens_def GetAllICAConnections_def)
  have "core_inv L ?g"
    using export_accepted [OF s assms(2,4)] all_tokens(1) [OF s]
    by (intro genesis_inv) (auto simp: Core_ExportGenesis_def)
  then have "jws_did_store ?g = jws_did_store s" "jws_account_store ?g = jws_account_store s"
    using s j by (auto simp: core_inv_def intro: index_ok_unique)
  moreover have "core_params ?g = core_params s" "chain_config ?g = chain_config s" "events ?g = []"
    using assms(2,3) by (auto simp: genesis_state_def Core_ExportGenesis_def fold_put_token fold_put_ica core_init_def
        Core_GetParams_def GetChainConfig_def)
  ultimately show ?thesis using i j by simp
qed

end

section \<open>Properties\<close>

lemma later_invalid:
  "core_later s t \<Longrightarrow> GetJWSToken h s = Some r \<Longrightarrow> Status r = STATUS_INVALID \<Longrightarrow> GetJWSToken h t = Some r"
  by (auto simp: core_later_def tok_later_def)

lemma core_envI: "prefix_laws (core_codec L) \<Longrightarrow> time_laws (core_codec L) \<Longrightarrow> address_laws (core_codec L) \<Longrightarrow> core_env L"
  by (simp add: core_env_def codec_spec_def)

text \<open>C13: In every state reached from a genesis file with distinct token hashes, the tokens that the module
  returns for an issuer are exactly the stored tokens of that issuer, each once, and likewise for an account.\<close>

theorem token_lookup_exact:
  assumes "prefix_laws (core_codec L)" and "time_laws (core_codec L)" and "address_laws (core_codec L)"
    and "core_reachable L g cs s" and "distinct (map TokenHash (cg_JwsTokens g))" and "addr_ok d"
  shows "(\<exists>rs. GetJWSTokensByDID (core_codec L) d s = Inr rs \<and> distinct rs \<and>
            set rs = {r \<in> set (GetAllJWSTokens s). IssuerDid r = d}) \<and>
         (\<exists>rs. GetJWSTokensByAccount (core_codec L) d s = Inr rs \<and> distinct rs \<and>
            set rs = {r \<in> set (GetAllJWSTokens s). AuthorizedAccount r = d})"
  using core_env.lookup [OF core_envI [OF assms(1-3)] core_env.reachable_inv(1) [OF core_envI [OF assms(1-3)] assms(4,5)] assms(6)]
  by simp

text \<open>C6: Tokens are permanent and revocation is final. Along every run a stored token keeps its place, its
  issuer, account and validity period; once it is invalid its record never changes again and every bearer
  token with its hash is refused. An interchain account keeps its controller, and the chain configuration
  never changes.\<close>

theorem revocation_final:
  assumes "prefix_laws (core_codec L)" and "time_laws (core_codec L)" and "address_laws (core_codec L)"
    and "core_reachable L g cs s" and "distinct (map TokenHash (cg_JwsTokens g))" and "core_run L cs' s t"
  shows "chain_config t = chain_config s \<and>
    (\<forall>a c. GetICAConnection a s = Some c \<longrightarrow> GetICAConnection a t = Some c) \<and>
    (\<forall>h r. GetJWSToken h s = Some r \<longrightarrow>
      (\<exists>r'. GetJWSToken h t = Some r' \<and> tok_later r r') \<and>
      (Status r = STATUS_INVALID \<longrightarrow> GetJWSToken h t = Some r \<and>
        (\<forall>token ctx did account iat exp. HashJWSToken L token = h \<longrightarrow>
           StoreOrUpdateJWSToken L (ctx :: sdk_ctx) token did account iat exp t = (Inl ErrJWSTokenInvalid, t))))"
proof -
  note env = core_envI [OF assms(1-3)]
  have l: "core_later s t"
    using core_env.since_run [OF env assms(6), of s] core_env.reachable_inv(1) [OF env assms(4,5)]
    by (simp add: core_since_def)
  have "GetJWSToken h t = Some r \<and>
      (\<forall>token ctx did account iat exp. HashJWSToken L token = h \<longrightarrow>
         StoreOrUpdateJWSToken L (ctx :: sdk_ctx) token did account iat exp t = (Inl ErrJWSTokenInvalid, t))"
    if "GetJWSToken h s = Some r" "Status r = STATUS_INVALID" for h r
    using later_invalid [OF l that] that(2) by (auto simp: StoreOrUpdateJWSToken_def)
  then show ?thesis using l unfolding core_later_def by blast
qed

text \<open>C23: The end of a block marks invalid exactly the tokens that have an expiry at or before the block time
  and are not invalid yet; it changes nothing else and never fails.\<close>

theorem end_block_expires:
  assumes "prefix_laws (core_codec L)" and "time_laws (core_codec L)" and "address_laws (core_codec L)"
    and "core_reachable L g cs s" and "distinct (map TokenHash (cg_JwsTokens g))" and "time_ok (BlockTime ctx)"
  shows "Core_EndBlocker (core_codec L) ctx s =
    (Inr (), s\<lparr>jws_store := map (\<lambda>(h, r). (h,
       if Status r \<noteq> STATUS_INVALID \<and> jws_ExpiresAt r \<noteq> zero_time \<and> jws_ExpiresAt r \<le> BlockTime ctx
       then r\<lparr>Status := STATUS_INVALID, InvalidatedAt := Some (BlockTime ctx)\<rparr> else r)) (jws_store s)\<rparr>)"
proof -
  note env = core_envI [OF assms(1-3)]
  show ?thesis
    using core_env.EndBlocker_exact [OF env core_env.reachable_inv(1) [OF env assms(4,5)] assms(6)]
    by (simp add: case_prod_beta expire_def tokenExpired_def not_less)
qed

text \<open>C24: The export of a reached state in which every token has an account is accepted as a genesis file and
  gives the same state again, events apart.\<close>

theorem core_genesis_round_trip:
  assumes "prefix_laws (core_codec L)" and "time_laws (core_codec L)" and "address_laws (core_codec L)"
    and "core_reachable L g cs s" and "distinct (map TokenHash (cg_JwsTokens g))"
    and "\<forall>r\<in>set (GetAllJWSTokens s). AuthorizedAccount r \<noteq> []"
  shows "Core_InitGenesis L (Core_ExportGenesis s) core_init = (Inr (), s\<lparr>events := []\<rparr>)"
proof -
  note env = core_envI [OF assms(1-3)]
  note r = core_env.reachable_inv [OF env assms(4,5)]
  show ?thesis
    unfolding core_env.InitGenesis_Inr [OF env]
    using core_env.export_genesis_state [OF env r(1,3,2) assms(6)] core_env.export_accepted [OF env r(1,3) assms(6)] by simp
qed

text \<open>C38: A chain that ignores bearer authorization stores tokens without an account, but its export is no
  genesis file: the import checks the tokens before it has set the chain configuration, and panics.\<close>

theorem export_not_importable:
  assumes "prefix_laws (core_codec L)" and "time_laws (core_codec L)" and "address_laws (core_codec L)"
    and "core_reachable L g cs s" and "distinct (map TokenHash (cg_JwsTokens g))"
    and "r \<in> set (GetAllJWSTokens s)" and "AuthorizedAccount r = []"
  shows "IgnoreBearerAuth (cg_ChainConfig g) \<and>
    (\<exists>p t. Core_InitGenesis L (Core_ExportGenesis s) core_init = (Inl (Panic p), t))"
proof -
  note env = core_envI [OF assms(1-3)]
  have "\<not> genesis_accepted L (Core_ExportGenesis s)"
    using assms(6,7) by (force simp: genesis_accepted_def Core_ExportGenesis_def token_accepted_def DefaultChainConfig_def)
  moreover obtain x t where run: "Core_InitGenesis L (Core_ExportGenesis s) core_init = (x, t)" by fastforce
  ultimately obtain e where "x = Inl e"
    using core_env.InitGenesis_Inr [OF env, of "Core_ExportGenesis s" t] by (cases x) auto
  then have "\<exists>p t. Core_InitGenesis L (Core_ExportGenesis s) core_init = (Inl (Panic p), t)"
    using InitGenesis_Inl run by blast
  then show ?thesis
    using core_env.reachable_inv [OF env assms(4,5)] assms(6,7)
    by (auto simp: core_inv_def GetAllJWSTokens_def token_accepted_def GetChainConfig_def)
qed

section \<open>Witnesses\<close>

definition core_demo_lib :: core_lib where
  "core_demo_lib = \<lparr>core_codec = std_codec, core_Sha256 = (\<lambda>b. b), core_authority = ''gov'',
     GetFromBech32 = (\<lambda>a p. Inr a), VerifyAddressFormat = (\<lambda>_. None)\<rparr>"

definition core_demo_ctx :: "time \<Rightarrow> sdk_ctx" where
  "core_demo_ctx t = \<lparr>BlockTime = t, BlockHeight = 1, ExtractedDID = ''''\<rparr>"

definition core_demo_genesis :: CoreGenesis where
  "core_demo_genesis = Core_DefaultGenesis\<lparr>cg_ChainConfig := DefaultChainConfig\<lparr>IgnoreBearerAuth := True\<rparr>\<rparr>"

definition core_demo_token :: "string \<Rightarrow> JWSTokenRecord" where
  "core_demo_token account =
     \<lparr>TokenHash = ''7431'', BearerToken = ''t1'', IssuerDid = ''did:a'', AuthorizedAccount = account, IssuedAt = 1,
      jws_ExpiresAt = 100, Status = STATUS_VALID, FirstUsedAt = Some 5, LastUsedAt = Some 5, InvalidatedAt = None,
      InvalidatedBy = ''''\<rparr>"

definition core_demo_state :: "string \<Rightarrow> core_state" where
  "core_demo_state account = put_token (core_demo_token account) (genesis_state core_demo_genesis)"

lemma core_demo_laws:
  "prefix_laws (core_codec core_demo_lib)" "time_laws (core_codec core_demo_lib)" "address_laws (core_codec core_demo_lib)"
  by (simp_all add: core_demo_lib_def std_prefix_laws std_time_laws std_address_laws)

interpretation demo_core: core_env core_demo_lib
  by (rule core_envI [OF core_demo_laws])

lemma core_demo_config: "GetChainConfig (genesis_state core_demo_genesis) = DefaultChainConfig\<lparr>IgnoreBearerAuth := True\<rparr>"
  "jws_store (genesis_state core_demo_genesis) = []" "cg_JwsTokens core_demo_genesis = []"
  by (simp_all add: genesis_state_def core_demo_genesis_def Core_DefaultGenesis_def GetChainConfig_def core_init_def)

lemma core_demo_hash: "HashJWSToken core_demo_lib ''t1'' = ''7431''"
proof -
  have "hex_EncodeToString ''t1'' = ''7431''" by code_simp
  then show ?thesis by (simp add: HashJWSToken_def core_demo_lib_def)
qed

lemma core_demo_token_run:
  assumes "account = [] \<or> account = ''accalice''"
  shows "StoreOrUpdateJWSToken core_demo_lib (core_demo_ctx 5) ''t1'' ''did:a'' account 1 100 (genesis_state core_demo_genesis)
     = (Inr (), core_demo_state account)"
proof -
  have "StoreOrUpdateJWSToken core_demo_lib (core_demo_ctx 5) ''t1'' ''did:a'' account 1 100 (genesis_state core_demo_genesis)
      = SetJWSToken (core_codec core_demo_lib) (core_demo_token account) (genesis_state core_demo_genesis)"
    by (simp add: StoreOrUpdateJWSToken_def GetJWSToken_def core_demo_config core_demo_ctx_def core_demo_token_def core_demo_hash Let_def)
  moreover have "token_accepted (core_codec core_demo_lib) (GetChainConfig (genesis_state core_demo_genesis)) (core_demo_token account)"
    using assms by (auto simp: token_accepted_def core_demo_token_def marshalRecord_None [OF core_demo_laws(2)] core_demo_config
        addr_ok_def time_ok_def zero_time_def max_time_def) (simp add: core_demo_lib_def std_codec_def addr_ok_def)
  ultimately show ?thesis
    using demo_core.SetJWSToken_ok [of "genesis_state core_demo_genesis" "core_demo_token account"]
    by (simp add: core_demo_state_def)
qed

lemma core_demo_reachable:
  assumes "account = [] \<or> account = ''accalice''"
  shows "core_reachable core_demo_lib core_demo_genesis [core_demo_ctx 5] (core_demo_state account)"
proof -
  have "genesis_accepted core_demo_lib core_demo_genesis"
    by (simp add: genesis_accepted_def core_demo_genesis_def Core_DefaultGenesis_def Core_Params_Validate_def)
  moreover have "core_step core_demo_lib (core_demo_ctx 5) (genesis_state core_demo_genesis) (core_demo_state account)"
    by (rule core_token [where token = "''t1''" and did = "''did:a''" and account = account and iat = 1 and exp = 100
        and r = "Inr ()"]) (simp add: cacheCtx_def core_demo_token_run [OF assms])
  then have "core_run core_demo_lib ([] @ [core_demo_ctx 5]) (genesis_state core_demo_genesis) (core_demo_state account)"
    by (rule core_run_snoc [OF core_run_nil])
  ultimately show ?thesis unfolding core_reachable_def demo_core.InitGenesis_Inr by auto
qed

lemma core_demo_tokens: "GetAllJWSTokens (core_demo_state account) = [core_demo_token account]"
  by (simp add: GetAllJWSTokens_def core_demo_state_def core_demo_config)

lemma core_demo_distinct: "distinct (map TokenHash (cg_JwsTokens core_demo_genesis))"
  by (simp add: core_demo_config)

theorem token_lookup_exact_witness:
  "\<exists>rs. GetJWSTokensByDID (core_codec core_demo_lib) ''did:a'' (core_demo_state []) = Inr rs \<and> set rs = {core_demo_token []}"
proof -
  have "{r \<in> set (GetAllJWSTokens (core_demo_state [])). IssuerDid r = ''did:a''} = {core_demo_token []}"
    by (auto simp: core_demo_tokens) (simp add: core_demo_token_def)
  moreover have "addr_ok ''did:a''" by (simp add: addr_ok_def)
  ultimately show ?thesis
    using token_lookup_exact [OF core_demo_laws core_demo_reachable core_demo_distinct, of "[]" "''did:a''"] by fastforce
qed

theorem end_block_expires_witness:
  "\<exists>t. Core_EndBlocker (core_codec core_demo_lib) (core_demo_ctx 100) (core_demo_state []) = (Inr (), t) \<and>
     GetAllJWSTokens t = [(core_demo_token [])\<lparr>Status := STATUS_INVALID, InvalidatedAt := Some 100\<rparr>]"
  using end_block_expires [OF core_demo_laws core_demo_reachable core_demo_distinct, of "[]" "core_demo_ctx 100"]
  by (simp add: core_demo_ctx_def time_ok_def zero_time_def max_time_def core_demo_state_def core_demo_config
      GetAllJWSTokens_def core_demo_token_def)

theorem core_genesis_round_trip_witness:
  "Core_InitGenesis core_demo_lib (Core_ExportGenesis (core_demo_state ''accalice'')) core_init
     = (Inr (), (core_demo_state ''accalice'')\<lparr>events := []\<rparr>)"
  by (rule core_genesis_round_trip [OF core_demo_laws core_demo_reachable core_demo_distinct])
    (simp_all add: core_demo_tokens core_demo_token_def)

theorem export_not_importable_witness:
  "\<exists>p t. Core_InitGenesis core_demo_lib (Core_ExportGenesis (core_demo_state [])) core_init = (Inl (Panic p), t)"
  using export_not_importable [OF core_demo_laws core_demo_reachable core_demo_distinct, of "[]" "core_demo_token []"]
  by (simp add: core_demo_tokens core_demo_token_def)

definition core_demo_expired :: core_state where
  "core_demo_expired = snd (Core_EndBlocker (core_codec core_demo_lib) (core_demo_ctx 100) (core_demo_state []))"

lemma core_demo_expired_step: "core_step core_demo_lib (core_demo_ctx 100) (core_demo_state []) core_demo_expired"
  and core_demo_expired_token: "GetJWSToken ''7431'' core_demo_expired =
    Some ((core_demo_token [])\<lparr>Status := STATUS_INVALID, InvalidatedAt := Some 100\<rparr>)"
proof -
  have "core_inv core_demo_lib (core_demo_state [])"
    by (rule demo_core.reachable_inv(1) [OF core_demo_reachable core_demo_distinct]) simp
  from demo_core.EndBlocker_exact [OF this, of "core_demo_ctx 100"]
  have *: "Core_EndBlocker (core_codec core_demo_lib) (core_demo_ctx 100) (core_demo_state []) =
      (Inr (), (core_demo_state [])\<lparr>jws_store := [(''7431'', expire 100 (core_demo_token []))]\<rparr>)"
    by (simp add: core_demo_ctx_def time_ok_def zero_time_def max_time_def core_demo_state_def core_demo_config
        core_demo_token_def)
  then show "core_step core_demo_lib (core_demo_ctx 100) (core_demo_state []) core_demo_expired"
    by (intro core_end) (simp add: core_demo_expired_def)
  show "GetJWSToken ''7431'' core_demo_expired =
      Some ((core_demo_token [])\<lparr>Status := STATUS_INVALID, InvalidatedAt := Some 100\<rparr>)"
    by (simp add: core_demo_expired_def * GetJWSToken_def expire_def tokenExpired_def core_demo_token_def zero_time_def)
qed

theorem revocation_final_witness:
  "GetJWSToken ''7431'' core_demo_expired = Some ((core_demo_token [])\<lparr>Status := STATUS_INVALID, InvalidatedAt := Some 100\<rparr>) \<and>
   StoreOrUpdateJWSToken core_demo_lib (core_demo_ctx 6) ''t1'' ''did:a'' [] 1 100 core_demo_expired
     = (Inl ErrJWSTokenInvalid, core_demo_expired)"
proof -
  obtain s0 where "Core_InitGenesis core_demo_lib core_demo_genesis core_init = (Inr (), s0)"
    "core_run core_demo_lib [core_demo_ctx 5] s0 (core_demo_state [])"
    using core_demo_reachable [of "[]"] by (auto simp: core_reachable_def)
  then have "core_reachable core_demo_lib core_demo_genesis ([core_demo_ctx 5] @ [core_demo_ctx 100]) core_demo_expired"
    using core_run_snoc [OF _ core_demo_expired_step] unfolding core_reachable_def by blast
  from revocation_final [OF core_demo_laws this core_demo_distinct core_run_nil]
  have "HashJWSToken core_demo_lib ''t1'' = ''7431'' \<Longrightarrow>
      StoreOrUpdateJWSToken core_demo_lib (core_demo_ctx 6) ''t1'' ''did:a'' [] 1 100 core_demo_expired
        = (Inl ErrJWSTokenInvalid, core_demo_expired)"
    using core_demo_expired_token by simp
  then show ?thesis using core_demo_expired_token core_demo_hash by simp
qed

end
