(* ===== verification/Ante_Props.thy ===== *)
theory Ante_Props
  imports Ante_Handler Core_Props
begin

text \<open>
  Properties of the ante handler: what an accepted bearer token guarantees, who pays the fee, the minimum fee,
  and that a revoked token is accepted again with a space in front of it.
\<close>

section \<open>Running the decorators\<close>

lemma coreM_Inr_iff: "coreM m s = (Inr x, t) \<longleftrightarrow> (\<exists>c. m (ante_core s) = (Inr x, c) \<and> t = s\<lparr>ante_core := c\<rparr>)"
  by (cases "m (ante_core s)") (auto simp: coreM_def)

lemma fgM_Inr_iff: "fgM m s = (Inr x, t) \<longleftrightarrow> (\<exists>f. m (ante_fg s) = (Inr x, f) \<and> t = s\<lparr>ante_fg := f\<rparr>)"
  by (cases "m (ante_fg s)") (auto simp: fgM_def)

lemma wrapAs_Inr [simp]: "wrapAs e r = Inr x \<longleftrightarrow> r = Inr x"
  by (auto simp: wrapAs_def split: sum.splits)

lemma checkCreators_None: "checkCreators account msgs = None \<longleftrightarrow> (\<forall>msg\<in>set msgs. GetCreator msg = Some account \<and> account \<noteq> [])"
  by (induction msgs) (auto simp: creatorOf_def split: option.splits)

lemmas run_iff = bindM_Inr_iff thenM_Inr_iff tryM_Inr_iff coreM_Inr_iff fgM_Inr_iff bindE_Inr_iff

lemma recordToken_Inr:
  "recordToken A ctx False bearer did account token s = (Inr (), t) \<longleftrightarrow>
     (\<exists>c. StoreOrUpdateJWSToken (a_core A) ctx bearer did account (timeUnix (IssuedTime token)) (timeUnix (ExpirationTime token))
        (ante_core s) = (Inr (), c) \<and> t = s\<lparr>ante_core := c\<rparr>)"
  by (auto simp: recordToken_def bindM_def tryM_def coreM_def split: prod.splits sum.splits if_splits)

text \<open>A token that the registry lets pass is valid afterwards.\<close>

lemma SetJWSToken_stored: "SetJWSToken cd r s = (Inr (), t) \<Longrightarrow> jws_store t = kv_set (TokenHash r) r (jws_store s)"
  by (auto simp: SetJWSToken_def run_iff split: if_splits sum.splits)

lemma StoreOrUpdate_valid:
  assumes "StoreOrUpdateJWSToken L ctx token did account iat exp s = (Inr (), t)"
  shows "\<exists>r. GetJWSToken (HashJWSToken L token) t = Some r \<and> Status r = STATUS_VALID"
proof (cases "GetJWSToken (HashJWSToken L token) s")
  case None
  then show ?thesis
    using assms by (auto simp: StoreOrUpdateJWSToken_def Let_def GetJWSToken_def split: if_splits dest!: SetJWSToken_stored)
next
  case (Some r)
  then show ?thesis
    using assms
    by (auto simp: StoreOrUpdateJWSToken_def RecordJWSTokenUsage_def theToken_def Let_def GetJWSToken_def run_iff
        split: if_splits option.splits dest!: SetJWSToken_stored)
qed

lemma validateRelay_Inr:
  "validateRelay A tx s = Inr g \<Longrightarrow> g \<noteq> [] \<Longrightarrow>
   IgnoreBearerAuth (GetChainConfig s) \<and>
   (\<exists>granter. FeeGranter tx = Some granter \<and> granter \<noteq> [] \<and> g = AccString (core_codec (a_core A)) granter \<and>
      (AllowAnyRelay (GetChainConfig s) \<or> g \<in> set (TrustedRelayFeeGranters (Core_GetParams s)))) \<and>
   (\<forall>msg\<in>set (GetMsgs tx). GetCreator msg = Some (AccString (core_codec (a_core A)) (FeePayer tx)))"
  by (auto simp: validateRelay_def Let_def run_iff checkCreators_None IsTrustedRelayFeeGranter_def list_ex_iff
      split: if_splits option.splits list.splits)

definition signedBy :: "('x, 'k) ante_lib \<Rightarrow> string \<Rightarrow> BearerToken \<Rightarrow> bool" where
  "signedBy A jws token \<longleftrightarrow>
     (\<exists>payload pub kt pk alg key. ParseSigned A jws = Inr payload \<and> unmarshalJWSPayload A payload = Inr token \<and>
        DIDDecode (a_did A) (IssuerID token) = Inr (pub, kt) \<and> BytesToPubKey A pub kt = Inr pk \<and>
        verifyKey A pk = Inr (alg, key) \<and> jws_Verify A jws alg key = None)"

lemma parseValidateJWS_Inr:
  "parseValidateJWS A bearer relay = Inr token \<Longrightarrow>
   signedBy A (TrimLeft bearer) token \<and> validateBearerTokenValues A token relay = None"
  by (fastforce simp: parseValidateJWS_def signedBy_def Let_def run_iff split: if_splits)

lemma processJWS_Inr:
  assumes "processJWS A ctx tx False bearer s = (Inr ctx', t)"
  obtains relay did account token where
    "validateRelay A tx (ante_core s) = Inr relay"
    "validateJWSExtension A bearer (BlockTime ctx) (relay \<noteq> []) = Inr (did, account)"
    "parseValidateJWS A bearer (relay \<noteq> []) = Inr token"
    "recordToken A ctx False bearer did account token s = (Inr (), t)" "GetMsgs tx \<noteq> []"
    "relay = [] \<longrightarrow> checkCreators account (GetMsgs tx) = None"
    "ctx' = (if relay \<noteq> [] then ctx\<lparr>ExtractedDID := did, TrustedRelayFeeGranter := relay\<rparr> else ctx\<lparr>ExtractedDID := did\<rparr>)"
  using assms by (auto simp: processJWS_def Let_def run_iff split: if_splits)

lemma validateJWSExtension_Inr:
  assumes "validateJWSExtension A bearer now relay = Inr (did, account)" and "parseValidateJWS A bearer relay = Inr token"
  shows "now div 10 ^ 9 \<le> ExpirationTime token" and "account = bt_AuthorizedAccount token"
    and "bt_ProviderToken token = [] \<Longrightarrow> did = IssuerID token"
    and "bt_ProviderToken token \<noteq> [] \<Longrightarrow>
      \<exists>p. json_ProviderToken A (bt_ProviderToken token) = Inr p \<and> did = ActorDID p \<and> did \<noteq> []"
  using assms
  by (auto simp: validateJWSExtension_def validateBearerToken_def run_iff validateProviderToken_def Let_def split: if_splits)

lemma validateBearerTokenValues_direct:
  "validateBearerTokenValues A token False = None \<Longrightarrow>
   bt_ProviderToken token = [] \<and> IsValidVeraAddr (a_core A) (bt_AuthorizedAccount token) = None"
  by (auto simp: validateBearerTokenValues_def split: if_splits)

text \<open>What the handler does to the registry is the token step of the core module.\<close>

lemma extension_core_step:
  assumes "ExtensionOptions_AnteHandle A ctx tx False s = (Inr ctx', t)"
  shows "ante_core t = ante_core s \<or> core_step (a_core A) ctx (ante_core s) (ante_core t)"
proof (cases "\<exists>bearer. GetExtensionOptions tx = Some [JWSExtensionOption bearer]")
  case True
  then obtain bearer where "processJWS A ctx tx False bearer s = (Inr ctx', t)"
    using assms by (auto simp: ExtensionOptions_AnteHandle_def)
  then obtain did account token where "recordToken A ctx False bearer did account token s = (Inr (), t)"
    by (rule processJWS_Inr)
  then obtain c where "StoreOrUpdateJWSToken (a_core A) ctx bearer did account (timeUnix (IssuedTime token))
      (timeUnix (ExpirationTime token)) (ante_core s) = (Inr (), c)" "t = s\<lparr>ante_core := c\<rparr>"
    by (auto simp: recordToken_Inr)
  then have "cacheCtx (StoreOrUpdateJWSToken (a_core A) ctx bearer did account (timeUnix (IssuedTime token))
      (timeUnix (ExpirationTime token))) (ante_core s) = (Inr (), ante_core t)"
    by (simp add: cacheCtx_def)
  then show ?thesis by (blast intro: core_token)
next
  case False
  then show ?thesis
    using assms by (auto simp: ExtensionOptions_AnteHandle_def split: option.splits list.splits ExtOption.splits)
qed

section \<open>Properties\<close>

text \<open>C8: A bearer token that the ante handler accepts is signed by its issuer, not expired and registered as
  valid, and the transaction has messages. Without a relay the transaction acts for the issuer and every
  message is from the account that the token authorizes. With a relay, the chain ignores bearer
  authorization, the fee granter is a trusted one (or any is allowed), every message is from the fee payer,
  and the transaction acts for the actor of the provider token when there is one.\<close>

theorem bearer_token_checked:
  assumes "ExtensionOptions_AnteHandle A ctx tx False s = (Inr ctx', t)"
    and "GetExtensionOptions tx = Some [JWSExtensionOption bearer]"
  shows "\<exists>token relay. validateRelay A tx (ante_core s) = Inr relay \<and>
    signedBy A (TrimLeft bearer) token \<and> BlockTime ctx div 10 ^ 9 \<le> ExpirationTime token \<and>
    (\<exists>r. GetJWSToken (HashJWSToken (a_core A) bearer) (ante_core t) = Some r \<and> Status r = STATUS_VALID) \<and>
    GetMsgs tx \<noteq> [] \<and> ante_fg t = ante_fg s \<and>
    (if relay = [] then
       ExtractedDID ctx' = IssuerID token \<and> TrustedRelayFeeGranter ctx' = TrustedRelayFeeGranter ctx \<and>
       IsValidVeraAddr (a_core A) (bt_AuthorizedAccount token) = None \<and>
       (\<forall>msg\<in>set (GetMsgs tx). GetCreator msg = Some (bt_AuthorizedAccount token))
     else
       IgnoreBearerAuth (GetChainConfig (ante_core s)) \<and> TrustedRelayFeeGranter ctx' = relay \<and>
       (\<exists>granter. FeeGranter tx = Some granter \<and> relay = AccString (core_codec (a_core A)) granter) \<and>
       (AllowAnyRelay (GetChainConfig (ante_core s)) \<or>
          relay \<in> set (TrustedRelayFeeGranters (Core_GetParams (ante_core s)))) \<and>
       (\<forall>msg\<in>set (GetMsgs tx). GetCreator msg = Some (AccString (core_codec (a_core A)) (FeePayer tx))) \<and>
       (if bt_ProviderToken token = [] then ExtractedDID ctx' = IssuerID token
        else \<exists>p. json_ProviderToken A (bt_ProviderToken token) = Inr p \<and> ExtractedDID ctx' = ActorDID p))"
proof -
  have "processJWS A ctx tx False bearer s = (Inr ctx', t)"
    using assms by (simp add: ExtensionOptions_AnteHandle_def)
  then obtain relay did account token where
    v: "validateRelay A tx (ante_core s) = Inr relay"
      "validateJWSExtension A bearer (BlockTime ctx) (relay \<noteq> []) = Inr (did, account)"
      "parseValidateJWS A bearer (relay \<noteq> []) = Inr token"
      "recordToken A ctx False bearer did account token s = (Inr (), t)" "GetMsgs tx \<noteq> []"
      "relay = [] \<longrightarrow> checkCreators account (GetMsgs tx) = None"
      "ctx' = (if relay \<noteq> [] then ctx\<lparr>ExtractedDID := did, TrustedRelayFeeGranter := relay\<rparr> else ctx\<lparr>ExtractedDID := did\<rparr>)"
    by (rule processJWS_Inr)
  note p = parseValidateJWS_Inr [OF v(3)] and e = validateJWSExtension_Inr [OF v(2,3)]
  obtain c where c: "StoreOrUpdateJWSToken (a_core A) ctx bearer did account (timeUnix (IssuedTime token))
      (timeUnix (ExpirationTime token)) (ante_core s) = (Inr (), c)" "t = s\<lparr>ante_core := c\<rparr>"
    using v(4) by (auto simp: recordToken_Inr)
  have base: "signedBy A (TrimLeft bearer) token" "BlockTime ctx div 10 ^ 9 \<le> ExpirationTime token"
    "\<exists>r. GetJWSToken (HashJWSToken (a_core A) bearer) (ante_core t) = Some r \<and> Status r = STATUS_VALID"
    "ante_fg t = ante_fg s"
    using p e(1) StoreOrUpdate_valid [OF c(1)] c(2) by auto
  show ?thesis
  proof (cases "relay = []")
    case True
    then have "bt_ProviderToken token = []" "IsValidVeraAddr (a_core A) (bt_AuthorizedAccount token) = None"
      using validateBearerTokenValues_direct p by auto
    then show ?thesis
      using base v(1,5) v(6) v(7) e True by (intro exI [of _ token] exI [of _ relay]) (auto simp: checkCreators_None)
  next
    case False
    show ?thesis
      using base v(1,5,7) e False validateRelay_Inr [OF v(1) False]
      by (intro exI [of _ token] exI [of _ relay]) auto
  qed
qed

text \<open>What a method returns, whatever the state.\<close>

definition gives :: "('a \<Rightarrow> bool) \<Rightarrow> ('s, 'a) M \<Rightarrow> bool" where
  "gives P m \<longleftrightarrow> (\<forall>s x t. m s = (Inr x, t) \<longrightarrow> P x)"

lemma gives_rules:
  "(\<And>x. gives P (f x)) \<Longrightarrow> gives P (bindM m f)"
  "gives P k \<Longrightarrow> gives P (thenM n k)"
  "P x \<Longrightarrow> gives P (ret x)" "gives P (fail e)"
  by (fastforce simp: gives_def run_iff)+

lemma gives_mono: "gives P m \<Longrightarrow> (\<And>x. P x \<Longrightarrow> Q x) \<Longrightarrow> gives Q m"
  by (auto simp: gives_def)

lemma gives_try_liftE:
  "(\<And>e. gives P (g e)) \<Longrightarrow> (\<And>x. r = Inr x \<Longrightarrow> gives P (f x)) \<Longrightarrow>
   gives P (bindM (tryM (liftE r)) (\<lambda>y. case y of Inl e \<Rightarrow> g e | Inr x \<Rightarrow> f x))"
  by (cases r) (auto simp: gives_def run_iff)

lemma gives_splits:
  "(b \<Longrightarrow> gives P m) \<Longrightarrow> (\<not> b \<Longrightarrow> gives P k) \<Longrightarrow> gives P (if b then m else k)"
  "gives P m \<Longrightarrow> (\<And>y. gives P (f y)) \<Longrightarrow> gives P (case v of None \<Rightarrow> m | Some y \<Rightarrow> f y)"
  "(\<And>e. gives P (h e)) \<Longrightarrow> (\<And>y. gives P (g y)) \<Longrightarrow> gives P (case z of Inl e \<Rightarrow> h e | Inr y \<Rightarrow> g y)"
  "(\<And>a b. gives P (j a b)) \<Longrightarrow> gives P (case p of (a, b) \<Rightarrow> j a b)"
  by (auto split: option.splits sum.splits prod.splits)

lemma use_first_gives:
  "gives (\<lambda>a. \<exists>g\<in>set gs. AccFromBech32 cd (DIDGranter g) = Inr a) (use_first cd co ctx did fee msgs gs)"
proof (induction gs)
  case Nil
  show ?case by (simp add: gives_def)
next
  case (Cons g gs)
  show ?case
    unfolding use_first.simps Let_def
    by (rule gives_try_liftE) (auto intro!: gives_mono [OF Cons] gives_rules gives_splits)
qed

lemma did_ops_frame:
  "keeps (\<lambda>s. fg_allowances s = X) (revokeDIDAllowance cd granter did)"
  "keeps (\<lambda>s. fg_allowances s = X) (UpdateDIDAllowance cd granter did a)"
  "keeps (\<lambda>s. fg_allowances s = X) (acceptM cd co ctx fee msgs a)"
  unfolding revokeDIDAllowance_def UpdateDIDAllowance_def acceptM_def delDIDGrant_def delDIDQueue_def setDIDGrant_def
    addToDIDFeeAllowanceQueue_def
  by (auto intro!: keeps_rules keeps_modifyM keeps_EmitEvent keepsI [of _ "readM _"])

lemma use_first_frame: "keeps (\<lambda>s. fg_allowances s = X) (use_first cd co ctx did fee msgs gs)"
  by (induction gs) (auto simp: Let_def intro!: keeps_rules keeps_EmitEvent did_ops_frame)

lemma UseFirst_frame: "keeps (\<lambda>s. fg_allowances s = X) (UseFirstAvailableDIDGrant cd co ctx did fee msgs)"
  unfolding UseFirstAvailableDIDGrant_def by (intro keeps_bindM keeps_liftE keeps_getM use_first_frame)

lemma GetAllowance_cong: "fg_allowances s = fg_allowances t \<Longrightarrow> GetAllowance cd g p s = GetAllowance cd g p t"
  by (simp add: GetAllowance_def getGrant_def)

lemma UseGrantedFees_allowance:
  "UseGrantedFees cd co ctx g p fee msgs s = (Inr x, t) \<Longrightarrow> \<exists>a. GetAllowance cd g p s = Inr a"
  by (auto simp: UseGrantedFees_def run_iff)

lemma standardFeegrant_Inr:
  "standardFeegrant A ctx granter payer fees msgs s = (Inr a, t) \<Longrightarrow>
   a = payer \<or> granter = Some a \<and> (\<exists>al. GetAllowance (core_codec (a_core A)) a payer (ante_fg s) = Inr al)"
  by (auto simp: standardFeegrant_def useGrantedFees_def run_iff split: option.splits if_splits dest!: UseGrantedFees_allowance)

text \<open>C7: The account that pays a fee is the fee payer, or the fee granter of the transaction with an allowance
  for the payer in the store, or the granter of a stored allowance for the DID of the transaction. For a
  relayed transaction it is the trusted fee granter, who is not the payer and has given it an allowance.\<close>

theorem fee_account_authorized:
  assumes run: "handleFeegrant A ctx granter payer fees msgs s = (Inr a, t)"
  shows "if TrustedRelayFeeGranter ctx \<noteq> [] then
      granter = Some a \<and> AccString (core_codec (a_core A)) a = TrustedRelayFeeGranter ctx \<and> a \<noteq> payer \<and>
      (\<exists>al. GetAllowance (core_codec (a_core A)) a payer (ante_fg s) = Inr al)
    else
      a = payer \<or> granter = Some a \<and> (\<exists>al. GetAllowance (core_codec (a_core A)) a payer (ante_fg s) = Inr al) \<or>
      ExtractedDID ctx \<noteq> [] \<and>
      (\<exists>pre k g. FeeAllowancePrefixByDID (core_codec (a_core A)) (ExtractedDID ctx) = Inr pre \<and> prefix pre k \<and>
         (k, g) \<in> set (fg_did_allowances (ante_fg s)) \<and> AccFromBech32 (core_codec (a_core A)) (DIDGranter g) = Inr a)"
proof (cases "TrustedRelayFeeGranter ctx = []")
  case False
  then show ?thesis
    using run by (auto simp: handleFeegrant_def useGrantedFees_def run_iff split: option.splits if_splits
        dest!: UseGrantedFees_allowance)
next
  case relay: True
  show ?thesis
  proof (cases "ExtractedDID ctx = []")
    case True
    then show ?thesis using run relay by (auto simp: handleFeegrant_def dest!: standardFeegrant_Inr)
  next
    case False
    let ?use = "UseFirstAvailableDIDGrant (core_codec (a_core A)) (a_coins A) (sdk_ctx.truncate ctx)
      (ExtractedDID ctx) fees (map MsgTypeURL msgs)"
    obtain x f where f: "?use (ante_fg s) = (x, f)" by fastforce
    show ?thesis
    proof (cases x)
      case (Inr u)
      then have "a = u"
        using run relay False f by (auto simp: handleFeegrant_def bindM_def tryM_def fgM_def)
      moreover obtain pre where "FeeAllowancePrefixByDID (core_codec (a_core A)) (ExtractedDID ctx) = Inr pre"
        "\<exists>g\<in>set (map snd (kv_prefix pre (fg_did_allowances (ante_fg s)))). AccFromBech32 (core_codec (a_core A)) (DIDGranter g) = Inr u"
        using f Inr use_first_gives by (fastforce simp: UseFirstAvailableDIDGrant_def run_iff gives_def)
      ultimately show ?thesis using relay False by (fastforce simp: kv_prefix_def)
    next
      case (Inl e)
      have std: "\<not> is_panic e" "standardFeegrant A ctx granter payer fees msgs (s\<lparr>ante_fg := f\<rparr>) = (Inr a, t)"
        using run relay False f Inl by (auto simp: handleFeegrant_def bindM_def tryM_def fgM_def split: if_splits)
      have "fg_allowances f = fg_allowances (ante_fg s)"
        using keepsD [OF UseFirst_frame refl f] Inl std(1) by simp
      then show ?thesis
        using standardFeegrant_Inr [OF std(2)] GetAllowance_cong [of f "ante_fg s"] relay by auto
    qed
  qed
qed

lemma requiredFee_exact:
  assumes "dec_laws (a_dec A)" and "\<forall>n. DecRoundInt A (n * dec_one) = n" and "0 \<le> gas" and "gas < 2 ^ 63"
  shows "(if price = 0 then 10 ^ 15 else price) * gas * (if denom = ''ucredit'' then 10 else 1)
    \<le> requiredFee A price gas denom * dec_one"
proof -
  define p where "p = (if price = 0 then 10 ^ 15 else price)"
  define m :: int where "m = (if denom = ''ucredit'' then 10 else 1)"
  have "i64 gas = gas" using assms(3,4) by (simp add: is_i64_def)
  then have "requiredFee A price gas denom
      = DecRoundInt A (DecCeil (a_dec A) (DecMul (a_dec A) (DecMul (a_dec A) p (gas * dec_one)) (m * dec_one)))"
    by (simp add: requiredFee_def LegacyNewDec_def DefaultMinGasPrice_def CreditFeeMultiplier_def p_def m_def)
  also have "\<dots> = DecRoundInt A (DecCeil (a_dec A) (p * gas * m))"
    using DecMul_exact [OF assms(1), of p "gas * dec_one" "p * gas"]
      DecMul_exact [OF assms(1), of "p * gas" "m * dec_one" "p * gas * m"] by (simp add: mult.assoc)
  also have "\<dots> = - ((- (p * gas * m)) div dec_one)"
    using assms(2) by (simp only: dec_lawsD(4) [OF assms(1)])
  finally have "requiredFee A price gas denom * dec_one = - ((- (p * gas * m)) div dec_one * dec_one)" by simp
  then have "p * gas * m \<le> requiredFee A price gas denom * dec_one"
    using div_mult_mod_eq [of "- (p * gas * m)" dec_one] pos_mod_sign [OF dec_one_pos(1), of "- (p * gas * m)"] by linarith
  then show ?thesis by (simp only: p_def m_def)
qed

text \<open>C26: A transaction that enters the mempool has a gas limit and pays at most one coin, and no coin only
  on a chain that allows it: the fee covers the gas at the minimum gas price of the validator, or at 0.001
  where that is zero, ten times as much in credits.\<close>

theorem min_fee_enforced:
  assumes "dec_laws (a_dec A)" and "\<forall>n. DecRoundInt A (n * dec_one) = n" and "0 \<le> GetGas tx" and "GetGas tx < 2 ^ 63"
    and "IsCheckTx ctx" and "0 < BlockHeight ctx" and "CustomDeductFee_AnteHandle A ctx tx False s = (Inr ctx', t)"
  shows "0 < GetGas tx \<and>
    (case GetFee tx of
       [] \<Rightarrow> AllowZeroFeeTxs (GetChainConfig (ante_core s))
     | [(denom, amount)] \<Rightarrow>
         \<exists>price. DecAmountOf A (MinGasPrices ctx) denom = Some price \<and>
           (if price = 0 then 10 ^ 15 else price) * GetGas tx * (if denom = ''ucredit'' then 10 else 1) \<le> amount * 10 ^ 18
     | _ \<Rightarrow> False)"
proof -
  obtain fees where f: "checkTxFeeWithMinGasPrices A ctx tx (ante_core s) = Inr fees" and g: "GetGas tx \<noteq> 0"
    using assms(6,7) by (auto simp: CustomDeductFee_AnteHandle_def run_iff split: if_splits)
  have bound: "(if price = 0 then 10 ^ 15 else price) * GetGas tx * (if denom = ''ucredit'' then 10 else 1) \<le> amount * 10 ^ 18"
    if "requiredFee A price (GetGas tx) denom \<le> amount" for price denom amount
    using requiredFee_exact [OF assms(1-4), of price denom] mult_right_mono [OF that, of dec_one]
    by (simp add: dec_one_def)
  show ?thesis
  proof (cases "\<exists>denom amount. GetFee tx = [(denom, amount)]")
    case True
    then obtain denom amount where d: "GetFee tx = [(denom, amount)]" by blast
    then obtain price where "DecAmountOf A (MinGasPrices ctx) denom = Some price" "requiredFee A price (GetGas tx) denom \<le> amount"
      using f assms(5) by (auto simp: checkTxFeeWithMinGasPrices_def not_less split: if_splits option.splits)
    then show ?thesis unfolding d list.case prod.case using bound g assms(3) by fastforce
  next
    case False
    then show ?thesis
      using f g assms(3) by (auto simp: checkTxFeeWithMinGasPrices_def split: if_splits list.splits)
  qed
qed

section \<open>Revoked tokens\<close>

lemma TrimLeft_space [simp]: "TrimLeft (CHR '' '' # bearer) = TrimLeft bearer"
  by (simp add: TrimLeft_def)

lemma parse_space [simp]:
  "parseValidateJWS A (CHR '' '' # bearer) relay = parseValidateJWS A bearer relay"
  "validateJWSExtension A (CHR '' '' # bearer) now relay = validateJWSExtension A bearer now relay"
  by (simp_all add: parseValidateJWS_def validateJWSExtension_def)

lemma validateRelay_cong:
  assumes "chain_config s = chain_config s'" and "core_params s = core_params s'" and "GetMsgs tx = GetMsgs tx'"
    and "FeeGranter tx = FeeGranter tx'" and "FeePayer tx = FeePayer tx'" and "IsFeeTx tx = IsFeeTx tx'"
  shows "validateRelay A tx s = validateRelay A tx' s'"
proof -
  have "GetChainConfig s = GetChainConfig s'" "Core_GetParams s = Core_GetParams s'"
    using assms(1,2) by (simp_all add: GetChainConfig_def Core_GetParams_def)
  then show ?thesis by (simp only: validateRelay_def assms(3-6))
qed

text \<open>The registry takes every token that it took in another state of the same chain, unless it knows the hash.\<close>

context core_env
begin

lemma StoreOrUpdate_other:
  assumes "StoreOrUpdateJWSToken L ctx tok did account iat exp s0 = (Inr (), t0)"
    and "GetJWSToken (HashJWSToken L tok) s0 = None" and "GetJWSToken (HashJWSToken L tok') s = None"
    and "addr_ok (HashJWSToken L tok')" and "chain_config s = chain_config s0"
  shows "\<exists>t. StoreOrUpdateJWSToken L ctx tok' did account iat exp s = (Inr (), t)"
proof -
  define r where "r = (\<lambda>tok. \<lparr>TokenHash = HashJWSToken L tok, BearerToken = tok, IssuerDid = did, AuthorizedAccount = account,
    IssuedAt = iat, jws_ExpiresAt = exp, Status = STATUS_VALID, FirstUsedAt = Some (BlockTime ctx),
    LastUsedAt = Some (BlockTime ctx), InvalidatedAt = None, InvalidatedBy = []\<rparr>)"
  have e: "\<not> (exp \<noteq> zero_time \<and> \<not> exp > BlockTime ctx)" and "SetJWSToken ccd (r tok) s0 = (Inr (), t0)"
    using assms(1,2) by (auto simp: StoreOrUpdateJWSToken_def Let_def r_def split: if_splits)
  then have "token_accepted ccd (GetChainConfig s0) (r tok)" by (simp add: SetJWSToken_Inr)
  then have "token_accepted ccd (GetChainConfig s) (r tok')"
    using assms(4,5) by (auto simp: token_accepted_def r_def marshalRecord_def GetChainConfig_def split: if_splits)
  then have "SetJWSToken ccd (r tok') s = (Inr (), put_token (r tok') s)" by (rule SetJWSToken_ok)
  then show ?thesis
    using assms(3) e by (auto simp: StoreOrUpdateJWSToken_def Let_def r_def)
qed

end

text \<open>C39: A revoked token is accepted again with a space in front of it. The handler strips leading
  whitespace before it parses and verifies the token, but the registry knows the token by the hash of the
  string as it was sent. A transaction that was accepted with the token in one state of the chain is refused
  in another where the token is invalid, and accepted there with the space.\<close>

theorem revoked_token_accepted:
  assumes "prefix_laws (core_codec (a_core A))" and "time_laws (core_codec (a_core A))"
    and "address_laws (core_codec (a_core A))" and "\<forall>b. length (core_Sha256 (a_core A) b) = 32"
    and "GetExtensionOptions tx = Some [JWSExtensionOption bearer]"
    and "ExtensionOptions_AnteHandle A ctx tx False s0 = (Inr ctx', t0)"
    and "GetJWSToken (HashJWSToken (a_core A) bearer) (ante_core s0) = None"
    and "GetJWSToken (HashJWSToken (a_core A) bearer) (ante_core s) = Some r" and "Status r = STATUS_INVALID"
    and "GetJWSToken (HashJWSToken (a_core A) (CHR '' '' # bearer)) (ante_core s) = None"
    and "chain_config (ante_core s) = chain_config (ante_core s0)"
    and "core_params (ante_core s) = core_params (ante_core s0)"
  shows "ExtensionOptions_AnteHandle A ctx tx False s = (Inl SdkErrUnauthorized, s) \<and>
    (\<exists>t. ExtensionOptions_AnteHandle A ctx (tx\<lparr>GetExtensionOptions := Some [JWSExtensionOption (CHR '' '' # bearer)]\<rparr>) False s
       = (Inr ctx', t))"
proof -
  note env = core_envI [OF assms(1-3)]
  have "processJWS A ctx tx False bearer s0 = (Inr ctx', t0)"
    using assms(5,6) by (simp add: ExtensionOptions_AnteHandle_def)
  then obtain relay did account token where
    v: "validateRelay A tx (ante_core s0) = Inr relay"
      "validateJWSExtension A bearer (BlockTime ctx) (relay \<noteq> []) = Inr (did, account)"
      "parseValidateJWS A bearer (relay \<noteq> []) = Inr token"
      "recordToken A ctx False bearer did account token s0 = (Inr (), t0)" "GetMsgs tx \<noteq> []"
      "relay = [] \<longrightarrow> checkCreators account (GetMsgs tx) = None"
      "ctx' = (if relay \<noteq> [] then ctx\<lparr>ExtractedDID := did, TrustedRelayFeeGranter := relay\<rparr> else ctx\<lparr>ExtractedDID := did\<rparr>)"
    by (rule processJWS_Inr)
  let ?tx = "tx\<lparr>GetExtensionOptions := Some [JWSExtensionOption (CHR '' '' # bearer)]\<rparr>"
  have relay: "validateRelay A tx (ante_core s) = Inr relay" "validateRelay A ?tx (ante_core s) = Inr relay"
    using v(1) validateRelay_cong [OF assms(11,12), of tx tx A] validateRelay_cong [OF assms(11,12), of ?tx tx A] by simp_all
  have "recordToken A ctx False bearer did account token s = (Inl SdkErrUnauthorized, s)"
    using assms(8,9)
    by (simp add: recordToken_def bindM_def tryM_def coreM_def StoreOrUpdateJWSToken_def Let_def)
  then have "processJWS A ctx tx False bearer s = (Inl SdkErrUnauthorized, s)"
    using relay(1) v(2,3) by (simp add: processJWS_def bindM_def thenM_def wrapAs_def Let_def)
  moreover have "addr_ok (HashJWSToken (a_core A) (CHR '' '' # bearer))"
    using assms(4) by (simp add: HashJWSToken_def addr_ok_def flip: length_greater_0_conv)
  with core_env.StoreOrUpdate_other [OF env, of ctx bearer did account "timeUnix (IssuedTime token)" "timeUnix (ExpirationTime token)"
      "ante_core s0" _ "CHR '' '' # bearer" "ante_core s"] v(4) assms(7,10,11)
  obtain u where "recordToken A ctx False (CHR '' '' # bearer) did account token s = (Inr (), u)"
    by (auto simp: recordToken_Inr)
  then have "processJWS A ctx ?tx False (CHR '' '' # bearer) s = (Inr ctx', u)"
    using relay(2) v(2,3,5,6,7) by (simp add: processJWS_def bindM_def thenM_def wrapAs_def checkE_def Let_def)
  ultimately show ?thesis using assms(5) by (simp add: ExtensionOptions_AnteHandle_def)
qed

section \<open>Witnesses\<close>

definition ante_demo_core :: core_lib where
  "ante_demo_core = core_demo_lib\<lparr>core_Sha256 := (\<lambda>b. take 32 (b @ replicate 32 CHR ''.''))\<rparr>"

definition ante_demo_token :: BearerToken where
  "ante_demo_token = \<lparr>IssuerID = ''did:key:k1'', bt_ProviderToken = [], bt_AuthorizedAccount = ''accalice'',
     IssuedTime = 1, ExpirationTime = 100\<rparr>"

definition ante_demo_lib :: "(unit, bytes) ante_lib" where
  "ante_demo_lib = \<lparr>a_core = ante_demo_core, a_did = std_did, a_coins = std_coins, a_dec = std_decs,
     ParseSigned = Inr, json_keys = (\<lambda>_. Inr RequiredClaims), json_BearerToken = (\<lambda>_. Inr ante_demo_token),
     json_ProviderToken = (\<lambda>_. Inl (ErrExt ''json'')), BytesToPubKey = (\<lambda>b _. Inr b), secpToECDSA = Some,
     AlgorithmsForKey = (\<lambda>_. Inr []), jws_Verify = (\<lambda>_ _ _. None), DecAmountOf = map_of,
     DecRoundInt = (\<lambda>d. d div dec_one), CoinsString = (\<lambda>_. []), GetModuleAddress = (\<lambda>_. Some ''fees''),
     GetAccountAddress = (\<lambda>a _. Some a), SendCoinsFromAccountToModule = (\<lambda>_ _ _. ret ())\<rparr>"

definition ante_demo_tx :: ante_tx where
  "ante_demo_tx = \<lparr>IsFeeTx = True, IsSigVerifiableTx = True, GetGas = 1000, GetFee = [(''uopen'', 1)], FeePayer = ''bob'',
     FeeGranter = None, GetMsgs = [\<lparr>MsgTypeURL = ''/m'', GetCreator = Some ''accalice''\<rparr>],
     GetExtensionOptions = Some [JWSExtensionOption ''tok''], GetSignaturesV2 = Inr []\<rparr>"

definition ante_demo_ctx :: ante_ctx where
  "ante_demo_ctx = \<lparr>BlockTime = 5 * 10 ^ 9, BlockHeight = 1, ExtractedDID = [], TrustedRelayFeeGranter = [],
     IsCheckTx = True, MinGasPrices = [(''uopen'', 0)]\<rparr>"

definition ante_demo_fg :: "Grant kv \<Rightarrow> unit feegrant_state" where
  "ante_demo_fg grants = \<lparr>events = [], epoch_store = [], fg_allowances = grants, fg_queue = [], fg_did_allowances = [],
     fg_did_queue = [], ext = ()\<rparr>"

definition ante_demo_state :: "core_state \<Rightarrow> unit ante_state" where
  "ante_demo_state c = \<lparr>ante_core = c, ante_fg = ante_demo_fg []\<rparr>"

lemma ante_demo_laws:
  "prefix_laws (core_codec (a_core ante_demo_lib))" "time_laws (core_codec (a_core ante_demo_lib))"
  "address_laws (core_codec (a_core ante_demo_lib))" "dec_laws (a_dec ante_demo_lib)"
  "\<forall>n. DecRoundInt ante_demo_lib (n * dec_one) = n" "\<forall>b. length (core_Sha256 (a_core ante_demo_lib) b) = 32"
  by (auto simp: ante_demo_lib_def ante_demo_core_def core_demo_lib_def std_prefix_laws std_time_laws std_address_laws
      std_decs_laws min_def)

interpretation ante_demo: core_env "a_core ante_demo_lib"
  by (rule core_envI [OF ante_demo_laws(1-3)])

lemma ante_demo_parse:
  "parseValidateJWS ante_demo_lib ''tok'' False = Inr ante_demo_token"
  "validateJWSExtension ante_demo_lib ''tok'' (5 * 10 ^ 9) False = Inr (''did:key:k1'', ''accalice'')"
proof -
  show p: "parseValidateJWS ante_demo_lib ''tok'' False = Inr ante_demo_token"
    by (simp add: parseValidateJWS_def TrimLeft_def ante_demo_lib_def unmarshalJWSPayload_def RequiredClaims_def
        validateBearerTokenValues_def ante_demo_token_def IsValidDID_def std_did_def IsValidVeraAddr_def ante_demo_core_def
        core_demo_lib_def firstErr_def orElse_def failIf_def checkE_def verifyKey_def)
  show "validateJWSExtension ante_demo_lib ''tok'' (5 * 10 ^ 9) False = Inr (''did:key:k1'', ''accalice'')"
    unfolding validateJWSExtension_def p
    by (simp add: validateBearerToken_def ante_demo_lib_def
        validateBearerTokenValues_def ante_demo_token_def IsValidDID_def std_did_def IsValidVeraAddr_def ante_demo_core_def
        core_demo_lib_def firstErr_def orElse_def failIf_def checkE_def)
qed

lemma ante_demo_hash: "addr_ok (HashJWSToken (a_core ante_demo_lib) b)"
  "HashJWSToken (a_core ante_demo_lib) ''tok'' \<noteq> HashJWSToken (a_core ante_demo_lib) '' tok''"
proof -
  have "length (HashJWSToken (a_core ante_demo_lib) b) = 64" using ante_demo_laws(6) by (simp add: HashJWSToken_def)
  then show "addr_ok (HashJWSToken (a_core ante_demo_lib) b)" by (auto simp: addr_ok_def)
  show "HashJWSToken (a_core ante_demo_lib) ''tok'' \<noteq> HashJWSToken (a_core ante_demo_lib) '' tok''"
    by (simp add: HashJWSToken_def ante_demo_lib_def ante_demo_core_def)
qed

definition ante_demo_record :: "string \<Rightarrow> JWSTokenStatus \<Rightarrow> JWSTokenRecord" where
  "ante_demo_record bearer st =
     \<lparr>TokenHash = HashJWSToken (a_core ante_demo_lib) bearer, BearerToken = bearer, IssuerDid = ''did:key:k1'',
      AuthorizedAccount = ''accalice'', IssuedAt = timeUnix 1, jws_ExpiresAt = timeUnix 100, Status = st,
      FirstUsedAt = Some (5 * 10 ^ 9), LastUsedAt = Some (5 * 10 ^ 9), InvalidatedAt = None, InvalidatedBy = []\<rparr>"

lemma ante_demo_default: "GetChainConfig (genesis_state Core_DefaultGenesis) = DefaultChainConfig"
  "jws_store (genesis_state Core_DefaultGenesis) = []"
  by (simp_all add: genesis_state_def Core_DefaultGenesis_def GetChainConfig_def core_init_def)

lemma ante_demo_accept:
  "ExtensionOptions_AnteHandle ante_demo_lib ante_demo_ctx ante_demo_tx False (ante_demo_state (genesis_state Core_DefaultGenesis))
   = (Inr (ante_demo_ctx\<lparr>ExtractedDID := ''did:key:k1''\<rparr>),
      ante_demo_state (put_token (ante_demo_record ''tok'' STATUS_VALID) (genesis_state Core_DefaultGenesis)))"
proof -
  have u: "timeUnix 1 = 10 ^ 9" "timeUnix 100 = 100 * 10 ^ 9" by (simp_all add: timeUnix_def is_i64_def)
  have "token_accepted (core_codec (a_core ante_demo_lib)) DefaultChainConfig (ante_demo_record ''tok'' STATUS_VALID)"
    unfolding token_accepted_def ante_demo_record_def
    by (simp add: ante_demo_hash marshalRecord_None [OF ante_demo_laws(2)] u time_ok_def zero_time_def max_time_def)
      (simp add: ante_demo_lib_def ante_demo_core_def core_demo_lib_def std_codec_def addr_ok_def)
  then have "SetJWSToken (core_codec (a_core ante_demo_lib)) (ante_demo_record ''tok'' STATUS_VALID) (genesis_state Core_DefaultGenesis)
      = (Inr (), put_token (ante_demo_record ''tok'' STATUS_VALID) (genesis_state Core_DefaultGenesis))"
    by (intro ante_demo.SetJWSToken_ok) (simp add: ante_demo_default)
  then have "StoreOrUpdateJWSToken (a_core ante_demo_lib) ante_demo_ctx ''tok'' ''did:key:k1'' ''accalice'' (timeUnix 1) (timeUnix 100)
      (genesis_state Core_DefaultGenesis)
      = (Inr (), put_token (ante_demo_record ''tok'' STATUS_VALID) (genesis_state Core_DefaultGenesis))"
    by (simp add: StoreOrUpdateJWSToken_def GetJWSToken_def ante_demo_default ante_demo_ctx_def ante_demo_record_def u Let_def)
  then have "recordToken ante_demo_lib ante_demo_ctx False ''tok'' ''did:key:k1'' ''accalice'' ante_demo_token
      (ante_demo_state (genesis_state Core_DefaultGenesis))
      = (Inr (), ante_demo_state (put_token (ante_demo_record ''tok'' STATUS_VALID) (genesis_state Core_DefaultGenesis)))"
    by (simp add: recordToken_Inr ante_demo_state_def ante_demo_token_def)
  moreover have "validateRelay ante_demo_lib ante_demo_tx (genesis_state Core_DefaultGenesis) = Inr []"
    by (simp add: validateRelay_def ante_demo_default DefaultChainConfig_def)
  moreover have "BlockTime ante_demo_ctx = 5 * 10 ^ 9" "GetMsgs ante_demo_tx \<noteq> []"
    "GetExtensionOptions ante_demo_tx = Some [JWSExtensionOption ''tok'']" "checkCreators ''accalice'' (GetMsgs ante_demo_tx) = None"
    by (simp_all add: ante_demo_ctx_def ante_demo_tx_def creatorOf_def)
  ultimately show ?thesis
    using ante_demo_parse by (simp add: ExtensionOptions_AnteHandle_def processJWS_def bindM_def thenM_def wrapAs_def
        checkE_def Let_def ante_demo_state_def)
qed

theorem bearer_token_checked_witness:
  "\<exists>token. signedBy ante_demo_lib ''tok'' token \<and> 5 \<le> ExpirationTime token"
proof -
  have "GetExtensionOptions ante_demo_tx = Some [JWSExtensionOption ''tok'']" by (simp add: ante_demo_tx_def)
  moreover have "TrimLeft ''tok'' = ''tok''" "BlockTime ante_demo_ctx div 10 ^ 9 = 5"
    by (simp_all add: TrimLeft_def ante_demo_ctx_def)
  ultimately show ?thesis
    using bearer_token_checked [OF ante_demo_accept, of "''tok''"] by metis
qed

theorem revoked_token_accepted_witness:
  "\<exists>t. ExtensionOptions_AnteHandle ante_demo_lib ante_demo_ctx
     (ante_demo_tx\<lparr>GetExtensionOptions := Some [JWSExtensionOption '' tok'']\<rparr>) False
     (ante_demo_state (put_token (ante_demo_record ''tok'' STATUS_INVALID) (genesis_state Core_DefaultGenesis)))
   = (Inr (ante_demo_ctx\<lparr>ExtractedDID := ''did:key:k1''\<rparr>), t)"
proof -
  let ?s = "ante_demo_state (put_token (ante_demo_record ''tok'' STATUS_INVALID) (genesis_state Core_DefaultGenesis))"
  have "GetExtensionOptions ante_demo_tx = Some [JWSExtensionOption ''tok'']" by (simp add: ante_demo_tx_def)
  moreover have "GetJWSToken (HashJWSToken (a_core ante_demo_lib) ''tok'') (ante_core (ante_demo_state (genesis_state Core_DefaultGenesis))) = None"
    "GetJWSToken (HashJWSToken (a_core ante_demo_lib) ''tok'') (ante_core ?s) = Some (ante_demo_record ''tok'' STATUS_INVALID)"
    "Status (ante_demo_record ''tok'' STATUS_INVALID) = STATUS_INVALID"
    "GetJWSToken (HashJWSToken (a_core ante_demo_lib) '' tok'') (ante_core ?s) = None"
    "chain_config (ante_core ?s) = chain_config (ante_core (ante_demo_state (genesis_state Core_DefaultGenesis)))"
    "core_params (ante_core ?s) = core_params (ante_core (ante_demo_state (genesis_state Core_DefaultGenesis)))"
    using ante_demo_hash(2)
    by (simp_all add: ante_demo_state_def GetJWSToken_def ante_demo_default ante_demo_record_def)
  ultimately show ?thesis
    using revoked_token_accepted [OF ante_demo_laws(1-3,6) _ ante_demo_accept] by blast
qed

lemma ante_demo_fee:
  "\<exists>t. CustomDeductFee_AnteHandle ante_demo_lib ante_demo_ctx ante_demo_tx False (ante_demo_state (genesis_state Core_DefaultGenesis))
     = (Inr ante_demo_ctx, t)"
proof -
  have "requiredFee ante_demo_lib 0 1000 ''uopen'' = 1"
    by (simp add: requiredFee_def ante_demo_lib_def std_decs_def LegacyNewDec_def DefaultMinGasPrice_def dec_one_def quo_def
        is_i64_def Let_def)
  moreover have "DecAmountOf ante_demo_lib [(''uopen'', 0)] ''uopen'' = Some 0" "GetModuleAddress ante_demo_lib n \<noteq> None"
    "GetAccountAddress ante_demo_lib a x = Some a" "SendCoinsFromAccountToModule ante_demo_lib a n c = ret ()"
    "IsZeroCoins (a_coins ante_demo_lib) [(''uopen'', 1)] = False" "IsValidCoins (a_coins ante_demo_lib) [(''uopen'', 1)]" for a n c x
    by (simp_all add: ante_demo_lib_def std_coins_def valid_coins_def coins_sorted_def valid_denom_def letter_def denom_char_def less_char_def)
  ultimately show ?thesis
    by (simp add: CustomDeductFee_AnteHandle_def ante_demo_ctx_def ante_demo_tx_def checkTxFeeWithMinGasPrices_def
        checkDeductFee_def handleFeegrant_def standardFeegrant_def deductFees_def thenM_def bindM_def tryM_def fgM_def extM_def)
qed

theorem min_fee_enforced_witness: "GetGas ante_demo_tx \<le> 1000 * 1 \<and> GetFee ante_demo_tx = [(''uopen'', 1)]"
proof -
  obtain t where "CustomDeductFee_AnteHandle ante_demo_lib ante_demo_ctx ante_demo_tx False
      (ante_demo_state (genesis_state Core_DefaultGenesis)) = (Inr ante_demo_ctx, t)" using ante_demo_fee by blast
  moreover have tx: "GetGas ante_demo_tx = 1000" "GetFee ante_demo_tx = [(''uopen'', 1)]" "IsCheckTx ante_demo_ctx"
    "0 < BlockHeight ante_demo_ctx" "MinGasPrices ante_demo_ctx = [(''uopen'', 0)]" "DecAmountOf ante_demo_lib = map_of"
    by (simp_all add: ante_demo_tx_def ante_demo_ctx_def ante_demo_lib_def)
  ultimately show ?thesis
    using min_fee_enforced [OF ante_demo_laws(4,5), of ante_demo_tx ante_demo_ctx] by auto
qed

definition ante_demo_grant :: Grant where
  "ante_demo_grant = \<lparr>Granter = ''accgran'', Grantee = ''accbob'',
     Allowance = AnyValue (FBasic \<lparr>SpendLimit = None, Expiration = None\<rparr>)\<rparr>"

lemma ante_demo_relay:
  "\<exists>t. handleFeegrant ante_demo_lib (ante_demo_ctx\<lparr>TrustedRelayFeeGranter := ''accgran''\<rparr>) (Some ''gran'') ''bob'' [(''uopen'', 1)] []
     \<lparr>ante_core = core_init, ante_fg = ante_demo_fg [(CHR 0x00 # pair_bytes ''gran'' ''bob'', ante_demo_grant)]\<rparr>
     = (Inr ''gran'', t)"
proof -
  have c: "core_codec (a_core ante_demo_lib) = std_codec"
    by (simp add: ante_demo_lib_def ante_demo_core_def core_demo_lib_def)
  have k: "FeeAllowanceKey std_codec ''gran'' ''bob'' = Inr (CHR 0x00 # pair_bytes ''gran'' ''bob'')"
    by (rule std_cd.FeeAllowanceKey_ok) (simp_all add: addr_ok_def)
  show ?thesis
    by (simp add: handleFeegrant_def useGrantedFees_def UseGrantedFees_def UpdateAllowance_def GetAllowance_def getGrant_def c k
        ante_demo_fg_def ante_demo_grant_def GetGrant_def GetCachedAllowance_def acceptM_def Basic_Accept_def
        NewGrant_def NewAnyWithValue_def marshal_basic_def fgM_def thenM_def bindM_def ante_demo_ctx_def)
      (simp add: std_codec_def)
qed

theorem fee_account_authorized_witness:
  "\<exists>al. GetAllowance (core_codec (a_core ante_demo_lib)) ''gran'' ''bob''
     (ante_demo_fg [(CHR 0x00 # pair_bytes ''gran'' ''bob'', ante_demo_grant)]) = Inr al"
proof -
  obtain t where "handleFeegrant ante_demo_lib (ante_demo_ctx\<lparr>TrustedRelayFeeGranter := ''accgran''\<rparr>) (Some ''gran'') ''bob''
      [(''uopen'', 1)] []
      \<lparr>ante_core = core_init, ante_fg = ante_demo_fg [(CHR 0x00 # pair_bytes ''gran'' ''bob'', ante_demo_grant)]\<rparr>
      = (Inr ''gran'', t)"
    using ante_demo_relay by blast
  from fee_account_authorized [OF this] show ?thesis by simp
qed

end
