(* ===== verification/Bulletin.thy ===== *)
theory Bulletin
  imports Go_Strings Acp_Did
begin

text \<open>
  The bulletin module (\<open>x/bulletin\<close>): namespaces, the collaborators that may post in them, and the posts.

  Who may do what is decided by the access control module. Its keeper and the capability manager are
  parameters (\<open>acp_keeper\<close>) over their own state \<open>'x\<close>, the field \<open>acp_ext\<close> of the module state;
  \<open>'c\<close> is the type of policy capabilities. The identifiers of the actors are issued by the functions of
  \<open>Acp_Did\<close>. The prefix stores hold the records themselves; marshalling a namespace panics when its time
  is outside the range of a timestamp.
\<close>

section \<open>Data\<close>

abbreviation "BulErrInvalidSigner \<equiv> ErrReg ''bulletin'' 1100"
abbreviation "BulErrInvalidPolicyId \<equiv> ErrReg ''bulletin'' 1101"
abbreviation "ErrNamespaceAlreadyExists \<equiv> ErrReg ''bulletin'' 1102"
abbreviation "ErrNamespaceNotFound \<equiv> ErrReg ''bulletin'' 1103"
abbreviation "ErrInvalidNamespaceId \<equiv> ErrReg ''bulletin'' 1104"
abbreviation "ErrInvalidPostCreator \<equiv> ErrReg ''bulletin'' 1106"
abbreviation "ErrPostAlreadyExists \<equiv> ErrReg ''bulletin'' 1107"
abbreviation "ErrInvalidPostPayload \<equiv> ErrReg ''bulletin'' 1109"
abbreviation "ErrCollaboratorAlreadyExists \<equiv> ErrReg ''bulletin'' 1111"
abbreviation "ErrCollaboratorNotFound \<equiv> ErrReg ''bulletin'' 1112"
abbreviation "ErrCouldNotEnsurePolicy \<equiv> ErrReg ''bulletin'' 1113"

record Namespace =
  ns_Id :: string
  OwnerDid :: string
  ns_Creator :: string
  CreatedAt :: time

record Collaborator =
  col_Address :: string
  col_Did :: string
  col_Namespace :: string

record Post =
  post_Id :: string
  post_Namespace :: string
  CreatorDid :: string
  Payload :: bytes

record 'x bulletin_state = base_state +
  bul_params :: "bytes option"
  policy_id :: "string option"
  namespaces :: "Namespace kv"
  collaborators :: "Collaborator kv"
  posts :: "Post kv"
  acp_ext :: 'x

text \<open>The commands that the module sends to its policy: object and relationship are built from their parts.\<close>

datatype PolicyCmd =
    RegisterObjectCmd string string
  | SetRelationshipCmd string string string string
  | DeleteRelationshipCmd string string string string

record ('x, 'c) acp_keeper =
  bul_codec :: sdk_codec
  bul_Sha256 :: "bytes \<Rightarrow> bytes"
  bul_authority :: string
  base64 :: "bytes \<Rightarrow> string"
  bul_did :: did_ops
  bul_GetAccount :: "'x \<Rightarrow> addr \<Rightarrow> PubKey option option"
  bul_isICA :: "'x \<Rightarrow> string \<Rightarrow> bool"
  CreateModulePolicy :: "string \<Rightarrow> string \<Rightarrow> ('x, 'c) M"
  GetPolicyIdOfCap :: "'c \<Rightarrow> string"
  ClaimCapability :: "'c \<Rightarrow> ('x, unit) M"
  FetchCapability :: "string \<Rightarrow> ('x, 'c) M"
  ModulePolicyCmdForActorDID :: "'c \<Rightarrow> PolicyCmd \<Rightarrow> string \<Rightarrow> string \<Rightarrow> ('x, unit) M"
  VerifyAccessRequest :: "string \<Rightarrow> string \<Rightarrow> string \<Rightarrow> string \<Rightarrow> string \<Rightarrow> 'x \<Rightarrow> error + bool"

definition acpM :: "('x, 'a) M \<Rightarrow> (('x, 'z) bulletin_state_scheme, 'a) M" where
  "acpM m s = (case m (acp_ext s) of (r, x) \<Rightarrow> (r, s\<lparr>acp_ext := x\<rparr>))"

section \<open>Keys\<close>

definition SanitizeKeyPart :: "string \<Rightarrow> string" where
  "SanitizeKeyPart part = map (\<lambda>c. if c = CHR ''/'' then CHR ''|'' else c) part"

definition UnsanitizeKeyPart :: "string \<Rightarrow> string" where
  "UnsanitizeKeyPart part = map (\<lambda>c. if c = CHR ''|'' then CHR ''/'' else c) part"

definition PostKey :: "string \<Rightarrow> string \<Rightarrow> bytes" where
  "PostKey namespaceId postId = SanitizeKeyPart namespaceId @ CHR ''/'' # SanitizeKeyPart postId"

definition CollaboratorKey :: "string \<Rightarrow> string \<Rightarrow> bytes" where
  "CollaboratorKey namespaceId collaboratorDID = SanitizeKeyPart namespaceId @ CHR ''/'' # SanitizeKeyPart collaboratorDID"

text \<open>\<open>bytes.Split(key, "/")\<close>.\<close>

fun splitSlash :: "bytes \<Rightarrow> bytes list" where
  "splitSlash [] = [[]]"
| "splitSlash (c # cs) =
     (case splitSlash cs of
        [] \<Rightarrow> [[c]]
      | p # ps \<Rightarrow> if c = CHR ''/'' then [] # p # ps else (c # p) # ps)"

definition ParsePostKey :: "bytes \<Rightarrow> error + (string \<times> string)" where
  "ParsePostKey key =
     (case splitSlash key of
        [a, b] \<Rightarrow> Inr (UnsanitizeKeyPart a, UnsanitizeKeyPart b)
      | _ \<Rightarrow> Inl (Panic (PanicMsg ''invalid post key format: expected format namespaceId/postId'')))"

definition ParseCollaboratorKey :: "bytes \<Rightarrow> error + (string \<times> string)" where
  "ParseCollaboratorKey key =
     (case splitSlash key of
        [a, b] \<Rightarrow> Inr (UnsanitizeKeyPart a, UnsanitizeKeyPart b)
      | _ \<Rightarrow> Inl (Panic (PanicMsg ''invalid collaborator key format: expected format namespaceId/actorDID'')))"

definition GeneratePostId :: "('x, 'c) acp_keeper \<Rightarrow> string \<Rightarrow> bytes \<Rightarrow> string" where
  "GeneratePostId K namespaceId payload = hex_EncodeToString (bul_Sha256 K (namespaceId @ payload))"

definition NamespaceIdPrefix :: string where "NamespaceIdPrefix = ''bulletin/''"
definition NamespaceResource :: string where "NamespaceResource = ''namespace''"
definition CollaboratorRelation :: string where "CollaboratorRelation = ''collaborator''"
definition CreatePostPermission :: string where "CreatePostPermission = ''create_post''"

definition getNamespaceId :: "string \<Rightarrow> string" where
  "getNamespaceId namespace = (if prefix NamespaceIdPrefix namespace then namespace else NamespaceIdPrefix @ namespace)"

section \<open>Stores\<close>

text \<open>The parameters of the module have no field: their encoding is empty.\<close>

definition SetBulletinParams :: "(('x, 'z) bulletin_state_scheme, unit) M" where
  "SetBulletinParams = modifyM (\<lambda>s. s\<lparr>bul_params := Some []\<rparr>)"

definition SetPolicyId :: "string \<Rightarrow> (('x, 'z) bulletin_state_scheme, unit) M" where
  "SetPolicyId policyId = modifyM (\<lambda>s. s\<lparr>policy_id := Some policyId\<rparr>)"

definition GetPolicyId :: "('x, 'z) bulletin_state_scheme \<Rightarrow> string" where
  "GetPolicyId s = (case policy_id s of None \<Rightarrow> '''' | Some p \<Rightarrow> p)"

definition SetNamespace :: "('x, 'c) acp_keeper \<Rightarrow> Namespace \<Rightarrow> (('x, 'z) bulletin_state_scheme, unit) M" where
  "SetNamespace K ns =
     (case StdTimeMarshal (bul_codec K) (CreatedAt ns) of
        Some e \<Rightarrow> panicM ''marshal''
      | None \<Rightarrow> modifyM (\<lambda>s. s\<lparr>namespaces := kv_set (ns_Id ns) ns (namespaces s)\<rparr>))"

definition GetNamespace :: "string \<Rightarrow> ('x, 'z) bulletin_state_scheme \<Rightarrow> Namespace option" where
  "GetNamespace namespaceId s = kv_get (namespaces s) namespaceId"

definition hasNamespace :: "string \<Rightarrow> ('x, 'z) bulletin_state_scheme \<Rightarrow> bool" where
  "hasNamespace namespaceId s \<longleftrightarrow> kv_get (namespaces s) namespaceId \<noteq> None"

definition GetAllNamespaces :: "('x, 'z) bulletin_state_scheme \<Rightarrow> Namespace list" where
  "GetAllNamespaces s = map snd (namespaces s)"

definition SetCollaborator :: "Collaborator \<Rightarrow> (('x, 'z) bulletin_state_scheme, unit) M" where
  "SetCollaborator c =
     modifyM (\<lambda>s. s\<lparr>collaborators := kv_set (CollaboratorKey (col_Namespace c) (col_Did c)) c (collaborators s)\<rparr>)"

definition DeleteCollaborator :: "string \<Rightarrow> string \<Rightarrow> (('x, 'z) bulletin_state_scheme, unit) M" where
  "DeleteCollaborator namespaceId collaboratorDID =
     modifyM (\<lambda>s. s\<lparr>collaborators := kv_del (CollaboratorKey namespaceId collaboratorDID) (collaborators s)\<rparr>)"

definition getCollaborator :: "string \<Rightarrow> string \<Rightarrow> ('x, 'z) bulletin_state_scheme \<Rightarrow> Collaborator option" where
  "getCollaborator namespaceId collaboratorDID s = kv_get (collaborators s) (CollaboratorKey namespaceId collaboratorDID)"

definition GetAllCollaborators :: "('x, 'z) bulletin_state_scheme \<Rightarrow> Collaborator list" where
  "GetAllCollaborators s = map snd (collaborators s)"

definition SetPost :: "Post \<Rightarrow> (('x, 'z) bulletin_state_scheme, unit) M" where
  "SetPost p = modifyM (\<lambda>s. s\<lparr>posts := kv_set (PostKey (post_Namespace p) (post_Id p)) p (posts s)\<rparr>)"

definition getPost :: "string \<Rightarrow> string \<Rightarrow> ('x, 'z) bulletin_state_scheme \<Rightarrow> Post option" where
  "getPost namespaceId postId s = kv_get (posts s) (PostKey namespaceId postId)"

definition GetAllPosts :: "('x, 'z) bulletin_state_scheme \<Rightarrow> Post list" where
  "GetAllPosts s = map snd (posts s)"

definition GetNamespacePosts :: "string \<Rightarrow> ('x, 'z) bulletin_state_scheme \<Rightarrow> Post list" where
  "GetNamespacePosts namespaceId s = map snd (kv_prefix (SanitizeKeyPart namespaceId @ ''/'') (posts s))"

section \<open>The policy of the module\<close>

text \<open>\<open>BasePolicy\<close> is a text that only the access control module reads.\<close>

definition BasePolicy :: string where
  "BasePolicy = concat (map (\<lambda>line. CHR 0x0A # line)
     [''description: Base policy that defines permissions for bulletin namespaces'',
      ''name: Bulletin Policy'', ''resources:'', ''- name: namespace'', ''  permissions:'',
      ''  - expr: collaborator'', ''    name: create_post'', ''  - expr: collaborator'', ''    name: update_post'',
      ''  relations:'', ''  - name: collaborator'', ''    types:'', ''    - actor'', ''''])"

definition hasPolicy :: "('x, 'z) bulletin_state_scheme \<Rightarrow> bool" where
  "hasPolicy s \<longleftrightarrow> policy_id s \<noteq> None"

definition EnsurePolicy :: "('x, 'c) acp_keeper \<Rightarrow> (('x, 'z) bulletin_state_scheme, string) M" where
  "EnsurePolicy K =
     bindM (getM hasPolicy) (\<lambda>has.
     if has then getM GetPolicyId
     else
       bindM (acpM (CreateModulePolicy K BasePolicy ''bulletin'')) (\<lambda>polCap.
       thenM (acpM (ClaimCapability K polCap))
       (let policyId = GetPolicyIdOfCap K polCap in
        thenM (SetPolicyId policyId) (ret policyId))))"

definition policyCmd ::
  "('x, 'c) acp_keeper \<Rightarrow> string \<Rightarrow> PolicyCmd \<Rightarrow> string \<Rightarrow> string \<Rightarrow> (('x, 'z) bulletin_state_scheme, unit) M" where
  "policyCmd K policyId cmd ownerDID signer =
     bindM (acpM (FetchCapability K policyId)) (\<lambda>polCap.
     acpM (ModulePolicyCmdForActorDID K polCap cmd ownerDID signer))"

text \<open>The package-level \<open>RegisterNamespace\<close>, \<open>AddCollaborator\<close> and \<open>deleteCollaborator\<close> of \<open>acp_utils.go\<close>.\<close>

definition registerNamespaceObject ::
  "('x, 'c) acp_keeper \<Rightarrow> string \<Rightarrow> string \<Rightarrow> string \<Rightarrow> string \<Rightarrow> (('x, 'z) bulletin_state_scheme, unit) M" where
  "registerNamespaceObject K policyId namespaceId ownerDID signer =
     policyCmd K policyId (RegisterObjectCmd NamespaceResource namespaceId) ownerDID signer"

definition addCollaboratorRelation ::
  "('x, 'c) acp_keeper \<Rightarrow> string \<Rightarrow> string \<Rightarrow> string \<Rightarrow> string \<Rightarrow> string \<Rightarrow> (('x, 'z) bulletin_state_scheme, unit) M" where
  "addCollaboratorRelation K policyId namespaceId collaboratorDID ownerDID signer =
     bindM (getM (getCollaborator namespaceId collaboratorDID)) (\<lambda>existing.
     thenM (guardM (existing = None) ErrCollaboratorAlreadyExists)
     (policyCmd K policyId (SetRelationshipCmd NamespaceResource namespaceId CollaboratorRelation collaboratorDID) ownerDID signer))"

definition deleteCollaboratorRelation ::
  "('x, 'c) acp_keeper \<Rightarrow> string \<Rightarrow> string \<Rightarrow> string \<Rightarrow> string \<Rightarrow> string \<Rightarrow> (('x, 'z) bulletin_state_scheme, unit) M" where
  "deleteCollaboratorRelation K policyId namespaceId collaboratorDID ownerDID signer =
     bindM (getM (getCollaborator namespaceId collaboratorDID)) (\<lambda>existing.
     thenM (guardM (existing \<noteq> None) ErrCollaboratorNotFound)
     (policyCmd K policyId (DeleteRelationshipCmd NamespaceResource namespaceId CollaboratorRelation collaboratorDID) ownerDID signer))"

definition hasPermission ::
  "('x, 'c) acp_keeper \<Rightarrow> string \<Rightarrow> string \<Rightarrow> string \<Rightarrow> string \<Rightarrow> ('x, 'z) bulletin_state_scheme \<Rightarrow> error + bool" where
  "hasPermission K policyId namespaceId permission actorDID s =
     VerifyAccessRequest K policyId NamespaceResource namespaceId permission actorDID (acp_ext s)"

definition bulActorDID :: "('x, 'c) acp_keeper \<Rightarrow> 'w sdk_ctx_scheme \<Rightarrow> string \<Rightarrow> ('x, 'z) bulletin_state_scheme \<Rightarrow> error + string" where
  "bulActorDID K ctx address s =
     GetActorDID (bul_did K) (AccFromBech32 (bul_codec K)) (bul_GetAccount K (acp_ext s)) (bul_isICA K (acp_ext s)) ctx address"

definition issueDID :: "('x, 'c) acp_keeper \<Rightarrow> string \<Rightarrow> ('x, 'z) bulletin_state_scheme \<Rightarrow> error + string" where
  "issueDID K address s =
     IssueDIDFromAccountAddr (bul_did K) (AccFromBech32 (bul_codec K)) (bul_GetAccount K (acp_ext s)) (bul_isICA K (acp_ext s)) address"

section \<open>Messages\<close>

datatype BulletinMsg =
    MsgUpdateBulletinParams string
  | MsgRegisterNamespace string string
  | MsgCreatePost string string bytes string
  | MsgAddCollaborator string string string
  | MsgRemoveCollaborator string string string

definition badAddress :: "('x, 'c) acp_keeper \<Rightarrow> string \<Rightarrow> error option" where
  "badAddress K address = (case AccFromBech32 (bul_codec K) address of Inl _ \<Rightarrow> Some SdkErrInvalidAddress | Inr _ \<Rightarrow> None)"

fun Bulletin_ValidateBasic :: "('x, 'c) acp_keeper \<Rightarrow> BulletinMsg \<Rightarrow> error option" where
  "Bulletin_ValidateBasic K (MsgUpdateBulletinParams authority) =
     (case AccFromBech32 (bul_codec K) authority of Inl e \<Rightarrow> Some e | Inr _ \<Rightarrow> None)"
| "Bulletin_ValidateBasic K (MsgRegisterNamespace creator namespace) =
     firstErr [badAddress K creator, failIf (namespace = '''') ErrInvalidNamespaceId]"
| "Bulletin_ValidateBasic K (MsgCreatePost creator namespace payload artifact) =
     firstErr [badAddress K creator, failIf (namespace = '''') ErrInvalidNamespaceId,
       failIf (length payload = 0) ErrInvalidPostPayload]"
| "Bulletin_ValidateBasic K (MsgAddCollaborator creator namespace collaborator) =
     firstErr [badAddress K creator, failIf (namespace = '''') ErrInvalidNamespaceId, badAddress K collaborator]"
| "Bulletin_ValidateBasic K (MsgRemoveCollaborator creator namespace collaborator) =
     firstErr [badAddress K creator, failIf (namespace = '''') ErrInvalidNamespaceId, badAddress K collaborator]"

definition Bulletin_UpdateParams :: "('x, 'c) acp_keeper \<Rightarrow> string \<Rightarrow> (('x, 'z) bulletin_state_scheme, unit) M" where
  "Bulletin_UpdateParams K authority = 
     thenM (guardM (bul_authority K = authority) BulErrInvalidSigner) SetBulletinParams"

definition RegisterNamespace ::
  "('x, 'c) acp_keeper \<Rightarrow> 'w sdk_ctx_scheme \<Rightarrow> string \<Rightarrow> string \<Rightarrow> (('x, 'z) bulletin_state_scheme, unit) M" where
  "RegisterNamespace K ctx creator namespace =
     bindM (tryM (EnsurePolicy K)) (\<lambda>r. case r of Inl _ \<Rightarrow> fail ErrCouldNotEnsurePolicy | Inr policyId \<Rightarrow>
     let namespaceId = getNamespaceId namespace in
     bindM (getM (hasNamespace namespaceId)) (\<lambda>exists.
     thenM (guardM (\<not> exists) ErrNamespaceAlreadyExists)
     (bindM (readM (bulActorDID K ctx creator)) (\<lambda>ownerDID.
     thenM (registerNamespaceObject K policyId namespaceId ownerDID creator)
     (thenM (SetNamespace K \<lparr>ns_Id = namespaceId, OwnerDid = ownerDID, ns_Creator = creator, CreatedAt = BlockTime ctx\<rparr>)
     (EmitEvent (''EventNamespaceRegistered'',
        [(''namespace_id'', namespaceId), (''owner_did'', ownerDID),
         (''created_at'', TimeString (bul_codec K) (BlockTime ctx))])))))))"

text \<open>The guards that the other messages share.\<close>

definition inNamespace ::
  "string \<Rightarrow> (string \<Rightarrow> string \<Rightarrow> (('x, 'z) bulletin_state_scheme, 'a) M) \<Rightarrow> (('x, 'z) bulletin_state_scheme, 'a) M" where
  "inNamespace namespace body =
     bindM (getM GetPolicyId) (\<lambda>policyId.
     thenM (guardM (policyId \<noteq> '''') BulErrInvalidPolicyId)
     (let namespaceId = getNamespaceId namespace in
      bindM (getM (hasNamespace namespaceId)) (\<lambda>exists.
      thenM (guardM exists ErrNamespaceNotFound) (body policyId namespaceId))))"

definition CreatePost ::
  "('x, 'c) acp_keeper \<Rightarrow> 'w sdk_ctx_scheme \<Rightarrow> string \<Rightarrow> string \<Rightarrow> bytes \<Rightarrow> string \<Rightarrow> (('x, 'z) bulletin_state_scheme, unit) M" where
  "CreatePost K ctx creator namespace payload artifact =
     inNamespace namespace (\<lambda>policyId namespaceId.
     bindM (readM (bulActorDID K ctx creator)) (\<lambda>creatorDID.
     bindM (readM (hasPermission K policyId namespaceId CreatePostPermission creatorDID)) (\<lambda>permitted.
     thenM (guardM permitted ErrInvalidPostCreator)
     (let postId = GeneratePostId K namespaceId payload in
      bindM (getM (getPost namespaceId postId)) (\<lambda>existing.
      thenM (guardM (existing = None) ErrPostAlreadyExists)
      (thenM (SetPost \<lparr>post_Id = postId, post_Namespace = namespaceId, CreatorDid = creatorDID, Payload = payload\<rparr>)
      (EmitEvent (''EventPostCreated'',
         [(''namespace_id'', namespaceId), (''post_id'', postId), (''creator_did'', creatorDID),
          (''payload'', base64 K payload), (''artifact'', artifact)]))))))))"

definition AddCollaborator ::
  "('x, 'c) acp_keeper \<Rightarrow> 'w sdk_ctx_scheme \<Rightarrow> string \<Rightarrow> string \<Rightarrow> string \<Rightarrow> (('x, 'z) bulletin_state_scheme, unit) M" where
  "AddCollaborator K ctx creator namespace collaborator =
     inNamespace namespace (\<lambda>policyId namespaceId.
     bindM (readM (bulActorDID K ctx creator)) (\<lambda>ownerDID.
     bindM (readM (issueDID K collaborator)) (\<lambda>collaboratorDID.
     thenM (addCollaboratorRelation K policyId namespaceId collaboratorDID ownerDID creator)
     (thenM (SetCollaborator \<lparr>col_Address = collaborator, col_Did = collaboratorDID, col_Namespace = namespaceId\<rparr>)
     (EmitEvent (''EventCollaboratorAdded'',
        [(''namespace_id'', namespaceId), (''collaborator_did'', collaboratorDID), (''added_by'', ownerDID)]))))))"

definition RemoveCollaborator ::
  "('x, 'c) acp_keeper \<Rightarrow> 'w sdk_ctx_scheme \<Rightarrow> string \<Rightarrow> string \<Rightarrow> string \<Rightarrow> (('x, 'z) bulletin_state_scheme, unit) M" where
  "RemoveCollaborator K ctx creator namespace collaborator =
     inNamespace namespace (\<lambda>policyId namespaceId.
     bindM (readM (bulActorDID K ctx creator)) (\<lambda>ownerDID.
     bindM (readM (issueDID K collaborator)) (\<lambda>collaboratorDID.
     thenM (deleteCollaboratorRelation K policyId namespaceId collaboratorDID ownerDID creator)
     (thenM (DeleteCollaborator namespaceId collaboratorDID)
     (EmitEvent (''EventCollaboratorRemoved'',
        [(''namespace_id'', namespaceId), (''collaborator_did'', collaboratorDID)]))))))"

fun Bulletin_handle ::
  "('x, 'c) acp_keeper \<Rightarrow> 'w sdk_ctx_scheme \<Rightarrow> BulletinMsg \<Rightarrow> (('x, 'z) bulletin_state_scheme, unit) M" where
  "Bulletin_handle K ctx (MsgUpdateBulletinParams authority) = Bulletin_UpdateParams K authority"
| "Bulletin_handle K ctx (MsgRegisterNamespace creator namespace) = RegisterNamespace K ctx creator namespace"
| "Bulletin_handle K ctx (MsgCreatePost creator namespace payload artifact) = CreatePost K ctx creator namespace payload artifact"
| "Bulletin_handle K ctx (MsgAddCollaborator creator namespace collaborator) = AddCollaborator K ctx creator namespace collaborator"
| "Bulletin_handle K ctx (MsgRemoveCollaborator creator namespace collaborator) = RemoveCollaborator K ctx creator namespace collaborator"

definition Bulletin_deliver ::
  "('x, 'c) acp_keeper \<Rightarrow> 'w sdk_ctx_scheme \<Rightarrow> BulletinMsg \<Rightarrow> (('x, 'z) bulletin_state_scheme, unit) M" where
  "Bulletin_deliver K ctx msg =
     cacheCtx (thenM (liftE (checkE (Bulletin_ValidateBasic K msg))) (Bulletin_handle K ctx msg))"

section \<open>Genesis\<close>

record BulletinGenesis =
  bg_PolicyId :: string
  bg_Namespaces :: "Namespace list"
  bg_Collaborators :: "Collaborator list"
  bg_Posts :: "Post list"

definition orPanic :: "('s, 'a) M \<Rightarrow> ('s, 'a) M" where
  "orPanic m = bindM (tryM m) (\<lambda>r. case r of Inl _ \<Rightarrow> panicM ''InitGenesis'' | Inr x \<Rightarrow> ret x)"

definition Bulletin_InitGenesis :: "('x, 'c) acp_keeper \<Rightarrow> BulletinGenesis \<Rightarrow> (('x, 'z) bulletin_state_scheme, unit) M" where
  "Bulletin_InitGenesis K gs =
     thenM SetBulletinParams
     (if bg_PolicyId gs \<noteq> '''' then
        bindM (orPanic (EnsurePolicy K)) (\<lambda>policyId.
        thenM (SetPolicyId policyId)
        (thenM (forM (bg_Namespaces gs) (\<lambda>ns.
           thenM (orPanic (registerNamespaceObject K policyId (ns_Id ns) (OwnerDid ns) (ns_Creator ns))) (SetNamespace K ns)))
        (thenM (forM (bg_Collaborators gs) (\<lambda>c.
           bindM (getM (GetNamespace (col_Namespace c))) (\<lambda>found.
           case found of
             None \<Rightarrow> panicM ''nil pointer dereference''
           | Some ns \<Rightarrow>
               thenM (orPanic (addCollaboratorRelation K policyId (col_Namespace c) (col_Did c) (OwnerDid ns) (col_Address c)))
               (SetCollaborator c))))
        (forM (bg_Posts gs) SetPost))))
      else ret ())"

definition Bulletin_ExportGenesis :: "('x, 'z) bulletin_state_scheme \<Rightarrow> BulletinGenesis" where
  "Bulletin_ExportGenesis s =
     \<lparr>bg_PolicyId = GetPolicyId s, bg_Namespaces = GetAllNamespaces s, bg_Collaborators = GetAllCollaborators s,
      bg_Posts = GetAllPosts s\<rparr>"

section \<open>Runs\<close>

text \<open>A step: a transaction with a message of the module, or anything that leaves its stores alone.\<close>

inductive bul_step :: "('x, 'c) acp_keeper \<Rightarrow> 'x bulletin_state \<Rightarrow> 'x bulletin_state \<Rightarrow> bool" for K where
  bul_tx: "Bulletin_deliver K (ctx :: sdk_ctx) msg s = (r, t) \<Longrightarrow> bul_step K s t"
| bul_other: "bul_step K s (s\<lparr>events := ev, acp_ext := x\<rparr>)"

inductive_cases bul_stepE: "bul_step K s t"

definition bul_init :: "'x \<Rightarrow> 'x bulletin_state" where
  "bul_init x = \<lparr>events = [], bul_params = None, policy_id = None, namespaces = [], collaborators = [], posts = [], acp_ext = x\<rparr>"

definition bul_reachable :: "('x, 'c) acp_keeper \<Rightarrow> BulletinGenesis \<Rightarrow> 'x \<Rightarrow> 'x bulletin_state \<Rightarrow> bool" where
  "bul_reachable K g x s \<longleftrightarrow> (\<exists>s0. Bulletin_InitGenesis K g (bul_init x) = (Inr (), s0) \<and> (bul_step K)\<^sup>*\<^sup>* s0 s)"

end
