(* ===== verification/Bulletin_Props.thy ===== *)
theory Bulletin_Props
  imports Bulletin
begin

text \<open>
  Properties of the bulletin module: what is posted stays, a post is made by a permitted actor, the posts of a
  namespace, and what namespaces with the same store keys do to each other.
\<close>

lemma acpM_Inr_iff: "acpM m s = (Inr r, t) \<longleftrightarrow> (\<exists>x. m (acp_ext s) = (Inr r, x) \<and> t = s\<lparr>acp_ext := x\<rparr>)"
  by (cases "m (acp_ext s)") (auto simp: acpM_def)

lemma wrap_Inr_iff:
  "bindM (tryM m) (\<lambda>r. case r of Inl _ \<Rightarrow> fail e | Inr x \<Rightarrow> f x) s = (Inr y, t) \<longleftrightarrow>
   (\<exists>x u. m s = (Inr x, u) \<and> f x u = (Inr y, t))"
  by (cases "m s"; cases "fst (m s)") (auto simp: bindM_def tryM_def)

lemmas bul_iff = bindM_Inr_iff thenM_Inr_iff tryM_Inr_iff acpM_Inr_iff

lemma policyCmd_Inr: "policyCmd K policyId cmd ownerDID signer s = (Inr (), t) \<Longrightarrow> \<exists>x. t = s\<lparr>acp_ext := x\<rparr>"
  by (auto simp: policyCmd_def bul_iff)

lemma inNamespace_Inr:
  "inNamespace namespace body s = (Inr r, t) \<longleftrightarrow>
     GetPolicyId s \<noteq> [] \<and> hasNamespace (getNamespaceId namespace) s \<and>
     body (GetPolicyId s) (getNamespaceId namespace) s = (Inr r, t)"
  by (auto simp: inNamespace_def Let_def)

section \<open>What is stored stays\<close>

definition kept :: "'v kv \<Rightarrow> 'v kv \<Rightarrow> bool" where
  "kept a b \<longleftrightarrow> (\<forall>k v. kv_get a k = Some v \<longrightarrow> kv_get b k = Some v)"

lemma kept_refl [simp]: "kept a a"
  and kept_trans: "kept a b \<Longrightarrow> kept b c \<Longrightarrow> kept a c"
  and kept_fresh: "kv_get a k = None \<Longrightarrow> kept a (kv_set k v a)"
  by (auto simp: kept_def)

definition bul_later :: "('x, 'z) bulletin_state_scheme \<Rightarrow> ('x, 'z) bulletin_state_scheme \<Rightarrow> bool" where
  "bul_later s t \<longleftrightarrow> kept (posts s) (posts t) \<and> kept (namespaces s) (namespaces t) \<and>
     (policy_id s \<noteq> None \<longrightarrow> policy_id t = policy_id s)"

lemma bul_later_refl [simp]: "bul_later s s"
  and bul_later_trans: "bul_later s t \<Longrightarrow> bul_later t u \<Longrightarrow> bul_later s u"
  by (auto simp: bul_later_def intro: kept_trans)

lemma EnsurePolicy_Inr:
  "EnsurePolicy K s = (Inr policyId, t) \<Longrightarrow>
   posts t = posts s \<and> namespaces t = namespaces s \<and> collaborators t = collaborators s \<and>
   policy_id t = Some policyId \<and> (policy_id s \<noteq> None \<longrightarrow> policy_id t = policy_id s)"
  by (auto simp: EnsurePolicy_def bul_iff hasPolicy_def GetPolicyId_def SetPolicyId_def Let_def split: if_splits)

lemma RegisterNamespace_Inr:
  assumes "RegisterNamespace K ctx creator namespace s = (Inr (), t)"
  shows "bul_later s t \<and> posts t = posts s \<and> collaborators t = collaborators s"
proof -
  obtain u policyId where e: "EnsurePolicy K s = (Inr policyId, u)"
    and n: "\<not> hasNamespace (getNamespaceId namespace) u"
    and r: "bindM (readM (bulActorDID K ctx creator)) (\<lambda>ownerDID.
      thenM (registerNamespaceObject K policyId (getNamespaceId namespace) ownerDID creator)
      (thenM (SetNamespace K \<lparr>ns_Id = getNamespaceId namespace, OwnerDid = ownerDID, ns_Creator = creator, CreatedAt = BlockTime ctx\<rparr>)
      (EmitEvent (''EventNamespaceRegistered'', [(''namespace_id'', getNamespaceId namespace), (''owner_did'', ownerDID),
         (''created_at'', TimeString (bul_codec K) (BlockTime ctx))])))) u = (Inr (), t)"
    using assms by (auto simp: RegisterNamespace_def wrap_Inr_iff Let_def split: if_splits)
  then have "\<exists>x ns ev. t = u\<lparr>acp_ext := x, namespaces := kv_set (getNamespaceId namespace) ns (namespaces u), events := ev\<rparr>"
    by (auto simp: bul_iff registerNamespaceObject_def SetNamespace_def split: option.splits dest!: policyCmd_Inr) blast
  then show ?thesis
    using EnsurePolicy_Inr [OF e] n by (auto simp: bul_later_def hasNamespace_def intro: kept_fresh)
qed

lemma AddCollaborator_Inr:
  "AddCollaborator K ctx creator namespace collaborator s = (Inr (), t) \<Longrightarrow>
   \<exists>x c ev. t = s\<lparr>acp_ext := x, collaborators := kv_set (CollaboratorKey (col_Namespace c) (col_Did c)) c (collaborators s), events := ev\<rparr>"
  by (auto simp: AddCollaborator_def inNamespace_Inr bul_iff addCollaboratorRelation_def SetCollaborator_def
      split: if_splits dest!: policyCmd_Inr)
    (metis Collaborator.select_convs(2,3))

lemma RemoveCollaborator_Inr:
  assumes "RemoveCollaborator K ctx creator namespace collaborator s = (Inr (), t)"
  obtains owner did cap y x ev where "bulActorDID K ctx creator s = Inr owner" "issueDID K collaborator s = Inr did"
    "getCollaborator (getNamespaceId namespace) did s \<noteq> None"
    "FetchCapability K (GetPolicyId s) (acp_ext s) = (Inr cap, y)"
    "ModulePolicyCmdForActorDID K cap (DeleteRelationshipCmd NamespaceResource (getNamespaceId namespace) CollaboratorRelation did)
       owner creator y = (Inr (), x)"
    "t = s\<lparr>acp_ext := x, collaborators := kv_del (CollaboratorKey (getNamespaceId namespace) did) (collaborators s), events := ev\<rparr>"
  using assms
  by (auto simp: RemoveCollaborator_def inNamespace_Inr bul_iff deleteCollaboratorRelation_def DeleteCollaborator_def
      policyCmd_def split: if_splits)

text \<open>C9: A post is created exactly when the module has a policy, the namespace exists, the access control
  module permits the actor to create posts in that namespace and the post is new. It is stored under the
  hash of namespace and payload with the identifier of its creator; nothing else changes but the events.\<close>

theorem create_post_exact:
  "CreatePost K ctx creator namespace payload artifact s = (Inr (), t) \<longleftrightarrow>
     GetPolicyId s \<noteq> [] \<and> hasNamespace (getNamespaceId namespace) s \<and>
     (\<exists>did. bulActorDID K ctx creator s = Inr did \<and>
        VerifyAccessRequest K (GetPolicyId s) ''namespace'' (getNamespaceId namespace) ''create_post'' did (acp_ext s) = Inr True \<and>
        getPost (getNamespaceId namespace) (GeneratePostId K (getNamespaceId namespace) payload) s = None \<and>
        t = s\<lparr>posts := kv_set (PostKey (getNamespaceId namespace) (GeneratePostId K (getNamespaceId namespace) payload))
                \<lparr>post_Id = GeneratePostId K (getNamespaceId namespace) payload, post_Namespace = getNamespaceId namespace,
                 CreatorDid = did, Payload = payload\<rparr> (posts s),
              events := events s @ [(''EventPostCreated'', [(''namespace_id'', getNamespaceId namespace),
                (''post_id'', GeneratePostId K (getNamespaceId namespace) payload), (''creator_did'', did),
                (''payload'', base64 K payload), (''artifact'', artifact)])]\<rparr>)"
  by (auto simp: CreatePost_def inNamespace_Inr bul_iff hasPermission_def NamespaceResource_def CreatePostPermission_def
      SetPost_def Let_def split: if_splits)

lemma CreatePost_later:
  "CreatePost K ctx creator namespace payload artifact s = (Inr (), t) \<Longrightarrow>
   \<exists>p ev. kv_get (posts s) (PostKey (post_Namespace p) (post_Id p)) = None \<and>
     t = s\<lparr>posts := kv_set (PostKey (post_Namespace p) (post_Id p)) p (posts s), events := ev\<rparr>"
  by (auto simp: CreatePost_def inNamespace_Inr bul_iff SetPost_def getPost_def Let_def split: if_splits)
    (metis Post.select_convs(1,2))

lemma handle_later: "Bulletin_handle K ctx msg s = (Inr (), t) \<Longrightarrow> bul_later s t"
  by (cases msg)
    (auto simp: Bulletin_UpdateParams_def SetBulletinParams_def bul_iff bul_later_def kept_fresh split: if_splits
      dest!: RegisterNamespace_Inr CreatePost_later AddCollaborator_Inr elim!: RemoveCollaborator_Inr)

lemma deliver_cases:
  assumes "Bulletin_deliver K ctx msg s = (r, t)"
  obtains "t = s" | "Bulletin_handle K ctx msg s = (Inr (), t)"
  using assms by (auto simp: Bulletin_deliver_def cacheCtx_def thenM_def bindM_def split: prod.splits sum.splits)

lemma step_later: "bul_step K s t \<Longrightarrow> bul_later s t"
  by (auto elim!: bul_stepE deliver_cases dest: handle_later simp: bul_later_def)

text \<open>C22: What the module stores stays: along every run a post keeps its content, a namespace its owner and
  the module its policy.\<close>

theorem posts_permanent:
  assumes "(bul_step K)\<^sup>*\<^sup>* s t"
  shows "(\<forall>n i p. getPost n i s = Some p \<longrightarrow> getPost n i t = Some p) \<and>
    (\<forall>n ns. GetNamespace n s = Some ns \<longrightarrow> GetNamespace n t = Some ns) \<and>
    (policy_id s \<noteq> None \<longrightarrow> policy_id t = policy_id s)"
proof -
  have "bul_later s t"
    using assms by (induction rule: rtranclp_induct) (auto intro: bul_later_trans step_later)
  then show ?thesis by (simp add: bul_later_def kept_def getPost_def GetNamespace_def)
qed

section \<open>The posts of a namespace\<close>

lemma sanitized_no_slash: "CHR ''/'' \<notin> set (SanitizeKeyPart part)"
  by (auto simp: SanitizeKeyPart_def split: if_splits)

lemma prefix_before_slash:
  "CHR ''/'' \<notin> set a \<Longrightarrow> CHR ''/'' \<notin> set b \<Longrightarrow> prefix (a @ ''/'') (b @ CHR ''/'' # rest) \<longleftrightarrow> a = b"
proof (induction a arbitrary: b)
  case Nil
  then show ?case by (cases b) auto
next
  case (Cons c a)
  then show ?case by (cases b) auto
qed

lemma PostKey_prefix: "prefix (SanitizeKeyPart n @ ''/'') (PostKey m i) \<longleftrightarrow> SanitizeKeyPart n = SanitizeKeyPart m"
  by (simp add: PostKey_def prefix_before_slash sanitized_no_slash)

definition post_keys :: "('x, 'z) bulletin_state_scheme \<Rightarrow> bool" where
  "post_keys s \<longleftrightarrow> (\<forall>k p. (k, p) \<in> set (posts s) \<longrightarrow> k = PostKey (post_Namespace p) (post_Id p))"

lemma post_keys_set: "post_keys s \<Longrightarrow> posts t = kv_set (PostKey (post_Namespace p) (post_Id p)) p (posts s) \<Longrightarrow> post_keys t"
  using set_kv_set by (fastforce simp: post_keys_def)

lemma post_keys_cong: "posts t = posts s \<Longrightarrow> post_keys t = post_keys s"
  by (simp add: post_keys_def)

lemma handle_post_keys: "Bulletin_handle K ctx msg s = (Inr (), t) \<Longrightarrow> post_keys s \<Longrightarrow> post_keys t"
proof (cases msg)
  case (MsgCreatePost creator namespace payload artifact)
  assume "Bulletin_handle K ctx msg s = (Inr (), t)" and s: "post_keys s"
  then obtain p ev where "t = s\<lparr>posts := kv_set (PostKey (post_Namespace p) (post_Id p)) p (posts s), events := ev\<rparr>"
    using MsgCreatePost by (auto dest!: CreatePost_later)
  then show ?thesis using post_keys_set [OF s, of t p] by simp
qed (auto simp: Bulletin_UpdateParams_def SetBulletinParams_def post_keys_def split: if_splits
    dest!: RegisterNamespace_Inr AddCollaborator_Inr elim!: RemoveCollaborator_Inr)

lemma step_post_keys: "bul_step K s t \<Longrightarrow> post_keys s \<Longrightarrow> post_keys t"
  by (auto elim!: bul_stepE deliver_cases dest: handle_post_keys simp: post_keys_def)

lemma acpM_post_keys: "keeps post_keys (acpM m)"
  by (rule keepsI) (auto simp: acpM_def post_keys_def split: prod.splits)

lemma genesis_post_keys: "keeps post_keys (Bulletin_InitGenesis K gs)"
proof -
  have 1: "keeps post_keys (SetPolicyId p)" "keeps post_keys (SetNamespace K ns)" "keeps post_keys (SetCollaborator c)"
    "keeps post_keys (panicM msg)" "keeps post_keys SetBulletinParams" for p K ns c msg
    by (auto intro!: keepsI simp: SetPolicyId_def SetNamespace_def SetCollaborator_def SetBulletinParams_def panicM_def post_keys_def split: option.splits)
  have 2: "keeps post_keys (SetPost p)" for p
    unfolding SetPost_def by (rule keeps_modifyM) (erule post_keys_set, simp)
  show ?thesis
    unfolding Bulletin_InitGenesis_def EnsurePolicy_def orPanic_def registerNamespaceObject_def addCollaboratorRelation_def
      policyCmd_def
    by (intro keeps_rules acpM_post_keys 1 2)
qed

text \<open>C25: The posts listed for a namespace are exactly the posts whose namespace has the same sanitized name, in
  the order of the store: in every state a run from a genesis reaches, no post of a namespace is missing, and
  a post of another namespace appears only when the names differ in \<open>/\<close> and \<open>|\<close> alone.\<close>

theorem namespace_posts_exact:
  assumes "bul_reachable K g x s"
  shows "GetNamespacePosts n s = filter (\<lambda>p. SanitizeKeyPart (post_Namespace p) = SanitizeKeyPart n) (GetAllPosts s)"
proof -
  from assms obtain s0 where g: "Bulletin_InitGenesis K g (bul_init x) = (Inr (), s0)" and r: "(bul_step K)\<^sup>*\<^sup>* s0 s"
    by (auto simp: bul_reachable_def)
  have "post_keys s0"
    using keepsD_Inr [OF genesis_post_keys _ g] by (simp add: post_keys_def bul_init_def)
  with r have "post_keys s" by (induction rule: rtranclp_induct) (auto intro: step_post_keys)
  then have "prefix (SanitizeKeyPart n @ ''/'') k \<longleftrightarrow> SanitizeKeyPart (post_Namespace p) = SanitizeKeyPart n"
    if "(k, p) \<in> set (posts s)" for k p
    using that by (metis PostKey_prefix post_keys_def)
  then have "kv_prefix (SanitizeKeyPart n @ ''/'') (posts s) =
    filter (\<lambda>e. SanitizeKeyPart (post_Namespace (snd e)) = SanitizeKeyPart n) (posts s)"
    unfolding kv_prefix_def by (auto intro!: filter_cong)
  then show ?thesis by (simp add: GetNamespacePosts_def GetAllPosts_def filter_map o_def)
qed

section \<open>Names with the same keys\<close>

text \<open>
  What the module relies on from the access control module: by \<open>BasePolicy\<close> the permission to create posts in a
  namespace is the collaborator relation of that namespace alone, so that deleting a collaborator of one
  namespace does not change the answers for another.
\<close>

definition separate_namespaces :: "('x, 'c) acp_keeper \<Rightarrow> string \<Rightarrow> bool" where
  "separate_namespaces K p \<longleftrightarrow>
     (\<forall>x cap y i d owner signer z j e.
        FetchCapability K p x = (Inr cap, y) \<longrightarrow>
        ModulePolicyCmdForActorDID K cap (DeleteRelationshipCmd NamespaceResource i CollaboratorRelation d) owner signer y =
          (Inr (), z) \<longrightarrow> i \<noteq> j \<longrightarrow>
        VerifyAccessRequest K p NamespaceResource j CreatePostPermission e z =
        VerifyAccessRequest K p NamespaceResource j CreatePostPermission e x)"

text \<open>C40: Two namespaces whose names differ in \<open>/\<close> and \<open>|\<close> alone share their collaborator records. Removing a
  collaborator from one of them also removes the record of the other: there the collaborator keeps the
  permission to create posts, and every message that tries to remove the collaborator from it fails, whoever
  sends it (as long as the address of the collaborator has the same identifier).\<close>

theorem collaborator_alias:
  assumes "SanitizeKeyPart (getNamespaceId n) = SanitizeKeyPart (getNamespaceId m)" and "getNamespaceId m \<noteq> getNamespaceId n"
    and "separate_namespaces K (GetPolicyId s)"
    and "RemoveCollaborator K ctx creator m collaborator s = (Inr (), t)"
  shows "\<exists>did. issueDID K collaborator s = Inr did \<and>
      getCollaborator (getNamespaceId n) did s \<noteq> None \<and> getCollaborator (getNamespaceId n) did t = None \<and>
      (\<forall>e. hasPermission K (GetPolicyId t) (getNamespaceId n) CreatePostPermission e t =
           hasPermission K (GetPolicyId s) (getNamespaceId n) CreatePostPermission e s) \<and>
      (\<forall>ctx' creator' u. issueDID K collaborator t = Inr did \<longrightarrow>
         RemoveCollaborator K (ctx' :: sdk_ctx) creator' n collaborator t \<noteq> (Inr (), u))"
  using assms(4)
proof (rule RemoveCollaborator_Inr, goal_cases)
  case (1 owner did cap y x ev)
  have k: "CollaboratorKey (getNamespaceId n) did = CollaboratorKey (getNamespaceId m) did"
    using assms(1) by (simp add: CollaboratorKey_def)
  have none: "getCollaborator (getNamespaceId n) did t = None" "getCollaborator (getNamespaceId n) did s \<noteq> None"
    using 1(3,6) by (simp_all add: getCollaborator_def k)
  have "RemoveCollaborator K ctx' creator' n collaborator t \<noteq> (Inr (), u)"
    if "issueDID K collaborator t = Inr did" for ctx' :: sdk_ctx and creator' u
    using none(1) that by (auto elim!: RemoveCollaborator_Inr)
  moreover have "VerifyAccessRequest K (GetPolicyId s) NamespaceResource (getNamespaceId n) CreatePostPermission e x =
      VerifyAccessRequest K (GetPolicyId s) NamespaceResource (getNamespaceId n) CreatePostPermission e (acp_ext s)" for e
    using assms(2,3) 1(4,5) unfolding separate_namespaces_def by blast
  moreover have "GetPolicyId t = GetPolicyId s" "acp_ext t = x" using 1(6) by (simp_all add: GetPolicyId_def)
  ultimately show ?case using 1(2) none by (auto simp: hasPermission_def)
qed

section \<open>Witnesses\<close>

text \<open>An access control module that keeps the relations it was told to store, for the accounts of a counterpart
  chain, whose identifiers are their addresses.\<close>

definition bul_demo_cmd :: "PolicyCmd \<Rightarrow> (string \<times> string) list \<Rightarrow> (string \<times> string) list" where
  "bul_demo_cmd cmd x = (case cmd of
      RegisterObjectCmd r i \<Rightarrow> x
    | SetRelationshipCmd r i rel d \<Rightarrow> (i, d) # x
    | DeleteRelationshipCmd r i rel d \<Rightarrow> filter (\<lambda>e. e \<noteq> (i, d)) x)"

definition bul_demo_keeper :: "((string \<times> string) list, string) acp_keeper" where
  "bul_demo_keeper = \<lparr>bul_codec = std_codec, bul_Sha256 = (\<lambda>b. b), bul_authority = ''gov'', base64 = (\<lambda>b. b),
     bul_did = std_did, bul_GetAccount = (\<lambda>_ _. Some None), bul_isICA = (\<lambda>_ _. True),
     CreateModulePolicy = (\<lambda>_ _ x. (Inr ''p'', x)), GetPolicyIdOfCap = (\<lambda>c. c), ClaimCapability = (\<lambda>_ x. (Inr (), x)),
     FetchCapability = (\<lambda>p x. (Inr p, x)), ModulePolicyCmdForActorDID = (\<lambda>_ cmd _ _ x. (Inr (), bul_demo_cmd cmd x)),
     VerifyAccessRequest = (\<lambda>_ _ i _ d x. Inr ((i, d) \<in> set x))\<rparr>"

definition bul_demo_ctx :: sdk_ctx where
  "bul_demo_ctx = \<lparr>BlockTime = 0, BlockHeight = 1, ExtractedDID = []\<rparr>"

definition bul_demo_post :: Post where
  "bul_demo_post = \<lparr>post_Id = ''i'', post_Namespace = ''bulletin/a/b'', CreatorDid = ''d'', Payload = ''x''\<rparr>"

definition bul_demo_ns :: "string \<Rightarrow> string \<Rightarrow> Namespace" where
  "bul_demo_ns i a = \<lparr>ns_Id = i, OwnerDid = ''did:ica:'' @ a, ns_Creator = a, CreatedAt = 0\<rparr>"

definition bul_demo_col :: Collaborator where
  "bul_demo_col = \<lparr>col_Address = ''accca'', col_Did = ''did:ica:accca'', col_Namespace = ''bulletin/a/b''\<rparr>"

definition bul_demo_genesis :: BulletinGenesis where
  "bul_demo_genesis = \<lparr>bg_PolicyId = ''p'',
     bg_Namespaces = [bul_demo_ns ''bulletin/a/b'' ''accal'', bul_demo_ns ''bulletin/a|b'' ''accbo''],
     bg_Collaborators = [bul_demo_col], bg_Posts = [bul_demo_post]\<rparr>"

definition bul_demo_state :: "(string \<times> string) list bulletin_state" where
  "bul_demo_state = \<lparr>events = [], bul_params = Some [], policy_id = Some ''p'',
     namespaces = [(''bulletin/a/b'', bul_demo_ns ''bulletin/a/b'' ''accal''), (''bulletin/a|b'', bul_demo_ns ''bulletin/a|b'' ''accbo'')],
     collaborators = [(''bulletin|a|b/did:ica:accca'', bul_demo_col)], posts = [(''bulletin|a|b/i'', bul_demo_post)],
     acp_ext = [(''bulletin/a/b'', ''did:ica:accca'')]\<rparr>"

text \<open>The namespace \<open>a/b\<close> has a collaborator and a post; the owner of \<open>a|b\<close> removes the collaborator from the
  namespace \<open>a|b\<close>.\<close>

definition bul_demo_removed :: "(string \<times> string) list bulletin_state" where
  "bul_demo_removed = bul_demo_state\<lparr>collaborators := [], events := [(''EventCollaboratorRemoved'',
     [(''namespace_id'', ''bulletin/a|b''), (''collaborator_did'', ''did:ica:accca'')])]\<rparr>"

lemmas bul_demo_defs = bul_demo_keeper_def bul_demo_genesis_def bul_demo_state_def bul_demo_removed_def bul_demo_ns_def
  bul_demo_col_def bul_demo_post_def bul_demo_ctx_def bul_demo_cmd_def

lemmas bul_eval = acpM_def orPanic_def panicM_def tryM_def registerNamespaceObject_def addCollaboratorRelation_def
  deleteCollaboratorRelation_def policyCmd_def inNamespace_def bulActorDID_def issueDID_def IssueDIDFromAccountAddr_def
  GetActorDID_def IssueInterchainAccountDID_def std_codec_def addr_ok_def getNamespaceId_def NamespaceIdPrefix_def
  SanitizeKeyPart_def CollaboratorKey_def PostKey_def EnsurePolicy_def hasPolicy_def hasNamespace_def getCollaborator_def
  GetPolicyId_def SetPolicyId_def SetNamespace_def GetNamespace_def SetCollaborator_def DeleteCollaborator_def SetPost_def
  SetBulletinParams_def EmitEvent_def

lemma bul_demo_ids:
  "getNamespaceId ''a/b'' = ''bulletin/a/b''" "getNamespaceId ''a|b'' = ''bulletin/a|b''"
  "SanitizeKeyPart ''bulletin/a/b'' = ''bulletin|a|b''" "SanitizeKeyPart ''bulletin/a|b'' = ''bulletin|a|b''"
  "issueDID bul_demo_keeper ''accca'' s = Inr ''did:ica:accca''" "issueDID bul_demo_keeper ''accbo'' s = Inr ''did:ica:accbo''"
  by (simp_all add: bul_eval bul_demo_keeper_def)

lemma bul_demo_init: "Bulletin_InitGenesis bul_demo_keeper bul_demo_genesis (bul_init []) = (Inr (), bul_demo_state)"
  by (simp add: Bulletin_InitGenesis_def bul_init_def bul_demo_defs bul_eval bindM_def thenM_def forM_def getM_def
      time_ok_def zero_time_def max_time_def)

lemma bul_demo_remove:
  "RemoveCollaborator bul_demo_keeper bul_demo_ctx ''accbo'' ''a|b'' ''accca'' bul_demo_state = (Inr (), bul_demo_removed)"
  by (simp add: RemoveCollaborator_def bul_demo_defs bul_eval Let_def bindM_def thenM_def getM_def readM_def guardM_def kv_del_def)

lemma bul_demo_reads:
  "getPost ''bulletin/a/b'' ''i'' bul_demo_state = Some bul_demo_post"
  "GetAllPosts bul_demo_state = [bul_demo_post]" "post_Namespace bul_demo_post = ''bulletin/a/b''"
  by (simp_all add: getPost_def GetAllPosts_def PostKey_def bul_demo_ids bul_demo_state_def)
    (simp_all add: SanitizeKeyPart_def bul_demo_post_def)

lemma bul_demo_accounts:
  "AccFromBech32 (bul_codec bul_demo_keeper) ''accbo'' = Inr ''bo''" "AccFromBech32 (bul_codec bul_demo_keeper) ''accca'' = Inr ''ca''"
  by (simp_all add: bul_demo_keeper_def std_codec_def addr_ok_def)

lemma bul_demo_step: "bul_step bul_demo_keeper bul_demo_state bul_demo_removed"
  by (rule bul_tx [where ctx = bul_demo_ctx and msg = "MsgRemoveCollaborator ''accbo'' ''a|b'' ''accca''" and r = "Inr ()"])
    (simp add: Bulletin_deliver_def cacheCtx_def thenM_def bindM_def bul_demo_remove badAddress_def bul_demo_accounts
      firstErr_def orElse_def failIf_def checkE_def liftE_def)

theorem posts_permanent_witness:
  "bul_step bul_demo_keeper bul_demo_state bul_demo_removed \<and> getPost ''bulletin/a/b'' ''i'' bul_demo_removed = Some bul_demo_post"
  using posts_permanent [of bul_demo_keeper bul_demo_state bul_demo_removed] bul_demo_reads(1) bul_demo_step by blast

theorem namespace_posts_exact_witness:
  "bul_reachable bul_demo_keeper bul_demo_genesis [] bul_demo_state \<and>
   GetNamespacePosts ''bulletin/a/b'' bul_demo_state = [bul_demo_post]"
proof -
  have r: "bul_reachable bul_demo_keeper bul_demo_genesis [] bul_demo_state"
    using bul_demo_init by (auto simp: bul_reachable_def)
  then show ?thesis using namespace_posts_exact [OF r, of "''bulletin/a/b''"] by (simp add: bul_demo_reads)
qed

lemma bul_demo_separate: "separate_namespaces bul_demo_keeper p"
  by (auto simp: separate_namespaces_def bul_demo_keeper_def bul_demo_cmd_def)

theorem collaborator_alias_witness:
  "getCollaborator ''bulletin/a/b'' ''did:ica:accca'' bul_demo_removed = None \<and>
   hasPermission bul_demo_keeper ''p'' ''bulletin/a/b'' CreatePostPermission ''did:ica:accca'' bul_demo_removed = Inr True \<and>
   (\<forall>creator u. RemoveCollaborator bul_demo_keeper bul_demo_ctx creator ''a/b'' ''accca'' bul_demo_removed \<noteq> (Inr (), u))"
proof -
  have p: "GetPolicyId bul_demo_state = ''p''" "GetPolicyId bul_demo_removed = ''p''"
    by (simp_all add: GetPolicyId_def bul_demo_state_def bul_demo_removed_def)
  have "hasPermission bul_demo_keeper ''p'' ''bulletin/a/b'' CreatePostPermission ''did:ica:accca'' bul_demo_state = Inr True"
    by (simp add: hasPermission_def bul_demo_keeper_def bul_demo_state_def)
  then show ?thesis
    using collaborator_alias [of "''a/b''" "''a|b''", OF _ _ bul_demo_separate bul_demo_remove]
    by (auto simp: bul_demo_ids p)
qed

end
