(* ===== verification/Spec2Isabelle.thy ===== *)
theory Spec2Isabelle
  imports Epoch_Props Orbis_Accept_Props Ante_Props Bulletin_Props
begin

text \<open>
  Verification of the vera chain (\<open>src/\<close>), a Cosmos SDK application in Go.

  \<^bold>\<open>The program.\<close> A block of the chain runs the begin blockers of its modules, then the transactions,
  then the end blockers. A transaction runs the handlers of its messages in a cached copy of the state
  that is kept only if all of them succeed. The modules modelled here are

  \<^item> \<open>x/epochs\<close>: named timers; when a timer passes the end of an epoch the begin blocker calls the
    hooks of other modules, each in a cached context of its own;
  \<^item> \<open>x/feegrant\<close>: allowances from which an account or a decentralised identifier (DID) pays the fees of
    others, with queues that prune them when they expire;
  \<^item> \<open>x/tier\<close>: stake is locked with validators through the module and earns credits, which an epoch hook
    burns and mints anew; developers pay for the users they subscribe by granting DID allowances
    in \<open>x/feegrant\<close>;
  \<^item> \<open>x/orbis\<close>: rings (committees of nodes that hold a shared key), the documents and key derivations
    that belong to them, the nodes themselves, and fault reports signed by a committee, which collect
    demerits for a node and may replace it;
  \<^item> \<open>x/core\<close>: the registry of bearer tokens (JWS) with their revocation and expiry, interchain accounts,
    and the chain configuration set at genesis;
  \<^item> \<open>x/bulletin\<close>: namespaces with collaborators and posts, guarded by a policy of the access control module;
  \<^item> \<open>app/ante\<close>: what every transaction passes before its messages run. A bearer token names the DID for
    which the transaction acts and is recorded in \<open>x/core\<close>; the fee is checked and taken from the payer or
    through an allowance of \<open>x/feegrant\<close>;
  \<^item> \<open>x/acp/did\<close> and \<open>x/acp/keeper\<close>: how DIDs, public keys and account addresses correspond.

  \<^bold>\<open>The model.\<close> Go code becomes HOL functions with the names of the source. A keeper method is a function
  from the state to a result, which is a value, an error or a panic, and the state it has reached; the
  code's early returns are \<open>fail\<close>, its calls \<open>bindM\<close> and \<open>thenM\<close>. A store is an association list in key
  order, which is the order of the iterators. Machine integers keep their width where the code can
  overflow. Code outside \<open>src/\<close> (the SDK's bank and staking keepers, coins, decimals, bech32, SHA-256,
  JSON, curve arithmetic) is a parameter; what is used of it is stated as a law (\<open>coin_laws\<close>,
  \<open>dec_laws\<close>, \<open>bank_laws\<close>, ...), and every witness instantiates the parameters with functions that
  satisfy the laws.

  \<^bold>\<open>Theories.\<close>

  \<^item> \<open>Vera_Prelude\<close>: errors, methods and their invariant rules, prefix stores, key codecs, integers.
    \<open>Go_Strings\<close>: hexadecimal and big-endian encoding, UTF-8, trimming. \<open>Sdk_Params\<close>: the SDK parameters and
    their laws, with instances.
  \<^item> \<open>Epochs\<close> models \<open>x/epochs\<close>: \<open>Epochs_BeginBlocker\<close>, \<open>applyFunc\<close>, \<open>panicCatchingEpochHook\<close>, genesis, queries.
    A failing hook, before or after an epoch, leaves no trace and does not disturb the other hooks unless
    it runs out of gas; genesis round trip.
  \<^item> \<open>Feegrant_Types\<close> models the three allowances (\<open>basic_fee.go\<close>, \<open>periodic_fee.go\<close>, \<open>filtered_fee.go\<close>) and the
    store keys, \<open>Feegrant_Keeper\<close> the keeper, messages, genesis and end blocker. \<open>Feegrant_Queue\<close> and
    \<open>Feegrant_Props\<close>: fees stay within the limits, the queue of DID grants is exact and so is pruning,
    and where the code departs from its documentation.
  \<^item> \<open>Acp_Did\<close>: \<open>x/acp/did/types.go\<close>, \<open>GetAddressFromDID\<close>, \<open>GetActorDID\<close>.
  \<^item> \<open>Tier_Types\<close> to \<open>Tier_Blocks\<close> model \<open>x/tier\<close>: parameters, keys and messages; lockups, unlockings and
    insurance (\<open>Tier_Lockups\<close>); credits (\<open>Tier_Credits\<close>); the staking methods (\<open>Tier_Keeper\<close>);
    subscriptions (\<open>Tier_Subscriptions\<close>); rewards, slashing, blocks, messages and genesis
    (\<open>Tier_Blocks\<close>). \<open>Tier_Stake\<close>, \<open>Tier_Allowances\<close>, \<open>Tier_System\<close> and \<open>Tier_Invariants\<close> give the invariants
    of the epochs, feegrant and tier modules running together: \<open>tier_step\<close> is a transaction, begin block, end
    block or a change of the external state, \<open>tier_step_if\<close> the same under a condition on the rates of the
    slashes and on the developers that change subscriptions.
    \<open>Tier_Props\<close>, \<open>Credit_Props\<close>, \<open>Stake_Props\<close>, \<open>Unlocking_Props\<close>, \<open>Tier_Epoch\<close> and \<open>Epoch_Props\<close>: totals are the
    sums of their parts, credits follow the documented formula, what each staking operation does on
    success and on error, that due unlockings are paid and no other, that timers catch up with
    block time, and that the begin blocker with the tier hooks installed refines a timer specification.
    \<open>Demo_Chain\<close> is the concrete chain of the witnesses.
  \<^item> \<open>Orbis_Types\<close> models the data, validation, identifiers and signatures of \<open>x/orbis\<close>, \<open>Orbis_Codec\<close> the
    canonical encoding of reports and all evidence decoders of \<open>report.go\<close>, \<open>Orbis_Keeper\<close> the stores,
    \<open>Orbis_Msgs\<close> the messages, \<open>Orbis_Reports\<close> reports, genesis, \<open>ValidateBasic\<close> and the transactions
    (\<open>orbis_step\<close>, \<open>orbis_run\<close>, \<open>orbis_reachable\<close>). \<open>Orbis_Frames\<close>, \<open>Orbis_Rings\<close>, \<open>Orbis_Ring_Inv\<close> and \<open>Orbis_Dedupe\<close>
    prove once what every message keeps. \<open>Orbis_Props\<close>, \<open>Orbis_Report_Props\<close> and \<open>Orbis_Accept_Props\<close>: rings
    are well formed, finalized only by all peers and changed only by a signed reshare, protocol versions
    never decrease, accepted reports are not replayed, valid ones are accepted. \<open>Orbis_Demo\<close> is the ring of
    the witnesses.
  \<^item> \<open>Core_Keeper\<close> models \<open>x/core\<close>: \<open>jws_token.go\<close>, \<open>ica_connection.go\<close>, \<open>chain_config.go\<close>, keys, messages, end
    blocker, genesis and runs (\<open>core_step\<close>, \<open>core_reachable\<close>). \<open>Core_Inv\<close>: the two indexes agree with the
    tokens, and tokens only change in the ways the registry allows. \<open>Core_Props\<close>: lookups are exact,
    revocation is final, the end blocker expires exactly the due tokens, genesis round trip and the
    state whose export cannot be imported.
  \<^item> \<open>Ante_Handler\<close> models \<open>app/ante\<close>: \<open>extension.go\<close>, \<open>extension_utils.go\<close>, \<open>fee.go\<close>, \<open>reject_legacy.go\<close>, \<open>panic.go\<close> and
    the chain of \<open>ante.go\<close>. \<open>Ante_Props\<close>: what an accepted token guarantees, who may be charged a fee, the
    minimal fee, and that a revoked token passes with a space in front of it.
  \<^item> \<open>Bulletin\<close> models \<open>x/bulletin\<close>: stores, keys, the policy, messages, genesis and runs (\<open>bul_step\<close>,
    \<open>bul_reachable\<close>). \<open>Bulletin_Props\<close>: when a post is created, that posts, owners and the policy are
    permanent, what the listing of a namespace contains, and namespaces that share their keys.

  \<^bold>\<open>Interfaces.\<close> \<open>key_codec\<close> (key builders and parsers), \<open>fee_allowance\<close> (the contract of an allowance),
  \<open>stake_invariant\<close> and \<open>tier_invariant\<close> (a predicate that the writers of a store keep is kept by every step, if
  need be only for slashes with certain rates and subscriptions of certain developers),
  \<open>wire_format\<close> (what is written is read back), \<open>ring_property\<close>, \<open>resharing_ring_property\<close> and \<open>ring_invariant\<close>
  (a fact about one ring, or about all rings, that the writers of rings keep), \<open>codec_spec\<close> (the laws of the
  SDK codec), \<open>token_index\<close> (an index of the token store, instantiated by issuer and by account) and \<open>core_env\<close>
  (the core module over a lawful codec) are locales; each is
  interpreted on the definitions of the modules, and the properties use these interpretations.

  \<^bold>\<open>Loops and bounds.\<close> Every loop of the modelled code walks a list or a store and is a structural recursion,
  so no fuel is needed and every definition is total. Premises such as \<open>blockSeconds c < 2 ^ 64\<close> keep the
  casts of block times to \<open>uint64\<close> exact; block times are seconds since 1970, far below the bound.

  \<^bold>\<open>Not modelled.\<close> The policy engine of \<open>x/acp\<close> is the third-party package \<open>acp_core\<close>; the modules reach it
  through parameters (create a policy, run a policy command, verify an access request), and the
  handlers of \<open>x/acp\<close> around that package are not modelled. In \<open>app/ante\<close> the decorators that come from the
  SDK are parameters that get the rest of the chain as continuation, and so are JSON, JWS parsing and signature verification. The Jubjub verifier of
  \<open>x/orbis\<close> is a compiled WebAssembly module and a parameter too. Log lines, gauges, gas, gRPC gateways,
  command lines, module wiring, the client library and the faucet do not change the state of a module.
  The error values keep the sentinel error and drop the message text.
\<close>

end
